(* ===== verification/Prelude.thy ===== *)
theory Prelude
  imports Complex_Main
begin

text \<open>
  Shared notation-free vocabulary of the development.

  \<^item> Fallible computations: a value of \<open>'e + 'a\<close> is either the exception that was
    raised (\<open>Inl\<close>) or the result (\<open>Inr\<close>); \<open>bindE\<close> is the sequencing of two such
    computations and \<open>guardE\<close> the \<open>if not c: raise e\<close> idiom.
  \<^item> Stateful fallible computations: \<open>('s, 'e, 'a) sm\<close> takes a state and gives the
    outcome together with the state left behind, whichever way it ended (an exception
    does not undo the writes that preceded it; undoing is an explicit rollback).
  \<^item> The frame predicate \<open>preserves\<close> with one introduction rule per combinator in the
    collection \<open>pres\<close>, so that an invariant of a long handler is proved statement by
    statement.
  \<^item> The exceptions a computation may raise: \<open>raises_only P\<close>, with the rules in \<open>raises\<close>.
  \<^item> Tables: a database table is the list of its rows. \<open>upd\<close> is \<open>UPDATE .. WHERE\<close>,
    \<open>rowcount\<close> the number of rows a \<open>WHERE\<close> clause matches.
  \<^item> Money: exact decimals are rationals; \<open>quantize\<close> is \<open>Decimal.quantize\<close> with
    \<open>ROUND_HALF_UP\<close>.
\<close>

named_theorems pres "introduction rules for preserved invariants"
named_theorems act_defs "definitions of the stateful combinators"
named_theorems raises "introduction rules for the exceptions a computation may raise"
named_theorems tbl "rewriting of table operations"

subsection \<open>Fallible computations\<close>

primrec bindE :: "'e + 'a \<Rightarrow> ('a \<Rightarrow> 'e + 'b) \<Rightarrow> 'e + 'b" where
  "bindE (Inl e) f = Inl e"
| "bindE (Inr x) f = f x"

definition guardE :: "bool \<Rightarrow> 'e \<Rightarrow> 'e + unit" where
  "guardE c e = (if c then Inr () else Inl e)"

definition the_orE :: "'a option \<Rightarrow> 'e \<Rightarrow> 'e + 'a" where
  "the_orE x e = (case x of None \<Rightarrow> Inl e | Some y \<Rightarrow> Inr y)"

lemma bindE_Inr: "bindE m f = Inr y \<longleftrightarrow> (\<exists>x. m = Inr x \<and> f x = Inr y)"
  by (cases m) auto

lemma bindE_Inl: "bindE m f = Inl e \<longleftrightarrow> m = Inl e \<or> (\<exists>x. m = Inr x \<and> f x = Inl e)"
  by (cases m) auto

lemma guardE_Inr [simp]: "guardE c e = Inr u \<longleftrightarrow> c"
  by (simp add: guardE_def)

lemma guardE_Inl [simp]: "guardE c e = Inl e' \<longleftrightarrow> \<not> c \<and> e' = e"
  by (auto simp: guardE_def)

lemma guardE_True [simp]: "guardE True e = Inr ()"
  by (simp add: guardE_def)

lemma guardE_False [simp]: "guardE False e = Inl e"
  by (simp add: guardE_def)

lemma the_orE_Inr [simp]: "the_orE x e = Inr y \<longleftrightarrow> x = Some y"
  by (auto simp: the_orE_def split: option.splits)

lemma the_orE_Inl [simp]: "the_orE x e = Inl e' \<longleftrightarrow> x = None \<and> e' = e"
  by (auto simp: the_orE_def split: option.splits)

lemma the_orE_Some [simp]: "the_orE (Some y) e = Inr y"
  by (simp add: the_orE_def)

lemma the_orE_None [simp]: "the_orE None e = Inl e"
  by (simp add: the_orE_def)

text \<open>A loop that stops at the first exception and collects the results.\<close>

fun mapE :: "('a \<Rightarrow> 'e + 'b) \<Rightarrow> 'a list \<Rightarrow> 'e + 'b list" where
  "mapE f [] = Inr []"
| "mapE f (x # xs) = bindE (f x) (\<lambda>y. bindE (mapE f xs) (\<lambda>ys. Inr (y # ys)))"

subsection \<open>Stateful fallible computations\<close>

type_synonym ('s, 'e, 'a) sm = "'s \<Rightarrow> ('e + 'a) \<times> 's"

definition ret :: "'a \<Rightarrow> ('s, 'e, 'a) sm" where
  "ret x = (\<lambda>s. (Inr x, s))"

definition throw :: "'e \<Rightarrow> ('s, 'e, 'a) sm" where
  "throw e = (\<lambda>s. (Inl e, s))"

definition bindM :: "('s, 'e, 'a) sm \<Rightarrow> ('a \<Rightarrow> ('s, 'e, 'b) sm) \<Rightarrow> ('s, 'e, 'b) sm" where
  "bindM m f = (\<lambda>s. case m s of (Inl e, s') \<Rightarrow> (Inl e, s') | (Inr x, s') \<Rightarrow> f x s')"

definition liftE :: "'e + 'a \<Rightarrow> ('s, 'e, 'a) sm" where
  "liftE r = (\<lambda>s. (r, s))"

definition gets :: "('s \<Rightarrow> 'a) \<Rightarrow> ('s, 'e, 'a) sm" where
  "gets f = (\<lambda>s. (Inr (f s), s))"

definition getsE :: "('s \<Rightarrow> 'e + 'a) \<Rightarrow> ('s, 'e, 'a) sm" where
  "getsE f = (\<lambda>s. (f s, s))"

definition modify :: "('s \<Rightarrow> 's) \<Rightarrow> ('s, 'e, unit) sm" where
  "modify g = (\<lambda>s. (Inr (), g s))"

definition whenM :: "bool \<Rightarrow> ('s, 'e, unit) sm \<Rightarrow> ('s, 'e, unit) sm" where
  "whenM c m = (if c then m else ret ())"

text \<open>\<open>try: m except e: h e\<close>, for the exceptions the handler names.\<close>

definition catchM :: "('s, 'e, 'a) sm \<Rightarrow> ('e \<Rightarrow> bool) \<Rightarrow> ('e \<Rightarrow> ('s, 'e, 'a) sm) \<Rightarrow> ('s, 'e, 'a) sm" where
  "catchM m p h = (\<lambda>s. case m s of
      (Inl e, s') \<Rightarrow> (if p e then h e s' else (Inl e, s'))
    | (Inr x, s') \<Rightarrow> (Inr x, s'))"

fun forEach :: "'a list \<Rightarrow> ('a \<Rightarrow> ('s, 'e, unit) sm) \<Rightarrow> ('s, 'e, unit) sm" where
  "forEach [] f = ret ()"
| "forEach (x # xs) f = bindM (f x) (\<lambda>_. forEach xs f)"

fun mapM :: "('a \<Rightarrow> ('s, 'e, 'b) sm) \<Rightarrow> 'a list \<Rightarrow> ('s, 'e, 'b list) sm" where
  "mapM f [] = ret []"
| "mapM f (x # xs) = bindM (f x) (\<lambda>y. bindM (mapM f xs) (\<lambda>ys. ret (y # ys)))"

lemmas [act_defs] = ret_def throw_def bindM_def liftE_def gets_def getsE_def modify_def
  whenM_def catchM_def

text \<open>Evaluation of one step when the state is supplied: the rules every proof runs on.\<close>

lemma ret_app [simp]: "ret x s = (Inr x, s)"
  by (simp add: ret_def)

lemma throw_app [simp]: "throw e s = (Inl e, s)"
  by (simp add: throw_def)

lemma liftE_app [simp]: "liftE r s = (r, s)"
  by (simp add: liftE_def)

lemma gets_app [simp]: "gets f s = (Inr (f s), s)"
  by (simp add: gets_def)

lemma getsE_app [simp]: "getsE f s = (f s, s)"
  by (simp add: getsE_def)

lemma modify_app [simp]: "modify g s = (Inr (), g s)"
  by (simp add: modify_def)

lemma whenM_app [simp]: "whenM c m s = (if c then m s else (Inr (), s))"
  by (simp add: whenM_def)

lemma bindM_app: "bindM m f s = (case m s of (Inl e, s') \<Rightarrow> (Inl e, s') | (Inr x, s') \<Rightarrow> f x s')"
  by (simp add: bindM_def)

lemma bindM_step [simp]:
  "bindM (ret x) f s = f x s"
  "bindM (throw e) g s = (Inl e, s)"
  "bindM (gets h) f s = f (h s) s"
  "bindM (modify k) f' s = f' () (k s)"
  by (simp_all add: bindM_def)

lemma bindM_Inr:
  "bindM m f s = (Inr y, s') \<longleftrightarrow> (\<exists>x s1. m s = (Inr x, s1) \<and> f x s1 = (Inr y, s'))"
  by (auto simp: bindM_def split: prod.splits sum.splits)

lemma bindM_Inl:
  "bindM m f s = (Inl e, s') \<longleftrightarrow>
    m s = (Inl e, s') \<or> (\<exists>x s1. m s = (Inr x, s1) \<and> f x s1 = (Inl e, s'))"
  by (auto simp: bindM_def split: prod.splits sum.splits)

lemma bindM_okI: "m s = (Inr x, s1) \<Longrightarrow> bindM m f s = f x s1"
  by (simp add: bindM_def)

lemma bindM_errI: "m s = (Inl e, s1) \<Longrightarrow> bindM m f s = (Inl e, s1)"
  by (simp add: bindM_def)

subsection \<open>Preserved invariants\<close>

text \<open>The invariant holds in the state left behind, whether the computation returned or raised.\<close>

definition preserves :: "('s \<Rightarrow> bool) \<Rightarrow> ('s, 'e, 'a) sm \<Rightarrow> bool" where
  "preserves I m \<longleftrightarrow> (\<forall>s. I s \<longrightarrow> I (snd (m s)))"

lemma preservesI: "(\<And>s r s'. I s \<Longrightarrow> m s = (r, s') \<Longrightarrow> I s') \<Longrightarrow> preserves I m"
  unfolding preserves_def by (metis prod.collapse)

lemma preservesD: "preserves I m \<Longrightarrow> m s = (r, s') \<Longrightarrow> I s \<Longrightarrow> I s'"
  unfolding preserves_def by (metis snd_conv)

lemma preserves_ret [pres]: "preserves I (ret x)"
  by (simp add: preserves_def)

lemma preserves_throw [pres]: "preserves I (throw e)"
  by (simp add: preserves_def)

lemma preserves_liftE [pres]: "preserves I (liftE r)"
  by (simp add: preserves_def)

lemma preserves_gets [pres]: "preserves I (gets f)"
  by (simp add: preserves_def)

lemma preserves_getsE [pres]: "preserves I (getsE f)"
  by (simp add: preserves_def)

lemma preserves_modify [pres]: "(\<And>s. I s \<Longrightarrow> I (g s)) \<Longrightarrow> preserves I (modify g)"
  by (simp add: preserves_def)

lemma preserves_bindM [pres]:
  "preserves I m \<Longrightarrow> (\<And>x. preserves I (f x)) \<Longrightarrow> preserves I (bindM m f)"
  by (rule preservesI) (auto simp: bindM_app dest: preservesD split: prod.splits sum.splits)

lemma preserves_whenM [pres]: "(c \<Longrightarrow> preserves I m) \<Longrightarrow> preserves I (whenM c m)"
  by (simp add: whenM_def preserves_ret)

lemma preserves_catchM [pres]:
  "preserves I m \<Longrightarrow> (\<And>e. p e \<Longrightarrow> preserves I (h e)) \<Longrightarrow> preserves I (catchM m p h)"
  by (rule preservesI)
    (auto simp: catchM_def dest: preservesD split: prod.splits sum.splits if_splits)

lemma preserves_forEach [pres]:
  "(\<And>x. x \<in> set xs \<Longrightarrow> preserves I (f x)) \<Longrightarrow> preserves I (forEach xs f)"
  by (induction xs) (auto intro!: pres)

lemma preserves_mapM [pres]:
  "(\<And>x. x \<in> set xs \<Longrightarrow> preserves I (f x)) \<Longrightarrow> preserves I (mapM f xs)"
  by (induction xs) (auto intro!: pres)

lemma preserves_if [pres]:
  "(c \<Longrightarrow> preserves I m) \<Longrightarrow> (\<not> c \<Longrightarrow> preserves I n) \<Longrightarrow> preserves I (if c then m else n)"
  by simp

lemma preserves_case_prod [pres]:
  "(\<And>a b. preserves I (f a b)) \<Longrightarrow> preserves I (case p of (a, b) \<Rightarrow> f a b)"
  by (cases p) simp

lemma preserves_case_option [pres]:
  "(preserves I m) \<Longrightarrow> (\<And>x. preserves I (f x)) \<Longrightarrow>
    preserves I (case v of None \<Rightarrow> m | Some x \<Rightarrow> f x)"
  by (cases v) simp_all

lemma preserves_Let [pres]: "preserves I (f t) \<Longrightarrow> preserves I (Let t f)"
  by simp

text \<open>
  A computation is read-only when it leaves the state exactly as it was.
\<close>

definition read_only :: "('s, 'e, 'a) sm \<Rightarrow> bool" where
  "read_only m \<longleftrightarrow> (\<forall>s. snd (m s) = s)"

lemma read_onlyD: "read_only m \<Longrightarrow> m s = (r, s') \<Longrightarrow> s' = s"
  unfolding read_only_def by (metis snd_conv)

lemma read_only_iff: "read_only m \<longleftrightarrow> (\<forall>s. preserves (\<lambda>t. t = s) m)"
  by (auto simp: read_only_def preserves_def)

lemma read_onlyI: "(\<And>s. preserves (\<lambda>t. t = s) m) \<Longrightarrow> read_only m"
  by (simp add: read_only_iff)

lemma preserves_read_only: "read_only m \<Longrightarrow> preserves I m"
  by (simp add: read_only_def preserves_def)

subsection \<open>Raised exceptions\<close>

definition raises_only :: "('e \<Rightarrow> bool) \<Rightarrow> ('s, 'e, 'a) sm \<Rightarrow> bool" where
  "raises_only P m \<longleftrightarrow> (\<forall>s e s'. m s = (Inl e, s') \<longrightarrow> P e)"

lemma raises_onlyD: "raises_only P m \<Longrightarrow> m s = (Inl e, s') \<Longrightarrow> P e"
  unfolding raises_only_def by blast

lemma raises_prims [raises]:
  "raises_only P (ret x)" "raises_only P (gets f)" "raises_only P (modify g)"
  "P e \<Longrightarrow> raises_only P (throw e)" "(\<And>e. r = Inl e \<Longrightarrow> P e) \<Longrightarrow> raises_only P (liftE r)"
  by (simp_all add: raises_only_def)

lemma raises_bindM [raises]:
  "raises_only P m \<Longrightarrow> (\<And>x. raises_only P (f x)) \<Longrightarrow> raises_only P (bindM m f)"
  unfolding raises_only_def bindM_Inl by blast

lemma raises_catchM:
  "raises_only P m \<Longrightarrow> (\<And>e. p e \<Longrightarrow> raises_only Q (h e)) \<Longrightarrow> (\<And>e. P e \<Longrightarrow> \<not> p e \<Longrightarrow> Q e) \<Longrightarrow>
    raises_only Q (catchM m p h)"
proof (unfold raises_only_def, intro allI impI)
  fix s e s'
  assume m: "\<forall>s e s'. m s = (Inl e, s') \<longrightarrow> P e" and h: "\<And>e. p e \<Longrightarrow> \<forall>s ea s'. h e s = (Inl ea, s') \<longrightarrow> Q ea"
    and pq: "\<And>e. P e \<Longrightarrow> \<not> p e \<Longrightarrow> Q e" and run: "catchM m p h s = (Inl e, s')"
  from run consider (handled) e' s1 where "p e'" "h e' s1 = (Inl e, s')" | (through) "m s = (Inl e, s')" "\<not> p e"
    by (auto simp: catchM_def split: prod.splits sum.splits if_splits)
  then show "Q e"
    by cases (use m h pq in blast)+
qed

lemma raises_if [raises]:
  "(c \<Longrightarrow> raises_only P m) \<Longrightarrow> (\<not> c \<Longrightarrow> raises_only P n) \<Longrightarrow> raises_only P (if c then m else n)"
  by simp

lemma raises_case_option [raises]:
  "raises_only P m \<Longrightarrow> (\<And>x. raises_only P (f x)) \<Longrightarrow> raises_only P (case v of None \<Rightarrow> m | Some x \<Rightarrow> f x)"
  by (cases v) simp_all

lemma raises_Let [raises]: "raises_only P (f t) \<Longrightarrow> raises_only P (Let t f)"
  by simp

lemma raises_weaken: "raises_only P m \<Longrightarrow> (\<And>e. P e \<Longrightarrow> Q e) \<Longrightarrow> raises_only Q m"
  unfolding raises_only_def by blast

subsection \<open>Tables as lists of rows\<close>

definition upd :: "('r \<Rightarrow> bool) \<Rightarrow> ('r \<Rightarrow> 'r) \<Rightarrow> 'r list \<Rightarrow> 'r list" where
  "upd P f rows = map (\<lambda>r. if P r then f r else r) rows"

definition rowcount :: "('r \<Rightarrow> bool) \<Rightarrow> 'r list \<Rightarrow> nat" where
  "rowcount P rows = length (filter P rows)"

lemma upd_Nil [simp, tbl]: "upd P f [] = []"
  by (simp add: upd_def)

lemma upd_Cons [simp, tbl]: "upd P f (r # rows) = (if P r then f r else r) # upd P f rows"
  by (simp add: upd_def)

lemma upd_append [tbl]: "upd P f (xs @ ys) = upd P f xs @ upd P f ys"
  by (simp add: upd_def)

lemma length_upd [simp, tbl]: "length (upd P f rows) = length rows"
  by (simp add: upd_def)

lemma set_upd: "set (upd P f rows) = (\<lambda>r. if P r then f r else r) ` set rows"
  by (simp add: upd_def)

lemma map_upd_key [tbl]:
  "(\<And>r. P r \<Longrightarrow> k (f r) = k r) \<Longrightarrow> map k (upd P f rows) = map k rows"
  by (simp add: upd_def)

lemma upd_none: "(\<And>r. r \<in> set rows \<Longrightarrow> \<not> P r) \<Longrightarrow> upd P f rows = rows"
  by (induction rows) auto

lemma rowcount_0 [simp]: "rowcount P rows = 0 \<longleftrightarrow> (\<forall>r \<in> set rows. \<not> P r)"
  by (auto simp: rowcount_def filter_empty_conv)

lemma rowcount_pos: "0 < rowcount P rows \<longleftrightarrow> (\<exists>r \<in> set rows. P r)"
  by (simp add: rowcount_def filter_empty_conv)

lemma rowcount_Nil [simp]: "rowcount P [] = 0"
  by (simp add: rowcount_def)

lemma rowcount_Cons [simp]: "rowcount P (r # rows) = (if P r then Suc (rowcount P rows) else rowcount P rows)"
  by (simp add: rowcount_def)

lemma find_upd:
  "(\<And>r. P r \<Longrightarrow> Q (f r) = Q r) \<Longrightarrow>
    find Q (upd P f rows) = map_option (\<lambda>r. if P r then f r else r) (find Q rows)"
  by (induction rows) auto

lemma find_append: "find P (xs @ ys) = (case find P xs of None \<Rightarrow> find P ys | Some r \<Rightarrow> Some r)"
  by (induction xs) auto

lemma find_SomeD: "find P xs = Some x \<Longrightarrow> x \<in> set xs \<and> P x"
  by (induction xs) (auto split: if_splits)

lemma find_key_unique:
  "distinct (map k rows) \<Longrightarrow> r \<in> set rows \<Longrightarrow> find (\<lambda>x. k x = k r) rows = Some r"
  by (induction rows) (auto simp: image_iff)

lemma distinct_keyD: "distinct (map k (r # rows)) \<Longrightarrow> x \<in> set rows \<Longrightarrow> k x \<noteq> k r"
  by (auto simp: image_iff)

lemma distinct_key_inj: "distinct (map k rows) \<Longrightarrow> x \<in> set rows \<Longrightarrow> y \<in> set rows \<Longrightarrow> k x = k y \<Longrightarrow> x = y"
  by (simp add: distinct_map inj_on_def)

text \<open>The sum over the rows a clause matches; \<open>UPDATE\<close> of one keyed row changes it by that row's change.\<close>

definition sum_where :: "('r \<Rightarrow> bool) \<Rightarrow> ('r \<Rightarrow> 'a::comm_monoid_add) \<Rightarrow> 'r list \<Rightarrow> 'a" where
  "sum_where P f rows = sum_list (map f (filter P rows))"

lemma sum_where_Nil [simp]: "sum_where P f [] = 0"
  by (simp add: sum_where_def)

lemma sum_where_Cons [simp]:
  "sum_where P f (r # rows) = (if P r then f r + sum_where P f rows else sum_where P f rows)"
  by (simp add: sum_where_def)

lemma sum_where_append [simp]:
  "sum_where P f (xs @ ys) = sum_where P f xs + sum_where P f ys"
  by (simp add: sum_where_def)

lemma sum_where_cong:
  "(\<And>r. r \<in> set rows \<Longrightarrow> P r = Q r) \<Longrightarrow> (\<And>r. r \<in> set rows \<Longrightarrow> P r \<Longrightarrow> f r = g r) \<Longrightarrow>
    sum_where P f rows = sum_where Q g rows"
  by (induction rows) auto

lemma sum_where_nonneg:
  fixes f :: "'r \<Rightarrow> 'a::ordered_comm_monoid_add"
  shows "(\<And>r. r \<in> set rows \<Longrightarrow> P r \<Longrightarrow> 0 \<le> f r) \<Longrightarrow> 0 \<le> sum_where P f rows"
  by (induction rows) (auto intro: add_nonneg_nonneg)

subsection \<open>Batches\<close>

text \<open>\<open>for start in range(0, len(rows), n)\<close>: the chunks of a list.\<close>

function batches :: "nat \<Rightarrow> 'a list \<Rightarrow> 'a list list" where
  "batches n xs = (if xs = [] \<or> n = 0 then [] else take n xs # batches n (drop n xs))"
  by pat_completeness auto

termination
  by (relation "measure (\<lambda>(n, xs). length xs)") auto

declare batches.simps [simp del]

lemma batches_concat: "0 < n \<Longrightarrow> concat (batches n xs) = xs \<and> (\<forall>b \<in> set (batches n xs). b \<noteq> [] \<and> length b \<le> n)"
proof (induction n xs rule: batches.induct)
  case (1 n xs)
  show ?case
  proof (cases "xs = []")
    case True
    then show ?thesis by (simp add: batches.simps)
  next
    case False
    with 1 have IH: "concat (batches n (drop n xs)) = drop n xs \<and> (\<forall>b \<in> set (batches n (drop n xs)). b \<noteq> [] \<and> length b \<le> n)"
      by simp
    have "batches n xs = take n xs # batches n (drop n xs)" using False 1(2) by (subst batches.simps) simp
    with IH False 1(2) show ?thesis by simp
  qed
qed

subsection \<open>Exact decimals\<close>

type_synonym money = rat

definition quantize :: "nat \<Rightarrow> rat \<Rightarrow> rat" where
  "quantize n x =
    (if x < 0 then - (of_int \<lfloor>- x * 10 ^ n + 1 / 2\<rfloor> / 10 ^ n)
     else of_int \<lfloor>x * 10 ^ n + 1 / 2\<rfloor> / 10 ^ n)"

lemma quantize_nonneg: "0 \<le> x \<Longrightarrow> 0 \<le> quantize n x"
  by (simp add: quantize_def)

lemma quantize_int: "\<exists>k :: int. quantize 0 x = of_int k"
proof (cases "x < 0")
  case True
  then have "quantize 0 x = of_int (- \<lfloor>- x + 1 / 2\<rfloor>)" by (simp add: quantize_def)
  then show ?thesis by blast
next
  case False
  then show ?thesis by (auto simp: quantize_def)
qed

lemma quantize_error: "\<bar>quantize n x - x\<bar> \<le> 1 / (2 * 10 ^ n)"
proof -
  have pos: "(0 :: rat) < 10 ^ n" by simp
  have half: "\<bar>of_int \<lfloor>y * 10 ^ n + 1 / 2\<rfloor> / 10 ^ n - y\<bar> \<le> 1 / (2 * 10 ^ n)" for y :: rat
  proof -
    define f where "f = (of_int \<lfloor>y * 10 ^ n + 1 / 2\<rfloor> :: rat)"
    have "\<bar>f - y * 10 ^ n\<bar> \<le> 1 / 2"
      unfolding f_def by linarith
    then have "\<bar>f - y * 10 ^ n\<bar> / 10 ^ n \<le> (1 / 2) / 10 ^ n"
      using pos by (intro divide_right_mono) auto
    moreover have "\<bar>f - y * 10 ^ n\<bar> / 10 ^ n = \<bar>f / 10 ^ n - y\<bar>"
    proof -
      have "f / 10 ^ n - y = (f - y * 10 ^ n) / 10 ^ n"
        using pos by (simp add: diff_divide_distrib)
      then show ?thesis using pos by (simp add: abs_divide)
    qed
    ultimately show ?thesis by (simp add: f_def)
  qed
  show ?thesis
  proof (cases "x < 0")
    case True
    then have "quantize n x - x = - (of_int \<lfloor>(- x) * 10 ^ n + 1 / 2\<rfloor> / 10 ^ n - (- x))"
      by (simp add: quantize_def)
    then show ?thesis using half [of "- x"] by (metis abs_minus_cancel)
  next
    case False
    then show ?thesis using half [of x] by (simp add: quantize_def)
  qed
qed

end
