(* ===== verification/PyText.thy ===== *)
theory PyText
  imports Prelude
begin

text \<open>
  The Python string operations the modelled code uses, over HOL strings. A HOL \<open>char\<close> is
  one of 256 code points, read here as the Unicode code points 0 to 255 (Latin-1), for which
  \<open>lower\<close>, \<open>strip\<close>, \<open>isdigit\<close>, \<open>split\<close> and \<open>join\<close> are exactly Python's; code points beyond
  that range are outside the model. Decimal rendering (\<open>str(int)\<close>, zero padding) is proved
  injective, which the uniqueness of order numbers rests on.
\<close>

subsection \<open>Case, white space, digits\<close>

definition lower_char :: "char \<Rightarrow> char" where
  "lower_char c =
    (let n = of_char c :: nat in
      if 65 \<le> n \<and> n \<le> 90 \<or> 192 \<le> n \<and> n \<le> 222 \<and> n \<noteq> 215 then char_of (n + 32) else c)"

definition lower :: "string \<Rightarrow> string" where
  "lower = map lower_char"

definition is_space :: "char \<Rightarrow> bool" where
  "is_space c =
    (let n = of_char c :: nat in
      9 \<le> n \<and> n \<le> 13 \<or> 28 \<le> n \<and> n \<le> 32 \<or> n = 133 \<or> n = 160)"

definition lstrip :: "string \<Rightarrow> string" where
  "lstrip = dropWhile is_space"

definition strip :: "string \<Rightarrow> string" where
  "strip s = rev (lstrip (rev (lstrip s)))"

definition rstrip_char :: "char \<Rightarrow> string \<Rightarrow> string" where
  "rstrip_char c s = rev (dropWhile (\<lambda>x. x = c) (rev s))"

text \<open>Python's \<open>isdigit\<close> also accepts the superscripts two, three and one of Latin-1.\<close>

definition isdigit :: "char \<Rightarrow> bool" where
  "isdigit c =
    (let n = of_char c :: nat in 48 \<le> n \<and> n \<le> 57 \<or> n = 178 \<or> n = 179 \<or> n = 185)"

subsection \<open>Splitting and joining\<close>

fun split_on :: "char \<Rightarrow> string \<Rightarrow> string list" where
  "split_on c [] = [[]]"
| "split_on c (x # xs) =
    (if x = c then [] # split_on c xs
     else (case split_on c xs of [] \<Rightarrow> [[x]] | w # ws \<Rightarrow> (x # w) # ws))"

text \<open>\<open>s.split(c, 1)[0]\<close>: everything before the first separator.\<close>

definition before :: "char \<Rightarrow> string \<Rightarrow> string" where
  "before c s = takeWhile (\<lambda>x. x \<noteq> c) s"

fun join :: "string \<Rightarrow> string list \<Rightarrow> string" where
  "join sep [] = []"
| "join sep [w] = w"
| "join sep (w # v # ws) = w @ sep @ join sep (v # ws)"

lemma split_on_nonempty [simp]: "split_on c s \<noteq> []"
  by (cases s) (auto split: list.splits)

lemma split_on_no_sep: "c \<notin> set s \<Longrightarrow> split_on c s = [s]"
  by (induction s) auto

lemma split_on_parts: "w \<in> set (split_on c s) \<Longrightarrow> c \<notin> set w"
  by (induction s arbitrary: w) (auto split: list.splits if_splits)

lemma split_on_join_step:
  "c \<notin> set w \<Longrightarrow> split_on c (w @ c # s) = w # split_on c s"
  by (induction w) auto

lemma split_join:
  "ws \<noteq> [] \<Longrightarrow> \<forall>w \<in> set ws. c \<notin> set w \<Longrightarrow> split_on c (join [c] ws) = ws"
proof (induction "[c]" ws rule: join.induct)
  case (3 w v ws)
  then show ?case by (simp add: split_on_join_step)
qed (auto simp: split_on_no_sep)

lemma join_split: "join [c] (split_on c s) = s"
proof (induction s)
  case (Cons x xs)
  obtain w ws where w: "split_on c xs = w # ws"
    using split_on_nonempty by (meson neq_Nil_conv)
  show ?case
  proof (cases "x = c")
    case True
    with Cons w show ?thesis by simp
  next
    case False
    with Cons w show ?thesis by (cases ws) auto
  qed
qed simp

subsection \<open>Integers as decimal text\<close>

definition digit_char :: "nat \<Rightarrow> char" where
  "digit_char d = char_of (48 + d)"

fun nat_str :: "nat \<Rightarrow> string" where
  "nat_str n = (if n < 10 then [digit_char n] else nat_str (n div 10) @ [digit_char (n mod 10)])"

declare nat_str.simps [simp del]

definition int_str :: "int \<Rightarrow> string" where
  "int_str i = (if i < 0 then CHR ''-'' # nat_str (nat (- i)) else nat_str (nat i))"

text \<open>\<open>f"{n:0{w}d}"\<close> for a non-negative \<open>n\<close>: the decimal text padded on the left with zeros.\<close>

definition zero_pad :: "nat \<Rightarrow> string \<Rightarrow> string" where
  "zero_pad w s = replicate (w - length s) CHR ''0'' @ s"

text \<open>The value a digit string denotes; reads back what \<open>nat_str\<close> and padding produce.\<close>

definition digit_val :: "char \<Rightarrow> nat" where
  "digit_val c = of_char c - 48"

definition str_val :: "string \<Rightarrow> nat" where
  "str_val s = foldl (\<lambda>acc c. 10 * acc + digit_val c) 0 s"

lemma digit_val_digit_char [simp]: "d < 10 \<Longrightarrow> digit_val (digit_char d) = d"
  by (simp add: digit_val_def digit_char_def)

lemma str_val_snoc [simp]: "str_val (s @ [c]) = 10 * str_val s + digit_val c"
  by (simp add: str_val_def)

lemma str_val_nat_str [simp]: "str_val (nat_str n) = n"
proof (induction n rule: nat_str.induct)
  case (1 n)
  show ?case
  proof (cases "n < 10")
    case True
    then show ?thesis by (simp add: nat_str.simps [of n] str_val_def)
  next
    case False
    then have "str_val (nat_str n) = 10 * (n div 10) + n mod 10"
      using "1.IH" by (simp add: nat_str.simps [of n])
    then show ?thesis by simp
  qed
qed

lemma nat_str_inject [simp]: "nat_str m = nat_str n \<longleftrightarrow> m = n"
  by (metis str_val_nat_str)

lemma str_val_zeros: "str_val (replicate k CHR ''0'' @ s) = str_val s"
proof -
  have "foldl (\<lambda>acc c. 10 * acc + digit_val c) 0 (replicate k CHR ''0'') = 0"
    by (induction k) (auto simp: digit_val_def)
  then show ?thesis by (simp add: str_val_def)
qed

lemma str_val_zero_pad [simp]: "str_val (zero_pad w s) = str_val s"
  by (simp add: zero_pad_def str_val_zeros)

lemma digit_char_range: "d < 10 \<Longrightarrow> isdigit (digit_char d) \<and> digit_char d \<noteq> CHR ''-''"
proof -
  assume d: "d < 10"
  have "of_char (digit_char d) = (48 + d :: nat)"
    using d by (simp add: digit_char_def)
  then show ?thesis using d by (auto simp: isdigit_def)
qed

lemma nat_str_digits: "c \<in> set (nat_str n) \<Longrightarrow> isdigit c \<and> c \<noteq> CHR ''-''"
proof (induction n rule: nat_str.induct)
  case (1 n)
  then show ?case
    using digit_char_range by (cases "n < 10") (auto simp: nat_str.simps [of n])
qed

lemma zero_pad_digits: "c \<in> set (zero_pad w (nat_str n)) \<Longrightarrow> c \<noteq> CHR ''-''"
  by (auto simp: zero_pad_def dest: nat_str_digits)

lemma length_zero_pad: "w \<le> length (zero_pad w s)"
  by (simp add: zero_pad_def)

subsection \<open>Truthiness\<close>

text \<open>\<open>if s\<close> and \<open>s or d\<close> for an optional string: \<open>None\<close> and the empty string are false.\<close>

definition truthy :: "string option \<Rightarrow> bool" where
  "truthy s = (case s of None \<Rightarrow> False | Some t \<Rightarrow> t \<noteq> [])"

definition str_or :: "string option \<Rightarrow> string \<Rightarrow> string" where
  "str_or s d = (case s of None \<Rightarrow> d | Some t \<Rightarrow> if t = [] then d else t)"

text \<open>\<open>n or d\<close> for an optional integer: \<open>None\<close> and zero are false.\<close>

definition int_or :: "int option \<Rightarrow> int \<Rightarrow> int" where
  "int_or n d = (case n of None \<Rightarrow> d | Some k \<Rightarrow> if k = 0 then d else k)"

lemma truthy_simps [simp]:
  "truthy None = False" "truthy (Some s) = (s \<noteq> [])"
  by (simp_all add: truthy_def)

end
