(* ===== verification/Errors.thy ===== *)
theory Errors
  imports PyText
begin

text \<open>
  The exceptions of the modelled services and the unified error envelope
  (\<open>app/core/errors.py\<close>). One constructor per leaf exception class, with the data the class
  carries; \<open>status_code\<close> and \<open>err_code\<close> are the class attributes the \<open>DomainError\<close> handler
  reads. \<open>InvalidTokenError\<close>, \<open>MaibError\<close> and \<open>NovaPostError\<close> are plain exceptions, not domain errors;
  \<open>MultipleResultsFound\<close> and \<open>IntegrityError\<close> are what SQLAlchemy raises, \<open>PyError\<close> a built-in
  exception of Python by its name; no handler names them, so they end in the generic 500 envelope.
\<close>

datatype exn =
  \<comment> \<open>checkout\_service\<close>
    EmptyCartError
  | DeliveryAddressRequiredError
  | DeliveryAddressForbiddenError
  | InvalidDeliveryMethodError string string
  | CarrierDisabledError
  | CarrierDestinationRequiredError
  | CarrierRecipientRequiredError
  | DeliveryQuoteUnavailableError
  | OutOfStockError int
  | ProductNotFoundError int
  \<comment> \<open>order\_service\<close>
  | IllegalTransitionError string string string
  | WaybillCancelFailedError
  | OrderNotFoundError string
  \<comment> \<open>promo\_service\<close>
  | PromoInvalidError string
  | PromoExpiredError
  | PromoMinOrderError string
  | PromoUsageLimitError
  | PromoNotFoundError int
  | PromoConflictError string
  | PromoValidationError string
  \<comment> \<open>cart\_service\<close>
  | ProductNotAvailableError string
  | ItemNotFoundError string
  \<comment> \<open>payment\_service\<close>
  | CardPaymentDisabledError
  | PaymentNotFoundError
  | RefundNotAllowedError
  \<comment> \<open>admin\_order\_service\<close>
  | WaybillExistsError string
  | WaybillMissingError string
  | CarrierUnavailableError string
  \<comment> \<open>restock\_service\<close>
  | RestockNotFoundError int
  | ProductInStockError int
  | RestockUnsupportedError int
  \<comment> \<open>review\_service\<close>
  | ReviewNotFoundError int
  | ReviewForbiddenError
  | ReviewInvalidCursorError
  \<comment> \<open>catalog\_service\<close>
  | CatalogNotFoundError string
  | PublicationError int
  | CatalogInvalidCursorError
  \<comment> \<open>admin\_catalog\_service\<close>
  | AdminNotFoundError string
  | AdminConflictError string
  | AdminValidationError string
  \<comment> \<open>banner\_service, content\_page\_service, admin\_settings\_service\<close>
  | BannerNotFoundError string
  | ContentPageNotFoundError string
  | ContentPageConflictError string
  | StaffNotFoundError int
  | StaffConflictError
  \<comment> \<open>support\_service\<close>
  | ConversationNotFoundError int
  | CannedNotFoundError int
  | SupportOrderNotFoundError
  \<comment> \<open>admin\_customer\_service\<close>
  | CustomerNotFoundError int
  \<comment> \<open>not domain errors\<close>
  | InvalidTokenError
  | MaibError string
  | NovaPostError string
  | MultipleResultsFound
  | IntegrityError string
  | PyError string
  \<comment> \<open>\<open>HTTPException\<close>: status and, when \<open>detail\<close> is a dict carrying one, its code\<close>
  | HTTPException int "string option"

text \<open>\<open>DomainError.status_code\<close> of each class; \<open>None\<close> for an exception that is not one.\<close>

fun status_code :: "exn \<Rightarrow> int option" where
  "status_code EmptyCartError = Some 400"
| "status_code DeliveryAddressRequiredError = Some 422"
| "status_code DeliveryAddressForbiddenError = Some 403"
| "status_code (InvalidDeliveryMethodError _ _) = Some 422"
| "status_code CarrierDisabledError = Some 400"
| "status_code CarrierDestinationRequiredError = Some 422"
| "status_code CarrierRecipientRequiredError = Some 422"
| "status_code DeliveryQuoteUnavailableError = Some 502"
| "status_code (OutOfStockError _) = Some 409"
| "status_code (ProductNotFoundError _) = Some 404"
| "status_code (IllegalTransitionError _ _ _) = Some 409"
| "status_code WaybillCancelFailedError = Some 502"
| "status_code (OrderNotFoundError _) = Some 404"
| "status_code (PromoInvalidError _) = Some 404"
| "status_code PromoExpiredError = Some 400"
| "status_code (PromoMinOrderError _) = Some 400"
| "status_code PromoUsageLimitError = Some 409"
| "status_code (PromoNotFoundError _) = Some 404"
| "status_code (PromoConflictError _) = Some 409"
| "status_code (PromoValidationError _) = Some 422"
| "status_code (ProductNotAvailableError _) = Some 404"
| "status_code (ItemNotFoundError _) = Some 404"
| "status_code CardPaymentDisabledError = Some 400"
| "status_code PaymentNotFoundError = Some 404"
| "status_code RefundNotAllowedError = Some 409"
| "status_code (WaybillExistsError _) = Some 409"
| "status_code (WaybillMissingError _) = Some 404"
| "status_code (CarrierUnavailableError _) = Some 502"
| "status_code (RestockNotFoundError _) = Some 404"
| "status_code (ProductInStockError _) = Some 400"
| "status_code (RestockUnsupportedError _) = Some 400"
| "status_code (ReviewNotFoundError _) = Some 404"
| "status_code ReviewForbiddenError = Some 403"
| "status_code ReviewInvalidCursorError = Some 400"
| "status_code (CatalogNotFoundError _) = Some 404"
| "status_code (PublicationError _) = Some 409"
| "status_code CatalogInvalidCursorError = Some 400"
| "status_code (AdminNotFoundError _) = Some 404"
| "status_code (AdminConflictError _) = Some 409"
| "status_code (AdminValidationError _) = Some 400"
| "status_code (BannerNotFoundError _) = Some 404"
| "status_code (ContentPageNotFoundError _) = Some 404"
| "status_code (ContentPageConflictError _) = Some 409"
| "status_code (StaffNotFoundError _) = Some 404"
| "status_code StaffConflictError = Some 409"
| "status_code (ConversationNotFoundError _) = Some 404"
| "status_code (CannedNotFoundError _) = Some 404"
| "status_code SupportOrderNotFoundError = Some 404"
| "status_code (CustomerNotFoundError _) = Some 404"
| "status_code InvalidTokenError = None"
| "status_code (MaibError _) = None"
| "status_code (NovaPostError _) = None"
| "status_code MultipleResultsFound = None"
| "status_code (IntegrityError _) = None"
| "status_code (PyError _) = None"
| "status_code (HTTPException _ _) = None"

fun err_code :: "exn \<Rightarrow> string" where
  "err_code EmptyCartError = ''empty_cart''"
| "err_code DeliveryAddressRequiredError = ''delivery_address_required''"
| "err_code DeliveryAddressForbiddenError = ''delivery_address_forbidden''"
| "err_code (InvalidDeliveryMethodError _ _) = ''invalid_delivery_method''"
| "err_code CarrierDisabledError = ''novapost_disabled''"
| "err_code CarrierDestinationRequiredError = ''novapost_destination_required''"
| "err_code CarrierRecipientRequiredError = ''novapost_recipient_required''"
| "err_code DeliveryQuoteUnavailableError = ''delivery_quote_unavailable''"
| "err_code (OutOfStockError _) = ''out_of_stock''"
| "err_code (ProductNotFoundError _) = ''product_not_found''"
| "err_code (IllegalTransitionError _ _ _) = ''illegal_transition''"
| "err_code WaybillCancelFailedError = ''waybill_cancel_failed''"
| "err_code (OrderNotFoundError _) = ''order_not_found''"
| "err_code (PromoInvalidError _) = ''promo_invalid''"
| "err_code PromoExpiredError = ''promo_expired''"
| "err_code (PromoMinOrderError _) = ''promo_min_order''"
| "err_code PromoUsageLimitError = ''promo_usage_limit''"
| "err_code (PromoNotFoundError _) = ''not_found''"
| "err_code (PromoConflictError _) = ''conflict''"
| "err_code (PromoValidationError _) = ''validation_error''"
| "err_code (ProductNotAvailableError _) = ''product_not_available''"
| "err_code (ItemNotFoundError _) = ''item_not_found''"
| "err_code CardPaymentDisabledError = ''card_payment_disabled''"
| "err_code PaymentNotFoundError = ''payment_not_found''"
| "err_code RefundNotAllowedError = ''refund_not_allowed''"
| "err_code (WaybillExistsError _) = ''awb_already_exists''"
| "err_code (WaybillMissingError _) = ''awb_not_found''"
| "err_code (CarrierUnavailableError _) = ''carrier_unavailable''"
| "err_code (RestockNotFoundError _) = ''not_found''"
| "err_code (ProductInStockError _) = ''in_stock''"
| "err_code (RestockUnsupportedError _) = ''unsupported''"
| "err_code (ReviewNotFoundError _) = ''not_found''"
| "err_code ReviewForbiddenError = ''forbidden''"
| "err_code ReviewInvalidCursorError = ''invalid_cursor''"
| "err_code (CatalogNotFoundError _) = ''not_found''"
| "err_code (PublicationError _) = ''not_publishable''"
| "err_code CatalogInvalidCursorError = ''invalid_cursor''"
| "err_code (AdminNotFoundError _) = ''not_found''"
| "err_code (AdminConflictError _) = ''conflict''"
| "err_code (AdminValidationError _) = ''invalid''"
| "err_code (BannerNotFoundError _) = ''not_found''"
| "err_code (ContentPageNotFoundError _) = ''not_found''"
| "err_code (ContentPageConflictError _) = ''conflict''"
| "err_code (StaffNotFoundError _) = ''not_found''"
| "err_code StaffConflictError = ''conflict''"
| "err_code (ConversationNotFoundError _) = ''not_found''"
| "err_code (CannedNotFoundError _) = ''not_found''"
| "err_code SupportOrderNotFoundError = ''order_not_found''"
| "err_code (CustomerNotFoundError _) = ''not_found''"
| "err_code InvalidTokenError = ''internal_error''"
| "err_code (MaibError _) = ''internal_error''"
| "err_code (NovaPostError _) = ''internal_error''"
| "err_code MultipleResultsFound = ''internal_error''"
| "err_code (IntegrityError _) = ''internal_error''"
| "err_code (PyError _) = ''internal_error''"
| "err_code (HTTPException _ c) = (case c of None \<Rightarrow> ''http_error'' | Some code \<Rightarrow> code)"

text \<open>The structured \<open>details\<close>: only the two product errors pass one, \<open>{"product_id": ..}\<close>.\<close>

fun err_details :: "exn \<Rightarrow> int option" where
  "err_details (OutOfStockError p) = Some p"
| "err_details (ProductNotFoundError p) = Some p"
| "err_details _ = None"

record envelope =
  env_status :: int
  env_code :: string
  env_details :: "int option"

text \<open>
  \<open>error_response\<close> and the handlers an exception can reach: a \<open>DomainError\<close> is rendered from
  its class attributes, an \<open>HTTPException\<close> keeps its status (and the code of a dict detail),
  anything else becomes the generic 500 without its text.
\<close>

definition error_response :: "int \<Rightarrow> string \<Rightarrow> int option \<Rightarrow> envelope" where
  "error_response st code details = \<lparr>env_status = st, env_code = code, env_details = details\<rparr>"

definition domain_exception_handler :: "exn \<Rightarrow> int \<Rightarrow> envelope" where
  "domain_exception_handler e st = error_response st (err_code e) (err_details e)"

definition http_exception_handler :: "int \<Rightarrow> string option \<Rightarrow> envelope" where
  "http_exception_handler st code =
    (case code of
      Some c \<Rightarrow> error_response st c None
    | None \<Rightarrow> error_response st ''http_error'' None)"

definition unhandled_exception_handler :: "exn \<Rightarrow> envelope" where
  "unhandled_exception_handler e = error_response 500 ''internal_error'' None"

text \<open>\<open>register_exception_handlers\<close>: the handler the application dispatches an exception to.\<close>

definition render_exception :: "exn \<Rightarrow> envelope" where
  "render_exception e =
    (case e of
      HTTPException st code \<Rightarrow> http_exception_handler st code
    | _ \<Rightarrow> (case status_code e of
        Some st \<Rightarrow> domain_exception_handler e st
      | None \<Rightarrow> unhandled_exception_handler e))"

lemmas render_defs = render_exception_def domain_exception_handler_def
  http_exception_handler_def unhandled_exception_handler_def error_response_def

text \<open>The client is told a product id exactly for the two product errors.\<close>

lemma render_details:
  "env_details (render_exception e) = Some p \<longleftrightarrow> e = OutOfStockError p \<or> e = ProductNotFoundError p"
  by (cases e) (auto simp: render_defs split: option.splits)

end
