(* ===== verification/Lang.thy ===== *)
theory Lang
  imports Errors
begin

text \<open>
  Language resolution (\<open>app/api/lang.py\<close>): the strict dependency \<open>get_lang\<close> of the catalog
  reads and the lenient \<open>normalize_lang\<close> of the cart and checkout stack. Every resolved
  language is one of \<open>ALLOWED_LANGS\<close>.
\<close>

definition ALLOWED_LANGS :: "string list" where
  "ALLOWED_LANGS = [''ru'', ''ro'']"

definition DEFAULT_LANG :: string where
  "DEFAULT_LANG = ''ro''"

text \<open>The loop over the comma-separated parts of the header: the first supported token wins.\<close>

definition accept_base :: "string \<Rightarrow> string" where
  "accept_base part = before CHR ''-'' (lower (strip (before CHR '';'' part)))"

fun first_supported :: "string list \<Rightarrow> string option" where
  "first_supported [] = None"
| "first_supported (part # parts) =
    (let base = accept_base part in
      if base \<in> set ALLOWED_LANGS then Some base else first_supported parts)"

definition parse_accept_language :: "string option \<Rightarrow> string option" where
  "parse_accept_language header =
    (case header of
      None \<Rightarrow> None
    | Some h \<Rightarrow> if h = [] then None else first_supported (split_on CHR '','' h))"

definition get_lang :: "string option \<Rightarrow> string option \<Rightarrow> exn + string" where
  "get_lang header lang =
    (case lang of
      Some l \<Rightarrow>
        let normalized = lower (strip l) in
        if normalized \<notin> set ALLOWED_LANGS then Inl (HTTPException 400 None)
        else Inr normalized
    | None \<Rightarrow>
        (case parse_accept_language header of
          Some hl \<Rightarrow> Inr hl
        | None \<Rightarrow> Inr DEFAULT_LANG))"

definition normalize_lang :: "string option \<Rightarrow> string" where
  "normalize_lang lang =
    (case lang of
      None \<Rightarrow> DEFAULT_LANG
    | Some l \<Rightarrow>
        let normalized = lower (strip l) in
        if normalized \<in> set ALLOWED_LANGS then normalized else DEFAULT_LANG)"

lemma default_allowed: "DEFAULT_LANG \<in> set ALLOWED_LANGS"
  by (simp add: DEFAULT_LANG_def ALLOWED_LANGS_def)

lemma normalize_lang_allowed: "normalize_lang l \<in> set ALLOWED_LANGS"
  by (simp add: normalize_lang_def Let_def default_allowed split: option.split)

lemma first_supported_allowed: "first_supported ps = Some l \<Longrightarrow> l \<in> set ALLOWED_LANGS"
  by (induction ps) (auto simp: Let_def split: if_splits)

lemma parse_accept_allowed: "parse_accept_language h = Some l \<Longrightarrow> l \<in> set ALLOWED_LANGS"
  by (auto simp: parse_accept_language_def dest: first_supported_allowed split: option.splits if_splits)

lemma get_lang_allowed: "get_lang h l = Inr r \<Longrightarrow> r \<in> set ALLOWED_LANGS"
  by (auto simp: get_lang_def Let_def default_allowed dest: parse_accept_allowed
      split: option.splits if_splits)

text \<open>Only an explicit unsupported value is rejected, and where both accept they agree.\<close>

lemma get_lang_rejects: "get_lang h l = Inl e \<longleftrightarrow>
    (\<exists>x. l = Some x \<and> lower (strip x) \<notin> set ALLOWED_LANGS \<and> e = HTTPException 400 None)"
  by (auto simp: get_lang_def Let_def split: option.splits)

lemma get_lang_normalize: "get_lang h (Some l) = Inr r \<Longrightarrow> normalize_lang (Some l) = r"
  by (auto simp: get_lang_def normalize_lang_def Let_def split: if_splits)

lemma normalize_lang_fixed: "normalize_lang (Some (normalize_lang l)) = normalize_lang l"
proof -
  have "lower (strip x) = x" if "x \<in> set ALLOWED_LANGS" for x
    using that by (auto simp: ALLOWED_LANGS_def lower_def strip_def lstrip_def lower_char_def is_space_def)
  then show ?thesis
    using normalize_lang_allowed [of l] by (simp add: normalize_lang_def [of "Some (normalize_lang l)"])
qed

end
