(* ===== verification/Settings.thy ===== *)
theory Settings
  imports Lang
begin

text \<open>
  Runtime configuration (\<open>app/core/config.py\<close>): the settings the modelled code reads, and
  the derived properties computed from them. Settings are an argument of every operation
  that reads them, as \<open>settings\<close> is read at call time in the source.
\<close>

record settings =
  app_env :: string
  jwt_secret :: string
  maib_base_url :: string
  maib_project_id :: string
  maib_project_secret :: string
  maib_signature_key :: string
  maib_callback_base_url :: string
  currency :: string
  courier_rate :: money
  free_delivery_from :: "money option"
  parcel_default_item_weight_g :: int
  parcel_width_mm :: int
  parcel_length_mm :: int
  parcel_height_mm :: int
  parcel_volumetric_divisor :: int
  novapost_mode :: string
  novapost_api_token :: string
  novapost_contract_number :: string
  novapost_sender_division_id :: string
  novapost_sender_name :: string
  novapost_sender_phone :: string
  novapost_sender_email :: string
  novapost_sender_company :: string
  novapost_division_categories :: string
  novapost_free_delivery_from :: "money option"
  storefront_base_url :: string
  access_token_ttl_min :: int
  refresh_token_ttl_days :: int
  search_backend :: string
  rate_limit_login :: string
  rate_limit_checkout :: string
  rate_limit_register :: string
  rate_limit_refresh :: string
  rate_limit_track :: string
  rate_limit_consent :: string
  rate_limit_delivery :: string
  rate_limit_telegram :: string
  telegram_bot_token :: string
  telegram_webhook_secret :: string
  telegram_staff_chat_id :: string
  support_retention_days :: int
  default_lang :: string
  storage_backend :: string
  media_root :: string
  media_url_prefix :: string
  s3_endpoint_url :: string
  s3_bucket :: string
  s3_public_url :: string

text \<open>The defaults of the class body, used by the concrete examples.\<close>

definition INSECURE_JWT_DEFAULT :: string where
  "INSECURE_JWT_DEFAULT = ''dev-insecure-change-me''"

definition default_settings :: settings where
  "default_settings = \<lparr>
     app_env = ''local'', jwt_secret = INSECURE_JWT_DEFAULT,
     maib_base_url = ''https://api.maibmerchants.md/v1'',
     maib_project_id = '''', maib_project_secret = '''', maib_signature_key = '''',
     maib_callback_base_url = '''', currency = ''MDL'', courier_rate = 50,
     free_delivery_from = None, parcel_default_item_weight_g = 500,
     parcel_width_mm = 250, parcel_length_mm = 350, parcel_height_mm = 200,
     parcel_volumetric_divisor = 5000, novapost_mode = '''', novapost_api_token = '''',
     novapost_contract_number = '''', novapost_sender_division_id = '''',
     novapost_sender_name = '''', novapost_sender_phone = '''', novapost_sender_email = '''',
     novapost_sender_company = '''', novapost_division_categories = ''branch,postomat,courier'',
     novapost_free_delivery_from = None, storefront_base_url = ''https://shop.evix.md'',
     access_token_ttl_min = 30, refresh_token_ttl_days = 30, search_backend = ''postgres'',
     rate_limit_login = ''5/60'', rate_limit_checkout = ''10/60'', rate_limit_register = ''10/600'',
     rate_limit_refresh = ''60/60'', rate_limit_track = ''120/60'', rate_limit_consent = ''20/60'',
     rate_limit_delivery = ''60/60'', rate_limit_telegram = ''60/60'', telegram_bot_token = '''',
     telegram_webhook_secret = '''', telegram_staff_chat_id = '''', support_retention_days = 365, default_lang = ''ro'',
     storage_backend = ''local'', media_root = ''var/media'', media_url_prefix = ''/media'',
     s3_endpoint_url = ''http://localhost:59000'', s3_bucket = ''evix-media'', s3_public_url = ''''\<rparr>"

definition search_uses_elastic :: "settings \<Rightarrow> bool" where
  "search_uses_elastic cfg \<longleftrightarrow> lower (strip (search_backend cfg)) = ''elastic''"

definition cookie_secure :: "settings \<Rightarrow> bool" where
  "cookie_secure cfg \<longleftrightarrow> app_env cfg \<notin> {''local'', ''test''}"

definition card_payment_enabled :: "settings \<Rightarrow> bool" where
  "card_payment_enabled cfg \<longleftrightarrow>
    maib_project_id cfg \<noteq> [] \<and> maib_project_secret cfg \<noteq> [] \<and> maib_signature_key cfg \<noteq> []"

definition novapost_stub :: "settings \<Rightarrow> bool" where
  "novapost_stub cfg \<longleftrightarrow> lower (strip (novapost_mode cfg)) = ''stub''"

definition novapost_enabled :: "settings \<Rightarrow> bool" where
  "novapost_enabled cfg \<longleftrightarrow>
    (if novapost_stub cfg then True
     else novapost_api_token cfg \<noteq> [] \<and> novapost_sender_division_id cfg \<noteq> [])"

definition novapost_base_url :: "settings \<Rightarrow> string" where
  "novapost_base_url cfg =
    (case map_of [(''sandbox'', ''https://api-stage.novapost.pl/v.1.0''),
                  (''live'', ''https://api.novapost.com/v.1.0'')]
            (lower (strip (novapost_mode cfg))) of
      None \<Rightarrow> '''' | Some u \<Rightarrow> u)"

text \<open>The loop of \<open>novapost_categories\<close>: normalised, empty items dropped, first occurrence kept.\<close>

fun add_categories :: "string list \<Rightarrow> string list \<Rightarrow> string list" where
  "add_categories seen [] = seen"
| "add_categories seen (raw # rest) =
    (let item = lower (strip raw) in
      if item \<noteq> [] \<and> item \<notin> set seen then add_categories (seen @ [item]) rest
      else add_categories seen rest)"

definition novapost_categories :: "settings \<Rightarrow> string list" where
  "novapost_categories cfg = add_categories [] (split_on CHR '','' (novapost_division_categories cfg))"

text \<open>\<open>_enforce_prod_secrets\<close>: the settings object refuses to exist outside dev with insecure values.\<close>

definition enforce_prod_secrets :: "settings \<Rightarrow> string + settings" where
  "enforce_prod_secrets cfg =
    (if app_env cfg \<notin> {''local'', ''test''} \<and> jwt_secret cfg = INSECURE_JWT_DEFAULT
     then Inl ''jwt_secret is the insecure default''
     else if app_env cfg \<notin> {''local'', ''test''} \<and> novapost_stub cfg
     then Inl ''novapost_mode=stub must never run outside dev''
     else Inr cfg)"

lemma add_categories_distinct:
  "distinct seen \<Longrightarrow> [] \<notin> set seen \<Longrightarrow>
    distinct (add_categories seen raws) \<and> [] \<notin> set (add_categories seen raws)"
  by (induction seen raws rule: add_categories.induct) (auto simp: Let_def)

lemma novapost_categories_distinct:
  "distinct (novapost_categories cfg)" "[] \<notin> set (novapost_categories cfg)"
  using add_categories_distinct [of "[]"] by (auto simp: novapost_categories_def)

text \<open>A configuration that passed validation never serves the fake carrier outside dev.\<close>

lemma prod_never_stub:
  "enforce_prod_secrets cfg = Inr cfg' \<Longrightarrow> cookie_secure cfg' \<Longrightarrow>
    cfg' = cfg \<and> \<not> novapost_stub cfg' \<and> jwt_secret cfg' \<noteq> INSECURE_JWT_DEFAULT"
  by (auto simp: enforce_prod_secrets_def cookie_secure_def split: if_splits)

end
