(* ===== verification/Models.thy ===== *)
theory Models
  imports Settings
begin

text \<open>
  The rows of the commerce tables (\<open>app/models/*.py\<close>), the database, and the session.

  A \<open>db\<close> is one version of all tables. A \<open>session\<close> is what an \<open>AsyncSession\<close> and the servers
  behind it hold: the transaction's own view \<open>work\<close>, the version other transactions see
  (\<open>committed\<close>), the PostgreSQL sequences (which no rollback undoes), the Celery messages
  already enqueued (\<open>outbox\<close>) and the remote servers (\<open>outside\<close>). \<open>commit\<close> publishes the view, \<open>rollback\<close> drops it;
  \<open>end_request\<close> is the session being closed without a commit.

  Instants are integers (UTC microseconds). Columns constrained to a set of strings keep
  their string values, since the code compares strings. JSON documents are \<open>json\<close> values:
  a number that is not an integer is held by its Python text.
\<close>

datatype json =
    JNull
  | JBool bool
  | JInt int
  | JFloat string
  | JStr string
  | JArr "json list"
  | JObj "(string \<times> json) list"

type_synonym uuid = string
type_synonym instant = int

record product =
  p_id :: int
  p_category_id :: int
  p_code :: string
  p_price :: money
  p_old_price :: "money option"
  p_qty :: int
  p_is_active :: bool
  p_is_featured :: bool
  p_has_variants :: bool
  p_weight_g :: "int option"
  p_updated_at :: instant

record variant =
  v_id :: int
  v_product_id :: int
  v_code :: "string option"
  v_price :: money
  v_old_price :: "money option"
  v_qty :: int
  v_position :: int
  v_is_active :: bool
  v_weight_g :: "int option"

record product_translation =
  pt_product_id :: int
  pt_lang :: string
  pt_name :: string
  pt_slug :: string
  pt_description :: "string option"
  pt_seo_title :: "string option"
  pt_seo_description :: "string option"

record attribute_value =
  av_id :: int
  av_attribute_id :: int

record attribute_value_translation =
  avt_value_id :: int
  avt_lang :: string
  avt_value :: string

record product_variant_value =
  pvv_variant_id :: int
  pvv_value_id :: int

record product_variation_attribute =
  pva_product_id :: int
  pva_attribute_id :: int
  pva_position :: int

record app_user =
  u_id :: int
  u_email :: string
  u_is_active :: bool
  u_is_staff :: bool
  u_phone :: "string option"
  u_password_hash :: string
  u_role :: "string option"

record address =
  a_id :: int
  a_user_id :: int
  a_full_name :: string
  a_phone :: string
  a_city :: string
  a_street :: string
  a_zip :: "string option"
  a_is_default :: bool

record cart =
  c_id :: int
  c_user_id :: "int option"
  c_session_token :: "uuid option"
  c_status :: string

record cart_item =
  ci_id :: int
  ci_cart_id :: int
  ci_product_id :: int
  ci_variant_id :: "int option"
  ci_qty :: int

record promo_code =
  pr_id :: int
  pr_code :: string
  pr_discount_type :: string
  pr_discount_value :: money
  pr_active_from :: "instant option"
  pr_active_to :: "instant option"
  pr_min_order_total :: "money option"
  pr_usage_limit :: "int option"
  pr_is_active :: bool

record order =
  o_id :: int
  o_number :: string
  o_user_id :: "int option"
  o_email :: string
  o_phone :: string
  o_status :: string
  o_payment_status :: string
  o_subtotal :: money
  o_discount_total :: money
  o_delivery_cost :: money
  o_total :: money
  o_delivery_type :: string
  o_delivery_service :: string
  o_delivery_address_id :: "int option"
  o_delivery_name :: "string option"
  o_delivery_city :: "string option"
  o_delivery_street :: "string option"
  o_delivery_zip :: "string option"
  o_payment_method :: string
  o_promo_code :: "string option"
  o_created_at :: instant

record order_item =
  oi_id :: int
  oi_order_id :: int
  oi_product_id :: "int option"
  oi_variant_id :: "int option"
  oi_name_snapshot :: string
  oi_price_snapshot :: money
  oi_qty :: int

record order_status_history =
  h_id :: int
  h_order_id :: int
  h_from_status :: string
  h_to_status :: string
  h_changed_at :: instant
  h_changed_by :: string

record order_delivery_np =
  np_order_id :: int
  np_settlement_id :: "string option"
  np_settlement_name :: string
  np_settlement_name_ru :: string
  np_division_id :: "string option"
  np_division_number :: string
  np_division_address :: string
  np_address_parts :: "json option"
  np_calculated_cost :: "money option"
  np_parcel_weight_g :: "int option"
  np_awb_id :: "string option"
  np_awb_number :: "string option"
  np_awb_data :: "json option"
  np_status_code :: string
  np_status_text :: string
  np_status_updated_at :: "instant option"

record payment =
  pm_id :: int
  pm_order_id :: int
  pm_provider :: string
  pm_pay_id :: "string option"
  pm_status :: string
  pm_amount :: money
  pm_currency :: string
  pm_raw :: "json option"

record category =
  cg_id :: int
  cg_parent_id :: "int option"
  cg_path :: "int list"
  cg_depth :: int
  cg_is_active :: bool
  cg_position :: int
  cg_cover_image_url :: "string option"
  cg_updated_at :: instant

record category_translation =
  cgt_category_id :: int
  cgt_lang :: string
  cgt_name :: string
  cgt_slug :: string
  cgt_seo_title :: "string option"
  cgt_seo_description :: "string option"

record attribute =
  at_id :: int
  at_code :: string

record attribute_translation =
  att_attribute_id :: int
  att_lang :: string
  att_name :: string

record product_attribute =
  pav_product_id :: int
  pav_value_id :: int

record media =
  md_id :: int
  md_product_id :: int
  md_variant_id :: "int option"
  md_url :: string
  md_position :: int

record product_card =
  pc_product_id :: int
  pc_lang :: string
  pc_category_id :: int
  pc_name :: string
  pc_slug :: string
  pc_price :: money
  pc_old_price :: "money option"
  pc_price_max :: "money option"
  pc_in_stock :: bool
  pc_main_image_url :: "string option"
  pc_badge :: "string option"
  pc_path :: "int list"
  pc_is_active :: bool
  pc_is_featured :: bool

record restock_subscription =
  rs_id :: int
  rs_product_id :: int
  rs_user_id :: int
  rs_lang :: string
  rs_status :: string
  rs_notified_at :: "instant option"
  rs_created_at :: instant

record review =
  rv_id :: int
  rv_product_id :: int
  rv_user_id :: int
  rv_rating :: int
  rv_title :: "string option"
  rv_body :: "string option"
  rv_author_name :: "string option"
  rv_status :: string
  rv_is_verified :: bool
  rv_lang :: string
  rv_moderated_at :: "instant option"
  rv_created_at :: instant
  rv_updated_at :: instant

record banner =
  bn_id :: int
  bn_position :: int
  bn_is_active :: bool
  bn_starts_at :: "instant option"
  bn_ends_at :: "instant option"
  bn_link_url :: "string option"

record banner_translation =
  bt_banner_id :: int
  bt_lang :: string
  bt_image_url :: string
  bt_image_mobile_url :: "string option"
  bt_alt :: string
  bt_link_url :: "string option"
  bt_title :: "string option"
  bt_subtitle :: "string option"
  bt_cta_label :: "string option"

record content_page =
  cp_id :: int
  cp_slug :: string
  cp_is_published :: bool
  cp_show_in_footer :: bool
  cp_position :: int

record content_page_translation =
  cpt_page_id :: int
  cpt_lang :: string
  cpt_title :: string
  cpt_body :: string
  cpt_seo_description :: "string option"

record site_setting =
  st_key :: string
  st_value :: string

record support_conversation =
  sc_id :: int
  sc_tg_chat_id :: int
  sc_linked_order_id :: "int option"
  sc_customer_name :: "string option"
  sc_customer_username :: "string option"
  sc_lang :: "string option"
  sc_status :: string
  sc_unread_count :: int
  sc_last_message_at :: instant
  sc_created_at :: instant

record support_message =
  sm_id :: int
  sm_conversation_id :: int
  sm_direction :: string
  sm_text :: string
  sm_tg_message_id :: "int option"
  sm_sender_staff_id :: "int option"
  sm_delivery :: "string option"
  sm_attachment_kind :: "string option"
  sm_attachment_key :: "string option"
  sm_attachment_name :: "string option"
  sm_created_at :: instant

record support_canned_response =
  cn_id :: int
  cn_title :: string
  cn_lang :: string
  cn_sort_order :: int
  cn_text :: string
  cn_created_at :: instant

text \<open>The categories of a consent are \<open>necessary\<close>, always granted, and the flag \<open>analytics\<close>.\<close>

record visit =
  vi_id :: int
  vi_occurred_at :: instant
  vi_path :: string
  vi_referrer :: "string option"
  vi_session_id :: string
  vi_user_id :: "int option"
  vi_device :: string
  vi_is_bot :: bool

record consent_record =
  cr_id :: int
  cr_created_at :: instant
  cr_anonymous_id :: "string option"
  cr_user_id :: "int option"
  cr_analytics :: bool
  cr_lang :: string
  cr_policy_version :: int
  cr_source :: string
  cr_action :: string

record db =
  t_product :: "product list"
  t_variant :: "variant list"
  t_product_translation :: "product_translation list"
  t_attribute_value :: "attribute_value list"
  t_attribute_value_translation :: "attribute_value_translation list"
  t_product_variant_value :: "product_variant_value list"
  t_product_variation_attribute :: "product_variation_attribute list"
  t_address :: "address list"
  t_cart :: "cart list"
  t_cart_item :: "cart_item list"
  t_promo :: "promo_code list"
  t_order :: "order list"
  t_order_item :: "order_item list"
  t_history :: "order_status_history list"
  t_np :: "order_delivery_np list"
  t_payment :: "payment list"
  t_user :: "app_user list"
  t_category :: "category list"
  t_category_translation :: "category_translation list"
  t_attribute :: "attribute list"
  t_attribute_translation :: "attribute_translation list"
  t_product_attribute :: "product_attribute list"
  t_media :: "media list"
  t_card :: "product_card list"
  t_restock :: "restock_subscription list"
  t_review :: "review list"
  t_banner :: "banner list"
  t_banner_translation :: "banner_translation list"
  t_page :: "content_page list"
  t_page_translation :: "content_page_translation list"
  t_setting :: "site_setting list"
  t_conversation :: "support_conversation list"
  t_message :: "support_message list"
  t_canned :: "support_canned_response list"
  t_visit :: "visit list"
  t_consent :: "consent_record list"

definition empty_db :: db where
  "empty_db = \<lparr>t_product = [], t_variant = [], t_product_translation = [],
     t_attribute_value = [], t_attribute_value_translation = [],
     t_product_variant_value = [], t_product_variation_attribute = [], t_address = [],
     t_cart = [], t_cart_item = [], t_promo = [], t_order = [], t_order_item = [],
     t_history = [], t_np = [], t_payment = [], t_user = [], t_category = [],
     t_category_translation = [], t_attribute = [], t_attribute_translation = [],
     t_product_attribute = [], t_media = [], t_card = [], t_restock = [], t_review = [],
     t_banner = [], t_banner_translation = [], t_page = [], t_page_translation = [], t_setting = [],
     t_conversation = [], t_message = [], t_canned = [], t_visit = [], t_consent = []\<rparr>"

text \<open>The sequences behind the generated primary keys, one per table with such a key.\<close>

datatype table = Cart_T | Cart_Item_T | Promo_T | Order_T | Order_Item_T | History_T | Payment_T
  | User_T | Address_T | Restock_T | Review_T | Category_T | Product_T | Variant_T | Attribute_T | Attribute_Value_T
  | Media_T | Banner_T | Page_T | Conversation_T | Message_T | Canned_T | Visit_T | Consent_T

text \<open>The Celery tasks the modelled services enqueue.\<close>

datatype message =
    Order_Confirm_Email string string string money
    \<comment> \<open>to, order number, delivery line, total\<close>
  | Restock_Notify int
  | Waybill_Email string string string string
    \<comment> \<open>to, order number, waybill number, destination\<close>
  | Es_Index "int list"
  | Es_Delete "int list"
  | Notify_Staff int string string
    \<comment> \<open>conversation, customer name, snippet\<close>
  | Fetch_Attachment int int string
    \<comment> \<open>message, conversation, file\<close>

text \<open>
  The HTTP world outside: a request, what \<open>httpx\<close> makes of the answer (a response is its status,
  its text and, when the text is JSON, the decoded value), the requests sent so far, and the
  two things kept in Redis for the carrier, its bearer token and the lookup cache.
\<close>

record http_request =
  hq_method :: string
  hq_url :: string
  hq_params :: "(string \<times> json) list"
  hq_json :: "json option"
  hq_headers :: "(string \<times> string) list"

datatype http_result =
    Timed_Out
  | Transport_Error
  | Response int string "json option"

text \<open>
  A key of Redis holds an integer (a counter, or the \<open>"1"\<close> of a marker) and the instant it expires,
  if it does. \<open>mailbox\<close> are the e-mails a task has handed to the SMTP server, \<open>entropy\<close> counts the
  draws from the random source. \<open>objects\<close> is the object store, by key: a directory of files or a bucket;
  a file has no content type or cache header of its own. \<open>tg_sent\<close> are the messages handed to Telegram
  (chat, text) and \<open>events\<close> what was published to the operators' live inbox (conversation, kind).
\<close>

datatype mail = Restock_Mail string string string string
    \<comment> \<open>to, product name, product URL, language\<close>

record stored_object =
  so_data :: string
  so_content_type :: "string option"
  so_cache_control :: "string option"

type_synonym redis_entry = "int \<times> instant option"

record outside =
  sent :: "http_request list"
  np_jwt :: "string option"
  np_cache :: "string \<Rightarrow> json list option"
  redis_keys :: "string \<Rightarrow> redis_entry option"
  mailbox :: "mail list"
  entropy :: nat
  objects :: "string \<Rightarrow> stored_object option"
  tg_sent :: "(string \<times> string) list"
  events :: "(int \<times> string) list"

type_synonym 'a net = "(outside, exn, 'a) sm"

record session =
  work :: db
  committed :: db
  order_number_seq :: int
  pk_seq :: "table \<Rightarrow> int"
  outbox :: "message list"
  outside :: outside

type_synonym 'a act = "(session, exn, 'a) sm"

text \<open>What Pillow makes of some bytes.\<close>

datatype opened_image =
    Unidentified
  | Pixel_Bomb
  | Opened nat nat bool
    \<comment> \<open>width, height, can the pixels be decoded\<close>

text \<open>
  What the process environment gives one request: the configuration, the clock (UTC, with
  today's date as \<open>(year, month, day)\<close>), whether the Celery broker and the Redis cache answer, the
  remote servers (their answer to a request may depend on everything sent before), and the
  hash of \<open>hashlib\<close>/\<open>base64\<close>: these are parameters of the model. So are PyJWT (signing a payload, and
  opening a token at an instant: \<open>None\<close> when PyJWT raises), argon2 (the hash of a password with the
  n-th salt, and verification: \<open>None\<close> when it raises something else than a mismatch), the random source
  (the n-th \<open>uuid4().hex\<close>, the n-th \<open>token_urlsafe\<close>) and the SMTP server (does it take this mail after those). \<open>env_store_up\<close>: does the object store answer;
  \<open>env_webp\<close>: the WebP encoding of the picture in some bytes at a width; \<open>env_tg_send\<close>: the number
  Telegram gives a message, \<open>None\<close> when the call raises; \<open>env_tg_file\<close>: the bytes of a file and its path.
\<close>

record environment =
  env_cfg :: settings
  env_now :: instant
  env_today :: "nat \<times> nat \<times> nat"
  env_broker_up :: bool
  env_cache_up :: bool
  env_http :: "http_request list \<Rightarrow> http_request \<Rightarrow> http_result"
  env_sha256_b64 :: "string \<Rightarrow> string"
  env_jwt_encode :: "string \<Rightarrow> (string \<times> json) list \<Rightarrow> string"
  env_jwt_decode :: "string \<Rightarrow> instant \<Rightarrow> string \<Rightarrow> (string \<times> json) list option"
  env_argon_hash :: "nat \<Rightarrow> string \<Rightarrow> string"
  env_argon_verify :: "string \<Rightarrow> string \<Rightarrow> bool option"
  env_uuid_hex :: "nat \<Rightarrow> string"
  env_token_urlsafe :: "nat \<Rightarrow> string"
  env_smtp :: "mail list \<Rightarrow> mail \<Rightarrow> bool"
  env_store_up :: bool
  env_open_image :: "string \<Rightarrow> opened_image"
  env_webp :: "string \<Rightarrow> nat \<Rightarrow> string"
  env_tg_send :: "(string \<times> string) list \<Rightarrow> string \<Rightarrow> string \<Rightarrow> int option"
  env_tg_file :: "string \<Rightarrow> (string \<times> string) option"

subsection \<open>Transactions\<close>

definition commit :: "unit act" where
  "commit = modify (\<lambda>s. s\<lparr>committed := work s\<rparr>)"

definition rollback :: "unit act" where
  "rollback = modify (\<lambda>s. s\<lparr>work := committed s\<rparr>)"

definition end_request :: "session \<Rightarrow> session" where
  "end_request s = s\<lparr>work := committed s\<rparr>"

definition reads :: "(db \<Rightarrow> 'a) \<Rightarrow> 'a act" where
  "reads f = gets (\<lambda>s. f (work s))"

definition readsE :: "(db \<Rightarrow> exn + 'a) \<Rightarrow> 'a act" where
  "readsE f = getsE (\<lambda>s. f (work s))"

definition writes :: "(db \<Rightarrow> db) \<Rightarrow> unit act" where
  "writes g = modify (\<lambda>s. s\<lparr>work := g (work s)\<rparr>)"

text \<open>\<open>nextval\<close> of a primary-key sequence, drawn when a row is flushed.\<close>

definition next_id :: "table \<Rightarrow> int act" where
  "next_id t = (\<lambda>s. (Inr (pk_seq s t), s\<lparr>pk_seq := (pk_seq s)(t := pk_seq s t + 1)\<rparr>))"

text \<open>
  \<open>task.delay(..)\<close> inside \<open>try .. except Exception\<close>: the message is enqueued when the broker is
  up, and the failure is only logged when it is not.
\<close>

definition enqueue :: "environment \<Rightarrow> message \<Rightarrow> unit act" where
  "enqueue env msg = modify (\<lambda>s. if env_broker_up env then s\<lparr>outbox := outbox s @ [msg]\<rparr> else s)"

text \<open>A computation against the outside, run inside a request: the tables are not involved.\<close>

definition remote :: "'a net \<Rightarrow> 'a act" where
  "remote m = (\<lambda>s. case m (outside s) of (r, w) \<Rightarrow> (r, s\<lparr>outside := w\<rparr>))"

text \<open>\<open>scalar_one_or_none()\<close>: raises when a query without a unique key matches several rows.\<close>

definition scalar_one_or_none :: "'r list \<Rightarrow> exn + 'r option" where
  "scalar_one_or_none rows =
    (case rows of [] \<Rightarrow> Inr None | [r] \<Rightarrow> Inr (Some r) | _ \<Rightarrow> Inl MultipleResultsFound)"

lemmas [act_defs] = commit_def rollback_def reads_def readsE_def writes_def next_id_def enqueue_def remote_def

lemma commit_app [simp]: "commit s = (Inr (), s\<lparr>committed := work s\<rparr>)"
  by (simp add: commit_def)

lemma rollback_app [simp]: "rollback s = (Inr (), s\<lparr>work := committed s\<rparr>)"
  by (simp add: rollback_def)

lemma reads_app [simp]: "reads f s = (Inr (f (work s)), s)"
  by (simp add: reads_def)

lemma readsE_app [simp]: "readsE f s = (f (work s), s)"
  by (simp add: readsE_def)

lemma writes_app [simp]: "writes g s = (Inr (), s\<lparr>work := g (work s)\<rparr>)"
  by (simp add: writes_def)

lemma next_id_app [simp]:
  "next_id t s = (Inr (pk_seq s t), s\<lparr>pk_seq := (pk_seq s)(t := pk_seq s t + 1)\<rparr>)"
  by (simp add: next_id_def)

lemma enqueue_app [simp]:
  "enqueue env msg s =
    (Inr (), if env_broker_up env then s\<lparr>outbox := outbox s @ [msg]\<rparr> else s)"
  by (simp add: enqueue_def)

lemma remote_app: "remote m s = (case m (outside s) of (r, w) \<Rightarrow> (r, s\<lparr>outside := w\<rparr>))"
  by (simp add: remote_def)

lemma remote_step: "remote m s = (r, s') \<Longrightarrow> \<exists>w. s' = s\<lparr>outside := w\<rparr>"
  by (auto simp: remote_def split: prod.splits)

lemma remote_frame:
  assumes "remote m s = (r, s')"
  shows "work s' = work s" "committed s' = committed s" "order_number_seq s' = order_number_seq s"
    "pk_seq s' = pk_seq s" "outbox s' = outbox s"
  using assms by (auto simp: remote_def split: prod.splits)

lemma session_steps [simp]:
  "bindM commit f s = f () (s\<lparr>committed := work s\<rparr>)"
  "bindM rollback f s = f () (s\<lparr>work := committed s\<rparr>)"
  "bindM (reads h) g s = g (h (work s)) s"
  "bindM (writes k) f s = f () (s\<lparr>work := k (work s)\<rparr>)"
  "bindM (next_id t) f' s = f' (pk_seq s t) (s\<lparr>pk_seq := (pk_seq s)(t := pk_seq s t + 1)\<rparr>)"
  by (simp_all add: bindM_app)

lemma preserves_reads [pres]: "preserves I (reads f)"
  by (simp add: reads_def preserves_gets)

lemma preserves_readsE [pres]: "preserves I (readsE f)"
  by (simp add: readsE_def preserves_getsE)

lemma preserves_writes [pres]:
  "(\<And>s. I s \<Longrightarrow> I (s\<lparr>work := g (work s)\<rparr>)) \<Longrightarrow> preserves I (writes g)"
  unfolding writes_def by (rule preserves_modify)

lemma preserves_next_id [pres]:
  "(\<And>s. I s \<Longrightarrow> I (s\<lparr>pk_seq := (pk_seq s)(t := pk_seq s t + 1)\<rparr>)) \<Longrightarrow> preserves I (next_id t)"
  by (simp add: preserves_def)

lemma preserves_commit [pres]:
  "(\<And>s. I s \<Longrightarrow> I (s\<lparr>committed := work s\<rparr>)) \<Longrightarrow> preserves I commit"
  unfolding commit_def by (rule preserves_modify)

lemma preserves_rollback [pres]:
  "(\<And>s. I s \<Longrightarrow> I (s\<lparr>work := committed s\<rparr>)) \<Longrightarrow> preserves I rollback"
  unfolding rollback_def by (rule preserves_modify)

lemma preserves_enqueue [pres]:
  "(\<And>s. I s \<Longrightarrow> I (s\<lparr>outbox := outbox s @ [msg]\<rparr>)) \<Longrightarrow> preserves I (enqueue env msg)"
  by (simp add: preserves_def)

text \<open>
  The invariants of interest speak of the tables only. \<open>both P\<close> is such an invariant: it
  holds of the transaction's view and of the published version, and each session primitive
  reduces to a statement about one table update.
\<close>

definition both :: "(db \<Rightarrow> bool) \<Rightarrow> session \<Rightarrow> bool" where
  "both P s \<longleftrightarrow> P (work s) \<and> P (committed s)"

lemma both_writes [pres]: "(\<And>d. P d \<Longrightarrow> P (g d)) \<Longrightarrow> preserves (both P) (writes g)"
  by (rule preserves_writes) (simp add: both_def)

lemma both_next_id [pres]: "preserves (both P) (next_id t)"
  by (rule preserves_next_id) (simp add: both_def)

lemma both_commit [pres]: "preserves (both P) commit"
  by (rule preserves_commit) (simp add: both_def)

lemma both_rollback [pres]: "preserves (both P) rollback"
  by (rule preserves_rollback) (simp add: both_def)

lemma both_enqueue [pres]: "preserves (both P) (enqueue env msg)"
  by (rule preserves_enqueue) (simp add: both_def)

lemma both_remote [pres]: "preserves (both P) (remote m)"
  by (rule preservesI) (auto simp: both_def dest: remote_frame)

lemma both_end_request: "both P s \<Longrightarrow> both P (end_request s)"
  by (simp add: both_def end_request_def)

text \<open>Nothing but \<open>commit\<close> changes what other transactions see.\<close>

definition uncommitted :: "db \<Rightarrow> session \<Rightarrow> bool" where
  "uncommitted d s \<longleftrightarrow> committed s = d"

lemma uncommitted_prims [pres]:
  "preserves (uncommitted d) (writes g)"
  "preserves (uncommitted d) (next_id t)"
  "preserves (uncommitted d) rollback"
  "preserves (uncommitted d) (enqueue env msg)"
  "preserves (uncommitted d) (remote m)"
  by (auto intro!: pres simp: uncommitted_def) (auto intro!: preservesI simp: uncommitted_def remote_frame)

end
