(* ===== verification/Catalog_Reads.thy ===== *)
theory Catalog_Reads
  imports Models "HOL-Library.Product_Lexorder"
begin

text \<open>
  The catalog queries the buy path uses (\<open>app/repositories/catalog_repo.py\<close>) and the
  localized cart-line join shared, verbatim, by \<open>CartRepository.list_items\<close> and
  \<open>OrderRepository.list_cart_lines\<close>. A join is a list comprehension over the joined tables.
\<close>

definition NAME_LANG :: string where
  "NAME_LANG = ''ro''"

definition get_product :: "int \<Rightarrow> db \<Rightarrow> product option" where
  "get_product pid d = find (\<lambda>p. p_id p = pid) (t_product d)"

definition get_variant :: "int \<Rightarrow> db \<Rightarrow> variant option" where
  "get_variant vid d = find (\<lambda>v. v_id v = vid) (t_variant d)"

definition get_variants_by_ids :: "int list \<Rightarrow> db \<Rightarrow> (int \<rightharpoonup> variant)" where
  "get_variants_by_ids ids d =
    (if ids = [] then Map.empty
     else map_of (rev (map (\<lambda>v. (v_id v, v)) (filter (\<lambda>v. v_id v \<in> set ids) (t_variant d)))))"

text \<open>
  The option labels: one row per (variant, chosen value), ordered by variant, selector
  position and value id, then grouped by variant and joined with \<open>", "\<close>.
\<close>

definition option_rows :: "int list \<Rightarrow> string \<Rightarrow> db \<Rightarrow> ((int \<times> int \<times> int) \<times> string) list" where
  "option_rows ids lang d =
    sort_key fst
      [((pvv_variant_id x, pva_position a, av_id y), avt_value t).
        x \<leftarrow> t_product_variant_value d, pvv_variant_id x \<in> set ids,
        y \<leftarrow> t_attribute_value d, av_id y = pvv_value_id x,
        t \<leftarrow> t_attribute_value_translation d, avt_value_id t = av_id y \<and> avt_lang t = lang,
        v \<leftarrow> t_variant d, v_id v = pvv_variant_id x,
        a \<leftarrow> t_product_variation_attribute d,
          pva_product_id a = v_product_id v \<and> pva_attribute_id a = av_attribute_id y]"

definition get_variant_option_labels :: "int list \<Rightarrow> string \<Rightarrow> db \<Rightarrow> (int \<rightharpoonup> string)" where
  "get_variant_option_labels ids lang d =
    (if ids = [] then Map.empty
     else (\<lambda>vid.
       let parts = map snd (filter (\<lambda>r. fst (fst r) = vid) (option_rows ids lang d)) in
       if parts = [] then None else Some (join '', '' parts)))"

text \<open>\<open>coalesce(requested language, default language)\<close> through the two left joins.\<close>

definition translation_name :: "int \<Rightarrow> string \<Rightarrow> db \<Rightarrow> string option" where
  "translation_name pid lang d =
    map_option pt_name
      (find (\<lambda>t. pt_product_id t = pid \<and> pt_lang t = lang) (t_product_translation d))"

definition localized_name :: "int \<Rightarrow> string \<Rightarrow> db \<Rightarrow> string option" where
  "localized_name pid lang d =
    (case translation_name pid lang d of
      Some n \<Rightarrow> Some n
    | None \<Rightarrow> translation_name pid NAME_LANG d)"

definition list_items :: "int \<Rightarrow> string \<Rightarrow> db \<Rightarrow> (cart_item \<times> product \<times> string option) list" where
  "list_items cid lang d =
    sort_key (\<lambda>(l, _, _). ci_product_id l)
      [(l, p, localized_name (p_id p) lang d).
        l \<leftarrow> t_cart_item d, ci_cart_id l = cid,
        p \<leftarrow> t_product d, p_id p = ci_product_id l]"

text \<open>\<open>if line.variant_id\<close>: an optional id used as a condition.\<close>

definition id_truthy :: "int option \<Rightarrow> bool" where
  "id_truthy v = (case v of None \<Rightarrow> False | Some i \<Rightarrow> i \<noteq> 0)"

definition lookup_variant :: "(int \<rightharpoonup> 'a) \<Rightarrow> int option \<Rightarrow> 'a option" where
  "lookup_variant m v = (case v of None \<Rightarrow> None | Some i \<Rightarrow> if i \<noteq> 0 then m i else None)"

definition variant_ids_of :: "(cart_item \<times> product \<times> string option) list \<Rightarrow> int list" where
  "variant_ids_of rows = [i. (l, _, _) \<leftarrow> rows, Some i \<leftarrow> [ci_variant_id l], i \<noteq> 0]"

lemma get_product_key: "get_product pid d = Some p \<Longrightarrow> p_id p = pid \<and> p \<in> set (t_product d)"
  by (auto simp: get_product_def dest: find_SomeD)

lemma get_variant_key: "get_variant vid d = Some v \<Longrightarrow> v_id v = vid \<and> v \<in> set (t_variant d)"
  by (auto simp: get_variant_def dest: find_SomeD)

lemma get_variants_by_ids_key:
  "get_variants_by_ids ids d i = Some v \<Longrightarrow> v_id v = i \<and> v \<in> set (t_variant d) \<and> i \<in> set ids"
  by (auto simp: get_variants_by_ids_def dest!: map_of_SomeD split: if_splits)

lemma list_items_mem:
  "(l, p, n) \<in> set (list_items cid lang d) \<longleftrightarrow>
    l \<in> set (t_cart_item d) \<and> ci_cart_id l = cid \<and> p \<in> set (t_product d)
      \<and> p_id p = ci_product_id l \<and> n = localized_name (p_id p) lang d"
  by (auto simp: list_items_def)

lemma list_items_sorted: "sorted (map (\<lambda>(l, _, _). ci_product_id l) (list_items cid lang d))"
  by (simp add: list_items_def)

end
