(* ===== verification/Cart.thy ===== *)
theory Cart
  imports Catalog_Reads
begin

text \<open>
  The cart domain: \<open>app/repositories/cart_repo.py\<close> and \<open>app/services/cart_service.py\<close>.

  Queries are functions of the tables; writes are session actions, composed as the service
  composes them (the commit is the last step of each write use-case). The two partial unique
  indexes of \<open>cart_item\<close> and the foreign key from \<open>cart_item\<close> to \<open>cart\<close> are checked where
  PostgreSQL checks them, with \<open>IntegrityError\<close> as the outcome of a violation.
\<close>

subsection \<open>Repository: queries\<close>

definition ACTIVE_STATUS :: string where
  "ACTIVE_STATUS = ''draft''"

definition get_cart_by_user :: "int \<Rightarrow> db \<Rightarrow> exn + cart option" where
  "get_cart_by_user uid d =
    scalar_one_or_none
      (filter (\<lambda>c. c_user_id c = Some uid \<and> c_status c = ACTIVE_STATUS) (t_cart d))"

definition get_cart_by_session_token :: "uuid \<Rightarrow> db \<Rightarrow> exn + cart option" where
  "get_cart_by_session_token tok d =
    scalar_one_or_none
      (filter (\<lambda>c. c_session_token c = Some tok \<and> c_status c = ACTIVE_STATUS) (t_cart d))"

text \<open>\<open>_variant_match\<close>: SQL equality on a nullable column, with \<open>IS NULL\<close> for \<open>None\<close>.\<close>

definition variant_match :: "int option \<Rightarrow> cart_item \<Rightarrow> bool" where
  "variant_match vid l = (case vid of None \<Rightarrow> ci_variant_id l = None | Some v \<Rightarrow> ci_variant_id l = Some v)"

definition item_match :: "int \<Rightarrow> int \<Rightarrow> int option \<Rightarrow> cart_item \<Rightarrow> bool" where
  "item_match cid pid vid l \<longleftrightarrow> ci_cart_id l = cid \<and> ci_product_id l = pid \<and> variant_match vid l"

definition get_item :: "int \<Rightarrow> int \<Rightarrow> int option \<Rightarrow> db \<Rightarrow> exn + cart_item option" where
  "get_item cid pid vid d = scalar_one_or_none (filter (item_match cid pid vid) (t_cart_item d))"

definition list_raw_items :: "int \<Rightarrow> db \<Rightarrow> cart_item list" where
  "list_raw_items cid d = filter (\<lambda>l. ci_cart_id l = cid) (t_cart_item d)"

subsection \<open>Repository: writes\<close>

text \<open>
  The unique indexes \<open>uq_cart_item_cart_product\<close> (simple lines) and
  \<open>uq_cart_item_cart_variant\<close> (variant lines), as a conflict between two rows.
\<close>

definition items_clash :: "cart_item \<Rightarrow> cart_item \<Rightarrow> bool" where
  "items_clash x y \<longleftrightarrow> ci_cart_id x = ci_cart_id y \<and>
    (ci_variant_id x = None \<and> ci_variant_id y = None \<and> ci_product_id x = ci_product_id y
     \<or> ci_variant_id x \<noteq> None \<and> ci_variant_id x = ci_variant_id y)"

definition clash_free :: "cart_item \<Rightarrow> db \<Rightarrow> bool" where
  "clash_free x d \<longleftrightarrow> list_all (\<lambda>y. ci_id y \<noteq> ci_id x \<longrightarrow> \<not> items_clash x y) (t_cart_item d)"

definition create_cart :: "int option \<Rightarrow> uuid option \<Rightarrow> cart act" where
  "create_cart uid tok =
    bindM (next_id Cart_T) (\<lambda>i.
    let c = \<lparr>c_id = i, c_user_id = uid, c_session_token = tok, c_status = ACTIVE_STATUS\<rparr> in
    bindM (writes (\<lambda>d. d\<lparr>t_cart := t_cart d @ [c]\<rparr>)) (\<lambda>_.
    ret c))"

definition insert_item :: "cart_item \<Rightarrow> unit act" where
  "insert_item x =
    bindM (readsE (\<lambda>d. guardE (clash_free x d) (IntegrityError ''cart_item''))) (\<lambda>_.
    writes (\<lambda>d. d\<lparr>t_cart_item := t_cart_item d @ [x]\<rparr>))"

definition set_qty :: "int \<Rightarrow> (int \<Rightarrow> int) \<Rightarrow> db \<Rightarrow> db" where
  "set_qty i f d =
    d\<lparr>t_cart_item := upd (\<lambda>l. ci_id l = i) (\<lambda>l. l\<lparr>ci_qty := f (ci_qty l)\<rparr>) (t_cart_item d)\<rparr>"

definition add_or_increment_item :: "int \<Rightarrow> int \<Rightarrow> int \<Rightarrow> int option \<Rightarrow> cart_item act" where
  "add_or_increment_item cid pid qty vid =
    bindM (readsE (get_item cid pid vid)) (\<lambda>existing.
    case existing of
      Some l \<Rightarrow>
        bindM (writes (set_qty (ci_id l) (\<lambda>q. q + qty))) (\<lambda>_.
        ret (l\<lparr>ci_qty := ci_qty l + qty\<rparr>))
    | None \<Rightarrow>
        bindM (next_id Cart_Item_T) (\<lambda>i.
        let x = \<lparr>ci_id = i, ci_cart_id = cid, ci_product_id = pid, ci_variant_id = vid, ci_qty = qty\<rparr> in
        bindM (insert_item x) (\<lambda>_.
        ret x)))"

definition set_item_qty :: "int \<Rightarrow> int \<Rightarrow> int \<Rightarrow> int option \<Rightarrow> cart_item option act" where
  "set_item_qty cid pid qty vid =
    bindM (readsE (get_item cid pid vid)) (\<lambda>item.
    case item of
      None \<Rightarrow> ret None
    | Some l \<Rightarrow>
        bindM (writes (set_qty (ci_id l) (\<lambda>_. qty))) (\<lambda>_.
        ret (Some (l\<lparr>ci_qty := qty\<rparr>))))"

definition delete_item :: "int \<Rightarrow> int \<Rightarrow> int option \<Rightarrow> bool act" where
  "delete_item cid pid vid =
    bindM (reads (\<lambda>d. rowcount (item_match cid pid vid) (t_cart_item d))) (\<lambda>n.
    bindM (writes (\<lambda>d. d\<lparr>t_cart_item := filter (\<lambda>l. \<not> item_match cid pid vid l) (t_cart_item d)\<rparr>)) (\<lambda>_.
    ret (n \<noteq> 0)))"

definition move_item_to_cart :: "cart_item \<Rightarrow> int \<Rightarrow> unit act" where
  "move_item_to_cart l target =
    bindM (readsE (\<lambda>d. guardE (clash_free (l\<lparr>ci_cart_id := target\<rparr>) d) (IntegrityError ''cart_item''))) (\<lambda>_.
    writes (\<lambda>d. d\<lparr>t_cart_item :=
      upd (\<lambda>r. ci_id r = ci_id l) (\<lambda>r. r\<lparr>ci_cart_id := target\<rparr>) (t_cart_item d)\<rparr>))"

definition delete_cart :: "int \<Rightarrow> unit act" where
  "delete_cart cid =
    bindM (readsE (\<lambda>d. guardE (list_all (\<lambda>l. ci_cart_id l \<noteq> cid) (t_cart_item d))
      (IntegrityError ''cart_item_cart_id_fkey''))) (\<lambda>_.
    writes (\<lambda>d. d\<lparr>t_cart := filter (\<lambda>c. c_id c \<noteq> cid) (t_cart d)\<rparr>))"

definition delete_all_for_user :: "int \<Rightarrow> unit act" where
  "delete_all_for_user uid =
    bindM (reads (\<lambda>d. map c_id (filter (\<lambda>c. c_user_id c = Some uid) (t_cart d)))) (\<lambda>ids.
    bindM (writes (\<lambda>d. d\<lparr>t_cart_item := filter (\<lambda>l. ci_cart_id l \<notin> set ids) (t_cart_item d)\<rparr>)) (\<lambda>_.
    writes (\<lambda>d. d\<lparr>t_cart := filter (\<lambda>c. c_user_id c \<noteq> Some uid) (t_cart d)\<rparr>)))"

subsection \<open>Service: resolution\<close>

definition get_cart_of :: "int option \<Rightarrow> uuid option \<Rightarrow> db \<Rightarrow> exn + cart option" where
  "get_cart_of uid tok d =
    (case uid of
      Some u \<Rightarrow> get_cart_by_user u d
    | None \<Rightarrow>
        (case tok of
          Some t \<Rightarrow> get_cart_by_session_token t d
        | None \<Rightarrow> Inr None))"

definition get_or_create_cart :: "int option \<Rightarrow> uuid option \<Rightarrow> cart act" where
  "get_or_create_cart uid tok =
    bindM (readsE (get_cart_of uid tok)) (\<lambda>c.
    case c of
      Some x \<Rightarrow> ret x
    | None \<Rightarrow> create_cart uid (if uid \<noteq> None then None else tok))"

definition resolve_purchasable :: "int \<Rightarrow> int option \<Rightarrow> db \<Rightarrow> exn + (product \<times> variant option)" where
  "resolve_purchasable pid vid d =
    (case get_product pid d of
      None \<Rightarrow> Inl (ProductNotAvailableError ''Product not available'')
    | Some p \<Rightarrow>
        if \<not> p_is_active p then Inl (ProductNotAvailableError ''Product not available'')
        else if p_has_variants p then
          (case vid of
            None \<Rightarrow> Inl (ProductNotAvailableError ''Variant selection required'')
          | Some v \<Rightarrow>
              (case get_variant v d of
                None \<Rightarrow> Inl (ProductNotAvailableError ''Variant not available'')
              | Some x \<Rightarrow>
                  if v_product_id x \<noteq> p_id p \<or> \<not> v_is_active x
                  then Inl (ProductNotAvailableError ''Variant not available'')
                  else Inr (p, Some x)))
        else if vid \<noteq> None then Inl (ProductNotAvailableError ''Product has no variants'')
        else Inr (p, None))"

subsection \<open>Service: live-priced rendering\<close>

record cart_item_out =
  io_product_id :: int
  io_variant_id :: "int option"
  io_name :: string
  io_variant_label :: "string option"
  io_price :: money
  io_qty :: int
  io_line_total :: money

record cart_out =
  co_items :: "cart_item_out list"
  co_subtotal :: money
  co_item_count :: int

text \<open>
  One row of the rendering loop: \<open>None\<close> where the source says \<open>continue\<close> (inactive product,
  or a variant line whose variant is gone or inactive).
\<close>

definition render_line ::
    "(int \<rightharpoonup> variant) \<Rightarrow> (int \<rightharpoonup> string) \<Rightarrow> cart_item \<times> product \<times> string option \<Rightarrow> cart_item_out option" where
  "render_line variants labels row =
    (case row of (line, p, name) \<Rightarrow>
      if \<not> p_is_active p then None
      else
        let v = lookup_variant variants (ci_variant_id line) in
        if ci_variant_id line \<noteq> None \<and> (case v of None \<Rightarrow> True | Some x \<Rightarrow> \<not> v_is_active x) then None
        else
          let unit_price = (case v of Some x \<Rightarrow> v_price x | None \<Rightarrow> p_price p) in
          Some \<lparr>io_product_id = p_id p,
                io_variant_id = ci_variant_id line,
                io_name = (case name of Some n \<Rightarrow> n | None \<Rightarrow> p_code p),
                io_variant_label = lookup_variant labels (ci_variant_id line),
                io_price = unit_price,
                io_qty = ci_qty line,
                io_line_total = unit_price * of_int (ci_qty line)\<rparr>)"

fun render_loop ::
    "(int \<rightharpoonup> variant) \<Rightarrow> (int \<rightharpoonup> string) \<Rightarrow> (cart_item \<times> product \<times> string option) list
      \<Rightarrow> cart_out \<Rightarrow> cart_out" where
  "render_loop variants labels [] out = out"
| "render_loop variants labels (row # rows) out =
    (case render_line variants labels row of
      None \<Rightarrow> render_loop variants labels rows out
    | Some item \<Rightarrow>
        render_loop variants labels rows
          \<lparr>co_items = co_items out @ [item],
           co_subtotal = co_subtotal out + io_line_total item,
           co_item_count = co_item_count out + io_qty item\<rparr>)"

definition render :: "int \<Rightarrow> string option \<Rightarrow> db \<Rightarrow> cart_out" where
  "render cid lang d =
    (let l = normalize_lang lang;
         rows = list_items cid l d;
         ids = variant_ids_of rows
     in render_loop (get_variants_by_ids ids d) (get_variant_option_labels ids l d) rows
          \<lparr>co_items = [], co_subtotal = 0, co_item_count = 0\<rparr>)"

definition get_cart :: "int option \<Rightarrow> uuid option \<Rightarrow> string option \<Rightarrow> cart_out act" where
  "get_cart uid tok lang =
    bindM (readsE (get_cart_of uid tok)) (\<lambda>c.
    case c of
      None \<Rightarrow> ret \<lparr>co_items = [], co_subtotal = 0, co_item_count = 0\<rparr>
    | Some x \<Rightarrow> reads (render (c_id x) lang))"

subsection \<open>Service: writes\<close>

definition add_item ::
    "int option \<Rightarrow> uuid option \<Rightarrow> int \<Rightarrow> int \<Rightarrow> string option \<Rightarrow> int option \<Rightarrow> cart_out act" where
  "add_item uid tok pid qty lang vid =
    bindM (readsE (resolve_purchasable pid vid)) (\<lambda>(p, v).
    bindM (get_or_create_cart uid tok) (\<lambda>c.
    bindM (add_or_increment_item (c_id c) (p_id p) qty (map_option v_id v)) (\<lambda>_.
    bindM (reads (render (c_id c) lang)) (\<lambda>rendered.
    bindM commit (\<lambda>_.
    ret rendered)))))"

definition update_item ::
    "int option \<Rightarrow> uuid option \<Rightarrow> int \<Rightarrow> int \<Rightarrow> string option \<Rightarrow> int option \<Rightarrow> cart_out act" where
  "update_item uid tok pid qty lang vid =
    bindM (readsE (get_cart_of uid tok)) (\<lambda>c.
    case c of
      None \<Rightarrow> throw (ItemNotFoundError ''Cart is empty'')
    | Some x \<Rightarrow>
        bindM (set_item_qty (c_id x) pid qty vid) (\<lambda>updated.
        if updated = None then throw (ItemNotFoundError ''Item not in cart'')
        else
          bindM (reads (render (c_id x) lang)) (\<lambda>rendered.
          bindM commit (\<lambda>_.
          ret rendered))))"

definition remove_item ::
    "int option \<Rightarrow> uuid option \<Rightarrow> int \<Rightarrow> string option \<Rightarrow> int option \<Rightarrow> cart_out act" where
  "remove_item uid tok pid lang vid =
    bindM (readsE (get_cart_of uid tok)) (\<lambda>c.
    case c of
      None \<Rightarrow> throw (ItemNotFoundError ''Cart is empty'')
    | Some x \<Rightarrow>
        bindM (delete_item (c_id x) pid vid) (\<lambda>removed.
        if \<not> removed then throw (ItemNotFoundError ''Item not in cart'')
        else
          bindM (reads (render (c_id x) lang)) (\<lambda>rendered.
          bindM commit (\<lambda>_.
          ret rendered))))"

text \<open>
  The merge: \<open>user_lines\<close> is read once, then each guest line either adds its quantity to the
  user's line with the same product and variant (and is deleted) or is moved over.
\<close>

definition line_key :: "cart_item \<Rightarrow> int \<times> int option" where
  "line_key l = (ci_product_id l, ci_variant_id l)"

definition merge_line :: "int \<Rightarrow> int \<Rightarrow> (int \<times> int option \<rightharpoonup> cart_item) \<Rightarrow> cart_item \<Rightarrow> unit act" where
  "merge_line user_cid guest_cid user_lines g =
    (case user_lines (line_key g) of
      Some target \<Rightarrow>
        bindM (writes (set_qty (ci_id target) (\<lambda>q. q + ci_qty g))) (\<lambda>_.
        bindM (delete_item guest_cid (ci_product_id g) (ci_variant_id g)) (\<lambda>_.
        ret ()))
    | None \<Rightarrow> move_item_to_cart g user_cid)"

definition merge_guest_into_user :: "int \<Rightarrow> uuid \<Rightarrow> string option \<Rightarrow> cart_out act" where
  "merge_guest_into_user uid tok lang =
    bindM (get_or_create_cart (Some uid) None) (\<lambda>user_cart.
    bindM (readsE (get_cart_by_session_token tok)) (\<lambda>guest.
    case guest of
      None \<Rightarrow>
        bindM (reads (render (c_id user_cart) lang)) (\<lambda>rendered.
        bindM commit (\<lambda>_. ret rendered))
    | Some guest_cart \<Rightarrow>
        if c_id guest_cart = c_id user_cart then
          bindM (reads (render (c_id user_cart) lang)) (\<lambda>rendered.
          bindM commit (\<lambda>_. ret rendered))
        else
          bindM (reads (\<lambda>d. map_of (rev (map (\<lambda>l. (line_key l, l)) (list_raw_items (c_id user_cart) d))))) (\<lambda>user_lines.
          bindM (reads (list_raw_items (c_id guest_cart))) (\<lambda>guest_lines.
          bindM (forEach guest_lines (merge_line (c_id user_cart) (c_id guest_cart) user_lines)) (\<lambda>_.
          bindM (delete_cart (c_id guest_cart)) (\<lambda>_.
          bindM (reads (render (c_id user_cart) lang)) (\<lambda>rendered.
          bindM commit (\<lambda>_. ret rendered))))))))"

end
