(* ===== verification/Cart_Correct.thy ===== *)
theory Cart_Correct
  imports Cart
begin

text \<open>
  Correctness of the cart. The abstraction of a cart is its bag: \<open>cart_qty d cid k\<close> is the
  quantity cart \<open>cid\<close> holds of the product and variant \<open>k\<close>.
\<close>

definition key_of :: "cart_item \<Rightarrow> int \<times> int \<times> int option" where
  "key_of l = (ci_cart_id l, line_key l)"

definition cart_qty :: "db \<Rightarrow> int \<Rightarrow> int \<times> int option \<Rightarrow> int" where
  "cart_qty d cid k = sum_where (\<lambda>l. key_of l = (cid, k)) ci_qty (t_cart_item d)"

text \<open>
  The invariant of the tables: primary keys are unique, a cart has one line per product and
  variant, a line's variant belongs to the line's product, and every line has its cart.
\<close>

definition lines_wf :: "db \<Rightarrow> bool" where
  "lines_wf d \<longleftrightarrow>
    distinct (map ci_id (t_cart_item d)) \<and> distinct (map key_of (t_cart_item d)) \<and>
    (\<forall>l \<in> set (t_cart_item d). \<forall>v. ci_variant_id l = Some v \<longrightarrow>
      (\<exists>x. get_variant v d = Some x \<and> v_product_id x = ci_product_id l))"

definition carts_wf :: "db \<Rightarrow> bool" where
  "carts_wf d \<longleftrightarrow> lines_wf d \<and> distinct (map c_id (t_cart d)) \<and>
    (\<forall>l \<in> set (t_cart_item d). \<exists>c \<in> set (t_cart d). c_id c = ci_cart_id l)"

definition ids_below :: "session \<Rightarrow> db \<Rightarrow> bool" where
  "ids_below s d \<longleftrightarrow> (\<forall>l \<in> set (t_cart_item d). ci_id l < pk_seq s Cart_Item_T) \<and>
    (\<forall>c \<in> set (t_cart d). c_id c < pk_seq s Cart_T)"

definition cart_ok :: "session \<Rightarrow> bool" where
  "cart_ok s \<longleftrightarrow> carts_wf (work s) \<and> carts_wf (committed s) \<and>
    ids_below s (work s) \<and> ids_below s (committed s)"

subsection \<open>Matching and unique rows\<close>

lemma item_match_key [simp]: "item_match cid pid vid l \<longleftrightarrow> key_of l = (cid, pid, vid)"
  by (auto simp: item_match_def variant_match_def key_of_def line_key_def split: option.splits)

lemma item_match_fun: "item_match cid pid vid = (\<lambda>l. key_of l = (cid, pid, vid))"
  by (rule ext) simp

lemma key_of_upd [simp]: "key_of (l\<lparr>ci_qty := q\<rparr>) = key_of l"
  by (simp add: key_of_def line_key_def)

lemma key_of_move [simp]: "key_of (l\<lparr>ci_cart_id := c\<rparr>) = (c, line_key l)"
  by (simp add: key_of_def line_key_def)

lemma line_key_upd [simp]: "line_key (l\<lparr>ci_qty := q\<rparr>) = line_key l" "line_key (l\<lparr>ci_cart_id := c\<rparr>) = line_key l"
  by (simp_all add: line_key_def)

lemma scalar_filter_unique:
  "distinct (map f xs) \<Longrightarrow> scalar_one_or_none (filter (\<lambda>x. f x = k) xs) = Inr (find (\<lambda>x. f x = k) xs)"
proof (induction xs)
  case (Cons x xs)
  show ?case
  proof (cases "f x = k")
    case True
    with distinct_keyD [OF Cons.prems] have "filter (\<lambda>y. f y = k) xs = []"
      by (simp add: filter_empty_conv)
    with True show ?thesis by (simp add: scalar_one_or_none_def)
  next
    case False
    with Cons show ?thesis by simp
  qed
qed (simp add: scalar_one_or_none_def)

lemma get_item_unique:
  "lines_wf d \<Longrightarrow> get_item cid pid vid d = Inr (find (\<lambda>l. key_of l = (cid, pid, vid)) (t_cart_item d))"
  by (simp add: get_item_def item_match_fun lines_wf_def scalar_filter_unique)

lemma clash_key:
  assumes "lines_wf d" "y \<in> set (t_cart_item d)" "items_clash x y"
    and "\<And>v. ci_variant_id x = Some v \<Longrightarrow> \<exists>w. get_variant v d = Some w \<and> v_product_id w = ci_product_id x"
  shows "key_of x = key_of y"
proof (cases "ci_variant_id x")
  case None
  with assms(3) show ?thesis by (auto simp: items_clash_def key_of_def line_key_def)
next
  case (Some v)
  with assms(3) have y: "ci_cart_id y = ci_cart_id x" "ci_variant_id y = Some v"
    by (auto simp: items_clash_def)
  from assms(1,2) y(2) obtain w where "get_variant v d = Some w" "v_product_id w = ci_product_id y"
    by (auto simp: lines_wf_def)
  with assms(4) [OF Some] Some y show ?thesis by (auto simp: key_of_def line_key_def)
qed

lemma clash_freeI:
  assumes "lines_wf d"
    and "\<And>v. ci_variant_id x = Some v \<Longrightarrow> \<exists>w. get_variant v d = Some w \<and> v_product_id w = ci_product_id x"
    and "\<And>y. y \<in> set (t_cart_item d) \<Longrightarrow> ci_id y \<noteq> ci_id x \<Longrightarrow> key_of y \<noteq> key_of x"
  shows "clash_free x d"
  unfolding clash_free_def list_all_iff using clash_key [OF assms(1)] assms(2,3) by metis

subsection \<open>The bag after each primitive write\<close>

lemma sum_upd_one:
  "distinct (map ci_id ls) \<Longrightarrow> l \<in> set ls \<Longrightarrow>
    sum_where (\<lambda>l. key_of l = kk) ci_qty (upd (\<lambda>r. ci_id r = ci_id l) (\<lambda>r. r\<lparr>ci_qty := f (ci_qty r)\<rparr>) ls)
    = sum_where (\<lambda>l. key_of l = kk) ci_qty ls + (if key_of l = kk then f (ci_qty l) - ci_qty l else 0)"
proof (induction ls)
  case (Cons x xs)
  show ?case
  proof (cases "x = l")
    case True
    then have "upd (\<lambda>r. ci_id r = ci_id l) (\<lambda>r. r\<lparr>ci_qty := f (ci_qty r)\<rparr>) xs = xs"
      using distinct_keyD [OF Cons.prems(1)] by (intro upd_none) simp
    with True show ?thesis by simp
  next
    case False
    then have "ci_id x \<noteq> ci_id l" using Cons.prems by auto
    with False Cons show ?thesis by auto
  qed
qed simp

lemma cart_qty_set_qty:
  "lines_wf d \<Longrightarrow> l \<in> set (t_cart_item d) \<Longrightarrow>
    cart_qty (set_qty (ci_id l) f d) cid k
    = cart_qty d cid k + (if key_of l = (cid, k) then f (ci_qty l) - ci_qty l else 0)"
  by (simp add: cart_qty_def set_qty_def lines_wf_def sum_upd_one)

lemma sum_where_key:
  "distinct (map k rows) \<Longrightarrow>
    sum_where (\<lambda>r. k r = kk) f rows = (case find (\<lambda>r. k r = kk) rows of None \<Rightarrow> 0 | Some r \<Rightarrow> f r)"
proof (induction rows)
  case (Cons x xs)
  have "k x = kk \<Longrightarrow> find (\<lambda>r. k r = kk) xs = None"
    using distinct_keyD [OF Cons.prems] by (simp add: find_None_iff)
  with Cons show ?case by simp
qed simp

lemma cart_qty_find:
  "lines_wf d \<Longrightarrow> cart_qty d cid k =
    (case find (\<lambda>l. key_of l = (cid, k)) (t_cart_item d) of None \<Rightarrow> 0 | Some l \<Rightarrow> ci_qty l)"
  by (simp add: cart_qty_def lines_wf_def sum_where_key)

lemma get_variant_items [simp]:
  "get_variant v (d\<lparr>t_cart_item := x\<rparr>) = get_variant v d"
  "get_variant v (d\<lparr>t_cart := y\<rparr>) = get_variant v d"
  by (simp_all add: get_variant_def)

definition variant_ok :: "db \<Rightarrow> cart_item \<Rightarrow> bool" where
  "variant_ok d l \<longleftrightarrow> (\<forall>v. ci_variant_id l = Some v \<longrightarrow>
      (\<exists>x. get_variant v d = Some x \<and> v_product_id x = ci_product_id l))"

lemma variant_ok_frame [simp]:
  "variant_ok (d\<lparr>t_cart_item := x\<rparr>) l = variant_ok d l"
  "variant_ok (d\<lparr>t_cart := y\<rparr>) l = variant_ok d l"
  "variant_ok d (l\<lparr>ci_qty := q\<rparr>) = variant_ok d l"
  "variant_ok d (l\<lparr>ci_cart_id := c\<rparr>) = variant_ok d l"
  by (simp_all add: variant_ok_def)

lemma lines_wf_alt:
  "lines_wf d \<longleftrightarrow> distinct (map ci_id (t_cart_item d)) \<and> distinct (map key_of (t_cart_item d)) \<and>
    (\<forall>l \<in> set (t_cart_item d). variant_ok d l)"
  by (simp add: lines_wf_def variant_ok_def)

lemma lines_wf_set_qty: "lines_wf d \<Longrightarrow> lines_wf (set_qty i f d)"
  by (auto simp: lines_wf_alt set_qty_def map_upd_key set_upd)

lemma lines_wf_append:
  assumes "lines_wf d" "variant_ok d x"
    and "\<And>l. l \<in> set (t_cart_item d) \<Longrightarrow> ci_id l \<noteq> ci_id x \<and> key_of l \<noteq> key_of x"
  shows "lines_wf (d\<lparr>t_cart_item := t_cart_item d @ [x]\<rparr>)"
proof -
  have "ci_id x \<notin> ci_id ` set (t_cart_item d)" "key_of x \<notin> key_of ` set (t_cart_item d)"
    using assms(3) by (metis imageE)+
  then show ?thesis using assms(1,2) by (simp add: lines_wf_alt)
qed

lemma lines_wf_filter: "lines_wf d \<Longrightarrow> lines_wf (d\<lparr>t_cart_item := filter P (t_cart_item d)\<rparr>)"
  by (auto simp: lines_wf_alt distinct_map_filter)

lemma distinct_map_upd:
  assumes "distinct (map k rows)" "\<And>r. r \<in> set rows \<Longrightarrow> P r \<Longrightarrow> r = l"
    and "\<And>r. r \<in> set rows \<Longrightarrow> r \<noteq> l \<Longrightarrow> k r \<noteq> k (f l)"
  shows "distinct (map k (upd P f rows))"
  using assms
proof (induction rows)
  case (Cons x xs)
  have IH: "distinct (map k (upd P f xs))" using Cons by auto
  have "k (if P x then f x else x) \<notin> k ` set (upd P f xs)"
  proof
    assume "k (if P x then f x else x) \<in> k ` set (upd P f xs)"
    then obtain y where y: "y \<in> set xs" "k (if P x then f x else x) = k (if P y then f y else y)"
      by (auto simp: set_upd)
    have ne: "k y \<noteq> k x" using distinct_keyD [OF Cons.prems(1) y(1)] .
    have xl: "P x \<Longrightarrow> x = l" and yl: "P y \<Longrightarrow> y = l"
      using Cons.prems(2) y(1) by simp_all
    have fx: "x \<noteq> l \<Longrightarrow> k x \<noteq> k (f l)" and fy: "y \<noteq> l \<Longrightarrow> k y \<noteq> k (f l)"
      using Cons.prems(3) y(1) by simp_all
    show False
      using y(2) ne xl yl fx fy by metis
  qed
  with IH show ?case by simp
qed simp

lemma lines_wf_move:
  assumes wf: "lines_wf d" and l: "l \<in> set (t_cart_item d)"
    and free: "\<And>r. r \<in> set (t_cart_item d) \<Longrightarrow> r \<noteq> l \<Longrightarrow> key_of r \<noteq> (c, line_key l)"
  shows "lines_wf (d\<lparr>t_cart_item := upd (\<lambda>r. ci_id r = ci_id l) (\<lambda>r. r\<lparr>ci_cart_id := c\<rparr>) (t_cart_item d)\<rparr>)"
proof -
  have inj: "r = l" if "r \<in> set (t_cart_item d)" "ci_id r = ci_id l" for r
    using wf l that distinct_key_inj by (auto simp: lines_wf_alt)
  have "distinct (map key_of (upd (\<lambda>r. ci_id r = ci_id l) (\<lambda>r. r\<lparr>ci_cart_id := c\<rparr>) (t_cart_item d)))"
    using wf inj free by (intro distinct_map_upd [where l = l]) (auto simp: lines_wf_alt)
  then show ?thesis
    using wf by (auto simp: lines_wf_alt map_upd_key set_upd)
qed

subsection \<open>The bag after insertion, deletion and moves\<close>

lemma cart_qty_append [simp]:
  "cart_qty (d\<lparr>t_cart_item := t_cart_item d @ [x]\<rparr>) cid k
    = cart_qty d cid k + (if key_of x = (cid, k) then ci_qty x else 0)"
  by (simp add: cart_qty_def)

lemma cart_qty_carts [simp]: "cart_qty (d\<lparr>t_cart := y\<rparr>) cid k = cart_qty d cid k"
  by (simp add: cart_qty_def)

lemma cart_qty_delete:
  "cart_qty (d\<lparr>t_cart_item := filter (\<lambda>l. key_of l \<noteq> kk) (t_cart_item d)\<rparr>) cid k
    = (if (cid, k) = kk then 0 else cart_qty d cid k)"
proof -
  have "sum_where (\<lambda>l. key_of l = (cid, k)) ci_qty (filter (\<lambda>l. key_of l \<noteq> kk) ls) =
      (if (cid, k) = kk then 0 else sum_where (\<lambda>l. key_of l = (cid, k)) ci_qty ls)" for ls
    by (induction ls) auto
  then show ?thesis by (simp add: cart_qty_def)
qed

lemma cart_qty_move:
  assumes "distinct (map ci_id (t_cart_item d))" "l \<in> set (t_cart_item d)" "ci_cart_id l \<noteq> c"
  shows "cart_qty (d\<lparr>t_cart_item := upd (\<lambda>r. ci_id r = ci_id l) (\<lambda>r. r\<lparr>ci_cart_id := c\<rparr>) (t_cart_item d)\<rparr>) cid k
    = cart_qty d cid k + (if k = line_key l
        then (if cid = c then ci_qty l else if cid = ci_cart_id l then - ci_qty l else 0) else 0)"
proof -
  have "sum_where (\<lambda>l. key_of l = (cid, k)) ci_qty (upd (\<lambda>r. ci_id r = ci_id l) (\<lambda>r. r\<lparr>ci_cart_id := c\<rparr>) ls)
    = sum_where (\<lambda>l. key_of l = (cid, k)) ci_qty ls + (if k = line_key l
        then (if cid = c then ci_qty l else if cid = ci_cart_id l then - ci_qty l else 0) else 0)"
    if "distinct (map ci_id ls)" "l \<in> set ls" for ls
    using that
  proof (induction ls)
    case (Cons x xs)
    show ?case
    proof (cases "x = l")
      case True
      then have "upd (\<lambda>r. ci_id r = ci_id l) (\<lambda>r. r\<lparr>ci_cart_id := c\<rparr>) xs = xs"
        using distinct_keyD [OF Cons.prems(1)] by (intro upd_none) simp
      with True assms(3) show ?thesis by (auto simp: key_of_def)
    next
      case False
      then have "ci_id x \<noteq> ci_id l" using Cons.prems by auto
      with False Cons show ?thesis by auto
    qed
  qed simp
  then show ?thesis using assms by (simp add: cart_qty_def)
qed

subsection \<open>Primitive actions\<close>

text \<open>What the line actions leave alone: everything but the lines of the view and the sequences.\<close>

definition items_step :: "session \<Rightarrow> session \<Rightarrow> bool" where
  "items_step s s' \<longleftrightarrow> (\<exists>ls sq. s' = s\<lparr>work := (work s)\<lparr>t_cart_item := ls\<rparr>, pk_seq := sq\<rparr>)"

lemma items_step_frame:
  assumes "items_step s s'"
  shows "committed s' = committed s" "outbox s' = outbox s"
    "t_cart (work s') = t_cart (work s)" "t_product (work s') = t_product (work s)"
    "get_cart_of uid tok (work s') = get_cart_of uid tok (work s)"
    "get_variant v (work s') = get_variant v (work s)"
  using assms
  by (auto simp: items_step_def get_cart_of_def get_cart_by_user_def get_cart_by_session_token_def
      get_variant_def split: option.splits)

lemma add_or_increment_ok:
  assumes wf: "lines_wf (work s)" and ids: "\<And>l. l \<in> set (t_cart_item (work s)) \<Longrightarrow> ci_id l < pk_seq s Cart_Item_T"
    and vid: "\<forall>v. vid = Some v \<longrightarrow> (\<exists>x. get_variant v (work s) = Some x \<and> v_product_id x = pid)"
  obtains x s' where "add_or_increment_item cid pid qty vid s = (Inr x, s')" "items_step s s'"
    "lines_wf (work s')"
    "\<And>c k. cart_qty (work s') c k = cart_qty (work s) c k + (if c = cid \<and> k = (pid, vid) then qty else 0)"
    "\<And>l. l \<in> set (t_cart_item (work s')) \<Longrightarrow> ci_id l < pk_seq s' Cart_Item_T \<and>
      (ci_cart_id l = cid \<or> (\<exists>r \<in> set (t_cart_item (work s)). ci_cart_id r = ci_cart_id l))"
    "pk_seq s' Cart_T = pk_seq s Cart_T" "pk_seq s Cart_Item_T \<le> pk_seq s' Cart_Item_T"
proof (cases "find (\<lambda>l. key_of l = (cid, pid, vid)) (t_cart_item (work s))")
  case (Some l)
  then have l: "l \<in> set (t_cart_item (work s))" "key_of l = (cid, pid, vid)"
    by (auto dest: find_SomeD)
  let ?s' = "s\<lparr>work := set_qty (ci_id l) (\<lambda>q. q + qty) (work s)\<rparr>"
  have run: "add_or_increment_item cid pid qty vid s = (Inr (l\<lparr>ci_qty := ci_qty l + qty\<rparr>), ?s')"
    using Some by (simp add: add_or_increment_item_def bindM_app get_item_unique [OF wf])
  show thesis
  proof (rule that [OF run])
    show "items_step s ?s'"
      by (auto simp: items_step_def set_qty_def intro!: exI [of _ "pk_seq s"])
    show "cart_qty (work ?s') c k = cart_qty (work s) c k + (if c = cid \<and> k = (pid, vid) then qty else 0)" for c k
      using l by (auto simp: cart_qty_set_qty [OF wf])
    show "ci_id r < pk_seq ?s' Cart_Item_T \<and>
        (ci_cart_id r = cid \<or> (\<exists>q \<in> set (t_cart_item (work s)). ci_cart_id q = ci_cart_id r))"
      if "r \<in> set (t_cart_item (work ?s'))" for r
      using that ids l(1) by (auto simp: set_qty_def set_upd split: if_splits)
  qed (use wf in \<open>simp_all add: lines_wf_set_qty\<close>)
next
  case None
  let ?i = "pk_seq s Cart_Item_T"
  let ?x = "\<lparr>ci_id = ?i, ci_cart_id = cid, ci_product_id = pid, ci_variant_id = vid, ci_qty = qty\<rparr>"
  let ?s' = "s\<lparr>work := (work s)\<lparr>t_cart_item := t_cart_item (work s) @ [?x]\<rparr>,
      pk_seq := (pk_seq s)(Cart_Item_T := ?i + 1)\<rparr>"
  have key: "key_of ?x = (cid, pid, vid)" by (simp add: key_of_def line_key_def)
  have new: "ci_id l \<noteq> ci_id ?x \<and> key_of l \<noteq> key_of ?x" if "l \<in> set (t_cart_item (work s))" for l
    using None ids [OF that] that unfolding key by (auto simp: find_None_iff)
  have "clash_free ?x (work s)"
    using vid new by (intro clash_freeI [OF wf]) auto
  then have run: "add_or_increment_item cid pid qty vid s = (Inr ?x, ?s')"
    using None by (simp add: add_or_increment_item_def insert_item_def bindM_app Let_def get_item_unique [OF wf])
  show thesis
  proof (rule that [OF run])
    show "items_step s ?s'"
      by (auto simp: items_step_def)
    show "lines_wf (work ?s')"
      using wf vid new by (auto intro!: lines_wf_append simp: variant_ok_def)
    show "cart_qty (work ?s') c k = cart_qty (work s) c k + (if c = cid \<and> k = (pid, vid) then qty else 0)" for c k
      by (auto simp: key)
    show "ci_id r < pk_seq ?s' Cart_Item_T \<and>
        (ci_cart_id r = cid \<or> (\<exists>q \<in> set (t_cart_item (work s)). ci_cart_id q = ci_cart_id r))"
      if "r \<in> set (t_cart_item (work ?s'))" for r
      using that ids by (fastforce)
  qed simp_all
qed

lemma resolve_purchasable_Inr:
  "resolve_purchasable pid vid d = Inr (p, v) \<Longrightarrow>
    get_product pid d = Some p \<and> p_id p = pid \<and> p_is_active p \<and>
    (case v of None \<Rightarrow> vid = None \<and> \<not> p_has_variants p
     | Some x \<Rightarrow> vid = Some (v_id x) \<and> p_has_variants p \<and> get_variant (v_id x) d = Some x
         \<and> v_product_id x = pid \<and> v_is_active x)"
  by (auto simp: resolve_purchasable_def dest: get_product_key get_variant_key
      dest!: sym [of "Some _" "get_variant _ _"] split: option.splits if_splits)

lemma scalar_one_or_none_Inr:
  "scalar_one_or_none rows = Inr r \<longleftrightarrow> (case r of None \<Rightarrow> rows = [] | Some x \<Rightarrow> rows = [x])"
  by (auto simp: scalar_one_or_none_def split: list.splits option.splits)

lemma get_cart_of_mem: "get_cart_of uid tok d = Inr (Some c) \<Longrightarrow> c \<in> set (t_cart d)"
  by (auto simp: get_cart_of_def get_cart_by_user_def get_cart_by_session_token_def
      scalar_one_or_none_Inr filter_eq_Cons_iff split: option.splits)

lemma get_or_create_ok:
  assumes ok: "cart_ok s" and owner: "uid \<noteq> None \<or> tok \<noteq> None"
    and one: "get_cart_of uid tok (work s) = Inr r"
  obtains c s' where "get_or_create_cart uid tok s = (Inr c, s')" "cart_ok s'"
    "get_cart_of uid tok (work s') = Inr (Some c)" "c \<in> set (t_cart (work s'))"
    "committed s' = committed s" "t_cart_item (work s') = t_cart_item (work s)"
    "\<And>v. get_variant v (work s') = get_variant v (work s)"
    "\<And>x. r = Some x \<Longrightarrow> s' = s \<and> c = x"
    "r = None \<Longrightarrow> (\<forall>l \<in> set (t_cart_item (work s)). ci_cart_id l \<noteq> c_id c)"
proof (cases r)
  case (Some x)
  with one have "get_or_create_cart uid tok s = (Inr x, s)"
    by (simp add: get_or_create_cart_def bindM_app)
  with Some one ok show thesis
    by (intro that [of x s]) (auto dest: get_cart_of_mem)
next
  case None
  let ?i = "pk_seq s Cart_T"
  let ?c = "\<lparr>c_id = ?i, c_user_id = uid, c_session_token = (if uid \<noteq> None then None else tok),
      c_status = ACTIVE_STATUS\<rparr>"
  let ?s' = "s\<lparr>work := (work s)\<lparr>t_cart := t_cart (work s) @ [?c]\<rparr>, pk_seq := (pk_seq s)(Cart_T := ?i + 1)\<rparr>"
  have run: "get_or_create_cart uid tok s = (Inr ?c, ?s')"
    using None one by (simp add: get_or_create_cart_def create_cart_def bindM_app Let_def)
  have low: "\<And>c. c \<in> set (t_cart (work s)) \<Longrightarrow> c_id c \<noteq> ?i" "\<And>c. c \<in> set (t_cart (work s)) \<Longrightarrow> c_id c < ?i"
    "\<And>c. c \<in> set (t_cart (committed s)) \<Longrightarrow> c_id c < ?i"
    using ok by (force simp: cart_ok_def ids_below_def)+
  have fresh: "ci_cart_id l \<noteq> ?i" if "l \<in> set (t_cart_item (work s))" for l
    using ok that low(1) by (fastforce simp: cart_ok_def carts_wf_def)
  have "?i \<notin> c_id ` set (t_cart (work s))"
    using low(1) by (metis imageE)
  then have "cart_ok ?s'"
    using ok low(2,3) unfolding cart_ok_def carts_wf_def ids_below_def
    by (auto simp: lines_wf_alt less_imp_le intro: zless_add1_eq [THEN iffD2])
  moreover have "get_cart_of uid tok (work ?s') = Inr (Some ?c)"
    using one owner None
    by (auto simp: get_cart_of_def get_cart_by_user_def get_cart_by_session_token_def
        scalar_one_or_none_Inr split: option.splits)
  ultimately show thesis
    using None fresh by (intro that [OF run]) auto
qed

lemma cart_ok_items:
  assumes "cart_ok s" "items_step s s'" "lines_wf (work s')" "pk_seq s' Cart_T = pk_seq s Cart_T"
    and "pk_seq s Cart_Item_T \<le> pk_seq s' Cart_Item_T"
    and "\<And>l. l \<in> set (t_cart_item (work s')) \<Longrightarrow> ci_id l < pk_seq s' Cart_Item_T \<and>
      (\<exists>c \<in> set (t_cart (work s)). c_id c = ci_cart_id l)"
  shows "cart_ok s'"
proof -
  note fr = items_step_frame [OF assms(2)]
  have "ids_below s' (committed s')"
    using assms(1,4,5) unfolding cart_ok_def ids_below_def fr by fastforce
  moreover have "ids_below s' (work s')"
    using assms(1,4,6) unfolding cart_ok_def ids_below_def fr by fastforce
  moreover have "carts_wf (work s')" "carts_wf (committed s')"
    using assms(1,3,6) unfolding cart_ok_def carts_wf_def fr by blast+
  ultimately show ?thesis by (simp add: cart_ok_def)
qed

lemma cart_ok_commit: "cart_ok s \<Longrightarrow> cart_ok (s\<lparr>committed := work s\<rparr>)"
  by (simp add: cart_ok_def ids_below_def)

lemma cart_ok_end_request: "cart_ok s \<Longrightarrow> cart_ok (end_request s)"
  by (simp add: cart_ok_def ids_below_def end_request_def)

lemma cart_okD:
  assumes "cart_ok s"
  shows "lines_wf (work s)" "carts_wf (work s)"
    "\<And>l. l \<in> set (t_cart_item (work s)) \<Longrightarrow> ci_id l < pk_seq s Cart_Item_T"
    "\<And>l. l \<in> set (t_cart_item (work s)) \<Longrightarrow> \<exists>c \<in> set (t_cart (work s)). c_id c = ci_cart_id l"
  using assms by (auto simp: cart_ok_def carts_wf_def ids_below_def)

subsection \<open>The use-cases on the bag\<close>

text \<open>Adding never fails once the product resolves and the caller has at most one draft cart.\<close>

lemma add_item_run:
  assumes ok: "cart_ok s" and owner: "uid \<noteq> None \<or> tok \<noteq> None"
    and res: "resolve_purchasable pid vid (work s) = Inr (p, v)"
    and one: "get_cart_of uid tok (work s) = Inr r"
  obtains c s' where "add_item uid tok pid qty lang vid s = (Inr (render (c_id c) lang (work s')), s')"
    "cart_ok s'" "committed s' = work s'" "outbox s' = outbox s"
    "get_cart_of uid tok (work s') = Inr (Some c)"
    "\<And>x. r = Some x \<Longrightarrow> c = x"
    "\<And>cid k. cart_qty (work s') cid k =
      (if cid = c_id c \<and> r = None then 0 else cart_qty (work s) cid k)
        + (if cid = c_id c \<and> k = (pid, vid) then qty else 0)"
proof -
  obtain c s1 where s1: "get_or_create_cart uid tok s = (Inr c, s1)" "cart_ok s1"
    "get_cart_of uid tok (work s1) = Inr (Some c)" "c \<in> set (t_cart (work s1))"
    "committed s1 = committed s" "t_cart_item (work s1) = t_cart_item (work s)"
    "\<And>v. get_variant v (work s1) = get_variant v (work s)"
    "\<And>x. r = Some x \<Longrightarrow> s1 = s \<and> c = x"
    "r = None \<Longrightarrow> (\<forall>l \<in> set (t_cart_item (work s)). ci_cart_id l \<noteq> c_id c)"
    by (rule get_or_create_ok [OF ok owner one]) (rule that; simp)
  have v: "p_id p = pid" "map_option v_id v = vid"
    "\<forall>i. vid = Some i \<longrightarrow> (\<exists>x. get_variant i (work s1) = Some x \<and> v_product_id x = pid)"
    using resolve_purchasable_Inr [OF res] by (auto simp: s1(7) split: option.splits)
  obtain x s2 where s2: "add_or_increment_item (c_id c) pid qty vid s1 = (Inr x, s2)" "items_step s1 s2"
    "lines_wf (work s2)"
    "\<And>ca k. cart_qty (work s2) ca k = cart_qty (work s1) ca k + (if ca = c_id c \<and> k = (pid, vid) then qty else 0)"
    "\<And>l. l \<in> set (t_cart_item (work s2)) \<Longrightarrow> ci_id l < pk_seq s2 Cart_Item_T \<and>
      (ci_cart_id l = c_id c \<or> (\<exists>r \<in> set (t_cart_item (work s1)). ci_cart_id r = ci_cart_id l))"
    "pk_seq s2 Cart_T = pk_seq s1 Cart_T" "pk_seq s1 Cart_Item_T \<le> pk_seq s2 Cart_Item_T"
    by (rule add_or_increment_ok [where cid = "c_id c" and qty = qty, OF cart_okD(1,3) [OF s1(2)] v(3)])
      (assumption, (rule that; (assumption | simp)))
  let ?s' = "s2\<lparr>committed := work s2\<rparr>"
  have "cart_ok s2"
    using cart_ok_items [OF s1(2) s2(2,3,6,7)] s2(5) s1(4) cart_okD(4) [OF s1(2)] by metis
  then have ok': "cart_ok ?s'" by (rule cart_ok_commit)
  have run: "add_item uid tok pid qty lang vid s = (Inr (render (c_id c) lang (work ?s')), ?s')"
    using res s1(1) s2(1) by (simp add: add_item_def bindM_app v)
  have "outbox s1 = outbox s"
    using s1(1) by (auto simp: get_or_create_cart_def create_cart_def bindM_app Let_def
        split: option.splits sum.splits if_splits)
  then have outb: "outbox ?s' = outbox s"
    using items_step_frame(2) [OF s2(2)] by simp
  have "cart_qty (work s1) cid k = (if cid = c_id c \<and> r = None then 0 else cart_qty (work s) cid k)" for cid k
    using s1(6,9) by (auto simp: cart_qty_def key_of_def sum_where_def filter_empty_conv)
  then show thesis
    using that [OF run ok'] outb s1(3,8) s2(4) items_step_frame(5) [OF s2(2)] by simp
qed

text \<open>
  Every use-case that raises leaves the published tables as they were, and an
  \<open>IntegrityError\<close> never comes out of the cart: the unique indexes are never violated.
\<close>

lemma add_item_errors:
  assumes ok: "cart_ok s" and owner: "uid \<noteq> None \<or> tok \<noteq> None"
    and err: "add_item uid tok pid qty lang vid s = (Inl e, s')"
  shows "(\<exists>m. e = ProductNotAvailableError m) \<or> e = MultipleResultsFound"
proof (cases "resolve_purchasable pid vid (work s)")
  case (Inl e')
  with err show ?thesis
    by (auto simp: add_item_def bindM_app resolve_purchasable_def split: option.splits if_splits)
next
  case (Inr pv)
  then obtain p v where pv: "resolve_purchasable pid vid (work s) = Inr (p, v)" by (cases pv) auto
  show ?thesis
  proof (cases "get_cart_of uid tok (work s)")
    case (Inl e')
    moreover from Inl have "e' = MultipleResultsFound"
      by (auto simp: get_cart_of_def get_cart_by_user_def get_cart_by_session_token_def
          scalar_one_or_none_def split: option.splits list.splits)
    ultimately show ?thesis
      using err pv by (simp add: add_item_def get_or_create_cart_def bindM_app)
  next
    case (Inr r)
    then show ?thesis
      using add_item_run [OF ok owner pv Inr, of qty lang] err by (metis Inl_Inr_False prod.inject)
  qed
qed


text \<open>Updating and removing: exactly the named line changes, or nothing does.\<close>

lemma get_item_mem:
  "lines_wf d \<Longrightarrow> get_item cid pid vid d = Inr (Some l) \<longleftrightarrow> l \<in> set (t_cart_item d) \<and> key_of l = (cid, pid, vid)"
proof -
  assume wf: "lines_wf d"
  have "find (\<lambda>x. key_of x = key_of l) (t_cart_item d) = Some l" if "l \<in> set (t_cart_item d)"
    using wf that by (intro find_key_unique) (auto simp: lines_wf_def)
  then show ?thesis
    by (auto simp: get_item_unique [OF wf] dest: find_SomeD)
qed

lemma update_item_run:
  fixes qty :: int
  assumes ok: "cart_ok s" and c: "get_cart_of uid tok (work s) = Inr (Some c)"
    and l: "get_item (c_id c) pid vid (work s) = Inr (Some l)"
  defines "d' \<equiv> set_qty (ci_id l) (\<lambda>_. qty) (work s)"
  shows "update_item uid tok pid qty lang vid s
      = (Inr (render (c_id c) lang d'), s\<lparr>work := d', committed := d'\<rparr>)"
    and "cart_ok (s\<lparr>work := d', committed := d'\<rparr>)"
    and "cart_qty d' cid k = (if cid = c_id c \<and> k = (pid, vid) then qty else cart_qty (work s) cid k)"
proof -
  note wf = cart_okD(1) [OF ok]
  from l have mem: "l \<in> set (t_cart_item (work s))" "key_of l = (c_id c, pid, vid)"
    by (simp_all add: get_item_mem [OF wf])
  show "update_item uid tok pid qty lang vid s
      = (Inr (render (c_id c) lang d'), s\<lparr>work := d', committed := d'\<rparr>)"
    using c l by (simp add: update_item_def set_item_qty_def bindM_app d'_def)
  have "cart_ok (s\<lparr>work := d'\<rparr>)"
  proof (rule cart_ok_items [OF ok])
    show "items_step s (s\<lparr>work := d'\<rparr>)"
      by (auto simp: items_step_def d'_def set_qty_def intro!: exI [of _ "pk_seq s"])
    show "ci_id r < pk_seq (s\<lparr>work := d'\<rparr>) Cart_Item_T \<and> (\<exists>c \<in> set (t_cart (work s)). c_id c = ci_cart_id r)"
      if "r \<in> set (t_cart_item (work (s\<lparr>work := d'\<rparr>)))" for r
      using that cart_okD(3,4) [OF ok] by (fastforce simp: d'_def set_qty_def set_upd split: if_splits)
  qed (use wf in \<open>simp_all add: d'_def lines_wf_set_qty\<close>)
  then show "cart_ok (s\<lparr>work := d', committed := d'\<rparr>)"
    using cart_ok_commit by fastforce
  have "cart_qty (work s) (c_id c) (pid, vid) = ci_qty l"
    using l by (simp add: cart_qty_find [OF wf] get_item_unique [OF wf])
  then show "cart_qty d' cid k = (if cid = c_id c \<and> k = (pid, vid) then qty else cart_qty (work s) cid k)"
    using mem by (auto simp: d'_def cart_qty_set_qty [OF wf])
qed

lemma remove_item_run:
  fixes pid :: int and vid :: "int option"
  assumes ok: "cart_ok s" and c: "get_cart_of uid tok (work s) = Inr (Some c)"
    and l: "l \<in> set (t_cart_item (work s))" "key_of l = (c_id c, pid, vid)"
  defines "d' \<equiv> (work s)\<lparr>t_cart_item := filter (\<lambda>l. key_of l \<noteq> (c_id c, pid, vid)) (t_cart_item (work s))\<rparr>"
  shows "remove_item uid tok pid lang vid s
      = (Inr (render (c_id c) lang d'), s\<lparr>work := d', committed := d'\<rparr>)"
    and "cart_ok (s\<lparr>work := d', committed := d'\<rparr>)"
    and "cart_qty d' cid k = (if cid = c_id c \<and> k = (pid, vid) then 0 else cart_qty (work s) cid k)"
proof -
  note wf = cart_okD(1) [OF ok]
  show "remove_item uid tok pid lang vid s
      = (Inr (render (c_id c) lang d'), s\<lparr>work := d', committed := d'\<rparr>)"
    using c l by (auto simp: remove_item_def delete_item_def bindM_app d'_def)
  have "cart_ok (s\<lparr>work := d'\<rparr>)"
    using ok wf by (intro cart_ok_items [OF ok])
      (auto simp: items_step_def d'_def lines_wf_filter cart_okD(3,4) intro!: exI [of _ "pk_seq s"])
  then show "cart_ok (s\<lparr>work := d', committed := d'\<rparr>)"
    using cart_ok_commit by fastforce
  show "cart_qty d' cid k = (if cid = c_id c \<and> k = (pid, vid) then 0 else cart_qty (work s) cid k)"
    by (auto simp: d'_def cart_qty_delete)
qed


subsection \<open>The merge\<close>

definition merge_inv :: "db \<Rightarrow> int \<Rightarrow> int \<Rightarrow> (int \<times> int option \<rightharpoonup> cart_item) \<Rightarrow> cart_item list \<Rightarrow> db \<Rightarrow> bool" where
  "merge_inv d0 u g ul gs d \<longleftrightarrow>
    lines_wf d \<and> d = d0\<lparr>t_cart_item := t_cart_item d\<rparr> \<and> list_raw_items g d = gs \<and>
    (\<forall>x \<in> set gs. case ul (line_key x) of
       Some t \<Rightarrow> \<exists>r \<in> set (t_cart_item d). ci_id r = ci_id t \<and> key_of r = (u, line_key x)
     | None \<Rightarrow> \<forall>r \<in> set (t_cart_item d). key_of r \<noteq> (u, line_key x)) \<and>
    (\<forall>k. cart_qty d u k + cart_qty d g k = cart_qty d0 u k + cart_qty d0 g k) \<and>
    (\<forall>cid k. cid \<noteq> u \<longrightarrow> cid \<noteq> g \<longrightarrow> cart_qty d cid k = cart_qty d0 cid k) \<and>
    (\<forall>r \<in> set (t_cart_item d). \<exists>r0 \<in> set (t_cart_item d0). ci_id r = ci_id r0 \<and>
       (ci_cart_id r = u \<or> ci_cart_id r = ci_cart_id r0))"

lemma filter_upd_drop:
  "(\<And>r. r \<in> set rows \<Longrightarrow> P r \<Longrightarrow> \<not> Q (f r)) \<Longrightarrow>
    filter Q (upd P f rows) = filter (\<lambda>r. Q r \<and> \<not> P r) rows"
  by (induction rows) auto

lemma list_raw_step:
  assumes wf: "lines_wf d" and raw: "list_raw_items g d = x # xs"
  shows "x \<in> set (t_cart_item d)" "ci_cart_id x = g"
    "filter (\<lambda>l. ci_cart_id l = g \<and> ci_id l \<noteq> ci_id x) (t_cart_item d) = xs"
    "filter (\<lambda>l. ci_cart_id l = g \<and> key_of l \<noteq> (g, line_key x)) (t_cart_item d) = xs"
    "\<And>y. y \<in> set xs \<Longrightarrow> line_key y \<noteq> line_key x"
proof -
  have mem: "x \<in> set (list_raw_items g d)" using raw by simp
  then show "x \<in> set (t_cart_item d)" "ci_cart_id x = g"
    by (auto simp: list_raw_items_def)
  have "distinct (map ci_id (x # xs))" "distinct (map key_of (x # xs))"
    using wf unfolding raw [symmetric] list_raw_items_def lines_wf_def
    by (auto intro: distinct_map_filter)
  then have ne: "y \<in> set xs \<Longrightarrow> ci_id y \<noteq> ci_id x" "y \<in> set xs \<Longrightarrow> key_of y \<noteq> key_of x" for y
    by (metis distinct_keyD)+
  have gs: "y \<in> set xs \<Longrightarrow> ci_cart_id y = g" for y
    using raw by (auto simp: list_raw_items_def filter_eq_Cons_iff)
  show ky: "\<And>y. y \<in> set xs \<Longrightarrow> line_key y \<noteq> line_key x"
    using ne(2) gs \<open>ci_cart_id x = g\<close> by (auto simp: key_of_def)
  have "filter (\<lambda>l. ci_cart_id l = g \<and> Q l) (t_cart_item d) = filter Q (x # xs)" for Q
    unfolding raw [symmetric] list_raw_items_def by (simp add: conj_commute)
  from this [of "\<lambda>l. ci_id l \<noteq> ci_id x"] this [of "\<lambda>l. key_of l \<noteq> (g, line_key x)"]
  show "filter (\<lambda>l. ci_cart_id l = g \<and> ci_id l \<noteq> ci_id x) (t_cart_item d) = xs"
    "filter (\<lambda>l. ci_cart_id l = g \<and> key_of l \<noteq> (g, line_key x)) (t_cart_item d) = xs"
    using ne(1) ky gs \<open>ci_cart_id x = g\<close> by (auto simp: key_of_def intro!: filter_True)
qed


lemma merge_step:
  assumes inv: "merge_inv d0 u g ul (x # xs) (work s)" and ug: "u \<noteq> g"
  shows "\<exists>d'. merge_line u g ul x s = (Inr (), s\<lparr>work := d'\<rparr>) \<and> merge_inv d0 u g ul xs d'"
proof -
  let ?d = "work s"
  from inv have wf: "lines_wf ?d" and d: "?d = d0\<lparr>t_cart_item := t_cart_item ?d\<rparr>"
    and raw: "list_raw_items g ?d = x # xs"
    and bal: "\<And>k. cart_qty ?d u k + cart_qty ?d g k = cart_qty d0 u k + cart_qty d0 g k"
    and oth: "\<And>cid k. cid \<noteq> u \<Longrightarrow> cid \<noteq> g \<Longrightarrow> cart_qty ?d cid k = cart_qty d0 cid k"
    and org: "\<And>r. r \<in> set (t_cart_item ?d) \<Longrightarrow> \<exists>r0 \<in> set (t_cart_item d0). ci_id r = ci_id r0 \<and>
       (ci_cart_id r = u \<or> ci_cart_id r = ci_cart_id r0)"
    by (auto simp: merge_inv_def)
  note xs = list_raw_step [OF wf raw]
  have kx: "key_of x = (g, line_key x)" using xs(2) by (simp add: key_of_def)
  have qx: "cart_qty ?d g (line_key x) = ci_qty x"
    using find_key_unique [of key_of "t_cart_item ?d" x] wf xs(1) by (simp add: cart_qty_find kx lines_wf_def)
  show ?thesis
  proof (cases "ul (line_key x)")
    case (Some t)
    with inv obtain r where r: "r \<in> set (t_cart_item ?d)" "ci_id r = ci_id t" "key_of r = (u, line_key x)"
      by (auto simp: merge_inv_def)
    let ?d1 = "set_qty (ci_id r) (\<lambda>q. q + ci_qty x) ?d"
    let ?d2 = "?d1\<lparr>t_cart_item := filter (\<lambda>l. key_of l \<noteq> (g, line_key x)) (t_cart_item ?d1)\<rparr>"
    have wf1: "lines_wf ?d1" by (rule lines_wf_set_qty [OF wf])
    have run: "merge_line u g ul x s = (Inr (), s\<lparr>work := ?d2\<rparr>)"
      using Some r(2) by (simp add: merge_line_def delete_item_def bindM_app line_key_def)
    have only: "l = r" if "l \<in> set (t_cart_item ?d)" "ci_id l = ci_id r" for l
      using wf r(1) that distinct_key_inj by (auto simp: lines_wf_alt)
    have "list_raw_items g ?d2 = filter (\<lambda>l. ci_cart_id l = g \<and> key_of l \<noteq> (g, line_key x)) (t_cart_item ?d1)"
      by (simp add: list_raw_items_def conj_commute)
    also have "\<dots> = filter (\<lambda>l. (ci_cart_id l = g \<and> key_of l \<noteq> (g, line_key x)) \<and> ci_id l \<noteq> ci_id r) (t_cart_item ?d)"
      using only r(3) ug by (simp add: set_qty_def, subst filter_upd_drop) (auto simp: key_of_def)
    also have "\<dots> = filter (\<lambda>l. ci_cart_id l = g \<and> key_of l \<noteq> (g, line_key x)) (t_cart_item ?d)"
      using only r(3) ug by (intro filter_cong) (auto simp: key_of_def)
    finally have raw2: "list_raw_items g ?d2 = xs" using xs(4) by simp
    have q2: "cart_qty ?d2 cid k = (if (cid, k) = (g, line_key x) then 0
        else cart_qty ?d cid k + (if (cid, k) = (u, line_key x) then ci_qty x else 0))" for cid k
      using r(3) ug by (auto simp: cart_qty_delete cart_qty_set_qty [OF wf r(1)])
    have ul2: "case ul (line_key y) of
         Some t \<Rightarrow> \<exists>r \<in> set (t_cart_item ?d2). ci_id r = ci_id t \<and> key_of r = (u, line_key y)
       | None \<Rightarrow> \<forall>r \<in> set (t_cart_item ?d2). key_of r \<noteq> (u, line_key y)" if y: "y \<in> set xs" for y
    proof -
      have old: "case ul (line_key y) of
         Some t \<Rightarrow> \<exists>r \<in> set (t_cart_item ?d). ci_id r = ci_id t \<and> key_of r = (u, line_key y)
       | None \<Rightarrow> \<forall>r \<in> set (t_cart_item ?d). key_of r \<noteq> (u, line_key y)"
        using inv y by (simp add: merge_inv_def)
      show ?thesis
      proof (cases "ul (line_key y)")
        case (Some t')
        with old obtain r' where r': "r' \<in> set (t_cart_item ?d)" "ci_id r' = ci_id t'" "key_of r' = (u, line_key y)"
          by auto
        then have "r' \<noteq> r" using xs(5) [OF y] r(3) by auto
        then have "ci_id r' \<noteq> ci_id r" using only r'(1) by blast
        then have "r' \<in> set (t_cart_item ?d2)"
          using r' ug by (auto simp: set_qty_def set_upd image_iff intro!: bexI [of _ r'])
        with Some r' show ?thesis by auto
      next
        case None
        with old show ?thesis by (auto simp: set_qty_def set_upd split: if_splits)
      qed
    qed
    have "merge_inv d0 u g ul xs ?d2"
      unfolding merge_inv_def
    proof (intro conjI allI ballI impI)
      show "lines_wf ?d2" by (rule lines_wf_filter [OF wf1])
      show "?d2 = d0\<lparr>t_cart_item := t_cart_item ?d2\<rparr>" by (subst d) (simp add: set_qty_def)
      show "list_raw_items g ?d2 = xs" by (rule raw2)
      show "cart_qty ?d2 u k + cart_qty ?d2 g k = cart_qty d0 u k + cart_qty d0 g k" for k
        using bal [of k] ug by (auto simp: q2 qx)
      show "cart_qty ?d2 cid k = cart_qty d0 cid k" if "cid \<noteq> u" "cid \<noteq> g" for cid k
        using oth that by (simp add: q2)
      show "\<exists>r0 \<in> set (t_cart_item d0). ci_id r' = ci_id r0 \<and> (ci_cart_id r' = u \<or> ci_cart_id r' = ci_cart_id r0)"
        if "r' \<in> set (t_cart_item ?d2)" for r'
      proof -
        from that obtain b where "b \<in> set (t_cart_item ?d)" "ci_id r' = ci_id b"
            "ci_cart_id r' = u \<or> ci_cart_id r' = ci_cart_id b"
          by (auto simp: set_qty_def set_upd split: if_splits)
        then show ?thesis using org [of b] by auto
      qed
    qed (rule ul2)
    with run show ?thesis by blast
  next
    case None
    then have free: "\<And>r. r \<in> set (t_cart_item ?d) \<Longrightarrow> key_of r \<noteq> (u, line_key x)"
      using inv by (auto simp: merge_inv_def)
    let ?d2 = "?d\<lparr>t_cart_item := upd (\<lambda>r. ci_id r = ci_id x) (\<lambda>r. r\<lparr>ci_cart_id := u\<rparr>) (t_cart_item ?d)\<rparr>"
    have "clash_free (x\<lparr>ci_cart_id := u\<rparr>) ?d"
    proof (rule clash_freeI [OF wf])
      show "\<exists>w. get_variant v ?d = Some w \<and> v_product_id w = ci_product_id (x\<lparr>ci_cart_id := u\<rparr>)"
        if "ci_variant_id (x\<lparr>ci_cart_id := u\<rparr>) = Some v" for v
        using that wf xs(1) by (auto simp: lines_wf_def)
    qed (use free in auto)
    then have run: "merge_line u g ul x s = (Inr (), s\<lparr>work := ?d2\<rparr>)"
      using None by (simp add: merge_line_def move_item_to_cart_def bindM_app)
    have only: "l = x" if "l \<in> set (t_cart_item ?d)" "ci_id l = ci_id x" for l
      using wf xs(1) that distinct_key_inj by (auto simp: lines_wf_alt)
    have raw2: "list_raw_items g ?d2 = xs"
      using ug xs(3) by (simp add: list_raw_items_def, subst filter_upd_drop) auto
    have q2: "cart_qty ?d2 cid k = cart_qty ?d cid k + (if k = line_key x
        then (if cid = u then ci_qty x else if cid = g then - ci_qty x else 0) else 0)" for cid k
      using wf xs(1,2) ug by (subst cart_qty_move) (auto simp: lines_wf_def)
    have ul2: "case ul (line_key y) of
         Some t \<Rightarrow> \<exists>r \<in> set (t_cart_item ?d2). ci_id r = ci_id t \<and> key_of r = (u, line_key y)
       | None \<Rightarrow> \<forall>r \<in> set (t_cart_item ?d2). key_of r \<noteq> (u, line_key y)" if y: "y \<in> set xs" for y
    proof -
      have old: "case ul (line_key y) of
         Some t \<Rightarrow> \<exists>r \<in> set (t_cart_item ?d). ci_id r = ci_id t \<and> key_of r = (u, line_key y)
       | None \<Rightarrow> \<forall>r \<in> set (t_cart_item ?d). key_of r \<noteq> (u, line_key y)"
        using inv y by (simp add: merge_inv_def)
      show ?thesis
      proof (cases "ul (line_key y)")
        case (Some t')
        with old obtain r' where r': "r' \<in> set (t_cart_item ?d)" "ci_id r' = ci_id t'" "key_of r' = (u, line_key y)"
          by auto
        then have "ci_id r' \<noteq> ci_id x" using only kx ug by (metis prod.inject)
        then have "r' \<in> set (t_cart_item ?d2)"
          using r' by (auto simp: set_upd image_iff intro!: bexI [of _ r'])
        with Some r' show ?thesis by auto
      next
        case None
        with old xs(5) [OF y] only show ?thesis by (fastforce simp: set_upd split: if_splits)
      qed
    qed
    have "merge_inv d0 u g ul xs ?d2"
      unfolding merge_inv_def
    proof (intro conjI allI ballI impI)
      show "lines_wf ?d2" using free by (intro lines_wf_move [OF wf xs(1)]) auto
      show "?d2 = d0\<lparr>t_cart_item := t_cart_item ?d2\<rparr>" by (subst d) simp
      show "list_raw_items g ?d2 = xs" by (rule raw2)
      show "cart_qty ?d2 u k + cart_qty ?d2 g k = cart_qty d0 u k + cart_qty d0 g k" for k
        using bal [of k] ug by (auto simp: q2)
      show "cart_qty ?d2 cid k = cart_qty d0 cid k" if "cid \<noteq> u" "cid \<noteq> g" for cid k
        using oth that by (simp add: q2)
      show "\<exists>r0 \<in> set (t_cart_item d0). ci_id r' = ci_id r0 \<and> (ci_cart_id r' = u \<or> ci_cart_id r' = ci_cart_id r0)"
        if "r' \<in> set (t_cart_item ?d2)" for r'
      proof -
        from that obtain b where "b \<in> set (t_cart_item ?d)" "ci_id r' = ci_id b"
            "ci_cart_id r' = u \<or> ci_cart_id r' = ci_cart_id b"
          by (auto simp: set_upd split: if_splits)
        then show ?thesis using org [of b] by auto
      qed
    qed (rule ul2)
    with run show ?thesis by blast
  qed
qed


lemma merge_loop:
  assumes "merge_inv d0 u g ul gs (work s)" and ug: "u \<noteq> g"
  shows "\<exists>d'. forEach gs (merge_line u g ul) s = (Inr (), s\<lparr>work := d'\<rparr>) \<and> merge_inv d0 u g ul [] d'"
  using assms(1)
proof (induction gs arbitrary: s)
  case Nil
  then show ?case by (auto intro!: exI [of _ "work s"])
next
  case (Cons x xs)
  from merge_step [OF Cons.prems ug] obtain d1
    where d1: "merge_line u g ul x s = (Inr (), s\<lparr>work := d1\<rparr>)" "merge_inv d0 u g ul xs d1" by blast
  from Cons.IH [of "s\<lparr>work := d1\<rparr>"] d1(2) obtain d2
    where "forEach xs (merge_line u g ul) (s\<lparr>work := d1\<rparr>) = (Inr (), s\<lparr>work := d2\<rparr>)"
      "merge_inv d0 u g ul [] d2" by auto
  with d1(1) show ?case by (auto simp: bindM_app)
qed

lemma merge_inv_start:
  assumes wf: "lines_wf d" and ug: "u \<noteq> g"
  shows "merge_inv d u g (map_of (rev (map (\<lambda>l. (line_key l, l)) (list_raw_items u d)))) (list_raw_items g d) d"
proof -
  let ?ul = "map_of (rev (map (\<lambda>l. (line_key l, l)) (list_raw_items u d)))"
  have "\<exists>r \<in> set (t_cart_item d). ci_id r = ci_id t \<and> key_of r = (u, k)" if "?ul k = Some t" for k t
    using map_of_SomeD [OF that] by (auto simp: list_raw_items_def key_of_def)
  moreover have "key_of r \<noteq> (u, k)" if "?ul k = None" "r \<in> set (t_cart_item d)" for k r
    using that by (auto simp: map_of_eq_None_iff list_raw_items_def key_of_def image_image)
  ultimately show ?thesis
    using wf by (auto simp: merge_inv_def split: option.splits)
qed

lemma merge_run:
  assumes ok: "cart_ok s"
    and u: "get_cart_by_user uid (work s) = Inr (Some u)"
    and g: "get_cart_by_session_token tok (work s) = Inr (Some g)" and ug: "c_id u \<noteq> c_id g"
  obtains d' where
    "merge_guest_into_user uid tok lang s
      = (Inr (render (c_id u) lang d'), s\<lparr>work := d', committed := d'\<rparr>)"
    "cart_ok (s\<lparr>work := d', committed := d'\<rparr>)"
    "t_cart d' = filter (\<lambda>c. c_id c \<noteq> c_id g) (t_cart (work s))"
    "\<And>k. cart_qty d' (c_id u) k = cart_qty (work s) (c_id u) k + cart_qty (work s) (c_id g) k"
    "\<And>k. cart_qty d' (c_id g) k = 0"
    "\<And>cid k. cid \<noteq> c_id u \<Longrightarrow> cid \<noteq> c_id g \<Longrightarrow> cart_qty d' cid k = cart_qty (work s) cid k"
proof -
  let ?d = "work s" and ?u = "c_id u" and ?g = "c_id g"
  let ?ul = "map_of (rev (map (\<lambda>l. (line_key l, l)) (list_raw_items ?u ?d)))"
  from merge_loop [OF merge_inv_start [OF cart_okD(1) [OF ok] ug] ug] obtain d1
    where run: "forEach (list_raw_items ?g ?d) (merge_line ?u ?g ?ul) s = (Inr (), s\<lparr>work := d1\<rparr>)"
      and inv: "merge_inv ?d ?u ?g ?ul [] d1" by blast
  from inv have wf1: "lines_wf d1" and d1: "d1 = ?d\<lparr>t_cart_item := t_cart_item d1\<rparr>"
    and raw: "list_raw_items ?g d1 = []"
    and bal: "\<And>k. cart_qty d1 ?u k + cart_qty d1 ?g k = cart_qty ?d ?u k + cart_qty ?d ?g k"
    and oth: "\<And>cid k. cid \<noteq> ?u \<Longrightarrow> cid \<noteq> ?g \<Longrightarrow> cart_qty d1 cid k = cart_qty ?d cid k"
    and org: "\<And>r. r \<in> set (t_cart_item d1) \<Longrightarrow> \<exists>r0 \<in> set (t_cart_item ?d). ci_id r = ci_id r0 \<and>
       (ci_cart_id r = ?u \<or> ci_cart_id r = ci_cart_id r0)"
    by (auto simp: merge_inv_def)
  let ?d2 = "d1\<lparr>t_cart := filter (\<lambda>c. c_id c \<noteq> ?g) (t_cart d1)\<rparr>"
  have noline: "ci_cart_id l \<noteq> ?g" if "l \<in> set (t_cart_item d1)" for l
    using raw that by (auto simp: list_raw_items_def filter_empty_conv)
  have zero: "cart_qty d1 ?g k = 0" for k
    using noline by (auto simp: cart_qty_def sum_where_def filter_empty_conv key_of_def)
  have carts: "t_cart d1 = t_cart ?d" using d1 by (metis db.select_convs(9) db.surjective db.update_convs(10))
  have run': "merge_guest_into_user uid tok lang s
      = (Inr (render ?u lang ?d2), s\<lparr>work := ?d2, committed := ?d2\<rparr>)"
    using u g ug run noline
    by (simp add: merge_guest_into_user_def get_or_create_cart_def get_cart_of_def delete_cart_def
        bindM_app list_all_iff guardE_def)
  have mem: "u \<in> set (t_cart ?d)"
    using get_cart_of_mem [of "Some uid" None] u by (simp add: get_cart_of_def)
  have "\<exists>c \<in> set (t_cart ?d2). c_id c = ci_cart_id l" if "l \<in> set (t_cart_item d1)" for l
    using org [OF that] noline [OF that] cart_okD(4) [OF ok] mem ug by (fastforce simp: carts)
  moreover have "ci_id l < pk_seq s Cart_Item_T" if "l \<in> set (t_cart_item d1)" for l
    using org [OF that] cart_okD(3) [OF ok] by fastforce
  ultimately have "cart_ok (s\<lparr>work := ?d2\<rparr>)"
    using ok wf1 unfolding cart_ok_def carts_wf_def ids_below_def
    by (auto simp: carts distinct_map_filter lines_wf_alt)
  then have ok': "cart_ok (s\<lparr>work := ?d2, committed := ?d2\<rparr>)"
    using cart_ok_commit by fastforce
  show thesis
  proof (rule that [OF run' ok'])
    show "cart_qty ?d2 ?u k = cart_qty ?d ?u k + cart_qty ?d ?g k" for k
      using bal [of k] zero by simp
  qed (use zero oth carts in simp_all)
qed


subsection \<open>Rendering\<close>

definition the_lines ::
    "(int \<rightharpoonup> variant) \<Rightarrow> (int \<rightharpoonup> string) \<Rightarrow> (cart_item \<times> product \<times> string option) list \<Rightarrow> cart_item_out list" where
  "the_lines vs ls rows = List.map_filter (render_line vs ls) rows"

lemma the_lines_simps [simp]:
  "the_lines vs ls [] = []"
  "the_lines vs ls (r # rs) = (case render_line vs ls r of None \<Rightarrow> the_lines vs ls rs | Some x \<Rightarrow> x # the_lines vs ls rs)"
  by (simp_all add: the_lines_def map_filter_simps split: option.split)

lemma render_loop_lines:
  "render_loop vs ls rows out = \<lparr>co_items = co_items out @ the_lines vs ls rows,
     co_subtotal = co_subtotal out + (\<Sum>x \<leftarrow> the_lines vs ls rows. io_line_total x),
     co_item_count = co_item_count out + (\<Sum>x \<leftarrow> the_lines vs ls rows. io_qty x)\<rparr>"
  by (induction rows arbitrary: out) (auto split: option.splits)

lemma render_line_total: "render_line vs ls r = Some x \<Longrightarrow> io_line_total x = io_price x * of_int (io_qty x)"
  by (auto simp: render_line_def Let_def split: prod.splits if_splits option.splits)

lemma the_lines_total: "x \<in> set (the_lines vs ls rows) \<Longrightarrow> io_line_total x = io_price x * of_int (io_qty x)"
  by (induction rows) (auto split: option.splits dest: render_line_total)

text \<open>The totals of a rendered cart are those of the lines it lists, at their listed unit prices.\<close>

lemma render_totals:
  fixes cid :: int and lang :: "string option" and d :: db
  defines "out \<equiv> render cid lang d"
  shows "co_subtotal out = (\<Sum>x \<leftarrow> co_items out. io_price x * of_int (io_qty x))"
    and "co_item_count out = (\<Sum>x \<leftarrow> co_items out. io_qty x)"
proof -
  obtain vs ls rows where r: "co_items out = the_lines vs ls rows"
    "co_subtotal out = (\<Sum>x \<leftarrow> the_lines vs ls rows. io_line_total x)"
    "co_item_count out = (\<Sum>x \<leftarrow> the_lines vs ls rows. io_qty x)"
    by (auto simp: out_def render_def Let_def render_loop_lines)
  have "map io_line_total (the_lines vs ls rows) = map (\<lambda>x. io_price x * of_int (io_qty x)) (the_lines vs ls rows)"
    using the_lines_total by (intro map_cong) auto
  with r show "co_subtotal out = (\<Sum>x \<leftarrow> co_items out. io_price x * of_int (io_qty x))"
    "co_item_count out = (\<Sum>x \<leftarrow> co_items out. io_qty x)" by simp_all
qed

end
