(* ===== verification/Promo.thy ===== *)
theory Promo
  imports Cart_Correct
begin

text \<open>
  Promo codes: \<open>PromoRepository\<close> (\<open>app/repositories/promo_repo.py\<close>) and \<open>PromoService\<close>
  (\<open>app/services/promo_service.py\<close>): the one validation quote and checkout share, and the
  back-office CRUD. The usage counter is derived from the orders that carry the code.
\<close>

definition DISCOUNT_TYPES :: "string list" where
  "DISCOUNT_TYPES = [''percent'', ''fixed'']"

definition PERCENT :: string where
  "PERCENT = ''percent''"

subsection \<open>Repository\<close>

definition get_by_code :: "string \<Rightarrow> db \<Rightarrow> exn + promo_code option" where
  "get_by_code code d = scalar_one_or_none (filter (\<lambda>p. pr_code p = code) (t_promo d))"

definition get_by_id :: "int \<Rightarrow> db \<Rightarrow> exn + promo_code option" where
  "get_by_id i d = scalar_one_or_none (filter (\<lambda>p. pr_id p = i) (t_promo d))"

definition list_all_promos :: "db \<Rightarrow> promo_code list" where
  "list_all_promos d = sort_key (\<lambda>p. - pr_id p) (t_promo d)"

definition count_orders_using :: "string \<Rightarrow> db \<Rightarrow> nat" where
  "count_orders_using code d = rowcount (\<lambda>x. o_promo_code x = Some code) (t_order d)"

text \<open>\<open>SELECT .. FOR UPDATE\<close> on the code's row: within one transaction only the read is visible.\<close>

definition lock_by_code :: "string \<Rightarrow> unit act" where
  "lock_by_code code =
    bindM (reads (\<lambda>d. map pr_id (filter (\<lambda>p. pr_code p = code) (t_promo d)))) (\<lambda>_. ret ())"

subsection \<open>Storefront: validation and discount\<close>

definition within_window :: "promo_code \<Rightarrow> instant \<Rightarrow> bool" where
  "within_window p moment \<longleftrightarrow>
    (if (case pr_active_from p of None \<Rightarrow> False | Some f \<Rightarrow> moment < f) then False
     else \<not> (case pr_active_to p of None \<Rightarrow> False | Some t \<Rightarrow> moment > t))"

definition compute_discount :: "promo_code \<Rightarrow> money \<Rightarrow> money" where
  "compute_discount p subtotal =
    (let raw = (if pr_discount_type p = PERCENT then subtotal * pr_discount_value p / 100
                else pr_discount_value p);
         discount = quantize 0 raw
     in if discount < 0 then 0 else min discount subtotal)"

definition validate_and_compute ::
    "environment \<Rightarrow> string \<Rightarrow> money \<Rightarrow> bool \<Rightarrow> (promo_code \<times> money) act" where
  "validate_and_compute env code subtotal lock =
    bindM (readsE (get_by_code code)) (\<lambda>found.
    case found of
      None \<Rightarrow> throw (PromoInvalidError code)
    | Some promo \<Rightarrow>
        if \<not> pr_is_active promo then throw (PromoInvalidError code)
        else if \<not> within_window promo (env_now env) then throw PromoExpiredError
        else if (case pr_min_order_total promo of None \<Rightarrow> False | Some m \<Rightarrow> subtotal < m)
        then throw (PromoMinOrderError code)
        else
          (case pr_usage_limit promo of
            None \<Rightarrow> ret (promo, compute_discount promo subtotal)
          | Some limit \<Rightarrow>
              bindM (whenM lock (lock_by_code (pr_code promo))) (\<lambda>_.
              bindM (reads (count_orders_using (pr_code promo))) (\<lambda>used.
              if int used \<ge> limit then throw PromoUsageLimitError
              else ret (promo, compute_discount promo subtotal)))))"

subsection \<open>Back office: bodies\<close>

text \<open>The bodies after Pydantic validation (\<open>app/schemas/admin_promo.py\<close>).\<close>

record promo_create =
  prc_code :: string
  prc_discount_type :: string
  prc_discount_value :: money
  prc_active_from :: instant
  prc_active_to :: instant
  prc_min_order_total :: "money option"
  prc_usage_limit :: "int option"
  prc_is_active :: bool

definition promo_create_valid :: "promo_create \<Rightarrow> bool" where
  "promo_create_valid b \<longleftrightarrow> 1 \<le> length (prc_code b) \<and> length (prc_code b) \<le> 64 \<and>
    0 < prc_discount_value b \<and>
    (case prc_min_order_total b of None \<Rightarrow> True | Some m \<Rightarrow> 0 \<le> m) \<and>
    (case prc_usage_limit b of None \<Rightarrow> True | Some n \<Rightarrow> 0 < n)"

text \<open>
  A partial body: \<open>None\<close> is an unset field (dropped by \<open>exclude_unset\<close>), \<open>Some None\<close> an
  explicit JSON \<open>null\<close>, which every field of \<open>PromoUpdate\<close> admits.
\<close>

record promo_update =
  pru_code :: "string option option"
  pru_discount_type :: "string option option"
  pru_discount_value :: "money option option"
  pru_active_from :: "instant option option"
  pru_active_to :: "instant option option"
  pru_min_order_total :: "money option option"
  pru_usage_limit :: "int option option"
  pru_is_active :: "bool option option"

text \<open>The ORM object between \<open>setattr\<close> and the flush: its attributes may hold \<open>None\<close>.\<close>

record promo_draft =
  pd_code :: "string option"
  pd_discount_type :: "string option"
  pd_discount_value :: "money option"
  pd_active_from :: "instant option"
  pd_active_to :: "instant option"
  pd_min_order_total :: "money option"
  pd_usage_limit :: "int option"
  pd_is_active :: "bool option"

definition setattr :: "'a option option \<Rightarrow> 'a option \<Rightarrow> 'a option" where
  "setattr change old = (case change of None \<Rightarrow> old | Some new \<Rightarrow> new)"

definition apply_changes :: "promo_update \<Rightarrow> promo_code \<Rightarrow> promo_draft" where
  "apply_changes c p = \<lparr>
     pd_code = setattr (pru_code c) (Some (pr_code p)),
     pd_discount_type = setattr (pru_discount_type c) (Some (pr_discount_type p)),
     pd_discount_value = setattr (pru_discount_value c) (Some (pr_discount_value p)),
     pd_active_from = setattr (pru_active_from c) (pr_active_from p),
     pd_active_to = setattr (pru_active_to c) (pr_active_to p),
     pd_min_order_total = setattr (pru_min_order_total c) (pr_min_order_total p),
     pd_usage_limit = setattr (pru_usage_limit c) (pr_usage_limit p),
     pd_is_active = setattr (pru_is_active c) (Some (pr_is_active p))\<rparr>"

subsection \<open>Back office: writes\<close>

text \<open>\<open>active_to < active_from\<close> and \<open>value > 100\<close> raise \<open>TypeError\<close> when a side is \<open>None\<close>.\<close>

definition validate_definition ::
    "string option \<Rightarrow> money option \<Rightarrow> instant option \<Rightarrow> instant option \<Rightarrow> exn + unit" where
  "validate_definition ty val from to =
    (case ty of
      None \<Rightarrow> Inl (PromoValidationError ''Unknown discount_type'')
    | Some t \<Rightarrow>
        if t \<notin> set DISCOUNT_TYPES then Inl (PromoValidationError ''Unknown discount_type'')
        else
          bindE (if t = PERCENT
                 then (case val of
                     None \<Rightarrow> Inl (PyError ''TypeError'')
                   | Some v \<Rightarrow> guardE (\<not> v > 100) (PromoValidationError ''Percent discount cannot exceed 100''))
                 else Inr ()) (\<lambda>_.
          case (from, to) of
            (Some f, Some u) \<Rightarrow>
              guardE (\<not> u < f) (PromoValidationError ''active_to must not precede active_from'')
          | _ \<Rightarrow> Inl (PyError ''TypeError'')))"

text \<open>
  The flush of a draft as row \<open>i\<close>: the \<open>NOT NULL\<close> columns and the unique index on \<open>code\<close>.
\<close>

definition promo_row :: "int \<Rightarrow> promo_draft \<Rightarrow> exn + promo_code" where
  "promo_row i x =
    (case (pd_code x, pd_discount_type x, pd_discount_value x, pd_is_active x) of
      (Some c, Some t, Some v, Some a) \<Rightarrow>
        Inr \<lparr>pr_id = i, pr_code = c, pr_discount_type = t, pr_discount_value = v,
             pr_active_from = pd_active_from x, pr_active_to = pd_active_to x,
             pr_min_order_total = pd_min_order_total x, pr_usage_limit = pd_usage_limit x,
             pr_is_active = a\<rparr>
    | _ \<Rightarrow> Inl (IntegrityError ''promo_code''))"

definition code_free :: "promo_code \<Rightarrow> db \<Rightarrow> bool" where
  "code_free x d \<longleftrightarrow> list_all (\<lambda>p. pr_id p \<noteq> pr_id x \<longrightarrow> pr_code p \<noteq> pr_code x) (t_promo d)"

definition get_promo :: "int \<Rightarrow> promo_code act" where
  "get_promo i =
    bindM (readsE (get_by_id i)) (\<lambda>p.
    case p of None \<Rightarrow> throw (PromoNotFoundError i) | Some x \<Rightarrow> ret x)"

definition create_promo :: "promo_create \<Rightarrow> promo_code act" where
  "create_promo b =
    bindM (liftE (validate_definition (Some (prc_discount_type b)) (Some (prc_discount_value b))
      (Some (prc_active_from b)) (Some (prc_active_to b)))) (\<lambda>_.
    bindM (readsE (get_by_code (prc_code b))) (\<lambda>clash.
    if clash \<noteq> None then throw (PromoConflictError (prc_code b))
    else
      bindM (next_id Promo_T) (\<lambda>i.
      let promo = \<lparr>pr_id = i, pr_code = prc_code b, pr_discount_type = prc_discount_type b,
            pr_discount_value = prc_discount_value b, pr_active_from = Some (prc_active_from b),
            pr_active_to = Some (prc_active_to b), pr_min_order_total = prc_min_order_total b,
            pr_usage_limit = prc_usage_limit b, pr_is_active = prc_is_active b\<rparr> in
      bindM (readsE (\<lambda>d. guardE (code_free promo d) (IntegrityError ''promo_code_code_key''))) (\<lambda>_.
      bindM (writes (\<lambda>d. d\<lparr>t_promo := t_promo d @ [promo]\<rparr>)) (\<lambda>_.
      bindM commit (\<lambda>_.
      ret promo))))))"

definition check_new_code :: "promo_update \<Rightarrow> promo_code \<Rightarrow> unit act" where
  "check_new_code c promo =
    (case pru_code c of
      Some (Some new_code) \<Rightarrow>
        if new_code \<noteq> pr_code promo then
          bindM (readsE (get_by_code new_code)) (\<lambda>clash.
          case clash of
            Some x \<Rightarrow> if pr_id x \<noteq> pr_id promo then throw (PromoConflictError new_code) else ret ()
          | None \<Rightarrow> ret ())
        else ret ()
    | _ \<Rightarrow> ret ())"

definition update_promo :: "int \<Rightarrow> promo_update \<Rightarrow> promo_code act" where
  "update_promo i c =
    bindM (get_promo i) (\<lambda>promo.
    bindM (check_new_code c promo) (\<lambda>_.
    let x = apply_changes c promo in
    bindM (liftE (validate_definition (pd_discount_type x) (pd_discount_value x)
      (pd_active_from x) (pd_active_to x))) (\<lambda>_.
    bindM (liftE (promo_row (pr_id promo) x)) (\<lambda>row.
    bindM (readsE (\<lambda>d. guardE (code_free row d) (IntegrityError ''promo_code_code_key''))) (\<lambda>_.
    bindM (writes (\<lambda>d. d\<lparr>t_promo := upd (\<lambda>p. pr_id p = pr_id promo) (\<lambda>_. row) (t_promo d)\<rparr>)) (\<lambda>_.
    bindM commit (\<lambda>_.
    ret row)))))))"

definition delete_promo :: "int \<Rightarrow> unit act" where
  "delete_promo i =
    bindM (get_promo i) (\<lambda>promo.
    bindM (writes (\<lambda>d. d\<lparr>t_promo := filter (\<lambda>p. pr_id p \<noteq> pr_id promo) (t_promo d)\<rparr>)) (\<lambda>_.
    commit))"


subsection \<open>The discount\<close>

lemma compute_discount_bounds:
  "0 \<le> subtotal \<Longrightarrow> 0 \<le> compute_discount p subtotal \<and> compute_discount p subtotal \<le> subtotal"
  by (auto simp: compute_discount_def Let_def)

text \<open>A discount is a whole number of MDL unless the subtotal itself caps it.\<close>

lemma compute_discount_whole:
  "(\<exists>k :: int. compute_discount p subtotal = of_int k) \<or> compute_discount p subtotal = subtotal"
proof -
  obtain k :: int where "quantize 0 (if pr_discount_type p = PERCENT then subtotal * pr_discount_value p / 100
      else pr_discount_value p) = of_int k"
    using quantize_int by blast
  then have "compute_discount p subtotal =
      (if (of_int k :: rat) < 0 then of_int 0 else min (of_int k) subtotal)"
    by (simp add: compute_discount_def Let_def)
  then show ?thesis by (auto simp: min_def)
qed

text \<open>A percentage of at most 100 is charged to within half a MDL of the exact amount.\<close>

lemma compute_discount_percent:
  assumes "pr_discount_type p = PERCENT" "0 \<le> pr_discount_value p" "pr_discount_value p \<le> 100" "0 \<le> subtotal"
  shows "\<bar>compute_discount p subtotal - subtotal * pr_discount_value p / 100\<bar> \<le> 1 / 2"
proof -
  let ?raw = "subtotal * pr_discount_value p / 100"
  have raw: "0 \<le> ?raw" using assms by simp
  have "subtotal * pr_discount_value p \<le> subtotal * 100"
    using assms by (intro mult_left_mono) auto
  then have le: "?raw \<le> subtotal" by simp
  have "\<bar>quantize 0 ?raw - ?raw\<bar> \<le> 1 / 2"
    using quantize_error [of 0 ?raw] by simp
  moreover have "0 \<le> quantize 0 ?raw" by (rule quantize_nonneg [OF raw])
  ultimately show ?thesis
    using assms(1) le by (auto simp: compute_discount_def Let_def min_def)
qed

subsection \<open>Validation\<close>

definition usable :: "environment \<Rightarrow> string \<Rightarrow> money \<Rightarrow> db \<Rightarrow> promo_code \<Rightarrow> bool" where
  "usable env code subtotal d p \<longleftrightarrow>
    get_by_code code d = Inr (Some p) \<and> pr_is_active p \<and>
    (\<forall>f. pr_active_from p = Some f \<longrightarrow> f \<le> env_now env) \<and>
    (\<forall>t. pr_active_to p = Some t \<longrightarrow> env_now env \<le> t) \<and>
    (\<forall>m. pr_min_order_total p = Some m \<longrightarrow> m \<le> subtotal) \<and>
    (\<forall>n. pr_usage_limit p = Some n \<longrightarrow> int (count_orders_using (pr_code p) d) < n)"

lemma within_window_iff:
  "within_window p t \<longleftrightarrow> (\<forall>f. pr_active_from p = Some f \<longrightarrow> f \<le> t) \<and> (\<forall>u. pr_active_to p = Some u \<longrightarrow> t \<le> u)"
  by (auto simp: within_window_def split: option.splits)

lemma get_by_code_code: "get_by_code code d = Inr (Some p) \<Longrightarrow> p \<in> set (t_promo d) \<and> pr_code p = code"
  by (auto simp: get_by_code_def scalar_one_or_none_Inr filter_eq_Cons_iff)

lemma lock_by_code_app [simp]: "lock_by_code code s = (Inr (), s)"
  by (simp add: lock_by_code_def)

lemma validate_read_only: "snd (validate_and_compute env code subtotal lock s) = s"
  by (simp add: validate_and_compute_def bindM_app split: sum.splits option.splits)

lemma validate_Inr:
  "validate_and_compute env code subtotal lock s = (Inr (p, x), s') \<longleftrightarrow>
    s' = s \<and> usable env code subtotal (work s) p \<and> x = compute_discount p subtotal"
  by (auto simp: validate_and_compute_def bindM_app usable_def within_window_iff not_less not_le
      split: sum.splits option.splits if_splits)

lemma validate_lock: "validate_and_compute env code subtotal lock = validate_and_compute env code subtotal lock'"
  by (rule ext) (simp add: validate_and_compute_def bindM_app split: sum.splits option.splits)

subsection \<open>The coupon table\<close>

definition definition_ok :: "promo_code \<Rightarrow> bool" where
  "definition_ok p \<longleftrightarrow> pr_discount_type p \<in> set DISCOUNT_TYPES \<and>
    (pr_discount_type p = PERCENT \<longrightarrow> pr_discount_value p \<le> 100) \<and>
    (\<exists>f t. pr_active_from p = Some f \<and> pr_active_to p = Some t \<and> f \<le> t)"

definition promos_ok :: "(table \<Rightarrow> int) \<Rightarrow> db \<Rightarrow> bool" where
  "promos_ok sq d \<longleftrightarrow> distinct (map pr_id (t_promo d)) \<and> distinct (map pr_code (t_promo d)) \<and>
    (\<forall>p \<in> set (t_promo d). definition_ok p \<and> pr_id p < sq Promo_T)"

definition promo_inv :: "session \<Rightarrow> bool" where
  "promo_inv s \<longleftrightarrow> promos_ok (pk_seq s) (work s) \<and> promos_ok (pk_seq s) (committed s)"

lemma validate_definition_Inr:
  "validate_definition ty val from to = Inr u \<longleftrightarrow>
    (\<exists>t f g. ty = Some t \<and> t \<in> set DISCOUNT_TYPES \<and> (t = PERCENT \<longrightarrow> (\<exists>v. val = Some v \<and> v \<le> 100)) \<and>
      from = Some f \<and> to = Some g \<and> f \<le> g)"
  by (auto simp: validate_definition_def bindE_Inr not_less split: option.splits if_splits)

lemma get_promo_Inr:
  "get_promo i s = (Inr p, s') \<longleftrightarrow> s' = s \<and> get_by_id i (work s) = Inr (Some p)"
  by (auto simp: get_promo_def bindM_app split: sum.splits option.splits)

lemma get_promo_raises: "get_promo i s = (Inl e, s') \<Longrightarrow> s' = s"
  by (auto simp: get_promo_def bindM_app split: sum.splits option.splits)

lemma get_promo_state: "snd (get_promo i s) = s"
  by (simp add: get_promo_def bindM_app split: sum.splits option.splits)

lemma get_by_id_mem: "get_by_id i d = Inr (Some p) \<Longrightarrow> p \<in> set (t_promo d) \<and> pr_id p = i"
  by (auto simp: get_by_id_def scalar_one_or_none_Inr filter_eq_Cons_iff)

lemma promos_ok_add:
  assumes "promos_ok sq d" "pr_id x = sq Promo_T" "code_free x d" "definition_ok x"
  shows "promos_ok (sq(Promo_T := sq Promo_T + 1)) (d\<lparr>t_promo := t_promo d @ [x]\<rparr>)"
proof -
  have lt: "pr_id p < pr_id x" if "p \<in> set (t_promo d)" for p
    using assms(1,2) that by (auto simp: promos_ok_def)
  then have "pr_id x \<notin> pr_id ` set (t_promo d)" "pr_code x \<notin> pr_code ` set (t_promo d)"
    using assms(3) by (fastforce simp: code_free_def list_all_iff)+
  then show ?thesis
    using assms lt by (auto simp: promos_ok_def intro: less_trans)
qed

lemma promos_ok_upd:
  assumes "promos_ok sq d" "p \<in> set (t_promo d)" "pr_id x = pr_id p" "code_free x d" "definition_ok x"
  shows "promos_ok sq (d\<lparr>t_promo := upd (\<lambda>q. pr_id q = pr_id p) (\<lambda>_. x) (t_promo d)\<rparr>)"
proof -
  have ids: "distinct (map pr_id (t_promo d))" using assms(1) by (simp add: promos_ok_def)
  have only: "q = p" if "q \<in> set (t_promo d)" "pr_id q = pr_id p" for q
    using distinct_key_inj [OF ids] that assms(2) by blast
  have codes: "distinct (map pr_code (upd (\<lambda>q. pr_id q = pr_id p) (\<lambda>_. x) (t_promo d)))"
  proof (rule distinct_map_upd [where l = p])
    show "pr_code q \<noteq> pr_code x" if "q \<in> set (t_promo d)" "q \<noteq> p" for q
      using assms(3,4) only that by (auto simp: code_free_def list_all_iff)
  qed (use assms(1) only in \<open>auto simp: promos_ok_def\<close>)
  have "map pr_id (upd (\<lambda>q. pr_id q = pr_id p) (\<lambda>_. x) (t_promo d)) = map pr_id (t_promo d)"
    using assms(3) by (intro map_upd_key) simp
  then show ?thesis
    using assms codes ids by (auto simp: promos_ok_def set_upd)
qed

lemma promos_ok_later: "promos_ok sq d \<Longrightarrow> sq Promo_T \<le> sq' Promo_T \<Longrightarrow> promos_ok sq' d"
  by (fastforce simp: promos_ok_def)

lemma promo_row_Inr:
  "promo_row i x = Inr p \<Longrightarrow> pr_id p = i \<and> pd_discount_type x = Some (pr_discount_type p) \<and>
    pd_discount_value x = Some (pr_discount_value p) \<and> pd_active_from x = pr_active_from p \<and>
    pd_active_to x = pr_active_to p \<and> pd_code x = Some (pr_code p)"
  by (auto simp: promo_row_def split: option.splits)

lemma create_promo_inv: "preserves promo_inv (create_promo b)"
proof (rule preservesI)
  fix s r s' assume "promo_inv s" "create_promo b s = (r, s')"
  then show "promo_inv s'"
    by (auto simp: create_promo_def bindM_app Let_def validate_definition_Inr promo_inv_def definition_ok_def
        intro!: promos_ok_add elim!: promos_ok_later split: sum.splits if_splits)
qed


lemma check_new_code_state: "check_new_code c p s = (r, s') \<Longrightarrow> s' = s"
  by (auto simp: check_new_code_def bindM_app split: option.splits if_splits sum.splits)

lemma update_promo_cases:
  assumes "update_promo i c s = (r, s')"
  obtains (raised) e where "r = Inl e" "s' = s"
  | (updated) p row where "get_by_id i (work s) = Inr (Some p)"
      "validate_definition (pd_discount_type (apply_changes c p)) (pd_discount_value (apply_changes c p))
        (pd_active_from (apply_changes c p)) (pd_active_to (apply_changes c p)) = Inr ()"
      "promo_row (pr_id p) (apply_changes c p) = Inr row" "code_free row (work s)" "r = Inr row"
      "s' = s\<lparr>work := (work s)\<lparr>t_promo := upd (\<lambda>q. pr_id q = pr_id p) (\<lambda>_. row) (t_promo (work s))\<rparr>,
        committed := (work s)\<lparr>t_promo := upd (\<lambda>q. pr_id q = pr_id p) (\<lambda>_. row) (t_promo (work s))\<rparr>\<rparr>"
proof (cases r)
  case (Inl e)
  with assms have "s' = s"
    by (auto simp: update_promo_def bindM_Inl bindM_Inr get_promo_Inr Let_def
        dest: check_new_code_state get_promo_raises split: sum.splits)
  with Inl raised show thesis by simp
next
  case (Inr row)
  with assms updated show thesis
    by (auto simp: update_promo_def bindM_Inr get_promo_Inr Let_def dest!: check_new_code_state)
qed

lemma update_promo_inv: "preserves promo_inv (update_promo i c)"
proof (rule preservesI)
  fix s r s' assume inv: "promo_inv s" and run: "update_promo i c s = (r, s')"
  from run show "promo_inv s'"
  proof (cases rule: update_promo_cases)
    case (updated p row)
    note r = promo_row_Inr [OF updated(3)] and m = get_by_id_mem [OF updated(1)]
    have "definition_ok row"
      using updated(2) r by (auto simp: validate_definition_Inr definition_ok_def)
    then have "promos_ok (pk_seq s) (work s')"
      using inv r updated(4) m promos_ok_upd [of "pk_seq s" "work s" p row] unfolding updated(6)
      by (simp add: promo_inv_def)
    then show ?thesis by (simp add: promo_inv_def updated(6))
  qed (use inv in simp)
qed

lemma delete_promo_inv: "preserves promo_inv (delete_promo i)"
proof -
  have "promos_ok sq (d\<lparr>t_promo := filter P (t_promo d)\<rparr>)" if "promos_ok sq d" for sq d P
    using that by (auto simp: promos_ok_def distinct_map_filter)
  then show ?thesis
    by (intro preservesI)
      (auto simp: delete_promo_def get_promo_def bindM_app promo_inv_def split: sum.splits option.splits)
qed

text \<open>Unique codes make the lookup total, and a definition in the table has a sane window and percentage.\<close>

lemma get_by_code_total: "promos_ok sq d \<Longrightarrow> get_by_code code d = Inr (find (\<lambda>p. pr_code p = code) (t_promo d))"
  by (simp add: get_by_code_def promos_ok_def scalar_filter_unique)

lemma create_conflict:
  "get_by_code (prc_code b) (work s) = Inr (Some p) \<Longrightarrow> create_promo b s = (r, s') \<Longrightarrow>
    s' = s \<and> (\<exists>e. r = Inl e \<and> (e = PromoConflictError (prc_code b) \<or> (\<exists>m. e = PromoValidationError m)))"
  by (auto simp: create_promo_def validate_definition_def bindM_app guardE_def
      split: if_splits option.splits sum.splits)

end
