(* ===== verification/Order_Repo.thy ===== *)
theory Order_Repo
  imports Promo
begin

text \<open>
  \<open>OrderRepository\<close> (\<open>app/repositories/order_repo.py\<close>): the queries and the two race-critical
  primitives of checkout, the order-number sequence and the conditional stock update, with the
  interface (a stock ledger) the services rely on.
\<close>

definition ACTIVE_CART_STATUS :: string where
  "ACTIVE_CART_STATUS = ''draft''"

definition CONVERTED_CART_STATUS :: string where
  "CONVERTED_CART_STATUS = ''converted''"

definition NUMBER_PAD :: nat where
  "NUMBER_PAD = 6"

subsection \<open>Cart resolution\<close>

definition get_active_cart :: "int option \<Rightarrow> uuid option \<Rightarrow> db \<Rightarrow> exn + cart option" where
  "get_active_cart uid tok d =
    (case uid of
      Some u \<Rightarrow> scalar_one_or_none
        (filter (\<lambda>c. c_user_id c = Some u \<and> c_status c = ACTIVE_CART_STATUS) (t_cart d))
    | None \<Rightarrow>
        (case tok of
          Some t \<Rightarrow> scalar_one_or_none
            (filter (\<lambda>c. c_session_token c = Some t \<and> c_status c = ACTIVE_CART_STATUS) (t_cart d))
        | None \<Rightarrow> Inr None))"

definition list_cart_lines :: "int \<Rightarrow> string \<Rightarrow> db \<Rightarrow> (cart_item \<times> product \<times> string option) list" where
  "list_cart_lines cid lang d =
    [(l, p, localized_name (p_id p) lang d).
      l \<leftarrow> sort_key ci_product_id (filter (\<lambda>l. ci_cart_id l = cid) (t_cart_item d)),
      p \<leftarrow> filter (\<lambda>p. p_id p = ci_product_id l) (t_product d)]"

definition get_product_with_name :: "int \<Rightarrow> string \<Rightarrow> db \<Rightarrow> (product \<times> string option) option" where
  "get_product_with_name pid lang d =
    (case find (\<lambda>p. p_id p = pid \<and> p_is_active p) (t_product d) of
      None \<Rightarrow> None
    | Some p \<Rightarrow> Some (p, localized_name (p_id p) lang d))"

definition mark_cart_converted :: "int \<Rightarrow> unit act" where
  "mark_cart_converted cid =
    writes (\<lambda>d. d\<lparr>t_cart := upd (\<lambda>c. c_id c = cid) (\<lambda>c. c\<lparr>c_status := CONVERTED_CART_STATUS\<rparr>) (t_cart d)\<rparr>)"

subsection \<open>Order number\<close>

text \<open>\<open>nextval('order\_number\_seq')\<close>: the sequence is not transactional, a rollback keeps its gap.\<close>

definition today_str :: "environment \<Rightarrow> string" where
  "today_str env =
    (case env_today env of (y, m, d) \<Rightarrow> zero_pad 4 (nat_str y) @ zero_pad 2 (nat_str m) @ zero_pad 2 (nat_str d))"

definition next_order_number :: "environment \<Rightarrow> string act" where
  "next_order_number env =
    bindM (gets order_number_seq) (\<lambda>n.
    bindM (modify (\<lambda>s. s\<lparr>order_number_seq := n + 1\<rparr>)) (\<lambda>_.
    ret (today_str env @ ''-'' @ zero_pad NUMBER_PAD (nat_str (nat n)))))"

subsection \<open>Stock\<close>

definition decrement_stock :: "int option \<Rightarrow> int \<Rightarrow> int option \<Rightarrow> bool act" where
  "decrement_stock pid qty vid =
    (case vid of
      Some v \<Rightarrow>
        bindM (reads (\<lambda>d. rowcount (\<lambda>x. v_id x = v \<and> v_qty x \<ge> qty) (t_variant d))) (\<lambda>n.
        bindM (writes (\<lambda>d. d\<lparr>t_variant :=
          upd (\<lambda>x. v_id x = v \<and> v_qty x \<ge> qty) (\<lambda>x. x\<lparr>v_qty := v_qty x - qty\<rparr>) (t_variant d)\<rparr>)) (\<lambda>_.
        ret (n \<noteq> 0)))
    | None \<Rightarrow>
        bindM (reads (\<lambda>d. rowcount (\<lambda>x. Some (p_id x) = pid \<and> p_qty x \<ge> qty) (t_product d))) (\<lambda>n.
        bindM (writes (\<lambda>d. d\<lparr>t_product :=
          upd (\<lambda>x. Some (p_id x) = pid \<and> p_qty x \<ge> qty) (\<lambda>x. x\<lparr>p_qty := p_qty x - qty\<rparr>) (t_product d)\<rparr>)) (\<lambda>_.
        ret (n \<noteq> 0))))"

definition increment_stock :: "int option \<Rightarrow> int \<Rightarrow> int option \<Rightarrow> bool act" where
  "increment_stock pid qty vid =
    (case vid of
      Some v \<Rightarrow>
        bindM (reads (\<lambda>d. map_option v_qty (find (\<lambda>x. v_id x = v) (t_variant d)))) (\<lambda>before.
        bindM (reads (\<lambda>d. rowcount (\<lambda>x. v_id x = v) (t_variant d))) (\<lambda>n.
        bindM (writes (\<lambda>d. d\<lparr>t_variant :=
          upd (\<lambda>x. v_id x = v) (\<lambda>x. x\<lparr>v_qty := v_qty x + qty\<rparr>) (t_variant d)\<rparr>)) (\<lambda>_.
        ret (n \<noteq> 0 \<and> before = Some 0))))
    | None \<Rightarrow>
        bindM (reads (\<lambda>d. map_option p_qty (find (\<lambda>x. Some (p_id x) = pid) (t_product d)))) (\<lambda>before.
        bindM (reads (\<lambda>d. rowcount (\<lambda>x. Some (p_id x) = pid) (t_product d))) (\<lambda>n.
        bindM (writes (\<lambda>d. d\<lparr>t_product :=
          upd (\<lambda>x. Some (p_id x) = pid) (\<lambda>x. x\<lparr>p_qty := p_qty x + qty\<rparr>) (t_product d)\<rparr>)) (\<lambda>_.
        ret (n \<noteq> 0 \<and> before = Some 0)))))"

definition get_items_for_order :: "int \<Rightarrow> db \<Rightarrow> order_item list" where
  "get_items_for_order oid d = sort_key oi_id (filter (\<lambda>i. oi_order_id i = oid) (t_order_item d))"

subsection \<open>Persistence\<close>

text \<open>
  \<open>add\_order\<close> and the flush that follows it: the unique index on \<open>number\<close> and the foreign key
  on the address. The keyword arguments are the record; the row's id, status, payment status
  and creation time are set here.
\<close>

record order_args =
  oa_number :: string
  oa_user_id :: "int option"
  oa_email :: string
  oa_phone :: string
  oa_subtotal :: money
  oa_discount_total :: money
  oa_delivery_cost :: money
  oa_total :: money
  oa_delivery_type :: string
  oa_delivery_address_id :: "int option"
  oa_delivery_service :: string
  oa_delivery_name :: "string option"
  oa_delivery_city :: "string option"
  oa_delivery_street :: "string option"
  oa_delivery_zip :: "string option"
  oa_promo_code :: "string option"
  oa_payment_method :: string

definition order_row :: "int \<Rightarrow> instant \<Rightarrow> order_args \<Rightarrow> order" where
  "order_row i now a = \<lparr>o_id = i, o_number = oa_number a, o_user_id = oa_user_id a,
     o_email = oa_email a, o_phone = oa_phone a, o_status = ''new'', o_payment_status = ''pending'',
     o_subtotal = oa_subtotal a, o_discount_total = oa_discount_total a,
     o_delivery_cost = oa_delivery_cost a, o_total = oa_total a,
     o_delivery_type = oa_delivery_type a, o_delivery_service = oa_delivery_service a,
     o_delivery_address_id = oa_delivery_address_id a, o_delivery_name = oa_delivery_name a,
     o_delivery_city = oa_delivery_city a, o_delivery_street = oa_delivery_street a,
     o_delivery_zip = oa_delivery_zip a, o_payment_method = oa_payment_method a,
     o_promo_code = oa_promo_code a, o_created_at = now\<rparr>"

definition order_insertable :: "order \<Rightarrow> db \<Rightarrow> bool" where
  "order_insertable x d \<longleftrightarrow> list_all (\<lambda>y. o_number y \<noteq> o_number x) (t_order d) \<and>
    (case o_delivery_address_id x of None \<Rightarrow> True
     | Some a \<Rightarrow> list_ex (\<lambda>r. a_id r = a) (t_address d))"

definition add_order :: "environment \<Rightarrow> order_args \<Rightarrow> order act" where
  "add_order env a =
    bindM (next_id Order_T) (\<lambda>i.
    let x = order_row i (env_now env) a in
    bindM (readsE (\<lambda>d. guardE (order_insertable x d) (IntegrityError ''order''))) (\<lambda>_.
    bindM (writes (\<lambda>d. d\<lparr>t_order := t_order d @ [x]\<rparr>)) (\<lambda>_.
    ret x)))"

definition add_order_item ::
    "int \<Rightarrow> int option \<Rightarrow> string \<Rightarrow> money \<Rightarrow> int \<Rightarrow> int option \<Rightarrow> order_item act" where
  "add_order_item oid pid name price qty vid =
    bindM (next_id Order_Item_T) (\<lambda>i.
    let x = \<lparr>oi_id = i, oi_order_id = oid, oi_product_id = pid, oi_variant_id = vid,
             oi_name_snapshot = name, oi_price_snapshot = price, oi_qty = qty\<rparr> in
    bindM (writes (\<lambda>d. d\<lparr>t_order_item := t_order_item d @ [x]\<rparr>)) (\<lambda>_.
    ret x))"

definition add_status_history :: "environment \<Rightarrow> int \<Rightarrow> string \<Rightarrow> string \<Rightarrow> string \<Rightarrow> unit act" where
  "add_status_history env oid from_status to_status changed_by =
    bindM (next_id History_T) (\<lambda>i.
    writes (\<lambda>d. d\<lparr>t_history := t_history d @
      [\<lparr>h_id = i, h_order_id = oid, h_from_status = from_status, h_to_status = to_status,
        h_changed_at = env_now env, h_changed_by = changed_by\<rparr>]\<rparr>))"

subsection \<open>Reads\<close>

definition get_order_by_number :: "string \<Rightarrow> db \<Rightarrow> exn + order option" where
  "get_order_by_number number d = scalar_one_or_none (filter (\<lambda>x. o_number x = number) (t_order d))"

definition get_order_by_id :: "int \<Rightarrow> db \<Rightarrow> exn + order option" where
  "get_order_by_id oid d = scalar_one_or_none (filter (\<lambda>x. o_id x = oid) (t_order d))"

definition list_orders_for_user :: "int \<Rightarrow> db \<Rightarrow> order list" where
  "list_orders_for_user uid d =
    sort_key (\<lambda>x. (- o_created_at x, - o_id x)) (filter (\<lambda>x. o_user_id x = Some uid) (t_order d))"

definition list_items_for_orders :: "int list \<Rightarrow> db \<Rightarrow> (int \<rightharpoonup> order_item list)" where
  "list_items_for_orders oids d = (\<lambda>oid.
    if oid \<in> set oids
    then Some (filter (\<lambda>i. oi_order_id i = oid)
      (sort_key oi_id (filter (\<lambda>i. oi_order_id i \<in> set oids) (t_order_item d))))
    else None)"

definition count_status_history :: "int \<Rightarrow> db \<Rightarrow> nat" where
  "count_status_history oid d = rowcount (\<lambda>h. h_order_id h = oid) (t_history d)"

definition get_novapost :: "int \<Rightarrow> db \<Rightarrow> order_delivery_np option" where
  "get_novapost oid d = find (\<lambda>r. np_order_id r = oid) (t_np d)"

definition get_novapost_map :: "int list \<Rightarrow> db \<Rightarrow> (int \<rightharpoonup> order_delivery_np)" where
  "get_novapost_map oids d =
    (if oids = [] then Map.empty
     else map_of (rev (map (\<lambda>r. (np_order_id r, r)) (filter (\<lambda>r. np_order_id r \<in> set oids) (t_np d)))))"

definition get_product_weights :: "int list \<Rightarrow> db \<Rightarrow> (int \<rightharpoonup> int option)" where
  "get_product_weights pids d =
    (if pids = [] then Map.empty
     else map_of (rev (map (\<lambda>p. (p_id p, p_weight_g p)) (filter (\<lambda>p. p_id p \<in> set pids) (t_product d)))))"


subsection \<open>Order numbers are unique\<close>

lemma order_number_inject:
  "today_str e @ ''-'' @ zero_pad w (nat_str m) = today_str e' @ ''-'' @ zero_pad w (nat_str n) \<longleftrightarrow>
    today_str e = today_str e' \<and> m = n"
proof -
  have pad: "c \<noteq> CHR ''-''" if "c \<in> set (zero_pad k (nat_str i))" for c k i
    using that nat_str_digits by (auto simp: zero_pad_def)
  have dash: "CHR ''-'' \<notin> set (today_str x)" for x
    using pad by (auto simp: today_str_def split: prod.splits)
  have "xs = ys \<and> us = vs" if "xs @ CHR ''-'' # us = ys @ CHR ''-'' # vs"
      "CHR ''-'' \<notin> set xs" "CHR ''-'' \<notin> set ys" for xs ys us vs :: string
    using that
  proof (induction xs arbitrary: ys)
    case Nil
    then show ?case by (cases ys) auto
  next
    case (Cons x xs)
    then show ?case by (cases ys) auto
  qed
  from this [of "today_str e" _ "today_str e'"] dash
  have "today_str e @ ''-'' @ p = today_str e' @ ''-'' @ q \<longleftrightarrow> today_str e = today_str e' \<and> p = q" for p q
    by auto
  moreover have "zero_pad w (nat_str m) = zero_pad w (nat_str n) \<longleftrightarrow> m = n"
    by (metis str_val_zero_pad str_val_nat_str)
  ultimately show ?thesis by blast
qed

text \<open>Every number handed out so far was drawn below the sequence's next value.\<close>

definition numbers_ok :: "session \<Rightarrow> bool" where
  "numbers_ok s \<longleftrightarrow> 0 \<le> order_number_seq s \<and>
    (\<forall>d \<in> {work s, committed s}. distinct (map o_number (t_order d)) \<and>
      (\<forall>x \<in> set (t_order d). \<exists>e n. int n < order_number_seq s \<and>
         o_number x = today_str e @ ''-'' @ zero_pad NUMBER_PAD (nat_str n)))"

lemma next_order_number_fresh:
  assumes "numbers_ok s" "next_order_number env s = (Inr num, s')"
  shows "order_number_seq s' = order_number_seq s + 1" "numbers_ok s'"
    "\<And>x. x \<in> set (t_order (work s)) \<union> set (t_order (committed s)) \<Longrightarrow> o_number x \<noteq> num"
    "num = today_str env @ ''-'' @ zero_pad NUMBER_PAD (nat_str (nat (order_number_seq s)))"
proof -
  have run: "num = today_str env @ ''-'' @ zero_pad NUMBER_PAD (nat_str (nat (order_number_seq s)))"
    "s' = s\<lparr>order_number_seq := order_number_seq s + 1\<rparr>"
    using assms(2) by (auto simp: next_order_number_def)
  then show "order_number_seq s' = order_number_seq s + 1"
    "num = today_str env @ ''-'' @ zero_pad NUMBER_PAD (nat_str (nat (order_number_seq s)))" by simp_all
  have "\<exists>e n. int n < order_number_seq s + 1 \<and> P e n" if "\<exists>e n. int n < order_number_seq s \<and> P e n"
    for P :: "environment \<Rightarrow> nat \<Rightarrow> bool"
    using that by (metis add.commute zless_add1_eq)
  then show "numbers_ok s'"
    using assms(1) unfolding run(2) numbers_ok_def by simp
  show "o_number x \<noteq> num" if "x \<in> set (t_order (work s)) \<union> set (t_order (committed s))" for x
  proof
    assume eq: "o_number x = num"
    from assms(1) that obtain e n where n: "int n < order_number_seq s"
        "o_number x = today_str e @ ''-'' @ zero_pad NUMBER_PAD (nat_str n)"
      by (auto simp: numbers_ok_def)
    from eq [unfolded n(2) run(1) order_number_inject] n(1) show False
      by (simp split: if_splits)
  qed
qed

subsection \<open>The stock ledger\<close>

text \<open>
  The interface of the stock: rows addressed by a key, a guarded withdrawal and an
  unconditional return. Whatever sequence of withdrawals and returns clients run, no row goes
  below zero and nothing is created or lost.
\<close>

datatype 'k move = Withdraw 'k int | Return 'k int

locale ledger =
  fixes stock :: "'s \<Rightarrow> 'k \<rightharpoonup> int"
    and take :: "'k \<Rightarrow> int \<Rightarrow> ('s, 'e, bool) sm"
    and put :: "'k \<Rightarrow> int \<Rightarrow> ('s, 'e, bool) sm"
    and wf :: "'s \<Rightarrow> bool"
  assumes take_some: "wf s \<Longrightarrow> stock s k = Some q \<Longrightarrow> n \<le> q \<Longrightarrow>
      \<exists>s'. take k n s = (Inr True, s') \<and> stock s' = (stock s)(k \<mapsto> q - n) \<and> wf s'"
    and take_none: "wf s \<Longrightarrow> (\<forall>q. stock s k = Some q \<longrightarrow> q < n) \<Longrightarrow> take k n s = (Inr False, s)"
    and put_some: "wf s \<Longrightarrow> stock s k = Some q \<Longrightarrow>
      \<exists>s'. put k n s = (Inr (q = 0), s') \<and> stock s' = (stock s)(k \<mapsto> q + n) \<and> wf s'"
    and put_none: "wf s \<Longrightarrow> stock s k = None \<Longrightarrow> put k n s = (Inr False, s)"
begin

definition run_move :: "'k move \<Rightarrow> 's \<Rightarrow> 's" where
  "run_move m s = (case m of Withdraw k n \<Rightarrow> snd (take k n s) | Return k n \<Rightarrow> snd (put k n s))"

fun run_moves :: "'k move list \<Rightarrow> 's \<Rightarrow> 's" where
  "run_moves [] s = s"
| "run_moves (m # ms) s = run_moves ms (run_move m s)"

definition nonneg :: "'s \<Rightarrow> bool" where
  "nonneg s \<longleftrightarrow> (\<forall>k q. stock s k = Some q \<longrightarrow> 0 \<le> q)"

lemma take_cases:
  assumes "wf s"
  obtains (ok) q s' where "stock s k = Some q" "n \<le> q" "take k n s = (Inr True, s')"
      "stock s' = (stock s)(k \<mapsto> q - n)" "wf s'"
  | (short) "take k n s = (Inr False, s)" "\<forall>q. stock s k = Some q \<longrightarrow> q < n"
proof (cases "\<exists>q. stock s k = Some q \<and> n \<le> q")
  case True
  then obtain q where q: "stock s k = Some q" "n \<le> q" by blast
  with take_some [OF assms] ok show thesis by blast
next
  case False
  then have "\<forall>q. stock s k = Some q \<longrightarrow> q < n" by auto
  with take_none [OF assms] short show thesis by blast
qed

lemma put_cases:
  assumes "wf s"
  obtains (hit) q s' where "stock s k = Some q" "put k n s = (Inr (q = 0), s')"
      "stock s' = (stock s)(k \<mapsto> q + n)" "wf s'"
  | (miss) "stock s k = None" "put k n s = (Inr False, s)"
  using put_some [OF assms] put_none [OF assms] by (cases "stock s k") blast+

lemma take_wf: "wf s \<Longrightarrow> take k n s = (r, s') \<Longrightarrow> wf s'"
  by (cases rule: take_cases [of s k n]) auto

lemma put_wf: "wf s \<Longrightarrow> put k n s = (r, s') \<Longrightarrow> wf s'"
  by (cases rule: put_cases [of s k n]) auto

lemma take_nonneg: "wf s \<Longrightarrow> nonneg s \<Longrightarrow> take k n s = (r, s') \<Longrightarrow> nonneg s'"
  by (cases rule: take_cases [of s k n]) (auto simp: nonneg_def)

lemma put_nonneg: "wf s \<Longrightarrow> nonneg s \<Longrightarrow> 0 \<le> n \<Longrightarrow> put k n s = (r, s') \<Longrightarrow> nonneg s'"
  by (cases rule: put_cases [of s k n]) (auto simp: nonneg_def)

lemma take_dom: "wf s \<Longrightarrow> take k n s = (r, s') \<Longrightarrow> dom (stock s') = dom (stock s)"
  by (cases rule: take_cases [of s k n]) auto

lemma moves_nonneg:
  "wf s \<Longrightarrow> nonneg s \<Longrightarrow> (\<forall>k n. Return k n \<in> set ms \<longrightarrow> 0 \<le> n) \<Longrightarrow>
    wf (run_moves ms s) \<and> nonneg (run_moves ms s)"
proof (induction ms arbitrary: s)
  case (Cons m ms)
  have "wf (run_move m s) \<and> nonneg (run_move m s)"
  proof (cases m)
    case (Withdraw k n)
    with Cons.prems show ?thesis
      by (cases "take k n s") (auto simp: run_move_def dest: take_wf take_nonneg)
  next
    case (Return k n)
    with Cons.prems show ?thesis
      by (cases "put k n s") (auto simp: run_move_def dest: put_wf put_nonneg)
  qed
  with Cons show ?case by simp
qed simp

text \<open>A withdrawal undone by a return of the same quantity.\<close>

lemma take_put:
  assumes "wf s" "take k n s = (Inr True, s1)"
  shows "\<exists>r s2. put k n s1 = (Inr r, s2) \<and> stock s2 = stock s"
proof -
  from assms obtain q where q: "stock s k = Some q" "stock s1 = (stock s)(k \<mapsto> q - n)" "wf s1"
    using take_none [of s k n] by (auto elim!: take_cases [of s k n])
  then have "stock s1 k = Some (q - n)" by simp
  from put_some [OF q(3) this, of n] obtain s2
    where "put k n s1 = (Inr (q - n = 0), s2)" "stock s2 = (stock s1)(k \<mapsto> q)" by auto
  with q show ?thesis by (auto simp: fun_upd_idem)
qed

end


subsection \<open>The repository provides the ledger\<close>

datatype stock_key = Product_Stock int | Variant_Stock int

fun stock_of :: "db \<Rightarrow> stock_key \<rightharpoonup> int" where
  "stock_of d (Product_Stock i) = map_option p_qty (find (\<lambda>p. p_id p = i) (t_product d))"
| "stock_of d (Variant_Stock i) = map_option v_qty (find (\<lambda>v. v_id v = i) (t_variant d))"

definition stock_wf :: "db \<Rightarrow> bool" where
  "stock_wf d \<longleftrightarrow> distinct (map p_id (t_product d)) \<and> distinct (map v_id (t_variant d))"

fun take_stock :: "stock_key \<Rightarrow> int \<Rightarrow> bool act" where
  "take_stock (Product_Stock i) n = decrement_stock (Some i) n None"
| "take_stock (Variant_Stock i) n = decrement_stock None n (Some i)"

fun put_stock :: "stock_key \<Rightarrow> int \<Rightarrow> bool act" where
  "put_stock (Product_Stock i) n = increment_stock (Some i) n None"
| "put_stock (Variant_Stock i) n = increment_stock None n (Some i)"

lemma find_upd_key:
  "(\<And>r. k (f r) = k r) \<Longrightarrow> find (\<lambda>r. k r = j) (upd (\<lambda>r. k r = i \<and> P r) f rows) =
    (if j = i then map_option (\<lambda>r. if P r then f r else r) (find (\<lambda>r. k r = j) rows)
     else find (\<lambda>r. k r = j) rows)"
  by (induction rows) auto

lemma take_stock_product:
  "decrement_stock (Some i) n None s =
    (Inr (rowcount (\<lambda>x. p_id x = i \<and> n \<le> p_qty x) (t_product (work s)) \<noteq> 0),
     s\<lparr>work := (work s)\<lparr>t_product := upd (\<lambda>x. p_id x = i \<and> n \<le> p_qty x)
        (\<lambda>x. x\<lparr>p_qty := p_qty x - n\<rparr>) (t_product (work s))\<rparr>\<rparr>)"
  by (simp add: decrement_stock_def del: rowcount_0)

lemma take_stock_variant:
  "decrement_stock pid n (Some i) s =
    (Inr (rowcount (\<lambda>x. v_id x = i \<and> n \<le> v_qty x) (t_variant (work s)) \<noteq> 0),
     s\<lparr>work := (work s)\<lparr>t_variant := upd (\<lambda>x. v_id x = i \<and> n \<le> v_qty x)
        (\<lambda>x. x\<lparr>v_qty := v_qty x - n\<rparr>) (t_variant (work s))\<rparr>\<rparr>)"
  by (simp add: decrement_stock_def del: rowcount_0)

lemma put_stock_product:
  "increment_stock (Some i) n None s =
    (Inr (rowcount (\<lambda>x. p_id x = i) (t_product (work s)) \<noteq> 0 \<and> stock_of (work s) (Product_Stock i) = Some 0),
     s\<lparr>work := (work s)\<lparr>t_product := upd (\<lambda>x. p_id x = i)
        (\<lambda>x. x\<lparr>p_qty := p_qty x + n\<rparr>) (t_product (work s))\<rparr>\<rparr>)"
  by (simp add: increment_stock_def del: rowcount_0)

lemma put_stock_variant:
  "increment_stock pid n (Some i) s =
    (Inr (rowcount (\<lambda>x. v_id x = i) (t_variant (work s)) \<noteq> 0 \<and> stock_of (work s) (Variant_Stock i) = Some 0),
     s\<lparr>work := (work s)\<lparr>t_variant := upd (\<lambda>x. v_id x = i)
        (\<lambda>x. x\<lparr>v_qty := v_qty x + n\<rparr>) (t_variant (work s))\<rparr>\<rparr>)"
  by (simp add: increment_stock_def del: rowcount_0)

lemmas stock_runs = take_stock_product take_stock_variant put_stock_product put_stock_variant

lemma stock_of_product_upd:
  "(\<And>x. p_id (f x) = p_id x) \<Longrightarrow>
    stock_of (d\<lparr>t_product := upd (\<lambda>x. p_id x = i \<and> P x) f (t_product d)\<rparr>) k =
    (if k = Product_Stock i then map_option (\<lambda>x. if P x then p_qty (f x) else p_qty x)
       (find (\<lambda>p. p_id p = i) (t_product d)) else stock_of d k)"
  by (cases k) (auto simp: find_upd_key option.map_comp comp_def if_distrib cong: if_cong)

lemma stock_of_variant_upd:
  "(\<And>x. v_id (f x) = v_id x) \<Longrightarrow>
    stock_of (d\<lparr>t_variant := upd (\<lambda>x. v_id x = i \<and> P x) f (t_variant d)\<rparr>) k =
    (if k = Variant_Stock i then map_option (\<lambda>x. if P x then v_qty (f x) else v_qty x)
       (find (\<lambda>p. v_id p = i) (t_variant d)) else stock_of d k)"
  by (cases k) (auto simp: find_upd_key option.map_comp comp_def if_distrib cong: if_cong)

lemmas stock_of_upd = stock_of_product_upd stock_of_variant_upd
  stock_of_product_upd [where P = "\<lambda>_. True", simplified] stock_of_variant_upd [where P = "\<lambda>_. True", simplified]

lemma stock_wf_upd:
  "stock_wf d \<Longrightarrow> stock_wf (d\<lparr>t_product := upd P (\<lambda>x. x\<lparr>p_qty := g x\<rparr>) (t_product d)\<rparr>)"
  "stock_wf d \<Longrightarrow> stock_wf (d\<lparr>t_variant := upd Q (\<lambda>x. x\<lparr>v_qty := h x\<rparr>) (t_variant d)\<rparr>)"
  by (simp_all add: stock_wf_def map_upd_key)

interpretation stock: ledger "\<lambda>s. stock_of (work s)" take_stock put_stock "\<lambda>s. stock_wf (work s)"
proof unfold_locales
  fix s :: session and k :: stock_key and q n :: int
  assume wf: "stock_wf (work s)"
  show "\<exists>s'. take_stock k n s = (Inr True, s') \<and> stock_of (work s') = (stock_of (work s))(k \<mapsto> q - n) \<and> stock_wf (work s')"
    if "stock_of (work s) k = Some q" "n \<le> q"
  proof (cases k)
    case (Product_Stock i)
    with that obtain r where r: "find (\<lambda>p. p_id p = i) (t_product (work s)) = Some r" "p_qty r = q" by auto
    with find_SomeD [OF r(1)] show ?thesis
      using Product_Stock that(2) wf
      by (auto simp: stock_runs stock_of_upd stock_wf_upd fun_eq_iff simp del: stock_of.simps)
  next
    case (Variant_Stock i)
    with that obtain r where r: "find (\<lambda>p. v_id p = i) (t_variant (work s)) = Some r" "v_qty r = q" by auto
    with find_SomeD [OF r(1)] show ?thesis
      using Variant_Stock that(2) wf
      by (auto simp: stock_runs stock_of_upd stock_wf_upd fun_eq_iff simp del: stock_of.simps)
  qed
  show "take_stock k n s = (Inr False, s)" if "\<forall>q. stock_of (work s) k = Some q \<longrightarrow> q < n"
  proof (cases k)
    case (Product_Stock i)
    have "\<not> (p_id x = i \<and> n \<le> p_qty x)" if "x \<in> set (t_product (work s))" for x
      using find_key_unique [of p_id "t_product (work s)" x] wf that
        \<open>\<forall>q. stock_of (work s) k = Some q \<longrightarrow> q < n\<close> Product_Stock
      by (auto simp: stock_wf_def)
    then show ?thesis
      using Product_Stock by (simp add: stock_runs upd_none)
  next
    case (Variant_Stock i)
    have "\<not> (v_id x = i \<and> n \<le> v_qty x)" if "x \<in> set (t_variant (work s))" for x
      using find_key_unique [of v_id "t_variant (work s)" x] wf that
        \<open>\<forall>q. stock_of (work s) k = Some q \<longrightarrow> q < n\<close> Variant_Stock
      by (auto simp: stock_wf_def)
    then show ?thesis
      using Variant_Stock by (simp add: stock_runs upd_none)
  qed
  show "\<exists>s'. put_stock k n s = (Inr (q = 0), s') \<and> stock_of (work s') = (stock_of (work s))(k \<mapsto> q + n) \<and> stock_wf (work s')"
    if "stock_of (work s) k = Some q"
  proof (cases k)
    case (Product_Stock i)
    with that obtain r where r: "find (\<lambda>p. p_id p = i) (t_product (work s)) = Some r" "p_qty r = q" by auto
    with find_SomeD [OF r(1)] show ?thesis
      using Product_Stock that wf
      by (auto simp: stock_runs stock_of_upd stock_wf_upd fun_eq_iff simp del: stock_of.simps)
  next
    case (Variant_Stock i)
    with that obtain r where r: "find (\<lambda>p. v_id p = i) (t_variant (work s)) = Some r" "v_qty r = q" by auto
    with find_SomeD [OF r(1)] show ?thesis
      using Variant_Stock that wf
      by (auto simp: stock_runs stock_of_upd stock_wf_upd fun_eq_iff simp del: stock_of.simps)
  qed
  show "put_stock k n s = (Inr False, s)" if "stock_of (work s) k = None"
    using that by (cases k) (auto simp: stock_runs find_None_iff upd_none)
qed

end
