(* ===== verification/PyJson.thy ===== *)
theory PyJson
  imports Order_Repo
begin

text \<open>
  Decoded JSON as Python handles it: truthiness, \<open>dict.get\<close>, indexing, iteration, \<open>str\<close> and
  \<open>repr\<close> of a value, and \<open>Decimal(str)\<close>. A missing key and an explicit \<open>null\<close> are both \<open>JNull\<close>
  to \<open>get\<close>, as both are \<open>None\<close> in Python; an operation the value's type does not support
  raises the built-in exception Python raises.
\<close>

subsection \<open>Truthiness and access\<close>

fun jtruthy :: "json \<Rightarrow> bool" where
  "jtruthy JNull = False"
| "jtruthy (JBool b) = b"
| "jtruthy (JInt i) = (i \<noteq> 0)"
| "jtruthy (JFloat t) = (t \<notin> {''0.0'', ''-0.0''})"
| "jtruthy (JStr s) = (s \<noteq> [])"
| "jtruthy (JArr xs) = (xs \<noteq> [])"
| "jtruthy (JObj kvs) = (kvs \<noteq> [])"

definition jor :: "json \<Rightarrow> json \<Rightarrow> json" where
  "jor a b = (if jtruthy a then a else b)"

fun jget :: "string \<Rightarrow> json \<Rightarrow> exn + json" where
  "jget k (JObj kvs) = Inr (case map_of kvs k of None \<Rightarrow> JNull | Some v \<Rightarrow> v)"
| "jget k _ = Inl (PyError ''AttributeError'')"

fun jfirst :: "json \<Rightarrow> exn + json" where
  "jfirst (JArr (x # xs)) = Inr x"
| "jfirst (JArr []) = Inl (PyError ''IndexError'')"
| "jfirst (JStr (c # cs)) = Inr (JStr [c])"
| "jfirst (JStr []) = Inl (PyError ''IndexError'')"
| "jfirst (JObj kvs) = Inl (PyError ''KeyError'')"
| "jfirst _ = Inl (PyError ''TypeError'')"

fun jiter :: "json \<Rightarrow> exn + json list" where
  "jiter (JArr xs) = Inr xs"
| "jiter (JObj kvs) = Inr (map (\<lambda>kv. JStr (fst kv)) kvs)"
| "jiter (JStr s) = Inr (map (\<lambda>c. JStr [c]) s)"
| "jiter _ = Inl (PyError ''TypeError'')"

definition is_obj :: "json \<Rightarrow> bool" where
  "is_obj j = (case j of JObj _ \<Rightarrow> True | _ \<Rightarrow> False)"

definition is_arr :: "json \<Rightarrow> bool" where
  "is_arr j = (case j of JArr _ \<Rightarrow> True | _ \<Rightarrow> False)"

subsection \<open>Rendering\<close>

definition hex_char :: "nat \<Rightarrow> char" where
  "hex_char n = (if n < 10 then char_of (48 + n) else char_of (87 + n))"

text \<open>\<open>repr\<close> of a string: the quote that needs no escape, backslash escapes, \<open>\xNN\<close> for the rest.\<close>

definition repr_char :: "char \<Rightarrow> char \<Rightarrow> string" where
  "repr_char quote c =
    (let n = of_char c :: nat in
      if c = quote \<or> n = 92 then [char_of (92 :: nat), c]
      else if n = 10 then [char_of (92 :: nat), CHR ''n'']
      else if n = 13 then [char_of (92 :: nat), CHR ''r'']
      else if n = 9 then [char_of (92 :: nat), CHR ''t'']
      else if n < 32 \<or> 127 \<le> n \<and> n \<le> 160 \<or> n = 173
      then [char_of (92 :: nat), CHR ''x'', hex_char (n div 16), hex_char (n mod 16)]
      else [c])"

definition repr_str :: "string \<Rightarrow> string" where
  "repr_str s =
    (let single = char_of (39 :: nat); double = char_of (34 :: nat);
         quote = (if single \<in> set s \<and> double \<notin> set s then double else single)
     in quote # concat (map (repr_char quote) s) @ [quote])"

fun py_repr :: "json \<Rightarrow> string" where
  "py_repr JNull = ''None''"
| "py_repr (JBool b) = (if b then ''True'' else ''False'')"
| "py_repr (JInt i) = int_str i"
| "py_repr (JFloat t) = t"
| "py_repr (JStr s) = repr_str s"
| "py_repr (JArr xs) = ''['' @ join '', '' (map py_repr xs) @ '']''"
| "py_repr (JObj kvs) = ''{'' @ join '', '' (map (\<lambda>kv. repr_str (fst kv) @ '': '' @ py_repr (snd kv)) kvs) @ ''}''"

definition py_str :: "json \<Rightarrow> string" where
  "py_str j = (case j of JStr s \<Rightarrow> s | _ \<Rightarrow> py_repr j)"

text \<open>\<open>str(row.get(k) or "")\<close>, the idiom of every carrier field.\<close>

definition jstr_or_empty :: "json \<Rightarrow> string" where
  "jstr_or_empty j = (if jtruthy j then py_str j else [])"

definition jopt :: "string option \<Rightarrow> json" where
  "jopt v = (case v of None \<Rightarrow> JNull | Some s \<Rightarrow> JStr s)"

subsection \<open>Decimals\<close>

text \<open>
  \<open>Decimal(text)\<close> for a finite numeral (sign, digits, fraction, exponent, surrounding white
  space, underscores): anything else is \<open>None\<close>. Python also reads the names of infinities and
  NaN, which no price is.
\<close>

definition digits_only :: "string \<Rightarrow> bool" where
  "digits_only s \<longleftrightarrow> list_all (\<lambda>c. 48 \<le> (of_char c :: nat) \<and> of_char c \<le> (57 :: nat)) s"

definition drop_sign :: "string \<Rightarrow> int \<times> string" where
  "drop_sign s =
    (case s of
      c # cs \<Rightarrow> if c = CHR ''-'' then (- 1, cs) else if c = CHR ''+'' then (1, cs) else (1, s)
    | [] \<Rightarrow> (1, []))"

definition scale10 :: "int \<Rightarrow> rat \<Rightarrow> rat" where
  "scale10 e x = (if e < 0 then x / 10 ^ nat (- e) else x * 10 ^ nat e)"

definition parse_mantissa :: "string \<Rightarrow> rat option" where
  "parse_mantissa s =
    (let ip = before CHR ''.'' s; rest = drop (length ip) s; fp = tl rest in
      if digits_only ip \<and> digits_only fp \<and> ip @ fp \<noteq> []
      then Some (of_nat (str_val (ip @ fp)) / 10 ^ length fp) else None)"

definition parse_decimal :: "string \<Rightarrow> rat option" where
  "parse_decimal text =
    (let s = filter (\<lambda>c. c \<noteq> CHR ''_'') (strip text);
         (sg, body) = drop_sign s;
         m = takeWhile (\<lambda>c. c \<noteq> CHR ''e'' \<and> c \<noteq> CHR ''E'') body;
         ex = drop (length m) body
     in case parse_mantissa m of
          None \<Rightarrow> None
        | Some x \<Rightarrow>
            if ex = [] then Some (of_int sg * x)
            else
              let (esg, ed) = drop_sign (tl ex) in
              if ed \<noteq> [] \<and> digits_only ed
              then Some (of_int sg * scale10 (esg * int (str_val ed)) x) else None)"

text \<open>\<open>str\<close> of a \<open>Decimal\<close> read from a \<open>Numeric(12, 2)\<close> column: always two fraction digits.\<close>

definition money_str :: "money \<Rightarrow> string" where
  "money_str x =
    (let c = \<lfloor>\<bar>x\<bar> * 100\<rfloor> in
      (if x < 0 then ''-'' else []) @ nat_str (nat (c div 100)) @ ''.'' @ zero_pad 2 (nat_str (nat (c mod 100))))"

text \<open>\<open>repr(float(x))\<close> of an amount with two decimals, far below \<open>10 ^ 16\<close>: its shortest decimal.\<close>

definition float_str :: "money \<Rightarrow> string" where
  "float_str x =
    (let c = \<lfloor>\<bar>x\<bar> * 100\<rfloor>; f = nat (c mod 100) in
      (if x < 0 then ''-'' else []) @ nat_str (nat (c div 100)) @ ''.'' @
      (if f mod 10 = 0 then nat_str (f div 10) else zero_pad 2 (nat_str f)))"

definition upper_char :: "char \<Rightarrow> char" where
  "upper_char c =
    (let n = of_char c :: nat in
      if 97 \<le> n \<and> n \<le> 122 \<or> 224 \<le> n \<and> n \<le> 254 \<and> n \<noteq> 247 then char_of (n - 32) else c)"

text \<open>\<open>str.upper\<close> on ASCII text (three Latin-1 letters have longer upper forms, kept here).\<close>

definition upper :: "string \<Rightarrow> string" where
  "upper = map upper_char"

lemma jget_obj: "is_obj j \<Longrightarrow> \<exists>v. jget k j = Inr v"
  by (cases j) (auto simp: is_obj_def)

lemma jget_error: "jget k j = Inl e \<Longrightarrow> e = PyError ''AttributeError'' \<and> \<not> is_obj j"
  by (cases j) (auto simp: is_obj_def)

end
