(* ===== verification/Novapost.thy ===== *)
theory Novapost
  imports PyJson "HOL-Library.AList"
begin

text \<open>
  The carrier: the HTTP client (\<open>app/services/delivery/novapost\_client.py\<close>), the development
  stub (\<open>novapost\_stub.py\<close>) and the factory that chooses between them (\<open>\_\_init\_\_.py\<close>).

  The remote server is the parameter \<open>env\_http\<close>. An exception's text that \<open>httpx\<close> itself
  produces is not part of the model; the message of the code before it is. Redis is up for the
  bearer token. The place names of the stub are written without their diacritics.
\<close>

definition ok_status :: "int \<Rightarrow> bool" where
  "ok_status st \<longleftrightarrow> 200 \<le> st \<and> st < 300"

subsection \<open>Payloads\<close>

definition rows_of :: "json \<Rightarrow> json list" where
  "rows_of payload =
    (case payload of
      JArr xs \<Rightarrow> xs
    | JObj kvs \<Rightarrow>
        (let field = (\<lambda>k. case map_of kvs k of None \<Rightarrow> JNull | Some v \<Rightarrow> v);
             rows = jor (jor (field ''data'') (field ''items'')) (JArr [])
         in case rows of JArr xs \<Rightarrow> xs | _ \<Rightarrow> [])
    | _ \<Rightarrow> [])"

definition describe_obj :: "(string \<times> json) list \<Rightarrow> string option" where
  "describe_obj kvs =
    (let field = (\<lambda>k. case map_of kvs k of None \<Rightarrow> JNull | Some v \<Rightarrow> v) in
      case find (\<lambda>k. jtruthy (field k)) [''message'', ''error'', ''detail''] of
        None \<Rightarrow> None | Some k \<Rightarrow> Some (py_str (field k)))"

definition describe :: "int \<Rightarrow> string \<Rightarrow> json option \<Rightarrow> string" where
  "describe st text body =
    (let fallback = (if text \<noteq> [] then text else ''Nova Post HTTP '' @ int_str st) in
      case body of
        None \<Rightarrow> fallback
      | Some (JObj kvs) \<Rightarrow>
          (case map_of kvs ''errors'' of
            Some (JArr (first # _)) \<Rightarrow>
              (case first of
                JObj es \<Rightarrow>
                  (let field = (\<lambda>k. case map_of es k of None \<Rightarrow> JNull | Some v \<Rightarrow> v) in
                    py_str (jor (jor (field ''description'') (field ''message'')) first))
              | _ \<Rightarrow> py_str first)
          | _ \<Rightarrow> (case describe_obj kvs of None \<Rightarrow> fallback | Some m \<Rightarrow> m))
      | Some _ \<Rightarrow> fallback)"

subsection \<open>Transport\<close>

definition http_send :: "environment \<Rightarrow> http_request \<Rightarrow> http_result net" where
  "http_send env rq =
    (\<lambda>w. (Inr (env_http env (sent w) rq), w\<lparr>sent := sent w @ [rq]\<rparr>))"

definition np_token :: "environment \<Rightarrow> bool \<Rightarrow> string net" where
  "np_token env force =
    bindM (gets np_jwt) (\<lambda>cached.
    if \<not> force \<and> (case cached of None \<Rightarrow> False | Some t \<Rightarrow> t \<noteq> []) then ret (the cached)
    else
      bindM (http_send env \<lparr>hq_method = ''GET'',
          hq_url = novapost_base_url (env_cfg env) @ ''/clients/authorization'',
          hq_params = [(''apiKey'', JStr (novapost_api_token (env_cfg env)))],
          hq_json = None, hq_headers = []\<rparr>) (\<lambda>r.
      case r of
        Response st text body \<Rightarrow>
          if \<not> ok_status st then throw (NovaPostError ''Nova Post authorization failed'')
          else
            (case body of
              None \<Rightarrow> throw (NovaPostError ''Nova Post returned invalid JSON'')
            | Some j \<Rightarrow>
                bindM (liftE (jget ''jwt'' (jor j (JObj [])))) (\<lambda>token.
                if \<not> jtruthy token then throw (NovaPostError ''Nova Post returned no token'')
                else
                  bindM (modify (\<lambda>w. w\<lparr>np_jwt := Some (py_str token)\<rparr>)) (\<lambda>_.
                  ret (py_str token))))
      | _ \<Rightarrow> throw (NovaPostError ''Nova Post authorization failed'')))"

text \<open>The loop \<open>for attempt in (1, 2)\<close> of \<open>\_request\<close>; an empty body is \<open>None\<close>.\<close>

fun np_attempts ::
    "environment \<Rightarrow> string \<Rightarrow> string \<Rightarrow> string \<Rightarrow> (string \<times> json) list \<Rightarrow> json option
      \<Rightarrow> nat list \<Rightarrow> json net" where
  "np_attempts env lang method path params body [] =
    throw (NovaPostError ''Nova Post rejected the token twice'')"
| "np_attempts env lang method path params body (attempt # later) =
    bindM (np_token env (attempt = 2)) (\<lambda>token.
    bindM (http_send env \<lparr>hq_method = method, hq_url = novapost_base_url (env_cfg env) @ path,
        hq_params = params, hq_json = body,
        hq_headers = [(''Authorization'', token), (''Accept-language'', lang)]\<rparr>) (\<lambda>r.
    case r of
      Response st text j \<Rightarrow>
        if st = 401 \<and> attempt = 1 then np_attempts env lang method path params body later
        else if \<not> ok_status st then throw (NovaPostError (describe st text j))
        else if text = [] then ret JNull
        else (case j of
            None \<Rightarrow> throw (NovaPostError ''Nova Post returned invalid JSON'')
          | Some v \<Rightarrow> ret v)
    | Timed_Out \<Rightarrow> throw (NovaPostError (''Nova Post timed out on '' @ path))
    | Transport_Error \<Rightarrow> throw (NovaPostError ''Nova Post request failed'')))"

definition np_request ::
    "environment \<Rightarrow> string \<Rightarrow> string \<Rightarrow> string \<Rightarrow> (string \<times> json) list \<Rightarrow> json option \<Rightarrow> json net" where
  "np_request env lang method path params body =
    np_attempts env lang method path params body [1, 2]"

definition np_get :: "environment \<Rightarrow> string \<Rightarrow> string \<Rightarrow> (string \<times> json) list \<Rightarrow> json net" where
  "np_get env lang path params = np_request env lang ''GET'' path params None"

definition np_post :: "environment \<Rightarrow> string \<Rightarrow> string \<Rightarrow> json \<Rightarrow> json net" where
  "np_post env lang path body = np_request env lang ''POST'' path [] (Some body)"

subsection \<open>Endpoints\<close>

definition category_map :: "string \<Rightarrow> string list" where
  "category_map category =
    (if category = ''postomat'' then [''Postomat''] else [''CargoBranch'', ''PostBranch''])"

definition client_settlements :: "environment \<Rightarrow> string \<Rightarrow> string \<Rightarrow> json list net" where
  "client_settlements env lang query =
    bindM (np_get env lang ''/settlements''
      [(''countryCodes[]'', JStr ''MD''), (''textSearch'', JStr query),
       (''limit'', JInt 15), (''page'', JInt 1)]) (\<lambda>payload.
    ret (rows_of payload))"

definition client_divisions :: "environment \<Rightarrow> string \<Rightarrow> string \<Rightarrow> string \<Rightarrow> string \<Rightarrow> json list net" where
  "client_divisions env lang settlement_id category query =
    bindM (np_get env lang ''/divisions''
      [(''countryCodes[]'', JStr ''MD''), (''settlementIds[]'', JStr settlement_id),
       (''divisionCategories[]'', JArr (map JStr (category_map category))),
       (''textSearch'', JStr query), (''limit'', JInt 25), (''page'', JInt 1)]) (\<lambda>payload.
    ret (rows_of payload))"

definition is_np_error :: "exn \<Rightarrow> bool" where
  "is_np_error e = (case e of NovaPostError _ \<Rightarrow> True | _ \<Rightarrow> False)"

definition client_division_by_id :: "environment \<Rightarrow> string \<Rightarrow> string \<Rightarrow> json option net" where
  "client_division_by_id env lang division_id =
    catchM
      (bindM (np_get env lang ''/divisions'' [(''ids[]'', JStr division_id), (''limit'', JInt 1)]) (\<lambda>payload.
       ret (case rows_of payload of [] \<Rightarrow> None | r # _ \<Rightarrow> Some r)))
      is_np_error (\<lambda>_. ret None)"

definition merge_obj :: "(string \<times> json) list \<Rightarrow> json \<Rightarrow> json" where
  "merge_obj base extra = (case extra of JObj kvs \<Rightarrow> JObj (AList.merge base kvs) | _ \<Rightarrow> JObj base)"

definition client_calculate :: "environment \<Rightarrow> string \<Rightarrow> json \<Rightarrow> json list \<Rightarrow> json net" where
  "client_calculate env lang recipient parcels =
    np_post env lang ''/shipments/calculations''
      (JObj [(''payerType'', JStr ''ThirdPerson''),
        (''payerContractNumber'', JStr (novapost_contract_number (env_cfg env))),
        (''parcels'', JArr parcels),
        (''sender'', JObj [(''countryCode'', JStr ''MD''),
           (''divisionId'', JStr (novapost_sender_division_id (env_cfg env)))]),
        (''recipient'', merge_obj [(''countryCode'', JStr ''MD'')] recipient)])"

definition client_create_shipment :: "environment \<Rightarrow> string \<Rightarrow> json \<Rightarrow> json net" where
  "client_create_shipment env lang payload = np_post env lang ''/shipments'' payload"

definition client_tracking :: "environment \<Rightarrow> string \<Rightarrow> string list \<Rightarrow> json net" where
  "client_tracking env lang numbers =
    np_get env lang ''/shipments/tracking'' [(''numbers[]'', JArr (map JStr numbers))]"

definition client_delete_shipment :: "environment \<Rightarrow> string \<Rightarrow> string \<Rightarrow> unit net" where
  "client_delete_shipment env lang shipment_id =
    bindM (np_request env lang ''DELETE'' (''/shipments/'' @ shipment_id) [] None) (\<lambda>_. ret ())"

subsection \<open>The stub\<close>

record stub_settlement =
  ss_id :: string
  ss_name :: string
  ss_band :: nat

record stub_division =
  sd_id :: string
  sd_settlement :: string
  sd_category :: string
  sd_number :: string
  sd_address :: string

definition stub_settlements_data :: "stub_settlement list" where
  "stub_settlements_data =
    [\<lparr>ss_id = ''s-1'', ss_name = ''Chisinau'', ss_band = 0\<rparr>,
     \<lparr>ss_id = ''s-2'', ss_name = ''Balti'', ss_band = 1\<rparr>,
     \<lparr>ss_id = ''s-3'', ss_name = ''Cahul'', ss_band = 2\<rparr>]"

definition stub_divisions_data :: "stub_division list" where
  "stub_divisions_data =
    [\<lparr>sd_id = ''d-1'', sd_settlement = ''s-1'', sd_category = ''branch'', sd_number = ''1'',
       sd_address = ''str. Stefan cel Mare 12''\<rparr>,
     \<lparr>sd_id = ''d-2'', sd_settlement = ''s-1'', sd_category = ''branch'', sd_number = ''2'',
       sd_address = ''bd. Dacia 45''\<rparr>,
     \<lparr>sd_id = ''d-3'', sd_settlement = ''s-1'', sd_category = ''postomat'', sd_number = ''101'',
       sd_address = ''str. Alba Iulia 75 (Kaufland)''\<rparr>,
     \<lparr>sd_id = ''d-4'', sd_settlement = ''s-2'', sd_category = ''branch'', sd_number = ''1'',
       sd_address = ''str. Independentei 3''\<rparr>,
     \<lparr>sd_id = ''d-5'', sd_settlement = ''s-3'', sd_category = ''postomat'', sd_number = ''102'',
       sd_address = ''str. Republicii 20''\<rparr>]"

definition base_by_band :: "nat \<Rightarrow> rat" where
  "base_by_band b = (case map_of [(0, 45), (1, 60), (2, 75)] b of None \<Rightarrow> 60 | Some c \<Rightarrow> c)"

definition stub_city :: "string \<Rightarrow> string" where
  "stub_city sid =
    (case find (\<lambda>s. ss_id s = sid) stub_settlements_data of None \<Rightarrow> [] | Some s \<Rightarrow> ss_name s)"

fun is_sub :: "string \<Rightarrow> string \<Rightarrow> bool" where
  "is_sub t [] = (t = [])"
| "is_sub t (c # cs) = (take (length t) (c # cs) = t \<or> is_sub t cs)"

definition stub_settlements :: "string \<Rightarrow> json list" where
  "stub_settlements query =
    (let term = lower (strip query) in
      take 15 (map (\<lambda>s. JObj [(''id'', JStr (ss_id s)), (''name'', JStr (ss_name s))])
        (filter (\<lambda>s. term = [] \<or> is_sub term (lower (ss_name s))) stub_settlements_data)))"

definition stub_division_json :: "stub_division \<Rightarrow> json" where
  "stub_division_json d = JObj [(''id'', JStr (sd_id d)), (''number'', JStr (sd_number d)),
     (''address'', JStr (sd_address d)),
     (''settlement'', JObj [(''id'', JStr (sd_settlement d)), (''name'', JStr (stub_city (sd_settlement d)))])]"

definition stub_divisions :: "string \<Rightarrow> string \<Rightarrow> string \<Rightarrow> json list" where
  "stub_divisions settlement_id category query =
    (let term = lower (strip query) in
      take 25 (map stub_division_json
        (filter (\<lambda>d. sd_settlement d = settlement_id \<and> sd_category d = category \<and>
            (term = [] \<or> is_sub term (lower (sd_address d)) \<or> term = sd_number d))
          stub_divisions_data)))"

definition stub_division_by_id :: "string \<Rightarrow> json option" where
  "stub_division_by_id i = map_option stub_division_json (find (\<lambda>d. sd_id d = i) stub_divisions_data)"

text \<open>The parcels are the service's own (\<open>build\_parcels\<close>), whose weight is an integer.\<close>

fun as_int :: "json \<Rightarrow> exn + int" where
  "as_int (JInt i) = Inr i"
| "as_int _ = Inl (PyError ''TypeError'')"

definition parcel_grams :: "json \<Rightarrow> exn + int" where
  "parcel_grams p =
    bindE (jget ''actualWeight'' p) (\<lambda>g.
    as_int (jor g (JInt 0)))"

definition stub_calculate :: "json \<Rightarrow> json list \<Rightarrow> exn + json" where
  "stub_calculate recipient parcels =
    bindE (mapE parcel_grams parcels) (\<lambda>gs.
    bindE (jget ''settlementId'' recipient) (\<lambda>sid0.
    bindE (jget ''divisionId'' recipient) (\<lambda>did.
    bindE (jget ''addressParts'' recipient) (\<lambda>parts.
    let total = sum_list gs;
        grams = (if total \<noteq> 0 then total else 1000);
        sid = (if jtruthy sid0 then py_str sid0
               else if jtruthy did
               then (case find (\<lambda>d. sd_id d = py_str did) stub_divisions_data of
                   None \<Rightarrow> [] | Some d \<Rightarrow> sd_settlement d)
               else []);
        band = (case find (\<lambda>s. ss_id s = sid) stub_settlements_data of
            None \<Rightarrow> 1 | Some s \<Rightarrow> ss_band s);
        cost = base_by_band band + of_int grams / 1000 * 8 + (if jtruthy parts then 25 else 0)
    in Inr (JObj [(''services'', JArr [JObj [(''cost'', JStr (money_str (quantize 2 cost)))]])])))))"

text \<open>\<open>issued\<close> is the instance's counter before the call.\<close>

definition stub_create_shipment :: "nat \<Rightarrow> json \<times> nat" where
  "stub_create_shipment issued =
    (let n = issued + 1; number = ''STUB'' @ zero_pad 8 (nat_str n) in
      (JObj [(''id'', JStr number), (''number'', JStr number), (''status'', JStr ''ReadyToShip'')], n))"

definition stub_tracking :: "string list \<Rightarrow> json" where
  "stub_tracking numbers = JObj [(''items'', JArr (map (\<lambda>n. JObj [(''number'', JStr n),
     (''currentStatus'', JObj [(''status'', JStr ''Accepted''), (''statusCode'', JStr ''10'')])]) numbers))]"

subsection \<open>The factory\<close>

text \<open>
  What a backend offers. A stub is built anew by every call of the factory, and each service
  instance creates at most one shipment, so the counter of the stub that answers is \<open>0\<close>.
\<close>

record backend =
  be_settlements :: "string \<Rightarrow> json list net"
  be_divisions :: "string \<Rightarrow> string \<Rightarrow> string \<Rightarrow> json list net"
  be_division_by_id :: "string \<Rightarrow> json option net"
  be_calculate :: "json \<Rightarrow> json list \<Rightarrow> json net"
  be_create_shipment :: "json \<Rightarrow> json net"
  be_tracking :: "string list \<Rightarrow> json net"
  be_delete_shipment :: "string \<Rightarrow> unit net"

definition new_stub :: backend where
  "new_stub = \<lparr>
     be_settlements = (\<lambda>q. ret (stub_settlements q)),
     be_divisions = (\<lambda>s c q. ret (stub_divisions s c q)),
     be_division_by_id = (\<lambda>i. ret (stub_division_by_id i)),
     be_calculate = (\<lambda>r ps. liftE (stub_calculate r ps)),
     be_create_shipment = (\<lambda>_. ret (fst (stub_create_shipment 0))),
     be_tracking = (\<lambda>ns. ret (stub_tracking ns)),
     be_delete_shipment = (\<lambda>_. ret ())\<rparr>"

definition new_client :: "environment \<Rightarrow> string \<Rightarrow> backend" where
  "new_client env lang = \<lparr>
     be_settlements = client_settlements env lang,
     be_divisions = client_divisions env lang,
     be_division_by_id = client_division_by_id env lang,
     be_calculate = client_calculate env lang,
     be_create_shipment = client_create_shipment env lang,
     be_tracking = client_tracking env lang,
     be_delete_shipment = client_delete_shipment env lang\<rparr>"

definition new_novapost_client :: "environment \<Rightarrow> string \<Rightarrow> backend" where
  "new_novapost_client env lang =
    (if novapost_stub (env_cfg env) then new_stub else new_client env lang)"


subsection \<open>What a backend may raise\<close>

definition carrier_exn :: "exn \<Rightarrow> bool" where
  "carrier_exn e \<longleftrightarrow> is_np_error e \<or> (\<exists>m. e = PyError m)"

lemma raises_http_send [raises]: "raises_only P (http_send env rq)"
  by (simp add: raises_only_def http_send_def)

lemma raises_case_http [raises]:
  "raises_only P a \<Longrightarrow> raises_only P b \<Longrightarrow> (\<And>st t j. raises_only P (c st t j)) \<Longrightarrow>
    raises_only P (case r of Timed_Out \<Rightarrow> a | Transport_Error \<Rightarrow> b | Response st t j \<Rightarrow> c st t j)"
  by (cases r) simp_all

lemma carrier_exnI [intro, simp]: "carrier_exn (NovaPostError m)" "carrier_exn (PyError m)"
  by (simp_all add: carrier_exn_def is_np_error_def)

lemma np_token_raises [raises]: "raises_only carrier_exn (np_token env force)"
  unfolding np_token_def by (intro raises) (auto dest: jget_error)

lemma np_attempts_raises: "raises_only carrier_exn (np_attempts env lang m p ps b as)"
proof (induction as)
  case (Cons a as)
  show ?case
    unfolding np_attempts.simps by (intro raises Cons) auto
qed (simp add: raises_only_def)

lemma np_request_raises [raises]:
  "raises_only carrier_exn (np_request env lang m p ps b)"
  "raises_only carrier_exn (np_get env lang p ps)"
  "raises_only carrier_exn (np_post env lang p j)"
  unfolding np_get_def np_post_def np_request_def by (rule np_attempts_raises)+

locale carrier =
  fixes b :: backend
  assumes settlements_exn: "raises_only carrier_exn (be_settlements b q)"
    and divisions_exn: "raises_only carrier_exn (be_divisions b s c q)"
    and division_exn: "raises_only (\<lambda>e. carrier_exn e \<and> \<not> is_np_error e) (be_division_by_id b i)"
    and calculate_exn: "raises_only carrier_exn (be_calculate b r ps)"
    and create_exn: "raises_only carrier_exn (be_create_shipment b j)"
    and tracking_exn: "raises_only carrier_exn (be_tracking b ns)"
    and delete_exn: "raises_only carrier_exn (be_delete_shipment b i)"
begin

lemmas backend_raises = settlements_exn divisions_exn calculate_exn create_exn tracking_exn delete_exn
  division_exn [THEN raises_weaken]

end

lemma mapE_Inl: "mapE f xs = Inl e \<Longrightarrow> \<exists>x \<in> set xs. f x = Inl e"
  by (induction xs) (auto simp: bindE_Inl)

lemma as_int_error: "as_int j = Inl e \<Longrightarrow> e = PyError ''TypeError''"
  by (cases j) auto

lemma parcel_grams_error: "parcel_grams p = Inl e \<Longrightarrow> \<exists>m. e = PyError m"
  by (auto simp: parcel_grams_def bindE_Inl dest: jget_error as_int_error)

lemma stub_calculate_error: "stub_calculate r ps = Inl e \<Longrightarrow> \<exists>m. e = PyError m"
  by (auto simp: stub_calculate_def bindE_Inl Let_def dest: jget_error
      dest!: mapE_Inl parcel_grams_error)

interpretation stub_carrier: carrier new_stub
  by unfold_locales (auto simp: new_stub_def intro!: raises dest!: stub_calculate_error)

interpretation client_carrier: carrier "new_client env lang" for env lang
proof unfold_locales
  show "raises_only (\<lambda>e. carrier_exn e \<and> \<not> is_np_error e) (be_division_by_id (new_client env lang) i)" for i
    unfolding new_client_def backend.simps client_division_by_id_def
    by (rule raises_catchM [where P = carrier_exn]) (auto intro!: raises)
qed (simp_all add: new_client_def client_settlements_def client_divisions_def client_calculate_def
    client_create_shipment_def client_tracking_def client_delete_shipment_def raises)

interpretation any_carrier: carrier "new_novapost_client env lang" for env lang
  unfolding new_novapost_client_def
  by (cases "novapost_stub (env_cfg env)") (simp_all add: stub_carrier.carrier_axioms client_carrier.carrier_axioms)


subsection \<open>Bounded traffic\<close>

text \<open>One call of the client costs at most four requests: two tokens and two attempts.\<close>

definition sends :: "nat \<Rightarrow> 'a net \<Rightarrow> bool" where
  "sends n m \<longleftrightarrow> (\<forall>w r w'. m w = (r, w') \<longrightarrow> length (sent w') \<le> length (sent w) + n)"

lemma sends_prims: "sends 0 (ret x)" "sends 0 (throw e)" "sends 0 (liftE y)" "sends 0 (gets f)"
  "sends 0 (modify (\<lambda>w. w\<lparr>np_jwt := t\<rparr>))" "sends 1 (http_send env rq)"
  by (auto simp: sends_def http_send_def)

lemma sends_bindM:
  assumes "sends a m" "\<And>x. sends b (f x)" "a + b \<le> c"
  shows "sends c (bindM m f)"
proof (unfold sends_def, intro allI impI)
  fix w r w' assume run: "bindM m f w = (r, w')"
  obtain r1 w1 where m: "m w = (r1, w1)" by fastforce
  have "length (sent w1) \<le> length (sent w) + a" using assms(1) m by (auto simp: sends_def)
  moreover have "length (sent w') \<le> length (sent w1) + b"
  proof (cases r1)
    case (Inl e)
    with m run show ?thesis by (simp add: bindM_app)
  next
    case (Inr x)
    with m run assms(2) [of x] show ?thesis by (auto simp: bindM_app sends_def)
  qed
  ultimately show "length (sent w') \<le> length (sent w) + c" using assms(3) by simp
qed

lemma sends_mono: "sends a m \<Longrightarrow> a \<le> b \<Longrightarrow> sends b m"
  by (fastforce simp: sends_def)

lemma sends_if: "sends a m \<Longrightarrow> sends a n \<Longrightarrow> sends a (if c then m else n)"
  by simp

lemma np_token_sends: "sends 1 (np_token env force)"
  by (auto simp: sends_def np_token_def bindM_app http_send_def
      split: sum.splits option.splits http_result.splits if_splits)

lemma np_attempts_sends: "sends (2 * length as) (np_attempts env lang m p ps b as)"
proof (induction as)
  case (Cons a as)
  have step: "sends (2 * length as) (case r of
      Response st text j \<Rightarrow>
        if st = 401 \<and> a = 1 then np_attempts env lang m p ps b as
        else if \<not> ok_status st then throw (NovaPostError (describe st text j))
        else if text = [] then ret JNull
        else (case j of None \<Rightarrow> throw (NovaPostError ''Nova Post returned invalid JSON'') | Some v \<Rightarrow> ret v)
    | Timed_Out \<Rightarrow> throw (NovaPostError (''Nova Post timed out on '' @ p))
    | Transport_Error \<Rightarrow> throw (NovaPostError ''Nova Post request failed''))" for r
    using Cons.IH sends_prims(1,2) [THEN sends_mono, of "2 * length as"]
    by (auto split: http_result.split option.split)
  show ?case
    unfolding np_attempts.simps
    by (rule sends_bindM [OF np_token_sends], rule sends_bindM [OF sends_prims(6)], rule step,
        rule order_refl, simp)
qed (simp add: sends_def)

lemma np_request_sends: "np_request env lang m p ps b w = (r, w') \<Longrightarrow> length (sent w') \<le> length (sent w) + 4"
  using np_attempts_sends [of "[1, 2]" env lang m p ps b] by (auto simp: np_request_def sends_def)

end
