(* ===== verification/Novapost_Service.thy ===== *)
theory Novapost_Service
  imports Novapost
begin

text \<open>
  \<open>NovaPostService\<close> (\<open>app/services/delivery/novapost\_service.py\<close>) and the delivery router's
  helpers: delivery methods, cached lookups, parcels, quotes, destination snapshots, waybill
  payloads and tracking. Cache entries do not expire in the model (an expired entry is a miss);
  the volumetric weight, computed in floats by the source, is computed exactly.
\<close>

definition BRANCH :: string where
  "BRANCH = ''branch''"

definition POSTOMAT :: string where
  "POSTOMAT = ''postomat''"

definition COURIER :: string where
  "COURIER = ''courier''"

subsection \<open>Methods\<close>

text \<open>An address field without its two display labels.\<close>

record address_field =
  af_name :: string
  af_required :: bool
  af_max_length :: nat

definition ADDRESS_FIELDS :: "address_field list" where
  "ADDRESS_FIELDS =
    [\<lparr>af_name = ''city'', af_required = True, af_max_length = 100\<rparr>,
     \<lparr>af_name = ''street'', af_required = True, af_max_length = 100\<rparr>,
     \<lparr>af_name = ''building'', af_required = True, af_max_length = 100\<rparr>,
     \<lparr>af_name = ''postCode'', af_required = True, af_max_length = 10\<rparr>,
     \<lparr>af_name = ''flat'', af_required = False, af_max_length = 10\<rparr>,
     \<lparr>af_name = ''block'', af_required = False, af_max_length = 100\<rparr>,
     \<lparr>af_name = ''note'', af_required = False, af_max_length = 100\<rparr>]"

record delivery_method =
  dm_service :: string
  dm_type :: string
  dm_flat_cost :: "money option"
  dm_free_from :: "money option"
  dm_address_fields :: "address_field list"

record delivery_methods_out =
  dms_methods :: "delivery_method list"
  dms_novapost_enabled :: bool

text \<open>\<open>a or b\<close> on optional decimals: zero is falsy.\<close>

definition money_or :: "money option \<Rightarrow> money option \<Rightarrow> money option" where
  "money_or a b = (case a of None \<Rightarrow> b | Some x \<Rightarrow> if x = 0 then b else Some x)"

definition delivery_methods :: "settings \<Rightarrow> delivery_methods_out" where
  "delivery_methods cfg =
    (let free_from = free_delivery_from cfg;
         own = [\<lparr>dm_service = ''own'', dm_type = ''pickup'', dm_flat_cost = Some 0,
                 dm_free_from = None, dm_address_fields = []\<rparr>,
                \<lparr>dm_service = ''own'', dm_type = COURIER, dm_flat_cost = Some (courier_rate cfg),
                 dm_free_from = free_from, dm_address_fields = []\<rparr>];
         np_free_from = money_or (novapost_free_delivery_from cfg) free_from;
         carrier = map (\<lambda>category.
             \<lparr>dm_service = ''novapost'', dm_type = category, dm_flat_cost = None,
              dm_free_from = np_free_from,
              dm_address_fields = (if category = COURIER then ADDRESS_FIELDS else [])\<rparr>)
           (filter (\<lambda>c. c \<in> {BRANCH, POSTOMAT, COURIER}) (novapost_categories cfg))
     in \<lparr>dms_methods = own @ (if novapost_enabled cfg then carrier else []),
         dms_novapost_enabled = novapost_enabled cfg\<rparr>)"

subsection \<open>Cache\<close>

definition cache_get :: "environment \<Rightarrow> string \<Rightarrow> json list option net" where
  "cache_get env key = gets (\<lambda>w. if env_cache_up env then np_cache w key else None)"

definition cache_set :: "environment \<Rightarrow> string \<Rightarrow> json list \<Rightarrow> unit net" where
  "cache_set env key rows =
    modify (\<lambda>w. if env_cache_up env then w\<lparr>np_cache := (np_cache w)(key := Some rows)\<rparr> else w)"

subsection \<open>Reference data\<close>

record settlement_out =
  so_id :: string
  so_name :: string

record division_out =
  do_id :: string
  do_number :: string
  do_address :: string
  do_settlement_name :: string

definition settlement_dump :: "settlement_out \<Rightarrow> json" where
  "settlement_dump r = JObj [(''id'', JStr (so_id r)), (''name'', JStr (so_name r))]"

text \<open>\<open>SettlementOut(**row)\<close>: a cached row that is not one is a validation error.\<close>

definition json_str :: "json \<Rightarrow> exn + string" where
  "json_str j = (case j of JStr s \<Rightarrow> Inr s | _ \<Rightarrow> Inl (PyError ''ValidationError''))"

definition settlement_load :: "json \<Rightarrow> exn + settlement_out" where
  "settlement_load j =
    bindE (jget ''id'' j) (\<lambda>i. bindE (json_str i) (\<lambda>i'.
    bindE (jget ''name'' j) (\<lambda>n. bindE (json_str n) (\<lambda>n'.
    Inr \<lparr>so_id = i', so_name = n'\<rparr>))))"

definition division_dump :: "division_out \<Rightarrow> json" where
  "division_dump r = JObj [(''id'', JStr (do_id r)), (''number'', JStr (do_number r)),
     (''address'', JStr (do_address r)), (''settlement_name'', JStr (do_settlement_name r))]"

definition division_load :: "json \<Rightarrow> exn + division_out" where
  "division_load j =
    bindE (jget ''id'' j) (\<lambda>i. bindE (json_str i) (\<lambda>i'.
    bindE (jget ''number'' j) (\<lambda>n. bindE (json_str n) (\<lambda>n'.
    bindE (jget ''address'' j) (\<lambda>a. bindE (json_str a) (\<lambda>a'.
    bindE (jget ''settlement_name'' j) (\<lambda>s. bindE (json_str s) (\<lambda>s'.
    Inr \<lparr>do_id = i', do_number = n', do_address = a', do_settlement_name = s'\<rparr>))))))))"

definition settlement_row :: "json \<Rightarrow> exn + settlement_out option" where
  "settlement_row row =
    bindE (jget ''id'' row) (\<lambda>i.
    if \<not> jtruthy i then Inr None
    else
      bindE (jget ''name'' row) (\<lambda>n.
      Inr (Some \<lparr>so_id = py_str i, so_name = jstr_or_empty n\<rparr>)))"

definition division_row :: "json \<Rightarrow> exn + division_out option" where
  "division_row row =
    bindE (jget ''id'' row) (\<lambda>i.
    if \<not> jtruthy i then Inr None
    else
      bindE (jget ''number'' row) (\<lambda>n.
      bindE (jget ''address'' row) (\<lambda>a.
      bindE (jget ''settlement'' row) (\<lambda>st.
      bindE (jget ''name'' (jor st (JObj []))) (\<lambda>sn.
      Inr (Some \<lparr>do_id = py_str i, do_number = jstr_or_empty n, do_address = jstr_or_empty a,
        do_settlement_name = jstr_or_empty sn\<rparr>))))))"

definition somes :: "'a option list \<Rightarrow> 'a list" where
  "somes xs = map the (filter (\<lambda>x. x \<noteq> None) xs)"

definition settlements_key :: "string \<Rightarrow> string \<Rightarrow> string" where
  "settlements_key lang query = ''np:ref:s:'' @ lang @ '':'' @ lower (strip query)"

definition svc_settlements :: "environment \<Rightarrow> string \<Rightarrow> string \<Rightarrow> settlement_out list net" where
  "svc_settlements env lang query =
    bindM (cache_get env (settlements_key lang query)) (\<lambda>cached.
    case cached of
      Some rows \<Rightarrow> liftE (mapE settlement_load rows)
    | None \<Rightarrow>
        bindM (be_settlements (new_novapost_client env lang) query) (\<lambda>raw.
        bindM (liftE (mapE settlement_row raw)) (\<lambda>parsed.
        let rows = somes parsed in
        bindM (cache_set env (settlements_key lang query) (map settlement_dump rows)) (\<lambda>_.
        ret rows))))"

definition divisions_key :: "string \<Rightarrow> string \<Rightarrow> string \<Rightarrow> string \<Rightarrow> string" where
  "divisions_key lang settlement_id category query =
    ''np:ref:d:'' @ lang @ '':'' @ settlement_id @ '':'' @ category @ '':'' @ lower (strip query)"

definition svc_divisions ::
    "environment \<Rightarrow> string \<Rightarrow> string \<Rightarrow> string \<Rightarrow> string \<Rightarrow> division_out list net" where
  "svc_divisions env lang settlement_id category query =
    bindM (cache_get env (divisions_key lang settlement_id category query)) (\<lambda>cached.
    case cached of
      Some rows \<Rightarrow> liftE (mapE division_load rows)
    | None \<Rightarrow>
        bindM (be_divisions (new_novapost_client env lang) settlement_id category query) (\<lambda>raw.
        bindM (liftE (mapE division_row raw)) (\<lambda>parsed.
        let rows = somes parsed in
        bindM (cache_set env (divisions_key lang settlement_id category query) (map division_dump rows)) (\<lambda>_.
        ret rows))))"

subsection \<open>Router\<close>

definition require_enabled :: "settings \<Rightarrow> exn + unit" where
  "require_enabled cfg = guardE (novapost_enabled cfg) (HTTPException 404 (Some ''novapost_disabled''))"

definition carrier_unavailable :: exn where
  "carrier_unavailable = HTTPException 502 (Some ''delivery_lookup_unavailable'')"

definition search_settlements :: "environment \<Rightarrow> string \<Rightarrow> string \<Rightarrow> settlement_out list net" where
  "search_settlements env lang query =
    bindM (liftE (require_enabled (env_cfg env))) (\<lambda>_.
    catchM (svc_settlements env lang query) is_np_error (\<lambda>_. throw carrier_unavailable))"

definition search_divisions ::
    "environment \<Rightarrow> string \<Rightarrow> string \<Rightarrow> string \<Rightarrow> string \<Rightarrow> division_out list net" where
  "search_divisions env lang settlement_id category query =
    bindM (liftE (require_enabled (env_cfg env))) (\<lambda>_.
    catchM (svc_divisions env lang settlement_id category query) is_np_error (\<lambda>_. throw carrier_unavailable))"

subsection \<open>Money\<close>

definition py_trunc :: "rat \<Rightarrow> int" where
  "py_trunc x = (if x < 0 then - \<lfloor>- x\<rfloor> else \<lfloor>x\<rfloor>)"

definition build_parcels :: "settings \<Rightarrow> int list \<Rightarrow> json" where
  "build_parcels cfg weights_g =
    (let actual = (if sum_list weights_g \<noteq> 0 then sum_list weights_g else parcel_default_item_weight_g cfg);
         volume_cm3 = (of_int (parcel_width_mm cfg * parcel_length_mm cfg * parcel_height_mm cfg) / 1000 :: rat);
         divisor = (if parcel_volumetric_divisor cfg \<noteq> 0 then parcel_volumetric_divisor cfg else 1);
         volumetric = py_trunc (volume_cm3 / of_int divisor * 1000)
     in JObj [(''cargoCategory'', JStr ''parcel''), (''rowNumber'', JInt 1),
          (''width'', JInt (parcel_width_mm cfg)), (''length'', JInt (parcel_length_mm cfg)),
          (''height'', JInt (parcel_height_mm cfg)), (''actualWeight'', JInt actual),
          (''volumetricWeight'', JInt volumetric)])"

definition quote_recipient :: "string \<Rightarrow> string option \<Rightarrow> string option \<Rightarrow> json option \<Rightarrow> json" where
  "quote_recipient delivery_type division_id settlement_id address_parts =
    (if delivery_type = COURIER
     then JObj [(''settlementId'', jopt settlement_id),
       (''addressParts'', case address_parts of None \<Rightarrow> JObj [] | Some p \<Rightarrow> jor p (JObj []))]
     else JObj [(''divisionId'', jopt division_id)])"

text \<open>The price in a carrier answer: no service or no cost is a carrier error.\<close>

definition price_of :: "json \<Rightarrow> exn + money" where
  "price_of payload =
    bindE (jget ''services'' (jor payload (JObj []))) (\<lambda>s0.
    let services = jor s0 (JArr []) in
    if \<not> jtruthy services then Inl (NovaPostError ''Nova Post returned no price for this shipment'')
    else
      bindE (jfirst services) (\<lambda>first.
      bindE (jget ''cost'' first) (\<lambda>raw.
      if raw = JNull then Inl (NovaPostError ''Nova Post returned a price without a cost'')
      else
        (case parse_decimal (py_str raw) of
          None \<Rightarrow> Inl (PyError ''InvalidOperation'')
        | Some x \<Rightarrow> Inr (quantize 2 x)))))"

definition svc_quote ::
    "environment \<Rightarrow> string \<Rightarrow> string \<Rightarrow> int list \<Rightarrow> string option \<Rightarrow> string option \<Rightarrow> json option \<Rightarrow> money net" where
  "svc_quote env lang delivery_type weights_g division_id settlement_id address_parts =
    bindM (be_calculate (new_novapost_client env lang)
      (quote_recipient delivery_type division_id settlement_id address_parts)
      [build_parcels (env_cfg env) weights_g]) (\<lambda>payload.
    liftE (price_of payload))"

subsection \<open>Destination snapshot\<close>

record np_snapshot =
  sn_settlement_id :: "string option"
  sn_settlement_name :: string
  sn_settlement_name_ru :: string
  sn_division_id :: "string option"
  sn_division_number :: string
  sn_division_address :: string

definition snapshot_division :: "string option \<Rightarrow> json \<Rightarrow> np_snapshot \<Rightarrow> exn + np_snapshot" where
  "snapshot_division settlement_id division snap =
    (if \<not> jtruthy division then Inr snap
     else
      bindE (jget ''number'' division) (\<lambda>n.
      bindE (jget ''address'' division) (\<lambda>a.
      bindE (jget ''settlement'' division) (\<lambda>st0.
      let st = jor st0 (JObj []) in
      bindE (jget ''name'' st) (\<lambda>sn.
      bindE (jget ''id'' st) (\<lambda>si.
      Inr (snap\<lparr>sn_division_number := jstr_or_empty n, sn_division_address := jstr_or_empty a,
        sn_settlement_name := jstr_or_empty sn,
        sn_settlement_id := Some (if jtruthy si then py_str si else str_or (settlement_id) [])\<rparr>)))))))"

definition snapshot_division_ru :: "json \<Rightarrow> np_snapshot \<Rightarrow> exn + np_snapshot" where
  "snapshot_division_ru division snap =
    (if \<not> jtruthy division then Inr snap
     else
      bindE (jget ''settlement'' division) (\<lambda>st.
      bindE (jget ''name'' (jor st (JObj []))) (\<lambda>sn.
      Inr (snap\<lparr>sn_settlement_name_ru := jstr_or_empty sn\<rparr>))))"

definition svc_snapshot ::
    "environment \<Rightarrow> string \<Rightarrow> string \<Rightarrow> string option \<Rightarrow> string option \<Rightarrow> np_snapshot net" where
  "svc_snapshot env lang delivery_type division_id settlement_id =
    (let snap = \<lparr>sn_settlement_id = settlement_id, sn_settlement_name = [], sn_settlement_name_ru = [],
                 sn_division_id = division_id, sn_division_number = [], sn_division_address = []\<rparr> in
     if delivery_type = COURIER \<or> \<not> truthy division_id then ret snap
     else
       bindM (be_division_by_id (new_novapost_client env lang) (the division_id)) (\<lambda>division.
       bindM (liftE (snapshot_division settlement_id (case division of None \<Rightarrow> JNull | Some d \<Rightarrow> d) snap)) (\<lambda>snap1.
       bindM (be_division_by_id (new_novapost_client env ''ru'') (the division_id)) (\<lambda>division_ru.
       liftE (snapshot_division_ru (case division_ru of None \<Rightarrow> JNull | Some d \<Rightarrow> d) snap1)))))"


subsection \<open>Waybills and tracking\<close>

definition set_fields :: "(string \<times> json) list \<Rightarrow> json \<Rightarrow> json" where
  "set_fields kvs j = (case j of JObj base \<Rightarrow> JObj (AList.merge base kvs) | _ \<Rightarrow> j)"

definition build_shipment ::
    "settings \<Rightarrow> string \<Rightarrow> string \<Rightarrow> string \<Rightarrow> string \<Rightarrow> string \<Rightarrow> string option \<Rightarrow> string option
      \<Rightarrow> json option \<Rightarrow> int list \<Rightarrow> money \<Rightarrow> json" where
  "build_shipment cfg order_number recipient_name phone email delivery_type division_id settlement_id
      address_parts weights_g insurance =
    (let recipient = JObj ([(''companyTin'', JStr []), (''companyName'', JStr []),
           (''name'', JStr recipient_name), (''phone'', JStr phone), (''email'', JStr email),
           (''countryCode'', JStr ''MD'')] @
           (if delivery_type = COURIER
            then [(''settlementId'', jopt settlement_id),
                  (''addressParts'', case address_parts of None \<Rightarrow> JObj [] | Some p \<Rightarrow> jor p (JObj []))]
            else [(''divisionId'', jopt division_id)]));
         parcel = set_fields [(''parcelDescription'', JStr (''Order '' @ order_number)),
           (''insuranceCost'', JStr (money_str insurance))] (build_parcels cfg weights_g)
     in JObj ([(''status'', JStr ''ReadyToShip''), (''clientOrder'', JStr order_number),
          (''note'', JStr (''Order '' @ order_number)), (''parcels'', JArr [parcel]),
          (''sender'', JObj [(''companyTin'', JStr []), (''companyName'', JStr (novapost_sender_company cfg)),
             (''name'', JStr (novapost_sender_name cfg)), (''phone'', JStr (novapost_sender_phone cfg)),
             (''email'', JStr (novapost_sender_email cfg)), (''countryCode'', JStr ''MD''),
             (''divisionId'', JStr (novapost_sender_division_id cfg))]),
          (''recipient'', recipient)] @
          (if novapost_contract_number cfg \<noteq> []
           then [(''payerType'', JStr ''ThirdPerson''),
                 (''payerContractNumber'', JStr (novapost_contract_number cfg))]
           else [(''payerType'', JStr ''Sender'')])))"

definition svc_create_shipment :: "environment \<Rightarrow> string \<Rightarrow> json \<Rightarrow> json net" where
  "svc_create_shipment env lang payload = be_create_shipment (new_novapost_client env lang) payload"

definition svc_cancel_shipment :: "environment \<Rightarrow> string \<Rightarrow> string \<Rightarrow> unit net" where
  "svc_cancel_shipment env lang shipment_id = be_delete_shipment (new_novapost_client env lang) shipment_id"

text \<open>One \<open>(number, (code, text))\<close> entry of the tracking answer; an entry without a number is skipped.\<close>

definition tracking_item :: "json \<Rightarrow> exn + (string \<times> string \<times> string) option" where
  "tracking_item item =
    bindE (jget ''number'' item) (\<lambda>n.
    bindE (jget ''currentStatus'' item) (\<lambda>c0.
    let number = jstr_or_empty n; current = jor c0 (JObj []) in
    if number = [] then Inr None
    else
      bindE (jget ''statusCode'' current) (\<lambda>code.
      bindE (jget ''status'' current) (\<lambda>st.
      Inr (Some (number, jstr_or_empty code, jstr_or_empty st))))))"

definition tracking_map :: "json \<Rightarrow> exn + (string \<rightharpoonup> string \<times> string)" where
  "tracking_map payload =
    bindE (jget ''items'' (jor payload (JObj []))) (\<lambda>items.
    bindE (jiter (jor items (JArr []))) (\<lambda>rows.
    bindE (mapE tracking_item rows) (\<lambda>entries.
    Inr (map_of (rev (somes entries))))))"

definition svc_tracking :: "environment \<Rightarrow> string \<Rightarrow> string list \<Rightarrow> (string \<rightharpoonup> string \<times> string) net" where
  "svc_tracking env lang numbers =
    bindM (be_tracking (new_novapost_client env lang) numbers) (\<lambda>payload.
    liftE (tracking_map payload))"

subsection \<open>What the service may raise\<close>

definition py_exn :: "exn \<Rightarrow> bool" where
  "py_exn e \<longleftrightarrow> (\<exists>m. e = PyError m)"

definition pureE :: "(exn \<Rightarrow> bool) \<Rightarrow> exn + 'a \<Rightarrow> bool" where
  "pureE P r \<longleftrightarrow> (\<forall>e. r = Inl e \<longrightarrow> P e)"

lemma pureE_rules [raises]:
  "pureE P (Inr x)" "P e \<Longrightarrow> pureE P (Inl e)" "pureE py_exn (jget k j)"
  "pureE py_exn (jfirst j)" "pureE py_exn (jiter j)" "pureE py_exn (json_str j)"
  by (auto simp: pureE_def py_exn_def json_str_def dest: jget_error split: json.splits)
    (induction j rule: jfirst.induct; auto; induction j rule: jiter.induct; auto)+


lemma pureE_bindE [raises]:
  "pureE P m \<Longrightarrow> (\<And>x. pureE P (f x)) \<Longrightarrow> pureE P (bindE m f)"
  by (auto simp: pureE_def bindE_Inl)

lemma pureE_if [raises]: "(c \<Longrightarrow> pureE P m) \<Longrightarrow> (\<not> c \<Longrightarrow> pureE P n) \<Longrightarrow> pureE P (if c then m else n)"
  by simp

lemma pureE_Let [raises]: "pureE P (f t) \<Longrightarrow> pureE P (Let t f)"
  by simp

lemma pureE_case_option [raises]:
  "pureE P m \<Longrightarrow> (\<And>x. pureE P (f x)) \<Longrightarrow> pureE P (case v of None \<Rightarrow> m | Some x \<Rightarrow> f x)"
  by (cases v) simp_all

lemma pureE_mapE [raises]: "(\<And>x. pureE P (f x)) \<Longrightarrow> pureE P (mapE f xs)"
  by (auto simp: pureE_def dest!: mapE_Inl)

lemma pureE_weaken: "pureE P r \<Longrightarrow> (\<And>e. P e \<Longrightarrow> Q e) \<Longrightarrow> pureE Q r"
  by (auto simp: pureE_def)

lemma raises_liftE_pure: "pureE P r \<Longrightarrow> raises_only P (liftE r)"
  by (auto simp: pureE_def intro: raises)

lemma raises_cache [raises]: "raises_only P (cache_get env k)" "raises_only P (cache_set env k rows)"
  by (simp_all add: cache_get_def cache_set_def raises)

lemma py_carrier: "py_exn e \<Longrightarrow> carrier_exn e"
  by (auto simp: py_exn_def)

lemma parse_raises [raises]:
  "pureE py_exn (settlement_load j)" "pureE py_exn (division_load j)"
  "pureE py_exn (settlement_row j)" "pureE py_exn (division_row j)"
  "pureE py_exn (snapshot_division sid j sn)" "pureE py_exn (snapshot_division_ru j sn)"
  "pureE py_exn (tracking_item j)"
  unfolding settlement_load_def division_load_def settlement_row_def division_row_def
    snapshot_division_def snapshot_division_ru_def tracking_item_def
  by (intro raises)+

lemma tracking_map_raises [raises]: "pureE py_exn (tracking_map j)"
  unfolding tracking_map_def by (intro raises)

lemma price_of_raises: "pureE carrier_exn (price_of j)"
proof -
  have "carrier_exn (NovaPostError m)" "carrier_exn (PyError m)" for m by simp_all
  then show ?thesis
    unfolding price_of_def
    by (intro raises pureE_weaken [OF pureE_rules(3) py_carrier] pureE_weaken [OF pureE_rules(4) py_carrier])
qed

lemmas pure_carrier = raises_liftE_pure [OF pureE_weaken [OF _ py_carrier]]

lemma svc_raises:
  "raises_only carrier_exn (svc_settlements env lang q)"
  "raises_only carrier_exn (svc_divisions env lang st c q)"
  "raises_only carrier_exn (svc_quote env lang ty ws did sid ap)"
  "raises_only carrier_exn (svc_create_shipment env lang j)"
  "raises_only carrier_exn (svc_cancel_shipment env lang i)"
  "raises_only carrier_exn (svc_tracking env lang ns)"
  unfolding svc_settlements_def svc_divisions_def svc_quote_def svc_create_shipment_def
    svc_cancel_shipment_def svc_tracking_def
  by (intro raises any_carrier.backend_raises pure_carrier raises_liftE_pure [OF price_of_raises]; assumption?)+

text \<open>A snapshot never fails because the carrier is down.\<close>

lemma svc_snapshot_raises: "raises_only py_exn (svc_snapshot env lang ty did sid)"
proof -
  have by_id: "raises_only py_exn (be_division_by_id (new_novapost_client env l) i)" for l i
    using any_carrier.division_exn by (rule raises_weaken) (auto simp: carrier_exn_def py_exn_def)
  show ?thesis
    unfolding svc_snapshot_def by (intro raises by_id raises_liftE_pure)
qed

text \<open>The delivery router turns every carrier failure into its 502.\<close>

lemma search_raises:
  "raises_only (\<lambda>e. py_exn e \<or> (\<exists>st c. e = HTTPException st c)) (search_settlements env lang q)"
  "raises_only (\<lambda>e. py_exn e \<or> (\<exists>st c. e = HTTPException st c)) (search_divisions env lang sid c q)"
  unfolding search_settlements_def search_divisions_def
  by (intro raises raises_catchM [OF svc_raises(1)] raises_catchM [OF svc_raises(2)];
      auto simp: require_enabled_def guardE_def carrier_unavailable_def carrier_exn_def py_exn_def split: if_splits)+

subsection \<open>The cache is transparent\<close>

lemma somes_simps [simp]: "somes [] = []" "somes (None # xs) = somes xs" "somes (Some x # xs) = x # somes xs"
  by (simp_all add: somes_def)

lemma settlement_roundtrip [simp]: "settlement_load (settlement_dump r) = Inr r"
  by (simp add: settlement_load_def settlement_dump_def json_str_def)

lemma division_roundtrip [simp]: "division_load (division_dump r) = Inr r"
  by (simp add: division_load_def division_dump_def json_str_def)

lemma mapE_roundtrip: "(\<And>x. f (g x) = Inr x) \<Longrightarrow> mapE f (map g xs) = Inr xs"
  by (induction xs) simp_all

lemma svc_settlements_cached:
  assumes "env_cache_up env" "svc_settlements env lang q w = (Inr rows, w1)"
    "np_cache w (settlements_key lang q) = None"
  shows "svc_settlements env lang q w1 = (Inr rows, w1)"
  using assms
  by (auto simp: svc_settlements_def cache_get_def cache_set_def bindM_app Let_def mapE_roundtrip
      split: prod.splits sum.splits)

lemma svc_divisions_cached:
  assumes "env_cache_up env" "svc_divisions env lang sid c q w = (Inr rows, w1)"
    "np_cache w (divisions_key lang sid c q) = None"
  shows "svc_divisions env lang sid c q w1 = (Inr rows, w1)"
  using assms
  by (auto simp: svc_divisions_def cache_get_def cache_set_def bindM_app Let_def mapE_roundtrip
      split: prod.splits sum.splits)

text \<open>Languages never share an entry: the key determines the language and the normalised query.\<close>

lemma settlements_key_lang:
  "l \<in> set ALLOWED_LANGS \<Longrightarrow> l' \<in> set ALLOWED_LANGS \<Longrightarrow>
    settlements_key l q = settlements_key l' q' \<longleftrightarrow> l = l' \<and> lower (strip q) = lower (strip q')"
  by (auto simp: settlements_key_def ALLOWED_LANGS_def)

subsection \<open>Methods\<close>

lemma methods_own: "take 2 (dms_methods (delivery_methods cfg)) =
    [\<lparr>dm_service = ''own'', dm_type = ''pickup'', dm_flat_cost = Some 0, dm_free_from = None, dm_address_fields = []\<rparr>,
     \<lparr>dm_service = ''own'', dm_type = COURIER, dm_flat_cost = Some (courier_rate cfg),
      dm_free_from = free_delivery_from cfg, dm_address_fields = []\<rparr>]"
  by (simp add: delivery_methods_def Let_def)

lemma methods_carrier:
  "(\<exists>m \<in> set (dms_methods (delivery_methods cfg)). dm_service m = ''novapost'' \<and> dm_type m = ty) \<longleftrightarrow>
    novapost_enabled cfg \<and> ty \<in> {BRANCH, POSTOMAT, COURIER} \<and> ty \<in> set (novapost_categories cfg)"
  by (auto simp: delivery_methods_def Let_def)

end
