(* ===== verification/Order_Service.thy ===== *)
theory Order_Service
  imports Novapost_Service "HOL-Library.Multiset"
begin

text \<open>
  \<open>OrderService\<close> (\<open>app/services/order\_service.py\<close>): the enforced state machine of an order, its
  audit trail, the stock return after a cancellation, and who may read an order.

  The order passed to \<open>transition\<close> is the row its caller loaded; \<open>redis\<close> tells whether the
  service was built with a Redis client, which only the waybill cancellation needs.
\<close>

definition STATUS_TRANSITIONS :: "(string \<times> string list) list" where
  "STATUS_TRANSITIONS = [(''new'', [''confirmed'', ''canceled'']), (''confirmed'', [''done'', ''canceled'']),
     (''done'', []), (''canceled'', [])]"

definition PAYMENT_TRANSITIONS :: "(string \<times> string list) list" where
  "PAYMENT_TRANSITIONS = [(''pending'', [''paid'']), (''paid'', [''refunded'']), (''refunded'', [])]"

definition STOCK_RETURNING_STATUSES :: "string list" where
  "STOCK_RETURNING_STATUSES = [''canceled'']"

definition ORDER_STATUSES :: "string list" where
  "ORDER_STATUSES = [''new'', ''confirmed'', ''done'', ''canceled'']"

definition PAYMENT_STATUSES :: "string list" where
  "PAYMENT_STATUSES = [''pending'', ''paid'', ''refunded'']"

subsection \<open>Reads\<close>

definition list_for_user :: "int \<Rightarrow> db \<Rightarrow> (order \<times> order_item list \<times> order_delivery_np option) list" where
  "list_for_user uid d =
    (let orders = list_orders_for_user uid d;
         order_ids = map o_id orders;
         items_by_order = list_items_for_orders order_ids d;
         carriers = get_novapost_map order_ids d
     in map (\<lambda>x. (x, the (items_by_order (o_id x)), carriers (o_id x))) orders)"

definition authorized :: "order \<Rightarrow> app_user option \<Rightarrow> string option \<Rightarrow> bool" where
  "authorized x user email \<longleftrightarrow>
    (if (case user of None \<Rightarrow> False | Some u \<Rightarrow> o_user_id x = Some (u_id u)) then True
     else if (case email of None \<Rightarrow> False | Some e \<Rightarrow> lower (o_email x) = lower e) then True
     else False)"

definition get_for_user ::
    "string \<Rightarrow> app_user option \<Rightarrow> string option \<Rightarrow> db \<Rightarrow> exn + (order \<times> order_item list \<times> order_delivery_np option)" where
  "get_for_user number user email d =
    bindE (get_order_by_number number d) (\<lambda>found.
    case found of
      None \<Rightarrow> Inl (OrderNotFoundError number)
    | Some x \<Rightarrow>
        if \<not> authorized x user email then Inl (OrderNotFoundError number)
        else Inr (x, the (list_items_for_orders [o_id x] d (o_id x)), get_novapost (o_id x) d))"

subsection \<open>Transitions\<close>

definition reachable_from :: "(string \<times> string list) list \<Rightarrow> string \<Rightarrow> string list" where
  "reachable_from table current = (case map_of table current of None \<Rightarrow> [] | Some ts \<Rightarrow> ts)"

definition validate_move ::
    "string \<Rightarrow> string option \<Rightarrow> (string \<times> string list) list \<Rightarrow> string \<Rightarrow> exn + unit" where
  "validate_move current target table axis =
    (case target of
      None \<Rightarrow> Inr ()
    | Some t \<Rightarrow>
        if t \<notin> set (reachable_from table current) then Inl (IllegalTransitionError axis current t)
        else Inr ())"

definition clear_waybill :: "order_delivery_np \<Rightarrow> order_delivery_np" where
  "clear_waybill r = r\<lparr>np_awb_id := None, np_awb_number := None, np_status_code := [],
     np_status_text := [], np_status_updated_at := None\<rparr>"

definition set_np :: "int \<Rightarrow> (order_delivery_np \<Rightarrow> order_delivery_np) \<Rightarrow> db \<Rightarrow> db" where
  "set_np oid f d = d\<lparr>t_np := upd (\<lambda>r. np_order_id r = oid) f (t_np d)\<rparr>"

definition set_order :: "int \<Rightarrow> (order \<Rightarrow> order) \<Rightarrow> db \<Rightarrow> db" where
  "set_order oid f d = d\<lparr>t_order := upd (\<lambda>x. o_id x = oid) f (t_order d)\<rparr>"

definition cancel_waybill_if_any :: "environment \<Rightarrow> bool \<Rightarrow> int \<Rightarrow> unit act" where
  "cancel_waybill_if_any env redis oid =
    bindM (reads (get_novapost oid)) (\<lambda>found.
    case found of
      None \<Rightarrow> ret ()
    | Some row \<Rightarrow>
        if \<not> truthy (np_awb_number row) then ret ()
        else if \<not> redis \<or> \<not> novapost_enabled (env_cfg env) then throw WaybillCancelFailedError
        else
          bindM (catchM (remote (svc_cancel_shipment env ''ro''
              (str_or (np_awb_id row) (the (np_awb_number row)))))
            is_np_error (\<lambda>_. throw WaybillCancelFailedError)) (\<lambda>_.
          writes (set_np oid clear_waybill)))"

definition notify_restocked :: "environment \<Rightarrow> int \<Rightarrow> unit act" where
  "notify_restocked env pid = enqueue env (Restock_Notify pid)"

definition return_line :: "environment \<Rightarrow> order_item \<Rightarrow> unit act" where
  "return_line env item =
    (if oi_product_id item = None \<and> oi_variant_id item = None then ret ()
     else
       bindM (increment_stock (oi_product_id item) (oi_qty item) (oi_variant_id item)) (\<lambda>crossed_zero.
       case oi_product_id item of
         Some pid \<Rightarrow> whenM (crossed_zero \<and> oi_variant_id item = None) (notify_restocked env pid)
       | None \<Rightarrow> ret ()))"

definition stock_return :: "environment \<Rightarrow> int \<Rightarrow> unit act" where
  "stock_return env oid =
    catchM
      (bindM (reads (get_items_for_order oid)) (\<lambda>items.
       bindM (forEach items (return_line env)) (\<lambda>_.
       commit)))
      (\<lambda>_. True) (\<lambda>_. ret ())"

definition returns_stock :: "string option \<Rightarrow> bool" where
  "returns_stock to_status =
    (case to_status of None \<Rightarrow> False | Some t \<Rightarrow> t \<in> set STOCK_RETURNING_STATUSES)"

definition move_status :: "environment \<Rightarrow> order \<Rightarrow> string option \<Rightarrow> string \<Rightarrow> order act" where
  "move_status env x to_status changed_by =
    (case to_status of
      None \<Rightarrow> ret x
    | Some t \<Rightarrow>
        bindM (add_status_history env (o_id x) (o_status x) t changed_by) (\<lambda>_.
        bindM (writes (set_order (o_id x) (\<lambda>r. r\<lparr>o_status := t\<rparr>))) (\<lambda>_.
        ret (x\<lparr>o_status := t\<rparr>))))"

definition move_payment :: "environment \<Rightarrow> order \<Rightarrow> string option \<Rightarrow> string \<Rightarrow> order act" where
  "move_payment env x to_payment changed_by =
    (case to_payment of
      None \<Rightarrow> ret x
    | Some t \<Rightarrow>
        bindM (add_status_history env (o_id x) (o_payment_status x) t changed_by) (\<lambda>_.
        bindM (writes (set_order (o_id x) (\<lambda>r. r\<lparr>o_payment_status := t\<rparr>))) (\<lambda>_.
        ret (x\<lparr>o_payment_status := t\<rparr>))))"

definition transition ::
    "environment \<Rightarrow> bool \<Rightarrow> order \<Rightarrow> string option \<Rightarrow> string option \<Rightarrow> string \<Rightarrow> order act" where
  "transition env redis x to_status to_payment changed_by =
    bindM (liftE (validate_move (o_status x) to_status STATUS_TRANSITIONS ''status'')) (\<lambda>_.
    bindM (liftE (validate_move (o_payment_status x) to_payment PAYMENT_TRANSITIONS ''payment_status'')) (\<lambda>_.
    bindM (whenM (returns_stock to_status) (cancel_waybill_if_any env redis (o_id x))) (\<lambda>_.
    bindM (move_status env x to_status changed_by) (\<lambda>x1.
    bindM (move_payment env x1 to_payment changed_by) (\<lambda>x2.
    bindM commit (\<lambda>_.
    bindM (whenM (returns_stock to_status) (stock_return env (o_id x))) (\<lambda>_.
    ret x2)))))))"

subsection \<open>The two machines\<close>

definition legal :: "string \<Rightarrow> string \<Rightarrow> bool" where
  "legal a b \<longleftrightarrow> b \<in> set (reachable_from STATUS_TRANSITIONS a)"

definition legal_payment :: "string \<Rightarrow> string \<Rightarrow> bool" where
  "legal_payment a b \<longleftrightarrow> b \<in> set (reachable_from PAYMENT_TRANSITIONS a)"

lemma legal_iff:
  "legal a b \<longleftrightarrow> a = ''new'' \<and> b \<in> {''confirmed'', ''canceled''} \<or> a = ''confirmed'' \<and> b \<in> {''done'', ''canceled''}"
  by (auto simp: legal_def reachable_from_def STATUS_TRANSITIONS_def)

lemma legal_payment_iff:
  "legal_payment a b \<longleftrightarrow> a = ''pending'' \<and> b = ''paid'' \<or> a = ''paid'' \<and> b = ''refunded''"
  by (auto simp: legal_payment_def reachable_from_def PAYMENT_TRANSITIONS_def)

lemma validate_move_Inr [simp]:
  "validate_move a t STATUS_TRANSITIONS ax = Inr u \<longleftrightarrow> (\<forall>b. t = Some b \<longrightarrow> legal a b)"
  "validate_move a t PAYMENT_TRANSITIONS ax = Inr u \<longleftrightarrow> (\<forall>b. t = Some b \<longrightarrow> legal_payment a b)"
  by (auto simp: validate_move_def legal_def legal_payment_def split: option.splits)

text \<open>The fulfilment machine as a step relation: no status is ever entered twice.\<close>

inductive legal_path :: "string \<Rightarrow> string list \<Rightarrow> bool" where
  here: "legal_path a []"
| step: "legal a b \<Longrightarrow> legal_path b bs \<Longrightarrow> legal_path a (b # bs)"

inductive_simps legal_path_simps [simp]: "legal_path a []" "legal_path a (b # bs)"

lemma terminal: "legal_path a bs \<Longrightarrow> a \<in> {''done'', ''canceled''} \<Longrightarrow> bs = []"
  by (cases bs) (auto simp: legal_iff)

lemma legal_path_confirmed:
  assumes "legal_path ''confirmed'' bs"
  shows "bs = [] \<or> bs = [''done''] \<or> bs = [''canceled'']"
proof (cases bs)
  case (Cons b cs)
  with assms have b: "b = ''done'' \<or> b = ''canceled''" "legal_path b cs" by (auto simp: legal_iff)
  then have "cs = []" using terminal by blast
  with b Cons show ?thesis by blast
qed simp

lemma legal_path_new:
  assumes "legal_path ''new'' bs"
  shows "bs = [] \<or> bs = [''confirmed''] \<or> bs = [''canceled''] \<or> bs = [''confirmed'', ''done''] \<or>
    bs = [''confirmed'', ''canceled'']"
proof (cases bs)
  case (Cons b cs)
  with assms have b0: "b = ''confirmed'' \<or> b = ''canceled''" and p: "legal_path b cs" by (auto simp: legal_iff)
  from b0 show ?thesis
  proof
    assume b: "b = ''confirmed''"
    with p legal_path_confirmed have "cs = [] \<or> cs = [''done''] \<or> cs = [''canceled'']" by blast
    with b Cons show ?thesis by blast
  next
    assume b: "b = ''canceled''"
    with p terminal have "cs = []" by blast
    with b Cons show ?thesis by blast
  qed
qed simp

lemma legal_path_append: "legal_path a (xs @ [b]) \<longleftrightarrow> legal_path a xs \<and> legal (last (a # xs)) b"
  by (induction xs arbitrary: a) auto


subsection \<open>Returning the stock of an order\<close>

text \<open>The ledger row a line draws on: the variant's when there is one, else the product's.\<close>

definition item_key :: "order_item \<Rightarrow> stock_key option" where
  "item_key i = (case oi_variant_id i of Some v \<Rightarrow> Some (Variant_Stock v)
     | None \<Rightarrow> map_option Product_Stock (oi_product_id i))"

definition stock_step :: "session \<Rightarrow> session \<Rightarrow> bool" where
  "stock_step s s' \<longleftrightarrow> (\<exists>ps vs ob. s' = s\<lparr>work := (work s)\<lparr>t_product := ps, t_variant := vs\<rparr>, outbox := ob\<rparr>)"

lemma stock_step_refl: "stock_step s s"
  unfolding stock_step_def
  by (rule exI [of _ "t_product (work s)"], rule exI [of _ "t_variant (work s)"], rule exI [of _ "outbox s"]) simp

lemma stock_step_trans: "stock_step s s1 \<Longrightarrow> stock_step s1 s2 \<Longrightarrow> stock_step s s2"
  unfolding stock_step_def by (elim exE, simp, blast)

lemma stock_stepI:
  "stock_step s (s\<lparr>work := (work s)\<lparr>t_product := ps\<rparr>\<rparr>)"
  "stock_step s (s\<lparr>work := (work s)\<lparr>t_variant := vs\<rparr>\<rparr>)"
  "stock_step s (s\<lparr>outbox := ob\<rparr>)"
  unfolding stock_step_def
  by (rule exI [of _ ps], rule exI [of _ "t_variant (work s)"], rule exI [of _ "outbox s"], simp)
    (rule exI [of _ "t_product (work s)"], rule exI [of _ vs], rule exI [of _ "outbox s"], simp,
     rule exI [of _ "t_product (work s)"], rule exI [of _ "t_variant (work s)"], rule exI [of _ ob], simp)

lemma increment_step: "increment_stock pid n vid s = (r, s') \<Longrightarrow> stock_step s s'"
  by (cases vid) (auto simp: increment_stock_def intro: stock_stepI)

lemma decrement_step: "decrement_stock pid n vid s = (r, s') \<Longrightarrow> stock_step s s'"
  by (cases vid) (auto simp: decrement_stock_def intro: stock_stepI)

lemma increment_key:
  "item_key i = Some k \<Longrightarrow> increment_stock (oi_product_id i) n (oi_variant_id i) = put_stock k n"
  by (rule ext) (auto simp: item_key_def increment_stock_def split: option.splits)

lemma put_stock_cases:
  assumes "stock_wf (work s)"
  shows "\<exists>b s'. put_stock k n s = (Inr b, s') \<and> stock_wf (work s') \<and>
    stock_of (work s') = (\<lambda>j. map_option (\<lambda>q. q + (if j = k then n else 0)) (stock_of (work s) j)) \<and>
    (b \<longleftrightarrow> stock_of (work s) k = Some 0)"
  using assms
proof (cases rule: stock.put_cases [of s k n])
  case (hit q s')
  then show ?thesis by (auto simp: fun_eq_iff map_option.id [unfolded id_def])
next
  case miss
  with assms show ?thesis by (auto simp: fun_eq_iff map_option.id [unfolded id_def])
qed

definition notices :: "environment \<Rightarrow> db \<Rightarrow> order_item \<Rightarrow> message list" where
  "notices env d i =
    (case (oi_product_id i, oi_variant_id i) of
      (Some pid, None) \<Rightarrow>
        if stock_of d (Product_Stock pid) = Some 0 \<and> env_broker_up env then [Restock_Notify pid] else []
    | _ \<Rightarrow> [])"

lemma return_line_run:
  assumes "stock_wf (work s)"
  shows "\<exists>s'. return_line env i s = (Inr (), s') \<and> stock_wf (work s') \<and> stock_step s s' \<and>
    stock_of (work s') = (\<lambda>j. map_option (\<lambda>q. q + (if item_key i = Some j then oi_qty i else 0)) (stock_of (work s) j)) \<and>
    outbox s' = outbox s @ notices env (work s) i"
proof (cases "item_key i")
  case None
  then have "return_line env i s = (Inr (), s)" "oi_product_id i = None"
    by (auto simp: return_line_def item_key_def split: option.splits)
  with None assms show ?thesis
    by (auto simp: stock_step_refl notices_def fun_eq_iff map_option.id [unfolded id_def])
next
  case (Some k)
  obtain b s1 where s1: "put_stock k (oi_qty i) s = (Inr b, s1)" "stock_wf (work s1)"
      "stock_of (work s1) = (\<lambda>j. map_option (\<lambda>q. q + (if j = k then oi_qty i else 0)) (stock_of (work s) j))"
      "b \<longleftrightarrow> stock_of (work s) k = Some 0"
    using put_stock_cases [OF assms, of k "oi_qty i"] by blast
  have step: "stock_step s s1"
    using s1(1) increment_key [OF Some] increment_step by metis
  have ob: "outbox s1 = outbox s"
    using s1(1) by (cases k) (auto simp: stock_runs)
  have "\<And>j. (j = k) = (item_key i = Some j)" using Some by auto
  with s1(3) have st: "stock_of (work s1) =
      (\<lambda>j. map_option (\<lambda>q. q + (if item_key i = Some j then oi_qty i else 0)) (stock_of (work s) j))" by simp
  have run: "return_line env i s = (case oi_product_id i of
      Some pid \<Rightarrow> whenM (b \<and> oi_variant_id i = None) (notify_restocked env pid) | None \<Rightarrow> ret ()) s1"
    using s1(1) increment_key [OF Some, of "oi_qty i"] Some
    by (auto simp: return_line_def bindM_app item_key_def)
  show ?thesis
  proof (cases "b \<and> oi_variant_id i = None \<and> oi_product_id i \<noteq> None \<and> env_broker_up env")
    case True
    then obtain pid where pid: "oi_product_id i = Some pid" "oi_variant_id i = None" "k = Product_Stock pid"
      using Some by (auto simp: item_key_def)
    let ?s' = "s1\<lparr>outbox := outbox s1 @ [Restock_Notify pid]\<rparr>"
    have "return_line env i s = (Inr (), ?s')"
      using run True pid by (simp add: notify_restocked_def)
    moreover have "stock_step s ?s'"
      using step stock_stepI(3) stock_step_trans by blast
    ultimately show ?thesis
      using s1(2,4) st True pid ob by (auto simp: notices_def)
  next
    case False
    then have "return_line env i s = (Inr (), s1)" "notices env (work s) i = []"
      using run s1(4) Some by (auto simp: notify_restocked_def notices_def item_key_def split: option.splits)
    with s1(2) st step ob show ?thesis by auto
  qed
qed


lemma return_lines_run:
  "stock_wf (work s) \<Longrightarrow> \<exists>s'. forEach items (return_line env) s = (Inr (), s') \<and> stock_wf (work s') \<and> stock_step s s' \<and>
    stock_of (work s') = (\<lambda>j. map_option (\<lambda>q. q + sum_where (\<lambda>i. item_key i = Some j) oi_qty items) (stock_of (work s) j))"
proof (induction items arbitrary: s)
  case Nil
  then show ?case by (auto simp: stock_step_refl fun_eq_iff map_option.id [unfolded id_def])
next
  case (Cons i items)
  obtain s1 where s1: "return_line env i s = (Inr (), s1)" "stock_wf (work s1)" "stock_step s s1"
      "stock_of (work s1) = (\<lambda>j. map_option (\<lambda>q. q + (if item_key i = Some j then oi_qty i else 0)) (stock_of (work s) j))"
    using return_line_run [OF Cons.prems] by blast
  obtain s2 where s2: "forEach items (return_line env) s1 = (Inr (), s2)" "stock_wf (work s2)" "stock_step s1 s2"
      "stock_of (work s2) = (\<lambda>j. map_option (\<lambda>q. q + sum_where (\<lambda>i. item_key i = Some j) oi_qty items) (stock_of (work s1) j))"
    using Cons.IH [OF s1(2)] by blast
  have "stock_of (work s2) j = map_option (\<lambda>q. q + sum_where (\<lambda>i. item_key i = Some j) oi_qty (i # items)) (stock_of (work s) j)" for j
    by (cases "stock_of (work s) j") (auto simp: s2(4) s1(4))
  with s1 s2 stock_step_trans [OF s1(3) s2(3)] show ?case
    by (auto simp: bindM_app fun_eq_iff)
qed

text \<open>The quantity an order holds of a ledger row.\<close>

definition held :: "db \<Rightarrow> int \<Rightarrow> stock_key \<Rightarrow> int" where
  "held d oid k = sum_where (\<lambda>i. oi_order_id i = oid \<and> item_key i = Some k) oi_qty (t_order_item d)"

lemma sum_where_mset: "sum_where P f xs = sum_mset (image_mset f (filter_mset P (mset xs)))"
  by (simp add: sum_where_def sum_mset_sum_list [symmetric] mset_filter)

lemma sum_where_sort: "sum_where P f (sort_key g xs) = sum_where P f xs"
  by (simp add: sum_where_mset)

lemma sum_where_filter: "sum_where P f (filter Q xs) = sum_where (\<lambda>x. Q x \<and> P x) f xs"
  by (induction xs) auto

lemma held_items: "sum_where (\<lambda>i. item_key i = Some k) oi_qty (get_items_for_order oid d) = held d oid k"
  by (simp add: held_def get_items_for_order_def sum_where_sort sum_where_filter)

lemma stock_return_run:
  assumes "stock_wf (work s)"
  shows "\<exists>s'. stock_return env oid s = (Inr (), s') \<and> committed s' = work s' \<and> stock_wf (work s') \<and>
    (\<exists>s1. stock_step s s1 \<and> s' = s1\<lparr>committed := work s1\<rparr>) \<and>
    stock_of (work s') = (\<lambda>k. map_option (\<lambda>q. q + held (work s) oid k) (stock_of (work s) k))"
proof -
  obtain s1 where s1: "forEach (get_items_for_order oid (work s)) (return_line env) s = (Inr (), s1)"
      "stock_wf (work s1)" "stock_step s s1"
      "stock_of (work s1) = (\<lambda>j. map_option (\<lambda>q. q + held (work s) oid j) (stock_of (work s) j))"
    using return_lines_run [OF assms, of "get_items_for_order oid (work s)" env] unfolding held_items by blast
  have "stock_return env oid s = (Inr (), s1\<lparr>committed := work s1\<rparr>)"
    using s1(1) by (simp add: stock_return_def catchM_def bindM_app)
  with s1 show ?thesis by auto
qed

subsection \<open>What a transition does\<close>

definition moved_row :: "string option \<Rightarrow> string option \<Rightarrow> order \<Rightarrow> order" where
  "moved_row st pay r = r\<lparr>o_status := (case st of None \<Rightarrow> o_status r | Some t \<Rightarrow> t),
     o_payment_status := (case pay of None \<Rightarrow> o_payment_status r | Some t \<Rightarrow> t)\<rparr>"

definition axis_row :: "environment \<Rightarrow> int \<Rightarrow> int \<Rightarrow> string \<Rightarrow> string \<Rightarrow> string \<Rightarrow> order_status_history" where
  "axis_row env i oid from to by = \<lparr>h_id = i, h_order_id = oid, h_from_status = from, h_to_status = to,
     h_changed_at = env_now env, h_changed_by = by\<rparr>"

definition new_rows :: "environment \<Rightarrow> int \<Rightarrow> order \<Rightarrow> string option \<Rightarrow> string option \<Rightarrow> string \<Rightarrow> order_status_history list" where
  "new_rows env i x st pay by =
    (case st of None \<Rightarrow> [] | Some t \<Rightarrow> [axis_row env i (o_id x) (o_status x) t by]) @
    (case pay of None \<Rightarrow> []
     | Some t \<Rightarrow> [axis_row env (if st = None then i else i + 1) (o_id x) (o_payment_status x) t by])"

definition moved :: "environment \<Rightarrow> int \<Rightarrow> order \<Rightarrow> string option \<Rightarrow> string option \<Rightarrow> string \<Rightarrow> db \<Rightarrow> db" where
  "moved env i x st pay by d =
    d\<lparr>t_history := t_history d @ new_rows env i x st pay by,
      t_order := upd (\<lambda>r. o_id r = o_id x) (moved_row st pay) (t_order d)\<rparr>"

lemma cancel_waybill_frame:
  assumes "cancel_waybill_if_any env redis oid s = (r, s')"
  shows "committed s' = committed s" "order_number_seq s' = order_number_seq s" "pk_seq s' = pk_seq s"
    "outbox s' = outbox s" "\<exists>ls. work s' = (work s)\<lparr>t_np := ls\<rparr>" "r = Inl e \<Longrightarrow> work s' = work s"
  using assms
  by (auto simp: cancel_waybill_if_any_def bindM_app catchM_def set_np_def
      dest!: remote_step split: option.splits if_splits prod.splits sum.splits intro: exI [of _ "t_np (work s)"])


lemma upd_upd: "(\<And>r. P (g r) = P r) \<Longrightarrow> upd P f (upd P g rows) = upd P (\<lambda>r. f (g r)) rows"
  by (induction rows) auto

lemma upd_id [simp]: "upd P (\<lambda>r. r) rows = rows"
  by (induction rows) auto

lemma moved_row_None [simp]: "moved_row None None = (\<lambda>r. r)"
  by (auto simp: moved_row_def)

lemma moves_run:
  obtains sq where "bindM (move_status env x st by) (\<lambda>x1. bindM (move_payment env x1 pay by) (\<lambda>x2. bindM commit (\<lambda>_. f x2))) s
    = f (moved_row st pay x) (s\<lparr>pk_seq := sq, work := moved env (pk_seq s History_T) x st pay by (work s),
        committed := moved env (pk_seq s History_T) x st pay by (work s)\<rparr>)"
    "\<And>t. t \<noteq> History_T \<Longrightarrow> sq t = pk_seq s t"
proof -
  let ?sq = "(pk_seq s)(History_T := (case (st, pay) of (None, None) \<Rightarrow> pk_seq s History_T
      | (Some _, Some _) \<Rightarrow> pk_seq s History_T + 1 + 1 | _ \<Rightarrow> pk_seq s History_T + 1))"
  have "bindM (move_status env x st by) (\<lambda>x1. bindM (move_payment env x1 pay by) (\<lambda>x2. bindM commit (\<lambda>_. f x2))) s
    = f (moved_row st pay x) (s\<lparr>pk_seq := ?sq, work := moved env (pk_seq s History_T) x st pay by (work s),
        committed := moved env (pk_seq s History_T) x st pay by (work s)\<rparr>)"
    by (cases st; cases pay)
      (simp_all add: move_status_def move_payment_def add_status_history_def set_order_def moved_def
        new_rows_def axis_row_def moved_row_def [abs_def] bindM_app upd_upd)
  with that show thesis by simp
qed

lemma transition_start:
  assumes "\<forall>t. st = Some t \<longrightarrow> legal (o_status x) t" "\<forall>t. pay = Some t \<longrightarrow> legal_payment (o_payment_status x) t"
  shows "transition env redis x st pay by s =
    bindM (whenM (returns_stock st) (cancel_waybill_if_any env redis (o_id x))) (\<lambda>_.
    bindM (move_status env x st by) (\<lambda>x1.
    bindM (move_payment env x1 pay by) (\<lambda>x2.
    bindM commit (\<lambda>_.
    bindM (whenM (returns_stock st) (stock_return env (o_id x))) (\<lambda>_.
    ret x2))))) s"
proof -
  have ok: "validate_move (o_status x) st STATUS_TRANSITIONS ''status'' = Inr ()"
    "validate_move (o_payment_status x) pay PAYMENT_TRANSITIONS ''payment_status'' = Inr ()"
    using assms by simp_all
  have lift: "bindM (liftE (Inr u)) f s = f u s" for u :: unit and f :: "unit \<Rightarrow> order act"
    by (simp add: bindM_app)
  show ?thesis unfolding transition_def ok lift ..
qed

lemma transition_illegal:
  assumes "(\<exists>t. st = Some t \<and> \<not> legal (o_status x) t) \<or> (\<exists>t. pay = Some t \<and> \<not> legal_payment (o_payment_status x) t)"
  shows "\<exists>axis a b. transition env redis x st pay by s = (Inl (IllegalTransitionError axis a b), s)"
  using assms
  by (auto simp: transition_def validate_move_def bindM_app legal_def legal_payment_def split: option.splits)

lemma stock_return_total: "\<exists>s'. stock_return env oid s = (Inr (), s')"
proof -
  obtain r s1 where "bindM (reads (get_items_for_order oid)) (\<lambda>items. bindM (forEach items (return_line env)) (\<lambda>_. commit)) s = (r, s1)"
    by fastforce
  then show ?thesis by (cases r) (auto simp: stock_return_def catchM_def)
qed

lemma when_return_total: "\<exists>s'. whenM c (stock_return env oid) s = (Inr (), s')"
  using stock_return_total [of env oid s] by (cases c) simp_all

lemma transition_cases:
  assumes "transition env redis x st pay by s = (r, s')"
  obtains (illegal) axis a b where "r = Inl (IllegalTransitionError axis a b)" "s' = s"
      "(\<exists>t. st = Some t \<and> \<not> legal (o_status x) t) \<or> (\<exists>t. pay = Some t \<and> \<not> legal_payment (o_payment_status x) t)"
  | (carrier) e where "r = Inl e" "returns_stock st" "cancel_waybill_if_any env redis (o_id x) s = (Inl e, s')"
  | (moved) s1 sq where "r = Inr (moved_row st pay x)"
      "\<forall>t. st = Some t \<longrightarrow> legal (o_status x) t" "\<forall>t. pay = Some t \<longrightarrow> legal_payment (o_payment_status x) t"
      "whenM (returns_stock st) (cancel_waybill_if_any env redis (o_id x)) s = (Inr (), s1)"
      "\<And>t. t \<noteq> History_T \<Longrightarrow> sq t = pk_seq s1 t"
      "whenM (returns_stock st) (stock_return env (o_id x))
        (s1\<lparr>pk_seq := sq, work := moved env (pk_seq s1 History_T) x st pay by (work s1),
            committed := moved env (pk_seq s1 History_T) x st pay by (work s1)\<rparr>) = (Inr (), s')"
proof (cases "(\<forall>t. st = Some t \<longrightarrow> legal (o_status x) t) \<and> (\<forall>t. pay = Some t \<longrightarrow> legal_payment (o_payment_status x) t)")
  case False
  then have bad: "(\<exists>t. st = Some t \<and> \<not> legal (o_status x) t) \<or> (\<exists>t. pay = Some t \<and> \<not> legal_payment (o_payment_status x) t)"
    by blast
  then obtain axis a b where "transition env redis x st pay by s = (Inl (IllegalTransitionError axis a b), s)"
    using transition_illegal by blast
  with assms have "r = Inl (IllegalTransitionError axis a b)" "s' = s" by simp_all
  with bad illegal show thesis by blast
next
  case True
  then have ok: "\<forall>t. st = Some t \<longrightarrow> legal (o_status x) t" "\<forall>t. pay = Some t \<longrightarrow> legal_payment (o_payment_status x) t"
    by blast+
  obtain r1 s1 where c: "whenM (returns_stock st) (cancel_waybill_if_any env redis (o_id x)) s = (r1, s1)"
    by fastforce
  show thesis
  proof (cases r1)
    case (Inl e)
    with c have "returns_stock st" "cancel_waybill_if_any env redis (o_id x) s = (Inl e, s1)"
      by (simp_all split: if_splits)
    moreover have "r = Inl e" "s' = s1"
      using assms transition_start [OF ok, of env redis "by" s] c
      by (simp_all add: bindM_app c Inl)
    ultimately show thesis using carrier by blast
  next
    case (Inr u)
    have start: "transition env redis x st pay by s =
        bindM (move_status env x st by) (\<lambda>x1. bindM (move_payment env x1 pay by) (\<lambda>x2. bindM commit (\<lambda>_.
          bindM (whenM (returns_stock st) (stock_return env (o_id x))) (\<lambda>_. ret x2)))) s1"
      unfolding transition_start [OF ok] by (rule bindM_okI) (use c Inr in simp)
    obtain sq where run: "transition env redis x st pay by s =
        bindM (whenM (returns_stock st) (stock_return env (o_id x))) (\<lambda>_. ret (moved_row st pay x))
          (s1\<lparr>pk_seq := sq, work := moved env (pk_seq s1 History_T) x st pay by (work s1),
            committed := moved env (pk_seq s1 History_T) x st pay by (work s1)\<rparr>)"
      and sq: "\<And>t. t \<noteq> History_T \<Longrightarrow> sq t = pk_seq s1 t"
      using moves_run [of env x st "by" pay "\<lambda>x2. bindM (whenM (returns_stock st) (stock_return env (o_id x))) (\<lambda>_. ret x2)" s1]
      unfolding start by blast
    obtain s2 where s2: "whenM (returns_stock st) (stock_return env (o_id x))
        (s1\<lparr>pk_seq := sq, work := moved env (pk_seq s1 History_T) x st pay by (work s1),
            committed := moved env (pk_seq s1 History_T) x st pay by (work s1)\<rparr>) = (Inr (), s2)"
      using when_return_total by blast
    with run assms have r: "r = Inr (moved_row st pay x)" "s' = s2"
      by (simp_all add: bindM_app)
    have c': "whenM (returns_stock st) (cancel_waybill_if_any env redis (o_id x)) s = (Inr (), s1)"
      using c Inr by simp
    show thesis
      by (rule moved [OF r(1) ok c' sq s2 [folded r(2)]])
  qed
qed


subsection \<open>The audit trail\<close>

text \<open>
  One axis of an order's history: the rows whose target is a status of that axis (the two axes
  share the table and have no status in common).
\<close>

definition trail :: "string list \<Rightarrow> int \<Rightarrow> db \<Rightarrow> (string \<times> string) list" where
  "trail axis oid d = map (\<lambda>h. (h_from_status h, h_to_status h))
     (filter (\<lambda>h. h_order_id h = oid \<and> h_to_status h \<in> set axis) (t_history d))"

fun chained :: "('a \<Rightarrow> 'a \<Rightarrow> bool) \<Rightarrow> 'a \<Rightarrow> ('a \<times> 'a) list \<Rightarrow> 'a \<Rightarrow> bool" where
  "chained P a [] z \<longleftrightarrow> a = z"
| "chained P a (e # es) z \<longleftrightarrow> fst e = a \<and> P a (snd e) \<and> chained P (snd e) es z"

definition audited :: "db \<Rightarrow> order \<Rightarrow> bool" where
  "audited d x \<longleftrightarrow>
    (\<exists>es. trail ORDER_STATUSES (o_id x) d = ([], ''new'') # es \<and> chained legal ''new'' es (o_status x)) \<and>
    (\<exists>es. trail PAYMENT_STATUSES (o_id x) d = ([], ''pending'') # es \<and>
       chained legal_payment ''pending'' es (o_payment_status x))"

definition orders_ok :: "(table \<Rightarrow> int) \<Rightarrow> db \<Rightarrow> bool" where
  "orders_ok sq d \<longleftrightarrow> distinct (map o_id (t_order d)) \<and> (\<forall>x \<in> set (t_order d). o_id x < sq Order_T \<and> audited d x) \<and>
    (\<forall>h \<in> set (t_history d). \<exists>x \<in> set (t_order d). o_id x = h_order_id h)"

definition orders_inv :: "session \<Rightarrow> bool" where
  "orders_inv s \<longleftrightarrow> orders_ok (pk_seq s) (work s) \<and> orders_ok (pk_seq s) (committed s)"

lemma chained_snoc: "chained P a (es @ [(b, c)]) z \<longleftrightarrow> chained P a es b \<and> P b c \<and> c = z"
  by (induction es arbitrary: a) auto

lemma chained_path: "chained legal a es z \<Longrightarrow> legal_path a (map snd es) \<and> last (a # map snd es) = z"
  by (induction es arbitrary: a) auto

lemma axes_disjoint:
  "legal a b \<Longrightarrow> b \<in> set ORDER_STATUSES \<and> b \<notin> set PAYMENT_STATUSES"
  "legal_payment a b \<Longrightarrow> b \<in> set PAYMENT_STATUSES \<and> b \<notin> set ORDER_STATUSES"
  by (auto simp: legal_iff legal_payment_iff ORDER_STATUSES_def PAYMENT_STATUSES_def)

lemma trail_append:
  "trail axis oid (d\<lparr>t_history := t_history d @ hs, t_order := os\<rparr>) = trail axis oid d @
     map (\<lambda>h. (h_from_status h, h_to_status h)) (filter (\<lambda>h. h_order_id h = oid \<and> h_to_status h \<in> set axis) hs)"
  by (simp add: trail_def)

lemma trail_moved:
  assumes "\<forall>t. st = Some t \<longrightarrow> legal (o_status x) t" "\<forall>t. pay = Some t \<longrightarrow> legal_payment (o_payment_status x) t"
  shows "trail ORDER_STATUSES oid (moved env i x st pay by d) = trail ORDER_STATUSES oid d @
      (if oid = o_id x then (case st of None \<Rightarrow> [] | Some t \<Rightarrow> [(o_status x, t)]) else [])"
    "trail PAYMENT_STATUSES oid (moved env i x st pay by d) = trail PAYMENT_STATUSES oid d @
      (if oid = o_id x then (case pay of None \<Rightarrow> [] | Some t \<Rightarrow> [(o_payment_status x, t)]) else [])"
  using assms axes_disjoint
  by (auto simp: moved_def trail_append new_rows_def axis_row_def split: option.splits)

lemma audited_moved:
  assumes "audited d x" "\<forall>t. st = Some t \<longrightarrow> legal (o_status x) t"
    "\<forall>t. pay = Some t \<longrightarrow> legal_payment (o_payment_status x) t"
  shows "audited (moved env i x st pay by d) (moved_row st pay x)"
proof -
  from assms(1) obtain es fs where es: "trail ORDER_STATUSES (o_id x) d = ([], ''new'') # es"
      "chained legal ''new'' es (o_status x)"
    and fs: "trail PAYMENT_STATUSES (o_id x) d = ([], ''pending'') # fs"
      "chained legal_payment ''pending'' fs (o_payment_status x)"
    by (auto simp: audited_def)
  have "chained legal ''new'' (es @ (case st of None \<Rightarrow> [] | Some t \<Rightarrow> [(o_status x, t)]))
      (o_status (moved_row st pay x))"
    using es(2) assms(2) by (auto simp: moved_row_def chained_snoc split: option.splits)
  moreover have "chained legal_payment ''pending'' (fs @ (case pay of None \<Rightarrow> [] | Some t \<Rightarrow> [(o_payment_status x, t)]))
      (o_payment_status (moved_row st pay x))"
    using fs(2) assms(3) by (auto simp: moved_row_def chained_snoc split: option.splits)
  moreover have "o_id (moved_row st pay x) = o_id x" by (simp add: moved_row_def)
  ultimately show ?thesis
    using es(1) fs(1) by (simp add: audited_def trail_moved [OF assms(2,3)])
qed

lemma orders_ok_moved:
  assumes ok: "orders_ok sq d" and x: "x \<in> set (t_order d)" and sq: "sq' Order_T = sq Order_T"
    and st: "\<forall>t. st = Some t \<longrightarrow> legal (o_status x) t" and pay: "\<forall>t. pay = Some t \<longrightarrow> legal_payment (o_payment_status x) t"
  shows "orders_ok sq' (moved env i x st pay by d)"
proof -
  let ?d = "moved env i x st pay by d"
  have ids: "distinct (map o_id (t_order d))" using ok by (simp add: orders_ok_def)
  have keep: "o_id (moved_row st pay r) = o_id r" for r by (simp add: moved_row_def)
  have same: "map o_id (t_order ?d) = map o_id (t_order d)"
    by (simp add: moved_def keep map_upd_key)
  have rows: "audited ?d y \<and> o_id y < sq' Order_T" if y: "y \<in> set (t_order ?d)" for y
  proof -
    from y obtain r where r: "r \<in> set (t_order d)" "y = (if o_id r = o_id x then moved_row st pay r else r)"
      by (auto simp: moved_def set_upd)
    show ?thesis
    proof (cases "o_id r = o_id x")
      case True
      then have "r = x" using distinct_key_inj [OF ids] r(1) x by blast
      with r ok x sq audited_moved [OF _ st pay] show ?thesis by (auto simp: orders_ok_def keep)
    next
      case False
      with r ok sq show ?thesis by (auto simp: orders_ok_def audited_def trail_moved [OF st pay])
    qed
  qed
  have "\<exists>y \<in> set (t_order ?d). o_id y = h_order_id h" if "h \<in> set (t_history ?d)" for h
  proof -
    have "h_order_id h \<in> o_id ` set (t_order d)"
      using that ok x by (force simp: moved_def new_rows_def axis_row_def orders_ok_def image_iff split: option.splits)
    then have "h_order_id h \<in> o_id ` set (t_order ?d)"
      by (metis same set_map)
    then show ?thesis by (auto simp: image_iff)
  qed
  then show ?thesis
    using rows ids same by (simp add: orders_ok_def)
qed


lemma return_line_step: "preserves (stock_step s) (return_line env i)"
proof (rule preservesI)
  fix s1 r s2 assume "stock_step s s1" "return_line env i s1 = (r, s2)"
  moreover have "stock_step s1 s2" if "return_line env i s1 = (r, s2)"
  proof -
    have push: "stock_step t (t\<lparr>outbox := ob\<rparr>)" for t ob by (rule stock_stepI)
    obtain b t where inc: "increment_stock (oi_product_id i) (oi_qty i) (oi_variant_id i) s1 = (b, t)" by fastforce
    note step = increment_step [OF inc]
    from that inc have "s2 = s1 \<or> s2 = t \<or> (\<exists>ob. s2 = t\<lparr>outbox := ob\<rparr>)"
      by (cases b) (auto simp: return_line_def bindM_app notify_restocked_def split: if_splits option.splits)
    then show ?thesis
      using stock_step_refl step push stock_step_trans by metis
  qed
  ultimately show "stock_step s s2" using stock_step_trans by blast
qed

lemma stock_return_frame:
  assumes "stock_return env oid s = (r, s')"
  shows "\<exists>s1. stock_step s s1 \<and> (s' = s1 \<or> s' = s1\<lparr>committed := work s1\<rparr>)"
proof -
  obtain r1 s1 where s1: "forEach (get_items_for_order oid (work s)) (return_line env) s = (r1, s1)" by fastforce
  have pres: "preserves (stock_step s) (forEach (get_items_for_order oid (work s)) (return_line env))"
    by (intro preserves_forEach return_line_step)
  have "stock_step s s1" by (rule preservesD [OF pres s1 stock_step_refl])
  moreover have "s' = s1 \<or> s' = s1\<lparr>committed := work s1\<rparr>"
    using assms s1 by (cases r1) (auto simp: stock_return_def catchM_def bindM_app)
  ultimately show ?thesis by blast
qed

lemma orders_ok_frame:
  "orders_ok sq (d\<lparr>t_np := ls\<rparr>) = orders_ok sq d" "orders_ok sq (d\<lparr>t_product := ps, t_variant := vs\<rparr>) = orders_ok sq d"
  by (simp_all add: orders_ok_def audited_def trail_def)

lemma orders_inv_return:
  assumes "orders_inv s" "committed s = work s" "whenM c (stock_return env oid) s = (r, s')"
  shows "orders_inv s'"
proof (cases c)
  case True
  with assms(3) stock_return_frame [of env oid s r s'] obtain s1
    where "stock_step s s1" "s' = s1 \<or> s' = s1\<lparr>committed := work s1\<rparr>" by auto
  with assms(1,2) show ?thesis by (auto simp: orders_inv_def stock_step_def orders_ok_frame)
qed (use assms in simp)

lemma when_cancel_frame:
  assumes "whenM c (cancel_waybill_if_any env redis oid) s = (r, s')"
  shows "committed s' = committed s" "pk_seq s' = pk_seq s" "\<exists>ls. work s' = (work s)\<lparr>t_np := ls\<rparr>"
    "outbox s' = outbox s" "order_number_seq s' = order_number_seq s"
proof -
  consider "cancel_waybill_if_any env redis oid s = (r, s')" | "s' = s"
    using assms by (cases c) simp_all
  then have all: "committed s' = committed s \<and> pk_seq s' = pk_seq s \<and> (\<exists>ls. work s' = (work s)\<lparr>t_np := ls\<rparr>) \<and>
      outbox s' = outbox s \<and> order_number_seq s' = order_number_seq s"
  proof cases
    case 1
    from cancel_waybill_frame(1-5) [OF 1] show ?thesis by blast
  next
    case 2
    then show ?thesis by (auto intro: exI [of _ "t_np (work s)"])
  qed
  then show "committed s' = committed s" "pk_seq s' = pk_seq s" "\<exists>ls. work s' = (work s)\<lparr>t_np := ls\<rparr>"
    "outbox s' = outbox s" "order_number_seq s' = order_number_seq s" by blast+
qed

lemma transition_orders_inv:
  assumes inv: "orders_inv s" and x: "x \<in> set (t_order (work s))"
    and run: "transition env redis x st pay by s = (r, s')"
  shows "orders_inv s'"
  using run
proof (cases rule: transition_cases)
  case (illegal axis a b)
  with inv show ?thesis by simp
next
  case (carrier e)
  then show ?thesis
    using inv cancel_waybill_frame [of env redis "o_id x" s "Inl e" s'] by (auto simp: orders_inv_def)
next
  case (moved s1 sq)
  let ?d = "Order_Service.moved env (pk_seq s1 History_T) x st pay by (work s1)"
  obtain ls where s1: "work s1 = (work s)\<lparr>t_np := ls\<rparr>" "pk_seq s1 = pk_seq s"
    using when_cancel_frame [OF moved(4)] by blast
  have "orders_ok sq ?d"
  proof (rule orders_ok_moved [where sq = "pk_seq s"])
    show "orders_ok (pk_seq s) (work s1)"
      using inv by (simp add: s1 orders_inv_def orders_ok_frame)
  qed (use x s1 moved(2,3,5) in simp_all)
  then show ?thesis
    by (intro orders_inv_return [OF _ _ moved(6)]) (simp_all add: orders_inv_def)
qed

text \<open>Cancelling returns exactly what the order holds, and its waybill is gone.\<close>

lemma held_frame [simp]: "held (d\<lparr>t_np := ls\<rparr>) = held d" "held (moved env i x st pay by d) = held d"
  by (simp_all add: held_def fun_eq_iff moved_def)

lemma stock_frame [simp]: "stock_of (d\<lparr>t_np := ls\<rparr>) = stock_of d" "stock_of (moved env i x st pay by d) = stock_of d"
  "stock_wf (d\<lparr>t_np := ls\<rparr>) = stock_wf d" "stock_wf (moved env i x st pay by d) = stock_wf d"
proof -
  have "stock_of (d\<lparr>t_np := ls\<rparr>) k = stock_of d k" "stock_of (moved env i x st pay by d) k = stock_of d k" for k
    by (cases k; simp add: moved_def)+
  then show "stock_of (d\<lparr>t_np := ls\<rparr>) = stock_of d" "stock_of (moved env i x st pay by d) = stock_of d"
    by (simp_all add: fun_eq_iff)
qed (simp_all add: stock_wf_def moved_def)

lemma transition_stock:
  assumes wf: "stock_wf (work s)" and run: "transition env redis x st pay by s = (Inr y, s')"
  shows "stock_of (work s') = (if st = Some ''canceled''
      then (\<lambda>k. map_option (\<lambda>q. q + held (work s) (o_id x) k) (stock_of (work s) k)) else stock_of (work s))"
    "stock_wf (work s')" "committed s' = work s'"
proof -
  from run obtain s1 sq where
    s1: "whenM (returns_stock st) (cancel_waybill_if_any env redis (o_id x)) s = (Inr (), s1)"
    and fin: "whenM (returns_stock st) (stock_return env (o_id x))
        (s1\<lparr>pk_seq := sq, work := moved env (pk_seq s1 History_T) x st pay by (work s1),
            committed := moved env (pk_seq s1 History_T) x st pay by (work s1)\<rparr>) = (Inr (), s')"
    by (cases rule: transition_cases) auto
  obtain ls where ls: "work s1 = (work s)\<lparr>t_np := ls\<rparr>" using when_cancel_frame [OF s1] by blast
  let ?s2 = "s1\<lparr>pk_seq := sq, work := moved env (pk_seq s1 History_T) x st pay by (work s1),
            committed := moved env (pk_seq s1 History_T) x st pay by (work s1)\<rparr>"
  have rs: "returns_stock st \<longleftrightarrow> st = Some ''canceled''"
    by (auto simp: returns_stock_def STOCK_RETURNING_STATUSES_def split: option.splits)
  have "stock_wf (work ?s2)" using wf ls by simp
  then obtain s3 where s3: "stock_return env (o_id x) ?s2 = (Inr (), s3)" "committed s3 = work s3" "stock_wf (work s3)"
      "stock_of (work s3) = (\<lambda>k. map_option (\<lambda>q. q + held (work ?s2) (o_id x) k) (stock_of (work ?s2) k))"
    using stock_return_run by blast
  have s': "s' = (if st = Some ''canceled'' then s3 else ?s2)"
    using fin rs s3(1) by (simp split: if_splits)
  show "stock_of (work s') = (if st = Some ''canceled''
      then (\<lambda>k. map_option (\<lambda>q. q + held (work s) (o_id x) k) (stock_of (work s) k)) else stock_of (work s))"
    unfolding s' using s3(4) ls by simp
  show "stock_wf (work s')" "committed s' = work s'"
    unfolding s' using s3(2,3) ls wf by simp_all
qed

lemma cancel_clears_waybill:
  assumes "cancel_waybill_if_any env redis oid s = (Inr (), s')"
  shows "\<forall>row. get_novapost oid (work s') = Some row \<longrightarrow> \<not> truthy (np_awb_number row)"
proof -
  have "find (\<lambda>r. np_order_id r = oid) (upd (\<lambda>r. np_order_id r = oid) clear_waybill rows)
      = map_option clear_waybill (find (\<lambda>r. np_order_id r = oid) rows)" for rows
    by (induction rows) (auto simp: clear_waybill_def)
  then have cleared: "\<forall>row. get_novapost oid (set_np oid clear_waybill d) = Some row \<longrightarrow> \<not> truthy (np_awb_number row)" for d
    by (auto simp: get_novapost_def set_np_def clear_waybill_def)
  show ?thesis
  proof (cases "\<exists>row. get_novapost oid (work s) = Some row \<and> truthy (np_awb_number row)")
    case True
    then have "\<exists>d. work s' = set_np oid clear_waybill d"
      using assms by (auto simp: cancel_waybill_if_any_def bindM_app split: if_splits prod.splits sum.splits) blast
    with cleared show ?thesis by auto
  next
    case False
    then have "s' = s"
      using assms by (auto simp: cancel_waybill_if_any_def split: option.splits if_splits)
    with False show ?thesis by auto
  qed
qed

end
