(* ===== verification/Payment.thy ===== *)
theory Payment
  imports Order_Service "HOL-Library.List_Lexorder" "HOL-Library.Char_ord"
begin

text \<open>
  Card payment: the maib client (\<open>app/services/payment/maib\_client.py\<close>), the payment repository
  and \<open>PaymentService\<close> (\<open>payment\_service.py\<close>). The remote server and \<open>base64(sha256(.))\<close> are
  parameters (\<open>env\_http\<close>, \<open>env\_sha256\_b64\<close>).

  A client holds its token in memory only. Each service builds its own client and makes one
  call with it, so the cache of a fresh client is empty; \<open>get\_token\<close> models the cache anyway.
\<close>

subsection \<open>The maib client\<close>

record maib_client =
  mc_base_url :: string
  mc_project_id :: string
  mc_project_secret :: string
  mc_signature_key :: string
  mc_access_token :: "string option"
  mc_access_expires_at :: instant

definition TOKEN_EXPIRY_SKEW :: int where
  "TOKEN_EXPIRY_SKEW = 30"

definition new_maib_client :: "settings \<Rightarrow> maib_client" where
  "new_maib_client cfg = \<lparr>mc_base_url = rstrip_char CHR ''/'' (maib_base_url cfg),
     mc_project_id = maib_project_id cfg, mc_project_secret = maib_project_secret cfg,
     mc_signature_key = maib_signature_key cfg, mc_access_token = None, mc_access_expires_at = 0\<rparr>"

text \<open>\<open>_request\<close>: any status from 400 is an error; the \<open>result\<close> wrapper is removed when present.\<close>

definition maib_request ::
    "environment \<Rightarrow> maib_client \<Rightarrow> string \<Rightarrow> string \<Rightarrow> json option \<Rightarrow> (string \<times> string) list \<Rightarrow> json net" where
  "maib_request env c method path body headers =
    bindM (http_send env \<lparr>hq_method = method, hq_url = mc_base_url c @ path, hq_params = [],
        hq_json = body, hq_headers = headers\<rparr>) (\<lambda>r.
    case r of
      Timed_Out \<Rightarrow> throw (MaibError (''maib request timed out: '' @ method @ '' '' @ path))
    | Transport_Error \<Rightarrow> throw (MaibError (''maib request failed: '' @ method @ '' '' @ path))
    | Response st text j \<Rightarrow>
        if st \<ge> 400 then throw (MaibError (''maib returned HTTP '' @ int_str st @ '' for '' @ path))
        else
          (case j of
            None \<Rightarrow> throw (MaibError (''maib returned non-JSON body for '' @ path))
          | Some (JObj kvs) \<Rightarrow>
              (case map_of kvs ''result'' of
                Some (JObj inner) \<Rightarrow> ret (JObj inner)
              | _ \<Rightarrow> ret (JObj kvs))
          | Some _ \<Rightarrow> throw (MaibError (''maib returned unexpected JSON shape for '' @ path))))"

definition auth_headers :: "string option \<Rightarrow> (string \<times> string) list" where
  "auth_headers token = (if truthy token then [(''Authorization'', ''Bearer '' @ the token)] else [])"

definition maib_post ::
    "environment \<Rightarrow> maib_client \<Rightarrow> string \<Rightarrow> json \<Rightarrow> string option \<Rightarrow> bool \<Rightarrow> json net" where
  "maib_post env c path body token auth =
    maib_request env c ''POST'' path (Some body) (if auth then auth_headers token else [])"

text \<open>\<open>int(x or 0)\<close> of the \<open>expiresIn\<close> field.\<close>

definition expires_in :: "json \<Rightarrow> exn + int" where
  "expires_in j =
    (case jor j (JInt 0) of
      JInt i \<Rightarrow> Inr i
    | JBool b \<Rightarrow> Inr 1
    | JStr s \<Rightarrow>
        (let (sg, ds) = drop_sign (strip s) in
          if ds \<noteq> [] \<and> digits_only ds then Inr (sg * int (str_val ds)) else Inl (PyError ''ValueError''))
    | JFloat t \<Rightarrow>
        (case parse_decimal t of
          None \<Rightarrow> Inl (PyError ''ValueError'')
        | Some x \<Rightarrow> Inr (py_trunc x))
    | _ \<Rightarrow> Inl (PyError ''TypeError''))"

definition mint_token :: "environment \<Rightarrow> maib_client \<Rightarrow> (string \<times> maib_client) net" where
  "mint_token env c =
    bindM (maib_post env c ''/generate-token''
      (JObj [(''projectId'', JStr (mc_project_id c)), (''projectSecret'', JStr (mc_project_secret c))])
      None False) (\<lambda>data.
    bindM (liftE (jget ''accessToken'' data)) (\<lambda>token.
    if \<not> jtruthy token then throw (MaibError ''maib token response missing accessToken'')
    else
      bindM (liftE (bindE (jget ''expiresIn'' data) expires_in)) (\<lambda>secs.
      ret (py_str token, c\<lparr>mc_access_token := Some (py_str token),
        mc_access_expires_at := env_now env + max 0 (secs - TOKEN_EXPIRY_SKEW) * 1000000\<rparr>))))"

definition get_token :: "environment \<Rightarrow> maib_client \<Rightarrow> (string \<times> maib_client) net" where
  "get_token env c =
    (case mc_access_token c of
      Some t \<Rightarrow> if env_now env < mc_access_expires_at c then ret (t, c) else mint_token env c
    | None \<Rightarrow> mint_token env c)"

definition create_payment ::
    "environment \<Rightarrow> maib_client \<Rightarrow> money \<Rightarrow> string \<Rightarrow> string \<Rightarrow> string \<Rightarrow> string \<Rightarrow> string \<Rightarrow> string \<Rightarrow> string
      \<Rightarrow> string \<Rightarrow> string option \<Rightarrow> string option \<Rightarrow> json net" where
  "create_payment env c amount order_id client_ip language description callback_url ok_url fail_url
      cur client_name email =
    bindM (get_token env c) (\<lambda>(token, c').
    bindM (maib_post env c' ''/pay''
      (JObj ([(''amount'', JFloat (float_str amount)), (''currency'', JStr cur),
         (''clientIp'', JStr client_ip), (''language'', JStr language),
         (''description'', JStr description), (''orderId'', JStr order_id),
         (''callbackUrl'', JStr callback_url), (''okUrl'', JStr ok_url), (''failUrl'', JStr fail_url)] @
         (if truthy client_name then [(''clientName'', JStr (the client_name))] else []) @
         (if truthy email then [(''email'', JStr (the email))] else [])))
      (Some token) True) (\<lambda>data.
    bindM (liftE (jget ''payId'' data)) (\<lambda>pay_id.
    bindM (liftE (jget ''payUrl'' data)) (\<lambda>pay_url.
    if \<not> jtruthy pay_id \<or> \<not> jtruthy pay_url then throw (MaibError ''maib /pay response missing payId/payUrl'')
    else ret data))))"

definition get_pay_info :: "environment \<Rightarrow> maib_client \<Rightarrow> string \<Rightarrow> json net" where
  "get_pay_info env c pay_id =
    bindM (get_token env c) (\<lambda>(token, c').
    maib_request env c' ''GET'' (''/pay-info/'' @ pay_id) None (auth_headers (Some token)))"

definition maib_refund :: "environment \<Rightarrow> maib_client \<Rightarrow> string \<Rightarrow> money option \<Rightarrow> json net" where
  "maib_refund env c pay_id amount =
    bindM (get_token env c) (\<lambda>(token, c').
    maib_post env c' ''/refund''
      (JObj ([(''payId'', JStr pay_id)] @
        (case amount of None \<Rightarrow> [] | Some a \<Rightarrow> [(''refundAmount'', JFloat (float_str a))])))
      (Some token) True)"

subsection \<open>The callback signature\<close>

definition scalarize :: "json \<Rightarrow> string" where
  "scalarize v =
    (case v of
      JNull \<Rightarrow> []
    | JBool b \<Rightarrow> if b then ''true'' else ''false''
    | _ \<Rightarrow> py_str v)"

fun flatten_sorted_values :: "json \<Rightarrow> string list" where
  "flatten_sorted_values (JObj kvs) =
    concat (map snd (sort_key fst (map (\<lambda>kv. (fst kv, flatten_sorted_values (snd kv))) kvs)))"
| "flatten_sorted_values (JArr xs) = concat (map flatten_sorted_values xs)"
| "flatten_sorted_values v = [scalarize v]"

definition compute_signature :: "environment \<Rightarrow> maib_client \<Rightarrow> json \<Rightarrow> string" where
  "compute_signature env c result =
    env_sha256_b64 env (join '':'' (flatten_sorted_values result @ [mc_signature_key c]))"

text \<open>\<open>hmac.compare_digest\<close> on two strings raises \<open>TypeError\<close> unless both are ASCII.\<close>

definition is_ascii :: "string \<Rightarrow> bool" where
  "is_ascii s \<longleftrightarrow> list_all (\<lambda>c. of_char c < (128 :: nat)) s"

definition verify_callback_signature :: "environment \<Rightarrow> maib_client \<Rightarrow> json \<Rightarrow> string \<Rightarrow> exn + bool" where
  "verify_callback_signature env c result signature =
    (let expected = compute_signature env c result in
      if is_ascii expected \<and> is_ascii signature then Inr (expected = signature)
      else Inl (PyError ''TypeError''))"

subsection \<open>Repository\<close>

definition add_payment :: "int \<Rightarrow> money \<Rightarrow> string \<Rightarrow> payment act" where
  "add_payment oid amount cur =
    bindM (next_id Payment_T) (\<lambda>i.
    let x = \<lparr>pm_id = i, pm_order_id = oid, pm_provider = ''maib'', pm_pay_id = None,
             pm_status = ''pending'', pm_amount = amount, pm_currency = cur, pm_raw = None\<rparr> in
    bindM (writes (\<lambda>d. d\<lparr>t_payment := t_payment d @ [x]\<rparr>)) (\<lambda>_.
    ret x))"

definition get_by_pay_id :: "string \<Rightarrow> db \<Rightarrow> exn + payment option" where
  "get_by_pay_id pay_id d = scalar_one_or_none (filter (\<lambda>p. pm_pay_id p = Some pay_id) (t_payment d))"

definition get_by_order_id :: "int \<Rightarrow> db \<Rightarrow> payment option" where
  "get_by_order_id oid d =
    (case sort_key (\<lambda>p. - pm_id p) (filter (\<lambda>p. pm_order_id p = oid) (t_payment d)) of
      [] \<Rightarrow> None | p # _ \<Rightarrow> Some p)"

definition set_payment :: "int \<Rightarrow> (payment \<Rightarrow> payment) \<Rightarrow> db \<Rightarrow> db" where
  "set_payment i f d = d\<lparr>t_payment := upd (\<lambda>p. pm_id p = i) f (t_payment d)\<rparr>"

text \<open>The unique index on \<open>pay\_id\<close>, checked when the row is flushed.\<close>

definition pay_id_free :: "int \<Rightarrow> string \<Rightarrow> db \<Rightarrow> bool" where
  "pay_id_free i pay_id d \<longleftrightarrow> list_all (\<lambda>p. pm_id p \<noteq> i \<longrightarrow> pm_pay_id p \<noteq> Some pay_id) (t_payment d)"

subsection \<open>URLs\<close>

definition callback_url :: "settings \<Rightarrow> string" where
  "callback_url cfg = rstrip_char CHR ''/'' (maib_callback_base_url cfg) @ ''/api/v1/payments/maib/callback''"

definition return_url :: "settings \<Rightarrow> string \<Rightarrow> string \<Rightarrow> bool \<Rightarrow> string" where
  "return_url cfg lang order_number success =
    rstrip_char CHR ''/'' (storefront_base_url cfg) @ ''/'' @ lang @ ''/checkout/'' @
    (if success then ''success'' else ''failed'') @ ''?order='' @ order_number"

subsection \<open>Initiation\<close>

definition is_maib_error :: "exn \<Rightarrow> bool" where
  "is_maib_error e = (case e of MaibError _ \<Rightarrow> True | _ \<Rightarrow> False)"

definition json_pay_id :: "json \<Rightarrow> exn + string" where
  "json_pay_id j = (case j of JStr s \<Rightarrow> Inr s | _ \<Rightarrow> Inl (PyError ''DBAPIError''))"

definition initiate_card_payment :: "environment \<Rightarrow> order \<Rightarrow> string \<Rightarrow> string \<Rightarrow> string act" where
  "initiate_card_payment env x client_ip lang =
    (let cfg = env_cfg env in
     if \<not> card_payment_enabled cfg then throw CardPaymentDisabledError
     else
       bindM (add_payment (o_id x) (o_total x) (currency cfg)) (\<lambda>p.
       bindM (catchM
         (remote (create_payment env (new_maib_client cfg) (o_total x) (o_number x) client_ip lang
            (''Order '' @ o_number x) (callback_url cfg) (return_url cfg lang (o_number x) True)
            (return_url cfg lang (o_number x) False) (currency cfg) (o_delivery_name x) (Some (o_email x))))
         is_maib_error
         (\<lambda>e. bindM commit (\<lambda>_. throw e))) (\<lambda>result.
       bindM (liftE (bindE (jget ''payId'' result) json_pay_id)) (\<lambda>pay_id.
       bindM (readsE (\<lambda>d. guardE (pay_id_free (pm_id p) pay_id d) (IntegrityError ''payment_pay_id_key''))) (\<lambda>_.
       bindM (writes (set_payment (pm_id p) (\<lambda>r. r\<lparr>pm_pay_id := Some pay_id, pm_raw := Some result\<rparr>))) (\<lambda>_.
       bindM commit (\<lambda>_.
       bindM (liftE (jget ''payUrl'' result)) (\<lambda>u.
       ret (py_str u)))))))))"

subsection \<open>Callback\<close>

definition TERMINAL_STATUSES :: "string list" where
  "TERMINAL_STATUSES = [''ok'', ''failed'', ''refunded'']"

definition apply_paid :: "environment \<Rightarrow> order \<Rightarrow> payment \<Rightarrow> unit act" where
  "apply_paid env x p =
    bindM (writes (set_payment (pm_id p) (\<lambda>r. r\<lparr>pm_status := ''ok''\<rparr>))) (\<lambda>_.
    if o_payment_status x = ''pending''
    then bindM (transition env False x None (Some ''paid'') ''maib'') (\<lambda>_. ret ())
    else commit)"

definition is_illegal :: "exn \<Rightarrow> bool" where
  "is_illegal e = (case e of IllegalTransitionError _ _ _ \<Rightarrow> True | _ \<Rightarrow> False)"

definition apply_failed :: "environment \<Rightarrow> order \<Rightarrow> payment \<Rightarrow> unit act" where
  "apply_failed env x p =
    bindM (writes (set_payment (pm_id p) (\<lambda>r. r\<lparr>pm_status := ''failed''\<rparr>))) (\<lambda>_.
    if o_status x \<in> {''new'', ''confirmed''}
    then catchM (bindM (transition env False x (Some ''canceled'') None ''maib'') (\<lambda>_. ret ()))
           is_illegal (\<lambda>_. commit)
    else commit)"

text \<open>\<open>str(result.get("status", ""))\<close>: a missing key gives the empty string, a null gives \<open>None\<close>.\<close>

definition status_text :: "json \<Rightarrow> string" where
  "status_text result =
    (case result of
      JObj kvs \<Rightarrow> (case map_of kvs ''status'' of None \<Rightarrow> [] | Some v \<Rightarrow> py_str v)
    | _ \<Rightarrow> [])"

definition handle_callback :: "environment \<Rightarrow> json \<Rightarrow> string \<Rightarrow> bool act" where
  "handle_callback env result signature =
    bindM (liftE (verify_callback_signature env (new_maib_client (env_cfg env)) result signature)) (\<lambda>valid.
    if \<not> valid then ret False
    else
      bindM (liftE (jget ''payId'' result)) (\<lambda>pay_id.
      if \<not> jtruthy pay_id then ret False
      else
        bindM (readsE (get_by_pay_id (py_str pay_id))) (\<lambda>found.
        case found of
          None \<Rightarrow> ret False
        | Some p \<Rightarrow>
            if pm_status p \<in> set TERMINAL_STATUSES then ret True
            else
              bindM (readsE (get_order_by_id (pm_order_id p))) (\<lambda>ofound.
              case ofound of
                None \<Rightarrow> ret False
              | Some x \<Rightarrow>
                  bindM (writes (set_payment (pm_id p) (\<lambda>r. r\<lparr>pm_raw := Some result\<rparr>))) (\<lambda>_.
                  bindM (if upper (status_text result) = ''OK'' then apply_paid env x p
                         else apply_failed env x p) (\<lambda>_.
                  ret True))))))"

subsection \<open>Refund\<close>

definition refund :: "environment \<Rightarrow> order \<Rightarrow> money option \<Rightarrow> unit act" where
  "refund env x amount =
    (if o_payment_method x \<noteq> ''card'' \<or> o_payment_status x \<noteq> ''paid'' then throw RefundNotAllowedError
     else
       bindM (reads (get_by_order_id (o_id x))) (\<lambda>found.
       case found of
         None \<Rightarrow> throw PaymentNotFoundError
       | Some p \<Rightarrow>
           (case pm_pay_id p of
             None \<Rightarrow> throw PaymentNotFoundError
           | Some pid \<Rightarrow>
               bindM (remote (maib_refund env (new_maib_client (env_cfg env)) pid amount)) (\<lambda>_.
               bindM (writes (set_payment (pm_id p) (\<lambda>r. r\<lparr>pm_status := ''refunded''\<rparr>))) (\<lambda>_.
               bindM (transition env False x None (Some ''refunded'') ''admin'') (\<lambda>_.
               ret ()))))))"

end
