(* ===== verification/Payment_Correct.thy ===== *)
theory Payment_Correct
  imports Payment
begin

text \<open>
  What the signature covers, and the callback as a whole: rejected callbacks change nothing,
  an accepted one settles or cancels its order once, and a repetition is a no-op.
\<close>

subsection \<open>The signature\<close>

lemma sort_key_permute:
  assumes "mset xs = mset ys" "distinct (map f ys)"
  shows "sort_key f xs = sort_key f ys"
proof (rule properties_for_sort_key)
  show "mset (sort_key f ys) = mset xs" using assms(1) by simp
  show "filter (\<lambda>x. f k = f x) (sort_key f ys) = filter (\<lambda>x. f k = f x) xs" if "k \<in> set (sort_key f ys)" for k
  proof -
    have one: "filter (\<lambda>x. f k = f x) zs = [k]" if "distinct (map f zs)" "k \<in> set zs" for zs
      using that
    proof (induction zs)
      case (Cons z zs)
      show ?case
      proof (cases "z = k")
        case True
        with distinct_keyD [OF Cons.prems(1)] have "\<forall>x \<in> set zs. f k \<noteq> f x" by metis
        with True show ?thesis by (simp add: filter_empty_conv)
      next
        case False
        with Cons.prems have k: "k \<in> set zs" by simp
        then have "f k \<noteq> f z" using distinct_keyD [OF Cons.prems(1)] by metis
        with k Cons show ?thesis by simp
      qed
    qed simp
    have "mset (map f (sort_key f ys)) = mset (map f ys)" "mset (map f xs) = mset (map f ys)"
      using assms(1) by simp_all
    then have "distinct (map f (sort_key f ys))" "distinct (map f xs)"
      using assms(2) mset_eq_imp_distinct_iff by blast+
    moreover have "k \<in> set xs" using that assms(1) by (metis set_mset_mset set_sort)
    ultimately show ?thesis using one that by metis
  qed
qed simp

lemma flatten_permute:
  assumes "mset kvs = mset kvs'" "distinct (map fst kvs')"
  shows "flatten_sorted_values (JObj kvs) = flatten_sorted_values (JObj kvs')"
proof -
  let ?g = "\<lambda>kv. (fst kv, flatten_sorted_values (snd kv))"
  have "sort_key fst (map ?g kvs) = sort_key fst (map ?g kvs')"
    using assms by (intro sort_key_permute) (simp_all add: comp_def)
  then show ?thesis by simp
qed

lemma signature_permute:
  "mset kvs = mset kvs' \<Longrightarrow> distinct (map fst kvs') \<Longrightarrow>
    compute_signature env c (JObj kvs) = compute_signature env c (JObj kvs')"
  using flatten_permute [of kvs kvs'] unfolding compute_signature_def by simp

text \<open>The digest covers the joined values only: neither the keys nor the borders between values.\<close>

lemma signature_borders:
  "compute_signature env c (JObj [(''a'', JStr ''x:y'')]) =
   compute_signature env c (JObj [(''a'', JStr ''x''), (''b'', JStr ''y'')])"
proof -
  have "sort_key fst [(''a'', [''x'']), (''b'', [''y''])] = [(''a'', [''x'']), (''b'', [''y''])]"
    by code_simp
  then show ?thesis
    by (simp add: compute_signature_def scalarize_def py_str_def)
qed

subsection \<open>Transitions leave payments alone\<close>

lemma stock_return_tables:
  assumes "whenM c (stock_return env oid) s = (r, s')"
  shows "t_payment (work s') = t_payment (work s)" "t_np (work s') = t_np (work s)"
    "t_order (work s') = t_order (work s)" "t_order_item (work s') = t_order_item (work s)"
    "t_cart (work s') = t_cart (work s)" "t_promo (work s') = t_promo (work s)"
proof -
  have "\<exists>ps vs. work s' = (work s)\<lparr>t_product := ps, t_variant := vs\<rparr>"
  proof (cases c)
    case True
    then have "stock_return env oid s = (r, s')" using assms by simp
    from stock_return_frame [OF this] obtain s1 where "stock_step s s1" "work s' = work s1" by auto
    then show ?thesis unfolding stock_step_def by (elim exE) (simp, blast)
  next
    case False
    with assms have "work s' = (work s)\<lparr>t_product := t_product (work s), t_variant := t_variant (work s)\<rparr>" by simp
    then show ?thesis by blast
  qed
  then show "t_payment (work s') = t_payment (work s)" "t_np (work s') = t_np (work s)"
    "t_order (work s') = t_order (work s)" "t_order_item (work s') = t_order_item (work s)"
    "t_cart (work s') = t_cart (work s)" "t_promo (work s') = t_promo (work s)" by auto
qed

lemma transition_payments:
  assumes "transition env redis x st pay by s = (r, s')"
  shows "t_payment (work s') = t_payment (work s)"
  using assms
proof (cases rule: transition_cases)
  case (carrier e)
  then show ?thesis using cancel_waybill_frame(5) by fastforce
next
  case (moved s1 sq)
  then show ?thesis
    using stock_return_tables(1) [OF moved(6)] when_cancel_frame(3) [OF moved(4)] by (auto simp: Order_Service.moved_def)
qed simp

lemma return_line_total: "\<exists>s'. return_line env i s = (Inr (), s')"
proof (cases "item_key i")
  case None
  then show ?thesis by (auto simp: return_line_def item_key_def split: option.splits)
next
  case (Some k)
  have "\<exists>b s1. put_stock k n s = (Inr b, s1)" for n by (cases k) (simp_all add: stock_runs)
  then obtain b s1 where "increment_stock (oi_product_id i) (oi_qty i) (oi_variant_id i) s = (Inr b, s1)"
    using increment_key [OF Some] by metis
  then show ?thesis
    by (auto simp: return_line_def bindM_app notify_restocked_def split: option.splits)
qed

lemma forEach_total: "(\<And>x s. \<exists>s'. f x s = (Inr (), s')) \<Longrightarrow> \<exists>s'. forEach xs f s = (Inr (), s')"
proof (induction xs arbitrary: s)
  case (Cons x xs)
  then obtain s1 where "f x s = (Inr (), s1)" by blast
  with Cons.IH [OF Cons.prems, of s1] show ?case by (auto simp: bindM_app)
qed simp

lemma stock_return_commits:
  assumes "stock_return env oid s = (r, s')"
  shows "committed s' = work s'"
proof -
  obtain s1 where "forEach (get_items_for_order oid (work s)) (return_line env) s = (Inr (), s1)"
    using forEach_total return_line_total by metis
  with assms show ?thesis by (auto simp: stock_return_def catchM_def bindM_app)
qed

lemma transition_committed:
  assumes "transition env redis x st pay by s = (Inr y, s')"
  shows "committed s' = work s'"
  using assms
proof (cases rule: transition_cases)
  case (moved s1 sq)
  then show ?thesis by (auto dest: stock_return_commits split: if_splits)
qed auto

lemma transition_error_committed:
  assumes "transition env redis x st pay by s = (Inl e, s')"
  shows "committed s' = committed s"
  using assms
proof (cases rule: transition_cases)
  case (carrier e')
  then show ?thesis using cancel_waybill_frame(1) by blast
qed auto


subsection \<open>The callback\<close>

lemma filter_upd: "(\<And>r. Q (f r) = Q r) \<Longrightarrow> filter Q (upd P f rows) = upd P f (filter Q rows)"
  by (induction rows) auto

lemma get_by_pay_id_set:
  assumes "get_by_pay_id i d = Inr (Some p)" "\<And>r. pm_pay_id (f r) = pm_pay_id r"
  shows "get_by_pay_id i (set_payment (pm_id p) f d) = Inr (Some (f p))"
  using assms by (simp add: get_by_pay_id_def set_payment_def filter_upd scalar_one_or_none_Inr)

lemma get_by_pay_id_frame: "t_payment d = t_payment d' \<Longrightarrow> get_by_pay_id i d = get_by_pay_id i d'"
  by (simp add: get_by_pay_id_def)

text \<open>A signature that does not verify, an unknown payment or a settled one: nothing happens.\<close>

lemma callback_rejected:
  assumes "verify_callback_signature env (new_maib_client (env_cfg env)) result sig \<noteq> Inr True"
  shows "snd (handle_callback env result sig s) = s" "fst (handle_callback env result sig s) \<noteq> Inr True"
  using assms by (auto simp: handle_callback_def bindM_app split: sum.splits)

lemma callback_terminal:
  assumes "verify_callback_signature env (new_maib_client (env_cfg env)) (JObj kvs) sig = Inr True"
    "map_of kvs ''payId'' = Some pid" "jtruthy pid" "get_by_pay_id (py_str pid) (work s) = Inr (Some p)"
    "pm_status p \<in> set TERMINAL_STATUSES"
  shows "handle_callback env (JObj kvs) sig s = (Inr True, s)"
  using assms by (simp add: handle_callback_def bindM_app)

lemma callback_accepted:
  assumes "handle_callback env result sig s = (Inr True, s')"
  obtains (settled) kvs pid p where "result = JObj kvs" "map_of kvs ''payId'' = Some pid" "jtruthy pid"
      "verify_callback_signature env (new_maib_client (env_cfg env)) result sig = Inr True"
      "get_by_pay_id (py_str pid) (work s) = Inr (Some p)" "pm_status p \<in> set TERMINAL_STATUSES" "s' = s"
  | (applied) kvs pid p x where "result = JObj kvs" "map_of kvs ''payId'' = Some pid" "jtruthy pid"
      "verify_callback_signature env (new_maib_client (env_cfg env)) result sig = Inr True"
      "get_by_pay_id (py_str pid) (work s) = Inr (Some p)" "pm_status p \<notin> set TERMINAL_STATUSES"
      "get_order_by_id (pm_order_id p) (work s) = Inr (Some x)"
      "(if upper (status_text result) = ''OK'' then apply_paid env x p else apply_failed env x p)
        (s\<lparr>work := set_payment (pm_id p) (\<lambda>r. r\<lparr>pm_raw := Some result\<rparr>) (work s)\<rparr>) = (Inr (), s')"
proof -
  obtain kvs where kvs: "result = JObj kvs"
    using assms by (cases result) (auto simp: handle_callback_def bindM_app split: sum.splits if_splits)
  from assms have sig: "verify_callback_signature env (new_maib_client (env_cfg env)) result sig = Inr True"
    by (auto simp: handle_callback_def bindM_app split: sum.splits if_splits)
  obtain pid where pid: "map_of kvs ''payId'' = Some pid" "jtruthy pid"
    using assms kvs by (cases "map_of kvs ''payId''")
      (auto simp: handle_callback_def bindM_app split: sum.splits if_splits)
  obtain p where p: "get_by_pay_id (py_str pid) (work s) = Inr (Some p)"
    using assms kvs sig pid by (auto simp: handle_callback_def bindM_app split: sum.splits option.splits)
  show thesis
  proof (cases "pm_status p \<in> set TERMINAL_STATUSES")
    case True
    with assms kvs sig pid p have "s' = s" by (simp add: handle_callback_def bindM_app)
    with kvs sig pid p True settled show thesis by blast
  next
    case False
    with assms kvs sig pid p obtain x where x: "get_order_by_id (pm_order_id p) (work s) = Inr (Some x)"
      by (auto simp: handle_callback_def bindM_app split: sum.splits option.splits)
    have "(if upper (status_text result) = ''OK'' then apply_paid env x p else apply_failed env x p)
        (s\<lparr>work := set_payment (pm_id p) (\<lambda>r. r\<lparr>pm_raw := Some result\<rparr>) (work s)\<rparr>) = (Inr (), s')"
      using assms kvs sig pid p x False
      by (simp add: handle_callback_def bindM_app split: prod.splits sum.splits if_splits)
    with kvs sig pid p x False applied show thesis by blast
  qed
qed

lemma apply_result:
  assumes "(if ok then apply_paid env x p else apply_failed env x p) s = (Inr (), s')"
  shows "t_payment (work s') = t_payment (set_payment (pm_id p) (\<lambda>r. r\<lparr>pm_status := (if ok then ''ok'' else ''failed'')\<rparr>) (work s))"
    "committed s' = work s'"
proof -
  let ?s = "s\<lparr>work := set_payment (pm_id p) (\<lambda>r. r\<lparr>pm_status := (if ok then ''ok'' else ''failed'')\<rparr>) (work s)\<rparr>"
  consider (moved) y st pay where "transition env False x st pay ''maib'' ?s = (Inr y, s')"
    | (kept) "s' = ?s\<lparr>committed := work ?s\<rparr>"
    | (illegal) e s1 st pay where "transition env False x st pay ''maib'' ?s = (Inl e, s1)" "is_illegal e"
        "s' = s1\<lparr>committed := work s1\<rparr>"
    using assms
    by (auto simp: apply_paid_def apply_failed_def bindM_app catchM_def
        split: if_splits prod.splits sum.splits)
  then have "t_payment (work s') = t_payment (work ?s) \<and> committed s' = work s'"
  proof cases
    case (moved y st pay)
    then show ?thesis using transition_payments transition_committed by fastforce
  next
    case kept
    then show ?thesis by simp
  next
    case (illegal e s1 st pay)
    then show ?thesis using transition_payments [OF illegal(1)] by simp
  qed
  then show "t_payment (work s') = t_payment (set_payment (pm_id p) (\<lambda>r. r\<lparr>pm_status := (if ok then ''ok'' else ''failed'')\<rparr>) (work s))"
    "committed s' = work s'" by simp_all
qed

lemma callback_again:
  assumes run: "handle_callback env result sig s = (Inr True, s')"
  shows "handle_callback env result sig s' = (Inr True, s')"
  using run
proof (cases rule: callback_accepted)
  case (settled kvs pid p)
  with run show ?thesis by simp
next
  case (applied kvs pid p x)
  let ?ok = "upper (status_text result) = ''OK''"
  let ?f = "\<lambda>r. r\<lparr>pm_raw := Some result\<rparr>" and ?g = "\<lambda>r. r\<lparr>pm_status := (if ?ok then ''ok'' else ''failed'')\<rparr>"
  note res = apply_result [OF applied(8)]
  have "get_by_pay_id (py_str pid) (set_payment (pm_id (?f p)) ?g (set_payment (pm_id p) ?f (work s))) = Inr (Some (?g (?f p)))"
    by (intro get_by_pay_id_set applied(5)) simp_all
  then have "get_by_pay_id (py_str pid) (work s') = Inr (Some (?g (?f p)))"
    using get_by_pay_id_frame [OF res(1)] by simp
  then show ?thesis
    using applied(1-4) by (simp add: callback_terminal TERMINAL_STATUSES_def)
qed

end
