(* ===== verification/Order_Views.thy ===== *)
theory Order_Views
  imports Payment_Correct
begin

text \<open>
  The projection of an order every read path and the checkout answer use
  (\<open>OrderOut.from\_order\<close> of \<open>app/schemas/order.py\<close>) and the customer's order endpoints
  (\<open>app/api/routers/orders.py\<close>).
\<close>

record order_item_out =
  oio_product_id :: "int option"
  oio_name_snapshot :: string
  oio_price_snapshot :: money
  oio_qty :: int

record np_order_out =
  npo_settlement_name :: string
  npo_division_number :: string
  npo_division_address :: string
  npo_address_parts :: "json option"
  npo_awb_number :: "string option"
  npo_status_code :: string
  npo_status_text :: string

record order_out =
  oo_number :: string
  oo_status :: string
  oo_payment_status :: string
  oo_email :: string
  oo_phone :: string
  oo_subtotal :: money
  oo_discount_total :: money
  oo_delivery_cost :: money
  oo_total :: money
  oo_delivery_type :: string
  oo_delivery_service :: string
  oo_delivery_address_id :: "int option"
  oo_delivery_name :: "string option"
  oo_delivery_city :: "string option"
  oo_delivery_street :: "string option"
  oo_delivery_zip :: "string option"
  oo_payment_method :: string
  oo_created_at :: instant
  oo_items :: "order_item_out list"
  oo_novapost :: "np_order_out option"
  oo_pay_url :: "string option"

definition item_out :: "order_item \<Rightarrow> order_item_out" where
  "item_out i = \<lparr>oio_product_id = oi_product_id i, oio_name_snapshot = oi_name_snapshot i,
     oio_price_snapshot = oi_price_snapshot i, oio_qty = oi_qty i\<rparr>"

definition novapost_out :: "bool \<Rightarrow> order_delivery_np \<Rightarrow> np_order_out" where
  "novapost_out hide_awb r = \<lparr>npo_settlement_name = np_settlement_name r,
     npo_division_number = np_division_number r, npo_division_address = np_division_address r,
     npo_address_parts = np_address_parts r,
     npo_awb_number = (if hide_awb then None else np_awb_number r),
     npo_status_code = np_status_code r, npo_status_text = np_status_text r\<rparr>"

definition from_order :: "order \<Rightarrow> order_item list \<Rightarrow> order_delivery_np option \<Rightarrow> bool \<Rightarrow> order_out" where
  "from_order x items novapost hide_awb = \<lparr>
     oo_number = o_number x, oo_status = o_status x, oo_payment_status = o_payment_status x,
     oo_email = o_email x, oo_phone = o_phone x, oo_subtotal = o_subtotal x,
     oo_discount_total = o_discount_total x, oo_delivery_cost = o_delivery_cost x,
     oo_total = o_total x, oo_delivery_type = o_delivery_type x,
     oo_delivery_service = o_delivery_service x, oo_delivery_address_id = o_delivery_address_id x,
     oo_delivery_name = o_delivery_name x, oo_delivery_city = o_delivery_city x,
     oo_delivery_street = o_delivery_street x, oo_delivery_zip = o_delivery_zip x,
     oo_payment_method = o_payment_method x, oo_created_at = o_created_at x,
     oo_items = map item_out items, oo_novapost = map_option (novapost_out hide_awb) novapost,
     oo_pay_url = None\<rparr>"

subsection \<open>Endpoints\<close>

text \<open>\<open>GET /orders\<close>: the authenticated user's orders.\<close>

definition list_orders :: "app_user \<Rightarrow> db \<Rightarrow> order_out list" where
  "list_orders user d =
    map (\<lambda>(x, items, carrier). from_order x items carrier False) (list_for_user (u_id user) d)"

text \<open>\<open>GET /orders/{number}\<close>: no email, so only the owner.\<close>

definition get_order_endpoint :: "string \<Rightarrow> app_user option \<Rightarrow> db \<Rightarrow> exn + order_out" where
  "get_order_endpoint number user d =
    bindE (get_for_user number user None d) (\<lambda>(x, items, carrier).
    Inr (from_order x items carrier False))"

text \<open>\<open>POST /orders/{number}/lookup\<close>: number and email, the waybill withheld from guests.\<close>

definition lookup_order :: "string \<Rightarrow> app_user option \<Rightarrow> string \<Rightarrow> db \<Rightarrow> exn + order_out" where
  "lookup_order number user email d =
    bindE (get_for_user number user (Some email) d) (\<lambda>(x, items, carrier).
    Inr (from_order x items carrier (user = None)))"

subsection \<open>Who sees what\<close>

lemma get_order_owner:
  assumes "get_order_endpoint number user d = Inr out"
  shows "\<exists>u x. user = Some u \<and> x \<in> set (t_order d) \<and> o_number x = number \<and> o_user_id x = Some (u_id u)
    \<and> oo_number out = number"
  using assms
  by (auto simp: get_order_endpoint_def get_for_user_def authorized_def bindE_Inr get_order_by_number_def
      scalar_one_or_none_Inr filter_eq_Cons_iff from_order_def split: option.splits if_splits prod.splits)

text \<open>Whether the order is absent or someone else's, the answer is the same.\<close>

lemma get_for_user_miss:
  assumes "get_order_by_number number d = Inr found" "\<And>x. found = Some x \<Longrightarrow> \<not> authorized x user email"
  shows "get_for_user number user email d = Inl (OrderNotFoundError number)"
  using assms by (cases found) (simp_all add: get_for_user_def)

lemma guest_lookup_hides:
  "lookup_order number None email d = Inr out \<Longrightarrow> oo_novapost out = Some n \<Longrightarrow> npo_awb_number n = None"
  by (auto simp: lookup_order_def bindE_Inr from_order_def novapost_out_def split: prod.splits)

end
