(* ===== verification/Admin_Orders.thy ===== *)
theory Admin_Orders
  imports Order_Views
begin

text \<open>
  The back office of orders: \<open>AdminOrderRepository\<close> (\<open>app/repositories/admin\_order\_repo.py\<close>),
  \<open>AdminOrderService\<close> (\<open>app/services/admin\_order\_service.py\<close>), its router
  (\<open>app/api/routers/admin\_orders.py\<close>), and the periodic task that refreshes the open waybills
  (\<open>app/tasks/novapost.py\<close>). The numero sign of the waybill email is written \<open>No\<close>.
\<close>

subsection \<open>The list\<close>

text \<open>PostgreSQL's \<open>LIKE\<close>, with its two wildcards and the backslash escape.\<close>

fun like :: "string \<Rightarrow> string \<Rightarrow> bool" where
  "like [] s \<longleftrightarrow> s = []"
| "like (c # p) s \<longleftrightarrow>
    (if c = CHR ''%'' then like p s \<or> (case s of [] \<Rightarrow> False | _ # t \<Rightarrow> like (c # p) t)
     else if c = CHR ''_'' then (case s of [] \<Rightarrow> False | _ # t \<Rightarrow> like p t)
     else if c = CHR 0x5C then
       (case p of [] \<Rightarrow> False | e # q \<Rightarrow> (case s of [] \<Rightarrow> False | x # t \<Rightarrow> x = e \<and> like q t))
     else (case s of [] \<Rightarrow> False | x # t \<Rightarrow> x = c \<and> like p t))"

definition ilike :: "string \<Rightarrow> string \<Rightarrow> bool" where
  "ilike s pattern \<longleftrightarrow> like (lower pattern) (lower s)"

definition apply_filters :: "string option \<Rightarrow> string option \<Rightarrow> order \<Rightarrow> bool" where
  "apply_filters status query x \<longleftrightarrow>
    (case status of None \<Rightarrow> True | Some st \<Rightarrow> o_status x = st) \<and>
    (if truthy query then
       (let pattern = ''%'' @ the query @ ''%'' in
         ilike (o_number x) pattern \<or> ilike (o_email x) pattern \<or> ilike (o_phone x) pattern)
     else True)"

definition repo_list_orders :: "string option \<Rightarrow> string option \<Rightarrow> nat \<Rightarrow> nat \<Rightarrow> db \<Rightarrow> order list" where
  "repo_list_orders status query offset limit d =
    take limit (drop offset
      (sort_key (\<lambda>x. (- o_created_at x, - o_id x)) (filter (apply_filters status query) (t_order d))))"

definition count_orders :: "string option \<Rightarrow> string option \<Rightarrow> db \<Rightarrow> nat" where
  "count_orders status query d = rowcount (apply_filters status query) (t_order d)"

definition admin_list_orders ::
    "string option \<Rightarrow> string option \<Rightarrow> nat \<Rightarrow> nat \<Rightarrow> db \<Rightarrow> (order \<times> order_item list) list \<times> nat" where
  "admin_list_orders status query page page_size d =
    (let offset = (page - 1) * page_size;
         orders = repo_list_orders status query offset page_size d;
         n_total = count_orders status query d;
         items_by_order = list_items_for_orders (map o_id orders) d
     in (map (\<lambda>x. (x, the (items_by_order (o_id x)))) orders, n_total))"

subsection \<open>One order\<close>

definition require_order :: "string \<Rightarrow> db \<Rightarrow> exn + order" where
  "require_order number d =
    bindE (get_order_by_number number d) (\<lambda>found.
    case found of None \<Rightarrow> Inl (OrderNotFoundError number) | Some x \<Rightarrow> Inr x)"

definition admin_get_order :: "string \<Rightarrow> db \<Rightarrow> exn + order \<times> order_item list" where
  "admin_get_order number d =
    bindE (require_order number d) (\<lambda>x.
    Inr (x, the (list_items_for_orders [o_id x] d (o_id x))))"

definition admin_transition ::
    "environment \<Rightarrow> bool \<Rightarrow> string \<Rightarrow> string option \<Rightarrow> string option \<Rightarrow> string \<Rightarrow> (order \<times> order_item list) act" where
  "admin_transition env redis number to_status to_payment changed_by =
    bindM (readsE (require_order number)) (\<lambda>x.
    bindM (transition env redis x to_status to_payment changed_by) (\<lambda>y.
    bindM (reads (\<lambda>d. the (list_items_for_orders [o_id y] d (o_id y)))) (\<lambda>items.
    ret (y, items))))"

subsection \<open>Waybills\<close>

definition lock_carrier_row :: "string \<Rightarrow> db \<Rightarrow> exn + order \<times> order_delivery_np" where
  "lock_carrier_row number d =
    bindE (get_order_by_number number d) (\<lambda>found.
    case found of
      None \<Rightarrow> Inl (OrderNotFoundError number)
    | Some x \<Rightarrow>
        (case get_novapost (o_id x) d of
          None \<Rightarrow> Inl (WaybillMissingError number)
        | Some row \<Rightarrow> Inr (x, row)))"

definition parcel_weights :: "settings \<Rightarrow> order_delivery_np \<Rightarrow> order_item list \<Rightarrow> db \<Rightarrow> int list" where
  "parcel_weights cfg row items d =
    (if int_or (np_parcel_weight_g row) 0 \<noteq> 0 then [int_or (np_parcel_weight_g row) 0]
     else
       (let product_ids = [p. i \<leftarrow> items, Some p \<leftarrow> [oi_product_id i], p \<noteq> 0];
            weights = get_product_weights product_ids d
        in map (\<lambda>i. int_or (case oi_product_id i of None \<Rightarrow> None
               | Some p \<Rightarrow> (case weights p of None \<Rightarrow> None | Some w \<Rightarrow> w))
             (parcel_default_item_weight_g cfg) * oi_qty i) items))"

definition carrier_ready :: "environment \<Rightarrow> bool \<Rightarrow> exn + unit" where
  "carrier_ready env redis =
    guardE (redis \<and> novapost_enabled (env_cfg env)) (CarrierUnavailableError ''Nova Post is not configured'')"

definition np_error_text :: "exn \<Rightarrow> string" where
  "np_error_text e = (case e of NovaPostError m \<Rightarrow> m | _ \<Rightarrow> [])"

text \<open>\<open>str(x or "") or None\<close>\<close>

definition text_or_none :: "json \<Rightarrow> string option" where
  "text_or_none j = (let t = jstr_or_empty j in if t = [] then None else Some t)"

text \<open>What the carrier's answer makes of the row.\<close>

definition record_waybill :: "json \<Rightarrow> exn + (order_delivery_np \<Rightarrow> order_delivery_np)" where
  "record_waybill response =
    bindE (jget ''id'' response) (\<lambda>i.
    bindE (jget ''number'' response) (\<lambda>n.
    bindE (jget ''status'' response) (\<lambda>st.
    Inr (\<lambda>r. r\<lparr>np_awb_id := text_or_none i, np_awb_number := text_or_none n,
      np_awb_data := Some response, np_status_code := [], np_status_text := jstr_or_empty st\<rparr>))))"

definition waybill_destination :: "order_delivery_np \<Rightarrow> string" where
  "waybill_destination row =
    (if np_division_number row \<noteq> [] \<or> np_division_address row \<noteq> [] then
       join '', '' (filter (\<lambda>part. part \<noteq> [])
         [if np_division_number row \<noteq> [] then ''No '' @ np_division_number row else [],
          np_division_address row, np_settlement_name row])
     else [])"

definition notify_waybill :: "environment \<Rightarrow> string \<Rightarrow> string \<Rightarrow> order_delivery_np \<Rightarrow> unit act" where
  "notify_waybill env email number row =
    (if \<not> truthy (np_awb_number row) then ret ()
     else enqueue env (Waybill_Email email number (the (np_awb_number row)) (waybill_destination row)))"

definition create_waybill :: "environment \<Rightarrow> bool \<Rightarrow> string \<Rightarrow> order_delivery_np act" where
  "create_waybill env redis number =
    bindM (readsE (lock_carrier_row number)) (\<lambda>(x, row).
    if truthy (np_awb_number row) then throw (WaybillExistsError number)
    else
      bindM (reads (\<lambda>d. the (list_items_for_orders [o_id x] d (o_id x)))) (\<lambda>items.
      bindM (reads (parcel_weights (env_cfg env) row items)) (\<lambda>weights.
      bindM (liftE (carrier_ready env redis)) (\<lambda>_.
      bindM (catchM
        (remote (svc_create_shipment env ''ro''
          (build_shipment (env_cfg env) (o_number x) (str_or (o_delivery_name x) []) (o_phone x) (o_email x)
            (o_delivery_type x) (np_division_id row) (np_settlement_id row) (np_address_parts row)
            weights (o_subtotal x - o_discount_total x))))
        is_np_error (\<lambda>e. throw (CarrierUnavailableError (np_error_text e)))) (\<lambda>response.
      bindM (liftE (record_waybill response)) (\<lambda>f.
      bindM (writes (set_np (o_id x) f)) (\<lambda>_.
      bindM commit (\<lambda>_.
      bindM (notify_waybill env (o_email x) (o_number x) (f row)) (\<lambda>_.
      ret (f row))))))))))"

definition cancel_waybill :: "environment \<Rightarrow> bool \<Rightarrow> string \<Rightarrow> order_delivery_np act" where
  "cancel_waybill env redis number =
    bindM (readsE (lock_carrier_row number)) (\<lambda>(x, row).
    if \<not> truthy (np_awb_number row) then throw (WaybillMissingError number)
    else
      bindM (liftE (carrier_ready env redis)) (\<lambda>_.
      bindM (catchM (remote (svc_cancel_shipment env ''ro'' (str_or (np_awb_id row) (the (np_awb_number row)))))
        is_np_error (\<lambda>e. throw (CarrierUnavailableError (np_error_text e)))) (\<lambda>_.
      bindM (writes (set_np (o_id x) clear_waybill)) (\<lambda>_.
      bindM commit (\<lambda>_.
      ret (clear_waybill row))))))"

subsection \<open>Router\<close>

definition admin_list_endpoint ::
    "string option \<Rightarrow> string option \<Rightarrow> nat \<Rightarrow> nat \<Rightarrow> db \<Rightarrow> order_out list \<times> nat" where
  "admin_list_endpoint status query page page_size d =
    (case admin_list_orders status query page page_size d of (pairs, n_total) \<Rightarrow>
      (let carriers = get_novapost_map (map (\<lambda>p. o_id (fst p)) pairs) d in
       (map (\<lambda>(x, items). from_order x items (carriers (o_id x)) False) pairs, n_total)))"

definition admin_order_endpoint :: "string \<Rightarrow> db \<Rightarrow> exn + order_out" where
  "admin_order_endpoint number d =
    bindE (admin_get_order number d) (\<lambda>(x, items).
    Inr (from_order x items (get_novapost (o_id x) d) False))"

definition transition_order ::
    "environment \<Rightarrow> string \<Rightarrow> string option \<Rightarrow> string option \<Rightarrow> app_user \<Rightarrow> order_out act" where
  "transition_order env number to_status to_payment staff =
    bindM (admin_transition env True number to_status to_payment (''admin:'' @ int_str (u_id staff))) (\<lambda>(x, items).
    bindM (reads (get_novapost (o_id x))) (\<lambda>carrier.
    ret (from_order x items carrier False)))"

definition refund_order :: "environment \<Rightarrow> string \<Rightarrow> order_out act" where
  "refund_order env number =
    bindM (readsE (admin_get_order number)) (\<lambda>(x, _).
    bindM (catchM (refund env x None) is_maib_error
      (\<lambda>_. throw (HTTPException 502 (Some ''payment_gateway_error'')))) (\<lambda>_.
    readsE (admin_order_endpoint number)))"

definition waybill_view :: "string \<Rightarrow> order_delivery_np \<Rightarrow> order_out act" where
  "waybill_view number row =
    bindM (readsE (admin_get_order number)) (\<lambda>(x, items).
    ret (from_order x items (Some row) False))"

definition create_waybill_endpoint :: "environment \<Rightarrow> string \<Rightarrow> order_out act" where
  "create_waybill_endpoint env number = bindM (create_waybill env True number) (waybill_view number)"

definition cancel_waybill_endpoint :: "environment \<Rightarrow> string \<Rightarrow> order_out act" where
  "cancel_waybill_endpoint env number = bindM (cancel_waybill env True number) (waybill_view number)"

subsection \<open>The tracking sweep\<close>

definition NP_TERMINAL_STATUSES :: "string list" where
  "NP_TERMINAL_STATUSES = [''delivered'', ''returned'', ''lost'', ''cancelled'', ''canceled'']"

definition SYNC_BATCH :: nat where
  "SYNC_BATCH = 100"

definition is_terminal :: "string \<Rightarrow> bool" where
  "is_terminal st \<longleftrightarrow> lower (strip st) \<in> set NP_TERMINAL_STATUSES"

definition set_tracking :: "environment \<Rightarrow> string \<Rightarrow> string \<Rightarrow> order_delivery_np \<Rightarrow> order_delivery_np" where
  "set_tracking env code text r =
    r\<lparr>np_status_code := code, np_status_text := text, np_status_updated_at := Some (env_now env)\<rparr>"

definition sync_row :: "environment \<Rightarrow> (string \<rightharpoonup> string \<times> string) \<Rightarrow> order_delivery_np \<Rightarrow> nat act" where
  "sync_row env statuses row =
    (case statuses (str_or (np_awb_number row) []) of
      None \<Rightarrow> ret 0
    | Some (code, text) \<Rightarrow>
        if code = np_status_code row \<and> text = np_status_text row then ret 0
        else bindM (writes (set_np (np_order_id row) (set_tracking env code text))) (\<lambda>_. ret 1))"

definition sync_batch :: "environment \<Rightarrow> order_delivery_np list \<Rightarrow> nat act" where
  "sync_batch env batch =
    (let numbers = [n. r \<leftarrow> batch, Some n \<leftarrow> [np_awb_number r], n \<noteq> []] in
     bindM (catchM (bindM (remote (svc_tracking env ''ro'' numbers)) (\<lambda>m. ret (Some m)))
       is_np_error (\<lambda>_. ret None)) (\<lambda>answer.
     case answer of
       None \<Rightarrow> ret 0
     | Some statuses \<Rightarrow> bindM (mapM (sync_row env statuses) batch) (\<lambda>ns. ret (sum_list ns))))"

definition sync_statuses :: "environment \<Rightarrow> nat act" where
  "sync_statuses env =
    (if \<not> novapost_enabled (env_cfg env) then ret 0
     else
       bindM (reads (\<lambda>d. filter (\<lambda>r. np_awb_number r \<noteq> None) (t_np d))) (\<lambda>rows.
       let open_rows = filter (\<lambda>r. \<not> is_terminal (np_status_text r)) rows in
       if open_rows = [] then ret 0
       else
         bindM (mapM (sync_batch env) (batches SYNC_BATCH open_rows)) (\<lambda>ns.
         bindM commit (\<lambda>_.
         ret (sum_list ns)))))"

end
