(* ===== verification/Admin_Correct.thy ===== *)
theory Admin_Correct
  imports Admin_Orders
begin

text \<open>
  Properties of the back office: the search finds exactly the orders that contain the text, the
  pages partition the result, a waybill is bought at most once and never half recorded, and the
  tracking sweep touches nothing but the tracking columns.
\<close>

subsection \<open>Search and pages\<close>

definition plain :: "string \<Rightarrow> bool" where
  "plain q \<longleftrightarrow> CHR ''%'' \<notin> set q \<and> CHR ''_'' \<notin> set q \<and> CHR 0x5C \<notin> set q"

declare like.simps(2) [simp del]

lemma like_percent [simp]:
  "like (CHR ''%'' # p) [] \<longleftrightarrow> like p []"
  "like (CHR ''%'' # p) (x # t) \<longleftrightarrow> like p (x # t) \<or> like (CHR ''%'' # p) t"
  by (simp_all add: like.simps(2))

lemma like_char:
  "plain [c] \<Longrightarrow> like (c # p) s \<longleftrightarrow> (case s of [] \<Rightarrow> False | x # t \<Rightarrow> x = c \<and> like p t)"
  by (auto simp: like.simps(2) plain_def)

lemma plain_Cons: "plain (c # q) \<longleftrightarrow> plain [c] \<and> plain q"
  by (auto simp: plain_def)

lemma like_any [simp]: "like ''%'' s"
  by (induction s) simp_all

lemma like_prefix: "plain q \<Longrightarrow> like (q @ ''%'') s \<longleftrightarrow> (\<exists>v. s = q @ v)"
proof (induction q arbitrary: s)
  case (Cons c q)
  then have pl: "plain [c]" "plain q" by (simp_all add: plain_Cons [of c q])
  show ?case
  proof (cases s)
    case Nil
    with pl show ?thesis by (simp add: like_char)
  next
    case s: (Cons x t)
    have "like ((c # q) @ ''%'') s \<longleftrightarrow> x = c \<and> (\<exists>v. t = q @ v)"
      using Cons.IH [OF pl(2), of t] pl(1) s by (simp add: like_char)
    then show ?thesis using s by auto
  qed
qed simp

lemma like_contains: "plain q \<Longrightarrow> like (''%'' @ q @ ''%'') s \<longleftrightarrow> (\<exists>u v. s = u @ q @ v)"
proof (induction s)
  case Nil
  then show ?case using like_prefix [of q "[]"] by simp
next
  case (Cons x s)
  have "like (''%'' @ q @ ''%'') (x # s) \<longleftrightarrow> (\<exists>v. x # s = q @ v) \<or> (\<exists>u v. s = u @ q @ v)"
    using Cons.IH [OF Cons.prems] like_prefix [OF Cons.prems, of "x # s"] by simp
  also have "\<dots> \<longleftrightarrow> (\<exists>u v. x # s = u @ q @ v)"
  proof
    assume "(\<exists>v. x # s = q @ v) \<or> (\<exists>u v. s = u @ q @ v)"
    then show "\<exists>u v. x # s = u @ q @ v"
    proof
      assume "\<exists>v. x # s = q @ v"
      then obtain v where "x # s = [] @ q @ v" by auto
      then show ?thesis by blast
    next
      assume "\<exists>u v. s = u @ q @ v"
      then obtain u v where "s = u @ q @ v" by blast
      then show ?thesis by (intro exI [of _ "x # u"] exI [of _ v]) simp
    qed
  next
    assume "\<exists>u v. x # s = u @ q @ v"
    then obtain u v where uv: "x # s = u @ q @ v" by blast
    then show "(\<exists>v. x # s = q @ v) \<or> (\<exists>u v. s = u @ q @ v)"
      by (cases u) auto
  qed
  finally show ?case .
qed

lemma lower_append [simp]: "lower (s @ t) = lower s @ lower t"
  by (simp add: lower_def)

lemma ilike_contains:
  assumes "plain (lower q)"
  shows "ilike s (''%'' @ q @ ''%'') \<longleftrightarrow> (\<exists>u v. lower s = u @ lower q @ v)"
proof -
  have "lower (''%'' @ q @ ''%'') = ''%'' @ lower q @ ''%''"
    by (simp add: lower_def lower_char_def Let_def)
  then show ?thesis using like_contains [OF assms, of "lower s"] unfolding ilike_def by simp
qed

text \<open>Consecutive pages, of any positive size, make up the whole result in its order.\<close>

lemma pages_cover:
  "concat (map (\<lambda>k. take n (drop (k * n) xs)) [0..<m]) = take (m * n) xs"
proof (induction m)
  case (Suc m)
  have "take (m * n + n) xs = take (m * n) xs @ take n (drop (m * n) xs)" by (rule take_add)
  with Suc show ?case by (simp add: add.commute)
qed simp

definition matching :: "string option \<Rightarrow> string option \<Rightarrow> db \<Rightarrow> order list" where
  "matching status query d =
    sort_key (\<lambda>x. (- o_created_at x, - o_id x)) (filter (apply_filters status query) (t_order d))"

lemma admin_pages:
  "map fst (concat (map (\<lambda>k. fst (admin_list_orders status query (Suc k) n d)) [0..<m])) = take (m * n) (matching status query d)"
  "snd (admin_list_orders status query k n d) = length (matching status query d)"
proof -
  have "map fst (fst (admin_list_orders status query (Suc k) n d)) = take n (drop (k * n) (matching status query d))" for k
    by (simp add: admin_list_orders_def Let_def repo_list_orders_def matching_def comp_def)
  then have "map fst (concat (map (\<lambda>k. fst (admin_list_orders status query (Suc k) n d)) [0..<m]))
      = concat (map (\<lambda>k. take n (drop (k * n) (matching status query d))) [0..<m])"
    by (simp add: map_concat comp_def)
  then show "map fst (concat (map (\<lambda>k. fst (admin_list_orders status query (Suc k) n d)) [0..<m])) = take (m * n) (matching status query d)"
    by (simp add: pages_cover)
qed (simp add: admin_list_orders_def Let_def count_orders_def matching_def rowcount_def)

subsection \<open>Waybills\<close>

lemma lock_carrier_row_Inr:
  "lock_carrier_row number d = Inr (x, row) \<longleftrightarrow>
    get_order_by_number number d = Inr (Some x) \<and> get_novapost (o_id x) d = Some row"
  by (auto simp: lock_carrier_row_def bindE_def split: sum.splits option.splits)

lemma catch_remote_frame:
  assumes "catchM (remote m) is_np_error (\<lambda>e. throw (f e)) s = (r, s')"
  shows "\<exists>w. s' = s\<lparr>outside := w\<rparr>"
  using assms by (auto simp: catchM_def split: prod.splits sum.splits if_splits dest!: remote_step)

lemma notify_waybill_app:
  "notify_waybill env email number row s = (Inr (),
     if truthy (np_awb_number row) \<and> env_broker_up env
     then s\<lparr>outbox := outbox s @ [Waybill_Email email number (the (np_awb_number row)) (waybill_destination row)]\<rparr>
     else s)"
  by (simp add: notify_waybill_def)

text \<open>The outcomes of the creation: refused, failed with nothing recorded, or recorded and published.\<close>

lemma create_waybill_cases:
  assumes "create_waybill env redis number s = (r, s')"
  obtains (failed) e w where "r = Inl e" "s' = s\<lparr>outside := w\<rparr>"
  | (bought) x row f response w where "lock_carrier_row number (work s) = Inr (x, row)"
      "\<not> truthy (np_awb_number row)" "record_waybill response = Inr f" "r = Inr (f row)"
      "work s' = set_np (o_id x) f (work s)" "committed s' = work s'"
      "outbox s' = (if truthy (np_awb_number (f row)) \<and> env_broker_up env
         then outbox s @ [Waybill_Email (o_email x) (o_number x) (the (np_awb_number (f row))) (waybill_destination (f row))]
         else outbox s)"
      "outside s' = w"
proof -
  have same: "s = s\<lparr>outside := outside s\<rparr>" by simp
  show thesis
  proof (cases "lock_carrier_row number (work s)")
    case (Inl e)
    with assms have "r = Inl e" "s' = s" by (auto simp: create_waybill_def bindM_app)
    with same show thesis by (intro failed [of e "outside s"]) auto
  next
    case (Inr xr)
    obtain x row where xr: "xr = (x, row)" by fastforce
    show thesis
    proof (cases "truthy (np_awb_number row) \<or> (\<exists>e. carrier_ready env redis = Inl e)")
      case True
      then have "s' = s \<and> (\<exists>e. r = Inl e)"
        using assms Inr xr
        by (cases "truthy (np_awb_number row)") (auto simp: create_waybill_def bindM_app)
      with same show thesis by (elim conjE exE, intro failed [of _ "outside s"]) auto
    next
      case False
      then obtain u where ready: "carrier_ready env redis = Inr u" by (cases "carrier_ready env redis") auto
      let ?items = "the (list_items_for_orders [o_id x] (work s) (o_id x))"
      let ?call = "catchM
        (remote (svc_create_shipment env ''ro''
          (build_shipment (env_cfg env) (o_number x) (str_or (o_delivery_name x) []) (o_phone x) (o_email x)
            (o_delivery_type x) (np_division_id row) (np_settlement_id row) (np_address_parts row)
            (parcel_weights (env_cfg env) row ?items (work s)) (o_subtotal x - o_discount_total x))))
        is_np_error (\<lambda>e. throw (CarrierUnavailableError (np_error_text e)))"
      obtain q s1 where call: "?call s = (q, s1)" by fastforce
      obtain w where w: "s1 = s\<lparr>outside := w\<rparr>"
        using catch_remote_frame [where f = "\<lambda>e. CarrierUnavailableError (np_error_text e)", OF call] by (elim exE)
      have eq: "create_waybill env redis number s = bindM ?call (\<lambda>response.
          bindM (liftE (record_waybill response)) (\<lambda>f.
          bindM (writes (set_np (o_id x) f)) (\<lambda>_.
          bindM commit (\<lambda>_.
          bindM (notify_waybill env (o_email x) (o_number x) (f row)) (\<lambda>_.
          ret (f row)))))) s"
        using False Inr xr ready by (simp add: create_waybill_def bindM_app)
      show thesis
      proof (cases q)
        case (Inl e)
        with assms eq call have "r = Inl e" "s' = s1" by (auto simp: bindM_app)
        with w show thesis by (intro failed [of e w]) auto
      next
        case q: (Inr response)
        show thesis
        proof (cases "record_waybill response")
          case (Inl e)
          with assms eq call q have "r = Inl e" "s' = s1" by (auto simp: bindM_app)
          with w show thesis by (intro failed [of e w]) auto
        next
          case f: (Inr f)
          show thesis
            by (rule bought [of x row response f w])
              (use assms eq call q f w Inr xr False in \<open>auto simp: bindM_app notify_waybill_app\<close>)
        qed
      qed
    qed
  qed
qed

lemma get_novapost_set_np:
  "(\<And>r. np_order_id (f r) = np_order_id r) \<Longrightarrow> get_novapost oid (set_np oid f d) = map_option f (get_novapost oid d)"
proof -
  assume "\<And>r. np_order_id (f r) = np_order_id r"
  then have "find (\<lambda>r. np_order_id r = oid) (upd (\<lambda>r. np_order_id r = oid) f rows)
      = map_option f (find (\<lambda>r. np_order_id r = oid) rows)" for rows
    by (induction rows) auto
  then show ?thesis by (simp add: get_novapost_def set_np_def)
qed

lemma record_waybill_id: "record_waybill response = Inr f \<Longrightarrow> np_order_id (f r) = np_order_id r"
  by (auto simp: record_waybill_def bindE_Inr)

text \<open>After a purchase that gave a number, a second one is refused before anything is sent.\<close>

lemma waybill_once:
  assumes "create_waybill env redis number s = (Inr row', s1)" "truthy (np_awb_number row')"
  shows "create_waybill env' redis' number s1 = (Inl (WaybillExistsError number), s1)"
  using assms(1)
proof (cases rule: create_waybill_cases)
  case (bought x row f response w)
  have "get_order_by_number number (work s1) = Inr (Some x)" "get_novapost (o_id x) (work s1) = Some row'"
    using bought lock_carrier_row_Inr [of number "work s" x row]
    by (simp_all add: get_novapost_set_np record_waybill_id [OF bought(3)])
      (simp add: get_order_by_number_def set_np_def)
  then have "lock_carrier_row number (work s1) = Inr (x, row')" by (simp add: lock_carrier_row_Inr)
  with assms(2) show ?thesis by (simp add: create_waybill_def bindM_app)
qed simp

lemma waybill_failed:
  assumes "create_waybill env redis number s = (Inl e, s')"
  shows "work s' = work s" "committed s' = committed s" "outbox s' = outbox s"
  using assms by (cases rule: create_waybill_cases; simp)+

subsection \<open>The tracking sweep\<close>

text \<open>What a row keeps while it is tracked.\<close>

definition tracking_only :: "order_delivery_np \<Rightarrow> order_delivery_np \<Rightarrow> bool" where
  "tracking_only r r' \<longleftrightarrow> (\<exists>c t u. r' = r\<lparr>np_status_code := c, np_status_text := t, np_status_updated_at := u\<rparr>)"

lemma tracking_only_refl: "tracking_only r r"
  unfolding tracking_only_def
  by (rule exI [of _ "np_status_code r"], rule exI [of _ "np_status_text r"], rule exI [of _ "np_status_updated_at r"]) simp

lemma tracking_only_set: "tracking_only r0 r \<Longrightarrow> tracking_only r0 (set_tracking env c t r)"
  unfolding tracking_only_def set_tracking_def
  by (elim exE, rule exI [of _ c], rule exI [of _ t], rule exI [of _ "Some (env_now env)"]) simp

definition swept :: "db \<Rightarrow> db \<Rightarrow> bool" where
  "swept d d' \<longleftrightarrow> (\<exists>rows. d' = d\<lparr>t_np := rows\<rparr> \<and> list_all2 tracking_only (t_np d) rows)"

lemma swept_refl: "swept d d"
  unfolding swept_def by (rule exI [of _ "t_np d"]) (simp add: list_all2_refl tracking_only_refl)

lemma swept_set: "swept d d' \<Longrightarrow> swept d (set_np oid (set_tracking env c t) d')"
  unfolding swept_def set_np_def
  by (auto simp: upd_def list_all2_conv_all_nth tracking_only_set)

definition sweeping :: "session \<Rightarrow> session \<Rightarrow> bool" where
  "sweeping s t \<longleftrightarrow> swept (work s) (work t) \<and> (committed t = committed s \<or> swept (work s) (committed t)) \<and> outbox t = outbox s"

lemma sync_sweeping: "preserves (sweeping s) (sync_statuses env)"
proof -
  have w: "preserves (sweeping s) (writes (set_np oid (set_tracking env c t)))" for oid c t
    by (rule preserves_writes) (auto simp: sweeping_def swept_set)
  have cm: "preserves (sweeping s) commit"
    by (rule preserves_commit) (auto simp: sweeping_def)
  have rm: "preserves (sweeping s) (remote m)" for m :: "'a net"
    by (rule preservesI, drule remote_step) (auto simp: sweeping_def)
  have row: "preserves (sweeping s) (sync_row env st r)" for st r
    unfolding sync_row_def by (intro pres w)
  have batch: "preserves (sweeping s) (sync_batch env b)" for b
    unfolding sync_batch_def by (intro pres rm row)
  show ?thesis
    unfolding sync_statuses_def by (intro pres batch cm)
qed

text \<open>A carrier outage never fails the sweep.\<close>

lemma sync_raises: "raises_only py_exn (sync_statuses env)"
proof -
  have rem: "raises_only carrier_exn (remote (svc_tracking env ''ro'' ns))" for ns
    using svc_raises(6) [of env "''ro''" ns] by (auto simp: raises_only_def remote_app split: prod.splits)
  have raw: "raises_only carrier_exn (bindM (remote (svc_tracking env ''ro'' ns)) (\<lambda>m. ret (Some m)))" for ns
    by (intro raises rem)
  have call: "raises_only py_exn (catchM (bindM (remote (svc_tracking env ''ro'' ns)) (\<lambda>m. ret (Some m)))
       is_np_error (\<lambda>_. ret None))" for ns
    by (rule raises_catchM [OF raw]) (auto intro: raises simp: carrier_exn_def py_exn_def)
  have w: "raises_only py_exn (writes g)" "raises_only py_exn (reads h)" "raises_only py_exn commit" for g and h :: "db \<Rightarrow> 'a"
    by (simp_all add: raises_only_def)
  have mp: "raises_only P (mapM f xs)" if "\<And>x. raises_only P (f x)" for P and f :: "'b \<Rightarrow> 'c act" and xs
    by (induction xs) (simp_all only: mapM.simps, (intro raises that, assumption?)+)
  have row: "raises_only py_exn (sync_row env st r)" for st r
    unfolding sync_row_def by (cases "st (str_or (np_awb_number r) [])") (auto intro!: raises w)
  have batch: "raises_only py_exn (sync_batch env b)" for b
    unfolding sync_batch_def by (intro raises call mp row)
  show ?thesis
    unfolding sync_statuses_def by (intro raises mp batch w)
qed

end
