(* ===== verification/Checkout.thy ===== *)
theory Checkout
  imports Order_Views
begin

text \<open>
  \<open>CheckoutService\<close> (\<open>app/services/checkout\_service.py\<close>) and its router
  (\<open>app/api/routers/checkout.py\<close>): the quote, the atomic creation of an order from a cart, and
  the one-click purchase. \<open>redis\<close> tells whether the service was built with a Redis client.
\<close>

definition PICKUP :: string where
  "PICKUP = ''pickup''"

definition OWN :: string where
  "OWN = ''own''"

definition NOVAPOST :: string where
  "NOVAPOST = ''novapost''"

definition VALID_METHODS :: "(string \<times> string) list" where
  "VALID_METHODS = [(OWN, PICKUP), (OWN, COURIER), (NOVAPOST, BRANCH), (NOVAPOST, POSTOMAT), (NOVAPOST, COURIER)]"

definition CARD :: string where
  "CARD = ''card''"

subsection \<open>Request bodies\<close>

record delivery_address_in =
  dai_full_name :: string
  dai_city :: string
  dai_street :: string
  dai_zip :: "string option"

record np_address_in =
  nai_city :: string
  nai_street :: string
  nai_building :: string
  nai_postCode :: string
  nai_flat :: "string option"
  nai_block :: "string option"
  nai_note :: "string option"

text \<open>\<open>model\_dump(exclude\_none=True)\<close>\<close>

definition np_address_dump :: "np_address_in \<Rightarrow> json" where
  "np_address_dump a = JObj ([(''city'', JStr (nai_city a)), (''street'', JStr (nai_street a)),
     (''building'', JStr (nai_building a)), (''postCode'', JStr (nai_postCode a))] @
     concat (map (\<lambda>(k, v). case v of None \<Rightarrow> [] | Some t \<Rightarrow> [(k, JStr t)])
       [(''flat'', nai_flat a), (''block'', nai_block a), (''note'', nai_note a)]))"

text \<open>The delivery fields shared by the quote and the checkout request.\<close>

record delivery_request =
  dr_service :: string
  dr_type :: string
  dr_address_id :: "int option"
  dr_address :: "delivery_address_in option"
  dr_settlement_id :: "string option"
  dr_division_id :: "string option"
  dr_np_address :: "np_address_in option"
  dr_np_recipient_name :: "string option"

record quote_out =
  qo_subtotal :: money
  qo_discount_total :: money
  qo_delivery_cost :: money
  qo_total :: money
  qo_delivery_type :: string
  qo_delivery_service :: string
  qo_item_count :: int

subsection \<open>The delivery choice\<close>

record delivery_choice =
  dc_service :: string
  dc_type :: string
  dc_address_id :: "int option"
  dc_address :: "delivery_address_in option"
  dc_settlement_id :: "string option"
  dc_division_id :: "string option"
  dc_np_address :: "np_address_in option"
  dc_np_recipient_name :: "string option"

definition new_choice :: "delivery_request \<Rightarrow> delivery_choice" where
  "new_choice r = \<lparr>dc_service = dr_service r, dc_type = dr_type r, dc_address_id = dr_address_id r,
     dc_address = dr_address r, dc_settlement_id = dr_settlement_id r,
     dc_division_id = dr_division_id r, dc_np_address = dr_np_address r,
     dc_np_recipient_name =
       (let n = strip (str_or (dr_np_recipient_name r) []) in if n = [] then None else Some n)\<rparr>"

definition is_carrier :: "delivery_choice \<Rightarrow> bool" where
  "is_carrier c \<longleftrightarrow> dc_service c = NOVAPOST"

definition validate_choice :: "settings \<Rightarrow> delivery_choice \<Rightarrow> exn + unit" where
  "validate_choice cfg c =
    (if (dc_service c, dc_type c) \<notin> set VALID_METHODS
     then Inl (InvalidDeliveryMethodError (dc_service c) (dc_type c))
     else if \<not> is_carrier c then Inr ()
     else if \<not> novapost_enabled cfg then Inl CarrierDisabledError
     else if dc_type c \<in> {BRANCH, POSTOMAT} \<and> \<not> truthy (dc_division_id c)
     then Inl CarrierDestinationRequiredError
     else if dc_type c = COURIER \<and> \<not> (truthy (dc_settlement_id c) \<and> dc_np_address c \<noteq> None)
     then Inl CarrierDestinationRequiredError
     else if \<not> truthy (dc_np_recipient_name c) then Inl CarrierRecipientRequiredError
     else Inr ())"

subsection \<open>Priced lines\<close>

record priced_line =
  pl_product_id :: int
  pl_variant_id :: "int option"
  pl_name :: string
  pl_price :: money
  pl_qty :: int
  pl_weight_g :: int

definition new_priced_line ::
    "settings \<Rightarrow> int \<Rightarrow> string \<Rightarrow> money \<Rightarrow> int \<Rightarrow> int option \<Rightarrow> int option \<Rightarrow> priced_line" where
  "new_priced_line cfg pid name price qty vid weight = \<lparr>pl_product_id = pid, pl_variant_id = vid,
     pl_name = name, pl_price = price, pl_qty = qty,
     pl_weight_g = int_or weight (parcel_default_item_weight_g cfg)\<rparr>"

definition line_total :: "priced_line \<Rightarrow> money" where
  "line_total l = pl_price l * of_int (pl_qty l)"

definition labelled :: "string \<Rightarrow> string option \<Rightarrow> string" where
  "labelled base label = (if truthy label then base @ '' ('' @ the label @ '')'' else base)"

text \<open>
  One turn of the loop of \<open>\_load\_cart\_lines\<close>: a line is skipped (\<open>None\<close>), refused, or priced.
\<close>

definition price_line ::
    "settings \<Rightarrow> (int \<rightharpoonup> variant) \<Rightarrow> (int \<rightharpoonup> string) \<Rightarrow> cart_item \<times> product \<times> string option
      \<Rightarrow> exn + priced_line option" where
  "price_line cfg variants labels row =
    (case row of (l, p, name) \<Rightarrow>
      if \<not> p_is_active p then Inr None
      else
        let v = lookup_variant variants (ci_variant_id l) in
        if ci_variant_id l \<noteq> None \<and> (case v of None \<Rightarrow> True | Some x \<Rightarrow> \<not> v_is_active x) then Inr None
        else
          let unit_price = (case v of None \<Rightarrow> p_price p | Some x \<Rightarrow> v_price x);
              available = (case v of None \<Rightarrow> p_qty p | Some x \<Rightarrow> v_qty x) in
          if ci_qty l > available then Inl (OutOfStockError (p_id p))
          else
            let base_name = (case name of None \<Rightarrow> p_code p | Some n \<Rightarrow> n);
                label = lookup_variant labels (ci_variant_id l);
                weight = (case v of
                    Some x \<Rightarrow> (case v_weight_g x of Some w \<Rightarrow> Some w | None \<Rightarrow> p_weight_g p)
                  | None \<Rightarrow> p_weight_g p) in
            Inr (Some (new_priced_line cfg (p_id p) (labelled base_name label) unit_price (ci_qty l)
              (ci_variant_id l) weight)))"

fun price_lines ::
    "settings \<Rightarrow> (int \<rightharpoonup> variant) \<Rightarrow> (int \<rightharpoonup> string) \<Rightarrow> (cart_item \<times> product \<times> string option) list
      \<Rightarrow> exn + priced_line list" where
  "price_lines cfg variants labels [] = Inr []"
| "price_lines cfg variants labels (row # rows) =
    bindE (price_line cfg variants labels row) (\<lambda>o1.
    bindE (price_lines cfg variants labels rows) (\<lambda>rest.
    Inr (case o1 of None \<Rightarrow> rest | Some x \<Rightarrow> x # rest)))"

definition load_cart_lines ::
    "settings \<Rightarrow> int option \<Rightarrow> uuid option \<Rightarrow> string option \<Rightarrow> db \<Rightarrow> exn + cart \<times> priced_line list" where
  "load_cart_lines cfg uid tok lang d =
    bindE (get_active_cart uid tok d) (\<lambda>found.
    case found of
      None \<Rightarrow> Inl EmptyCartError
    | Some c \<Rightarrow>
        let norm_lang = normalize_lang lang;
            rows = list_cart_lines (c_id c) norm_lang d;
            variant_ids = variant_ids_of rows in
        bindE (price_lines cfg (get_variants_by_ids variant_ids d)
          (get_variant_option_labels variant_ids norm_lang d) rows) (\<lambda>priced.
        if priced = [] then Inl EmptyCartError else Inr (c, priced)))"

subsection \<open>The address\<close>

type_synonym snapshot = "string option \<times> string option \<times> string option \<times> string option"

definition EMPTY_SNAPSHOT :: snapshot where
  "EMPTY_SNAPSHOT = (None, None, None, None)"

definition get_address :: "int \<Rightarrow> int \<Rightarrow> db \<Rightarrow> exn + address option" where
  "get_address uid aid d =
    scalar_one_or_none (filter (\<lambda>a. a_id a = aid \<and> a_user_id a = uid) (t_address d))"

definition load_owned_address :: "int option \<Rightarrow> int \<Rightarrow> db \<Rightarrow> exn + address" where
  "load_owned_address uid aid d =
    (case uid of
      None \<Rightarrow> Inl DeliveryAddressForbiddenError
    | Some u \<Rightarrow>
        bindE (get_address u aid d) (\<lambda>found.
        case found of None \<Rightarrow> Inl DeliveryAddressForbiddenError | Some a \<Rightarrow> Inr a))"

definition resolve_delivery_snapshot ::
    "int option \<Rightarrow> string \<Rightarrow> int option \<Rightarrow> delivery_address_in option \<Rightarrow> db \<Rightarrow> exn + snapshot" where
  "resolve_delivery_snapshot uid ty aid addr d =
    (case (if ty = PICKUP then None else aid) of
      None \<Rightarrow>
        (case addr of
          Some a \<Rightarrow> Inr (Some (dai_full_name a), Some (dai_city a), Some (dai_street a), dai_zip a)
        | None \<Rightarrow> Inr EMPTY_SNAPSHOT)
    | Some i \<Rightarrow>
        bindE (load_owned_address uid i d) (\<lambda>a.
        Inr (Some (a_full_name a), Some (a_city a), Some (a_street a), a_zip a)))"

subsection \<open>Totals\<close>

definition lines_subtotal :: "priced_line list \<Rightarrow> money" where
  "lines_subtotal lines = sum_list (map line_total lines)"

definition resolve_discount :: "environment \<Rightarrow> priced_line list \<Rightarrow> string option \<Rightarrow> bool \<Rightarrow> money act" where
  "resolve_discount env lines promo lock =
    (if \<not> truthy promo then ret 0
     else
       bindM (validate_and_compute env (the promo) (lines_subtotal lines) lock) (\<lambda>(p, discount).
       ret discount))"

definition free_delivery_threshold :: "settings \<Rightarrow> delivery_choice \<Rightarrow> money option" where
  "free_delivery_threshold cfg c =
    (if is_carrier c \<and> novapost_free_delivery_from cfg \<noteq> None then novapost_free_delivery_from cfg
     else free_delivery_from cfg)"

definition reaches :: "money \<Rightarrow> money option \<Rightarrow> bool" where
  "reaches payable threshold \<longleftrightarrow> (case threshold of None \<Rightarrow> False | Some t \<Rightarrow> payable \<ge> t)"

definition delivery_cost :: "settings \<Rightarrow> money \<Rightarrow> string \<Rightarrow> bool \<Rightarrow> exn + money" where
  "delivery_cost cfg payable ty has_address =
    (if ty = PICKUP then Inr 0
     else if \<not> has_address then Inl DeliveryAddressRequiredError
     else if reaches payable (free_delivery_from cfg) then Inr 0
     else Inr (courier_rate cfg))"

definition carrier_cost :: "environment \<Rightarrow> bool \<Rightarrow> priced_line list \<Rightarrow> delivery_choice \<Rightarrow> money act" where
  "carrier_cost env redis lines c =
    (if \<not> redis then throw DeliveryQuoteUnavailableError
     else
       catchM
         (remote (svc_quote env ''ro'' (dc_type c) (map (\<lambda>l. pl_weight_g l * pl_qty l) lines)
            (dc_division_id c) (dc_settlement_id c) (map_option np_address_dump (dc_np_address c))))
         is_np_error (\<lambda>_. throw DeliveryQuoteUnavailableError))"

definition quote_from_lines ::
    "environment \<Rightarrow> bool \<Rightarrow> priced_line list \<Rightarrow> delivery_choice \<Rightarrow> money \<Rightarrow> quote_out act" where
  "quote_from_lines env redis lines c discount =
    (let cfg = env_cfg env;
         subtotal = lines_subtotal lines;
         payable = max (subtotal - discount) 0 in
     bindM
       (if is_carrier c
        then (if reaches payable (free_delivery_threshold cfg c) then ret 0
              else carrier_cost env redis lines c)
        else liftE (delivery_cost cfg payable (dc_type c)
               (dc_address_id c \<noteq> None \<or> dc_address c \<noteq> None)))
       (\<lambda>cost.
     ret \<lparr>qo_subtotal = subtotal, qo_discount_total = discount, qo_delivery_cost = cost,
          qo_total = subtotal - discount + cost, qo_delivery_type = dc_type c,
          qo_delivery_service = dc_service c, qo_item_count = sum_list (map pl_qty lines)\<rparr>))"

definition carrier_snapshot :: "environment \<Rightarrow> bool \<Rightarrow> delivery_choice \<Rightarrow> np_snapshot act" where
  "carrier_snapshot env redis c =
    (let blank = \<lparr>sn_settlement_id = dc_settlement_id c, sn_settlement_name = [],
           sn_settlement_name_ru = [], sn_division_id = dc_division_id c, sn_division_number = [],
           sn_division_address = []\<rparr> in
     if \<not> redis then ret blank
     else
       catchM (remote (svc_snapshot env ''ro'' (dc_type c) (dc_division_id c) (dc_settlement_id c)))
         is_np_error (\<lambda>_. ret blank))"


subsection \<open>Quote\<close>

definition quote ::
    "environment \<Rightarrow> bool \<Rightarrow> int option \<Rightarrow> uuid option \<Rightarrow> delivery_request \<Rightarrow> string option
      \<Rightarrow> string option \<Rightarrow> quote_out act" where
  "quote env redis uid tok dr promo lang =
    (let c = new_choice dr in
     bindM (liftE (validate_choice (env_cfg env) c)) (\<lambda>_.
     bindM (readsE (load_cart_lines (env_cfg env) uid tok lang)) (\<lambda>(_, lines).
     bindM (if is_carrier c then ret EMPTY_SNAPSHOT
            else readsE (resolve_delivery_snapshot uid (dr_type dr) (dr_address_id dr) (dr_address dr))) (\<lambda>_.
     bindM (resolve_discount env lines promo False) (\<lambda>discount.
     quote_from_lines env redis lines c discount)))))"

subsection \<open>The confirmation\<close>

definition delivery_line :: "delivery_choice option \<Rightarrow> snapshot \<Rightarrow> np_snapshot option \<Rightarrow> string" where
  "delivery_line choice snap np =
    (case choice of
      None \<Rightarrow> ''Pickup from the store''
    | Some c \<Rightarrow>
        if dc_type c = PICKUP \<and> \<not> is_carrier c then ''Pickup from the store''
        else if \<not> is_carrier c then
          (case snap of (name, city, street, zip_code) \<Rightarrow>
            let place = join '', '' (map the (filter truthy [street, city])) in
            if place \<noteq> [] then ''Courier delivery to '' @ place else ''Courier delivery'')
        else
          let city = (case np of None \<Rightarrow> [] | Some n \<Rightarrow> sn_settlement_name n) in
          if dc_type c = COURIER then
            (let place = (case dc_np_address c of
                 None \<Rightarrow> []
               | Some a \<Rightarrow> join '', '' (filter (\<lambda>part. strip part \<noteq> [])
                   [strip (nai_street a @ '' '' @ nai_building a), nai_city a])) in
             if place \<noteq> [] then ''Nova Post courier to '' @ place else ''Nova Post courier'')
          else
            (let label = (if dc_type c = POSTOMAT then ''postomat'' else ''branch'');
                 number = (case np of None \<Rightarrow> [] | Some n \<Rightarrow> sn_division_number n);
                 point = join '', '' (filter (\<lambda>part. part \<noteq> [])
                   [if number \<noteq> [] then label @ '' #'' @ number else label,
                    (case np of None \<Rightarrow> [] | Some n \<Rightarrow> sn_division_address n), city]) in
             ''Nova Post '' @ point))"

definition send_confirmation :: "environment \<Rightarrow> string \<Rightarrow> string \<Rightarrow> money \<Rightarrow> string \<Rightarrow> unit act" where
  "send_confirmation env number email grand_total delivery =
    enqueue env (Order_Confirm_Email email number delivery grand_total)"

definition placeholder_email :: "string \<Rightarrow> string" where
  "placeholder_email phone =
    (let digits = filter isdigit phone in (if digits = [] then ''0'' else digits) @ ''@quick.evix.md'')"

subsection \<open>Persistence\<close>

definition carrier_row ::
    "int \<Rightarrow> delivery_choice \<Rightarrow> quote_out \<Rightarrow> priced_line list \<Rightarrow> np_snapshot option \<Rightarrow> order_delivery_np" where
  "carrier_row oid c totals lines np = \<lparr>
     np_order_id = oid,
     np_settlement_id = (case np of None \<Rightarrow> None | Some n \<Rightarrow> sn_settlement_id n),
     np_settlement_name = (case np of None \<Rightarrow> [] | Some n \<Rightarrow> sn_settlement_name n),
     np_settlement_name_ru = (case np of None \<Rightarrow> [] | Some n \<Rightarrow> sn_settlement_name_ru n),
     np_division_id = (case np of None \<Rightarrow> None | Some n \<Rightarrow> sn_division_id n),
     np_division_number = (case np of None \<Rightarrow> [] | Some n \<Rightarrow> sn_division_number n),
     np_division_address = (case np of None \<Rightarrow> [] | Some n \<Rightarrow> sn_division_address n),
     np_address_parts = map_option np_address_dump (dc_np_address c),
     np_calculated_cost = (if qo_delivery_cost totals > 0 then Some (qo_delivery_cost totals) else None),
     np_parcel_weight_g = Some (sum_list (map (\<lambda>l. pl_weight_g l * pl_qty l) lines)),
     np_awb_id = None, np_awb_number = None, np_awb_data = None,
     np_status_code = [], np_status_text = [], np_status_updated_at = None\<rparr>"

definition add_carrier_row ::
    "int \<Rightarrow> delivery_choice option \<Rightarrow> quote_out \<Rightarrow> priced_line list \<Rightarrow> np_snapshot option
      \<Rightarrow> order_delivery_np option act" where
  "add_carrier_row oid choice totals lines np =
    (case choice of
      Some c \<Rightarrow>
        if is_carrier c then
          (let r = carrier_row oid c totals lines np in
           bindM (writes (\<lambda>d. d\<lparr>t_np := t_np d @ [r]\<rparr>)) (\<lambda>_. ret (Some r)))
        else ret None
    | None \<Rightarrow> ret None)"

definition decrement_line :: "priced_line \<Rightarrow> unit act" where
  "decrement_line l =
    bindM (decrement_stock (Some (pl_product_id l)) (pl_qty l) (pl_variant_id l)) (\<lambda>decremented.
    if decremented then ret ()
    else bindM rollback (\<lambda>_. throw (OutOfStockError (pl_product_id l))))"

text \<open>
  \<open>\_persist\_order\<close>. Its keyword arguments \<open>promo\_code\<close>, \<open>cart\_id\<close>, \<open>choice\<close> and \<open>np\_snapshot\<close> may
  be \<open>None\<close>.
\<close>

record persist_args =
  pa_lines :: "priced_line list"
  pa_user_id :: "int option"
  pa_email :: string
  pa_phone :: string
  pa_totals :: quote_out
  pa_delivery_type :: string
  pa_delivery_address_id :: "int option"
  pa_snapshot :: snapshot
  pa_promo_code :: "string option"
  pa_cart_id :: "int option"
  pa_payment_method :: string
  pa_choice :: "delivery_choice option"
  pa_np_snapshot :: "np_snapshot option"

definition persist_order_args :: "persist_args \<Rightarrow> string \<Rightarrow> order_args" where
  "persist_order_args a number =
    (case pa_snapshot a of (snap_name, snap_city, snap_street, snap_zip) \<Rightarrow>
     \<lparr>oa_number = number, oa_user_id = pa_user_id a, oa_email = pa_email a, oa_phone = pa_phone a,
      oa_subtotal = qo_subtotal (pa_totals a), oa_discount_total = qo_discount_total (pa_totals a),
      oa_delivery_cost = qo_delivery_cost (pa_totals a), oa_total = qo_total (pa_totals a),
      oa_delivery_type = pa_delivery_type a, oa_delivery_address_id = pa_delivery_address_id a,
      oa_delivery_service = (case pa_choice a of None \<Rightarrow> OWN | Some c \<Rightarrow> dc_service c),
      oa_delivery_name = snap_name, oa_delivery_city = snap_city, oa_delivery_street = snap_street,
      oa_delivery_zip = snap_zip, oa_promo_code = pa_promo_code a,
      oa_payment_method = pa_payment_method a\<rparr>)"

definition persist_order :: "environment \<Rightarrow> persist_args \<Rightarrow> order_out act" where
  "persist_order env a =
    bindM (next_order_number env) (\<lambda>number.
    bindM (add_order env (persist_order_args a number)) (\<lambda>x.
    bindM (add_carrier_row (o_id x) (pa_choice a) (pa_totals a) (pa_lines a) (pa_np_snapshot a)) (\<lambda>carrier.
    bindM (mapM (\<lambda>l. add_order_item (o_id x) (Some (pl_product_id l)) (pl_name l) (pl_price l)
      (pl_qty l) (pl_variant_id l)) (pa_lines a)) (\<lambda>items.
    bindM (case pa_cart_id a of None \<Rightarrow> ret () | Some cid \<Rightarrow> mark_cart_converted cid) (\<lambda>_.
    bindM (add_status_history env (o_id x) [] ''new'' ''system'') (\<lambda>_.
    bindM (add_status_history env (o_id x) [] ''pending'' ''system'') (\<lambda>_.
    bindM (forEach (pa_lines a) decrement_line) (\<lambda>_.
    bindM commit (\<lambda>_.
    bindM (send_confirmation env (o_number x) (pa_email a) (o_total x)
      (delivery_line (pa_choice a) (pa_snapshot a) (pa_np_snapshot a))) (\<lambda>_.
    ret (from_order x items carrier False)))))))))))"

subsection \<open>Checkout\<close>

definition checkout_card_payment :: "environment \<Rightarrow> string \<Rightarrow> string option \<Rightarrow> string act" where
  "checkout_card_payment env number client_ip =
    bindM (readsE (get_order_by_number number)) (\<lambda>found.
    case found of
      Some x \<Rightarrow> initiate_card_payment env x (str_or client_ip ''0.0.0.0'') NAME_LANG
    | None \<Rightarrow>
        if \<not> card_payment_enabled (env_cfg env) then throw CardPaymentDisabledError
        else throw (PyError ''AttributeError''))"

record checkout_args =
  ca_user_id :: "int option"
  ca_session_token :: "uuid option"
  ca_email :: string
  ca_phone :: string
  ca_delivery :: delivery_request
  ca_promo_code :: "string option"
  ca_payment_method :: string
  ca_client_ip :: "string option"
  ca_lang :: "string option"

text \<open>The destination of \<open>checkout\<close>: its snapshots and the address id stored on the order.\<close>

definition resolve_destination ::
    "environment \<Rightarrow> bool \<Rightarrow> int option \<Rightarrow> delivery_request \<Rightarrow> delivery_choice
      \<Rightarrow> (snapshot \<times> int option \<times> np_snapshot option) act" where
  "resolve_destination env redis uid dr c =
    (if is_carrier c then
       bindM (carrier_snapshot env redis c) (\<lambda>np.
       ret ((dc_np_recipient_name c, None, None, None), None, Some np))
     else
       bindM (readsE (resolve_delivery_snapshot uid (dr_type dr) (dr_address_id dr) (dr_address dr))) (\<lambda>snap.
       ret (snap, dr_address_id dr, None)))"

definition checkout :: "environment \<Rightarrow> bool \<Rightarrow> checkout_args \<Rightarrow> order_out act" where
  "checkout env redis a =
    bindM (readsE (load_cart_lines (env_cfg env) (ca_user_id a) (ca_session_token a) (ca_lang a))) (\<lambda>(c, lines).
    let choice = new_choice (ca_delivery a) in
    bindM (liftE (validate_choice (env_cfg env) choice)) (\<lambda>_.
    bindM (resolve_destination env redis (ca_user_id a) (ca_delivery a) choice) (\<lambda>(snap, address_id, np).
    bindM (resolve_discount env lines (ca_promo_code a) True) (\<lambda>discount.
    bindM (quote_from_lines env redis lines choice discount) (\<lambda>totals.
    bindM (persist_order env \<lparr>
        pa_lines = lines, pa_user_id = ca_user_id a, pa_email = ca_email a, pa_phone = ca_phone a,
        pa_totals = totals, pa_delivery_type = dr_type (ca_delivery a),
        pa_delivery_address_id = address_id, pa_snapshot = snap,
        pa_promo_code = (if discount > 0 then ca_promo_code a else None),
        pa_cart_id = Some (c_id c), pa_payment_method = ca_payment_method a,
        pa_choice = Some choice, pa_np_snapshot = np\<rparr>) (\<lambda>out.
    if ca_payment_method a = CARD then
      bindM (checkout_card_payment env (oo_number out) (ca_client_ip a)) (\<lambda>u.
      ret (out\<lparr>oo_pay_url := Some u\<rparr>))
    else ret out))))))"

subsection \<open>One-click purchase\<close>

record quick_buy_args =
  qb_product_id :: int
  qb_phone :: string
  qb_name :: "string option"
  qb_email :: "string option"
  qb_qty :: int
  qb_lang :: "string option"
  qb_variant_id :: "int option"

definition pickup_request :: delivery_request where
  "pickup_request = \<lparr>dr_service = OWN, dr_type = PICKUP, dr_address_id = None, dr_address = None,
     dr_settlement_id = None, dr_division_id = None, dr_np_address = None, dr_np_recipient_name = None\<rparr>"

text \<open>The variant of the request: required for a variable product, refused for a simple one.\<close>

definition quick_variant :: "product \<Rightarrow> int \<Rightarrow> int option \<Rightarrow> db \<Rightarrow> exn + variant option" where
  "quick_variant p pid vid d =
    (if p_has_variants p then
       (case vid of
         None \<Rightarrow> Inl (ProductNotFoundError pid)
       | Some i \<Rightarrow>
           (case get_variant i d of
             None \<Rightarrow> Inl (ProductNotFoundError pid)
           | Some v \<Rightarrow>
               if v_product_id v \<noteq> p_id p \<or> \<not> v_is_active v then Inl (ProductNotFoundError pid)
               else Inr (Some v)))
     else if vid \<noteq> None then Inl (ProductNotFoundError pid)
     else Inr None)"

definition quick_line :: "settings \<Rightarrow> quick_buy_args \<Rightarrow> db \<Rightarrow> exn + priced_line" where
  "quick_line cfg a d =
    (let norm_lang = normalize_lang (qb_lang a) in
     case get_product_with_name (qb_product_id a) norm_lang d of
       None \<Rightarrow> Inl (ProductNotFoundError (qb_product_id a))
     | Some (p, name) \<Rightarrow>
         bindE (quick_variant p (qb_product_id a) (qb_variant_id a) d) (\<lambda>v.
         if qb_qty a > (case v of Some x \<Rightarrow> v_qty x | None \<Rightarrow> p_qty p) then Inl (OutOfStockError (p_id p))
         else
           let base_name = (case name of Some n \<Rightarrow> n | None \<Rightarrow> p_code p);
               label = (case v of None \<Rightarrow> None
                 | Some x \<Rightarrow> get_variant_option_labels [v_id x] norm_lang d (v_id x)) in
           Inr (new_priced_line cfg (p_id p) (labelled base_name label)
             (case v of Some x \<Rightarrow> v_price x | None \<Rightarrow> p_price p) (qb_qty a) (map_option v_id v) None)))"

definition quick_buy :: "environment \<Rightarrow> quick_buy_args \<Rightarrow> order_out act" where
  "quick_buy env a =
    bindM (readsE (quick_line (env_cfg env) a)) (\<lambda>l.
    bindM (quote_from_lines env False [l] (new_choice pickup_request) 0) (\<lambda>totals.
    persist_order env \<lparr>
      pa_lines = [l], pa_user_id = None,
      pa_email = str_or (qb_email a) (placeholder_email (qb_phone a)), pa_phone = qb_phone a,
      pa_totals = totals, pa_delivery_type = PICKUP, pa_delivery_address_id = None,
      pa_snapshot = (qb_name a, None, None, None), pa_promo_code = None, pa_cart_id = None,
      pa_payment_method = ''cod'', pa_choice = None, pa_np_snapshot = None\<rparr>))"

subsection \<open>Router\<close>

definition PAYMENT_METHODS :: "string list" where
  "PAYMENT_METHODS = [''cod'', ''card'']"

definition validate_payment_method :: "settings \<Rightarrow> string \<Rightarrow> exn + unit" where
  "validate_payment_method cfg m =
    (if m \<notin> set PAYMENT_METHODS then Inl (HTTPException 422 (Some ''invalid_payment_method''))
     else if m = CARD \<and> \<not> card_payment_enabled cfg
     then Inl (HTTPException 400 (Some ''card_payment_disabled''))
     else Inr ())"

definition client_ip :: "string option \<Rightarrow> string option \<Rightarrow> string option" where
  "client_ip forwarded peer =
    (if truthy forwarded then Some (strip (before CHR '','' (the forwarded))) else peer)"

definition caller_identity :: "app_user option \<Rightarrow> uuid option \<Rightarrow> int option \<times> uuid option" where
  "caller_identity user cookie =
    (case user of Some u \<Rightarrow> (Some (u_id u), None) | None \<Rightarrow> (None, cookie))"

text \<open>\<open>POST /checkout\<close>: a card-gateway failure after the order was created is answered with 502.\<close>

definition checkout_endpoint :: "environment \<Rightarrow> checkout_args \<Rightarrow> (envelope + order_out) act" where
  "checkout_endpoint env a =
    bindM (liftE (validate_payment_method (env_cfg env) (ca_payment_method a))) (\<lambda>_.
    catchM (bindM (checkout env True a) (\<lambda>out. ret (Inr out))) is_maib_error
      (\<lambda>_. ret (Inl (error_response 502 ''payment_gateway_error'' None))))"

end
