(* ===== verification/Checkout_Correct.thy ===== *)
theory Checkout_Correct
  imports Checkout
begin

text \<open>
  What checkout guarantees. First the pieces: reading the cart and asking the carrier leave the
  tables alone; the stock loop withdraws every line or puts the transaction back. Then the one
  transaction that creates an order, described completely, and its consequences: stock is
  conserved and never negative, the totals add up, the invariants of orders, numbers and carts
  hold, the coupon limit is respected, a failure publishes nothing, and what was quoted is what
  is charged.
\<close>

subsection \<open>Steps that touch only the remote servers\<close>

definition outside_only :: "'a act \<Rightarrow> bool" where
  "outside_only m \<longleftrightarrow> (\<forall>s r s'. m s = (r, s') \<longrightarrow> (\<exists>w. s' = s\<lparr>outside := w\<rparr>))"

lemma outside_onlyD: "outside_only m \<Longrightarrow> m s = (r, s') \<Longrightarrow> \<exists>w. s' = s\<lparr>outside := w\<rparr>"
  unfolding outside_only_def by blast

named_theorems remotes

lemma outside_only_prims [remotes]:
  "outside_only (ret x)" "outside_only (throw e)" "outside_only (liftE r)" "outside_only (readsE f)"
  "outside_only (reads g)" "outside_only (remote m)"
proof -
  have "\<exists>w. s = s\<lparr>outside := w\<rparr>" for s :: session by (rule exI [of _ "outside s"]) simp
  then show "outside_only (ret x)" "outside_only (throw e)" "outside_only (liftE r)" "outside_only (readsE f)"
    "outside_only (reads g)"
    by (simp_all add: outside_only_def)
  show "outside_only (remote m)"
    unfolding outside_only_def using remote_step by blast
qed

lemma outside_only_bind [remotes]:
  assumes "outside_only m" "\<And>x. outside_only (f x)"
  shows "outside_only (bindM m f)"
  unfolding outside_only_def
proof (intro allI impI)
  fix s r s'
  assume run: "bindM m f s = (r, s')"
  obtain q s1 where m: "m s = (q, s1)" by fastforce
  then obtain w where w: "s1 = s\<lparr>outside := w\<rparr>" using outside_onlyD [OF assms(1)] by blast
  show "\<exists>w. s' = s\<lparr>outside := w\<rparr>"
  proof (cases q)
    case (Inl e)
    with run m w show ?thesis by (auto simp: bindM_app)
  next
    case (Inr x)
    with run m have "f x s1 = (r, s')" by (simp add: bindM_app)
    then obtain v where "s' = s1\<lparr>outside := v\<rparr>" using outside_onlyD [OF assms(2)] by blast
    with w show ?thesis by auto
  qed
qed

lemma outside_only_catch [remotes]:
  assumes "outside_only m" "\<And>e. outside_only (h e)"
  shows "outside_only (catchM m p h)"
  unfolding outside_only_def
proof (intro allI impI)
  fix s r s'
  assume run: "catchM m p h s = (r, s')"
  obtain q s1 where m: "m s = (q, s1)" by fastforce
  then obtain w where w: "s1 = s\<lparr>outside := w\<rparr>" using outside_onlyD [OF assms(1)] by blast
  show "\<exists>w. s' = s\<lparr>outside := w\<rparr>"
  proof (cases "\<exists>e. q = Inl e \<and> p e")
    case True
    then obtain e where e: "q = Inl e" "p e" by blast
    with run m have "h e s1 = (r, s')" by (simp add: catchM_def)
    then obtain v where "s' = s1\<lparr>outside := v\<rparr>" using outside_onlyD [OF assms(2)] by blast
    with w show ?thesis by auto
  next
    case False
    with run m w show ?thesis by (auto simp: catchM_def split: sum.splits if_splits)
  qed
qed

lemma outside_only_branches [remotes]:
  "(c \<Longrightarrow> outside_only m) \<Longrightarrow> (\<not> c \<Longrightarrow> outside_only n) \<Longrightarrow> outside_only (if c then m else n)"
  "(\<And>a b. outside_only (g a b)) \<Longrightarrow> outside_only (case v of (a, b) \<Rightarrow> g a b)"
  "outside_only (k t) \<Longrightarrow> outside_only (Let t k)"
  by (auto split: prod.splits)

lemma outside_only_validate [remotes]: "outside_only (validate_and_compute env code x lock)"
  unfolding outside_only_def
proof (intro allI impI)
  fix s r s'
  assume "validate_and_compute env code x lock s = (r, s')"
  then have "s' = s\<lparr>outside := outside s\<rparr>"
    using validate_read_only [of env code x lock s] by simp
  then show "\<exists>w. s' = s\<lparr>outside := w\<rparr>" by blast
qed

lemma outside_only_steps [remotes]:
  "outside_only (resolve_discount env lines promo lock)"
  "outside_only (carrier_cost env redis lines c)"
  "outside_only (carrier_snapshot env redis c)"
  "outside_only (quote_from_lines env redis lines c discount)"
  "outside_only (resolve_destination env redis uid dr c)"
proof -
  show discount: "outside_only (resolve_discount env lines promo lock)"
    unfolding resolve_discount_def by (intro remotes)
  show cost: "outside_only (carrier_cost env redis lines c)"
    unfolding carrier_cost_def by (intro remotes)
  show snap: "outside_only (carrier_snapshot env redis c)"
    unfolding carrier_snapshot_def by (intro remotes)
  show "outside_only (quote_from_lines env redis lines c discount)"
    unfolding quote_from_lines_def by (intro remotes cost)
  show "outside_only (resolve_destination env redis uid dr c)"
    unfolding resolve_destination_def by (intro remotes snap)
qed

lemma quote_outside: "outside_only (quote env redis uid tok dr promo lang)"
  unfolding quote_def by (intro remotes)

subsection \<open>The stock loop\<close>

definition line_stock :: "priced_line \<Rightarrow> stock_key" where
  "line_stock l = (case pl_variant_id l of Some v \<Rightarrow> Variant_Stock v | None \<Rightarrow> Product_Stock (pl_product_id l))"

definition ordered :: "priced_line list \<Rightarrow> stock_key \<Rightarrow> int" where
  "ordered lines k = sum_where (\<lambda>l. line_stock l = k) pl_qty lines"

lemma ordered_simps [simp]:
  "ordered [] k = 0"
  "ordered (l # ls) k = (if line_stock l = k then pl_qty l else 0) + ordered ls k"
  by (simp_all add: ordered_def)

lemma decrement_key:
  "decrement_stock (Some (pl_product_id l)) n (pl_variant_id l) = take_stock (line_stock l) n"
  by (rule ext) (auto simp: line_stock_def decrement_stock_def split: option.splits)

lemma take_step: "take_stock k n s = (r, s') \<Longrightarrow> stock_step s s'"
  by (cases k) (auto intro: decrement_step)

lemma stock_step_frame:
  assumes "stock_step s s'"
  shows "committed s' = committed s" "pk_seq s' = pk_seq s" "order_number_seq s' = order_number_seq s"
    "outside s' = outside s"
    "t_order (work s') = t_order (work s)" "t_order_item (work s') = t_order_item (work s)"
    "t_cart (work s') = t_cart (work s)" "t_cart_item (work s') = t_cart_item (work s)"
    "t_history (work s') = t_history (work s)" "t_np (work s') = t_np (work s)"
    "t_promo (work s') = t_promo (work s)" "t_payment (work s') = t_payment (work s)"
    "t_address (work s') = t_address (work s)"
  using assms by (auto simp: stock_step_def)

text \<open>Like a stock step, without the restock notices: a withdrawal sends no message.\<close>

definition withdraw_step :: "session \<Rightarrow> session \<Rightarrow> bool" where
  "withdraw_step s s' \<longleftrightarrow> stock_step s s' \<and> outbox s' = outbox s"

lemma take_outbox: "take_stock k n s = (r, s') \<Longrightarrow> outbox s' = outbox s"
  by (cases k) (auto simp: stock_runs)

lemma decrement_loop:
  "stock_wf (work s) \<Longrightarrow> forEach lines decrement_line s = (r, s') \<Longrightarrow>
    (r = Inr () \<and> stock_wf (work s') \<and> withdraw_step s s' \<and>
      stock_of (work s') = (\<lambda>k. map_option (\<lambda>q. q - ordered lines k) (stock_of (work s) k)) \<and>
      (\<forall>l \<in> set lines. stock_of (work s) (line_stock l) \<noteq> None) \<and>
      (stock.nonneg s \<longrightarrow> stock.nonneg s'))
    \<or> (\<exists>l \<in> set lines. r = Inl (OutOfStockError (pl_product_id l)) \<and> s' = s\<lparr>work := committed s\<rparr>)"
proof (induction lines arbitrary: s)
  case Nil
  then show ?case
    by (auto simp: withdraw_step_def stock_step_refl fun_eq_iff map_option.id [unfolded id_def])
next
  case (Cons l ls)
  note wf = Cons.prems(1)
  show ?case
    using wf
  proof (cases rule: stock.take_cases [of s "line_stock l" "pl_qty l"])
    case short
    then have "decrement_line l s = (Inl (OutOfStockError (pl_product_id l)), s\<lparr>work := committed s\<rparr>)"
      by (simp add: decrement_line_def decrement_key bindM_app)
    with Cons.prems(2) show ?thesis by (simp add: bindM_app)
  next
    case (ok q s1)
    then have "decrement_line l s = (Inr (), s1)"
      by (simp add: decrement_line_def decrement_key bindM_app)
    with Cons.prems(2) have run: "forEach ls decrement_line s1 = (r, s')" by (simp add: bindM_app)
    have step: "withdraw_step s s1"
      using ok(3) take_step take_outbox by (simp add: withdraw_step_def)
    then obtain ps vs where s1: "s1 = s\<lparr>work := (work s)\<lparr>t_product := ps, t_variant := vs\<rparr>\<rparr>"
      by (auto simp: withdraw_step_def stock_step_def)
    have non: "stock.nonneg s \<longrightarrow> stock.nonneg s1"
      using stock.take_nonneg [OF wf _ ok(3)] by blast
    from Cons.IH [OF ok(5) run] show ?thesis
    proof (elim disjE conjE bexE)
      fix l' assume "l' \<in> set ls" "r = Inl (OutOfStockError (pl_product_id l'))" "s' = s1\<lparr>work := committed s1\<rparr>"
      then show ?thesis unfolding s1 by auto
    next
      assume rest: "r = Inr ()" "stock_wf (work s')" "withdraw_step s1 s'"
        "stock_of (work s') = (\<lambda>k. map_option (\<lambda>q. q - ordered ls k) (stock_of (work s1) k))"
        "\<forall>l \<in> set ls. stock_of (work s1) (line_stock l) \<noteq> None" "stock.nonneg s1 \<longrightarrow> stock.nonneg s'"
      have st: "stock_of (work s') = (\<lambda>k. map_option (\<lambda>q. q - ordered (l # ls) k) (stock_of (work s) k))"
        unfolding rest(4) ok(4) using ok(1) by (auto simp: fun_eq_iff option.map_comp comp_def)
      have dom: "\<forall>l' \<in> set (l # ls). stock_of (work s) (line_stock l') \<noteq> None"
        using rest(5) ok(1) unfolding ok(4) by (auto split: if_splits)
      have "withdraw_step s s'"
        using step rest(3) stock_step_trans by (auto simp: withdraw_step_def)
      with rest(1,2,6) st dom non show ?thesis by simp
    qed
  qed
qed

subsection \<open>The order transaction\<close>

fun item_rows :: "int \<Rightarrow> int \<Rightarrow> priced_line list \<Rightarrow> order_item list" where
  "item_rows i oid [] = []"
| "item_rows i oid (l # ls) =
    \<lparr>oi_id = i, oi_order_id = oid, oi_product_id = Some (pl_product_id l), oi_variant_id = pl_variant_id l,
     oi_name_snapshot = pl_name l, oi_price_snapshot = pl_price l, oi_qty = pl_qty l\<rparr> # item_rows (i + 1) oid ls"

definition order_number :: "environment \<Rightarrow> session \<Rightarrow> string" where
  "order_number env s = today_str env @ ''-'' @ zero_pad NUMBER_PAD (nat_str (nat (order_number_seq s)))"

definition placed_row :: "environment \<Rightarrow> persist_args \<Rightarrow> session \<Rightarrow> order" where
  "placed_row env a s = order_row (pk_seq s Order_T) (env_now env) (persist_order_args a (order_number env s))"

definition placed_items :: "persist_args \<Rightarrow> session \<Rightarrow> order_item list" where
  "placed_items a s = item_rows (pk_seq s Order_Item_T) (pk_seq s Order_T) (pa_lines a)"

definition placed_carrier :: "persist_args \<Rightarrow> session \<Rightarrow> order_delivery_np option" where
  "placed_carrier a s =
    (case pa_choice a of
      Some c \<Rightarrow> if is_carrier c
        then Some (carrier_row (pk_seq s Order_T) c (pa_totals a) (pa_lines a) (pa_np_snapshot a)) else None
    | None \<Rightarrow> None)"

definition opening_row :: "environment \<Rightarrow> session \<Rightarrow> int \<Rightarrow> string \<Rightarrow> order_status_history" where
  "opening_row env s k to_status = \<lparr>h_id = pk_seq s History_T + k, h_order_id = pk_seq s Order_T,
     h_from_status = [], h_to_status = to_status, h_changed_at = env_now env, h_changed_by = ''system''\<rparr>"

definition converted :: "persist_args \<Rightarrow> cart list \<Rightarrow> cart list" where
  "converted a carts =
    (case pa_cart_id a of None \<Rightarrow> carts
     | Some cid \<Rightarrow> upd (\<lambda>c. c_id c = cid) (\<lambda>c. c\<lparr>c_status := CONVERTED_CART_STATUS\<rparr>) carts)"

text \<open>The tables after the inserts, with the stock still untouched.\<close>

definition inserted :: "environment \<Rightarrow> persist_args \<Rightarrow> session \<Rightarrow> db" where
  "inserted env a s = (work s)\<lparr>
     t_cart := converted a (t_cart (work s)),
     t_order := t_order (work s) @ [placed_row env a s],
     t_order_item := t_order_item (work s) @ placed_items a s,
     t_history := t_history (work s) @ [opening_row env s 0 ''new'', opening_row env s 1 ''pending''],
     t_np := t_np (work s) @ (case placed_carrier a s of None \<Rightarrow> [] | Some r \<Rightarrow> [r])\<rparr>"

definition drawn :: "persist_args \<Rightarrow> session \<Rightarrow> table \<Rightarrow> int" where
  "drawn a s = (pk_seq s)(Order_T := pk_seq s Order_T + 1,
     Order_Item_T := pk_seq s Order_Item_T + int (length (pa_lines a)),
     History_T := pk_seq s History_T + 2)"

lemma add_order_item_app:
  "add_order_item oid pid name price qty vid s =
    (let x = \<lparr>oi_id = pk_seq s Order_Item_T, oi_order_id = oid, oi_product_id = pid, oi_variant_id = vid,
             oi_name_snapshot = name, oi_price_snapshot = price, oi_qty = qty\<rparr> in
     (Inr x, s\<lparr>pk_seq := (pk_seq s)(Order_Item_T := pk_seq s Order_Item_T + 1),
        work := (work s)\<lparr>t_order_item := t_order_item (work s) @ [x]\<rparr>\<rparr>))"
  by (simp add: add_order_item_def Let_def)

lemma mapM_items:
  "mapM (\<lambda>l. add_order_item oid (Some (pl_product_id l)) (pl_name l) (pl_price l) (pl_qty l) (pl_variant_id l)) lines s
    = (Inr (item_rows (pk_seq s Order_Item_T) oid lines),
       s\<lparr>pk_seq := (pk_seq s)(Order_Item_T := pk_seq s Order_Item_T + int (length lines)),
         work := (work s)\<lparr>t_order_item := t_order_item (work s) @ item_rows (pk_seq s Order_Item_T) oid lines\<rparr>\<rparr>)"
  by (induction lines arbitrary: s) (simp_all add: add_order_item_app bindM_app Let_def add.assoc)

lemma persist_head:
  assumes "order_insertable (placed_row env a s) (work s)"
  shows "\<exists>s1. work s1 = inserted env a s \<and> committed s1 = committed s \<and> outbox s1 = outbox s \<and>
    outside s1 = outside s \<and> order_number_seq s1 = order_number_seq s + 1 \<and> pk_seq s1 = drawn a s \<and>
    persist_order env a s = bindM (forEach (pa_lines a) decrement_line) (\<lambda>_.
      bindM commit (\<lambda>_.
      bindM (send_confirmation env (order_number env s) (pa_email a) (qo_total (pa_totals a))
        (delivery_line (pa_choice a) (pa_snapshot a) (pa_np_snapshot a))) (\<lambda>_.
      ret (from_order (placed_row env a s) (placed_items a s) (placed_carrier a s) False)))) s1"
proof -
  let ?s0 = "s\<lparr>order_number_seq := order_number_seq s + 1\<rparr>"
  let ?x = "placed_row env a s"
  have number: "next_order_number env s = (Inr (order_number env s), ?s0)"
    by (simp add: next_order_number_def order_number_def)
  let ?s1 = "?s0\<lparr>pk_seq := (pk_seq s)(Order_T := pk_seq s Order_T + 1),
      work := (work s)\<lparr>t_order := t_order (work s) @ [?x]\<rparr>\<rparr>"
  have row: "add_order env (persist_order_args a (order_number env s)) ?s0 = (Inr ?x, ?s1)"
    using assms by (simp add: add_order_def placed_row_def [symmetric] bindM_app Let_def guardE_def)
  have id: "o_id ?x = pk_seq s Order_T" "o_number ?x = order_number env s" "o_total ?x = qo_total (pa_totals a)"
    by (simp_all add: placed_row_def order_row_def persist_order_args_def split: prod.splits)
  let ?s2 = "?s1\<lparr>work := (work ?s1)\<lparr>t_np := t_np (work s) @ (case placed_carrier a s of None \<Rightarrow> [] | Some r \<Rightarrow> [r])\<rparr>\<rparr>"
  have np: "add_carrier_row (pk_seq s Order_T) (pa_choice a) (pa_totals a) (pa_lines a) (pa_np_snapshot a) ?s1
      = (Inr (placed_carrier a s), ?s2)"
    by (simp add: add_carrier_row_def placed_carrier_def Let_def split: option.splits)
  let ?s3 = "?s2\<lparr>pk_seq := (pk_seq ?s2)(Order_Item_T := pk_seq s Order_Item_T + int (length (pa_lines a))),
      work := (work ?s2)\<lparr>t_order_item := t_order_item (work s) @ placed_items a s\<rparr>\<rparr>"
  have items: "mapM (\<lambda>l. add_order_item (pk_seq s Order_T) (Some (pl_product_id l)) (pl_name l) (pl_price l) (pl_qty l)
      (pl_variant_id l)) (pa_lines a) ?s2 = (Inr (placed_items a s), ?s3)"
    by (simp add: mapM_items placed_items_def)
  let ?s4 = "?s3\<lparr>work := (work ?s3)\<lparr>t_cart := converted a (t_cart (work s))\<rparr>\<rparr>"
  have cart: "(case pa_cart_id a of None \<Rightarrow> ret () | Some cid \<Rightarrow> mark_cart_converted cid) ?s3 = (Inr (), ?s4)"
    by (simp add: mark_cart_converted_def converted_def split: option.splits)
  let ?s5 = "?s4\<lparr>pk_seq := (pk_seq ?s4)(History_T := pk_seq s History_T + 1),
      work := (work ?s4)\<lparr>t_history := t_history (work s) @ [opening_row env s 0 ''new'']\<rparr>\<rparr>"
  have h1: "add_status_history env (pk_seq s Order_T) [] ''new'' ''system'' ?s4 = (Inr (), ?s5)"
    by (simp add: add_status_history_def opening_row_def)
  let ?s6 = "?s5\<lparr>pk_seq := (pk_seq ?s5)(History_T := pk_seq s History_T + 2),
      work := (work ?s5)\<lparr>t_history := t_history (work s) @ [opening_row env s 0 ''new'', opening_row env s 1 ''pending'']\<rparr>\<rparr>"
  have h2: "add_status_history env (pk_seq s Order_T) [] ''pending'' ''system'' ?s5 = (Inr (), ?s6)"
    by (simp add: add_status_history_def opening_row_def add.assoc)
  have "persist_order env a s = bindM (forEach (pa_lines a) decrement_line) (\<lambda>_.
      bindM commit (\<lambda>_.
      bindM (send_confirmation env (order_number env s) (pa_email a) (qo_total (pa_totals a))
        (delivery_line (pa_choice a) (pa_snapshot a) (pa_np_snapshot a))) (\<lambda>_.
      ret (from_order ?x (placed_items a s) (placed_carrier a s) False)))) ?s6"
    unfolding persist_order_def
    by (rule trans, rule bindM_okI, rule number, rule trans, rule bindM_okI, rule row, unfold id,
        rule trans, rule bindM_okI, rule np, rule trans, rule bindM_okI, rule items,
        rule trans, rule bindM_okI, rule cart, rule trans, rule bindM_okI, rule h1,
        rule trans, rule bindM_okI, rule h2, rule refl)
  moreover have "work ?s6 = inserted env a s" by (simp add: inserted_def)
  moreover have "pk_seq ?s6 = drawn a s" by (simp add: drawn_def fun_eq_iff)
  ultimately show ?thesis by (intro exI [of _ ?s6]) simp
qed

text \<open>
  Every outcome of the transaction: the row is refused by a constraint (a dangling address), a
  line is short, or the order is committed with all its rows and the stock withdrawn.
\<close>

lemma persist_refused:
  assumes "\<not> order_insertable (placed_row env a s) (work s)"
  shows "\<exists>s'. persist_order env a s = (Inl (IntegrityError ''order''), s') \<and> work s' = work s \<and>
    committed s' = committed s \<and> outbox s' = outbox s \<and> outside s' = outside s \<and>
    order_number_seq s' = order_number_seq s + 1"
proof -
  let ?s0 = "s\<lparr>order_number_seq := order_number_seq s + 1\<rparr>"
  have number: "next_order_number env s = (Inr (order_number env s), ?s0)"
    by (simp add: next_order_number_def order_number_def)
  have row: "add_order env (persist_order_args a (order_number env s)) ?s0 =
      (Inl (IntegrityError ''order''), ?s0\<lparr>pk_seq := (pk_seq s)(Order_T := pk_seq s Order_T + 1)\<rparr>)"
    using assms by (simp add: add_order_def placed_row_def [symmetric] bindM_app Let_def guardE_def)
  then show ?thesis
    by (simp add: persist_order_def bindM_app number row)
qed

definition confirmation :: "environment \<Rightarrow> persist_args \<Rightarrow> session \<Rightarrow> message list" where
  "confirmation env a s = (if env_broker_up env
     then [Order_Confirm_Email (pa_email a) (order_number env s)
       (delivery_line (pa_choice a) (pa_snapshot a) (pa_np_snapshot a)) (qo_total (pa_totals a))]
     else [])"

lemma stock_inserted [simp]: "stock_of (inserted env a s) = stock_of (work s)"
  "stock_wf (inserted env a s) = stock_wf (work s)"
proof -
  have "stock_of (inserted env a s) k = stock_of (work s) k" for k by (cases k) (simp_all add: inserted_def)
  then show "stock_of (inserted env a s) = stock_of (work s)" by (simp add: fun_eq_iff)
qed (simp add: stock_wf_def inserted_def)

lemma persist_cases:
  assumes wf: "stock_wf (work s)" and run: "persist_order env a s = (r, s')"
  obtains (refused) "r = Inl (IntegrityError ''order'')" "work s' = work s" "committed s' = committed s"
      "outbox s' = outbox s" "order_number_seq s' = order_number_seq s + 1"
      "\<not> order_insertable (placed_row env a s) (work s)"
  | (short) l where "l \<in> set (pa_lines a)" "r = Inl (OutOfStockError (pl_product_id l))"
      "work s' = committed s" "committed s' = committed s" "outbox s' = outbox s"
      "order_number_seq s' = order_number_seq s + 1" "pk_seq s' = drawn a s"
  | (placed) ps vs where
      "r = Inr (from_order (placed_row env a s) (placed_items a s) (placed_carrier a s) False)"
      "order_insertable (placed_row env a s) (work s)"
      "work s' = (inserted env a s)\<lparr>t_product := ps, t_variant := vs\<rparr>" "committed s' = work s'"
      "stock_of (work s') = (\<lambda>k. map_option (\<lambda>q. q - ordered (pa_lines a) k) (stock_of (work s) k))"
      "stock_wf (work s')" "stock.nonneg s \<longrightarrow> stock.nonneg s'"
      "\<forall>l \<in> set (pa_lines a). stock_of (work s) (line_stock l) \<noteq> None"
      "outbox s' = outbox s @ confirmation env a s"
      "order_number_seq s' = order_number_seq s + 1" "pk_seq s' = drawn a s"
proof (cases "order_insertable (placed_row env a s) (work s)")
  case False
  with persist_refused [OF False] run refused show thesis by auto
next
  case True
  from persist_head [OF True] obtain s1 where s1: "work s1 = inserted env a s" "committed s1 = committed s"
      "outbox s1 = outbox s" "order_number_seq s1 = order_number_seq s + 1" "pk_seq s1 = drawn a s"
    and eq: "persist_order env a s = bindM (forEach (pa_lines a) decrement_line) (\<lambda>_.
      bindM commit (\<lambda>_.
      bindM (send_confirmation env (order_number env s) (pa_email a) (qo_total (pa_totals a))
        (delivery_line (pa_choice a) (pa_snapshot a) (pa_np_snapshot a))) (\<lambda>_.
      ret (from_order (placed_row env a s) (placed_items a s) (placed_carrier a s) False)))) s1"
    by blast
  obtain q s2 where loop: "forEach (pa_lines a) decrement_line s1 = (q, s2)" by fastforce
  have wf1: "stock_wf (work s1)" using wf s1(1) by simp
  from decrement_loop [OF wf1 loop] show thesis
  proof (elim disjE conjE bexE)
    fix l assume l: "l \<in> set (pa_lines a)" "q = Inl (OutOfStockError (pl_product_id l))" "s2 = s1\<lparr>work := committed s1\<rparr>"
    then have "persist_order env a s = (Inl (OutOfStockError (pl_product_id l)), s2)"
      unfolding eq by (simp add: bindM_app loop)
    with run l s1 show thesis by (intro short [of l]) auto
  next
    assume ok: "q = Inr ()" "stock_wf (work s2)" "withdraw_step s1 s2"
      "stock_of (work s2) = (\<lambda>k. map_option (\<lambda>q. q - ordered (pa_lines a) k) (stock_of (work s1) k))"
      "\<forall>l \<in> set (pa_lines a). stock_of (work s1) (line_stock l) \<noteq> None" "stock.nonneg s1 \<longrightarrow> stock.nonneg s2"
    obtain ps vs where w2: "work s2 = (inserted env a s)\<lparr>t_product := ps, t_variant := vs\<rparr>"
      using ok(3) s1(1) by (auto simp: withdraw_step_def stock_step_def)
    have f2: "outbox s2 = outbox s" "order_number_seq s2 = order_number_seq s + 1" "pk_seq s2 = drawn a s"
      using ok(3) s1 by (auto simp: withdraw_step_def stock_step_frame)
    have res: "r = Inr (from_order (placed_row env a s) (placed_items a s) (placed_carrier a s) False)"
      "work s' = work s2" "committed s' = work s2" "outbox s' = outbox s @ confirmation env a s"
      "order_number_seq s' = order_number_seq s2" "pk_seq s' = pk_seq s2"
      using run f2 unfolding eq by (auto simp: bindM_app loop ok(1) send_confirmation_def confirmation_def)
    have non: "stock.nonneg s \<longrightarrow> stock.nonneg s'"
      using ok(6) s1(1) res(2) by (simp add: stock.nonneg_def)
    show thesis
      by (rule placed [OF res(1) True, of vs ps]) (use w2 res ok f2 non s1 in auto)
  qed
qed

end
