(* ===== verification/Checkout_Lines.thy ===== *)
theory Checkout_Lines
  imports Checkout_Correct
begin

text \<open>
  What the priced lines of a cart are: live rows of the caller's own cart, at the current price,
  within the stock, and no two on the same stock row. So a loaded cart can always be withdrawn.
\<close>

definition cart_line_stock :: "cart_item \<Rightarrow> stock_key" where
  "cart_line_stock l = (case ci_variant_id l of Some v \<Rightarrow> Variant_Stock v | None \<Rightarrow> Product_Stock (ci_product_id l))"

text \<open>The price and the stock of a stock row's owner.\<close>

definition priced_from :: "db \<Rightarrow> priced_line \<Rightarrow> bool" where
  "priced_from d x \<longleftrightarrow> (\<exists>p \<in> set (t_product d). p_id p = pl_product_id x \<and> p_is_active p \<and>
    (case pl_variant_id x of
      None \<Rightarrow> pl_price x = p_price p \<and> pl_qty x \<le> p_qty p
    | Some i \<Rightarrow> \<exists>v \<in> set (t_variant d). v_id v = i \<and> v_is_active v \<and> pl_price x = v_price v \<and> pl_qty x \<le> v_qty v))"

lemma price_line_Inr:
  assumes "price_line cfg variants labels (l, p, n) = Inr (Some x)"
  shows "p_is_active p" "pl_product_id x = p_id p" "pl_variant_id x = ci_variant_id l" "pl_qty x = ci_qty l"
    "pl_weight_g x \<noteq> 0 \<or> parcel_default_item_weight_g cfg = 0"
    "(ci_variant_id l = None \<and> pl_price x = p_price p \<and> pl_qty x \<le> p_qty p) \<or>
     (\<exists>i v. ci_variant_id l = Some i \<and> i \<noteq> 0 \<and> variants i = Some v \<and> v_is_active v \<and> pl_price x = v_price v \<and> pl_qty x \<le> v_qty v)"
  using assms
  by (auto simp: price_line_def Let_def new_priced_line_def lookup_variant_def int_or_def
      split: if_splits option.splits)

lemma price_line_OutOfStock:
  assumes "price_line cfg variants labels (l, p, n) = Inl e"
  shows "e = OutOfStockError (p_id p)"
  using assms by (auto simp: price_line_def Let_def split: if_splits option.splits)

lemma price_lines_mem:
  "price_lines cfg variants labels rows = Inr ps \<Longrightarrow> x \<in> set ps \<Longrightarrow>
    \<exists>row \<in> set rows. price_line cfg variants labels row = Inr (Some x)"
proof (induction rows arbitrary: ps)
  case (Cons row rows)
  then obtain o1 rest where r: "price_line cfg variants labels row = Inr o1"
      "price_lines cfg variants labels rows = Inr rest" "ps = (case o1 of None \<Rightarrow> rest | Some x \<Rightarrow> x # rest)"
    by (auto simp: bindE_Inr)
  with Cons show ?case by (cases o1) auto
qed simp

lemma price_lines_error:
  "price_lines cfg variants labels rows = Inl e \<Longrightarrow> \<exists>pid. e = OutOfStockError pid"
proof (induction rows)
  case (Cons row rows)
  obtain l p n where "row = (l, p, n)" by (cases row)
  with Cons show ?case by (auto simp: bindE_Inl dest: price_line_OutOfStock)
qed simp

lemma list_cart_lines_mem:
  "(l, p, n) \<in> set (list_cart_lines cid lang d) \<longleftrightarrow>
    l \<in> set (t_cart_item d) \<and> ci_cart_id l = cid \<and> p \<in> set (t_product d) \<and> p_id p = ci_product_id l
      \<and> n = localized_name (p_id p) lang d"
  by (auto simp: list_cart_lines_def)

lemma load_cart_lines_Inr:
  assumes "load_cart_lines cfg uid tok lang d = Inr (c, lines)"
  shows "get_active_cart uid tok d = Inr (Some c)" "lines \<noteq> []"
    "\<And>x. x \<in> set lines \<Longrightarrow> \<exists>l \<in> set (t_cart_item d). ci_cart_id l = c_id c \<and> ci_product_id l = pl_product_id x \<and>
        ci_variant_id l = pl_variant_id x \<and> ci_qty l = pl_qty x"
    "\<And>x. x \<in> set lines \<Longrightarrow> priced_from d x"
proof -
  from assms show "get_active_cart uid tok d = Inr (Some c)" "lines \<noteq> []"
    by (auto simp: load_cart_lines_def bindE_Inr Let_def split: option.splits if_splits)
  let ?lang = "normalize_lang lang"
  let ?rows = "list_cart_lines (c_id c) ?lang d"
  let ?vs = "get_variants_by_ids (variant_ids_of ?rows) d"
  have ps: "price_lines cfg ?vs (get_variant_option_labels (variant_ids_of ?rows) ?lang d) ?rows = Inr lines"
    using assms by (auto simp: load_cart_lines_def bindE_Inr Let_def split: option.splits if_splits)
  fix x assume "x \<in> set lines"
  from price_lines_mem [OF ps this] obtain l p n
    where row: "(l, p, n) \<in> set ?rows"
      and x: "price_line cfg ?vs (get_variant_option_labels (variant_ids_of ?rows) ?lang d) (l, p, n) = Inr (Some x)"
    by auto
  note lp = row [unfolded list_cart_lines_mem] and px = price_line_Inr [OF x]
  show "\<exists>l \<in> set (t_cart_item d). ci_cart_id l = c_id c \<and> ci_product_id l = pl_product_id x \<and>
        ci_variant_id l = pl_variant_id x \<and> ci_qty l = pl_qty x"
    using lp px(2,3,4) by (intro bexI [of _ l]) auto
  show "priced_from d x"
    using px(6)
  proof (elim disjE exE conjE)
    assume "ci_variant_id l = None" "pl_price x = p_price p" "pl_qty x \<le> p_qty p"
    with lp px(1-4) show ?thesis unfolding priced_from_def by (intro bexI [of _ p]) auto
  next
    fix i v assume v: "ci_variant_id l = Some i" "?vs i = Some v" "v_is_active v" "pl_price x = v_price v" "pl_qty x \<le> v_qty v"
    from get_variants_by_ids_key [OF v(2)] v lp px(1-4) show ?thesis
      unfolding priced_from_def by (intro bexI [of _ p]) auto
  qed
qed

lemma load_cart_lines_error:
  "load_cart_lines cfg uid tok lang d = Inl e \<Longrightarrow>
    e = EmptyCartError \<or> e = MultipleResultsFound \<or> (\<exists>pid. e = OutOfStockError pid)"
  by (auto simp: load_cart_lines_def bindE_Inl Let_def get_active_cart_def scalar_one_or_none_def
      split: option.splits if_splits list.splits dest: price_lines_error)

subsection \<open>No two lines on one stock row\<close>

lemma price_lines_keys:
  "price_lines cfg variants labels rows = Inr ps \<Longrightarrow> (\<And>l p n. (l, p, n) \<in> set rows \<Longrightarrow> p_id p = ci_product_id l) \<Longrightarrow>
    distinct (map (\<lambda>r. cart_line_stock (fst r)) rows) \<Longrightarrow>
    distinct (map line_stock ps) \<and> set (map line_stock ps) \<subseteq> set (map (\<lambda>r. cart_line_stock (fst r)) rows)"
proof (induction rows arbitrary: ps)
  case (Cons row rows)
  obtain l p n where row: "row = (l, p, n)" by (cases row)
  from Cons.prems(1) obtain o1 rest where r: "price_line cfg variants labels row = Inr o1"
      "price_lines cfg variants labels rows = Inr rest" "ps = (case o1 of None \<Rightarrow> rest | Some x \<Rightarrow> x # rest)"
    by (auto simp: bindE_Inr)
  have rest: "distinct (map line_stock rest) \<and> set (map line_stock rest) \<subseteq> set (map (\<lambda>r. cart_line_stock (fst r)) rows)"
    by (rule Cons.IH [OF r(2)]) (use Cons.prems in auto)
  show ?case
  proof (cases o1)
    case None
    with rest r(3) row show ?thesis by (simp add: subset_insertI2)
  next
    case (Some x)
    with r(1) row have "price_line cfg variants labels (l, p, n) = Inr (Some x)" by simp
    from price_line_Inr(2,3) [OF this] Cons.prems(2) [of l p n] row
    have "line_stock x = cart_line_stock l" by (simp add: line_stock_def cart_line_stock_def split: option.splits)
    with rest r(3) Some row Cons.prems(3) show ?thesis by auto
  qed
qed simp

lemma distinct_join:
  assumes "distinct (map f ls)" "distinct (map p_id ps)" "\<And>l. l \<in> set ls \<Longrightarrow> f l = g l"
  shows "distinct (map (\<lambda>r. g (fst r)) [(l, p, h l p). l \<leftarrow> ls, p \<leftarrow> filter (\<lambda>p. p_id p = q l) ps])"
proof -
  have one: "map (\<lambda>r. g (fst r)) (map (\<lambda>p. (l, p, h l p)) (filter (\<lambda>p. p_id p = q l) ps)) \<in> {[], [g l]}" for l
  proof -
    have "length (filter (\<lambda>p. p_id p = i) ps) \<le> 1" for i
      using assms(2) by (induction ps) (auto simp: filter_empty_conv image_iff)
    from this [of "q l"] show ?thesis
      by (cases "filter (\<lambda>p. p_id p = q l) ps") (auto simp del: filter_eq_Cons_iff)
  qed
  show ?thesis
    using assms(1,3)
  proof (induction ls)
    case (Cons l ls)
    let ?rest = "map (\<lambda>r. g (fst r)) [(l, p, h l p). l \<leftarrow> ls, p \<leftarrow> filter (\<lambda>p. p_id p = q l) ps]"
    have "set ?rest \<subseteq> g ` set ls" by auto
    moreover have "g l \<notin> g ` set ls" using Cons.prems by (auto simp: image_iff)
    moreover have "distinct ?rest" using Cons by auto
    ultimately show ?case using one [of l] by auto
  qed simp
qed

lemma cart_line_stock_inj:
  assumes "lines_wf d" "l \<in> set (t_cart_item d)" "m \<in> set (t_cart_item d)" "ci_cart_id l = ci_cart_id m"
    "cart_line_stock l = cart_line_stock m"
  shows "l = m"
proof -
  have "key_of l = key_of m"
  proof (cases "ci_variant_id l")
    case None
    with assms(4,5) show ?thesis
      by (auto simp: cart_line_stock_def key_of_def line_key_def split: option.splits)
  next
    case (Some v)
    with assms(5) have v: "ci_variant_id m = Some v" by (auto simp: cart_line_stock_def split: option.splits)
    have "\<exists>x. get_variant v d = Some x \<and> v_product_id x = ci_product_id l"
      "\<exists>x. get_variant v d = Some x \<and> v_product_id x = ci_product_id m"
      using assms(1,2,3) Some v by (simp_all add: lines_wf_def)
    then have "ci_product_id l = ci_product_id m" by auto
    with v Some assms(4) show ?thesis by (simp add: key_of_def line_key_def)
  qed
  with assms(1-3) show ?thesis by (auto simp: lines_wf_def intro: distinct_key_inj)
qed

lemma loaded_distinct:
  assumes "load_cart_lines cfg uid tok lang d = Inr (c, lines)" "lines_wf d" "stock_wf d"
  shows "distinct (map line_stock lines)"
proof -
  let ?rows = "list_cart_lines (c_id c) (normalize_lang lang) d"
  let ?ls = "sort_key ci_product_id (filter (\<lambda>l. ci_cart_id l = c_id c) (t_cart_item d))"
  have ps: "price_lines cfg (get_variants_by_ids (variant_ids_of ?rows) d)
      (get_variant_option_labels (variant_ids_of ?rows) (normalize_lang lang) d) ?rows = Inr lines"
    using assms(1) by (auto simp: load_cart_lines_def bindE_Inr Let_def split: option.splits if_splits)
  have "distinct ?ls" using assms(2) by (auto simp: lines_wf_def distinct_map)
  moreover have "inj_on cart_line_stock (set ?ls)"
    using cart_line_stock_inj [OF assms(2)] by (auto simp: inj_on_def)
  ultimately have "distinct (map cart_line_stock ?ls)" by (simp add: distinct_map)
  then have "distinct (map (\<lambda>r. cart_line_stock (fst r)) ?rows)"
    unfolding list_cart_lines_def using assms(3) by (intro distinct_join) (auto simp: stock_wf_def)
  with price_lines_keys [OF ps] show ?thesis by (auto simp: list_cart_lines_mem)
qed

lemma priced_stock:
  assumes "stock_wf d" "priced_from d x"
  shows "\<exists>q. stock_of d (line_stock x) = Some q \<and> pl_qty x \<le> q"
proof -
  from assms(2) obtain p where p: "p \<in> set (t_product d)" "p_id p = pl_product_id x"
    and rest: "case pl_variant_id x of
      None \<Rightarrow> pl_price x = p_price p \<and> pl_qty x \<le> p_qty p
    | Some i \<Rightarrow> \<exists>v \<in> set (t_variant d). v_id v = i \<and> v_is_active v \<and> pl_price x = v_price v \<and> pl_qty x \<le> v_qty v"
    by (auto simp: priced_from_def)
  show ?thesis
  proof (cases "pl_variant_id x")
    case None
    have "find (\<lambda>y. p_id y = p_id p) (t_product d) = Some p"
      using assms(1) p by (intro find_key_unique) (auto simp: stock_wf_def)
    with None rest p show ?thesis by (simp add: line_stock_def)
  next
    case (Some i)
    with rest obtain v where v: "v \<in> set (t_variant d)" "v_id v = i" "pl_qty x \<le> v_qty v" by auto
    then have "find (\<lambda>y. v_id y = v_id v) (t_variant d) = Some v"
      using assms(1) by (intro find_key_unique) (auto simp: stock_wf_def)
    with Some v show ?thesis by (simp add: line_stock_def)
  qed
qed

text \<open>A loaded cart never runs short within its own transaction.\<close>

lemma loop_succeeds:
  "stock_wf (work s) \<Longrightarrow> distinct (map line_stock lines) \<Longrightarrow>
    (\<And>l. l \<in> set lines \<Longrightarrow> \<exists>q. stock_of (work s) (line_stock l) = Some q \<and> pl_qty l \<le> q) \<Longrightarrow>
    fst (forEach lines decrement_line s) = Inr ()"
proof (induction lines arbitrary: s)
  case (Cons l ls)
  from Cons.prems(3) [of l] obtain q where q: "stock_of (work s) (line_stock l) = Some q" "pl_qty l \<le> q" by auto
  from stock.take_some [OF Cons.prems(1) q] obtain s1 where
    s1: "take_stock (line_stock l) (pl_qty l) s = (Inr True, s1)"
      "stock_of (work s1) = (stock_of (work s))(line_stock l \<mapsto> q - pl_qty l)" "stock_wf (work s1)" by blast
  have "decrement_line l s = (Inr (), s1)"
    using s1(1) by (simp add: decrement_line_def decrement_key bindM_app)
  moreover have "fst (forEach ls decrement_line s1) = Inr ()"
  proof (rule Cons.IH [OF s1(3)])
    show "distinct (map line_stock ls)" using Cons.prems(2) by simp
    fix m assume "m \<in> set ls"
    moreover then have "line_stock m \<noteq> line_stock l" using Cons.prems(2) by (auto simp: image_iff)
    ultimately show "\<exists>q. stock_of (work s1) (line_stock m) = Some q \<and> pl_qty m \<le> q"
      unfolding s1(2) using Cons.prems(3) [of m] by simp
  qed
  ultimately show ?case by (simp add: bindM_app)
qed simp

end
