(* ===== verification/Checkout_Safe.thy ===== *)
theory Checkout_Safe
  imports Checkout_Lines
begin

text \<open>
  The whole of \<open>checkout\<close> and \<open>quick\_buy\<close>: either nothing is published, or exactly one order is,
  made from the priced lines, the discount and the delivery cost of that moment.
\<close>

subsection \<open>Totals\<close>

lemma quote_from_lines_Inr:
  assumes "quote_from_lines env redis lines c discount s = (Inr q, s')"
  shows "qo_subtotal q = lines_subtotal lines" "qo_discount_total q = discount"
    "qo_total q = lines_subtotal lines - discount + qo_delivery_cost q"
    "qo_delivery_type q = dc_type c" "qo_delivery_service q = dc_service c"
    "qo_item_count q = sum_list (map pl_qty lines)"
    "\<not> is_carrier c \<Longrightarrow> delivery_cost (env_cfg env) (max (lines_subtotal lines - discount) 0) (dc_type c)
       (dc_address_id c \<noteq> None \<or> dc_address c \<noteq> None) = Inr (qo_delivery_cost q)"
  using assms by (auto simp: quote_from_lines_def Let_def bindM_Inr split: if_splits)

lemma resolve_discount_Inr:
  assumes "resolve_discount env lines promo lock s = (Inr x, s')"
  shows "\<not> truthy promo \<and> x = 0 \<or>
    (\<exists>code p. promo = Some code \<and> usable env code (lines_subtotal lines) (work s) p \<and>
       x = compute_discount p (lines_subtotal lines))"
  using assms
  by (auto simp: resolve_discount_def bindM_Inr validate_Inr truthy_def split: if_splits option.splits)

lemma lines_subtotal_nonneg:
  "(\<And>l. l \<in> set lines \<Longrightarrow> 0 \<le> pl_price l \<and> 0 \<le> pl_qty l) \<Longrightarrow> 0 \<le> lines_subtotal lines"
  unfolding lines_subtotal_def by (induction lines) (auto simp: line_total_def)

lemma discount_bounds:
  assumes "resolve_discount env lines promo lock s = (Inr x, s')" "0 \<le> lines_subtotal lines"
  shows "0 \<le> x \<and> x \<le> lines_subtotal lines"
  using resolve_discount_Inr [OF assms(1)] assms(2) compute_discount_bounds by auto

lemma resolve_discount_lock:
  "resolve_discount env lines promo lock = resolve_discount env lines promo lock'"
  using validate_lock by (simp add: resolve_discount_def) metis

subsection \<open>Checkout up to the transaction\<close>

definition checkout_record ::
    "checkout_args \<Rightarrow> cart \<Rightarrow> priced_line list \<Rightarrow> snapshot \<Rightarrow> int option \<Rightarrow> np_snapshot option
      \<Rightarrow> money \<Rightarrow> quote_out \<Rightarrow> persist_args" where
  "checkout_record a c lines snap address_id np discount totals = \<lparr>
     pa_lines = lines, pa_user_id = ca_user_id a, pa_email = ca_email a, pa_phone = ca_phone a,
     pa_totals = totals, pa_delivery_type = dr_type (ca_delivery a),
     pa_delivery_address_id = address_id, pa_snapshot = snap,
     pa_promo_code = (if discount > 0 then ca_promo_code a else None),
     pa_cart_id = Some (c_id c), pa_payment_method = ca_payment_method a,
     pa_choice = Some (new_choice (ca_delivery a)), pa_np_snapshot = np\<rparr>"

definition card_step :: "environment \<Rightarrow> checkout_args \<Rightarrow> order_out \<Rightarrow> order_out act" where
  "card_step env a out =
    (if ca_payment_method a = CARD then
       bindM (checkout_card_payment env (oo_number out) (ca_client_ip a)) (\<lambda>u.
       ret (out\<lparr>oo_pay_url := Some u\<rparr>))
     else ret out)"

text \<open>What the steps before the transaction established.\<close>

definition prepared ::
    "environment \<Rightarrow> bool \<Rightarrow> checkout_args \<Rightarrow> session \<Rightarrow> cart \<Rightarrow> priced_line list \<Rightarrow> snapshot \<Rightarrow> int option
      \<Rightarrow> np_snapshot option \<Rightarrow> money \<Rightarrow> quote_out \<Rightarrow> bool" where
  "prepared env redis a s c lines snap address_id np discount totals \<longleftrightarrow>
    load_cart_lines (env_cfg env) (ca_user_id a) (ca_session_token a) (ca_lang a) (work s) = Inr (c, lines) \<and>
    validate_choice (env_cfg env) (new_choice (ca_delivery a)) = Inr () \<and>
    (\<exists>w w'. resolve_destination env redis (ca_user_id a) (ca_delivery a) (new_choice (ca_delivery a))
        (s\<lparr>outside := w\<rparr>) = (Inr (snap, address_id, np), s\<lparr>outside := w'\<rparr>)) \<and>
    (\<exists>w w'. resolve_discount env lines (ca_promo_code a) True (s\<lparr>outside := w\<rparr>) = (Inr discount, s\<lparr>outside := w'\<rparr>)) \<and>
    (\<exists>w w'. quote_from_lines env redis lines (new_choice (ca_delivery a)) discount (s\<lparr>outside := w\<rparr>)
        = (Inr totals, s\<lparr>outside := w'\<rparr>))"

lemma outside_again: "s\<lparr>outside := w\<rparr>\<lparr>outside := v\<rparr> = s\<lparr>outside := v\<rparr>" "s\<lparr>outside := outside s\<rparr> = s"
  for s :: session
  by simp_all

lemma checkout_unfold:
  "checkout env redis a =
    bindM (readsE (load_cart_lines (env_cfg env) (ca_user_id a) (ca_session_token a) (ca_lang a))) (\<lambda>(c, lines).
    bindM (liftE (validate_choice (env_cfg env) (new_choice (ca_delivery a)))) (\<lambda>_.
    bindM (resolve_destination env redis (ca_user_id a) (ca_delivery a) (new_choice (ca_delivery a))) (\<lambda>(snap, address_id, np).
    bindM (resolve_discount env lines (ca_promo_code a) True) (\<lambda>discount.
    bindM (quote_from_lines env redis lines (new_choice (ca_delivery a)) discount) (\<lambda>totals.
    bindM (persist_order env (checkout_record a c lines snap address_id np discount totals)) (card_step env a))))))"
  unfolding checkout_def checkout_record_def card_step_def Let_def ..

lemma outside_step_cases:
  assumes "outside_only m" "bindM m f s = (r, s')"
  obtains (raised) e w where "r = Inl e" "s' = s\<lparr>outside := w\<rparr>"
  | (went) x w where "m s = (Inr x, s\<lparr>outside := w\<rparr>)" "f x (s\<lparr>outside := w\<rparr>) = (r, s')"
proof -
  obtain q s1 where m: "m s = (q, s1)" by fastforce
  with assms(1) obtain w where w: "s1 = s\<lparr>outside := w\<rparr>" using outside_onlyD by blast
  show thesis
  proof (cases q)
    case (Inl e)
    with assms(2) m w show thesis by (intro raised [of e w]) (auto simp: bindM_app)
  next
    case (Inr x)
    with assms(2) m w show thesis by (intro went [of x w]) (auto simp: bindM_app)
  qed
qed

lemma checkout_cases:
  assumes run: "checkout env redis a s = (r, s')"
  obtains (stopped) e w where "r = Inl e" "s' = s\<lparr>outside := w\<rparr>"
  | (ran) c lines snap address_id np discount totals w where
      "prepared env redis a s c lines snap address_id np discount totals"
      "bindM (persist_order env (checkout_record a c lines snap address_id np discount totals)) (card_step env a)
         (s\<lparr>outside := w\<rparr>) = (r, s')"
proof -
  from run [unfolded checkout_unfold] show thesis
  proof (cases rule: outside_step_cases [OF outside_only_prims(4), consumes 1, case_names raised went])
    case (raised e w)
    then show thesis by (rule stopped)
  next
    case (went x w)
    obtain c lines where x: "x = (c, lines)" by fastforce
    have load: "load_cart_lines (env_cfg env) (ca_user_id a) (ca_session_token a) (ca_lang a) (work s) = Inr (c, lines)"
      using went(1) x by simp
    from went(2) [unfolded x prod.case] show thesis
    proof (cases rule: outside_step_cases [OF outside_only_prims(3), consumes 1, case_names raised went])
      case (raised e w1)
      then show thesis by (intro stopped [of e w1]) simp_all
    next
      case (went u w1)
      then have valid: "validate_choice (env_cfg env) (new_choice (ca_delivery a)) = Inr ()" by simp
      from went(2) show thesis
      proof (cases rule: outside_step_cases [OF outside_only_steps(5), consumes 1, case_names raised went])
        case (raised e w2)
        then show thesis by (intro stopped [of e w2]) simp_all
      next
        case (went y w2)
        obtain snap address_id np where y: "y = (snap, address_id, np)" by (cases y) auto
        have dest: "resolve_destination env redis (ca_user_id a) (ca_delivery a) (new_choice (ca_delivery a))
            (s\<lparr>outside := w1\<rparr>) = (Inr (snap, address_id, np), s\<lparr>outside := w2\<rparr>)"
          using went(1) y by simp
        from went(2) [unfolded y prod.case] show thesis
        proof (cases rule: outside_step_cases [OF outside_only_steps(1), consumes 1, case_names raised went])
          case (raised e w3)
          then show thesis by (intro stopped [of e w3]) simp_all
        next
          case (went discount w3)
          then have disc: "resolve_discount env lines (ca_promo_code a) True (s\<lparr>outside := w2\<rparr>) = (Inr discount, s\<lparr>outside := w3\<rparr>)"
            by simp
          from went(2) show thesis
          proof (cases rule: outside_step_cases [OF outside_only_steps(4), consumes 1, case_names raised went])
            case (raised e w4)
            then show thesis by (intro stopped [of e w4]) simp_all
          next
            case (went totals w4)
            then have tot: "quote_from_lines env redis lines (new_choice (ca_delivery a)) discount (s\<lparr>outside := w3\<rparr>)
                = (Inr totals, s\<lparr>outside := w4\<rparr>)" by simp
            have "prepared env redis a s c lines snap address_id np discount totals"
              unfolding prepared_def using load valid dest disc tot by blast
            moreover have "bindM (persist_order env (checkout_record a c lines snap address_id np discount totals))
                (card_step env a) (s\<lparr>outside := w4\<rparr>) = (r, s')" using went(2) by simp
            ultimately show thesis by (rule ran)
          qed
        qed
      qed
    qed
  qed
qed

subsection \<open>The card payment after the order\<close>

text \<open>Initiating a payment writes payment rows and nothing else.\<close>

definition only_payments :: "session \<Rightarrow> session \<Rightarrow> bool" where
  "only_payments s t \<longleftrightarrow> (\<exists>ps. work t = (work s)\<lparr>t_payment := ps\<rparr>) \<and>
    (committed t = committed s \<or> (\<exists>ps. committed t = (work s)\<lparr>t_payment := ps\<rparr>)) \<and>
    outbox t = outbox s \<and> order_number_seq t = order_number_seq s \<and> (\<forall>k. k \<noteq> Payment_T \<longrightarrow> pk_seq t k = pk_seq s k)"

lemma only_payments_refl: "only_payments s s"
  unfolding only_payments_def by (auto intro: exI [of _ "t_payment (work s)"])

lemma only_payments_prims:
  "preserves (only_payments s) (writes (set_payment i f))"
  "preserves (only_payments s) (writes (\<lambda>d. d\<lparr>t_payment := g d\<rparr>))"
  "preserves (only_payments s) (next_id Payment_T)"
  "preserves (only_payments s) commit"
  "preserves (only_payments s) (remote m)"
proof -
  show w: "preserves (only_payments s) (writes (\<lambda>d. d\<lparr>t_payment := g d\<rparr>))" for g
    by (rule preserves_writes) (auto simp: only_payments_def)
  show "preserves (only_payments s) (writes (set_payment i f))"
    unfolding set_payment_def by (rule w)
  show "preserves (only_payments s) (next_id Payment_T)"
    by (rule preserves_next_id) (auto simp: only_payments_def)
  show "preserves (only_payments s) commit"
    by (rule preserves_commit) (auto simp: only_payments_def)
  show "preserves (only_payments s) (remote m)"
    by (rule preservesI, drule remote_step) (auto simp: only_payments_def)
qed

lemma initiate_only_payments: "preserves (only_payments s) (initiate_card_payment env x ip lang)"
  unfolding initiate_card_payment_def add_payment_def Let_def by (intro pres only_payments_prims)

lemma card_step_only_payments: "preserves (only_payments s) (card_step env a out)"
  unfolding card_step_def checkout_card_payment_def
  by (intro pres initiate_only_payments)

lemma card_step_out: "card_step env a out s = (Inr out', s') \<Longrightarrow> \<exists>u. out' = out\<lparr>oo_pay_url := u\<rparr>"
  by (auto simp: card_step_def bindM_Inr split: if_splits intro: exI [of _ "oo_pay_url out"])

subsection \<open>The outcome of a checkout\<close>

lemma outside_frame [simp]:
  "inserted env a (s\<lparr>outside := w\<rparr>) = inserted env a s" "confirmation env a (s\<lparr>outside := w\<rparr>) = confirmation env a s"
  "placed_row env a (s\<lparr>outside := w\<rparr>) = placed_row env a s" "placed_items a (s\<lparr>outside := w\<rparr>) = placed_items a s"
  "placed_carrier a (s\<lparr>outside := w\<rparr>) = placed_carrier a s" "drawn a (s\<lparr>outside := w\<rparr>) = drawn a s"
proof -
  show carrier: "placed_carrier a (s\<lparr>outside := w\<rparr>) = placed_carrier a s"
    by (simp add: placed_carrier_def split: option.split)
  show row: "placed_row env a (s\<lparr>outside := w\<rparr>) = placed_row env a s"
    and items: "placed_items a (s\<lparr>outside := w\<rparr>) = placed_items a s"
    by (simp_all add: placed_row_def placed_items_def order_number_def)
  show "inserted env a (s\<lparr>outside := w\<rparr>) = inserted env a s"
    unfolding inserted_def carrier row items by (simp add: opening_row_def)
qed (simp_all add: confirmation_def drawn_def order_number_def)

text \<open>The published tables after an order: the inserts, the new stock and perhaps a payment row.\<close>

definition published :: "environment \<Rightarrow> persist_args \<Rightarrow> session \<Rightarrow> session \<Rightarrow> bool" where
  "published env a s s' \<longleftrightarrow>
    order_insertable (placed_row env a s) (work s) \<and>
    (\<exists>ps vs pay. committed s' = (inserted env a s)\<lparr>t_product := ps, t_variant := vs, t_payment := pay\<rparr>) \<and>
    stock_of (committed s') = (\<lambda>k. map_option (\<lambda>q. q - ordered (pa_lines a) k) (stock_of (work s) k)) \<and>
    stock_wf (committed s') \<and> (stock.nonneg s \<longrightarrow> (\<forall>k q. stock_of (committed s') k = Some q \<longrightarrow> 0 \<le> q)) \<and>
    (\<forall>l \<in> set (pa_lines a). stock_of (work s) (line_stock l) \<noteq> None) \<and>
    (\<exists>pay. work s' = (committed s')\<lparr>t_payment := pay\<rparr>) \<and>
    outbox s' = outbox s @ confirmation env a s \<and>
    order_number_seq s' = order_number_seq s + 1 \<and> (\<forall>k. k \<noteq> Payment_T \<longrightarrow> pk_seq s' k = drawn a s k)"

lemma stock_payment [simp]: "stock_of (d\<lparr>t_payment := ps\<rparr>) = stock_of d" "stock_wf (d\<lparr>t_payment := ps\<rparr>) = stock_wf d"
proof -
  have "stock_of (d\<lparr>t_payment := ps\<rparr>) k = stock_of d k" for k by (cases k) simp_all
  then show "stock_of (d\<lparr>t_payment := ps\<rparr>) = stock_of d" by (simp add: fun_eq_iff)
qed (simp add: stock_wf_def)

lemma published_pay:
  assumes "published env a s s1" "work s1 = committed s1" "only_payments s1 s2"
  shows "published env a s s2"
proof -
  from assms(3) obtain ps where ps: "work s2 = (work s1)\<lparr>t_payment := ps\<rparr>"
    and f: "outbox s2 = outbox s1" "order_number_seq s2 = order_number_seq s1" "\<forall>k. k \<noteq> Payment_T \<longrightarrow> pk_seq s2 k = pk_seq s1 k"
    by (auto simp: only_payments_def)
  have "committed s1 = (work s1)\<lparr>t_payment := t_payment (work s1)\<rparr>" using assms(2) by simp
  with assms(3) obtain qs where qs: "committed s2 = (committed s1)\<lparr>t_payment := qs\<rparr>"
    unfolding only_payments_def assms(2) by metis
  have st: "stock_of (committed s2) = stock_of (committed s1)" "stock_wf (committed s2) = stock_wf (committed s1)"
    using qs by simp_all
  from assms(1) obtain pp vs pay where "committed s1 = (inserted env a s)\<lparr>t_product := pp, t_variant := vs, t_payment := pay\<rparr>"
    by (auto simp: published_def)
  then have "committed s2 = (inserted env a s)\<lparr>t_product := pp, t_variant := vs, t_payment := qs\<rparr>"
    using qs by simp
  then have "\<exists>pp vs pay. committed s2 = (inserted env a s)\<lparr>t_product := pp, t_variant := vs, t_payment := pay\<rparr>"
    by blast
  moreover have "\<exists>pay. work s2 = (committed s2)\<lparr>t_payment := pay\<rparr>" using ps qs assms(2) by auto
  ultimately show ?thesis
    using assms(1) f unfolding published_def st by (elim conjE, intro conjI) simp_all
qed

lemma persist_published:
  assumes "stock_wf (work s)" "persist_order env a s = (Inr out, s')"
  shows "published env a s s'" "work s' = committed s'"
    "out = from_order (placed_row env a s) (placed_items a s) (placed_carrier a s) False"
  using assms(1,2)
proof (atomize (full), cases rule: persist_cases)
  case (placed ps vs)
  have "t_payment (inserted env a s) = t_payment (inserted env a s)" ..
  then have "\<exists>ps' vs' pay. committed s' = (inserted env a s)\<lparr>t_product := ps', t_variant := vs', t_payment := pay\<rparr>"
    using placed by (intro exI [of _ ps] exI [of _ vs] exI [of _ "t_payment (inserted env a s)"]) simp
  moreover have "\<exists>pay. work s' = (committed s')\<lparr>t_payment := pay\<rparr>"
    using placed(4) by (intro exI [of _ "t_payment (work s')"]) simp
  ultimately show "published env a s s' \<and> work s' = committed s' \<and>
      out = from_order (placed_row env a s) (placed_items a s) (placed_carrier a s) False"
    using placed unfolding published_def by (simp add: stock.nonneg_def)
qed simp_all

lemma persist_failed:
  assumes "stock_wf (work s)" "persist_order env a s = (Inl e, s')"
  shows "committed s' = committed s" "outbox s' = outbox s" "work s' = work s \<or> work s' = committed s"
  using assms by (cases rule: persist_cases; simp)+

lemma checkout_outcome:
  assumes wf: "stock_wf (work s)" and run: "checkout env redis a s = (r, s')"
  obtains (nothing) e where "r = Inl e" "committed s' = committed s" "outbox s' = outbox s"
      "work s' = work s \<or> work s' = committed s"
  | (placed) c lines snap address_id np discount totals where
      "prepared env redis a s c lines snap address_id np discount totals"
      "published env (checkout_record a c lines snap address_id np discount totals) s s'"
      "\<And>out. r = Inr out \<Longrightarrow> \<exists>u. out = (from_order (placed_row env (checkout_record a c lines snap address_id np discount totals) s)
        (placed_items (checkout_record a c lines snap address_id np discount totals) s)
        (placed_carrier (checkout_record a c lines snap address_id np discount totals) s) False)\<lparr>oo_pay_url := u\<rparr>"
      "ca_payment_method a \<noteq> CARD \<Longrightarrow> (\<exists>out. r = Inr out) \<and> work s' = committed s'"
  using run
proof (cases rule: checkout_cases)
  case (stopped e w)
  show thesis by (rule nothing [of e]) (use stopped in simp_all)
next
  case (ran c lines snap address_id np discount totals w)
  let ?A = "checkout_record a c lines snap address_id np discount totals"
  have wf': "stock_wf (work (s\<lparr>outside := w\<rparr>))" using wf by simp
  obtain q s1 where p: "persist_order env ?A (s\<lparr>outside := w\<rparr>) = (q, s1)" by fastforce
  show thesis
  proof (cases q)
    case (Inl e)
    with ran(2) p have r: "r = Inl e" "s' = s1" by (auto simp: bindM_app)
    show thesis
      by (rule nothing [of e]) (use r persist_failed [OF wf' p [unfolded Inl]] in simp_all)
  next
    case (Inr out)
    note pub = persist_published [OF wf' p [unfolded Inr], simplified]
    have step: "card_step env a out s1 = (r, s')" using ran(2) p Inr by (simp add: bindM_app)
    have frame: "only_payments s1 s'"
      by (rule preservesD [OF card_step_only_payments step only_payments_refl])
    have "published env ?A s s1" using pub(1) by (simp add: published_def stock.nonneg_def)
    then have "published env ?A s s'" using pub(2) frame by (rule published_pay)
    with ran(1) show thesis
    proof (rule placed)
      show "\<exists>u. o' = (from_order (placed_row env ?A s) (placed_items ?A s) (placed_carrier ?A s) False)\<lparr>oo_pay_url := u\<rparr>"
        if "r = Inr o'" for o'
        using card_step_out [OF step [unfolded that]] unfolding pub(3) .
      show "(\<exists>out. r = Inr out) \<and> work s' = committed s'" if "ca_payment_method a \<noteq> CARD"
        using step that pub(2) by (auto simp: card_step_def)
    qed
  qed
qed

end
