(* ===== verification/Checkout_Invariants.thy ===== *)
theory Checkout_Invariants
  imports Checkout_Safe
begin

text \<open>
  The invariants across checkout: the audit trail of every order, the uniqueness of numbers,
  the rows an order owns; and what the published order says about the cart it came from.
\<close>

subsection \<open>The rows of the new order\<close>

lemma placed_row_id [simp]: "o_id (placed_row env a s) = pk_seq s Order_T"
  "o_number (placed_row env a s) = order_number env s" "o_status (placed_row env a s) = ''new''"
  "o_payment_status (placed_row env a s) = ''pending''" "o_total (placed_row env a s) = qo_total (pa_totals a)"
  "o_subtotal (placed_row env a s) = qo_subtotal (pa_totals a)"
  "o_discount_total (placed_row env a s) = qo_discount_total (pa_totals a)"
  "o_delivery_cost (placed_row env a s) = qo_delivery_cost (pa_totals a)"
  "o_user_id (placed_row env a s) = pa_user_id a" "o_promo_code (placed_row env a s) = pa_promo_code a"
  "o_payment_method (placed_row env a s) = pa_payment_method a"
  by (simp_all add: placed_row_def order_row_def persist_order_args_def split: prod.splits)

lemma published_tables:
  assumes "published env a s s'"
  shows "t_order (committed s') = t_order (work s) @ [placed_row env a s]"
    "t_order_item (committed s') = t_order_item (work s) @ placed_items a s"
    "t_history (committed s') = t_history (work s) @ [opening_row env s 0 ''new'', opening_row env s 1 ''pending'']"
    "t_cart (committed s') = converted a (t_cart (work s))" "t_cart_item (committed s') = t_cart_item (work s)"
    "t_promo (committed s') = t_promo (work s)" "t_address (committed s') = t_address (work s)"
    "t_np (committed s') = t_np (work s) @ (case placed_carrier a s of None \<Rightarrow> [] | Some r \<Rightarrow> [r])"
    "t_order (work s') = t_order (committed s')" "t_order_item (work s') = t_order_item (committed s')"
    "t_history (work s') = t_history (committed s')" "t_cart (work s') = t_cart (committed s')"
    "t_cart_item (work s') = t_cart_item (committed s')" "stock_of (work s') = stock_of (committed s')"
    "stock_wf (work s') = stock_wf (committed s')"
  using assms by (auto simp: published_def inserted_def)

lemma item_rows_order: "i \<in> set (item_rows n oid lines) \<Longrightarrow> oi_order_id i = oid"
  by (induction lines arbitrary: n) auto

lemma item_rows_held:
  "sum_where (\<lambda>i. oi_order_id i = oid \<and> item_key i = Some k) oi_qty (item_rows n oid lines) = ordered lines k"
  by (induction lines arbitrary: n) (auto simp: item_key_def line_stock_def split: option.splits)

lemma item_rows_total:
  "sum_list (map (\<lambda>i. oi_price_snapshot i * of_int (oi_qty i)) (item_rows n oid lines)) = lines_subtotal lines"
  by (induction lines arbitrary: n) (auto simp: lines_subtotal_def line_total_def)

subsection \<open>Lines belong to orders\<close>

definition items_ok :: "session \<Rightarrow> bool" where
  "items_ok s \<longleftrightarrow> (\<forall>d \<in> {work s, committed s}. \<forall>i \<in> set (t_order_item d). oi_order_id i < pk_seq s Order_T)"

lemma held_placed:
  assumes "items_ok s" "published env a s s'"
  shows "held (committed s') (pk_seq s Order_T) = ordered (pa_lines a)"
proof
  fix k
  have "sum_where (\<lambda>i. oi_order_id i = pk_seq s Order_T \<and> item_key i = Some k) oi_qty (t_order_item (work s)) = 0"
  proof -
    have "filter (\<lambda>i. oi_order_id i = pk_seq s Order_T \<and> item_key i = Some k) (t_order_item (work s)) = []"
      using assms(1) by (auto simp: items_ok_def filter_empty_conv)
    then show ?thesis by (simp add: sum_where_def)
  qed
  then show "held (committed s') (pk_seq s Order_T) k = ordered (pa_lines a) k"
    by (simp add: held_def published_tables [OF assms(2)] placed_items_def item_rows_held)
qed

lemma items_ok_published:
  assumes "items_ok s" "published env a s s'"
  shows "items_ok s'"
proof -
  have "pk_seq s' Order_T = pk_seq s Order_T + 1" using assms(2) by (simp add: published_def drawn_def)
  then show ?thesis
    using assms(1) by (auto simp: items_ok_def published_tables [OF assms(2)] placed_items_def dest!: item_rows_order)
qed

subsection \<open>The audit trail\<close>

lemma trail_append_rows:
  "trail axis oid (d\<lparr>t_history := hs @ hs'\<rparr>) = trail axis oid (d\<lparr>t_history := hs\<rparr>) @ trail axis oid (d\<lparr>t_history := hs'\<rparr>)"
  by (simp add: trail_def)

lemma orders_ok_extend:
  assumes ok: "orders_ok sq d" and id: "o_id x = sq Order_T" and st: "o_status x = ''new''" "o_payment_status x = ''pending''"
    and h: "h_order_id ha = o_id x" "h_from_status ha = []" "h_to_status ha = ''new''"
      "h_order_id hb = o_id x" "h_from_status hb = []" "h_to_status hb = ''pending''"
    and d': "t_order d' = t_order d @ [x]" "t_history d' = t_history d @ [ha, hb]" and sq: "sq' Order_T = sq Order_T + 1"
  shows "orders_ok sq' d'"
proof -
  have new: "trail axis (o_id x) d = []" for axis
  proof -
    have "h_order_id r \<noteq> o_id x" if "r \<in> set (t_history d)" for r
      using ok that id by (fastforce simp: orders_ok_def)
    then show ?thesis by (auto simp: trail_def filter_empty_conv)
  qed
  have tr: "trail ORDER_STATUSES oid d' = trail ORDER_STATUSES oid d @ (if oid = o_id x then [([], ''new'')] else [])"
    "trail PAYMENT_STATUSES oid d' = trail PAYMENT_STATUSES oid d @ (if oid = o_id x then [([], ''pending'')] else [])" for oid
    by (simp_all add: trail_def d' h ORDER_STATUSES_def PAYMENT_STATUSES_def)
  have old: "audited d' y" if "y \<in> set (t_order d)" for y
  proof -
    have "o_id y \<noteq> o_id x" using ok that id by (fastforce simp: orders_ok_def)
    then show ?thesis using ok that tr by (simp add: orders_ok_def audited_def)
  qed
  have "audited d' x"
    unfolding audited_def tr new by (simp add: st)
  moreover have "distinct (map o_id (t_order d'))"
    using ok id by (fastforce simp: orders_ok_def d' image_iff)
  moreover have "\<forall>y \<in> set (t_order d'). o_id y < sq' Order_T" using ok id by (auto simp: orders_ok_def d' sq)
  ultimately show ?thesis using ok old h by (auto simp: orders_ok_def d')
qed

lemma orders_inv_published:
  assumes "orders_inv s" "published env a s s'"
  shows "orders_inv s'"
proof -
  have ok: "orders_ok (pk_seq s) (work s)" using assms(1) by (simp add: orders_inv_def)
  have sq: "pk_seq s' Order_T = pk_seq s Order_T + 1" using assms(2) by (simp add: published_def drawn_def)
  have "orders_ok (pk_seq s') d" if "t_order d = t_order (committed s')" "t_history d = t_history (committed s')" for d
    by (rule orders_ok_extend [OF ok, where x = "placed_row env a s" and ha = "opening_row env s 0 ''new''"
          and hb = "opening_row env s 1 ''pending''"])
      (simp_all add: that published_tables [OF assms(2)] opening_row_def sq)
  then have "orders_ok (pk_seq s') (committed s')" "orders_ok (pk_seq s') (work s')"
    by (simp_all add: published_tables [OF assms(2)])
  then show ?thesis by (simp add: orders_inv_def)
qed

lemma numbers_ok_published:
  assumes "numbers_ok s" "published env a s s'"
  shows "numbers_ok s'"
proof -
  have "next_order_number env s = (Inr (order_number env s), s\<lparr>order_number_seq := order_number_seq s + 1\<rparr>)"
    by (simp add: next_order_number_def order_number_def)
  note fresh = next_order_number_fresh [OF assms(1) this]
  have n: "order_number_seq s' = order_number_seq s + 1" using assms(2) by (simp add: published_def)
  have row: "\<exists>e n. int n < order_number_seq s + 1 \<and> order_number env s = today_str e @ ''-'' @ zero_pad NUMBER_PAD (nat_str n)"
    using assms(1) unfolding order_number_def numbers_ok_def
    by (intro exI [of _ env] exI [of _ "nat (order_number_seq s)"]) simp
  show ?thesis
    using fresh(2,3) row unfolding numbers_ok_def n
    by (auto simp: published_tables [OF assms(2)])
qed

subsection \<open>The cart\<close>

text \<open>The cart an order was made from is converted: the caller has no active cart any more.\<close>

lemma published_cart_gone:
  assumes "published env a s s'" "pa_cart_id a = Some (c_id c)"
    "get_active_cart uid tok (work s) = Inr (Some c)"
  shows "get_active_cart uid tok (committed s') = Inr None"
proof -
  let ?P = "\<lambda>x. (case uid of Some u \<Rightarrow> c_user_id x = Some u | None \<Rightarrow> (case tok of Some t \<Rightarrow> c_session_token x = Some t | None \<Rightarrow> False))
      \<and> c_status x = ACTIVE_CART_STATUS"
  have form: "get_active_cart uid tok d = scalar_one_or_none (filter ?P (t_cart d))" for d
    by (cases uid; cases tok; simp add: get_active_cart_def scalar_one_or_none_def)
  have "filter ?P (t_cart (work s)) = [c]"
    using assms(3) by (simp add: form scalar_one_or_none_Inr)
  then have only: "x = c" if "x \<in> set (t_cart (work s))" "?P x" for x
  proof -
    have "x \<in> set (filter ?P (t_cart (work s)))" using that by simp
    then show ?thesis unfolding \<open>filter ?P (t_cart (work s)) = [c]\<close> by simp
  qed
  have "filter ?P (converted a (t_cart (work s))) = []"
    using only by (auto simp: converted_def assms(2) set_upd filter_empty_conv CONVERTED_CART_STATUS_def ACTIVE_CART_STATUS_def)
  then show ?thesis
    by (simp add: form published_tables [OF assms(1)] scalar_one_or_none_def)
qed

subsection \<open>The coupon\<close>

lemma count_published:
  assumes "published env a s s'" "pa_promo_code a = Some code"
  shows "count_orders_using code (committed s') = Suc (count_orders_using code (work s))"
  by (simp add: count_orders_using_def rowcount_def published_tables [OF assms(1)] assms(2))

end
