(* ===== verification/Checkout_Quote.thy ===== *)
theory Checkout_Quote
  imports Checkout_Invariants
begin

text \<open>
  The quote and the checkout agree: a cart that could be quoted for our own delivery is bought,
  in the same transaction state, at exactly the quoted figures.
\<close>

lemma own_quote_from_lines:
  assumes "\<not> is_carrier c"
  shows "quote_from_lines env redis lines c x s =
    (case delivery_cost (env_cfg env) (max (lines_subtotal lines - x) 0) (dc_type c)
        (dc_address_id c \<noteq> None \<or> dc_address c \<noteq> None) of
      Inl e \<Rightarrow> (Inl e, s)
    | Inr cost \<Rightarrow> (Inr \<lparr>qo_subtotal = lines_subtotal lines, qo_discount_total = x, qo_delivery_cost = cost,
          qo_total = lines_subtotal lines - x + cost, qo_delivery_type = dc_type c,
          qo_delivery_service = dc_service c, qo_item_count = sum_list (map pl_qty lines)\<rparr>, s))"
  using assms by (auto simp: quote_from_lines_def Let_def bindM_app split: sum.splits)

lemma resolve_discount_state: "resolve_discount env lines promo lock s = (r, s') \<Longrightarrow> s' = s"
proof -
  have ro: "snd (validate_and_compute env code x lock s) = s" for code x
    by (rule validate_read_only)
  show "resolve_discount env lines promo lock s = (r, s') \<Longrightarrow> s' = s"
    using ro [of "the promo" "lines_subtotal lines"]
    by (auto simp: resolve_discount_def bindM_app split: if_splits prod.splits sum.splits)
qed

lemma own_quote:
  assumes own: "dr_service dr \<noteq> NOVAPOST" and run: "quote env redis uid tok dr promo lang s = (Inr q, s')"
  obtains c lines snap discount where "s' = s"
    "validate_choice (env_cfg env) (new_choice dr) = Inr ()"
    "load_cart_lines (env_cfg env) uid tok lang (work s) = Inr (c, lines)"
    "resolve_delivery_snapshot uid (dr_type dr) (dr_address_id dr) (dr_address dr) (work s) = Inr snap"
    "resolve_discount env lines promo True s = (Inr discount, s)"
    "quote_from_lines env redis lines (new_choice dr) discount s = (Inr q, s)"
proof -
  have nc: "\<not> is_carrier (new_choice dr)" using own by (simp add: is_carrier_def new_choice_def)
  from run nc obtain c lines snap discount s1 where
    v: "validate_choice (env_cfg env) (new_choice dr) = Inr ()"
    and l: "load_cart_lines (env_cfg env) uid tok lang (work s) = Inr (c, lines)"
    and a: "resolve_delivery_snapshot uid (dr_type dr) (dr_address_id dr) (dr_address dr) (work s) = Inr snap"
    and d: "resolve_discount env lines promo False s = (Inr discount, s1)"
    and t: "quote_from_lines env redis lines (new_choice dr) discount s1 = (Inr q, s')"
    by (auto simp: quote_def Let_def bindM_Inr split: prod.splits)
  have s1: "s1 = s" using resolve_discount_state [OF d] .
  with t nc have s': "s' = s" by (auto simp: own_quote_from_lines split: sum.splits)
  have d': "resolve_discount env lines promo True s = (Inr discount, s)"
    using d s1 by (simp add: resolve_discount_lock [of env lines promo True False])
  show thesis
    by (rule that [OF s' v l a d']) (use t s1 s' in simp)
qed

text \<open>The address an order refers to is one of the table's.\<close>

definition address_known :: "delivery_request \<Rightarrow> db \<Rightarrow> bool" where
  "address_known dr d \<longleftrightarrow> (dr_type dr = PICKUP \<longrightarrow>
    (case dr_address_id dr of None \<Rightarrow> True | Some i \<Rightarrow> list_ex (\<lambda>r. a_id r = i) (t_address d)))"

lemma snapshot_address:
  assumes "resolve_delivery_snapshot uid ty (Some i) addr d = Inr snap" "ty \<noteq> PICKUP"
  shows "\<exists>u r. uid = Some u \<and> r \<in> set (t_address d) \<and> a_id r = i \<and> a_user_id r = u \<and>
    snap = (Some (a_full_name r), Some (a_city r), Some (a_street r), a_zip r)"
  using assms
  by (auto simp: resolve_delivery_snapshot_def load_owned_address_def get_address_def bindE_Inr
      scalar_one_or_none_Inr filter_eq_Cons_iff split: option.splits)

lemma persist_succeeds:
  assumes "order_insertable (placed_row env a s) (work s)" "stock_wf (work s)" "distinct (map line_stock (pa_lines a))"
    "\<And>l. l \<in> set (pa_lines a) \<Longrightarrow> \<exists>q. stock_of (work s) (line_stock l) = Some q \<and> pl_qty l \<le> q"
  shows "\<exists>s'. persist_order env a s =
    (Inr (from_order (placed_row env a s) (placed_items a s) (placed_carrier a s) False), s')"
proof -
  obtain r s' where run: "persist_order env a s = (r, s')" by fastforce
  from persist_head [OF assms(1)] obtain s1 where s1: "work s1 = inserted env a s"
    and eq: "persist_order env a s = bindM (forEach (pa_lines a) decrement_line) (\<lambda>_.
      bindM commit (\<lambda>_.
      bindM (send_confirmation env (order_number env s) (pa_email a) (qo_total (pa_totals a))
        (delivery_line (pa_choice a) (pa_snapshot a) (pa_np_snapshot a))) (\<lambda>_.
      ret (from_order (placed_row env a s) (placed_items a s) (placed_carrier a s) False)))) s1"
    by blast
  have "fst (forEach (pa_lines a) decrement_line s1) = Inr ()"
    by (rule loop_succeeds) (use assms s1 in simp_all)
  then obtain s2 where "forEach (pa_lines a) decrement_line s1 = (Inr (), s2)"
    by (cases "forEach (pa_lines a) decrement_line s1") simp
  then show ?thesis unfolding eq by (simp add: bindM_app send_confirmation_def)
qed

lemma number_free:
  assumes "numbers_ok s"
  shows "list_all (\<lambda>y. o_number y \<noteq> order_number env s) (t_order (work s))"
proof -
  have run: "next_order_number env s = (Inr (order_number env s), s\<lparr>order_number_seq := order_number_seq s + 1\<rparr>)"
    by (simp add: next_order_number_def order_number_def)
  show ?thesis
    unfolding list_all_iff
  proof
    fix y assume "y \<in> set (t_order (work s))"
    then show "o_number y \<noteq> order_number env s"
      by (rule next_order_number_fresh(3) [OF assms run UnI1])
  qed
qed

lemma own_checkout_run:
  assumes own: "dr_service (ca_delivery a) \<noteq> NOVAPOST"
    and q: "quote env redis (ca_user_id a) (ca_session_token a) (ca_delivery a) (ca_promo_code a) (ca_lang a) s = (Inr q, s')"
  obtains c lines snap discount where
    "load_cart_lines (env_cfg env) (ca_user_id a) (ca_session_token a) (ca_lang a) (work s) = Inr (c, lines)"
    "resolve_delivery_snapshot (ca_user_id a) (dr_type (ca_delivery a)) (dr_address_id (ca_delivery a))
      (dr_address (ca_delivery a)) (work s) = Inr snap"
    "checkout env redis a s = bindM (persist_order env
      (checkout_record a c lines snap (dr_address_id (ca_delivery a)) None discount q)) (card_step env a) s"
proof -
  let ?dr = "ca_delivery a"
  obtain c lines snap discount where "s' = s"
    and v: "validate_choice (env_cfg env) (new_choice ?dr) = Inr ()"
    and l: "load_cart_lines (env_cfg env) (ca_user_id a) (ca_session_token a) (ca_lang a) (work s) = Inr (c, lines)"
    and addr: "resolve_delivery_snapshot (ca_user_id a) (dr_type ?dr) (dr_address_id ?dr) (dr_address ?dr) (work s) = Inr snap"
    and d: "resolve_discount env lines (ca_promo_code a) True s = (Inr discount, s)"
    and t: "quote_from_lines env redis lines (new_choice ?dr) discount s = (Inr q, s)"
    by (rule own_quote [OF own q])
  have nc: "\<not> is_carrier (new_choice ?dr)" using own by (simp add: is_carrier_def new_choice_def)
  have dest: "resolve_destination env redis (ca_user_id a) ?dr (new_choice ?dr) s = (Inr (snap, dr_address_id ?dr, None), s)"
    using nc addr by (simp add: resolve_destination_def bindM_app)
  show thesis
    by (rule that [OF l addr]) (simp add: checkout_unfold bindM_app l v dest d t)
qed

lemma placed_address:
  "o_delivery_address_id (placed_row env a s) = pa_delivery_address_id a"
  by (simp add: placed_row_def order_row_def persist_order_args_def split: prod.splits)

lemma own_checkout:
  assumes own: "dr_service (ca_delivery a) \<noteq> NOVAPOST" and cod: "ca_payment_method a \<noteq> CARD"
    and q: "quote env redis (ca_user_id a) (ca_session_token a) (ca_delivery a) (ca_promo_code a) (ca_lang a) s = (Inr q, s')"
    and ok: "numbers_ok s" "lines_wf (work s)" "stock_wf (work s)" "address_known (ca_delivery a) (work s)"
  shows "\<exists>out s2. checkout env redis a s = (Inr out, s2) \<and> oo_total out = qo_total q \<and>
    oo_subtotal out = qo_subtotal q \<and> oo_discount_total out = qo_discount_total q \<and>
    oo_delivery_cost out = qo_delivery_cost q"
proof -
  let ?dr = "ca_delivery a"
  obtain c lines snap discount where
    l: "load_cart_lines (env_cfg env) (ca_user_id a) (ca_session_token a) (ca_lang a) (work s) = Inr (c, lines)"
    and addr: "resolve_delivery_snapshot (ca_user_id a) (dr_type ?dr) (dr_address_id ?dr) (dr_address ?dr) (work s) = Inr snap"
    and run: "checkout env redis a s = bindM (persist_order env
      (checkout_record a c lines snap (dr_address_id ?dr) None discount q)) (card_step env a) s"
    by (rule own_checkout_run [OF own q])
  let ?A = "checkout_record a c lines snap (dr_address_id ?dr) None discount q"
  have A: "pa_lines ?A = lines" "pa_totals ?A = q" "pa_delivery_address_id ?A = dr_address_id ?dr"
    by (simp_all add: checkout_record_def)
  have addr_ok: "case dr_address_id ?dr of None \<Rightarrow> True | Some i \<Rightarrow> list_ex (\<lambda>r. a_id r = i) (t_address (work s))"
  proof (cases "dr_address_id ?dr")
    case (Some i)
    show ?thesis
    proof (cases "dr_type ?dr = PICKUP")
      case True
      with ok(4) Some show ?thesis by (simp add: address_known_def)
    next
      case False
      from snapshot_address [OF addr [unfolded Some] False] Some show ?thesis by (auto simp: list_ex_iff)
    qed
  qed simp
  then have "order_insertable (placed_row env ?A s) (work s)"
    using number_free [OF ok(1)] by (simp add: order_insertable_def placed_address A(3))
  then obtain s2 where p: "persist_order env ?A s =
      (Inr (from_order (placed_row env ?A s) (placed_items ?A s) (placed_carrier ?A s) False), s2)"
    using persist_succeeds [of env ?A s] ok(3) loaded_distinct [OF l ok(2,3)]
      priced_stock [OF ok(3) load_cart_lines_Inr(4) [OF l]] by (auto simp: A)
  then show ?thesis
    unfolding run using cod A(2) by (simp add: bindM_app card_step_def from_order_def)
qed

text \<open>
  A pickup order keeps the address id of its request without looking it up: an id that is in no
  row is refused only by the foreign key, after the quote has succeeded.
\<close>

lemma pickup_stray_address:
  assumes own: "dr_service (ca_delivery a) \<noteq> NOVAPOST"
    and q: "quote env redis (ca_user_id a) (ca_session_token a) (ca_delivery a) (ca_promo_code a) (ca_lang a) s = (Inr q, s')"
    and stray: "dr_address_id (ca_delivery a) = Some i" "\<forall>r \<in> set (t_address (work s)). a_id r \<noteq> i"
  shows "\<exists>s2. checkout env redis a s = (Inl (IntegrityError ''order''), s2)"
proof -
  obtain c lines snap discount where run: "checkout env redis a s = bindM (persist_order env
      (checkout_record a c lines snap (dr_address_id (ca_delivery a)) None discount q)) (card_step env a) s"
    by (rule own_checkout_run [OF own q])
  let ?A = "checkout_record a c lines snap (dr_address_id (ca_delivery a)) None discount q"
  have "pa_delivery_address_id ?A = Some i" using stray(1) by (simp add: checkout_record_def)
  then have "\<not> order_insertable (placed_row env ?A s) (work s)"
    using stray(2) by (simp add: order_insertable_def placed_address list_ex_iff)
  from persist_refused [OF this] show ?thesis unfolding run by (auto simp: bindM_app)
qed

end
