(* ===== verification/Stock_Race.thy ===== *)
theory Stock_Race
  imports Checkout_Quote
begin

text \<open>
  Concurrent checkouts. The withdrawal loop of \<open>\_persist\_order\<close> runs in several transactions at
  once; PostgreSQL (READ COMMITTED) locks a row from its first update to the end of the
  transaction. The conditional update \<open>.. SET qty = qty - n WHERE .. AND qty >= n\<close>
  (\<open>OrderRepository.decrement\_stock\<close>) waits for the row's lock and evaluates its guard on the
  row it finds then; when the published row already fails the guard it matches nothing at once. A miss
  rolls the transaction back. The relation below is that interleaving, one statement per step.
\<close>

type_synonym tid = nat
type_synonym demand = "(stock_key \<times> int) list"

datatype phase = Running demand | Committed | Aborted

record race =
  rc_stock :: "stock_key \<Rightarrow> int option"
  rc_lock :: "stock_key \<Rightarrow> tid option"
  rc_phase :: "tid \<Rightarrow> phase"
  rc_taken :: "tid \<Rightarrow> demand"

definition demand_of :: "priced_line list \<Rightarrow> demand" where
  "demand_of lines = map (\<lambda>l. (line_stock l, pl_qty l)) lines"

definition qty_in :: "demand \<Rightarrow> stock_key \<Rightarrow> int" where
  "qty_in ds k = sum_where (\<lambda>x. fst x = k) snd ds"

definition free_for :: "tid \<Rightarrow> stock_key \<Rightarrow> race \<Rightarrow> bool" where
  "free_for t k r \<longleftrightarrow> (case rc_lock r k of None \<Rightarrow> True | Some u \<Rightarrow> u = t)"

text \<open>What other transactions see of a row: an open withdrawal is not there yet.\<close>

definition visible :: "race \<Rightarrow> stock_key \<Rightarrow> int option" where
  "visible r k = (case rc_lock r k of
      None \<Rightarrow> rc_stock r k
    | Some u \<Rightarrow> map_option (\<lambda>q. q + qty_in (rc_taken r u) k) (rc_stock r k))"

definition released :: "tid \<Rightarrow> race \<Rightarrow> stock_key \<Rightarrow> tid option" where
  "released t r = (\<lambda>k. if rc_lock r k = Some t then None else rc_lock r k)"

definition withdrawn :: "tid \<Rightarrow> stock_key \<Rightarrow> int \<Rightarrow> int \<Rightarrow> demand \<Rightarrow> race \<Rightarrow> race" where
  "withdrawn t k n q ds r = r\<lparr>rc_stock := (rc_stock r)(k \<mapsto> q - n), rc_lock := (rc_lock r)(k \<mapsto> t),
     rc_phase := (rc_phase r)(t := Running ds), rc_taken := (rc_taken r)(t := (k, n) # rc_taken r t)\<rparr>"

definition finished :: "tid \<Rightarrow> race \<Rightarrow> race" where
  "finished t r = r\<lparr>rc_lock := released t r, rc_phase := (rc_phase r)(t := Committed)\<rparr>"

definition undone :: "tid \<Rightarrow> race \<Rightarrow> race" where
  "undone t r = r\<lparr>rc_stock := (\<lambda>k. map_option (\<lambda>q. q + qty_in (rc_taken r t) k) (rc_stock r k)),
     rc_lock := released t r, rc_phase := (rc_phase r)(t := Aborted), rc_taken := (rc_taken r)(t := [])\<rparr>"

inductive race_step :: "race \<Rightarrow> race \<Rightarrow> bool" where
  withdraw: "rc_phase r t = Running ((k, n) # ds) \<Longrightarrow> free_for t k r \<Longrightarrow> rc_stock r k = Some q \<Longrightarrow> n \<le> q \<Longrightarrow>
    race_step r (withdrawn t k n q ds r)"
| short: "rc_phase r t = Running ((k, n) # ds) \<Longrightarrow> free_for t k r \<Longrightarrow>
    (case rc_stock r k of None \<Rightarrow> True | Some q \<Rightarrow> q < n) \<Longrightarrow> race_step r (undone t r)"
| unseen: "rc_phase r t = Running ((k, n) # ds) \<Longrightarrow> \<not> free_for t k r \<Longrightarrow>
    (case visible r k of None \<Rightarrow> True | Some q \<Rightarrow> q < n) \<Longrightarrow> race_step r (undone t r)"
| finish: "rc_phase r t = Running [] \<Longrightarrow> race_step r (finished t r)"

inductive reachable :: "race \<Rightarrow> race \<Rightarrow> bool" for r0 where
  start: "reachable r0 r0"
| step: "reachable r0 r \<Longrightarrow> race_step r r' \<Longrightarrow> reachable r0 r'"

definition opening_race :: "(stock_key \<Rightarrow> int option) \<Rightarrow> demand list \<Rightarrow> race" where
  "opening_race stock progs = \<lparr>rc_stock = stock, rc_lock = (\<lambda>_. None),
     rc_phase = (\<lambda>t. if t < length progs then Running (progs ! t) else Committed), rc_taken = (\<lambda>_. [])\<rparr>"

subsection \<open>The invariant\<close>

lemma qty_in_simps [simp]:
  "qty_in [] k = 0" "qty_in ((j, n) # ds) k = (if j = k then n else 0) + qty_in ds k"
  by (simp_all add: qty_in_def)

lemma qty_in_nonneg: "\<forall>x \<in> set ds. 0 \<le> snd x \<Longrightarrow> 0 \<le> qty_in ds k"
  by (induction ds) auto

lemma qty_in_absent: "k \<notin> fst ` set ds \<Longrightarrow> qty_in ds k = 0"
  by (induction ds) auto

text \<open>
  The stock plus what the transactions hold is the opening stock; a transaction has taken what
  its demand says, holds the locks of what it took while it runs, and holds nothing after.
\<close>

definition progress_of :: "demand \<Rightarrow> demand \<Rightarrow> phase \<Rightarrow> bool" where
  "progress_of prog taken ph \<longleftrightarrow> (case ph of
      Running ds \<Rightarrow> prog = rev taken @ ds
    | Committed \<Rightarrow> prog = rev taken
    | Aborted \<Rightarrow> taken = [])"

definition race_inv :: "(stock_key \<Rightarrow> int option) \<Rightarrow> demand list \<Rightarrow> race \<Rightarrow> bool" where
  "race_inv stock progs r \<longleftrightarrow>
    (\<forall>k. rc_stock r k = map_option (\<lambda>q. q - (\<Sum>t<length progs. qty_in (rc_taken r t) k)) (stock k)) \<and>
    (\<forall>k q. rc_stock r k = Some q \<longrightarrow> 0 \<le> q) \<and>
    (\<forall>t<length progs. progress_of (progs ! t) (rc_taken r t) (rc_phase r t)) \<and>
    (\<forall>t\<ge>length progs. rc_phase r t = Committed \<and> rc_taken r t = []) \<and>
    (\<forall>k t. rc_lock r k = Some t \<longrightarrow> (\<exists>ds. rc_phase r t = Running ds) \<and> k \<in> fst ` set (rc_taken r t)) \<and>
    (\<forall>t k. (\<exists>ds. rc_phase r t = Running ds) \<longrightarrow> k \<in> fst ` set (rc_taken r t) \<longrightarrow> rc_lock r k = Some t)"

lemma sum_change:
  fixes f g :: "nat \<Rightarrow> int"
  assumes "t < n" "\<And>u. u \<noteq> t \<Longrightarrow> f u = g u"
  shows "(\<Sum>u<n. f u) = (\<Sum>u<n. g u) + (f t - g t)"
proof -
  have "(\<Sum>u<n. f u) = f t + (\<Sum>u\<in>{..<n} - {t}. f u)" using assms(1) by (simp add: sum.remove)
  moreover have "(\<Sum>u<n. g u) = g t + (\<Sum>u\<in>{..<n} - {t}. g u)" using assms(1) by (simp add: sum.remove)
  moreover have "(\<Sum>u\<in>{..<n} - {t}. f u) = (\<Sum>u\<in>{..<n} - {t}. g u)" using assms(2) by (intro sum.cong) auto
  ultimately show ?thesis by simp
qed

lemma race_invD:
  assumes "race_inv stock progs r"
  shows "rc_stock r k = map_option (\<lambda>q. q - (\<Sum>t<length progs. qty_in (rc_taken r t) k)) (stock k)"
    "rc_stock r k = Some q \<Longrightarrow> 0 \<le> q"
    "t < length progs \<Longrightarrow> progress_of (progs ! t) (rc_taken r t) (rc_phase r t)"
    "length progs \<le> t \<Longrightarrow> rc_phase r t = Committed \<and> rc_taken r t = []"
    "rc_lock r k = Some t \<Longrightarrow> \<exists>ds. rc_phase r t = Running ds"
    "rc_lock r k = Some t \<Longrightarrow> k \<in> fst ` set (rc_taken r t)"
    "rc_phase r t = Running ds \<Longrightarrow> k \<in> fst ` set (rc_taken r t) \<Longrightarrow> rc_lock r k = Some t"
  using assms unfolding race_inv_def by blast+

lemma race_invI:
  assumes "\<And>k. rc_stock r k = map_option (\<lambda>q. q - (\<Sum>t<length progs. qty_in (rc_taken r t) k)) (stock k)"
    "\<And>k q. rc_stock r k = Some q \<Longrightarrow> 0 \<le> q"
    "\<And>t. t < length progs \<Longrightarrow> progress_of (progs ! t) (rc_taken r t) (rc_phase r t)"
    "\<And>t. length progs \<le> t \<Longrightarrow> rc_phase r t = Committed \<and> rc_taken r t = []"
    "\<And>k t. rc_lock r k = Some t \<Longrightarrow> (\<exists>ds. rc_phase r t = Running ds) \<and> k \<in> fst ` set (rc_taken r t)"
    "\<And>t ds k. rc_phase r t = Running ds \<Longrightarrow> k \<in> fst ` set (rc_taken r t) \<Longrightarrow> rc_lock r k = Some t"
  shows "race_inv stock progs r"
  unfolding race_inv_def using assms by blast

lemma running_lt: "race_inv stock progs r \<Longrightarrow> rc_phase r t = Running ds \<Longrightarrow> t < length progs"
  unfolding race_inv_def by (metis phase.distinct(1) not_le)

lemma inv_withdraw:
  assumes inv: "race_inv stock progs r" and ph: "rc_phase r t = Running ((k, n) # ds)"
    and free: "free_for t k r" and q: "rc_stock r k = Some q" "n \<le> q"
  shows "race_inv stock progs (withdrawn t k n q ds r)"
proof -
  have t: "t < length progs" by (rule running_lt [OF inv ph])
  have sums: "(\<Sum>u<length progs. qty_in (((rc_taken r)(t := (k, n) # rc_taken r t)) u) j) =
      (\<Sum>u<length progs. qty_in (rc_taken r u) j) + (if k = j then n else 0)" for j
    using sum_change [OF t, of "\<lambda>u. qty_in (((rc_taken r)(t := (k, n) # rc_taken r t)) u) j" "\<lambda>u. qty_in (rc_taken r u) j"]
    by simp
  have st: "rc_stock r j = map_option (\<lambda>q. q - (\<Sum>t<length progs. qty_in (rc_taken r t) j)) (stock j)" for j
    using inv by (simp add: race_inv_def)
  obtain q0 where q0: "stock k = Some q0" "q = q0 - (\<Sum>t<length progs. qty_in (rc_taken r t) k)"
    using st [of k] q(1) by (cases "stock k") auto
  let ?r = "withdrawn t k n q ds r"
  have upd: "rc_taken ?r = (rc_taken r)(t := (k, n) # rc_taken r t)" "rc_stock ?r = (rc_stock r)(k \<mapsto> q - n)"
    by (simp_all add: withdrawn_def)
  show ?thesis
  proof (rule race_invI)
    fix j
    show "rc_stock ?r j = map_option (\<lambda>q. q - (\<Sum>t<length progs. qty_in (rc_taken ?r t) j)) (stock j)"
      unfolding upd sums using q0 st [of j] by auto
  next
    fix j q' assume "rc_stock ?r j = Some q'"
    then show "0 \<le> q'" using race_invD(2) [OF inv, of j] q unfolding upd by (simp split: if_splits)
  next
    fix u assume u: "u < length progs"
    show "progress_of (progs ! u) (rc_taken ?r u) (rc_phase ?r u)"
      using race_invD(3) [OF inv u] ph by (auto simp: withdrawn_def progress_of_def)
  next
    fix u assume "length progs \<le> u"
    then show "rc_phase ?r u = Committed \<and> rc_taken ?r u = []"
      using race_invD(4) [OF inv, of u] t by (simp add: withdrawn_def)
  next
    fix j u assume "rc_lock ?r j = Some u"
    then show "(\<exists>ds. rc_phase ?r u = Running ds) \<and> j \<in> fst ` set (rc_taken ?r u)"
      using race_invD(5,6) [OF inv, of j u] by (auto simp: withdrawn_def split: if_splits)
  next
    fix u ds' j assume run: "rc_phase ?r u = Running ds'" and j: "j \<in> fst ` set (rc_taken ?r u)"
    show "rc_lock ?r j = Some u"
    proof (cases "u = t")
      case True
      with j race_invD(7) [OF inv ph, of j] show ?thesis by (auto simp: withdrawn_def)
    next
      case False
      then have "rc_lock r j = Some u"
        using run j race_invD(7) [OF inv, of u ds' j] by (simp add: withdrawn_def)
      moreover from this have "j \<noteq> k" using free False by (auto simp: free_for_def)
      ultimately show ?thesis by (simp add: withdrawn_def)
    qed
  qed
qed

lemma inv_finish:
  assumes inv: "race_inv stock progs r" and ph: "rc_phase r t = Running []"
  shows "race_inv stock progs (finished t r)"
proof -
  have t: "t < length progs" by (rule running_lt [OF inv ph])
  let ?r = "finished t r"
  have same: "rc_stock ?r = rc_stock r" "rc_taken ?r = rc_taken r" by (simp_all add: finished_def)
  show ?thesis
  proof (rule race_invI)
    show "rc_stock ?r j = map_option (\<lambda>q. q - (\<Sum>t<length progs. qty_in (rc_taken ?r t) j)) (stock j)" for j
      unfolding same by (rule race_invD(1) [OF inv])
    show "0 \<le> q'" if "rc_stock ?r j = Some q'" for j q'
      using that unfolding same by (rule race_invD(2) [OF inv])
    show "progress_of (progs ! u) (rc_taken ?r u) (rc_phase ?r u)" if "u < length progs" for u
      using race_invD(3) [OF inv that] ph by (auto simp: finished_def progress_of_def)
    show "rc_phase ?r u = Committed \<and> rc_taken ?r u = []" if "length progs \<le> u" for u
      using race_invD(4) [OF inv that] t that by (simp add: finished_def)
    show "(\<exists>ds. rc_phase ?r u = Running ds) \<and> j \<in> fst ` set (rc_taken ?r u)" if "rc_lock ?r j = Some u" for j u
      using that race_invD(5,6) [OF inv, of j u] by (auto simp: finished_def released_def split: if_splits)
    show "rc_lock ?r j = Some u" if "rc_phase ?r u = Running ds'" "j \<in> fst ` set (rc_taken ?r u)" for u ds' j
      using that race_invD(7) [OF inv, of u ds' j] by (auto simp: finished_def released_def split: if_splits)
  qed
qed

lemma inv_undo:
  assumes inv: "race_inv stock progs r" and ph: "rc_phase r t = Running ds"
    and nn: "\<forall>x \<in> set (rc_taken r t). 0 \<le> snd x"
  shows "race_inv stock progs (undone t r)"
proof -
  have t: "t < length progs" by (rule running_lt [OF inv ph])
  have sums: "(\<Sum>u<length progs. qty_in (((rc_taken r)(t := [])) u) j) =
      (\<Sum>u<length progs. qty_in (rc_taken r u) j) - qty_in (rc_taken r t) j" for j
    using sum_change [OF t, of "\<lambda>u. qty_in (((rc_taken r)(t := [])) u) j" "\<lambda>u. qty_in (rc_taken r u) j"]
    by simp
  have st: "rc_stock r j = map_option (\<lambda>q. q - (\<Sum>t<length progs. qty_in (rc_taken r t) j)) (stock j)" for j
    using inv by (simp add: race_inv_def)
  let ?r = "undone t r"
  have upd: "rc_taken ?r = (rc_taken r)(t := [])"
    "rc_stock ?r = (\<lambda>k. map_option (\<lambda>q. q + qty_in (rc_taken r t) k) (rc_stock r k))"
    by (simp_all add: undone_def)
  show ?thesis
  proof (rule race_invI)
    show "rc_stock ?r j = map_option (\<lambda>q. q - (\<Sum>t<length progs. qty_in (rc_taken ?r t) j)) (stock j)" for j
      unfolding upd sums st by (cases "stock j") simp_all
    show "0 \<le> q'" if "rc_stock ?r j = Some q'" for j q'
      using that race_invD(2) [OF inv, of j] qty_in_nonneg [OF nn, of j] unfolding upd by auto
    show "progress_of (progs ! u) (rc_taken ?r u) (rc_phase ?r u)" if "u < length progs" for u
      using race_invD(3) [OF inv that] by (auto simp: undone_def progress_of_def)
    show "rc_phase ?r u = Committed \<and> rc_taken ?r u = []" if "length progs \<le> u" for u
      using race_invD(4) [OF inv that] t that by (simp add: undone_def)
    show "(\<exists>ds. rc_phase ?r u = Running ds) \<and> j \<in> fst ` set (rc_taken ?r u)" if "rc_lock ?r j = Some u" for j u
      using that race_invD(5,6) [OF inv, of j u] by (auto simp: undone_def released_def split: if_splits)
    show "rc_lock ?r j = Some u" if "rc_phase ?r u = Running ds'" "j \<in> fst ` set (rc_taken ?r u)" for u ds' j
      using that race_invD(7) [OF inv, of u ds' j] by (auto simp: undone_def released_def split: if_splits)
  qed
qed

subsection \<open>Reachable states\<close>

definition sane :: "(stock_key \<Rightarrow> int option) \<Rightarrow> demand list \<Rightarrow> bool" where
  "sane stock progs \<longleftrightarrow> (\<forall>k q. stock k = Some q \<longrightarrow> 0 \<le> q) \<and> (\<forall>prog \<in> set progs. \<forall>x \<in> set prog. 0 \<le> snd x)"

lemma race_inv_start: "sane stock progs \<Longrightarrow> race_inv stock progs (opening_race stock progs)"
  by (rule race_invI)
    (auto simp: opening_race_def sane_def progress_of_def map_option.id [unfolded id_def] split: if_splits)

lemma taken_nonneg:
  assumes "sane stock progs" "race_inv stock progs r" "t < length progs"
  shows "\<forall>x \<in> set (rc_taken r t). 0 \<le> snd x"
proof -
  have "set (rc_taken r t) \<subseteq> set (progs ! t)"
    using race_invD(3) [OF assms(2,3)] by (auto simp: progress_of_def split: phase.splits)
  moreover have "\<forall>x \<in> set (progs ! t). 0 \<le> snd x" using assms(1) nth_mem [OF assms(3)] unfolding sane_def by blast
  ultimately show ?thesis by blast
qed

lemma race_inv_step:
  assumes "race_step r r'" "sane stock progs" "race_inv stock progs r"
  shows "race_inv stock progs r'"
  using assms(1)
proof cases
  case (withdraw t k n ds q)
  show ?thesis unfolding withdraw(1) by (rule inv_withdraw [OF assms(3) withdraw(2-5)])
next
  case (short t k n ds)
  show ?thesis unfolding short(1)
    by (rule inv_undo [OF assms(3) short(2) taken_nonneg [OF assms(2,3) running_lt [OF assms(3) short(2)]]])
next
  case (unseen t k n ds)
  show ?thesis unfolding unseen(1)
    by (rule inv_undo [OF assms(3) unseen(2) taken_nonneg [OF assms(2,3) running_lt [OF assms(3) unseen(2)]]])
next
  case (finish t)
  show ?thesis unfolding finish(1) by (rule inv_finish [OF assms(3) finish(2)])
qed

lemma race_inv_reachable:
  "reachable (opening_race stock progs) r \<Longrightarrow> sane stock progs \<Longrightarrow> race_inv stock progs r"
  by (induction rule: reachable.induct) (auto intro: race_inv_start race_inv_step)

definition sold :: "demand list \<Rightarrow> race \<Rightarrow> stock_key \<Rightarrow> int" where
  "sold progs r k = (\<Sum>t<length progs. if rc_phase r t = Committed then qty_in (progs ! t) k else 0)"

lemma qty_in_rev [simp]: "qty_in (rev ds) k = qty_in ds k"
  by (simp add: qty_in_def sum_where_mset)

text \<open>Whatever the interleaving, what was sold was there.\<close>

lemma race_no_oversell:
  assumes "reachable (opening_race stock progs) r" "sane stock progs" "stock k = Some q"
  shows "sold progs r k \<le> q" "\<exists>q'. rc_stock r k = Some q' \<and> 0 \<le> q' \<and> q' + sold progs r k \<le> q"
proof -
  note inv = race_inv_reachable [OF assms(1,2)]
  have le: "sold progs r k \<le> (\<Sum>t<length progs. qty_in (rc_taken r t) k)"
    unfolding sold_def
  proof (rule sum_mono)
    fix t assume "t \<in> {..<length progs}"
    then have t: "t < length progs" by simp
    show "(if rc_phase r t = Committed then qty_in (progs ! t) k else 0) \<le> qty_in (rc_taken r t) k"
      using race_invD(3) [OF inv t] qty_in_nonneg [OF taken_nonneg [OF assms(2) inv t], of k]
      by (auto simp: progress_of_def)
  qed
  have st: "rc_stock r k = Some (q - (\<Sum>t<length progs. qty_in (rc_taken r t) k))"
    using race_invD(1) [OF inv, of k] assms(3) by simp
  from race_invD(2) [OF inv st] le st
  show "sold progs r k \<le> q" "\<exists>q'. rc_stock r k = Some q' \<and> 0 \<le> q' \<and> q' + sold progs r k \<le> q" by auto
qed

text \<open>When every transaction has ended, the stock is the opening stock less exactly what was sold.\<close>

lemma race_settled:
  assumes "reachable (opening_race stock progs) r" "sane stock progs" "\<And>t ds. rc_phase r t \<noteq> Running ds"
  shows "rc_stock r = (\<lambda>k. map_option (\<lambda>q. q - sold progs r k) (stock k))" "rc_lock r = (\<lambda>_. None)"
proof -
  note inv = race_inv_reachable [OF assms(1,2)]
  have "qty_in (rc_taken r t) k = (if rc_phase r t = Committed then qty_in (progs ! t) k else 0)"
    if "t < length progs" for t k
    using race_invD(3) [OF inv that] assms(3) [of t] by (auto simp: progress_of_def split: phase.splits)
  then have "(\<Sum>t<length progs. qty_in (rc_taken r t) k) = sold progs r k" for k
    unfolding sold_def by (intro sum.cong) auto
  then show "rc_stock r = (\<lambda>k. map_option (\<lambda>q. q - sold progs r k) (stock k))"
    using race_invD(1) [OF inv] by (simp add: fun_eq_iff)
  have "rc_lock r k = None" for k
    using race_invD(5) [OF inv, of k] assms(3) by (cases "rc_lock r k") auto
  then show "rc_lock r = (\<lambda>_. None)" by (simp add: fun_eq_iff)
qed

subsection \<open>Every race ends\<close>

definition remaining :: "nat \<Rightarrow> race \<Rightarrow> nat" where
  "remaining n r = (\<Sum>t<n. case rc_phase r t of Running ds \<Rightarrow> length ds + 1 | _ \<Rightarrow> 0)"

lemma remaining_less:
  assumes "t < n" "\<And>u. u \<noteq> t \<Longrightarrow> rc_phase r' u = rc_phase r u" "rc_phase r t = Running ds"
    "case rc_phase r' t of Running ds' \<Rightarrow> length ds' < length ds | _ \<Rightarrow> True"
  shows "remaining n r' < remaining n r"
proof -
  let ?f = "\<lambda>ph. case ph of Running ds \<Rightarrow> length ds + 1 | _ \<Rightarrow> (0 :: nat)"
  have split: "(\<Sum>u<n. ?f (rc_phase x u)) = ?f (rc_phase x t) + (\<Sum>u\<in>{..<n} - {t}. ?f (rc_phase x u))" for x
    using assms(1) by (simp add: sum.remove)
  have "(\<Sum>u\<in>{..<n} - {t}. ?f (rc_phase r' u)) = (\<Sum>u\<in>{..<n} - {t}. ?f (rc_phase r u))"
    using assms(2) by (intro sum.cong) auto
  moreover have "?f (rc_phase r' t) < ?f (rc_phase r t)"
    using assms(3,4) by (auto split: phase.splits)
  ultimately show ?thesis unfolding remaining_def split by simp
qed

lemma race_step_remaining:
  assumes "race_step r r'" "race_inv stock progs r"
  shows "remaining (length progs) r' < remaining (length progs) r"
  using assms(1)
proof cases
  case (withdraw t k n ds q)
  show ?thesis
    by (rule remaining_less [OF running_lt [OF assms(2) withdraw(2)] _ withdraw(2)]) (simp_all add: withdraw(1) withdrawn_def)
next
  case (short t k n ds)
  show ?thesis
    by (rule remaining_less [OF running_lt [OF assms(2) short(2)] _ short(2)]) (simp_all add: short(1) undone_def)
next
  case (unseen t k n ds)
  show ?thesis
    by (rule remaining_less [OF running_lt [OF assms(2) unseen(2)] _ unseen(2)]) (simp_all add: unseen(1) undone_def)
next
  case (finish t)
  show ?thesis
    by (rule remaining_less [OF running_lt [OF assms(2) finish(2)] _ finish(2)]) (simp_all add: finish(1) finished_def)
qed

text \<open>
  The order of the lines: products by id. Transactions that lock rows in one common order
  never wait for each other in a circle.
\<close>

fun stock_rank :: "stock_key \<Rightarrow> nat \<times> int" where
  "stock_rank (Product_Stock i) = (0, i)"
| "stock_rank (Variant_Stock i) = (1, i)"

lemma stock_rank_inj: "stock_rank a = stock_rank b \<longleftrightarrow> a = b"
  by (cases a; cases b) auto

instantiation stock_key :: linorder
begin

definition less_eq_stock_key :: "stock_key \<Rightarrow> stock_key \<Rightarrow> bool" where
  "less_eq_stock_key a b \<longleftrightarrow> stock_rank a \<le> stock_rank b"

definition less_stock_key :: "stock_key \<Rightarrow> stock_key \<Rightarrow> bool" where
  "less_stock_key a b \<longleftrightarrow> stock_rank a < stock_rank b"

instance
  by standard (auto simp: less_eq_stock_key_def less_stock_key_def less_le stock_rank_inj)

end

definition ascending :: "demand \<Rightarrow> bool" where
  "ascending prog \<longleftrightarrow> sorted_wrt (<) (map fst prog)"

lemma race_progress:
  assumes "reachable (opening_race stock progs) r" "sane stock progs" "\<forall>prog \<in> set progs. ascending prog"
    "rc_phase r t0 = Running ds0"
  shows "\<exists>r'. race_step r r'"
proof (rule ccontr)
  assume none: "\<nexists>r'. race_step r r'"
  note inv = race_inv_reachable [OF assms(1,2)]
  let ?R = "{t. \<exists>ds. rc_phase r t = Running ds}"
  have fin: "finite ?R"
    by (rule finite_subset [of _ "{..<length progs}"]) (auto dest: running_lt [OF inv])
  have next_key: "\<exists>k n ds. rc_phase r t = Running ((k, n) # ds)" if run: "t \<in> ?R" for t
  proof -
    from run obtain ds where ds: "rc_phase r t = Running ds" by blast
    show ?thesis
    proof (cases ds)
      case Nil
      with ds none race_step.finish show ?thesis by blast
    next
      case (Cons x xs)
      with ds show ?thesis by (cases x) blast
    qed
  qed
  define key where "key t = (case rc_phase r t of Running (x # _) \<Rightarrow> fst x | _ \<Rightarrow> Product_Stock 0)" for t
  have "Max (key ` ?R) \<in> key ` ?R" using fin assms(4) by (intro Max_in) auto
  then obtain t where t: "Max (key ` ?R) = key t" "t \<in> ?R" by (rule imageE)
  have top: "key u \<le> key t" if "u \<in> ?R" for u
    unfolding t(1) [symmetric] using that fin by (intro Max_ge) auto
  from next_key [OF t(2)] obtain k n ds where ph: "rc_phase r t = Running ((k, n) # ds)" by blast
  have "\<not> free_for t k r"
  proof
    assume free: "free_for t k r"
    show False
    proof (cases "\<exists>q. rc_stock r k = Some q \<and> n \<le> q")
      case True
      with ph free none race_step.withdraw show False by blast
    next
      case False
      then have "case rc_stock r k of None \<Rightarrow> True | Some q \<Rightarrow> q < n" by (cases "rc_stock r k") auto
      with ph free none race_step.short show False by blast
    qed
  qed
  then obtain u where u: "rc_lock r k = Some u" by (auto simp: free_for_def split: option.splits)
  then have run_u: "u \<in> ?R" and taken: "k \<in> fst ` set (rc_taken r u)"
    using race_invD(5,6) [OF inv u] by auto
  from next_key [OF run_u] obtain j m es where pu: "rc_phase r u = Running ((j, m) # es)" by blast
  have lt: "u < length progs" by (rule running_lt [OF inv pu])
  have "progs ! u = rev (rc_taken r u) @ (j, m) # es"
    using race_invD(3) [OF inv lt] pu by (simp add: progress_of_def)
  moreover have "ascending (progs ! u)" using assms(3) lt by simp
  ultimately have "k < j" using taken by (auto simp: ascending_def sorted_wrt_append)
  moreover have "key u = j" "key t = k" using pu ph by (simp_all add: key_def)
  ultimately show False using top [OF run_u] by simp
qed

subsection \<open>Carts of simple products lock in one order\<close>

lemma price_lines_sorted:
  "price_lines cfg variants labels rows = Inr ps \<Longrightarrow> (\<And>l p n. (l, p, n) \<in> set rows \<Longrightarrow> p_id p = ci_product_id l) \<Longrightarrow>
    sorted (map (\<lambda>r. ci_product_id (fst r)) rows) \<Longrightarrow>
    sorted (map pl_product_id ps) \<and> set (map pl_product_id ps) \<subseteq> set (map (\<lambda>r. ci_product_id (fst r)) rows)"
proof (induction rows arbitrary: ps)
  case (Cons row rows)
  obtain l p n where row: "row = (l, p, n)" by (cases row)
  from Cons.prems(1) obtain o1 rest where r: "price_line cfg variants labels row = Inr o1"
      "price_lines cfg variants labels rows = Inr rest" "ps = (case o1 of None \<Rightarrow> rest | Some x \<Rightarrow> x # rest)"
    by (auto simp: bindE_Inr)
  have rest: "sorted (map pl_product_id rest) \<and> set (map pl_product_id rest) \<subseteq> set (map (\<lambda>r. ci_product_id (fst r)) rows)"
    by (rule Cons.IH [OF r(2)]) (use Cons.prems in auto)
  show ?case
  proof (cases o1)
    case None
    with rest r(3) row show ?thesis by (simp add: subset_insertI2)
  next
    case (Some x)
    with r(1) row have "price_line cfg variants labels (l, p, n) = Inr (Some x)" by simp
    from price_line_Inr(2) [OF this] Cons.prems(2) [of l p n] row
    have "pl_product_id x = ci_product_id l" by simp
    moreover have "ci_product_id l \<le> pl_product_id y" if "y \<in> set rest" for y
    proof -
      have "pl_product_id y \<in> (\<lambda>r. ci_product_id (fst r)) ` set rows" using rest that by auto
      with Cons.prems(3) row show ?thesis by auto
    qed
    ultimately show ?thesis using rest r(3) Some row by auto
  qed
qed simp

lemma sorted_join:
  "sorted (map q ls) \<Longrightarrow> sorted (map (\<lambda>r. q (fst r)) [(l, p, h l p). l \<leftarrow> ls, p \<leftarrow> filter (\<lambda>p. f l p) ps])"
  for q :: "'a \<Rightarrow> int"
proof (induction ls)
  case (Cons l ls)
  have "sorted (map (\<lambda>r. q (fst r)) (map (\<lambda>p. (l, p, h l p)) xs))" for xs :: "'b list"
    by (induction xs) auto
  with Cons show ?case by (auto simp: sorted_append)
qed simp

lemma loaded_sorted:
  assumes "load_cart_lines cfg uid tok lang d = Inr (c, lines)"
  shows "sorted (map pl_product_id lines)"
proof -
  let ?rows = "list_cart_lines (c_id c) (normalize_lang lang) d"
  have ps: "price_lines cfg (get_variants_by_ids (variant_ids_of ?rows) d)
      (get_variant_option_labels (variant_ids_of ?rows) (normalize_lang lang) d) ?rows = Inr lines"
    using assms by (auto simp: load_cart_lines_def bindE_Inr Let_def split: option.splits if_splits)
  have "sorted (map (\<lambda>r. ci_product_id (fst r)) ?rows)"
    unfolding list_cart_lines_def by (rule sorted_join) simp
  with price_lines_sorted [OF ps] show ?thesis by (auto simp: list_cart_lines_mem)
qed

lemma loaded_ascending:
  assumes "load_cart_lines cfg uid tok lang d = Inr (c, lines)" "lines_wf d" "stock_wf d"
    "\<forall>l \<in> set lines. pl_variant_id l = None"
  shows "ascending (demand_of lines)"
proof -
  have keys: "map line_stock lines = map (\<lambda>l. Product_Stock (pl_product_id l)) lines"
    using assms(4) by (simp add: line_stock_def)
  have "sorted_wrt (\<le>) (map pl_product_id lines)" using loaded_sorted [OF assms(1)] by simp
  moreover have "distinct (map pl_product_id lines)"
    using loaded_distinct [OF assms(1-3)] unfolding keys by (auto simp: distinct_map inj_on_def)
  ultimately have "sorted_wrt (<) (map pl_product_id lines)" by (simp add: strict_sorted_iff)
  then have "sorted_wrt (<) (map line_stock lines)"
    unfolding keys by (simp add: sorted_wrt_map less_stock_key_def)
  then show ?thesis by (simp add: ascending_def demand_of_def comp_def)
qed

subsection \<open>The loop of the model is one transaction of the race\<close>

lemma demand_of_simps [simp]: "demand_of [] = []" "demand_of (l # ls) = (line_stock l, pl_qty l) # demand_of ls"
  by (simp_all add: demand_of_def)

lemma reachable_trans: "reachable a b \<Longrightarrow> race_step b c \<Longrightarrow> reachable a c"
  by (rule reachable.step)

lemma loop_race:
  "stock_wf (work s) \<Longrightarrow> forEach lines decrement_line s = (Inr (), s') \<Longrightarrow>
    reachable r0 r \<Longrightarrow> rc_phase r t = Running (demand_of lines) \<Longrightarrow> rc_stock r = stock_of (work s) \<Longrightarrow>
    (\<And>k. free_for t k r) \<Longrightarrow>
    \<exists>r'. reachable r0 r' \<and> rc_phase r' t = Committed \<and> rc_stock r' = stock_of (work s')"
proof (induction lines arbitrary: s r)
  case Nil
  then have "reachable r0 (finished t r)" by (auto intro: reachable.step race_step.finish)
  with Nil show ?case by (intro exI [of _ "finished t r"]) (simp add: finished_def)
next
  case (Cons l ls)
  from Cons.prems(2) obtain s1 where s1: "decrement_line l s = (Inr (), s1)" "forEach ls decrement_line s1 = (Inr (), s')"
    by (auto simp: bindM_Inr)
  have "take_stock (line_stock l) (pl_qty l) s = (Inr True, s1)"
    using s1(1) by (auto simp: decrement_line_def decrement_key bindM_Inr split: if_splits)
  with stock.take_cases [OF Cons.prems(1), of "line_stock l" "pl_qty l"] obtain q where
    q: "stock_of (work s) (line_stock l) = Some q" "pl_qty l \<le> q"
      "stock_of (work s1) = (stock_of (work s))(line_stock l \<mapsto> q - pl_qty l)" "stock_wf (work s1)" by force
  let ?r = "withdrawn t (line_stock l) (pl_qty l) q (demand_of ls) r"
  have "race_step r ?r"
    by (rule race_step.withdraw) (use Cons.prems q in simp_all)
  then have "reachable r0 ?r" by (rule reachable.step [OF Cons.prems(3)])
  moreover have "rc_phase ?r t = Running (demand_of ls)" "rc_stock ?r = stock_of (work s1)"
    using q Cons.prems(5) by (simp_all add: withdrawn_def)
  moreover have "free_for t k ?r" for k using Cons.prems(6) [of k] by (simp add: withdrawn_def free_for_def)
  ultimately show ?case by (rule Cons.IH [OF q(4) s1(2)])
qed

end
