(* ===== verification/Toy_Servers.thy ===== *)
theory Toy_Servers
  imports Models
begin

text \<open>
  What the model asks of PyJWT, argon2 and the random source, stated as predicates on an
  environment, and simple functions that satisfy them: the concrete examples run on these.
\<close>

subsection \<open>The documented behaviour of the libraries\<close>

text \<open>
  PyJWT gives back the payload it signed while the token is neither expired (\<open>exp\<close>, in whole
  seconds, is past) nor issued in the future, and raises otherwise.
\<close>

definition token_payload :: "string \<Rightarrow> string \<Rightarrow> string \<Rightarrow> int \<Rightarrow> int \<Rightarrow> (string \<times> json) list" where
  "token_payload sub jti ty till iat =
    [(''sub'', JStr sub), (''jti'', JStr jti), (''type'', JStr ty), (''exp'', JInt till), (''iat'', JInt iat)]"

definition SECOND :: int where
  "SECOND = 1000000"

definition jwt_sound :: "environment \<Rightarrow> bool" where
  "jwt_sound env \<longleftrightarrow> (\<forall>secret payload. env_jwt_encode env secret payload \<noteq> []) \<and> (\<forall>secret now sub jti ty till iat.
    env_jwt_decode env secret now (env_jwt_encode env secret (token_payload sub jti ty till iat)) =
      (if iat * SECOND \<le> now \<and> now < till * SECOND then Some (token_payload sub jti ty till iat) else None))"

text \<open>A hash verifies against the password it was made from, and against no other.\<close>

definition argon_sound :: "environment \<Rightarrow> bool" where
  "argon_sound env \<longleftrightarrow> (\<forall>n p q. env_argon_verify env (env_argon_hash env n p) q = Some (p = q))"

text \<open>\<open>uuid4\<close> does not repeat itself.\<close>

definition uuid_fresh :: "environment \<Rightarrow> bool" where
  "uuid_fresh env \<longleftrightarrow> inj (env_uuid_hex env)"

subsection \<open>Simple instances\<close>

text \<open>A text is written with a mark before each character, so that the full stop ends it.\<close>

fun toy_text :: "string \<Rightarrow> string" where
  "toy_text [] = ''.''"
| "toy_text (c # cs) = CHR ''x'' # c # toy_text cs"

fun toy_read :: "string \<Rightarrow> string \<times> string" where
  "toy_read (CHR ''x'' # c # cs) = (case toy_read cs of (t, rest) \<Rightarrow> (c # t, rest))"
| "toy_read (m # cs) = ([], cs)"
| "toy_read [] = ([], [])"

lemma toy_read_text [simp]: "toy_read (toy_text t @ rest) = (t, rest)"
  by (induction t) simp_all

fun toy_value :: "json \<Rightarrow> string" where
  "toy_value (JStr s) = CHR ''s'' # toy_text s"
| "toy_value (JInt i) = CHR ''i'' # toy_text (int_str i)"
| "toy_value _ = ''n.''"

fun toy_field :: "string \<Rightarrow> (string \<times> json) \<times> string" where
  "toy_field t =
    (let (k, r) = toy_read t; (v, rest) = toy_read (tl r) in
      ((k, if take 1 r = ''s'' then JStr v
           else if take 1 r = ''i'' then
             JInt (if take 1 v = ''-'' then - int (str_val (tl v)) else int (str_val v))
           else JNull), rest))"

declare toy_field.simps [simp del]

fun toy_fields :: "nat \<Rightarrow> string \<Rightarrow> (string \<times> json) list" where
  "toy_fields 0 t = []"
| "toy_fields (Suc n) t = (case toy_field t of (f, rest) \<Rightarrow> f # toy_fields n rest)"

definition toy_jwt_encode :: "string \<Rightarrow> (string \<times> json) list \<Rightarrow> string" where
  "toy_jwt_encode secret payload =
    toy_text secret @ concat (map (\<lambda>(k, v). toy_text k @ toy_value v) payload)"

definition toy_jwt_decode :: "string \<Rightarrow> instant \<Rightarrow> string \<Rightarrow> (string \<times> json) list option" where
  "toy_jwt_decode secret now token =
    (let (s, rest) = toy_read token; payload = toy_fields 5 rest in
      if s \<noteq> secret then None
      else case (map_of payload ''exp'', map_of payload ''iat'') of
        (Some (JInt till), Some (JInt iat)) \<Rightarrow>
          if iat * SECOND \<le> now \<and> now < till * SECOND then Some payload else None
      | _ \<Rightarrow> None)"

definition toy_hash :: "nat \<Rightarrow> string \<Rightarrow> string" where
  "toy_hash n p = CHR ''h'' # p"

definition toy_verify :: "string \<Rightarrow> string \<Rightarrow> bool option" where
  "toy_verify h p = (case h of [] \<Rightarrow> None | c # q \<Rightarrow> if c = CHR ''h'' then Some (p = q) else None)"

lemma toy_int: "(if take 1 (int_str i) = ''-'' then - int (str_val (tl (int_str i))) else int (str_val (int_str i))) = i"
proof (cases "i < 0")
  case False
  have "take 1 (nat_str (nat i)) \<noteq> ''-''"
  proof (cases "nat_str (nat i)")
    case (Cons c cs)
    then show ?thesis using nat_str_digits [of c "nat i"] by auto
  qed simp
  with False show ?thesis by (simp add: int_str_def)
qed (simp add: int_str_def)

lemma toy_field_str: "toy_field (toy_text k @ CHR ''s'' # toy_text v @ rest) = ((k, JStr v), rest)"
  by (simp add: toy_field.simps)

lemma toy_field_int: "toy_field (toy_text k @ CHR ''i'' # toy_text (int_str i) @ rest) = ((k, JInt i), rest)"
  using toy_int [of i] by (simp add: toy_field.simps)

lemma toy_fields_all:
  "\<forall>f \<in> set fs. (\<exists>s. snd f = JStr s) \<or> (\<exists>i. snd f = JInt i) \<Longrightarrow>
    toy_fields (length fs) (concat (map (\<lambda>(k, v). toy_text k @ toy_value v) fs)) = fs"
proof (induction fs)
  case (Cons f fs)
  obtain k v where f: "f = (k, v)" by (cases f)
  consider (str) s where "v = JStr s" | (int) i where "v = JInt i"
    using Cons.prems by (auto simp: f)
  then show ?case
    by cases (use Cons in \<open>simp_all add: f toy_field_str toy_field_int\<close>)
qed simp

lemma toy_jwt_sound:
  "toy_jwt_decode secret now (toy_jwt_encode secret (token_payload sub jti ty till iat)) =
    (if iat * SECOND \<le> now \<and> now < till * SECOND then Some (token_payload sub jti ty till iat) else None)"
proof -
  let ?p = "token_payload sub jti ty till iat"
  have "toy_fields (length ?p) (concat (map (\<lambda>(k, v). toy_text k @ toy_value v) ?p)) = ?p"
    by (rule toy_fields_all) (simp add: token_payload_def)
  moreover have "length ?p = 5" "map_of ?p ''exp'' = Some (JInt till)" "map_of ?p ''iat'' = Some (JInt iat)"
    by (simp_all add: token_payload_def)
  ultimately show ?thesis
    by (simp add: toy_jwt_decode_def toy_jwt_encode_def Let_def)
qed

lemma toy_jwt_nonempty: "toy_jwt_encode secret payload \<noteq> []"
proof -
  have "toy_text t \<noteq> []" for t by (cases t) simp_all
  then show ?thesis by (simp add: toy_jwt_encode_def)
qed

lemma toy_hash_sound: "toy_verify (toy_hash n p) q = Some (p = q)"
  by (auto simp: toy_verify_def toy_hash_def)

lemma toy_sound:
  "env_jwt_decode env = toy_jwt_decode \<Longrightarrow> env_jwt_encode env = toy_jwt_encode \<Longrightarrow> jwt_sound env"
  "env_argon_verify env = toy_verify \<Longrightarrow> env_argon_hash env = toy_hash \<Longrightarrow> argon_sound env"
  "env_uuid_hex env = nat_str \<Longrightarrow> uuid_fresh env"
  by (simp_all add: jwt_sound_def toy_jwt_nonempty toy_jwt_sound argon_sound_def toy_hash_sound uuid_fresh_def inj_def)

end
