(* ===== verification/Sample.thy ===== *)
theory Sample
  imports Admin_Correct Stock_Race Toy_Servers
begin

text \<open>
  A small shop the properties are exercised on: a simple product, a variable one with one
  variant, a customer with an address and a cart, a guest cart, a coupon that may be used once.
\<close>

definition shop_settings :: settings where
  "shop_settings = default_settings\<lparr>maib_project_id := ''p'', maib_project_secret := ''s'',
     maib_signature_key := ''k'', free_delivery_from := Some 1000\<rparr>"

definition shop_env :: environment where
  "shop_env = \<lparr>env_cfg = shop_settings, env_now = 500, env_today = (2025, 6, 1), env_broker_up = True,
     env_cache_up = True, env_http = (\<lambda>_ _. Timed_Out), env_sha256_b64 = (\<lambda>_. ''c2ln''),
     env_jwt_encode = toy_jwt_encode, env_jwt_decode = toy_jwt_decode, env_argon_hash = toy_hash,
     env_argon_verify = toy_verify, env_uuid_hex = nat_str, env_token_urlsafe = nat_str, env_smtp = (\<lambda>_ _. True),
     env_store_up = True, env_open_image = (\<lambda>_. Opened 640 480 True), env_webp = (\<lambda>data w. data @ nat_str w),
     env_tg_send = (\<lambda>log _ _. Some (int (length log))), env_tg_file = (\<lambda>f. Some (f, f @ ''.jpg''))\<rparr>"

definition shop_db :: db where
  "shop_db = empty_db\<lparr>
     t_product := [\<lparr>p_id = 1, p_category_id = 1, p_code = ''A-1'', p_price = 100, p_old_price = None,
         p_qty = 5, p_is_active = True, p_is_featured = False, p_has_variants = False, p_weight_g = Some 300, p_updated_at = 0\<rparr>,
       \<lparr>p_id = 2, p_category_id = 1, p_code = ''B-2'', p_price = 250, p_old_price = None,
         p_qty = 0, p_is_active = True, p_is_featured = False, p_has_variants = True, p_weight_g = None, p_updated_at = 0\<rparr>],
     t_variant := [\<lparr>v_id = 7, v_product_id = 2, v_code = None, v_price = 260, v_old_price = None,
         v_qty = 1, v_position = 0, v_is_active = True, v_weight_g = None\<rparr>],
     t_address := [\<lparr>a_id = 3, a_user_id = 9, a_full_name = ''Ana'', a_phone = ''069'', a_city = ''Balti'',
         a_street = ''Dacia 1'', a_zip = None, a_is_default = True\<rparr>],
     t_cart := [\<lparr>c_id = 4, c_user_id = Some 9, c_session_token = None, c_status = ''draft''\<rparr>,
       \<lparr>c_id = 5, c_user_id = None, c_session_token = Some ''guest'', c_status = ''draft''\<rparr>],
     t_cart_item := [\<lparr>ci_id = 11, ci_cart_id = 4, ci_product_id = 1, ci_variant_id = None, ci_qty = 2\<rparr>,
       \<lparr>ci_id = 12, ci_cart_id = 4, ci_product_id = 2, ci_variant_id = Some 7, ci_qty = 1\<rparr>,
       \<lparr>ci_id = 13, ci_cart_id = 5, ci_product_id = 1, ci_variant_id = None, ci_qty = 1\<rparr>],
     t_promo := [\<lparr>pr_id = 1, pr_code = ''TEN'', pr_discount_type = ''percent'', pr_discount_value = 10,
         pr_active_from = Some 0, pr_active_to = Some 1000, pr_min_order_total = None,
         pr_usage_limit = Some 1, pr_is_active = True\<rparr>]\<rparr>"

definition shop :: session where
  "shop = \<lparr>work = shop_db, committed = shop_db, order_number_seq = 1, pk_seq = (\<lambda>_. 100), outbox = [],
     outside = \<lparr>sent = [], np_jwt = None, np_cache = (\<lambda>_. None),
       redis_keys = (\<lambda>_. None), mailbox = [], entropy = 0,
       objects = (\<lambda>_. None), tg_sent = [], events = []\<rparr>\<rparr>"

definition courier_request :: delivery_request where
  "courier_request = \<lparr>dr_service = ''own'', dr_type = ''courier'', dr_address_id = Some 3, dr_address = None,
     dr_settlement_id = None, dr_division_id = None, dr_np_address = None, dr_np_recipient_name = None\<rparr>"

definition ana :: checkout_args where
  "ana = \<lparr>ca_user_id = Some 9, ca_session_token = None, ca_email = ''ana@x.md'', ca_phone = ''069'',
     ca_delivery = courier_request, ca_promo_code = Some ''TEN'', ca_payment_method = ''cod'',
     ca_client_ip = None, ca_lang = None\<rparr>"

lemma shop_sides [simp]: "work shop = shop_db" "committed shop = shop_db"
  by (simp_all add: shop_def)

lemma shop_ok: "stock_wf shop_db" "lines_wf shop_db" "numbers_ok shop" "items_ok shop" "orders_inv shop"
    "address_known courier_request shop_db"
  by (auto simp: stock_wf_def lines_wf_def numbers_ok_def items_ok_def orders_inv_def orders_ok_def
      address_known_def key_of_def line_key_def get_variant_def courier_request_def shop_db_def shop_def empty_db_def)

lemma shop_nonneg: "stock.nonneg shop"
proof -
  have "\<forall>k q. stock_of shop_db k = Some q \<longrightarrow> 0 \<le> q"
  proof (intro allI impI)
    fix k q assume "stock_of shop_db k = Some q"
    then show "0 \<le> q" by (cases k) (auto simp: shop_db_def empty_db_def split: if_splits)
  qed
  then show ?thesis by (simp add: stock.nonneg_def)
qed

text \<open>The customer is quoted 460 for the goods, 46 off with the coupon, and 50 for the courier.\<close>

definition ana_quote :: quote_out where
  "ana_quote = projr (fst (quote shop_env True (Some 9) None courier_request (Some ''TEN'') None shop))"

lemma ana_quoted: "\<exists>s'. quote shop_env True (Some 9) None courier_request (Some ''TEN'') None shop = (Inr ana_quote, s')"
  "(qo_subtotal ana_quote, qo_discount_total ana_quote, qo_delivery_cost ana_quote, qo_total ana_quote) = (460, 46, 50, 464)"
proof -
  have "isl (fst (quote shop_env True (Some 9) None courier_request (Some ''TEN'') None shop)) = False"
    by code_simp
  then show "\<exists>s'. quote shop_env True (Some 9) None courier_request (Some ''TEN'') None shop = (Inr ana_quote, s')"
    unfolding ana_quote_def by (metis prod.collapse sum.collapse(2))
  show "(qo_subtotal ana_quote, qo_discount_total ana_quote, qo_delivery_cost ana_quote, qo_total ana_quote) = (460, 46, 50, 464)"
    unfolding ana_quote_def by code_simp
qed

text \<open>Her checkout, which the quote promises to succeed.\<close>

definition ana_out :: order_out where
  "ana_out = projr (fst (checkout shop_env True ana shop))"

definition ana_done :: session where
  "ana_done = snd (checkout shop_env True ana shop)"

lemma ana_fields: "ca_delivery ana = courier_request" "ca_user_id ana = Some 9" "ca_session_token ana = None"
  "ca_promo_code ana = Some ''TEN''" "ca_lang ana = None" "ca_payment_method ana \<noteq> CARD"
  by (simp_all add: ana_def CARD_def)

lemma courier_own: "dr_service courier_request \<noteq> NOVAPOST"
  by (simp add: courier_request_def NOVAPOST_def)

lemma ana_run: "checkout shop_env True ana shop = (Inr ana_out, ana_done)"
  and ana_total: "oo_total ana_out = 464"
  and ana_discount: "oo_discount_total ana_out = 46"
proof -
  note dr = ana_fields
  have own: "dr_service (ca_delivery ana) \<noteq> NOVAPOST" by (simp add: dr courier_request_def NOVAPOST_def)
  obtain s' where q: "quote shop_env True (ca_user_id ana) (ca_session_token ana) (ca_delivery ana)
      (ca_promo_code ana) (ca_lang ana) shop = (Inr ana_quote, s')"
    using ana_quoted(1) unfolding dr by blast
  obtain out s2 where "checkout shop_env True ana shop = (Inr out, s2)" "oo_total out = qo_total ana_quote"
      "oo_discount_total out = qo_discount_total ana_quote"
    using own_checkout [OF own dr(6) q] shop_ok dr by auto
  then show "checkout shop_env True ana shop = (Inr ana_out, ana_done)" "oo_total ana_out = 464" "oo_discount_total ana_out = 46"
    using ana_quoted(2) by (simp_all add: ana_out_def ana_done_def)
qed

text \<open>The same cart for pickup, with an address id nobody has: the foreign key refuses the order.\<close>

definition stray :: checkout_args where
  "stray = ana\<lparr>ca_delivery := courier_request\<lparr>dr_type := ''pickup'', dr_address_id := Some 999\<rparr>, ca_promo_code := None\<rparr>"

lemma stray_run: "\<exists>s'. checkout shop_env True stray shop = (Inl (IntegrityError ''order''), s')"
proof -
  let ?quote = "quote shop_env True (ca_user_id stray) (ca_session_token stray) (ca_delivery stray)
    (ca_promo_code stray) (ca_lang stray) shop"
  have "isl (fst ?quote) = False" by code_simp
  then obtain q s' where q: "?quote = (Inr q, s')"
    by (metis prod.collapse sum.collapse(2))
  show ?thesis
    by (rule pickup_stray_address [OF _ q, of 999])
      (auto simp: stray_def ana_def courier_request_def NOVAPOST_def shop_db_def empty_db_def)
qed

end
