(* ===== verification/Checkout_Properties.thy ===== *)
theory Checkout_Properties
  imports Sample
begin

text \<open>
  The properties of checkout: stock is conserved, a failure publishes nothing, the totals add up,
  the quote is binding, a cart is bought once, coupons are not overrun, the order book stays
  consistent, and concurrent checkouts neither oversell nor block each other.
\<close>

subsection \<open>Stock\<close>

text \<open>The units of a ledger row that all the order lines of a database hold together.\<close>

definition units_ordered :: "db \<Rightarrow> stock_key \<Rightarrow> int" where
  "units_ordered d k = sum_where (\<lambda>i. item_key i = Some k) oi_qty (t_order_item d)"

lemma item_rows_units:
  "sum_where (\<lambda>i. item_key i = Some k) oi_qty (item_rows n oid lines) = ordered lines k"
  by (induction lines arbitrary: n) (auto simp: item_key_def line_stock_def split: option.splits)

lemma published_conserves:
  assumes "published env a s s'" "committed s = work s" "stock_of (committed s) k = Some q"
  shows "\<exists>q'. stock_of (committed s') k = Some q' \<and>
    q' + units_ordered (committed s') k = q + units_ordered (committed s) k"
proof -
  have "units_ordered (committed s') k = units_ordered (committed s) k + ordered (pa_lines a) k"
    using assms(2) by (simp add: units_ordered_def published_tables [OF assms(1)] placed_items_def item_rows_units)
  moreover have "stock_of (committed s') k = Some (q - ordered (pa_lines a) k)"
    using assms by (simp add: published_def)
  ultimately show ?thesis by simp
qed

text \<open>
  C1. Stock conservation: whatever the outcome of a checkout (success, any error, a failed card
  payment after the order), for every product and variant the published stock plus the units held
  by the published orders is what it was, and no stock goes below zero.
\<close>

theorem checkout_conserves_stock:
  assumes "stock_wf (work s)" "committed s = work s" "\<forall>k q. stock_of (work s) k = Some q \<longrightarrow> 0 \<le> q"
    "checkout env redis a s = (r, s')" "stock_of (committed s) k = Some q"
  shows "\<exists>q'. stock_of (committed s') k = Some q' \<and> 0 \<le> q' \<and>
    q' + units_ordered (committed s') k = q + units_ordered (committed s) k"
  using assms(1,4)
proof (cases rule: checkout_outcome)
  case (nothing e)
  with assms show ?thesis by auto
next
  case (placed c lines snap address_id np discount totals)
  have "stock.nonneg s" using assms(3) by (simp add: stock.nonneg_def)
  with placed(2) have "\<forall>k q. stock_of (committed s') k = Some q \<longrightarrow> 0 \<le> q" by (simp add: published_def)
  with published_conserves [OF placed(2) assms(2,5)] show ?thesis by auto
qed

lemma shop_nonneg_rows: "\<forall>k q. stock_of (work shop) k = Some q \<longrightarrow> 0 \<le> q"
  using shop_nonneg by (simp add: stock.nonneg_def)

lemma shop_stock: "stock_of shop_db (Product_Stock 1) = Some 5" "stock_of shop_db (Variant_Stock 7) = Some 1"
  unfolding shop_db_def empty_db_def by simp_all

theorem checkout_conserves_stock_witness:
  "\<exists>q'. stock_of (committed ana_done) (Variant_Stock 7) = Some q' \<and> 0 \<le> q' \<and>
    q' + units_ordered (committed ana_done) (Variant_Stock 7) = 1 + units_ordered (committed shop) (Variant_Stock 7)"
  by (rule checkout_conserves_stock [OF _ _ shop_nonneg_rows ana_run])
    (simp_all only: shop_sides shop_ok shop_stock)

text \<open>
  C2. Atomicity: a cash-on-delivery checkout that raises leaves the published tables exactly as
  they were and queues no confirmation.
\<close>

theorem failed_checkout_publishes_nothing:
  assumes "stock_wf (work s)" "ca_payment_method a \<noteq> CARD" "checkout env redis a s = (Inl e, s')"
  shows "committed s' = committed s \<and> outbox s' = outbox s \<and> (work s' = work s \<or> work s' = committed s)"
  using assms(1,3)
proof (cases rule: checkout_outcome)
  case (placed c lines snap address_id np discount totals)
  with assms(2) show ?thesis by simp
qed simp

theorem failed_checkout_publishes_nothing_witness:
  "\<exists>s'. checkout shop_env True stray shop = (Inl (IntegrityError ''order''), s') \<and>
    committed s' = committed shop \<and> outbox s' = outbox shop \<and> (work s' = work shop \<or> work s' = committed shop)"
proof -
  obtain s' where run: "checkout shop_env True stray shop = (Inl (IntegrityError ''order''), s')"
    using stray_run by blast
  have "ca_payment_method stray \<noteq> CARD" by (simp add: stray_def ana_def CARD_def)
  from failed_checkout_publishes_nothing [OF _ this run] run shop_ok show ?thesis by simp
qed

subsection \<open>Money\<close>

text \<open>Prices and quantities of the tables are not negative.\<close>

definition prices_ok :: "db \<Rightarrow> bool" where
  "prices_ok d \<longleftrightarrow> (\<forall>p \<in> set (t_product d). 0 \<le> p_price p) \<and> (\<forall>v \<in> set (t_variant d). 0 \<le> v_price v) \<and>
    (\<forall>l \<in> set (t_cart_item d). 0 \<le> ci_qty l)"

lemma priced_nonneg:
  assumes "load_cart_lines cfg uid tok lang d = Inr (c, lines)" "prices_ok d" "x \<in> set lines"
  shows "0 \<le> pl_price x \<and> 0 \<le> pl_qty x"
proof -
  obtain l where "l \<in> set (t_cart_item d)" "ci_qty l = pl_qty x"
    using load_cart_lines_Inr(3) [OF assms(1,3)] by blast
  moreover from load_cart_lines_Inr(4) [OF assms(1,3)] assms(2) have "0 \<le> pl_price x"
    by (fastforce simp: priced_from_def prices_ok_def split: option.splits)
  ultimately show ?thesis using assms(2) by (auto simp: prices_ok_def)
qed

lemma item_rows_sum:
  "sum_list (map (\<lambda>i. oio_price_snapshot i * of_int (oio_qty i)) (map item_out (item_rows n oid lines))) = lines_subtotal lines"
  unfolding item_rows_total [of n oid lines, symmetric] by (simp add: item_out_def comp_def)

text \<open>
  C3. The arithmetic of an order: the subtotal is the sum of its lines, the discount lies between
  zero and the subtotal, the total is their difference plus the delivery, and the published order
  carries exactly the figures the customer was answered.
\<close>

theorem order_totals:
  assumes "stock_wf (work s)" "prices_ok (work s)" "checkout env redis a s = (Inr out, s')"
  shows "oo_total out = oo_subtotal out - oo_discount_total out + oo_delivery_cost out \<and>
    oo_subtotal out = sum_list (map (\<lambda>i. oio_price_snapshot i * of_int (oio_qty i)) (oo_items out)) \<and>
    0 \<le> oo_discount_total out \<and> oo_discount_total out \<le> oo_subtotal out \<and>
    (\<exists>x \<in> set (t_order (committed s')). o_number x = oo_number out \<and> o_total x = oo_total out \<and>
      o_subtotal x = oo_subtotal out \<and> o_discount_total x = oo_discount_total out \<and>
      o_delivery_cost x = oo_delivery_cost out)"
  using assms(1,3)
proof (cases rule: checkout_outcome)
  case (placed c lines snap address_id np discount totals)
  let ?A = "checkout_record a c lines snap address_id np discount totals"
  obtain u where out: "out = (from_order (placed_row env ?A s) (placed_items ?A s) (placed_carrier ?A s) False)\<lparr>oo_pay_url := u\<rparr>"
    using placed(3) by blast
  have A: "pa_totals ?A = totals" "pa_lines ?A = lines" by (simp_all add: checkout_record_def)
  from placed(1) obtain w w' v v' where
    load: "load_cart_lines (env_cfg env) (ca_user_id a) (ca_session_token a) (ca_lang a) (work s) = Inr (c, lines)"
    and disc: "resolve_discount env lines (ca_promo_code a) True (s\<lparr>outside := w\<rparr>) = (Inr discount, s\<lparr>outside := w'\<rparr>)"
    and tot: "quote_from_lines env redis lines (new_choice (ca_delivery a)) discount (s\<lparr>outside := v\<rparr>) = (Inr totals, s\<lparr>outside := v'\<rparr>)"
    by (auto simp: prepared_def)
  have "0 \<le> discount \<and> discount \<le> lines_subtotal lines"
    by (intro discount_bounds [OF disc] lines_subtotal_nonneg priced_nonneg [OF load assms(2)])
  moreover have "placed_row env ?A s \<in> set (t_order (committed s'))"
    by (simp add: published_tables [OF placed(2)])
  then have "\<exists>x \<in> set (t_order (committed s')). o_number x = oo_number out \<and> o_total x = oo_total out \<and>
      o_subtotal x = oo_subtotal out \<and> o_discount_total x = oo_discount_total out \<and>
      o_delivery_cost x = oo_delivery_cost out"
    by (rule bexI [rotated]) (simp add: out from_order_def)
  moreover have "sum_list (map (\<lambda>i. oio_price_snapshot i * of_int (oio_qty i)) (oo_items out)) = lines_subtotal lines"
    using item_rows_sum by (simp add: out from_order_def placed_items_def A del: map_map)
  ultimately show ?thesis
    using quote_from_lines_Inr(1-3) [OF tot] by (simp add: out from_order_def A)
qed simp

lemma shop_prices: "prices_ok shop_db"
  unfolding shop_db_def empty_db_def prices_ok_def by simp

theorem order_totals_witness:
  "oo_total ana_out = oo_subtotal ana_out - oo_discount_total ana_out + oo_delivery_cost ana_out \<and>
    0 \<le> oo_discount_total ana_out"
  using order_totals [OF _ _ ana_run] by (simp add: shop_ok shop_prices)



subsection \<open>The cart, the coupon and the order book\<close>

lemma active_cart_frame: "t_cart d = t_cart d' \<Longrightarrow> get_active_cart uid tok d = get_active_cart uid tok d'"
  by (simp add: get_active_cart_def split: option.splits)

lemma no_cart: "get_active_cart uid tok d = Inr None \<Longrightarrow> load_cart_lines cfg uid tok lang d = Inl EmptyCartError"
  by (simp add: load_cart_lines_def)

text \<open>
  C11. A cart is bought once: after a successful checkout the same caller's next checkout, with any
  arguments, raises \<open>EmptyCartError\<close> and leaves the session alone.
\<close>

theorem cart_is_bought_once:
  assumes "stock_wf (work s)" "checkout env redis a s = (Inr out, s')"
    "ca_user_id b = ca_user_id a" "ca_session_token b = ca_session_token a"
  shows "checkout env' redis' b s' = (Inl EmptyCartError, s')"
  using assms(1,2)
proof (cases rule: checkout_outcome)
  case (placed c lines snap address_id np discount totals)
  have "get_active_cart (ca_user_id a) (ca_session_token a) (work s) = Inr (Some c)"
    using placed(1) load_cart_lines_Inr(1) by (auto simp: prepared_def)
  then have "get_active_cart (ca_user_id a) (ca_session_token a) (committed s') = Inr None"
    by (intro published_cart_gone [OF placed(2)]) (simp_all add: checkout_record_def)
  then have "get_active_cart (ca_user_id b) (ca_session_token b) (work s') = Inr None"
    using active_cart_frame [OF published_tables(12) [OF placed(2)]] assms(3,4) by simp
  then show ?thesis by (simp add: checkout_unfold bindM_app no_cart)
qed simp

theorem cart_is_bought_once_witness:
  "checkout shop_env False (ana\<lparr>ca_promo_code := None\<rparr>) ana_done = (Inl EmptyCartError, ana_done)"
  by (rule cart_is_bought_once [OF _ ana_run]) (simp_all add: shop_ok)

text \<open>
  C10. The usage limit of a coupon: an order that got a discount counts against its code exactly once
  and the limit still holds afterwards; an order that got none does not count.
\<close>

theorem coupon_limit_respected:
  assumes "stock_wf (work s)" "prices_ok (work s)" "checkout env redis a s = (Inr out, s')"
    "ca_promo_code a = Some code" "get_by_code code (work s) = Inr (Some p)" "pr_usage_limit p = Some n"
  shows "int (count_orders_using code (committed s')) =
      int (count_orders_using code (work s)) + (if oo_discount_total out = 0 then 0 else 1) \<and>
    (oo_discount_total out \<noteq> 0 \<longrightarrow> int (count_orders_using code (committed s')) \<le> n)"
  using assms(1,3)
proof (cases rule: checkout_outcome)
  case (placed c lines snap address_id np discount totals)
  let ?A = "checkout_record a c lines snap address_id np discount totals"
  from placed(1) obtain w w' v v' where
    load: "load_cart_lines (env_cfg env) (ca_user_id a) (ca_session_token a) (ca_lang a) (work s) = Inr (c, lines)"
    and disc: "resolve_discount env lines (ca_promo_code a) True (s\<lparr>outside := w\<rparr>) = (Inr discount, s\<lparr>outside := w'\<rparr>)"
    and tot: "quote_from_lines env redis lines (new_choice (ca_delivery a)) discount (s\<lparr>outside := v\<rparr>) = (Inr totals, s\<lparr>outside := v'\<rparr>)"
    by (auto simp: prepared_def)
  have nn: "0 \<le> discount"
    using discount_bounds [OF disc lines_subtotal_nonneg] priced_nonneg [OF load assms(2)] by blast
  have out: "oo_discount_total out = discount"
    using placed(3) quote_from_lines_Inr(2) [OF tot] by (auto simp: from_order_def checkout_record_def)
  show ?thesis
  proof (cases "discount = 0")
    case True
    then have "pa_promo_code ?A = None" by (simp add: checkout_record_def)
    then have "count_orders_using code (committed s') = count_orders_using code (work s)"
      by (simp add: count_orders_using_def rowcount_def published_tables [OF placed(2)])
    with True out show ?thesis by simp
  next
    case False
    then have "pa_promo_code ?A = Some code" using nn assms(4) by (simp add: checkout_record_def)
    note more = count_published [OF placed(2) this]
    obtain p' where p': "usable env code (lines_subtotal lines) (work s) p'"
      using resolve_discount_Inr [OF disc] False assms(4) by auto
    then have "int (count_orders_using (pr_code p) (work s)) < n" "pr_code p = code"
      using assms(5,6) get_by_code_code by (auto simp: usable_def)
    with more False out show ?thesis by simp
  qed
qed simp

lemma shop_coupon: "\<exists>p. get_by_code ''TEN'' shop_db = Inr (Some p) \<and> pr_usage_limit p = Some 1"
  unfolding shop_db_def empty_db_def by (simp add: get_by_code_def scalar_one_or_none_def)

theorem coupon_limit_respected_witness:
  "oo_discount_total ana_out = 46 \<and> int (count_orders_using ''TEN'' (committed ana_done)) \<le> 1"
proof -
  obtain p where p: "get_by_code ''TEN'' (work shop) = Inr (Some p)" "pr_usage_limit p = Some 1"
    using shop_coupon by auto
  have "stock_wf (work shop)" "prices_ok (work shop)" by (simp_all add: shop_ok shop_prices)
  from coupon_limit_respected [OF this ana_run ana_fields(4) p] ana_discount show ?thesis by simp
qed

text \<open>
  C12. The order book stays consistent across a checkout: every order keeps a complete audit trail on
  both axes, ids and numbers stay unique, and no order line belongs to an order yet to come.
\<close>

theorem checkout_keeps_order_book:
  assumes "stock_wf (work s)" "orders_inv s" "numbers_ok s" "items_ok s" "checkout env redis a s = (Inr out, s')"
  shows "orders_inv s' \<and> numbers_ok s' \<and> items_ok s'"
  using assms(1,5)
proof (cases rule: checkout_outcome)
  case (placed c lines snap address_id np discount totals)
  show ?thesis
    using orders_inv_published [OF assms(2) placed(2)] numbers_ok_published [OF assms(3) placed(2)]
      items_ok_published [OF assms(4) placed(2)] by blast
qed simp

theorem checkout_keeps_order_book_witness:
  "orders_inv ana_done \<and> numbers_ok ana_done \<and> items_ok ana_done"
  by (rule checkout_keeps_order_book [OF _ _ _ _ ana_run]) (simp_all add: shop_ok)

subsection \<open>Quick buy\<close>

lemma pickup_quote:
  "quote_from_lines env redis lines (new_choice pickup_request) 0 s = (Inr \<lparr>qo_subtotal = lines_subtotal lines,
     qo_discount_total = 0, qo_delivery_cost = 0, qo_total = lines_subtotal lines, qo_delivery_type = PICKUP,
     qo_delivery_service = OWN, qo_item_count = sum_list (map pl_qty lines)\<rparr>, s)"
proof -
  have c: "\<not> is_carrier (new_choice pickup_request)" "dc_type (new_choice pickup_request) = PICKUP"
    "dc_service (new_choice pickup_request) = OWN"
    by (simp_all add: is_carrier_def new_choice_def pickup_request_def NOVAPOST_def OWN_def)
  show ?thesis by (simp add: own_quote_from_lines c delivery_cost_def)
qed

definition quick_record :: "quick_buy_args \<Rightarrow> priced_line \<Rightarrow> persist_args" where
  "quick_record a l = \<lparr>
     pa_lines = [l], pa_user_id = None, pa_email = str_or (qb_email a) (placeholder_email (qb_phone a)),
     pa_phone = qb_phone a,
     pa_totals = \<lparr>qo_subtotal = lines_subtotal [l], qo_discount_total = 0, qo_delivery_cost = 0,
       qo_total = lines_subtotal [l], qo_delivery_type = PICKUP, qo_delivery_service = OWN,
       qo_item_count = sum_list (map pl_qty [l])\<rparr>,
     pa_delivery_type = PICKUP, pa_delivery_address_id = None, pa_snapshot = (qb_name a, None, None, None),
     pa_promo_code = None, pa_cart_id = None, pa_payment_method = ''cod'', pa_choice = None, pa_np_snapshot = None\<rparr>"

lemma quick_buy_run:
  "quick_line (env_cfg env) a (work s) = Inr l \<Longrightarrow> quick_buy env a s = persist_order env (quick_record a l) s"
  by (simp add: quick_buy_def bindM_app pickup_quote quick_record_def)

text \<open>
  One-click purchase: it either raises with nothing published, or publishes one pickup order
  without account, coupon or delivery cost whose total is price times quantity, and conserves stock.
\<close>

theorem quick_buy_outcome:
  assumes "stock_wf (work s)" "committed s = work s" "quick_buy env a s = (r, s')"
  shows "(\<exists>e. r = Inl e \<and> committed s' = committed s \<and> outbox s' = outbox s) \<or>
    (\<exists>out l. r = Inr out \<and> quick_line (env_cfg env) a (work s) = Inr l \<and>
      oo_total out = pl_price l * of_int (qb_qty a) \<and> oo_delivery_cost out = 0 \<and> oo_discount_total out = 0 \<and>
      oo_delivery_type out = PICKUP \<and>
      (\<forall>k q. stock_of (committed s) k = Some q \<longrightarrow> (\<exists>q'. stock_of (committed s') k = Some q' \<and>
        q' + units_ordered (committed s') k = q + units_ordered (committed s) k)))"
proof (cases "quick_line (env_cfg env) a (work s)")
  case (Inl e)
  with assms(3) show ?thesis by (auto simp: quick_buy_def bindM_app)
next
  case (Inr l)
  obtain t A where A: "pa_lines A = [l]" "pa_totals A = t" "qo_total t = lines_subtotal [l]" "qo_delivery_cost t = 0"
      "qo_discount_total t = 0" "pa_delivery_type A = PICKUP" and run: "persist_order env A s = (r, s')"
    using assms(3) that [of "quick_record a l"] by (simp add: quick_buy_run [OF Inr] quick_record_def)
  have qty: "pl_qty l = qb_qty a"
    using Inr by (auto simp: quick_line_def Let_def bindE_Inr new_priced_line_def split: option.splits if_splits)
  show ?thesis
  proof (cases r)
    case (Inl e)
    from persist_failed [OF assms(1) run [unfolded Inl]] Inl show ?thesis by blast
  next
    case (Inr out)
    note pub = persist_published [OF assms(1) run [unfolded Inr]]
    have "oo_delivery_type out = PICKUP"
      using A(6) by (simp add: pub(3) from_order_def placed_row_def order_row_def persist_order_args_def split: prod.splits)
    with pub(3) A qty have "oo_total out = pl_price l * of_int (qb_qty a)" "oo_delivery_cost out = 0"
        "oo_discount_total out = 0" "oo_delivery_type out = PICKUP"
      by (simp_all add: from_order_def lines_subtotal_def line_total_def)
    with published_conserves [OF pub(1) assms(2)] Inr \<open>quick_line (env_cfg env) a (work s) = Inr l\<close>
    show ?thesis by blast
  qed
qed

definition quick_ana :: quick_buy_args where
  "quick_ana = \<lparr>qb_product_id = 1, qb_phone = ''069 123'', qb_name = Some ''Ana'', qb_email = None, qb_qty = 2,
     qb_lang = None, qb_variant_id = None\<rparr>"

theorem quick_buy_outcome_witness:
  "\<exists>r s'. quick_buy shop_env quick_ana shop = (r, s') \<and>
    ((\<exists>e. r = Inl e \<and> committed s' = committed shop \<and> outbox s' = outbox shop) \<or>
    (\<exists>out l. r = Inr out \<and> quick_line (env_cfg shop_env) quick_ana (work shop) = Inr l \<and>
      oo_total out = pl_price l * of_int (qb_qty quick_ana)))"
proof -
  obtain r s' where run: "quick_buy shop_env quick_ana shop = (r, s')" by fastforce
  have "stock_wf (work shop)" "committed shop = work shop" by (simp_all add: shop_ok)
  from quick_buy_outcome [OF this run] run show ?thesis by blast
qed

subsection \<open>Concurrent checkouts\<close>

text \<open>
  C6. No overselling: however the stock statements of any number of concurrent checkouts interleave,
  at every moment the units of committed orders never exceed the opening stock of a row and no row
  is negative.
\<close>

theorem concurrent_no_oversell:
  assumes "reachable (opening_race stock progs) r" "sane stock progs" "stock k = Some q"
  shows "\<exists>q'. rc_stock r k = Some q' \<and> 0 \<le> q' \<and> q' + sold progs r k \<le> q"
  by (rule race_no_oversell(2) [OF assms])

text \<open>Two customers want the last piece.\<close>

definition last_piece :: "stock_key \<Rightarrow> int option" where
  "last_piece = [Variant_Stock 7 \<mapsto> 1]"

definition rivals :: "demand list" where
  "rivals = [[(Variant_Stock 7, 1)], [(Variant_Stock 7, 1)]]"

definition after_first :: race where
  "after_first = withdrawn 0 (Variant_Stock 7) 1 1 [] (opening_race last_piece rivals)"

lemma first_wins: "reachable (opening_race last_piece rivals) after_first"
proof (rule reachable.step, rule reachable.start)
  show "race_step (opening_race last_piece rivals) after_first"
    unfolding after_first_def
    by (rule race_step.withdraw) (simp_all add: opening_race_def rivals_def last_piece_def free_for_def)
qed

lemma rivals_sane: "sane last_piece rivals"
  by (auto simp: sane_def last_piece_def rivals_def split: if_splits)

theorem concurrent_no_oversell_witness:
  "\<exists>q'. rc_stock after_first (Variant_Stock 7) = Some q' \<and> 0 \<le> q' \<and> q' + sold rivals after_first (Variant_Stock 7) \<le> 1"
  by (rule concurrent_no_oversell [OF first_wins rivals_sane]) (simp add: last_piece_def)

text \<open>
  When all the concurrent checkouts have ended, committed or rolled back, no lock is left and
  every row holds the opening stock less exactly the units of the committed ones.
\<close>

theorem concurrent_settled:
  assumes "reachable (opening_race stock progs) r" "sane stock progs" "\<forall>t ds. rc_phase r t \<noteq> Running ds"
  shows "rc_stock r = (\<lambda>k. map_option (\<lambda>q. q - sold progs r k) (stock k)) \<and> rc_lock r = (\<lambda>_. None)"
  using race_settled [OF assms(1,2)] assms(3) by blast

definition all_over :: race where
  "all_over = undone 1 (finished 0 after_first)"

lemma race_over: "reachable (opening_race last_piece rivals) all_over" "\<forall>t ds. rc_phase all_over t \<noteq> Running ds"
proof -
  have s1: "race_step after_first (finished 0 after_first)"
    by (rule race_step.finish) (simp add: after_first_def withdrawn_def)
  have s2: "race_step (finished 0 after_first) all_over"
    unfolding all_over_def
    by (rule race_step.short [where k = "Variant_Stock 7" and n = 1 and ds = "[]"])
      (simp_all add: after_first_def withdrawn_def finished_def released_def free_for_def opening_race_def rivals_def)
  show "reachable (opening_race last_piece rivals) all_over"
    by (rule reachable.step [OF reachable.step [OF first_wins s1] s2])
  show "\<forall>t ds. rc_phase all_over t \<noteq> Running ds"
    by (simp add: all_over_def undone_def finished_def after_first_def withdrawn_def opening_race_def rivals_def)
qed

theorem concurrent_settled_witness:
  "rc_stock all_over = (\<lambda>k. map_option (\<lambda>q. q - sold rivals all_over k) (last_piece k)) \<and> rc_lock all_over = (\<lambda>_. None)"
  by (rule concurrent_settled [OF race_over(1) rivals_sane race_over(2)])

text \<open>
  C7. Concurrent checkouts of simple products end: their carts list products by id, so they take
  their row locks in one order, some transaction can always move (no deadlock), and every statement
  brings the race closer to its end.
\<close>

theorem concurrent_checkouts_end:
  assumes "reachable (opening_race stock progs) r" "sane stock progs"
    "\<forall>prog \<in> set progs. \<exists>cfg uid tok lang d c lines. load_cart_lines cfg uid tok lang d = Inr (c, lines) \<and>
      lines_wf d \<and> stock_wf d \<and> (\<forall>l \<in> set lines. pl_variant_id l = None) \<and> prog = demand_of lines"
  shows "((\<exists>t ds. rc_phase r t = Running ds) \<longrightarrow> (\<exists>r'. race_step r r')) \<and>
    (\<forall>r'. race_step r r' \<longrightarrow> remaining (length progs) r' < remaining (length progs) r)"
proof -
  have "ascending prog" if "prog \<in> set progs" for prog
    using bspec [OF assms(3) that] by (elim exE conjE) (simp add: loaded_ascending)
  with race_progress [OF assms(1,2)] race_step_remaining [OF _ race_inv_reachable [OF assms(1,2)]]
  show ?thesis by blast
qed

definition guest_lines :: "priced_line list" where
  "guest_lines = snd (projr (load_cart_lines shop_settings None (Some ''guest'') None shop_db))"

lemma guest_loaded:
  "\<exists>c. load_cart_lines shop_settings None (Some ''guest'') None shop_db = Inr (c, guest_lines)"
  "demand_of guest_lines = [(Product_Stock 1, 1)]" "\<forall>l \<in> set guest_lines. pl_variant_id l = None"
proof -
  have "isl (load_cart_lines shop_settings None (Some ''guest'') None shop_db) = False" by code_simp
  then show "\<exists>c. load_cart_lines shop_settings None (Some ''guest'') None shop_db = Inr (c, guest_lines)"
    unfolding guest_lines_def by (metis prod.collapse sum.collapse(2))
  have "map (\<lambda>l. (line_stock l, pl_qty l, pl_variant_id l)) guest_lines = [(Product_Stock 1, 1, None)]"
    unfolding guest_lines_def by code_simp
  then obtain l where one: "guest_lines = [l]" and l: "line_stock l = Product_Stock 1" "pl_qty l = 1" "pl_variant_id l = None"
    by auto
  show "demand_of guest_lines = [(Product_Stock 1, 1)]" "\<forall>l \<in> set guest_lines. pl_variant_id l = None"
    unfolding one using l by simp_all
qed

theorem concurrent_checkouts_end_witness:
  "\<exists>r'. race_step (opening_race (stock_of shop_db) [demand_of guest_lines, demand_of guest_lines]) r'"
proof -
  have "sane (stock_of shop_db) [demand_of guest_lines, demand_of guest_lines]"
    using shop_nonneg_rows by (simp add: sane_def guest_loaded(2))
  moreover have "rc_phase (opening_race (stock_of shop_db) [demand_of guest_lines, demand_of guest_lines]) 0 =
      Running (demand_of guest_lines)" by (simp add: opening_race_def)
  ultimately show ?thesis
    using concurrent_checkouts_end [OF reachable.start, of "stock_of shop_db" "[demand_of guest_lines, demand_of guest_lines]"]
      guest_loaded shop_ok(1,2) by fastforce
qed

text \<open>
  The sequential model is one interleaving of the race: a withdrawal loop that succeeds
  corresponds to a transaction of the race that runs alone and commits with the same stock.
\<close>

theorem stock_loop_refines_race:
  assumes "stock_wf (work s)" "forEach lines decrement_line s = (Inr (), s')" "reachable r0 r"
    "rc_phase r t = Running (demand_of lines)" "rc_stock r = stock_of (work s)" "\<forall>k. free_for t k r"
  shows "\<exists>r'. reachable r0 r' \<and> rc_phase r' t = Committed \<and> rc_stock r' = stock_of (work s')"
  using loop_race [OF assms(1-5)] assms(6) by blast

theorem stock_loop_refines_race_witness:
  "\<exists>r' s'. forEach guest_lines decrement_line shop = (Inr (), s') \<and>
    reachable (opening_race (stock_of shop_db) [demand_of guest_lines]) r' \<and> rc_phase r' 0 = Committed \<and>
    rc_stock r' = stock_of (work s')"
proof -
  obtain c where load: "load_cart_lines shop_settings None (Some ''guest'') None shop_db = Inr (c, guest_lines)"
    using guest_loaded(1) by blast
  have "fst (forEach guest_lines decrement_line shop) = Inr ()"
    using loop_succeeds [of shop guest_lines] shop_ok loaded_distinct [OF load]
      priced_stock load_cart_lines_Inr(4) [OF load] by simp
  then obtain s' where run: "forEach guest_lines decrement_line shop = (Inr (), s')"
    by (metis prod.collapse)
  from stock_loop_refines_race [OF _ run reachable.start, of "opening_race (stock_of shop_db) [demand_of guest_lines]" 0]
  show ?thesis using run shop_ok(1) by (auto simp: opening_race_def free_for_def)
qed

end
