(* ===== verification/Order_Properties.thy ===== *)
theory Order_Properties
  imports Checkout_Properties Admin_Correct
begin

text \<open>
  The properties of an order after checkout: its cancellation, the status machines and their audit
  trail, who may read it, card payments and their callbacks, waybills and their tracking.
\<close>

lemma isl_cases: "isl r = False \<Longrightarrow> (\<And>x. r = Inr x \<Longrightarrow> thesis) \<Longrightarrow> thesis"
  by (cases r) auto

subsection \<open>An order to look at\<close>

definition desk_order :: order where
  "desk_order = \<lparr>o_id = 50, o_number = ''N-1'', o_user_id = Some 9, o_email = ''ana@x.md'', o_phone = ''069'',
     o_status = ''new'', o_payment_status = ''pending'', o_subtotal = 200, o_discount_total = 0,
     o_delivery_cost = 0, o_total = 200, o_delivery_type = ''branch'', o_delivery_service = ''novapost'',
     o_delivery_address_id = None, o_delivery_name = Some ''Ana'', o_delivery_city = None,
     o_delivery_street = None, o_delivery_zip = None, o_payment_method = ''card'', o_promo_code = None,
     o_created_at = 100\<rparr>"

definition desk_np :: order_delivery_np where
  "desk_np = \<lparr>np_order_id = 50, np_settlement_id = Some ''s1'', np_settlement_name = ''Balti'', np_settlement_name_ru = ''B'',
     np_division_id = Some ''d1'', np_division_number = ''4'', np_division_address = ''Dacia 1'', np_address_parts = None,
     np_calculated_cost = None, np_parcel_weight_g = Some 600, np_awb_id = None, np_awb_number = None,
     np_awb_data = None, np_status_code = [], np_status_text = [], np_status_updated_at = None\<rparr>"

definition desk_payment :: payment where
  "desk_payment = \<lparr>pm_id = 8, pm_order_id = 50, pm_provider = ''maib'', pm_pay_id = Some ''p1'', pm_status = ''pending'',
     pm_amount = 200, pm_currency = ''MDL'', pm_raw = None\<rparr>"

definition desk_db :: db where
  "desk_db = shop_db\<lparr>t_order := [desk_order],
     t_order_item := [\<lparr>oi_id = 20, oi_order_id = 50, oi_product_id = Some 1, oi_variant_id = None,
        oi_name_snapshot = ''A'', oi_price_snapshot = 100, oi_qty = 2\<rparr>],
     t_history := [\<lparr>h_id = 1, h_order_id = 50, h_from_status = [], h_to_status = ''new'', h_changed_at = 100, h_changed_by = ''system''\<rparr>,
        \<lparr>h_id = 2, h_order_id = 50, h_from_status = [], h_to_status = ''pending'', h_changed_at = 100, h_changed_by = ''system''\<rparr>],
     t_np := [desk_np], t_payment := [desk_payment]\<rparr>"

definition desk :: session where
  "desk = shop\<lparr>work := desk_db, committed := desk_db\<rparr>"

definition desk_env :: environment where
  "desk_env = shop_env\<lparr>env_cfg := shop_settings\<lparr>novapost_mode := ''stub''\<rparr>\<rparr>"

lemma desk_sides [simp]: "work desk = desk_db" "committed desk = desk_db" "pk_seq desk = (\<lambda>_. 100)"
  by (simp_all add: desk_def shop_def)

lemma desk_tables [simp]: "t_order desk_db = [desk_order]" "t_np desk_db = [desk_np]" "t_payment desk_db = [desk_payment]"
  "stock_wf desk_db" "o_id desk_order = 50" "o_status desk_order = ''new''" "o_payment_status desk_order = ''pending''"
  "o_number desk_order = ''N-1''" "o_user_id desk_order = Some 9" "o_email desk_order = ''ana@x.md''"
  by (simp_all add: desk_db_def desk_order_def stock_wf_def shop_db_def empty_db_def)

lemma desk_inv: "orders_inv desk"
proof -
  have "trail ORDER_STATUSES 50 desk_db = [([], ''new'')]" "trail PAYMENT_STATUSES 50 desk_db = [([], ''pending'')]"
    by (simp_all add: trail_def desk_db_def ORDER_STATUSES_def PAYMENT_STATUSES_def)
  then have "audited desk_db desk_order" by (simp add: audited_def)
  moreover have "\<forall>h \<in> set (t_history desk_db). h_order_id h = 50" by (simp add: desk_db_def)
  ultimately show ?thesis by (simp add: orders_inv_def orders_ok_def)
qed

subsection \<open>Cancelling\<close>

lemma cancel_no_waybill:
  assumes "\<And>row. get_novapost oid (work s) = Some row \<Longrightarrow> \<not> truthy (np_awb_number row)"
  shows "cancel_waybill_if_any env redis oid s = (Inr (), s)"
  using assms by (cases "get_novapost oid (work s)") (simp_all add: cancel_waybill_if_any_def)

lemma cancel_succeeds:
  assumes "o_status x \<in> {''new'', ''confirmed''}"
    "\<And>row. get_novapost (o_id x) (work s) = Some row \<Longrightarrow> \<not> truthy (np_awb_number row)"
  shows "\<exists>s'. transition env redis x (Some ''canceled'') None who s = (Inr (moved_row (Some ''canceled'') None x), s')"
proof -
  obtain r s' where run: "transition env redis x (Some ''canceled'') None who s = (r, s')" by fastforce
  have ok: "legal (o_status x) ''canceled''" using assms(1) by (auto simp: legal_iff)
  have none: "cancel_waybill_if_any env redis (o_id x) s = (Inr (), s)"
    using assms(2) by (rule cancel_no_waybill)
  from run show ?thesis
  proof (cases rule: transition_cases)
    case (illegal axis a b)
    with ok show ?thesis by simp
  next
    case (carrier e)
    with none show ?thesis by simp
  next
    case (moved s1 sq)
    with run show ?thesis by blast
  qed
qed

text \<open>
  C5. The inverse of checkout: the order a cash-on-delivery checkout has just created can be
  cancelled, and after that every product and variant has its old stock back.
\<close>

theorem fresh_order_can_be_cancelled:
  assumes "stock_wf (work s)" "committed s = work s" "items_ok s" "ca_payment_method a \<noteq> CARD"
    "\<forall>r \<in> set (t_np (work s)). np_order_id r < pk_seq s Order_T" "checkout env redis a s = (Inr out, s')"
  shows "\<exists>x \<in> set (t_order (work s')). o_number x = oo_number out \<and>
    (\<exists>y s2. transition env' redis' x (Some ''canceled'') None who s' = (Inr y, s2) \<and>
      o_status y = ''canceled'' \<and> stock_of (committed s2) = stock_of (committed s))"
  using assms(1,6)
proof (cases rule: checkout_outcome)
  case (placed c lines snap address_id np discount totals)
  let ?A = "checkout_record a c lines snap address_id np discount totals"
  let ?x = "placed_row env ?A s"
  have same: "work s' = committed s'" using placed(4) [OF assms(4)] by simp
  have mem: "?x \<in> set (t_order (work s'))" by (simp add: published_tables [OF placed(2)])
  have "find (\<lambda>r. np_order_id r = pk_seq s Order_T) (t_np (work s)) = None"
    using assms(5) by (auto simp: find_None_iff)
  then have "get_novapost (o_id ?x) (work s') = placed_carrier ?A s"
    unfolding same by (simp add: get_novapost_def published_tables(8) [OF placed(2)] find_append placed_carrier_def carrier_row_def
      split: option.split)
  then have "\<not> truthy (np_awb_number row)" if "get_novapost (o_id ?x) (work s') = Some row" for row
    using that by (auto simp: placed_carrier_def carrier_row_def truthy_def split: option.splits if_splits)
  then obtain s2 where run: "transition env' redis' ?x (Some ''canceled'') None who s' = (Inr (moved_row (Some ''canceled'') None ?x), s2)"
    using cancel_succeeds [of ?x s' env' redis' who] by auto
  have wf: "stock_wf (work s')" using placed(2) same by (simp add: published_def)
  have st: "stock_of (committed s') = (\<lambda>k. map_option (\<lambda>q. q - ordered lines k) (stock_of (work s) k))"
    using placed(2) by (simp add: published_def checkout_record_def)
  have "held (work s') (o_id ?x) = ordered lines"
    using held_placed [OF assms(3) placed(2)] same by (simp add: checkout_record_def)
  with transition_stock [OF wf run] have "stock_of (committed s2) = stock_of (committed s)"
    by (simp add: same st assms(2) option.map_comp comp_def map_option.id [unfolded id_def])
  moreover have "o_number ?x = oo_number out" using placed(3) by (auto simp: from_order_def)
  ultimately show ?thesis using mem run by (intro bexI [of _ ?x]) (auto simp: moved_row_def)
qed simp

theorem fresh_order_can_be_cancelled_witness:
  "\<exists>x \<in> set (t_order (work ana_done)). o_number x = oo_number ana_out \<and>
    (\<exists>y s2. transition shop_env False x (Some ''canceled'') None ''admin:1'' ana_done = (Inr y, s2) \<and>
      o_status y = ''canceled'' \<and> stock_of (committed s2) = stock_of (committed shop))"
  by (rule fresh_order_can_be_cancelled [OF _ _ _ ana_fields(6) _ ana_run])
    (simp_all add: shop_ok, simp add: shop_db_def empty_db_def)

text \<open>
  A cancelled order has no live waybill: when a transition to \<open>canceled\<close> succeeds, the carrier
  row of the order carries no waybill number any more.
\<close>

theorem cancelled_order_has_no_waybill:
  assumes "transition env redis x (Some ''canceled'') pay who s = (Inr y, s')"
    "get_novapost (o_id x) (work s') = Some row"
  shows "\<not> truthy (np_awb_number row)"
  using assms(1)
proof (cases rule: transition_cases)
  case (moved s1 sq)
  have ret: "returns_stock (Some ''canceled'')" by (simp add: returns_stock_def STOCK_RETURNING_STATUSES_def)
  have "t_np (work s') = t_np (work s1)"
    using stock_return_tables(2) [OF moved(6)] by (simp add: moved_def)
  then have "get_novapost (o_id x) (work s1) = Some row" using assms(2) by (simp add: get_novapost_def)
  moreover have "cancel_waybill_if_any env redis (o_id x) s = (Inr (), s1)" using moved(4) ret by simp
  ultimately show ?thesis using cancel_clears_waybill by blast
qed simp_all

theorem cancelled_order_has_no_waybill_witness:
  "\<exists>y s' row. transition desk_env True desk_order (Some ''canceled'') None ''admin:1'' desk = (Inr y, s') \<and>
    get_novapost 50 (work s') = Some row \<and> \<not> truthy (np_awb_number row)"
proof -
  have np: "get_novapost 50 desk_db = Some desk_np" by (simp add: get_novapost_def desk_np_def)
  then obtain s' where run: "transition desk_env True desk_order (Some ''canceled'') None ''admin:1'' desk =
      (Inr (moved_row (Some ''canceled'') None desk_order), s')"
    using cancel_succeeds [of desk_order desk desk_env True "''admin:1''"] by (auto simp: desk_np_def truthy_def)
  from run have "t_np (work s') = [desk_np]"
  proof (cases rule: transition_cases)
    case (moved s1 sq)
    have "s1 = desk" using moved(4) cancel_no_waybill [of 50 desk] np
      by (auto simp: desk_np_def truthy_def split: if_splits)
    with stock_return_tables(2) [OF moved(6)] show ?thesis by (simp add: moved_def)
  qed simp_all
  then have "get_novapost (o_id desk_order) (work s') = Some desk_np" by (simp add: get_novapost_def desk_np_def)
  from cancelled_order_has_no_waybill [OF run this] this run show ?thesis by auto
qed

subsection \<open>The status machines\<close>

text \<open>
  C8. Every transition, legal or not, keeps the order book consistent: unique ids, and for every
  order an audit trail that starts with its opening entries and ends at its current statuses.
\<close>

theorem transition_keeps_order_book:
  assumes "orders_inv s" "x \<in> set (t_order (work s))" "transition env redis x st pay who s = (r, s')"
  shows "orders_inv s'"
  by (rule transition_orders_inv [OF assms])

theorem transition_keeps_order_book_witness:
  "orders_inv (snd (transition desk_env True desk_order (Some ''confirmed'') None ''admin:1'' desk))"
  by (rule transition_keeps_order_book [OF desk_inv, of desk_order desk_env True "Some ''confirmed''" None "''admin:1''"])
    (simp_all add: prod_eq_iff)



text \<open>
  Illegal moves are refused whole: when either requested move is not in its table (in particular
  any move out of \<open>done\<close>, \<open>canceled\<close> or \<open>refunded\<close>), the transition raises and writes nothing,
  not even the other axis.
\<close>

theorem illegal_transition_changes_nothing:
  assumes "(\<exists>t. st = Some t \<and> t \<notin> set (reachable_from STATUS_TRANSITIONS (o_status x))) \<or>
    (\<exists>t. pay = Some t \<and> t \<notin> set (reachable_from PAYMENT_TRANSITIONS (o_payment_status x)))"
  shows "\<exists>axis a b. transition env redis x st pay who s = (Inl (IllegalTransitionError axis a b), s)"
  by (rule transition_illegal) (use assms in \<open>auto simp: legal_def legal_payment_def\<close>)

theorem illegal_transition_changes_nothing_witness:
  "\<exists>axis a b. transition desk_env True desk_order (Some ''done'') (Some ''paid'') ''admin:1'' desk =
    (Inl (IllegalTransitionError axis a b), desk)"
  by (rule illegal_transition_changes_nothing) (simp add: reachable_from_def STATUS_TRANSITIONS_def)

subsection \<open>Who may read an order\<close>

text \<open>
  C37. Order numbers cannot be probed: for a caller who neither owns the order nor knows its email,
  both order endpoints answer exactly as they do for a number that does not exist.
\<close>

theorem orders_cannot_be_probed:
  assumes "get_order_by_number number d = Inr (Some x)" "get_order_by_number number d' = Inr None"
    "\<not> authorized x user (Some email)"
  shows "lookup_order number user email d = lookup_order number user email d' \<and>
    get_order_endpoint number user d = get_order_endpoint number user d'"
proof -
  have "\<not> authorized x user None"
    using assms(3) by (auto simp: authorized_def split: option.splits if_splits)
  then show ?thesis
    using assms by (simp add: lookup_order_def get_order_endpoint_def get_for_user_def)
qed

theorem orders_cannot_be_probed_witness:
  "lookup_order ''N-1'' None ''eve@x.md'' desk_db = lookup_order ''N-1'' None ''eve@x.md'' shop_db \<and>
    get_order_endpoint ''N-1'' None desk_db = get_order_endpoint ''N-1'' None shop_db"
proof (rule orders_cannot_be_probed)
  show "get_order_by_number ''N-1'' desk_db = Inr (Some desk_order)"
    by (simp add: get_order_by_number_def scalar_one_or_none_def)
  show "get_order_by_number ''N-1'' shop_db = Inr None"
    by (simp add: get_order_by_number_def scalar_one_or_none_def shop_db_def empty_db_def)
  show "\<not> authorized desk_order None (Some ''eve@x.md'')"
    by (simp add: authorized_def) code_simp
qed

text \<open>
  Reading by number alone needs ownership: an answer of \<open>GET /orders/{number}\<close> goes to the signed-in
  owner of exactly that order, and a guest's lookup never shows the waybill number.
\<close>

theorem order_shown_to_owner_only:
  shows "(get_order_endpoint number user d = Inr out \<longrightarrow>
      (\<exists>u x. user = Some u \<and> x \<in> set (t_order d) \<and> o_number x = number \<and> o_user_id x = Some (u_id u) \<and> oo_number out = number)) \<and>
    (lookup_order number None email d = Inr out' \<and> oo_novapost out' = Some n \<longrightarrow> npo_awb_number n = None)"
  using get_order_owner guest_lookup_hides by blast

definition ana_user :: app_user where
  "ana_user = \<lparr>u_id = 9, u_email = ''ana@x.md'', u_is_active = True, u_is_staff = False,
     u_phone = None, u_password_hash = '''', u_role = None\<rparr>"

theorem order_shown_to_owner_only_witness:
  "\<exists>u x out. get_order_endpoint ''N-1'' (Some ana_user) desk_db = Inr out \<and> Some ana_user = Some u \<and>
    x \<in> set (t_order desk_db) \<and> o_user_id x = Some (u_id u) \<and> oo_number out = ''N-1''"
proof -
  have "isl (get_order_endpoint ''N-1'' (Some ana_user) desk_db) = False"
    by (simp add: get_order_endpoint_def get_for_user_def get_order_by_number_def scalar_one_or_none_def
        authorized_def ana_user_def)
  then obtain out where "get_order_endpoint ''N-1'' (Some ana_user) desk_db = Inr out" by (rule isl_cases)
  with order_shown_to_owner_only [of "''N-1''" "Some ana_user" desk_db out] show ?thesis by blast
qed

subsection \<open>Card payments\<close>

text \<open>
  C15. An unauthentic callback does nothing: unless the signature verifies, no table, message or remote
  call changes and the callback is not accepted.
\<close>

theorem unsigned_callback_does_nothing:
  assumes "verify_callback_signature env (new_maib_client (env_cfg env)) result sig \<noteq> Inr True"
  shows "snd (handle_callback env result sig s) = s \<and> fst (handle_callback env result sig s) \<noteq> Inr True"
  using callback_rejected [OF assms] by blast

definition desk_callback :: json where
  "desk_callback = JObj [(''payId'', JStr ''p1''), (''status'', JStr ''OK'')]"

theorem unsigned_callback_does_nothing_witness:
  "snd (handle_callback desk_env desk_callback ''forged'' desk) = desk \<and>
    fst (handle_callback desk_env desk_callback ''forged'' desk) \<noteq> Inr True"
proof (rule unsigned_callback_does_nothing)
  have "compute_signature desk_env (new_maib_client (env_cfg desk_env)) desk_callback = ''c2ln''"
    by (simp add: compute_signature_def desk_env_def shop_env_def)
  moreover have "is_ascii ''c2ln''" "is_ascii ''forged''" by code_simp+
  ultimately show "verify_callback_signature desk_env (new_maib_client (env_cfg desk_env)) desk_callback ''forged'' \<noteq> Inr True"
    by (simp add: verify_callback_signature_def)
qed

lemma payment_found_set:
  assumes "get_order_by_id i (work s) = Inr (Some x)"
  shows "get_order_by_id i (work (s\<lparr>work := set_payment j f (work s)\<rparr>)) = Inr (Some x)"
  using assms by (simp add: get_order_by_id_def set_payment_def)

lemma paid_callback:
  assumes "verify_callback_signature env (new_maib_client (env_cfg env)) (JObj kvs) sig = Inr True"
    "map_of kvs ''payId'' = Some pid" "jtruthy pid" "get_by_pay_id (py_str pid) (work s) = Inr (Some p)"
    "pm_status p \<notin> set TERMINAL_STATUSES" "get_order_by_id (pm_order_id p) (work s) = Inr (Some x)"
    "upper (status_text (JObj kvs)) = ''OK''" "o_payment_status x = ''pending''" "stock_wf (work s)"
  shows "\<exists>s'. handle_callback env (JObj kvs) sig s = (Inr True, s') \<and> committed s' = work s' \<and>
    t_order (work s') = upd (\<lambda>r. o_id r = o_id x) (\<lambda>r. r\<lparr>o_payment_status := ''paid''\<rparr>) (t_order (work s)) \<and>
    stock_of (work s') = stock_of (work s) \<and>
    (\<exists>p'. get_by_pay_id (py_str pid) (work s') = Inr (Some p') \<and> pm_status p' = ''ok'')"
proof -
  let ?s = "s\<lparr>work := set_payment (pm_id p) (\<lambda>r. r\<lparr>pm_status := ''ok''\<rparr>)
    (set_payment (pm_id p) (\<lambda>r. r\<lparr>pm_raw := Some (JObj kvs)\<rparr>) (work s))\<rparr>"
  obtain r s' where t: "transition env False x None (Some ''paid'') ''maib'' ?s = (r, s')" by fastforce
  have legal: "legal_payment (o_payment_status x) ''paid''" using assms(8) by (simp add: legal_payment_iff)
  have none: "returns_stock None = False" by (simp add: returns_stock_def)
  obtain sq where r: "r = Inr (moved_row None (Some ''paid'') x)"
    and w: "work s' = Order_Service.moved env (pk_seq s History_T) x None (Some ''paid'') ''maib'' (work ?s)" "committed s' = work s'"
    using t by (cases rule: transition_cases) (auto simp: legal none)
  have run: "handle_callback env (JObj kvs) sig s = (Inr True, s')"
    using assms t r by (simp add: handle_callback_def bindM_app apply_paid_def)
  have "t_order (work ?s) = t_order (work s)" by (simp add: set_payment_def)
  then have orders: "t_order (work s') = upd (\<lambda>r. o_id r = o_id x) (\<lambda>r. r\<lparr>o_payment_status := ''paid''\<rparr>) (t_order (work s))"
    unfolding w by (simp add: moved_def moved_row_def [abs_def])
  have "stock_of (work s') = stock_of (work s)"
    unfolding w by (simp add: set_payment_def)
  moreover have "get_by_pay_id (py_str pid) (work ?s) = Inr (Some (p\<lparr>pm_raw := Some (JObj kvs), pm_status := ''ok''\<rparr>))"
    using get_by_pay_id_set [OF get_by_pay_id_set [OF assms(4)], of "\<lambda>r. r\<lparr>pm_raw := Some (JObj kvs)\<rparr>"
        "\<lambda>r. r\<lparr>pm_status := ''ok''\<rparr>"] by simp
  then have "get_by_pay_id (py_str pid) (work s') = Inr (Some (p\<lparr>pm_raw := Some (JObj kvs), pm_status := ''ok''\<rparr>))"
    using get_by_pay_id_frame [of "work s'" "work ?s"] unfolding w by (simp add: moved_def)
  ultimately show ?thesis using run w(2) orders by (intro exI [of _ s']) simp
qed

lemma desk_callback_facts:
  "verify_callback_signature desk_env (new_maib_client (env_cfg desk_env)) desk_callback ''c2ln'' = Inr True"
  "get_by_pay_id (py_str (JStr ''p1'')) (work desk) = Inr (Some desk_payment)"
  "get_order_by_id (pm_order_id desk_payment) (work desk) = Inr (Some desk_order)"
  "pm_status desk_payment \<notin> set TERMINAL_STATUSES"
proof -
  have "is_ascii ''c2ln''" by code_simp
  then show "verify_callback_signature desk_env (new_maib_client (env_cfg desk_env)) desk_callback ''c2ln'' = Inr True"
    by (simp add: verify_callback_signature_def compute_signature_def desk_env_def shop_env_def)
  show "get_by_pay_id (py_str (JStr ''p1'')) (work desk) = Inr (Some desk_payment)"
    by (simp add: get_by_pay_id_def py_str_def scalar_one_or_none_def desk_payment_def)
  show "get_order_by_id (pm_order_id desk_payment) (work desk) = Inr (Some desk_order)"
    by (simp add: get_order_by_id_def scalar_one_or_none_def desk_payment_def)
  show "pm_status desk_payment \<notin> set TERMINAL_STATUSES"
    by (simp add: desk_payment_def TERMINAL_STATUSES_def)
qed

lemma desk_paid: "\<exists>s'. handle_callback desk_env desk_callback ''c2ln'' desk = (Inr True, s')"
proof -
  have "upper (status_text desk_callback) = ''OK''" by code_simp
  then show ?thesis
    using paid_callback [OF desk_callback_facts(1) [unfolded desk_callback_def] _ _ desk_callback_facts(2,4,3)]
    by (fastforce simp: desk_callback_def)
qed

text \<open>
  C13. A verified \<open>OK\<close> callback for an open payment of an unpaid order marks exactly this order paid: no
  fulfilment status and no stock changes, the payment becomes \<open>ok\<close>, and everything is committed.
\<close>

theorem paid_callback_settles:
  assumes "verify_callback_signature env (new_maib_client (env_cfg env)) (JObj kvs) sig = Inr True"
    "map_of kvs ''payId'' = Some pid" "jtruthy pid" "get_by_pay_id (py_str pid) (work s) = Inr (Some p)"
    "pm_status p \<notin> set TERMINAL_STATUSES" "get_order_by_id (pm_order_id p) (work s) = Inr (Some x)"
    "upper (status_text (JObj kvs)) = ''OK''" "o_payment_status x = ''pending''" "stock_wf (work s)"
  shows "\<exists>s'. handle_callback env (JObj kvs) sig s = (Inr True, s') \<and> committed s' = work s' \<and>
    t_order (work s') = upd (\<lambda>r. o_id r = o_id x) (\<lambda>r. r\<lparr>o_payment_status := ''paid''\<rparr>) (t_order (work s)) \<and>
    stock_of (work s') = stock_of (work s) \<and>
    (\<exists>p'. get_by_pay_id (py_str pid) (work s') = Inr (Some p') \<and> pm_status p' = ''ok'')"
  by (rule paid_callback [OF assms])

theorem paid_callback_settles_witness:
  "\<exists>s'. handle_callback desk_env desk_callback ''c2ln'' desk = (Inr True, s') \<and> committed s' = work s' \<and>
    map o_payment_status (t_order (work s')) = [''paid'']"
proof -
  have "upper (status_text desk_callback) = ''OK''" by code_simp
  then show ?thesis
    using paid_callback_settles [OF desk_callback_facts(1) [unfolded desk_callback_def] _ _ desk_callback_facts(2,4,3)]
    by (fastforce simp: desk_callback_def)
qed

text \<open>
  C14. Callbacks are idempotent: a callback that was accepted, delivered again, is accepted again and
  changes nothing.
\<close>

theorem callback_is_idempotent:
  assumes "handle_callback env result sig s = (Inr True, s')"
  shows "handle_callback env result sig s' = (Inr True, s')"
  by (rule callback_again [OF assms])

theorem callback_is_idempotent_witness:
  "\<exists>s'. handle_callback desk_env desk_callback ''c2ln'' desk = (Inr True, s') \<and>
    handle_callback desk_env desk_callback ''c2ln'' s' = (Inr True, s')"
proof -
  obtain s' where run: "handle_callback desk_env desk_callback ''c2ln'' desk = (Inr True, s')"
    using desk_paid by blast
  from callback_is_idempotent [OF run] run show ?thesis by blast
qed

text \<open>
  The signature does not depend on the order of the fields of the callback, at the top level: any
  permutation of an object with distinct keys has the same signature.
\<close>

theorem signature_ignores_field_order:
  assumes "mset kvs = mset kvs'" "distinct (map fst kvs)"
  shows "compute_signature env c (JObj kvs) = compute_signature env c (JObj kvs')"
  using signature_permute [of kvs' kvs] assms by simp

theorem signature_ignores_field_order_witness:
  "compute_signature shop_env (new_maib_client shop_settings) (JObj [(''payId'', JStr ''p''), (''status'', JStr ''OK'')]) =
    compute_signature shop_env (new_maib_client shop_settings) (JObj [(''status'', JStr ''OK''), (''payId'', JStr ''p'')])"
  by (rule signature_ignores_field_order) simp_all

subsection \<open>Waybills\<close>

text \<open>
  C38. One shipment per order: after a creation that gave a waybill number, any further creation for
  the order is refused with \<open>WaybillExistsError\<close> before anything is sent to the carrier.
\<close>

theorem waybill_bought_once:
  assumes "create_waybill env redis number s = (Inr row', s1)" "truthy (np_awb_number row')"
  shows "create_waybill env' redis' number s1 = (Inl (WaybillExistsError number), s1)"
  by (rule waybill_once [OF assms])

lemma desk_waybill:
  "\<exists>row' s1. create_waybill desk_env True ''N-1'' desk = (Inr row', s1) \<and> truthy (np_awb_number row')"
proof -
  have "(case fst (create_waybill desk_env True ''N-1'' desk) of Inl e \<Rightarrow> False | Inr r \<Rightarrow> truthy (np_awb_number r))"
    by code_simp
  then show ?thesis by (cases "create_waybill desk_env True ''N-1'' desk") (auto split: sum.splits)
qed

theorem waybill_bought_once_witness:
  "\<exists>row' s1. create_waybill desk_env True ''N-1'' desk = (Inr row', s1) \<and>
    create_waybill desk_env True ''N-1'' s1 = (Inl (WaybillExistsError ''N-1''), s1)"
proof -
  obtain row' s1 where run: "create_waybill desk_env True ''N-1'' desk = (Inr row', s1)" "truthy (np_awb_number row')"
    using desk_waybill by blast
  from waybill_bought_once [OF run] run(1) show ?thesis by blast
qed

text \<open>
  A refused or failed waybill creation records nothing: no row, no commit, no email to the customer.
\<close>

theorem failed_waybill_records_nothing:
  assumes "create_waybill env redis number s = (Inl e, s')"
  shows "work s' = work s \<and> committed s' = committed s \<and> outbox s' = outbox s"
  using waybill_failed [OF assms] by blast

theorem failed_waybill_records_nothing_witness:
  "\<exists>e s'. create_waybill shop_env True ''N-1'' desk = (Inl e, s') \<and> work s' = work desk \<and>
    committed s' = committed desk \<and> outbox s' = outbox desk"
proof -
  have "isl (fst (create_waybill shop_env True ''N-1'' desk)) = True" by code_simp
  then obtain e s' where run: "create_waybill shop_env True ''N-1'' desk = (Inl e, s')"
    by (cases "create_waybill shop_env True ''N-1'' desk") (auto simp: isl_def)
  from failed_waybill_records_nothing [OF run] run show ?thesis by blast
qed

text \<open>
  The tracking sweep only tracks: whatever the carrier answers, it changes nothing but the status
  columns of carrier rows, sends no message, and never fails with a carrier error.
\<close>

theorem sweep_only_tracks:
  assumes "sync_statuses env s = (r, s')"
  shows "swept (work s) (work s') \<and> (committed s' = committed s \<or> swept (work s) (committed s')) \<and>
    outbox s' = outbox s \<and> (\<forall>m. r \<noteq> Inl (NovaPostError m))"
proof -
  have "sweeping s s" by (simp add: sweeping_def swept_refl)
  from preservesD [OF sync_sweeping assms this]
  have frame: "swept (work s) (work s')" "committed s' = committed s \<or> swept (work s) (committed s')" "outbox s' = outbox s"
    by (auto simp: sweeping_def)
  have "r \<noteq> Inl (NovaPostError m)" for m
  proof
    assume "r = Inl (NovaPostError m)"
    with assms have "sync_statuses env s = (Inl (NovaPostError m), s')" by simp
    from raises_onlyD [OF sync_raises this] show False by (simp add: py_exn_def)
  qed
  with frame show ?thesis by blast
qed

theorem sweep_only_tracks_witness:
  "swept desk_db (work (snd (sync_statuses desk_env desk))) \<and> outbox (snd (sync_statuses desk_env desk)) = outbox desk"
  using sweep_only_tracks [of desk_env desk "fst (sync_statuses desk_env desk)" "snd (sync_statuses desk_env desk)"]
  by (simp add: prod_eq_iff)

text \<open>
  The paginated back-office list is complete: pages one to \<open>m\<close> put together are the first \<open>m * n\<close>
  matching orders, newest first, without gap or repetition, and the total counts all matches.
\<close>

theorem order_pages_complete:
  "map fst (concat (map (\<lambda>k. fst (admin_list_orders status query (Suc k) n d)) [0..<m])) = take (m * n) (matching status query d) \<and>
    snd (admin_list_orders status query k n d) = length (matching status query d)"
  using admin_pages by blast

end
