(* ===== verification/Cart_Properties.thy ===== *)
theory Cart_Properties
  imports Sample
begin

text \<open>
  The properties of the cart as a bag of products and variants, of promo codes, of the language of a
  request, and of the carrier's client and cache.
\<close>

lemma shop_carts: "cart_ok shop"
  unfolding cart_ok_def carts_wf_def ids_below_def using shop_ok(2)
  by (simp add: shop_def shop_db_def empty_db_def)

definition ana_cart :: cart where
  "ana_cart = \<lparr>c_id = 4, c_user_id = Some 9, c_session_token = None, c_status = ''draft''\<rparr>"

definition guest_cart :: cart where
  "guest_cart = \<lparr>c_id = 5, c_user_id = None, c_session_token = Some ''guest'', c_status = ''draft''\<rparr>"

lemma draft_ids [simp]: "c_id ana_cart = 4" "c_id guest_cart = 5"
  by (simp_all add: ana_cart_def guest_cart_def)

lemma shop_drafts:
  "get_cart_of (Some 9) None (work shop) = Inr (Some ana_cart)"
  "get_cart_by_user 9 (work shop) = Inr (Some ana_cart)"
  "get_cart_by_session_token ''guest'' (work shop) = Inr (Some guest_cart)"
  by code_simp+

subsection \<open>The cart\<close>



text \<open>
  Cart errors are the documented ones: adding raises only that the product is not available, or
  that the caller has two drafts; the unique indexes on lines are never violated.
\<close>

theorem add_item_raises_only:
  assumes "cart_ok s" "uid \<noteq> None \<or> tok \<noteq> None" "add_item uid tok pid qty lang vid s = (Inl e, s')"
  shows "(\<exists>m. e = ProductNotAvailableError m) \<or> e = MultipleResultsFound"
  by (rule add_item_errors [OF assms])

theorem add_item_raises_only_witness:
  "\<exists>e s'. add_item (Some 9) None 77 1 None None shop = (Inl e, s') \<and>
    ((\<exists>m. e = ProductNotAvailableError m) \<or> e = MultipleResultsFound)"
proof -
  have "isl (fst (add_item (Some 9) None 77 1 None None shop)) = True" by code_simp
  then obtain e s' where run: "add_item (Some 9) None 77 1 None None shop = (Inl e, s')"
    by (cases "add_item (Some 9) None 77 1 None None shop") (auto simp: isl_def)
  from add_item_raises_only [OF shop_carts _ run] run show ?thesis by auto
qed

text \<open>
  Updating a line sets exactly its quantity and removing it empties exactly it; both commit, keep
  the invariant and leave every other line of every cart alone.
\<close>

theorem update_and_remove_one_line:
  assumes "cart_ok s" "get_cart_of uid tok (work s) = Inr (Some c)"
    "l \<in> set (t_cart_item (work s))" "key_of l = (c_id c, pid, vid)"
  shows "(\<exists>s'. update_item uid tok pid qty lang vid s = (Inr (render (c_id c) lang (work s')), s') \<and> cart_ok s' \<and>
      committed s' = work s' \<and>
      (\<forall>cid k. cart_qty (work s') cid k = (if cid = c_id c \<and> k = (pid, vid) then qty else cart_qty (work s) cid k))) \<and>
    (\<exists>s'. remove_item uid tok pid lang vid s = (Inr (render (c_id c) lang (work s')), s') \<and> cart_ok s' \<and>
      committed s' = work s' \<and>
      (\<forall>cid k. cart_qty (work s') cid k = (if cid = c_id c \<and> k = (pid, vid) then 0 else cart_qty (work s) cid k)))"
proof -
  have "get_item (c_id c) pid vid (work s) = Inr (Some l)"
    using get_item_mem [OF cart_okD(1) [OF assms(1)]] assms(3,4) by blast
  note u = update_item_run [OF assms(1,2) this] and r = remove_item_run [OF assms]
  let ?u = "set_qty (ci_id l) (\<lambda>_. qty) (work s)"
  let ?r = "(work s)\<lparr>t_cart_item := filter (\<lambda>l. key_of l \<noteq> (c_id c, pid, vid)) (t_cart_item (work s))\<rparr>"
  show ?thesis
    by (intro conjI exI [of _ "s\<lparr>work := ?u, committed := ?u\<rparr>"] exI [of _ "s\<lparr>work := ?r, committed := ?r\<rparr>"])
      (simp_all add: u r)
qed

theorem update_and_remove_one_line_witness:
  "\<exists>s'. update_item (Some 9) None 1 5 None None shop = (Inr (render 4 None (work s')), s') \<and> cart_ok s'"
proof -
  let ?l = "\<lparr>ci_id = 11, ci_cart_id = 4, ci_product_id = 1, ci_variant_id = None, ci_qty = 2\<rparr>"
  have l: "?l \<in> set (t_cart_item (work shop))" by (simp add: shop_db_def)
  have "key_of ?l = (c_id ana_cart, 1, None)" by (simp add: key_of_def line_key_def)
  from update_and_remove_one_line [OF shop_carts shop_drafts(1) l this, of 5 None] show ?thesis by auto
qed

text \<open>
  C35. Login merges the guest cart: the user's bag becomes the sum of both bags, the guest cart and its
  lines are gone, all other carts are untouched, and the whole is committed.
\<close>

theorem merge_adds_the_bags:
  assumes "cart_ok s" "get_cart_by_user uid (work s) = Inr (Some u)"
    "get_cart_by_session_token tok (work s) = Inr (Some g)" "c_id u \<noteq> c_id g"
  shows "\<exists>s'. merge_guest_into_user uid tok lang s = (Inr (render (c_id u) lang (work s')), s') \<and> cart_ok s' \<and>
    committed s' = work s' \<and> t_cart (work s') = filter (\<lambda>c. c_id c \<noteq> c_id g) (t_cart (work s)) \<and>
    (\<forall>k. cart_qty (work s') (c_id u) k = cart_qty (work s) (c_id u) k + cart_qty (work s) (c_id g) k) \<and>
    (\<forall>cid k. cid \<noteq> c_id u \<and> cid \<noteq> c_id g \<longrightarrow> cart_qty (work s') cid k = cart_qty (work s) cid k)"
proof -
  obtain d' where "merge_guest_into_user uid tok lang s
      = (Inr (render (c_id u) lang d'), s\<lparr>work := d', committed := d'\<rparr>)"
    "cart_ok (s\<lparr>work := d', committed := d'\<rparr>)"
    "t_cart d' = filter (\<lambda>c. c_id c \<noteq> c_id g) (t_cart (work s))"
    "\<And>k. cart_qty d' (c_id u) k = cart_qty (work s) (c_id u) k + cart_qty (work s) (c_id g) k"
    "\<And>cid k. cid \<noteq> c_id u \<Longrightarrow> cid \<noteq> c_id g \<Longrightarrow> cart_qty d' cid k = cart_qty (work s) cid k"
    by (rule merge_run [OF assms, of lang]) (rule that; assumption)
  then show ?thesis by (intro exI [of _ "s\<lparr>work := d', committed := d'\<rparr>"]) simp
qed

theorem merge_adds_the_bags_witness:
  "\<exists>s'. merge_guest_into_user 9 ''guest'' None shop = (Inr (render 4 None (work s')), s') \<and>
    cart_qty (work s') 4 (1, None) = 3"
proof -
  have "cart_qty shop_db 4 (1, None) = 2" "cart_qty shop_db 5 (1, None) = 1"
    by (simp_all add: cart_qty_def key_of_def line_key_def shop_db_def)
  with merge_adds_the_bags [OF shop_carts shop_drafts(2,3), of None] show ?thesis by auto
qed

text \<open>
  The rendered cart adds up: its subtotal is the sum of unit price times quantity over the lines it
  shows, and its item count the sum of their quantities.
\<close>

theorem rendered_cart_adds_up:
  "co_subtotal (render cid lang d) = (\<Sum>x \<leftarrow> co_items (render cid lang d). io_price x * of_int (io_qty x)) \<and>
    co_item_count (render cid lang d) = (\<Sum>x \<leftarrow> co_items (render cid lang d). io_qty x)"
  using render_totals by blast

subsection \<open>Promo codes\<close>

text \<open>
  The discount is sane: it never exceeds the subtotal nor goes below zero, it is a whole number of
  MDL unless the subtotal caps it, and a percentage is charged to within half a MDL.
\<close>

theorem discount_is_sane:
  assumes "0 \<le> subtotal"
  shows "0 \<le> compute_discount p subtotal \<and> compute_discount p subtotal \<le> subtotal \<and>
    ((\<exists>k :: int. compute_discount p subtotal = of_int k) \<or> compute_discount p subtotal = subtotal) \<and>
    (pr_discount_type p = PERCENT \<and> 0 \<le> pr_discount_value p \<and> pr_discount_value p \<le> 100 \<longrightarrow>
      \<bar>compute_discount p subtotal - subtotal * pr_discount_value p / 100\<bar> \<le> 1 / 2)"
  using compute_discount_bounds [OF assms] compute_discount_whole compute_discount_percent assms by blast

theorem discount_is_sane_witness:
  "0 \<le> compute_discount (hd (t_promo shop_db)) 455 \<and> compute_discount (hd (t_promo shop_db)) 455 \<le> 455"
  using discount_is_sane [of 455 "hd (t_promo shop_db)"] by simp

text \<open>
  A code is accepted exactly when it may be: validation returns iff the code exists, is active, the
  moment is in its window, the subtotal reaches its minimum and its uses are below its limit; it
  then returns the computed discount and, in every case, changes nothing.
\<close>

theorem coupon_accepted_iff_usable:
  "validate_and_compute env code subtotal lock s = (Inr (p, x), s') \<longleftrightarrow>
    s' = s \<and> get_by_code code (work s) = Inr (Some p) \<and> pr_is_active p \<and>
    (\<forall>f. pr_active_from p = Some f \<longrightarrow> f \<le> env_now env) \<and> (\<forall>t. pr_active_to p = Some t \<longrightarrow> env_now env \<le> t) \<and>
    (\<forall>m. pr_min_order_total p = Some m \<longrightarrow> m \<le> subtotal) \<and>
    (\<forall>n. pr_usage_limit p = Some n \<longrightarrow> int (count_orders_using (pr_code p) (work s)) < n) \<and>
    x = compute_discount p subtotal"
  unfolding validate_Inr usable_def by blast

theorem coupon_accepted_iff_usable_witness:
  "\<exists>p x. validate_and_compute shop_env ''TEN'' 460 False shop = (Inr (p, x), shop)"
proof -
  obtain p where p: "p = hd (t_promo shop_db)" by simp
  have "get_by_code ''TEN'' (work shop) = Inr (Some p)" "pr_is_active p" "pr_active_from p = Some 0"
    "pr_active_to p = Some 1000" "pr_min_order_total p = None" "pr_usage_limit p = Some 1"
    "count_orders_using (pr_code p) (work shop) = 0"
    by (simp_all add: p get_by_code_def scalar_one_or_none_def shop_db_def empty_db_def count_orders_using_def)
  moreover have "env_now shop_env = 500" by (simp add: shop_env_def)
  ultimately show ?thesis using coupon_accepted_iff_usable [of shop_env "''TEN''" 460 False shop p _ shop] by auto
qed

text \<open>
  Coupon administration keeps the table sound, whether it returns or raises: unique ids and codes,
  known discount types, percentages of at most 100 and ordered windows.
\<close>

theorem coupon_table_stays_sound:
  assumes "promo_inv s"
  shows "promo_inv (snd (create_promo b s)) \<and> promo_inv (snd (update_promo i c s)) \<and> promo_inv (snd (delete_promo i s))"
  using assms create_promo_inv update_promo_inv delete_promo_inv unfolding preserves_def by blast

lemma shop_coupons: "promo_inv shop"
  by (simp add: promo_inv_def promos_ok_def shop_def shop_db_def definition_ok_def DISCOUNT_TYPES_def PERCENT_def)

theorem coupon_table_stays_sound_witness: "promo_inv (snd (delete_promo 1 shop))"
  using coupon_table_stays_sound [OF shop_coupons] by blast

subsection \<open>The carrier\<close>

text \<open>
  One call of the carrier's client sends at most four requests (a token, the call, a fresh token and
  one retry), whatever the server answers.
\<close>

theorem carrier_call_is_bounded:
  assumes "np_request env lang m path params body w = (r, w')"
  shows "length (sent w') \<le> length (sent w) + 4"
  by (rule np_request_sends [OF assms])

theorem carrier_call_is_bounded_witness:
  "length (sent (snd (np_request shop_env ''ro'' ''GET'' ''/x'' [] None (outside shop)))) \<le> 4"
  using carrier_call_is_bounded [of shop_env "''ro''" "''GET''" "''/x''" "[]" None "outside shop"
      "fst (np_request shop_env ''ro'' ''GET'' ''/x'' [] None (outside shop))"
      "snd (np_request shop_env ''ro'' ''GET'' ''/x'' [] None (outside shop))"]
  by (simp add: shop_def)

text \<open>
  The cache is transparent: a settlement search that succeeded returns the same rows when repeated,
  and the repetition sends nothing.
\<close>

theorem settlement_cache_transparent:
  assumes "env_cache_up env" "svc_settlements env lang q w = (Inr rows, w1)" "np_cache w (settlements_key lang q) = None"
  shows "svc_settlements env lang q w1 = (Inr rows, w1)"
  by (rule svc_settlements_cached [OF assms])

definition stub_env :: environment where
  "stub_env = shop_env\<lparr>env_cfg := shop_settings\<lparr>novapost_mode := ''stub''\<rparr>\<rparr>"

theorem settlement_cache_transparent_witness:
  "\<exists>rows w1. svc_settlements stub_env ''ro'' ''chi'' (outside shop) = (Inr rows, w1) \<and>
    svc_settlements stub_env ''ro'' ''chi'' w1 = (Inr rows, w1)"
proof -
  have "isl (fst (svc_settlements stub_env ''ro'' ''chi'' (outside shop))) = False" by code_simp
  then obtain rows w1 where run: "svc_settlements stub_env ''ro'' ''chi'' (outside shop) = (Inr rows, w1)"
    by (cases "svc_settlements stub_env ''ro'' ''chi'' (outside shop)", cases "fst (svc_settlements stub_env ''ro'' ''chi'' (outside shop))") auto
  have "env_cache_up stub_env" "np_cache (outside shop) (settlements_key ''ro'' ''chi'') = None"
    by (simp_all add: stub_env_def shop_env_def shop_def)
  from settlement_cache_transparent [OF this(1) run this(2)] run show ?thesis by blast
qed

text \<open>
  The language of a request is always a supported one; an explicit unsupported value is refused, and
  nothing else is.
\<close>

theorem request_language_supported:
  "(\<forall>r. get_lang h l = Inr r \<longrightarrow> r \<in> set ALLOWED_LANGS) \<and>
    ((\<exists>e. get_lang h l = Inl e) \<longleftrightarrow> (\<exists>x. l = Some x \<and> lower (strip x) \<notin> set ALLOWED_LANGS))"
  using get_lang_allowed get_lang_rejects by metis

theorem request_language_supported_witness:
  "\<exists>r. get_lang None (Some '' RU '') = Inr r \<and> r \<in> set ALLOWED_LANGS"
proof -
  have "isl (get_lang None (Some '' RU '')) = False" by code_simp
  then obtain r where "get_lang None (Some '' RU '') = Inr r" by (cases "get_lang None (Some '' RU '')") auto
  with request_language_supported [of None "Some '' RU ''"] show ?thesis by blast
qed

end
