(* ===== verification/Keyed_Rows.thy ===== *)
theory Keyed_Rows
  imports Models
begin

text \<open>
  Tables with one row per business key (one subscription and one review per product and
  customer): the contract of their insert-or-update, stated as a locale over the key, the primary
  key, the row a first write makes and the change a later write makes.
\<close>

locale keyed_rows =
  fixes key :: "'r \<Rightarrow> 'k" and rid :: "'r \<Rightarrow> int"
    and fresh :: "int \<Rightarrow> 'k \<Rightarrow> 'v \<Rightarrow> 'r" and refresh :: "'v \<Rightarrow> 'r \<Rightarrow> 'r"
  assumes key_fresh [simp]: "key (fresh i k v) = k" and rid_fresh [simp]: "rid (fresh i k v) = i"
    and key_refresh [simp]: "key (refresh v r) = key r" and rid_refresh [simp]: "rid (refresh v r) = rid r"
    and refresh_fresh: "refresh v (fresh i k v) = fresh i k v"
    and refresh_twice: "refresh v (refresh w r) = refresh v r"
begin

definition sound :: "'r list \<Rightarrow> bool" where
  "sound rows \<longleftrightarrow> distinct (map key rows) \<and> distinct (map rid rows)"

definition row_of :: "'k \<Rightarrow> 'r list \<Rightarrow> 'r option" where
  "row_of k rows = find (\<lambda>r. key r = k) rows"

text \<open>The reference definition of the upsert, by business key.\<close>

definition put :: "int \<Rightarrow> 'k \<Rightarrow> 'v \<Rightarrow> 'r list \<Rightarrow> 'r list" where
  "put i k v rows =
    (if row_of k rows = None then rows @ [fresh i k v] else upd (\<lambda>r. key r = k) (refresh v) rows)"

lemma row_of_None: "row_of k rows = None \<longleftrightarrow> (\<forall>r \<in> set rows. key r \<noteq> k)"
  by (auto simp: row_of_def find_None_iff)

lemma row_of_Some: "row_of k rows = Some r \<Longrightarrow> r \<in> set rows \<and> key r = k"
  by (auto simp: row_of_def dest: find_SomeD)

text \<open>The unique key makes \<open>scalar_one_or_none\<close> a lookup that never raises.\<close>

lemma scalar_row_of:
  assumes "distinct (map key rows)"
  shows "scalar_one_or_none (filter (\<lambda>r. key r = k) rows) = Inr (row_of k rows)"
  using assms
proof (induction rows)
  case (Cons r rows)
  show ?case
  proof (cases "key r = k")
    case True
    then have "filter (\<lambda>r. key r = k) rows = []"
      using Cons.prems by (auto simp: filter_empty_conv image_iff)
    with True show ?thesis by (simp add: scalar_one_or_none_def row_of_def)
  qed (use Cons in \<open>simp add: row_of_def\<close>)
qed (simp add: scalar_one_or_none_def row_of_def)

text \<open>The ORM updates the row it loaded, by primary key.\<close>

lemma upd_by_id:
  assumes "sound rows" "row_of k rows = Some r"
  shows "upd (\<lambda>x. rid x = rid r) f rows = upd (\<lambda>x. key x = k) f rows"
proof -
  have "rid x = rid r \<longleftrightarrow> key x = k" if "x \<in> set rows" for x
    using assms that row_of_Some [OF assms(2)] by (metis distinct_key_inj sound_def)
  then show ?thesis by (auto simp: upd_def)
qed

lemma put_sound:
  assumes "sound rows" "\<forall>r \<in> set rows. rid r \<noteq> i"
  shows "sound (put i k v rows)"
  using assms by (auto simp: sound_def put_def row_of_None map_upd_key image_iff)

lemma put_row: "row_of j (put i k v rows) =
    (if j = k then Some (case row_of k rows of None \<Rightarrow> fresh i k v | Some r \<Rightarrow> refresh v r) else row_of j rows)"
proof (cases "row_of k rows")
  case None
  then have "put i k v rows = rows @ [fresh i k v]" by (simp add: put_def)
  then have "row_of j (put i k v rows) = (case row_of j rows of None \<Rightarrow> row_of j [fresh i k v] | Some r \<Rightarrow> Some r)"
    unfolding row_of_def by (simp only: find_append)
  then show ?thesis using None by (cases "row_of j rows") (auto simp: row_of_def [of j "[_]"])
next
  case (Some r)
  have "find (\<lambda>x. key x = j) (upd (\<lambda>x. key x = k) (refresh v) rows)
      = map_option (\<lambda>r. if key r = k then refresh v r else r) (find (\<lambda>x. key x = j) rows)"
    by (rule find_upd) simp
  then show ?thesis using Some
    by (cases "find (\<lambda>x. key x = j) rows") (auto simp: put_def row_of_def dest: find_SomeD)
qed

lemma upd_twice:
  "upd (\<lambda>r. key r = k) (refresh v) (upd (\<lambda>r. key r = k) (refresh w) rows) = upd (\<lambda>r. key r = k) (refresh v) rows"
  by (induction rows) (auto simp: refresh_twice)

text \<open>Writing twice is writing once: the last value counts, no second row appears.\<close>

lemma put_put: "put j k v (put i k v rows) = put i k v rows"
proof (cases "row_of k rows")
  case None
  then have none: "\<And>r. r \<in> set rows \<Longrightarrow> key r \<noteq> k" by (simp add: row_of_None)
  have "row_of k (put i k v rows) \<noteq> None" by (simp add: put_row)
  then show ?thesis
    using None none by (simp add: put_def [of j] put_def [of i] upd_append upd_none refresh_fresh)
next
  case (Some r)
  have "row_of k (put i k v rows) \<noteq> None" by (simp add: put_row)
  then show ?thesis using Some by (simp add: put_def [of j] put_def [of i] upd_twice)
qed

lemma put_keys: "key ` set (put i k v rows) = insert k (key ` set rows)"
proof (cases "row_of k rows")
  case None
  then show ?thesis by (simp add: put_def)
next
  case (Some r)
  then have "k \<in> key ` set rows" using row_of_Some by force
  moreover have "map key (upd (\<lambda>r. key r = k) (refresh v) rows) = map key rows" by (rule map_upd_key) simp
  then have "key ` set (upd (\<lambda>r. key r = k) (refresh v) rows) = key ` set rows" by (metis set_map)
  ultimately show ?thesis using Some by (auto simp: put_def)
qed

lemma drop_row: "row_of j (filter (\<lambda>r. key r \<noteq> k) rows) = (if j = k then None else row_of j rows)"
  by (induction rows) (auto simp: row_of_def)

lemma sound_filter: "sound rows \<Longrightarrow> sound (filter P rows)"
  by (simp add: sound_def distinct_map_filter)

lemma drop_by_id:
  assumes "sound rows" "row_of k rows = Some r"
  shows "filter (\<lambda>x. rid x \<noteq> rid r) rows = filter (\<lambda>x. key x \<noteq> k) rows"
proof (rule filter_cong [OF refl])
  fix x assume "x \<in> set rows"
  then show "(rid x \<noteq> rid r) = (key x \<noteq> k)"
    using assms row_of_Some [OF assms(2)] by (metis distinct_key_inj sound_def)
qed

end

end
