(* ===== verification/Rate_Limit.thy ===== *)
theory Rate_Limit
  imports PyJson
begin

text \<open>
  Redis as the backend uses it outside the carrier cache, and the fixed-window rate limiter of
  \<open>app/api/ratelimit.py\<close>. A key holds an integer and may expire; reading an expired key is reading
  nothing. Redis' clock is the process clock, nothing is evicted, and a server that is down makes
  every command raise.
\<close>

subsection \<open>Redis commands\<close>

definition redis_live :: "instant \<Rightarrow> string \<Rightarrow> outside \<Rightarrow> int option" where
  "redis_live now k w =
    (case redis_keys w k of
      None \<Rightarrow> None
    | Some (v, till) \<Rightarrow> (case till of None \<Rightarrow> Some v | Some t \<Rightarrow> if now < t then Some v else None))"

definition redis_put :: "string \<Rightarrow> redis_entry \<Rightarrow> outside \<Rightarrow> outside" where
  "redis_put k e w = w\<lparr>redis_keys := (redis_keys w)(k := Some e)\<rparr>"

definition redis_call :: "environment \<Rightarrow> 'a net \<Rightarrow> 'a net" where
  "redis_call env m = (if env_cache_up env then m else throw (PyError ''ConnectionError''))"

definition redis_exists :: "environment \<Rightarrow> string \<Rightarrow> bool net" where
  "redis_exists env k = redis_call env (gets (\<lambda>w. redis_live (env_now env) k w \<noteq> None))"

definition redis_set_ex :: "environment \<Rightarrow> string \<Rightarrow> int \<Rightarrow> int \<Rightarrow> unit net" where
  "redis_set_ex env k v ttl =
    redis_call env (modify (redis_put k (v, Some (env_now env + ttl * 1000000))))"

definition redis_incr :: "environment \<Rightarrow> string \<Rightarrow> int net" where
  "redis_incr env k = redis_call env
    (bindM (gets (\<lambda>w. case redis_live (env_now env) k w of
       None \<Rightarrow> (1, None) | Some v \<Rightarrow> (v + 1, snd (the (redis_keys w k))))) (\<lambda>e.
     bindM (modify (redis_put k e)) (\<lambda>_.
     ret (fst e))))"

definition redis_expire :: "environment \<Rightarrow> string \<Rightarrow> int \<Rightarrow> unit net" where
  "redis_expire env k secs = redis_call env
    (modify (\<lambda>w. case redis_live (env_now env) k w of
       None \<Rightarrow> w | Some v \<Rightarrow> redis_put k (v, Some (env_now env + secs * 1000000)) w))"

lemma redis_keys_put [simp]: "redis_keys (redis_put k e w) = (redis_keys w)(k := Some e)"
  by (simp add: redis_put_def)

lemma redis_live_put:
  "redis_live now j (redis_put k (v, till) w) =
    (if j = k then (case till of None \<Rightarrow> Some v | Some t \<Rightarrow> if now < t then Some v else None)
     else redis_live now j w)"
  by (simp add: redis_live_def)

subsection \<open>Integers from text\<close>

text \<open>\<open>int(text)\<close>: white space around, a sign, digits with single underscores between them.\<close>

definition py_int :: "string \<Rightarrow> int option" where
  "py_int text =
    (let (sg, body) = drop_sign (strip text); parts = split_on CHR ''_'' body in
      if list_all (\<lambda>p. p \<noteq> [] \<and> digits_only p) parts then Some (sg * int (str_val (concat parts)))
      else None)"

lemma is_space_digit: "is_space c \<Longrightarrow> \<not> (48 \<le> (of_char c :: nat) \<and> of_char c \<le> (57 :: nat))"
  by (auto simp: is_space_def Let_def)

lemma strip_no_space:
  assumes "\<And>c. c \<in> set s \<Longrightarrow> \<not> is_space c"
  shows "strip s = s"
proof -
  have keep: "dropWhile is_space t = t" if "\<And>c. c \<in> set t \<Longrightarrow> \<not> is_space c" for t
    using that by (cases t) auto
  show ?thesis using assms keep [of s] keep [of "rev s"] by (simp add: strip_def lstrip_def)
qed

lemma nat_str_plain: "c \<in> set (nat_str n) \<Longrightarrow> 48 \<le> (of_char c :: nat) \<and> of_char c \<le> (57 :: nat)"
proof (induction n rule: nat_str.induct)
  case (1 n)
  have digit: "d < 10 \<Longrightarrow> 48 \<le> (of_char (digit_char d) :: nat) \<and> of_char (digit_char d) \<le> (57 :: nat)" for d
    by (simp add: digit_char_def)
  show ?case
  proof (cases "n < 10")
    case True
    with 1 digit show ?thesis by (simp add: nat_str.simps [of n])
  next
    case False
    with 1 digit [of "n mod 10"] show ?thesis by (auto simp: nat_str.simps [of n])
  qed
qed

lemma nat_str_nonempty [simp]: "nat_str n \<noteq> []"
  by (simp add: nat_str.simps [of n])

lemma py_int_str [simp]: "py_int (int_str i) = Some i"
proof -
  have plain: "digits_only (nat_str n)" for n
    using nat_str_plain by (auto simp: digits_only_def list_all_iff)
  have no_us: "CHR ''_'' \<notin> set (nat_str n)" for n
    using nat_str_plain [of "CHR ''_''" n] by auto
  have split: "split_on CHR ''_'' (nat_str n) = [nat_str n]" for n
    by (rule split_on_no_sep) (rule no_us)
  have space: "\<not> is_space c" if "c \<in> set (int_str i)" for c
    using that nat_str_plain is_space_digit
    by (auto simp: int_str_def is_space_def split: if_splits)
  have sign: "drop_sign (nat_str n) = (1, nat_str n)" for n
    using nat_str_plain [of "CHR ''-''" n] nat_str_plain [of "CHR ''+''" n]
    by (cases "nat_str n") (auto simp: drop_sign_def)
  show ?thesis
    using strip_no_space [OF space, of "int_str i"]
    by (cases "i < 0") (simp_all add: py_int_def int_str_def drop_sign_def [of "CHR ''-'' # _"] sign split plain)
qed

subsection \<open>The limiter\<close>

text \<open>What the dependencies read of a request: headers (names are case-insensitive), cookies, peer.\<close>

record web_request =
  wr_headers :: "(string \<times> string) list"
  wr_cookies :: "(string \<times> string) list"
  wr_client_host :: "string option"

definition header :: "string \<Rightarrow> web_request \<Rightarrow> string option" where
  "header name r = map_option snd (find (\<lambda>(k, _). lower k = lower name) (wr_headers r))"

definition parse_limit :: "string \<Rightarrow> exn + int \<times> int" where
  "parse_limit setting =
    (let count_raw = before CHR ''/'' setting;
         window_raw = drop (Suc (length count_raw)) setting in
      case (py_int (strip count_raw), py_int (strip window_raw)) of
        (Some count, Some window) \<Rightarrow>
          if count \<le> 0 \<or> window \<le> 0 then Inl (PyError ''ValueError'') else Inr (count, window)
      | _ \<Rightarrow> Inl (PyError ''ValueError''))"

definition client_ip :: "web_request \<Rightarrow> string" where
  "client_ip r =
    (case header ''CF-Connecting-IP'' r of
      Some raw \<Rightarrow> if strip raw \<noteq> [] then strip raw else str_or (wr_client_host r) ''unknown''
    | None \<Rightarrow> str_or (wr_client_host r) ''unknown'')"

definition limit_key :: "string \<Rightarrow> string \<Rightarrow> string" where
  "limit_key bucket ip = ''ratelimit:'' @ bucket @ '':'' @ ip"

definition rate_limiter :: "environment \<Rightarrow> string \<Rightarrow> string \<Rightarrow> web_request \<Rightarrow> unit net" where
  "rate_limiter env setting bucket r =
    bindM (liftE (parse_limit setting)) (\<lambda>(count, window).
    let k = limit_key bucket (client_ip r) in
    bindM (redis_incr env k) (\<lambda>hits.
    bindM (whenM (hits = 1) (redis_expire env k window)) (\<lambda>_.
    whenM (hits > count) (throw (HTTPException 429 (Some ''rate_limited''))))))"

subsection \<open>A fixed window\<close>

text \<open>Different buckets and different clients never share a counter.\<close>

lemma limit_key_inj:
  assumes "CHR '':'' \<notin> set b" "CHR '':'' \<notin> set b'" "limit_key b ip = limit_key b' ip'"
  shows "b = b' \<and> ip = ip'"
proof -
  have "takeWhile (\<lambda>c. c \<noteq> CHR '':'') (b @ CHR '':'' # ip) = takeWhile (\<lambda>c. c \<noteq> CHR '':'') (b' @ CHR '':'' # ip')"
    using assms(3) by (simp add: limit_key_def)
  moreover have "takeWhile (\<lambda>c. c \<noteq> CHR '':'') (x @ CHR '':'' # y) = x" if "CHR '':'' \<notin> set x" for x y
    using that by (induction x) auto
  ultimately have "b = b'" using assms(1,2) by simp
  with assms(3) show ?thesis by (simp add: limit_key_def)
qed

text \<open>One hit on a counter: what the limiter answers and what it leaves, given the counter's value.\<close>

definition count_of :: "instant \<Rightarrow> string \<Rightarrow> outside \<Rightarrow> int" where
  "count_of now k w = (case redis_live now k w of None \<Rightarrow> 0 | Some v \<Rightarrow> v)"

lemma rate_limiter_hit:
  assumes "env_cache_up env" "parse_limit setting = Inr (count, window)"
    and "k = limit_key bucket (client_ip r)" "rate_limiter env setting bucket r w = (out, w')"
  shows "out = (if count_of (env_now env) k w < count then Inr () else Inl (HTTPException 429 (Some ''rate_limited'')))"
    "redis_live (env_now env) k w = None \<Longrightarrow> redis_keys w' = (redis_keys w)(k := Some (1, Some (env_now env + window * 1000000)))"
    "redis_live (env_now env) k w = Some v \<Longrightarrow> v \<noteq> 0 \<Longrightarrow>
      redis_keys w' = (redis_keys w)(k := Some (v + 1, snd (the (redis_keys w k))))"
proof -
  have pos: "0 < count" "0 < window"
    using assms(2) by (auto simp: parse_limit_def Let_def split: option.splits if_splits)
  note sims = rate_limiter_def redis_incr_def redis_expire_def redis_call_def bindM_app redis_live_put count_of_def Let_def
  show "out = (if count_of (env_now env) k w < count then Inr () else Inl (HTTPException 429 (Some ''rate_limited'')))"
    using assms pos by (auto simp: sims split: option.splits if_splits)
  show "redis_keys w' = (redis_keys w)(k := Some (1, Some (env_now env + window * 1000000)))"
    if "redis_live (env_now env) k w = None"
    using assms pos that by (auto simp: sims split: if_splits)
  show "redis_keys w' = (redis_keys w)(k := Some (v + 1, snd (the (redis_keys w k))))"
    if "redis_live (env_now env) k w = Some v" "v \<noteq> 0"
    using assms pos that by (auto simp: sims split: if_splits)
qed

text \<open>
  A trace of requests that pass limiters of one budget, each at its instant and for its bucket;
  \<open>limited\<close> is who was let in.
\<close>

fun limited :: "environment \<Rightarrow> string \<Rightarrow> (instant \<times> string \<times> web_request) list \<Rightarrow> outside \<Rightarrow> bool list" where
  "limited env setting [] w = []"
| "limited env setting ((t, bucket, r) # rest) w =
    (case rate_limiter (env\<lparr>env_now := t\<rparr>) setting bucket r w of
      (out, w') \<Rightarrow> (\<not> isl out) # limited env setting rest w')"

definition request_key :: "instant \<times> string \<times> web_request \<Rightarrow> string" where
  "request_key q = limit_key (fst (snd q)) (client_ip (snd (snd q)))"

definition admitted_of :: "string \<Rightarrow> (instant \<times> string \<times> web_request) list \<Rightarrow> bool list \<Rightarrow> nat" where
  "admitted_of k trace outs = length (filter (\<lambda>(q, ok). request_key q = k \<and> ok) (zip trace outs))"

definition hits_of :: "string \<Rightarrow> (instant \<times> string \<times> web_request) list \<Rightarrow> nat" where
  "hits_of k trace = length (filter (\<lambda>q. request_key q = k) trace)"

lemma admitted_Nil [simp]: "admitted_of k [] outs = 0"
  by (simp add: admitted_of_def)

lemma admitted_Cons [simp]:
  "admitted_of k (q # trace) (ok # outs) = (if request_key q = k \<and> ok then 1 else 0) + admitted_of k trace outs"
  by (simp add: admitted_of_def)

lemma hits_simps [simp]:
  "hits_of k [] = 0" "hits_of k (q # trace) = (if request_key q = k then 1 else 0) + hits_of k trace"
  by (simp_all add: hits_of_def)

text \<open>While the window is open with \<open>v\<close> hits counted, the next \<open>count - v\<close> hits pass and no other.\<close>

lemma limited_open:
  assumes "env_cache_up env" "parse_limit setting = Inr (count, window)"
    and "redis_keys w k = Some (v, Some close)" "1 \<le> v" "\<forall>q \<in> set trace. fst q < close"
  shows "int (admitted_of k trace (limited env setting trace w)) = min (max 0 (count - v)) (int (hits_of k trace))"
  using assms
proof (induction trace arbitrary: w v)
  case (Cons q trace)
  obtain t b r where q: "q = (t, b, r)" by (cases q)
  let ?env = "env\<lparr>env_now := t\<rparr>" and ?k = "request_key q"
  obtain out w' where run: "rate_limiter ?env setting b r w = (out, w')" by (cases "rate_limiter ?env setting b r w")
  have up: "env_cache_up ?env" using Cons.prems(1) by simp
  have key: "?k = limit_key b (client_ip r)" by (simp add: request_key_def q)
  note hit = rate_limiter_hit [OF up Cons.prems(2) key run]
  show ?case
  proof (cases "?k = k")
    case True
    have live: "redis_live t k w = Some v" using Cons.prems(3,5) by (simp add: redis_live_def q)
    have "redis_keys w' k = Some (v + 1, Some close)"
      using hit(3) live True Cons.prems(3,4) by simp
    then have "int (admitted_of k trace (limited env setting trace w')) = min (max 0 (count - (v + 1))) (int (hits_of k trace))"
      using Cons.IH [OF Cons.prems(1,2), of w' "v + 1"] Cons.prems(4,5) by simp
    moreover have "isl out \<longleftrightarrow> \<not> v < count"
      using hit(1) live True by (auto simp: count_of_def)
    ultimately show ?thesis by (auto simp: q run True [unfolded q])
  next
    case False
    have "redis_keys w' k = redis_keys w k"
    proof (cases "redis_live t ?k w")
      case None
      then show ?thesis using hit(2) False by simp
    next
      case (Some u)
      then show ?thesis
        using run False key Cons.prems(1,2)
        by (auto simp: rate_limiter_def redis_incr_def redis_expire_def redis_call_def bindM_app Let_def split: if_splits option.splits)
    qed
    then have "int (admitted_of k trace (limited env setting trace w')) = min (max 0 (count - v)) (int (hits_of k trace))"
      using Cons.IH [OF Cons.prems(1,2), of w' v] Cons.prems(3-5) by simp
    then show ?thesis by (simp add: q run False [unfolded q])
  qed
qed simp

text \<open>A window opens with the first hit on a key that does not count.\<close>

lemma limited_window:
  assumes "env_cache_up env" "parse_limit setting = Inr (count, window)" "redis_keys w k = None"
    and "\<forall>q \<in> set trace. t0 \<le> fst q \<and> fst q < t0 + window * 1000000"
  shows "int (admitted_of k trace (limited env setting trace w)) = min count (int (hits_of k trace))"
  using assms
proof (induction trace arbitrary: w)
  case Nil
  then show ?case by (auto simp: parse_limit_def Let_def split: option.splits if_splits)
next
  case (Cons q trace)
  obtain t b r where q: "q = (t, b, r)" by (cases q)
  let ?env = "env\<lparr>env_now := t\<rparr>" and ?k = "request_key q"
  obtain out w' where run: "rate_limiter ?env setting b r w = (out, w')" by (cases "rate_limiter ?env setting b r w")
  have up: "env_cache_up ?env" using Cons.prems(1) by simp
  have key: "?k = limit_key b (client_ip r)" by (simp add: request_key_def q)
  have pos: "0 < count" using Cons.prems(2) by (auto simp: parse_limit_def Let_def split: option.splits if_splits)
  note hit = rate_limiter_hit [OF up Cons.prems(2) key run]
  show ?case
  proof (cases "?k = k")
    case True
    have live: "redis_live t k w = None" using Cons.prems(3) by (simp add: redis_live_def)
    have "redis_keys w' k = Some (1, Some (t + window * 1000000))"
      using hit(2) live True by simp
    moreover have "\<forall>x \<in> set trace. fst x < t + window * 1000000"
      using Cons.prems(4) by (force simp: q)
    ultimately have "int (admitted_of k trace (limited env setting trace w')) = min (max 0 (count - 1)) (int (hits_of k trace))"
      using limited_open [OF Cons.prems(1,2), of w' k 1] by simp
    moreover have "\<not> isl out"
      using hit(1) live True pos by (simp add: count_of_def)
    ultimately show ?thesis using pos by (simp add: q run True [unfolded q])
  next
    case False
    have "redis_keys w' k = None"
      using run False key Cons.prems(1-3)
      by (auto simp: rate_limiter_def redis_incr_def redis_expire_def redis_call_def bindM_app Let_def split: if_splits option.splits)
    then show ?thesis using Cons.IH [OF Cons.prems(1,2), of w'] Cons.prems(4) by (simp add: q run False [unfolded q])
  qed
qed

end
