(* ===== verification/PyCodec.thy ===== *)
theory PyCodec
  imports Rate_Limit
begin

text \<open>
  The two codecs of the opaque listing cursors: \<open>json.dumps\<close>/\<open>json.loads\<close> and the URL-safe
  \<open>base64\<close> of Python, with the read-back lemmas the cursors rest on.

  Bytes are the characters of a string. \<open>json_loads\<close> is \<open>json.loads\<close> of such bytes for UTF-8 text
  without a byte-order mark whose code points stay below 256 (the range of \<open>PyText\<close>); it does not
  bound the nesting depth. A float is kept as its text, as in \<open>json\<close>. The depth argument of the
  parser counts down once per value, member and element; each of these consumes a character, so
  the length of the text is enough.
\<close>

subsection \<open>base64\<close>

text \<open>The alphabet: capital letters, small letters, digits, \<open>-\<close> and \<open>_\<close>.\<close>

definition b64_char :: "nat \<Rightarrow> char" where
  "b64_char n =
    (if n < 26 then char_of (65 + n) else if n < 52 then char_of (71 + n)
     else if n < 62 then char_of (n - 4) else if n = 62 then CHR ''-'' else CHR ''_'')"

text \<open>Decoding first maps \<open>-\<close> and \<open>_\<close> to \<open>+\<close> and \<open>/\<close>, so both spellings are accepted.\<close>

definition b64_val :: "char \<Rightarrow> nat option" where
  "b64_val c =
    (let n = of_char c :: nat in
      if 65 \<le> n \<and> n \<le> 90 then Some (n - 65)
      else if 97 \<le> n \<and> n \<le> 122 then Some (n - 71)
      else if 48 \<le> n \<and> n \<le> 57 then Some (n + 4)
      else if c = CHR ''-'' \<or> c = CHR ''+'' then Some 62
      else if c = CHR ''_'' \<or> c = CHR ''/'' then Some 63 else None)"

fun b64_encode_bytes :: "nat list \<Rightarrow> string" where
  "b64_encode_bytes [] = []"
| "b64_encode_bytes [a] = [b64_char (a div 4), b64_char (a mod 4 * 16), CHR ''='', CHR ''='']"
| "b64_encode_bytes [a, b] =
    [b64_char (a div 4), b64_char (a mod 4 * 16 + b div 16), b64_char (b mod 16 * 4), CHR ''='']"
| "b64_encode_bytes (a # b # c # rest) =
    b64_char (a div 4) # b64_char (a mod 4 * 16 + b div 16) # b64_char (b mod 16 * 4 + c div 64)
      # b64_char (c mod 64) # b64_encode_bytes rest"

text \<open>
  \<open>binascii.a2b_base64\<close> outside strict mode: the position in the quad, the bits left over, the pad
  characters seen. Characters outside the alphabet are skipped; a completed pad ends the data.
\<close>

fun b64_scan :: "nat \<Rightarrow> nat \<Rightarrow> nat \<Rightarrow> string \<Rightarrow> nat list option" where
  "b64_scan quad left pads [] = (if quad = 0 then Some [] else None)"
| "b64_scan quad left pads (c # cs) =
    (if c = CHR ''='' then
       (if 2 \<le> quad \<and> 4 \<le> quad + Suc pads then Some []
        else b64_scan quad left (if 2 \<le> quad then Suc pads else pads) cs)
     else case b64_val c of
       None \<Rightarrow> b64_scan quad left pads cs
     | Some v \<Rightarrow>
         if quad = 0 then b64_scan 1 v 0 cs
         else if quad = 1 then map_option ((#) (left * 4 + v div 16)) (b64_scan 2 (v mod 16) 0 cs)
         else if quad = 2 then map_option ((#) (left * 16 + v div 4)) (b64_scan 3 (v mod 4) 0 cs)
         else map_option ((#) (left * 64 + v)) (b64_scan 0 0 0 cs))"

definition urlsafe_b64encode :: "string \<Rightarrow> string" where
  "urlsafe_b64encode s = b64_encode_bytes (map of_char s)"

text \<open>\<open>cursor.encode("ascii")\<close> before it: \<open>None\<close> stands for the exceptions of either step.\<close>

definition urlsafe_b64decode :: "string \<Rightarrow> string option" where
  "urlsafe_b64decode s =
    (if list_all (\<lambda>c. (of_char c :: nat) < 128) s then map_option (map char_of) (b64_scan 0 0 0 s)
     else None)"

lemma b64_char_val [simp]:
  assumes "n < 64"
  shows "b64_val (b64_char n) = Some n" "b64_char n \<noteq> CHR ''=''" "(of_char (b64_char n) :: nat) < 128"
proof -
  have code: "of_char (b64_char n) =
      (if n < 26 then 65 + n else if n < 52 then 71 + n else if n < 62 then n - 4 else if n = 62 then 45 else 95 :: nat)"
    using assms by (simp add: b64_char_def)
  then have "(of_char (b64_char n) :: nat) \<noteq> of_char CHR ''=''" by auto
  then show "b64_char n \<noteq> CHR ''=''" by metis
  show "(of_char (b64_char n) :: nat) < 128" using code assms by auto
  consider "n < 26" | "26 \<le> n" "n < 52" | "52 \<le> n" "n < 62" | "n = 62" | "n = 63" using assms by linarith
  then show "b64_val (b64_char n) = Some n"
  proof cases
    case 3
    then have "48 \<le> n - 4" "n - 4 \<le> 57" "n - 4 + 4 = n" by linarith+
    with 3 code show ?thesis by (simp add: b64_val_def Let_def)
  next
    case 4
    then show ?thesis by (simp add: b64_val_def b64_char_def Let_def)
  next
    case 5
    then show ?thesis by (simp add: b64_val_def b64_char_def Let_def)
  qed (use code in \<open>simp_all add: b64_val_def Let_def\<close>)
qed

lemma b64_quads:
  "a < 256 \<Longrightarrow> b < 256 \<Longrightarrow> a mod 4 * 16 + b div 16 < (64 :: nat)"
  "a < 256 \<Longrightarrow> b < 256 \<Longrightarrow> a mod 16 * 4 + b div 64 < (64 :: nat)"
  "a < 256 \<Longrightarrow> a div 4 < (64 :: nat)" "a mod 4 * 16 < (64 :: nat)" "a mod 16 * 4 < (64 :: nat)"
  by auto

lemma b64_unquads:
  fixes b :: nat
  assumes "b < 256"
  shows "b div 16 div 16 = 0" "b div 64 div 4 = 0"
    "b div 16 mod 16 * 16 + b mod 16 = b" "b div 64 mod 4 * 64 + b mod 64 = b"
proof -
  have "b div 16 < 16" "b div 64 < 4" using assms by auto
  then show "b div 16 div 16 = 0" "b div 64 div 4 = 0"
    "b div 16 mod 16 * 16 + b mod 16 = b" "b div 64 mod 4 * 64 + b mod 64 = b"
    by (simp_all only: div_less mod_less div_mult_mod_eq)
qed

lemma b64_scan_encode: "list_all (\<lambda>b. b < 256) bs \<Longrightarrow> b64_scan 0 0 0 (b64_encode_bytes bs) = Some bs"
  by (induction bs rule: b64_encode_bytes.induct) (simp_all add: b64_quads b64_unquads)

lemma b64_encode_ascii: "list_all (\<lambda>b. b < 256) bs \<Longrightarrow> list_all (\<lambda>c. (of_char c :: nat) < 128) (b64_encode_bytes bs)"
  by (induction bs rule: b64_encode_bytes.induct) (simp_all add: b64_quads)

lemma b64_decode_encode [simp]: "urlsafe_b64decode (urlsafe_b64encode s) = Some s"
proof -
  have bytes: "list_all (\<lambda>b. b < 256) (map of_char s :: nat list)"
    by (simp add: list_all_iff)
  show ?thesis
    using b64_scan_encode [OF bytes] b64_encode_ascii [OF bytes]
    by (simp add: urlsafe_b64decode_def urlsafe_b64encode_def comp_def)
qed

subsection \<open>Writing JSON\<close>

text \<open>\<open>ensure_ascii\<close>: everything but the printable ASCII characters is escaped.\<close>

definition QUOTE :: char where "QUOTE = CHR 0x22"
definition BSLASH :: char where "BSLASH = CHR 0x5C"

definition json_char :: "char \<Rightarrow> string" where
  "json_char c =
    (let n = of_char c :: nat in
      if c = QUOTE then [BSLASH, QUOTE] else if c = BSLASH then [BSLASH, BSLASH]
      else if 32 \<le> n \<and> n \<le> 126 then [c]
      else if n = 10 then BSLASH # ''n'' else if n = 13 then BSLASH # ''r'' else if n = 9 then BSLASH # ''t''
      else if n = 8 then BSLASH # ''b'' else if n = 12 then BSLASH # ''f''
      else BSLASH # ''u00'' @ [hex_char (n div 16), hex_char (n mod 16)])"

definition json_str :: "string \<Rightarrow> string" where
  "json_str s = QUOTE # concat (map json_char s) @ [QUOTE]"

text \<open>\<open>json.dumps(.., separators=(",", ":"))\<close>.\<close>

fun json_dumps :: "json \<Rightarrow> string" where
  "json_dumps JNull = ''null''"
| "json_dumps (JBool b) = (if b then ''true'' else ''false'')"
| "json_dumps (JInt i) = int_str i"
| "json_dumps (JFloat t) = t"
| "json_dumps (JStr s) = json_str s"
| "json_dumps (JArr xs) = ''['' @ join '','' (map json_dumps xs) @ '']''"
| "json_dumps (JObj kvs) = ''{'' @ join '','' (map (\<lambda>(k, v). json_str k @ '':'' @ json_dumps v) kvs) @ ''}''"

subsection \<open>Reading JSON\<close>

definition skip_ws :: "string \<Rightarrow> string" where
  "skip_ws = dropWhile (\<lambda>c. (of_char c :: nat) \<in> {32, 9, 10, 13})"

definition hex_val :: "char \<Rightarrow> nat option" where
  "hex_val c =
    (let n = of_char c :: nat in
      if 48 \<le> n \<and> n \<le> 57 then Some (n - 48)
      else if 97 \<le> n \<and> n \<le> 102 then Some (n - 87)
      else if 65 \<le> n \<and> n \<le> 70 then Some (n - 55) else None)"

text \<open>The four hexadecimal digits of a \<open>\u\<close> escape, for code points the model has.\<close>

definition hex4 :: "string \<Rightarrow> char option" where
  "hex4 s =
    (if length s = 4 then
      (case (hex_val (s ! 0), hex_val (s ! 1), hex_val (s ! 2), hex_val (s ! 3)) of
        (Some a, Some b, Some c, Some d) \<Rightarrow> if a = 0 \<and> b = 0 then Some (char_of (c * 16 + d)) else None
      | _ \<Rightarrow> None)
     else None)"

definition escape_char :: "char \<Rightarrow> char option" where
  "escape_char c = map_of [(QUOTE, QUOTE), (BSLASH, BSLASH), (CHR ''/'', CHR ''/''),
     (CHR ''b'', CHR 0x08), (CHR ''f'', CHR 0x0C), (CHR ''n'', CHR 0x0A), (CHR ''r'', CHR 0x0D), (CHR ''t'', CHR 0x09)] c"

fun scan_str :: "string \<Rightarrow> (string \<times> string) option" where
  "scan_str [] = None"
| "scan_str (c # cs) =
    (if c = QUOTE then Some ([], cs)
     else if c = BSLASH then
       (if take 1 cs = ''u'' then
          (case hex4 (take 4 (drop 1 cs)) of
             None \<Rightarrow> None
           | Some h \<Rightarrow> map_option (apfst ((#) h)) (scan_str (drop 5 cs)))
        else case cs of
             [] \<Rightarrow> None
           | e # es \<Rightarrow> (case escape_char e of
               None \<Rightarrow> None
             | Some h \<Rightarrow> map_option (apfst ((#) h)) (scan_str es)))
     else if (of_char c :: nat) < 32 then None
     else map_option (apfst ((#) c)) (scan_str cs))"

declare scan_str.simps(2) [simp del]

definition is_dec :: "char \<Rightarrow> bool" where
  "is_dec c \<longleftrightarrow> 48 \<le> (of_char c :: nat) \<and> of_char c \<le> (57 :: nat)"

text \<open>The number token: an integer, or a float when a fraction or an exponent follows.\<close>

definition scan_num :: "string \<Rightarrow> (json \<times> string) option" where
  "scan_num s =
    (let (neg, body) = (if take 1 s = ''-'' then (True, tl s) else (False, s));
         ds = (if take 1 body = ''0'' then ''0'' else takeWhile is_dec body);
         r = drop (length ds) body;
         fr = (if take 1 r = ''.'' then takeWhile is_dec (tl r) else []);
         r1 = (if fr = [] then r else drop (Suc (length fr)) r);
         sg = (if take 1 r1 \<in> {''e'', ''E''} \<and> take 1 (tl r1) \<in> {''+'', ''-''} then take 1 (tl r1) else []);
         ex = (if take 1 r1 \<in> {''e'', ''E''} then takeWhile is_dec (drop (Suc (length sg)) r1) else []);
         r2 = (if ex = [] then r1 else drop (Suc (length sg + length ex)) r1)
     in if ds = [] then None
        else if fr = [] \<and> ex = [] then Some (JInt (if neg then - int (str_val ds) else int (str_val ds)), r2)
        else Some (JFloat ((if neg then ''-'' else []) @ ds @ (if fr = [] then [] else ''.'' @ fr)
               @ (if ex = [] then [] else ''e'' @ sg @ ex)), r2))"

definition scan_word :: "string \<Rightarrow> (json \<times> string) option" where
  "scan_word s =
    (if take 4 s = ''null'' then Some (JNull, drop 4 s)
     else if take 4 s = ''true'' then Some (JBool True, drop 4 s)
     else if take 5 s = ''false'' then Some (JBool False, drop 5 s)
     else if take 3 s = ''NaN'' then Some (JFloat ''nan'', drop 3 s)
     else if take 8 s = ''Infinity'' then Some (JFloat ''inf'', drop 8 s)
     else if take 9 s = ''-Infinity'' then Some (JFloat ''-inf'', drop 9 s)
     else scan_num s)"

fun parse_value :: "nat \<Rightarrow> string \<Rightarrow> (json \<times> string) option"
  and parse_members :: "nat \<Rightarrow> string \<Rightarrow> ((string \<times> json) list \<times> string) option"
  and parse_elems :: "nat \<Rightarrow> string \<Rightarrow> (json list \<times> string) option" where
  "parse_value 0 s = None"
| "parse_value (Suc n) s =
    (if take 1 s = [QUOTE] then map_option (apfst JStr) (scan_str (tl s))
     else if take 1 s = ''{'' then
       (let t = skip_ws (tl s) in
         if take 1 t = ''}'' then Some (JObj [], tl t) else map_option (apfst JObj) (parse_members n t))
     else if take 1 s = ''['' then
       (let t = skip_ws (tl s) in
         if take 1 t = '']'' then Some (JArr [], tl t) else map_option (apfst JArr) (parse_elems n t))
     else scan_word s)"
| "parse_members 0 t = None"
| "parse_members (Suc n) t =
    (if take 1 t \<noteq> [QUOTE] then None
     else case scan_str (tl t) of
       None \<Rightarrow> None
     | Some (k, r) \<Rightarrow>
         (let r1 = skip_ws r in
           if take 1 r1 \<noteq> '':'' then None
           else case parse_value n (skip_ws (tl r1)) of
             None \<Rightarrow> None
           | Some (v, r2) \<Rightarrow>
               (let r3 = skip_ws r2 in
                 if take 1 r3 = ''}'' then Some ([(k, v)], tl r3)
                 else if take 1 r3 = '','' then map_option (apfst ((#) (k, v))) (parse_members n (skip_ws (tl r3)))
                 else None)))"
| "parse_elems 0 t = None"
| "parse_elems (Suc n) t =
    (case parse_value n t of
       None \<Rightarrow> None
     | Some (v, r2) \<Rightarrow>
         (let r3 = skip_ws r2 in
           if take 1 r3 = '']'' then Some ([v], tl r3)
           else if take 1 r3 = '','' then map_option (apfst ((#) v)) (parse_elems n (skip_ws (tl r3)))
           else None))"

declare parse_value.simps(2) [simp del] parse_members.simps(2) [simp del] parse_elems.simps(2) [simp del]

text \<open>UTF-8, for code points below 256.\<close>

fun utf8_decode :: "string \<Rightarrow> string option" where
  "utf8_decode [] = Some []"
| "utf8_decode (c # cs) =
    (let n = of_char c :: nat in
      if n < 128 then map_option ((#) c) (utf8_decode cs)
      else case cs of
        [] \<Rightarrow> None
      | d # ds \<Rightarrow>
          if (n = 194 \<or> n = 195) \<and> 128 \<le> (of_char d :: nat) \<and> of_char d < (192 :: nat)
          then map_option ((#) (char_of ((n - 194) * 64 + of_char d))) (utf8_decode ds) else None)"

definition json_loads :: "string \<Rightarrow> json option" where
  "json_loads bytes =
    (case utf8_decode bytes of
      None \<Rightarrow> None
    | Some s \<Rightarrow> (case parse_value (Suc (length s)) (skip_ws s) of
        Some (v, r) \<Rightarrow> if skip_ws r = [] then Some v else None
      | None \<Rightarrow> None))"


subsection \<open>Reading back a flat object\<close>

text \<open>The members of a cursor: strings, integers and nulls.\<close>

fun scalar :: "json \<Rightarrow> bool" where
  "scalar JNull = True"
| "scalar (JInt _) = True"
| "scalar (JStr _) = True"
| "scalar _ = False"

lemma hex_char_val [simp]: "n < 16 \<Longrightarrow> hex_val (hex_char n) = Some n"
  by (auto simp: hex_val_def hex_char_def Let_def)

lemma hex4_pair: "hex4 [CHR ''0'', CHR ''0'', hex_char (of_char c div 16), hex_char (of_char c mod 16)] = Some c"
proof -
  have "(of_char c :: nat) < 256" by simp
  then have "(of_char c :: nat) div 16 < 16" by linarith
  moreover have "hex_val CHR ''0'' = Some 0" by (simp add: hex_val_def)
  moreover have "char_of ((of_char c :: nat) div 16 * 16 + of_char c mod 16) = c"
    by (metis char_of_char div_mult_mod_eq)
  ultimately show ?thesis by (simp add: hex4_def)
qed

lemma scan_str_char: "scan_str (json_char c @ rest) = map_option (apfst ((#) c)) (scan_str rest)"
proof -
  have special: "c = char_of n" if "of_char c = n" for n :: nat using that by auto
  have code: "of_char QUOTE = (34 :: nat)" "of_char BSLASH = (92 :: nat)" by (simp_all add: QUOTE_def BSLASH_def)
  have lit: "char_of (10 :: nat) = CHR 0x0A" "char_of (13 :: nat) = CHR 0x0D" "char_of (9 :: nat) = CHR 0x09"
    "char_of (8 :: nat) = CHR 0x08" "char_of (12 :: nat) = CHR 0x0C"
    by code_simp+
  have diff: "QUOTE \<noteq> BSLASH" by (simp add: QUOTE_def BSLASH_def)
  consider (quote) "c = QUOTE" | (slash) "c = BSLASH" | (plain) "c \<noteq> QUOTE" "c \<noteq> BSLASH" "32 \<le> (of_char c :: nat)" "of_char c \<le> (126 :: nat)"
    | (nl) "of_char c = (10 :: nat)" | (cr) "of_char c = (13 :: nat)" | (tab) "of_char c = (9 :: nat)"
    | (bs) "of_char c = (8 :: nat)" | (ff) "of_char c = (12 :: nat)"
    | (hex) "c \<noteq> QUOTE" "c \<noteq> BSLASH" "\<not> (32 \<le> (of_char c :: nat) \<and> of_char c \<le> (126 :: nat))" "of_char c \<notin> {10, 13, 9, 8, 12 :: nat}"
    by blast
  then show ?thesis
  proof cases
    case hex
    then show ?thesis using hex4_pair [of c]
      by (simp add: json_char_def Let_def scan_str.simps(2) diff [symmetric])
  next
    case plain
    then show ?thesis by (simp add: json_char_def scan_str.simps(2))
  qed (use diff code in \<open>auto simp: lit json_char_def Let_def scan_str.simps(2) escape_char_def QUOTE_def BSLASH_def dest!: special\<close>)
qed

lemma scan_str_json: "scan_str (concat (map json_char s) @ QUOTE # rest) = Some (s, rest)"
proof (induction s)
  case Nil
  then show ?case by (simp add: scan_str.simps(2))
next
  case (Cons c s)
  then show ?case by (simp add: scan_str_char)
qed


text \<open>A number stops at a comma or a brace.\<close>

definition closes :: "string \<Rightarrow> bool" where
  "closes rest \<longleftrightarrow> (case rest of [] \<Rightarrow> True | c # _ \<Rightarrow> c = CHR '','' \<or> c = CHR ''}'')"

lemma nat_str_lead: "0 < n \<Longrightarrow> take 1 (nat_str n) \<noteq> ''0''"
proof (induction n rule: nat_str.induct)
  case (1 n)
  show ?case
  proof (cases "n < 10")
    case True
    have "(of_char (digit_char n) :: nat) = 48 + n" using True by (simp add: digit_char_def)
    then have "digit_char n \<noteq> CHR ''0''" using 1(2) by auto
    then show ?thesis using True by (simp add: nat_str.simps [of n])
  next
    case False
    then have "take 1 (nat_str (n div 10)) \<noteq> ''0''" using 1 by simp
    moreover have "nat_str (n div 10) \<noteq> []" by simp
    ultimately show ?thesis using False by (cases "nat_str (n div 10)") (simp_all add: nat_str.simps [of n])
  qed
qed

lemma nat_str_0: "nat_str 0 = ''0''"
  by code_simp

lemma nat_str_take: "closes rest \<Longrightarrow> takeWhile is_dec (nat_str n @ rest) = nat_str n"
  using nat_str_plain
  by (cases rest) (auto simp: closes_def takeWhile_append is_dec_def)

lemma nat_str_first: "\<exists>c cs. nat_str n = c # cs \<and> is_dec c"
  using nat_str_plain [of "hd (nat_str n)" n] by (cases "nat_str n") (auto simp: is_dec_def)

lemma nat_str_token:
  assumes "closes rest"
  shows "(if take 1 (nat_str n @ rest) = ''0'' then ''0'' else takeWhile is_dec (nat_str n @ rest)) = nat_str n"
proof (cases "n = 0")
  case False
  obtain c cs where "nat_str n = c # cs" using nat_str_first by blast
  then show ?thesis using nat_str_lead [of n] False nat_str_take [OF assms, of n] by simp
qed (simp add: nat_str_0)

lemma closes_take: "closes rest \<Longrightarrow> take 1 rest \<noteq> ''.'' \<and> take 1 rest \<notin> {''e'', ''E''}"
  by (cases rest) (auto simp: closes_def)

lemma scan_num_int: "closes rest \<Longrightarrow> scan_num (int_str i @ rest) = Some (JInt i, rest)"
proof (cases "i < 0")
  case True
  assume "closes rest"
  then show ?thesis using True nat_str_token [of rest "nat (- i)"] closes_take [of rest]
    by (simp add: scan_num_def int_str_def Let_def)
next
  case False
  assume cl: "closes rest"
  obtain c cs where "nat_str (nat i) = c # cs" "is_dec c" using nat_str_first by blast
  then have "take 1 (nat_str (nat i) @ rest) \<noteq> ''-''" by (auto simp: is_dec_def)
  then show ?thesis using False cl nat_str_token [of rest "nat i"] closes_take [of rest]
    by (simp add: scan_num_def int_str_def Let_def)
qed

lemma int_str_first: "\<exists>c cs. int_str i = c # cs \<and> (is_dec c \<or> c = CHR ''-'' \<and> (\<exists>d ds. cs = d # ds \<and> is_dec d))"
  using nat_str_first [of "nat i"] nat_str_first [of "nat (- i)"] by (auto simp: int_str_def)

lemma scan_word_num:
  "c \<notin> {CHR ''n'', CHR ''t'', CHR ''f'', CHR ''N'', CHR ''I''} \<Longrightarrow> c \<noteq> CHR ''-'' \<or> take 1 t \<noteq> ''I'' \<Longrightarrow>
    scan_word (c # t) = scan_num (c # t)"
  by (cases t) (auto simp: scan_word_def)

lemma is_dec_not: "is_dec c \<Longrightarrow>
    c \<notin> {CHR ''n'', CHR ''t'', CHR ''f'', CHR ''N'', CHR ''I'', QUOTE, CHR ''{'', CHR ''['', CHR ''-''}"
  by (auto simp: is_dec_def QUOTE_def)

lemma int_str_start:
  obtains c cs where "int_str i = c # cs"
    "c \<notin> {CHR ''n'', CHR ''t'', CHR ''f'', CHR ''N'', CHR ''I'', QUOTE, CHR ''{'', CHR ''[''}"
    "(of_char c :: nat) \<notin> {32, 9, 10, 13}" "\<And>rest. c \<noteq> CHR ''-'' \<or> take 1 (cs @ rest) \<noteq> ''I''"
proof -
  from int_str_first [of i] obtain c cs
    where s: "int_str i = c # cs" and c: "is_dec c \<or> c = CHR ''-'' \<and> (\<exists>d ds. cs = d # ds \<and> is_dec d)"
    by (elim exE conjE)
  show thesis
  proof (rule that [OF s])
    show "c \<notin> {CHR ''n'', CHR ''t'', CHR ''f'', CHR ''N'', CHR ''I'', QUOTE, CHR ''{'', CHR ''[''}"
      using c is_dec_not [of c] by (elim disjE) (simp_all add: QUOTE_def)
    show "(of_char c :: nat) \<notin> {32, 9, 10, 13}"
      using c by (elim disjE) (auto simp: is_dec_def)
    show "c \<noteq> CHR ''-'' \<or> take 1 (cs @ rest) \<noteq> ''I''" for rest
      using c is_dec_not [of c] is_dec_not [of "hd cs"] by (elim disjE) auto
  qed
qed

lemma scan_word_int:
  assumes "closes rest"
  shows "scan_word (int_str i @ rest) = Some (JInt i, rest)"
proof -
  obtain c cs where s: "int_str i = c # cs" and c: "c \<notin> {CHR ''n'', CHR ''t'', CHR ''f'', CHR ''N'', CHR ''I''}"
    "c \<noteq> CHR ''-'' \<or> take 1 (cs @ rest) \<noteq> ''I''"
    by (rule int_str_start [of i]) auto
  then show ?thesis using scan_word_num [OF c] scan_num_int [OF assms, of i] by simp
qed

lemma parse_scalar:
  assumes "scalar v" "closes rest"
  shows "parse_value (Suc n) (json_dumps v @ rest) = Some (v, rest)"
proof (cases v)
  case JNull
  then show ?thesis by (simp add: parse_value.simps(2) scan_word_def QUOTE_def)
next
  case (JInt i)
  obtain c cs where s: "int_str i = c # cs" and c: "c \<notin> {QUOTE, CHR ''{'', CHR ''[''}"
    by (rule int_str_start [of i]) auto
  then have "parse_value (Suc n) (int_str i @ rest) = scan_word (int_str i @ rest)"
    by (simp add: parse_value.simps(2) s)
  then show ?thesis using JInt scan_word_int [OF assms(2)] by simp
next
  case (JStr s)
  then show ?thesis using scan_str_json [of s rest] by (simp add: parse_value.simps(2) json_str_def)
qed (use assms(1) in auto)

lemma skip_ws_keep: "s \<noteq> [] \<Longrightarrow> (of_char (hd s) :: nat) \<notin> {32, 9, 10, 13} \<Longrightarrow> skip_ws s = s"
  by (cases s) (auto simp: skip_ws_def)

lemma skip_ws_scalar: "scalar v \<Longrightarrow> skip_ws (json_dumps v @ rest) = json_dumps v @ rest"
proof (rule skip_ws_keep)
  assume v: "scalar v"
  obtain c cs where "json_dumps v @ rest = c # cs" "(of_char c :: nat) \<notin> {32, 9, 10, 13}"
  proof (cases v)
    case (JInt i)
    obtain c cs where "int_str i = c # cs" "(of_char c :: nat) \<notin> {32, 9, 10, 13}"
      by (rule int_str_start [of i]) auto
    then show ?thesis using that JInt by simp
  qed (use v that in \<open>auto simp: json_str_def QUOTE_def\<close>)
  then show "json_dumps v @ rest \<noteq> []" "(of_char (hd (json_dumps v @ rest)) :: nat) \<notin> {32, 9, 10, 13}" by auto
qed

definition member :: "string \<times> json \<Rightarrow> string" where
  "member kv = json_str (fst kv) @ '':'' @ json_dumps (snd kv)"

lemma skip_ws_punct [simp]:
  "skip_ws (CHR '':'' # t) = CHR '':'' # t" "skip_ws (CHR '','' # t) = CHR '','' # t"
  "skip_ws (CHR ''}'' # t) = CHR ''}'' # t" "skip_ws (QUOTE # t) = QUOTE # t" "skip_ws (CHR ''{'' # t) = CHR ''{'' # t"
  by (simp_all add: skip_ws_def QUOTE_def)

lemma parse_member:
  assumes "scalar v" "c = CHR '','' \<or> c = CHR ''}''"
  shows "parse_members (Suc (Suc m)) (member (k, v) @ c # t) =
    (if c = CHR ''}'' then Some ([(k, v)], t)
     else map_option (apfst ((#) (k, v))) (parse_members (Suc m) (skip_ws t)))"
  using parse_scalar [OF assms(1), of "c # t" m] scan_str_json [of k "CHR '':'' # json_dumps v @ c # t"] assms(2)
  by (auto simp: parse_members.simps(2) [of "Suc m"] member_def json_str_def skip_ws_scalar [OF assms(1)] closes_def)

lemma parse_members_flat:
  "fs \<noteq> [] \<Longrightarrow> \<forall>f \<in> set fs. scalar (snd f) \<Longrightarrow> length fs < n \<Longrightarrow>
    parse_members n (join '','' (map member fs) @ ''}'' @ rest) = Some (fs, rest)"
proof (induction fs arbitrary: n)
  case (Cons f fs)
  obtain k v where f: "f = (k, v)" by (cases f)
  obtain m where n: "n = Suc (Suc m)" using Cons.prems(3) by (cases n; cases "n - 1") auto
  have v: "scalar v" using Cons.prems(2) by (simp add: f)
  show ?case
  proof (cases fs)
    case Nil
    then show ?thesis using parse_member [OF v, of "CHR ''}''" m k rest] by (simp add: f n)
  next
    case (Cons g gs)
    let ?tail = "join '','' (map member fs) @ ''}'' @ rest"
    have "\<exists>u. ?tail = QUOTE # u" by (cases gs) (simp_all add: Cons member_def json_str_def)
    then have "skip_ws ?tail = ?tail" by auto
    moreover have "parse_members (Suc m) ?tail = Some (fs, rest)"
      using Cons.IH [of "Suc m"] Cons.prems(2,3) Cons by (simp add: n)
    moreover have "join '','' (map member (f # fs)) @ ''}'' @ rest = member (k, v) @ CHR '','' # ?tail"
      by (simp add: f Cons)
    ultimately show ?thesis using parse_member [OF v, of "CHR '',''" m k ?tail] by (simp add: f n)
  qed
qed simp

lemma utf8_ascii: "list_all (\<lambda>c. (of_char c :: nat) < 128) s \<Longrightarrow> utf8_decode s = Some s"
  by (induction s) (simp_all add: Let_def)

lemma json_str_ascii: "list_all (\<lambda>c. (of_char c :: nat) < 128) (json_str s)"
proof -
  have hex: "(of_char (hex_char n) :: nat) < 128" if "n < 16" for n
    using that by (simp add: hex_char_def)
  have "list_all (\<lambda>c. (of_char c :: nat) < 128) (json_char c)" for c
  proof -
    have "(of_char c :: nat) < 256" by simp
    then have "(of_char c :: nat) div 16 < 16" by linarith
    then show ?thesis by (simp add: json_char_def Let_def QUOTE_def BSLASH_def hex)
  qed
  then show ?thesis by (auto simp: json_str_def list_all_iff QUOTE_def)
qed

lemma scalar_ascii: "scalar v \<Longrightarrow> list_all (\<lambda>c. (of_char c :: nat) < 128) (json_dumps v)"
proof (cases v)
  case (JInt i)
  then show ?thesis using nat_str_plain [where n = "nat i"] nat_str_plain [where n = "nat (- i)"]
    by (force simp: int_str_def list_all_iff)
qed (auto simp: json_str_ascii)

lemma members_ascii:
  "\<forall>f \<in> set fs. scalar (snd f) \<Longrightarrow> list_all (\<lambda>c. (of_char c :: nat) < 128) (join '','' (map member fs))"
proof (induction fs)
  case (Cons f fs)
  have "list_all (\<lambda>c. (of_char c :: nat) < 128) (member f)"
    using Cons.prems by (simp add: member_def json_str_ascii scalar_ascii)
  then show ?case using Cons by (cases fs) simp_all
qed simp

lemma length_join: "length ws \<le> length (join '','' ws) + 1"
proof (induction ws)
  case (Cons w ws)
  then show ?case by (cases ws) simp_all
qed simp

lemma json_readback:
  assumes "fs \<noteq> []" "\<forall>f \<in> set fs. scalar (snd f)"
  shows "json_loads (json_dumps (JObj fs)) = Some (JObj fs)"
proof -
  let ?body = "join '','' (map member fs)"
  have dumps: "json_dumps (JObj fs) = CHR ''{'' # ?body @ ''}''"
  proof -
    have "map (\<lambda>(k, v). json_str k @ '':'' @ json_dumps v) fs = map member fs"
      by (rule map_cong) (auto simp: member_def)
    then show ?thesis by (simp only: json_dumps.simps) simp
  qed
  have utf: "utf8_decode (json_dumps (JObj fs)) = Some (json_dumps (JObj fs))"
    by (rule utf8_ascii) (use members_ascii [OF assms(2)] in \<open>simp add: dumps del: json_dumps.simps\<close>)
  have len: "length fs < Suc (length ?body + 1)" using length_join [of "map member fs"] by simp
  have "parse_members (Suc (length ?body + 1)) (?body @ ''}'') = Some (fs, [])"
    using parse_members_flat [OF assms len, of "[]"] by simp
  moreover have "skip_ws (?body @ ''}'') = ?body @ ''}''" "take 1 (?body @ ''}'') \<noteq> ''}''"
    using assms(1) by (cases fs; cases "tl fs"; simp add: member_def json_str_def skip_ws_def QUOTE_def)+
  ultimately have "parse_value (Suc (length (json_dumps (JObj fs)))) (json_dumps (JObj fs)) = Some (JObj fs, [])"
    unfolding dumps by (simp add: parse_value.simps(2) QUOTE_def)
  moreover have "skip_ws (json_dumps (JObj fs)) = json_dumps (JObj fs)" unfolding dumps by (simp add: skip_ws_def)
  ultimately show ?thesis using utf by (simp add: json_loads_def skip_ws_def del: json_dumps.simps)
qed

end
