(* ===== verification/PyFloat.thy ===== *)
theory PyFloat
  imports PyCodec
begin

text \<open>
  Python floats where the code computes with them: a float is the rational an IEEE double holds
  (normal range), \<open>to_float\<close> the rounding of an exact value to it, \<open>round_half_even\<close> the rounding
  \<open>round()\<close> uses. \<open>int_of_json\<close> and \<open>cursor_object\<close> are the conversions shared by the cursors of
  the two listings.
\<close>

definition round_half_even :: "rat \<Rightarrow> int" where
  "round_half_even x =
    (let f = \<lfloor>x\<rfloor>; d = x - of_int f in
      if d < 1 / 2 then f else if d > 1 / 2 then f + 1 else if even f then f else f + 1)"

fun bit_length :: "nat \<Rightarrow> nat" where
  "bit_length n = (if n = 0 then 0 else Suc (bit_length (n div 2)))"

declare bit_length.simps [simp del]

definition scale2 :: "int \<Rightarrow> rat \<Rightarrow> rat" where
  "scale2 e x = (if 0 \<le> e then x * 2 ^ nat e else x / 2 ^ nat (- e))"

text \<open>The exponent of a positive rational: \<open>2 ^ e \<le> x < 2 ^ (e + 1)\<close>.\<close>

definition float_exponent :: "rat \<Rightarrow> int" where
  "float_exponent x =
    (let (a, b) = quotient_of x; e = int (bit_length (nat a)) - int (bit_length (nat b)) in
      if scale2 e 1 \<le> x then e else e - 1)"

text \<open>53 bits of precision, ties to even.\<close>

definition to_float :: "rat \<Rightarrow> rat" where
  "to_float x =
    (if x \<le> 0 then 0
     else let e = float_exponent x - 52 in scale2 e (of_int (round_half_even (scale2 (- e) x))))"

text \<open>\<open>round(x, 1)\<close>: the nearest decimal with one digit to the value the float holds.\<close>

definition round1 :: "rat \<Rightarrow> rat" where
  "round1 x = of_int (round_half_even (x * 10)) / 10"

lemma round_half_even_mono: "x \<le> y \<Longrightarrow> round_half_even x \<le> round_half_even y"
proof -
  assume xy: "x \<le> y"
  show ?thesis
  proof (cases "\<lfloor>x\<rfloor> = \<lfloor>y\<rfloor>")
    case True
    then show ?thesis using xy by (auto simp: round_half_even_def Let_def)
  next
    case False
    then have "\<lfloor>x\<rfloor> + 1 \<le> \<lfloor>y\<rfloor>" using floor_mono [OF xy] by simp
    moreover have "round_half_even x \<le> \<lfloor>x\<rfloor> + 1" "\<lfloor>y\<rfloor> \<le> round_half_even y"
      by (auto simp: round_half_even_def Let_def)
    ultimately show ?thesis by simp
  qed
qed

lemma round_half_even_int [simp]: "round_half_even (of_int k) = k"
  by (simp add: round_half_even_def)

lemma round_between: "of_int l \<le> x \<Longrightarrow> x \<le> of_int u \<Longrightarrow> l \<le> round_half_even x \<and> round_half_even x \<le> u"
  using round_half_even_mono [of "of_int l" x] round_half_even_mono [of x "of_int u"] by simp

text \<open>Rounding keeps a value between two integers that lie above the precision of its exponent.\<close>

lemma scale2_cancel [simp]: "scale2 e (scale2 (- e) x) = x" "scale2 (- e) (scale2 e x) = x"
  by (auto simp: scale2_def)

lemma scale2_mono: "x \<le> y \<Longrightarrow> scale2 e x \<le> scale2 e y"
  by (auto simp: scale2_def mult_right_mono divide_right_mono)

lemma scale2_int: "0 \<le> e \<Longrightarrow> scale2 e (of_int k) = of_int (k * 2 ^ nat e)"
  by (simp add: scale2_def)

lemma to_float_between:
  assumes "0 < x" "of_int l \<le> x" "x \<le> of_int u" "float_exponent x \<le> 52"
  shows "of_int l \<le> to_float x \<and> to_float x \<le> of_int u"
proof -
  let ?e = "float_exponent x - 52" and ?n = "nat (52 - float_exponent x)"
  have pos: "0 \<le> - ?e" using assms(4) by simp
  have lo: "of_int (l * 2 ^ nat (- ?e)) \<le> scale2 (- ?e) x" and hi: "scale2 (- ?e) x \<le> of_int (u * 2 ^ nat (- ?e))"
    using scale2_mono [OF assms(2), of "- ?e"] scale2_mono [OF assms(3), of "- ?e"] scale2_int [OF pos] by metis+
  have "l * 2 ^ nat (- ?e) \<le> round_half_even (scale2 (- ?e) x) \<and> round_half_even (scale2 (- ?e) x) \<le> u * 2 ^ nat (- ?e)"
    by (rule round_between [OF lo hi])
  then have "scale2 (- ?e) (of_int l) \<le> of_int (round_half_even (scale2 (- ?e) x)) \<and>
      of_int (round_half_even (scale2 (- ?e) x)) \<le> scale2 (- ?e) (of_int u)"
    by (simp only: scale2_int [OF pos] of_int_le_iff)
  then have "scale2 ?e (scale2 (- ?e) (of_int l)) \<le> to_float x \<and> to_float x \<le> scale2 ?e (scale2 (- ?e) (of_int u))"
    using assms(1) scale2_mono by (simp add: to_float_def Let_def)
  then show ?thesis by (simp only: scale2_cancel)
qed

lemma bit_length_bounds: "n < 2 ^ bit_length n" "0 < n \<Longrightarrow> 2 ^ bit_length n \<le> 2 * n"
proof -
  have "n < 2 ^ bit_length n \<and> (0 < n \<longrightarrow> 2 ^ bit_length n \<le> 2 * n)"
  proof (induction n rule: bit_length.induct)
    case (1 n)
    show ?case
    proof (cases "n = 0")
      case False
      then have ih: "n div 2 < 2 ^ bit_length (n div 2)" "0 < n div 2 \<longrightarrow> 2 ^ bit_length (n div 2) \<le> 2 * (n div 2)"
        using 1 by auto
      have b: "bit_length n = Suc (bit_length (n div 2))" using False by (subst bit_length.simps) simp
      show ?thesis
      proof (cases "n div 2 = 0")
        case True
        then have "n = 1" using False by simp
        with b have "bit_length n = 1" by (simp add: bit_length.simps [of 0])
        with \<open>n = 1\<close> show ?thesis by simp
      next
        case half: False
        then show ?thesis using ih by (auto simp: b)
      qed
    qed (simp add: bit_length.simps [of 0])
  qed
  then show "n < 2 ^ bit_length n" "0 < n \<Longrightarrow> 2 ^ bit_length n \<le> 2 * n" by auto
qed

lemma scale2_diff: "scale2 (int m - int n) 1 = 2 ^ m / 2 ^ n"
  by (simp add: scale2_def power_diff nat_diff_distrib' of_nat_diff field_simps)

lemma float_exponent_le:
  assumes "0 < x"
  shows "scale2 (float_exponent x) 1 \<le> x"
proof -
  obtain a b where q: "quotient_of x = (a, b)" by (cases "quotient_of x")
  have b: "0 < b" using quotient_of_denom_pos [OF q] .
  have x: "x = of_int a / of_int b" using quotient_of_div [OF q] .
  then have a: "0 < a" using assms b by (simp add: zero_less_divide_iff)
  let ?m = "bit_length (nat a)" and ?n = "bit_length (nat b)"
  have "int (2 ^ ?m) \<le> int (2 * nat a)" "int (nat b) < int (2 ^ ?n)"
    using bit_length_bounds(2) [of "nat a"] bit_length_bounds(1) [of "nat b"] a by linarith+
  then have "2 ^ ?m \<le> 2 * a" "b < 2 ^ ?n" using a b by simp_all
  then have "(of_int (2 ^ ?m) :: rat) \<le> of_int (2 * a)" "(of_int b :: rat) < of_int (2 ^ ?n)"
    by (simp_all only: of_int_le_iff of_int_less_iff)
  then have r: "(2 :: rat) ^ ?m \<le> 2 * of_int a" "(of_int b :: rat) < 2 ^ ?n" by simp_all
  have "(2 :: rat) ^ ?m / 2 ^ ?n \<le> 2 * of_int a / of_int b"
    by (rule frac_le) (use r a b in auto)
  then have le: "scale2 (int ?m - int ?n) 1 \<le> 2 * x"
    unfolding scale2_diff x by simp
  have half: "scale2 (e - 1) 1 = scale2 e 1 / 2" for e
  proof (cases "0 < e")
    case True
    then obtain k where "e = int (Suc k)" by (metis gr0_implies_Suc pos_int_cases)
    then show ?thesis by (simp add: scale2_def nat_add_distrib)
  next
    case False
    then have "nat (1 - e) = Suc (nat (- e))" by simp
    then show ?thesis using False by (auto simp: scale2_def)
  qed
  have "scale2 (int ?m - int ?n - 1) 1 \<le> x" using le half [of "int ?m - int ?n"] by linarith
  then show ?thesis by (simp add: float_exponent_def q Let_def)
qed

lemma float_exponent_bound:
  assumes "0 < x" "x < 2 ^ 52"
  shows "float_exponent x \<le> 52"
proof (rule ccontr)
  assume "\<not> float_exponent x \<le> 52"
  then have "52 \<le> nat (float_exponent x)" by simp
  then have "(2 :: rat) ^ 52 \<le> 2 ^ nat (float_exponent x)" by (intro power_increasing) simp_all
  then have "(2 :: rat) ^ 52 \<le> scale2 (float_exponent x) 1"
    using \<open>52 \<le> nat (float_exponent x)\<close> by (simp add: scale2_def)
  then show False using float_exponent_le [OF assms(1)] assms(2) by linarith
qed

lemma round1_between: "of_int l \<le> x \<Longrightarrow> x \<le> of_int u \<Longrightarrow> of_int l \<le> round1 x \<and> round1 x \<le> of_int u"
proof -
  assume a: "of_int l \<le> x" "x \<le> of_int u"
  then have "l * 10 \<le> round_half_even (x * 10) \<and> round_half_even (x * 10) \<le> u * 10"
    by (intro round_between) (simp_all)
  then have "(of_int (l * 10) :: rat) \<le> of_int (round_half_even (x * 10)) \<and> (of_int (round_half_even (x * 10)) :: rat) \<le> of_int (u * 10)"
    by (simp only: of_int_le_iff)
  then show ?thesis by (simp add: round1_def field_simps)
qed

subsection \<open>Conversions of decoded JSON\<close>

text \<open>
  \<open>int(value)\<close> of a decoded JSON value: the integer or the name of the exception. A float is
  truncated; one too large for a double is an infinity, whose conversion overflows.
\<close>

definition int_of_json :: "json \<Rightarrow> string + int" where
  "int_of_json j =
    (case j of
      JInt i \<Rightarrow> Inr i
    | JBool b \<Rightarrow> Inr (if b then 1 else 0)
    | JStr s \<Rightarrow> (case py_int s of None \<Rightarrow> Inl ''ValueError'' | Some i \<Rightarrow> Inr i)
    | JFloat t \<Rightarrow>
        (if t = ''nan'' then Inl ''ValueError''
         else case parse_decimal t of
           None \<Rightarrow> Inl ''OverflowError''
         | Some x \<Rightarrow>
             if 2 ^ 1024 \<le> to_float \<bar>x\<bar> then Inl ''OverflowError''
             else Inr (if x < 0 then - \<lfloor>to_float \<bar>x\<bar>\<rfloor> else \<lfloor>to_float x\<rfloor>))
    | _ \<Rightarrow> Inl ''TypeError'')"

text \<open>The value of a key of a decoded object; the last of duplicate keys counts.\<close>

definition jlookup :: "string \<Rightarrow> json \<Rightarrow> json option" where
  "jlookup k j = (case j of JObj kvs \<Rightarrow> map_of (rev kvs) k | _ \<Rightarrow> None)"

text \<open>The tokens are \<open>urlsafe_b64encode(json.dumps(payload))\<close>; reading one gives the payload.\<close>

definition cursor_token :: "(string \<times> json) list \<Rightarrow> string" where
  "cursor_token payload = urlsafe_b64encode (json_dumps (JObj payload))"

definition cursor_object :: "string \<Rightarrow> json option" where
  "cursor_object cursor = Option.bind (urlsafe_b64decode cursor) json_loads"

lemma cursor_object_token:
  "payload \<noteq> [] \<Longrightarrow> \<forall>f \<in> set payload. scalar (snd f) \<Longrightarrow> cursor_object (cursor_token payload) = Some (JObj payload)"
  by (simp add: cursor_object_def cursor_token_def json_readback del: json_dumps.simps)

text \<open>A \<open>BIGINT\<close> parameter of a query: the driver refuses what does not fit 64 bits.\<close>

definition bigint :: "int \<Rightarrow> bool" where
  "bigint i \<longleftrightarrow> - (2 ^ 63) \<le> i \<and> i < 2 ^ 63"

definition bind_bigint :: "int \<Rightarrow> exn + unit" where
  "bind_bigint i = guardE (bigint i) (PyError ''DBAPIError'')"

end
