(* ===== verification/Restock.thy ===== *)
theory Restock
  imports Catalog_Reads Keyed_Rows PyFloat
begin

text \<open>
  Back-in-stock notifications: \<open>app/repositories/restock_repo.py\<close>, \<open>app/services/restock_service.py\<close>,
  \<open>app/api/routers/restock.py\<close>, \<open>app/schemas/restock.py\<close> and the tasks of \<open>app/tasks/restock.py\<close>.

  The sends of one \<open>asyncio.gather\<close> batch are made in the order of the batch; the SMTP server's
  answer to a mail may depend on the mails before it. What the e-mail says beyond its data, and
  the log lines, are left out.
\<close>

definition STATUS_ACTIVE :: string where "STATUS_ACTIVE = ''active''"
definition STATUS_NOTIFIED :: string where "STATUS_NOTIFIED = ''notified''"
definition SEND_CHUNK_SIZE :: nat where "SEND_CHUNK_SIZE = 10"
definition MOMENTUM_DAYS :: int where "MOMENTUM_DAYS = 7"
definition FALLBACK_LANG :: string where "FALLBACK_LANG = ''ro''"

subsection \<open>Repository\<close>

definition restock_get :: "int \<Rightarrow> int \<Rightarrow> db \<Rightarrow> exn + restock_subscription option" where
  "restock_get pid uid d =
    scalar_one_or_none (filter (\<lambda>r. (rs_product_id r, rs_user_id r) = (pid, uid)) (t_restock d))"

text \<open>What the foreign keys and the checks of the table ask of a row.\<close>

definition restock_row_ok :: "restock_subscription \<Rightarrow> db \<Rightarrow> bool" where
  "restock_row_ok r d \<longleftrightarrow> list_ex (\<lambda>p. p_id p = rs_product_id r) (t_product d)
    \<and> list_ex (\<lambda>u. u_id u = rs_user_id r) (t_user d) \<and> rs_lang r \<in> set ALLOWED_LANGS"

definition new_subscription :: "int \<Rightarrow> int \<times> int \<Rightarrow> string \<times> instant \<Rightarrow> restock_subscription" where
  "new_subscription i k v = \<lparr>rs_id = i, rs_product_id = fst k, rs_user_id = snd k, rs_lang = fst v,
     rs_status = STATUS_ACTIVE, rs_notified_at = None, rs_created_at = snd v\<rparr>"

definition reactivate :: "string \<times> instant \<Rightarrow> restock_subscription \<Rightarrow> restock_subscription" where
  "reactivate v r = r\<lparr>rs_lang := fst v, rs_status := STATUS_ACTIVE, rs_notified_at := None\<rparr>"

definition upsert_active :: "environment \<Rightarrow> int \<Rightarrow> int \<Rightarrow> string \<Rightarrow> restock_subscription act" where
  "upsert_active env pid uid lang =
    bindM (readsE (restock_get pid uid)) (\<lambda>found.
    case found of
      None \<Rightarrow>
        bindM (next_id Restock_T) (\<lambda>i.
        let r = new_subscription i (pid, uid) (lang, env_now env) in
        bindM (readsE (\<lambda>d. guardE (restock_row_ok r d) (IntegrityError ''restock_subscription''))) (\<lambda>_.
        bindM (writes (\<lambda>d. d\<lparr>t_restock := t_restock d @ [r]\<rparr>)) (\<lambda>_.
        ret r)))
    | Some r \<Rightarrow>
        let r' = reactivate (lang, env_now env) r in
        bindM (readsE (\<lambda>d. guardE (rs_lang r' \<in> set ALLOWED_LANGS) (IntegrityError ''restock_subscription''))) (\<lambda>_.
        bindM (writes (\<lambda>d. d\<lparr>t_restock := upd (\<lambda>x. rs_id x = rs_id r) (reactivate (lang, env_now env)) (t_restock d)\<rparr>)) (\<lambda>_.
        ret r')))"

definition delete_subscription :: "int \<Rightarrow> int \<Rightarrow> unit act" where
  "delete_subscription pid uid =
    bindM (readsE (restock_get pid uid)) (\<lambda>found.
    case found of
      None \<Rightarrow> ret ()
    | Some r \<Rightarrow> writes (\<lambda>d. d\<lparr>t_restock := filter (\<lambda>x. rs_id x \<noteq> rs_id r) (t_restock d)\<rparr>))"

definition delete_subscriptions_of :: "int \<Rightarrow> unit act" where
  "delete_subscriptions_of uid =
    writes (\<lambda>d. d\<lparr>t_restock := filter (\<lambda>r. rs_user_id r \<noteq> uid) (t_restock d)\<rparr>)"

definition list_active_for_product :: "int \<Rightarrow> db \<Rightarrow> (restock_subscription \<times> string) list" where
  "list_active_for_product pid d =
    [(r, u_email u). r \<leftarrow> t_restock d, rs_product_id r = pid \<and> rs_status r = STATUS_ACTIVE,
       u \<leftarrow> t_user d, u_id u = rs_user_id r]"

definition notified :: "instant \<Rightarrow> restock_subscription \<Rightarrow> restock_subscription" where
  "notified now r = r\<lparr>rs_status := STATUS_NOTIFIED, rs_notified_at := Some now\<rparr>"

definition mark_notified :: "environment \<Rightarrow> int list \<Rightarrow> unit act" where
  "mark_notified env ids =
    (if ids = [] then ret ()
     else writes (\<lambda>d. d\<lparr>t_restock := upd (\<lambda>r. rs_id r \<in> set ids) (notified (env_now env)) (t_restock d)\<rparr>))"

definition count_active_for_product :: "int \<Rightarrow> db \<Rightarrow> nat" where
  "count_active_for_product pid d =
    length (filter (\<lambda>r. rs_product_id r = pid \<and> rs_status r = STATUS_ACTIVE) (t_restock d))"

definition get_translation :: "int \<Rightarrow> string \<Rightarrow> db \<Rightarrow> product_translation option" where
  "get_translation pid lang d =
    find (\<lambda>t. pt_product_id t = pid \<and> pt_lang t = lang) (t_product_translation d)"

definition list_active_for_user :: "int \<Rightarrow> string \<Rightarrow> db \<Rightarrow> (restock_subscription \<times> product_translation) list" where
  "list_active_for_user uid lang d =
    sort_key (\<lambda>(r, _). - rs_id r)
      [(r, t). r \<leftarrow> t_restock d, rs_user_id r = uid \<and> rs_status r = STATUS_ACTIVE,
         t \<leftarrow> t_product_translation d, pt_product_id t = rs_product_id r \<and> pt_lang t = lang]"

definition products_with_active_and_in_stock :: "db \<Rightarrow> int list" where
  "products_with_active_and_in_stock d =
    remdups [rs_product_id r. r \<leftarrow> t_restock d, rs_status r = STATUS_ACTIVE,
      p \<leftarrow> t_product d, p_id p = rs_product_id r \<and> 0 < p_qty p]"

text \<open>The demand overview: one row per product waited for, most wanted first.\<close>

record demand_row =
  dm_product_id :: int
  dm_name :: string
  dm_slug :: "string option"
  dm_category_name :: "string option"
  dm_qty :: int
  dm_price :: money
  dm_is_active :: bool
  dm_image_url :: "string option"
  dm_waiters :: nat
  dm_waiters_7d :: nat

definition category_name :: "int \<Rightarrow> string \<Rightarrow> db \<Rightarrow> string option" where
  "category_name cid lang d =
    map_option cgt_name (find (\<lambda>t. cgt_category_id t = cid \<and> cgt_lang t = lang) (t_category_translation d))"

definition coalesce :: "'a option \<Rightarrow> 'a option \<Rightarrow> 'a option" where
  "coalesce x y = (case x of None \<Rightarrow> y | Some _ \<Rightarrow> x)"

definition first_image :: "int \<Rightarrow> db \<Rightarrow> string option" where
  "first_image pid d =
    (case sort_key (\<lambda>m. (md_position m, md_id m)) (filter (\<lambda>m. md_product_id m = pid) (t_media d)) of
      [] \<Rightarrow> None | m # _ \<Rightarrow> Some (md_url m))"

definition active_waits :: "int \<Rightarrow> db \<Rightarrow> restock_subscription list" where
  "active_waits pid d = filter (\<lambda>r. rs_product_id r = pid \<and> rs_status r = STATUS_ACTIVE) (t_restock d)"

definition demand_row_of :: "environment \<Rightarrow> string \<Rightarrow> db \<Rightarrow> product \<Rightarrow> demand_row" where
  "demand_row_of env lang d p =
    (let waits = active_waits (p_id p) d; cutoff = env_now env - MOMENTUM_DAYS * 86400000000;
         req = get_translation (p_id p) lang d; dft = get_translation (p_id p) FALLBACK_LANG d;
         cat = find (\<lambda>c. cg_id c = p_category_id p) (t_category d) in
      \<lparr>dm_product_id = p_id p,
       dm_name = (case coalesce (map_option pt_name req) (map_option pt_name dft) of None \<Rightarrow> p_code p | Some n \<Rightarrow> n),
       dm_slug = coalesce (map_option pt_slug req) (map_option pt_slug dft),
       dm_category_name = (case cat of None \<Rightarrow> None
         | Some c \<Rightarrow> coalesce (category_name (cg_id c) lang d) (category_name (cg_id c) FALLBACK_LANG d)),
       dm_qty = p_qty p, dm_price = p_price p, dm_is_active = p_is_active p,
       dm_image_url = first_image (p_id p) d, dm_waiters = length waits,
       dm_waiters_7d = length (filter (\<lambda>r. cutoff < rs_created_at r) waits)\<rparr>)"

definition demand_rows :: "environment \<Rightarrow> string \<Rightarrow> db \<Rightarrow> demand_row list" where
  "demand_rows env lang d =
    sort_key (\<lambda>r. - int (dm_waiters r))
      (map (demand_row_of env lang d) (filter (\<lambda>p. active_waits (p_id p) d \<noteq> []) (t_product d)))"

subsection \<open>Service\<close>

definition subscribe :: "environment \<Rightarrow> int \<Rightarrow> int \<Rightarrow> string \<Rightarrow> restock_subscription act" where
  "subscribe env pid uid lang =
    bindM (reads (get_product pid)) (\<lambda>found.
    case found of
      None \<Rightarrow> throw (RestockNotFoundError pid)
    | Some p \<Rightarrow>
        if p_has_variants p then throw (RestockUnsupportedError pid)
        else if p_qty p > 0 then throw (ProductInStockError pid)
        else
          bindM (upsert_active env pid uid lang) (\<lambda>r.
          bindM commit (\<lambda>_.
          ret r)))"

definition unsubscribe :: "int \<Rightarrow> int \<Rightarrow> unit act" where
  "unsubscribe pid uid = bindM (delete_subscription pid uid) (\<lambda>_. commit)"

definition is_subscribed :: "int \<Rightarrow> int \<Rightarrow> db \<Rightarrow> exn + bool" where
  "is_subscribed pid uid d =
    bindE (restock_get pid uid d) (\<lambda>found.
    Inr (case found of None \<Rightarrow> False | Some r \<Rightarrow> rs_status r = STATUS_ACTIVE))"

definition list_my :: "int \<Rightarrow> string \<Rightarrow> db \<Rightarrow> (int \<times> string \<times> string) list" where
  "list_my uid lang d =
    map (\<lambda>(r, t). (rs_product_id r, pt_slug t, pt_name t)) (list_active_for_user uid lang d)"

definition waiter_count :: "int \<Rightarrow> db \<Rightarrow> nat" where
  "waiter_count = count_active_for_product"

record demand_item =
  di_row :: demand_row
  di_in_stock :: bool
  di_price :: string

definition demand_item_of :: "demand_row \<Rightarrow> demand_item" where
  "demand_item_of r = \<lparr>di_row = r, di_in_stock = dm_qty r > 0, di_price = money_str (dm_price r)\<rparr>"

definition demand_overview :: "environment \<Rightarrow> string \<Rightarrow> db \<Rightarrow> demand_item list" where
  "demand_overview env lang d = map demand_item_of (demand_rows env (normalize_lang (Some lang)) d)"

text \<open>The e-mails a restocked product owes, each with its subscription.\<close>

definition load_slugs :: "int \<Rightarrow> string list \<Rightarrow> db \<Rightarrow> string \<rightharpoonup> string \<times> string" where
  "load_slugs pid langs d =
    (if langs = [] then Map.empty
     else map_of (rev [(pt_lang t, (pt_slug t, pt_name t)).
       t \<leftarrow> t_product_translation d, pt_product_id t = pid \<and> pt_lang t \<in> set langs]))"

definition restock_url :: "environment \<Rightarrow> string \<Rightarrow> string \<Rightarrow> string" where
  "restock_url env lang slug = storefront_base_url (env_cfg env) @ ''/'' @ lang @ ''/p/'' @ slug"

definition restock_jobs :: "environment \<Rightarrow> int \<Rightarrow> db \<Rightarrow> (int \<times> mail) list" where
  "restock_jobs env pid d =
    (let rows = list_active_for_product pid d;
         slugs = load_slugs pid (remdups (map (\<lambda>(r, _). rs_lang r) rows)) d in
      concat (map (\<lambda>(r, email). case slugs (rs_lang r) of
         None \<Rightarrow> []
       | Some (slug, name) \<Rightarrow> [(rs_id r, Restock_Mail email name (restock_url env (rs_lang r) slug) (rs_lang r))]) rows))"

text \<open>\<open>_send_one\<close>: the id when the server took the mail, \<open>None\<close> when the send raised.\<close>

definition send_one :: "environment \<Rightarrow> int \<times> mail \<Rightarrow> int option net" where
  "send_one env job =
    bindM (gets mailbox) (\<lambda>box.
    if env_smtp env box (snd job)
    then bindM (modify (\<lambda>w. w\<lparr>mailbox := mailbox w @ [snd job]\<rparr>)) (\<lambda>_. ret (Some (fst job)))
    else ret None)"

definition send_all :: "environment \<Rightarrow> (int \<times> mail) list \<Rightarrow> int list net" where
  "send_all env jobs =
    bindM (mapM (mapM (send_one env)) (batches SEND_CHUNK_SIZE jobs)) (\<lambda>results.
    ret [i. chunk \<leftarrow> results, Some i \<leftarrow> chunk])"

definition notify_product :: "environment \<Rightarrow> int \<Rightarrow> nat act" where
  "notify_product env pid =
    bindM (reads (list_active_for_product pid)) (\<lambda>rows.
    if rows = [] then ret 0
    else
      bindM (reads (restock_jobs env pid)) (\<lambda>jobs.
      bindM (remote (send_all env jobs)) (\<lambda>sent.
      bindM (whenM (sent \<noteq> []) (bindM (mark_notified env sent) (\<lambda>_. commit))) (\<lambda>_.
      ret (length sent)))))"

definition sweep :: "environment \<Rightarrow> nat act" where
  "sweep env =
    bindM (reads products_with_active_and_in_stock) (\<lambda>pids.
    bindM (mapM (notify_product env) pids) (\<lambda>counts.
    ret (sum_list counts)))"

subsection \<open>Endpoints\<close>

text \<open>The schema's language check comes before the service.\<close>

definition subscribe_endpoint :: "environment \<Rightarrow> app_user \<Rightarrow> int \<Rightarrow> string \<Rightarrow> bool act" where
  "subscribe_endpoint env user pid lang =
    (if lang \<notin> set ALLOWED_LANGS then throw (HTTPException 422 (Some ''validation_error''))
     else bindM (subscribe env pid (u_id user) lang) (\<lambda>_. ret True))"

definition unsubscribe_endpoint :: "app_user \<Rightarrow> int \<Rightarrow> unit act" where
  "unsubscribe_endpoint user pid = unsubscribe pid (u_id user)"

definition get_subscription_endpoint :: "app_user \<Rightarrow> int \<Rightarrow> bool act" where
  "get_subscription_endpoint user pid = readsE (is_subscribed pid (u_id user))"

definition list_subscriptions_endpoint :: "app_user \<Rightarrow> string option \<Rightarrow> (int \<times> string \<times> string) list act" where
  "list_subscriptions_endpoint user lang = reads (list_my (u_id user) (case lang of None \<Rightarrow> ''ro'' | Some l \<Rightarrow> l))"

end
