(* ===== verification/Restock_Correct.thy ===== *)
theory Restock_Correct
  imports Restock
begin

text \<open>
  The restock subscriptions keep one row per product and customer, a subscription is refused
  exactly for products that are missing, variable or in stock, subscribing is idempotent, and a
  notification run marks exactly the subscriptions whose e-mail the server took.
\<close>

interpretation waits: keyed_rows "\<lambda>r. (rs_product_id r, rs_user_id r)" rs_id new_subscription reactivate
  by unfold_locales (auto simp: new_subscription_def reactivate_def)

subsection \<open>The subscription table\<close>

definition restock_ok :: "db \<Rightarrow> bool" where
  "restock_ok d \<longleftrightarrow> waits.sound (t_restock d)
    \<and> list_all (\<lambda>r. rs_status r = STATUS_ACTIVE \<and> rs_notified_at r = None
        \<or> rs_status r = STATUS_NOTIFIED \<and> rs_notified_at r \<noteq> None) (t_restock d)"

text \<open>Fresh primary keys come from the sequence, which is above every key in use.\<close>

definition restock_inv :: "session \<Rightarrow> bool" where
  "restock_inv s \<longleftrightarrow> both restock_ok s
    \<and> both (\<lambda>d. \<forall>r \<in> set (t_restock d). rs_id r < pk_seq s Restock_T) s"

lemma restock_get_row:
  "waits.sound (t_restock d) \<Longrightarrow> restock_get pid uid d = Inr (waits.row_of (pid, uid) (t_restock d))"
  unfolding restock_get_def by (rule waits.scalar_row_of) (simp add: waits.sound_def)

lemma restock_upd_ok:
  assumes "restock_ok d" "\<And>r. P r \<Longrightarrow> (rs_product_id (f r), rs_user_id (f r)) = (rs_product_id r, rs_user_id r) \<and> rs_id (f r) = rs_id r
    \<and> (rs_status (f r) = STATUS_ACTIVE \<and> rs_notified_at (f r) = None \<or> rs_status (f r) = STATUS_NOTIFIED \<and> rs_notified_at (f r) \<noteq> None)"
  shows "restock_ok (d\<lparr>t_restock := upd P f (t_restock d)\<rparr>)"
proof -
  have "map (\<lambda>r. (rs_product_id r, rs_user_id r)) (upd P f (t_restock d)) = map (\<lambda>r. (rs_product_id r, rs_user_id r)) (t_restock d)"
    "map rs_id (upd P f (t_restock d)) = map rs_id (t_restock d)"
    using assms(2) by (auto intro!: map_upd_key)
  then show ?thesis using assms by (auto simp: restock_ok_def waits.sound_def list_all_iff set_upd)
qed

lemma restock_filter_ok: "restock_ok d \<Longrightarrow> restock_ok (d\<lparr>t_restock := filter P (t_restock d)\<rparr>)"
  by (auto simp: restock_ok_def list_all_iff intro: waits.sound_filter)

lemma restock_insert_ok:
  assumes "restock_ok d" "waits.row_of k (t_restock d) = None" "\<forall>r \<in> set (t_restock d). rs_id r \<noteq> i"
  shows "restock_ok (d\<lparr>t_restock := t_restock d @ [new_subscription i k v]\<rparr>)"
proof -
  have "t_restock d @ [new_subscription i k v] = waits.put i k v (t_restock d)"
    using assms(2) by (simp add: waits.put_def)
  then have "waits.sound (t_restock d @ [new_subscription i k v])"
    using waits.put_sound [of "t_restock d" i k v] assms by (simp add: restock_ok_def)
  with assms(1) show ?thesis by (simp add: restock_ok_def new_subscription_def)
qed

lemma restock_inv_writes:
  assumes "restock_inv s" "restock_ok (g (work s))" "\<And>r. r \<in> set (t_restock (g (work s))) \<Longrightarrow> rs_id r < pk_seq s Restock_T"
  shows "restock_inv (s\<lparr>work := g (work s)\<rparr>)"
  using assms by (auto simp: restock_inv_def both_def)

text \<open>Subscribing, as a whole: what it answers and what it leaves.\<close>

lemma upsert_active_run:
  assumes "restock_inv s"
  shows "upsert_active env pid uid lang s =
    (let rows = t_restock (work s); k = (pid, uid); v = (lang, env_now env); i = pk_seq s Restock_T in
      case waits.row_of k rows of
        None \<Rightarrow>
          let s1 = s\<lparr>pk_seq := (pk_seq s)(Restock_T := i + 1)\<rparr> in
          if restock_row_ok (new_subscription i k v) (work s)
          then (Inr (new_subscription i k v), s1\<lparr>work := (work s)\<lparr>t_restock := waits.put i k v rows\<rparr>\<rparr>)
          else (Inl (IntegrityError ''restock_subscription''), s1)
      | Some r \<Rightarrow>
          if lang \<in> set ALLOWED_LANGS
          then (Inr (reactivate v r), s\<lparr>work := (work s)\<lparr>t_restock := waits.put i k v rows\<rparr>\<rparr>)
          else (Inl (IntegrityError ''restock_subscription''), s))"
proof -
  have sound: "waits.sound (t_restock (work s))" using assms by (simp add: restock_inv_def both_def restock_ok_def)
  show ?thesis
  proof (cases "waits.row_of (pid, uid) (t_restock (work s))")
    case None
    then show ?thesis
      by (simp add: upsert_active_def bindM_app restock_get_row [OF sound] waits.put_def Let_def guardE_def)
  next
    case (Some r)
    have "upd (\<lambda>x. rs_id x = rs_id r) f (t_restock (work s)) =
        upd (\<lambda>x. (rs_product_id x, rs_user_id x) = (pid, uid)) f (t_restock (work s))" for f
      by (rule waits.upd_by_id [OF sound Some])
    then show ?thesis using Some
      by (simp add: upsert_active_def bindM_app restock_get_row [OF sound] waits.put_def Let_def guardE_def reactivate_def)
  qed
qed

lemma subscribe_Inr:
  assumes "subscribe env pid uid lang s = (Inr r, s')" "restock_inv s"
  shows "\<exists>p. get_product pid (work s) = Some p \<and> \<not> p_has_variants p \<and> p_qty p \<le> 0"
    "work s' = (work s)\<lparr>t_restock := waits.put (pk_seq s Restock_T) (pid, uid) (lang, env_now env) (t_restock (work s))\<rparr>"
    "committed s' = work s'" "lang \<in> set ALLOWED_LANGS"
  using assms(1)
  by (auto simp: subscribe_def bindM_app upsert_active_run [OF assms(2)] Let_def restock_row_ok_def new_subscription_def
      split: option.splits if_splits)

lemma put_ids:
  assumes "r \<in> set (waits.put i k v rows)"
  shows "rs_id r = i \<or> rs_id r \<in> rs_id ` set rows"
  using assms by (auto simp: waits.put_def new_subscription_def set_upd reactivate_def split: if_splits)

lemma put_restock_ok:
  assumes "restock_ok d" "\<forall>r \<in> set (t_restock d). rs_id r \<noteq> i"
  shows "restock_ok (d\<lparr>t_restock := waits.put i k v (t_restock d)\<rparr>)"
proof (cases "waits.row_of k (t_restock d)")
  case None
  then show ?thesis using restock_insert_ok [OF assms(1) None assms(2)] by (simp add: waits.put_def)
next
  case (Some r)
  have "restock_ok (d\<lparr>t_restock := upd (\<lambda>r. (rs_product_id r, rs_user_id r) = k) (reactivate v) (t_restock d)\<rparr>)"
    by (rule restock_upd_ok [OF assms(1)]) (simp add: reactivate_def)
  then show ?thesis using Some by (simp add: waits.put_def)
qed

lemma subscribe_keeps: "preserves restock_inv (subscribe env pid uid lang)"
proof (rule preservesI)
  fix s r s' assume inv: "restock_inv s" and run: "subscribe env pid uid lang s = (r, s')"
  let ?i = "pk_seq s Restock_T"
  have ok: "restock_ok (work s)" "\<forall>r \<in> set (t_restock (work s)). rs_id r < ?i"
    using inv by (auto simp: restock_inv_def both_def)
  have "restock_ok ((work s)\<lparr>t_restock := waits.put ?i k v (t_restock (work s))\<rparr>)" for k v
    by (rule put_restock_ok) (use ok in auto)
  moreover have "rs_id r < ?i + 1" if "r \<in> set (waits.put ?i k v (t_restock (work s)))" for r k v
    using put_ids [OF that] ok(2) by force
  moreover have "rs_id r < ?i" if "r \<in> set (waits.put ?i k v (t_restock (work s)))" "waits.row_of k (t_restock (work s)) \<noteq> None" for r k v
    using that ok(2) by (auto simp: waits.put_def set_upd reactivate_def)
  ultimately show "restock_inv s'"
    using run inv
    by (auto simp: subscribe_def bindM_app upsert_active_run [OF inv] Let_def restock_inv_def both_def
        split: option.splits if_splits) force+
qed


lemma restock_inv_sub:
  assumes "\<And>d. restock_ok d \<Longrightarrow> restock_ok (g d)" "\<And>d. rs_id ` set (t_restock (g d)) \<subseteq> rs_id ` set (t_restock d)"
  shows "preserves restock_inv (writes g)"
proof (rule preserves_writes)
  fix s assume inv: "restock_inv s"
  show "restock_inv (s\<lparr>work := g (work s)\<rparr>)"
  proof (rule restock_inv_writes [OF inv])
    show "restock_ok (g (work s))" using inv assms(1) by (simp add: restock_inv_def both_def)
    fix r assume "r \<in> set (t_restock (g (work s)))"
    then have "rs_id r \<in> rs_id ` set (t_restock (work s))" using assms(2) by blast
    then show "rs_id r < pk_seq s Restock_T" using inv by (auto simp: restock_inv_def both_def)
  qed
qed

lemma restock_inv_commit: "preserves restock_inv commit"
  by (rule preserves_commit) (auto simp: restock_inv_def both_def)

lemma restock_inv_remote: "preserves restock_inv (remote m)"
proof (rule preservesI)
  fix s r s' assume "restock_inv s" "remote m s = (r, s')"
  then show "restock_inv s'" using remote_frame [of m s r s'] by (simp add: restock_inv_def both_def)
qed

lemma delete_subscription_keeps: "preserves restock_inv (delete_subscription pid uid)"
  unfolding delete_subscription_def
  by (intro pres restock_inv_sub restock_filter_ok) auto

lemma unsubscribe_keeps: "preserves restock_inv (unsubscribe pid uid)"
  unfolding unsubscribe_def by (intro pres delete_subscription_keeps restock_inv_commit)

lemma delete_subscriptions_of_keeps: "preserves restock_inv (delete_subscriptions_of uid)"
  unfolding delete_subscriptions_of_def by (intro restock_inv_sub restock_filter_ok) auto

lemma mark_notified_keeps: "preserves restock_inv (mark_notified env ids)"
  unfolding mark_notified_def
  by (intro pres restock_inv_sub restock_upd_ok) (auto simp: notified_def set_upd)

lemma notify_product_keeps: "preserves restock_inv (notify_product env pid)"
  unfolding notify_product_def
  by (intro pres restock_inv_remote mark_notified_keeps restock_inv_commit)

lemma sweep_keeps: "preserves restock_inv (sweep env)"
  unfolding sweep_def by (intro pres notify_product_keeps)

subsection \<open>Subscribing and unsubscribing\<close>

lemma subscribe_decision:
  assumes "restock_inv s" "\<exists>u \<in> set (t_user (work s)). u_id u = uid" "lang \<in> set ALLOWED_LANGS"
  shows "fst (subscribe env pid uid lang s) =
    (case get_product pid (work s) of
       None \<Rightarrow> Inl (RestockNotFoundError pid)
     | Some p \<Rightarrow>
         if p_has_variants p then Inl (RestockUnsupportedError pid)
         else if 0 < p_qty p then Inl (ProductInStockError pid)
         else fst (upsert_active env pid uid lang s))"
    "\<And>p. get_product pid (work s) = Some p \<Longrightarrow> \<exists>r. fst (upsert_active env pid uid lang s) = Inr r
       \<and> (rs_product_id r, rs_user_id r) = (pid, uid) \<and> rs_status r = STATUS_ACTIVE \<and> rs_lang r = lang"
proof -
  show "fst (subscribe env pid uid lang s) =
    (case get_product pid (work s) of
       None \<Rightarrow> Inl (RestockNotFoundError pid)
     | Some p \<Rightarrow>
         if p_has_variants p then Inl (RestockUnsupportedError pid)
         else if 0 < p_qty p then Inl (ProductInStockError pid)
         else fst (upsert_active env pid uid lang s))"
    by (auto simp: subscribe_def bindM_app split: option.splits prod.splits sum.splits)
  fix p assume p: "get_product pid (work s) = Some p"
  then have "restock_row_ok (new_subscription i (pid, uid) (lang, t)) (work s)" for i t
    using assms(2,3) get_product_key [OF p] by (auto simp: restock_row_ok_def new_subscription_def list_ex_iff)
  then show "\<exists>r. fst (upsert_active env pid uid lang s) = Inr r
       \<and> (rs_product_id r, rs_user_id r) = (pid, uid) \<and> rs_status r = STATUS_ACTIVE \<and> rs_lang r = lang"
    using assms(3) by (auto simp: upsert_active_run [OF assms(1)] Let_def new_subscription_def reactivate_def
        dest: waits.row_of_Some split: option.splits)
qed

lemma is_subscribed_row:
  "waits.sound (t_restock d) \<Longrightarrow> is_subscribed pid uid d = Inr
    (case waits.row_of (pid, uid) (t_restock d) of None \<Rightarrow> False | Some r \<Rightarrow> rs_status r = STATUS_ACTIVE)"
  by (simp add: is_subscribed_def restock_get_row)

lemma unsubscribe_run:
  assumes "restock_inv s" "unsubscribe pid uid s = (r, s')"
  shows "r = Inr ()"
    "work s' = (work s)\<lparr>t_restock := filter (\<lambda>r. (rs_product_id r, rs_user_id r) \<noteq> (pid, uid)) (t_restock (work s))\<rparr>"
    "committed s' = work s'"
proof -
  have sound: "waits.sound (t_restock (work s))" using assms by (simp add: restock_inv_def both_def restock_ok_def)
  have none: "filter (\<lambda>r. (rs_product_id r, rs_user_id r) \<noteq> (pid, uid)) (t_restock (work s)) = t_restock (work s)"
    if "waits.row_of (pid, uid) (t_restock (work s)) = None"
    using that by (auto simp: waits.row_of_None filter_id_conv)
  show "r = Inr ()"
    "work s' = (work s)\<lparr>t_restock := filter (\<lambda>r. (rs_product_id r, rs_user_id r) \<noteq> (pid, uid)) (t_restock (work s))\<rparr>"
    "committed s' = work s'"
    using assms(2) none waits.drop_by_id [OF sound]
    by (auto simp: unsubscribe_def delete_subscription_def bindM_app restock_get_row [OF sound] split: option.splits)
qed

subsection \<open>Notifying\<close>

text \<open>The sends one after the other: who was accepted, and the mailbox after them.\<close>

fun accepted :: "environment \<Rightarrow> (int \<times> mail) list \<Rightarrow> mail list \<Rightarrow> bool list" where
  "accepted env [] box = []"
| "accepted env (job # jobs) box =
    (let ok = env_smtp env box (snd job) in
      ok # accepted env jobs (if ok then box @ [snd job] else box))"

definition taken :: "environment \<Rightarrow> (int \<times> mail) list \<Rightarrow> mail list \<Rightarrow> (int \<times> mail) list" where
  "taken env jobs box = map fst (filter snd (zip jobs (accepted env jobs box)))"

lemma taken_simps [simp]:
  "taken env [] box = []"
  "taken env (job # jobs) box =
    (if env_smtp env box (snd job) then job # taken env jobs (box @ [snd job]) else taken env jobs box)"
  by (simp_all add: taken_def Let_def)

lemma taken_append:
  "taken env (xs @ ys) box = taken env xs box @ taken env ys (box @ map snd (taken env xs box))"
  by (induction xs arbitrary: box) simp_all

lemma set_taken: "set (taken env jobs box) \<subseteq> set jobs"
  by (auto simp: taken_def dest: set_zip_leftD)

lemma send_one_run:
  "send_one env job w =
    (if env_smtp env (mailbox w) (snd job) then (Inr (Some (fst job)), w\<lparr>mailbox := mailbox w @ [snd job]\<rparr>)
     else (Inr None, w))"
  by (simp add: send_one_def)

lemma send_chunk:
  "mapM (send_one env) jobs w = (Inr rs, w') \<Longrightarrow>
    [i. Some i \<leftarrow> rs] = map fst (taken env jobs (mailbox w)) \<and>
    w' = w\<lparr>mailbox := mailbox w @ map snd (taken env jobs (mailbox w))\<rparr>"
proof (induction jobs arbitrary: w rs w')
  case (Cons job jobs)
  let ?ok = "env_smtp env (mailbox w) (snd job)"
  let ?w1 = "if ?ok then w\<lparr>mailbox := mailbox w @ [snd job]\<rparr> else w"
  have one: "send_one env job w = (Inr (if ?ok then Some (fst job) else None), ?w1)"
    by (simp add: send_one_run)
  from Cons.prems obtain rs' where rest: "mapM (send_one env) jobs ?w1 = (Inr rs', w')"
    and rs: "rs = (if ?ok then Some (fst job) else None) # rs'"
    by (auto simp: bindM_Inr one)
  show ?case using Cons.IH [OF rest] by (auto simp: rs)
qed simp

lemma send_chunk_total: "\<exists>rs w'. mapM (send_one env) jobs w = (Inr rs, w')"
proof (induction jobs arbitrary: w)
  case (Cons job jobs)
  obtain x w1 where "send_one env job w = (Inr x, w1)"
    by (cases "env_smtp env (mailbox w) (snd job)") (simp_all add: send_one_run)
  with Cons [of w1] show ?case by (auto simp: bindM_app)
qed simp

lemma send_chunks:
  "\<exists>rss. mapM (mapM (send_one env)) chunks w =
      (Inr rss, w\<lparr>mailbox := mailbox w @ map snd (taken env (concat chunks) (mailbox w))\<rparr>)
    \<and> [i. chunk \<leftarrow> rss, Some i \<leftarrow> chunk] = map fst (taken env (concat chunks) (mailbox w))"
proof (induction chunks arbitrary: w)
  case (Cons chunk chunks)
  obtain rs w1 where one: "mapM (send_one env) chunk w = (Inr rs, w1)" using send_chunk_total by blast
  note first = send_chunk [OF one]
  obtain rss where rest: "mapM (mapM (send_one env)) chunks w1 =
      (Inr rss, w1\<lparr>mailbox := mailbox w1 @ map snd (taken env (concat chunks) (mailbox w1))\<rparr>)"
    "[i. chunk \<leftarrow> rss, Some i \<leftarrow> chunk] = map fst (taken env (concat chunks) (mailbox w1))"
    using Cons.IH by blast
  then show ?case using first by (auto simp: bindM_app one taken_append)
qed simp

text \<open>The batches do not matter: \<open>_send_all\<close> is the plain sequence of sends.\<close>

lemma send_all_run:
  "send_all env jobs w = (Inr (map fst (taken env jobs (mailbox w))),
     w\<lparr>mailbox := mailbox w @ map snd (taken env jobs (mailbox w))\<rparr>)"
proof -
  have "concat (batches SEND_CHUNK_SIZE jobs) = jobs"
    using batches_concat [of SEND_CHUNK_SIZE jobs] by (simp add: SEND_CHUNK_SIZE_def)
  then show ?thesis using send_chunks [of env "batches SEND_CHUNK_SIZE jobs" w]
    by (auto simp: send_all_def bindM_app)
qed


lemma restock_jobs_none: "list_active_for_product pid d = [] \<Longrightarrow> restock_jobs env pid d = []"
  by (simp add: restock_jobs_def)

lemma notify_product_run:
  fixes s :: session
  defines "went \<equiv> \<lambda>env pid. taken env (restock_jobs env pid (work s)) (mailbox (outside s))"
  assumes "notify_product env pid s = (r, s')"
  shows "r = Inr (length (went env pid))"
    "mailbox (outside s') = mailbox (outside s) @ map snd (went env pid)"
    "work s' = (work s)\<lparr>t_restock := upd (\<lambda>x. rs_id x \<in> fst ` set (went env pid)) (notified (env_now env)) (t_restock (work s))\<rparr>"
    "went env pid \<noteq> [] \<Longrightarrow> committed s' = work s'"
proof -
  have id: "upd (\<lambda>x. False) f rows = rows" for f and rows :: "restock_subscription list" by (rule upd_none) simp
  have run: "notify_product env pid s =
    (Inr (length (went env pid)),
     (let s1 = s\<lparr>outside := (outside s)\<lparr>mailbox := mailbox (outside s) @ map snd (went env pid)\<rparr>\<rparr> in
       if went env pid = [] then s1
       else let d = (work s)\<lparr>t_restock := upd (\<lambda>x. rs_id x \<in> fst ` set (went env pid)) (notified (env_now env)) (t_restock (work s))\<rparr> in
         s1\<lparr>work := d, committed := d\<rparr>))"
  proof (cases "list_active_for_product pid (work s) = []")
    case True
    then show ?thesis by (simp add: notify_product_def bindM_app restock_jobs_none went_def)
  next
    case False
    then show ?thesis
      by (auto simp: notify_product_def bindM_app remote_app send_all_run went_def mark_notified_def Let_def)
  qed
  show "r = Inr (length (went env pid))"
    "mailbox (outside s') = mailbox (outside s) @ map snd (went env pid)"
    "work s' = (work s)\<lparr>t_restock := upd (\<lambda>x. rs_id x \<in> fst ` set (went env pid)) (notified (env_now env)) (t_restock (work s))\<rparr>"
    "went env pid \<noteq> [] \<Longrightarrow> committed s' = work s'"
    using assms(2) unfolding run by (auto simp: Let_def id split: if_splits)
qed

text \<open>The translation a mail is written in does not depend on who else is waiting.\<close>

lemma list_comp_filter: "concat (map (\<lambda>t. if P t then [f t] else []) ts) = map f (filter P ts)"
  by (induction ts) simp_all

lemma map_of_filter_keys:
  "map_of (map (\<lambda>t. (k t, g t)) (filter (\<lambda>t. P t \<and> k t \<in> L) ts)) l =
    (if l \<in> L then map_of (map (\<lambda>t. (k t, g t)) (filter P ts)) l else None)"
  by (induction ts) auto

definition slug_in :: "int \<Rightarrow> db \<Rightarrow> string \<rightharpoonup> string \<times> string" where
  "slug_in pid d = map_of (map (\<lambda>t. (pt_lang t, (pt_slug t, pt_name t)))
     (filter (\<lambda>t. pt_product_id t = pid) (rev (t_product_translation d))))"

lemma load_slugs_in: "load_slugs pid langs d l = (if l \<in> set langs then slug_in pid d l else None)"
  using map_of_filter_keys [of pt_lang "\<lambda>t. (pt_slug t, pt_name t)" "\<lambda>t. pt_product_id t = pid" "set langs" "rev (t_product_translation d)" l]
  by (auto simp: load_slugs_def slug_in_def list_comp_filter rev_map rev_filter)

lemma restock_jobs_eq:
  "restock_jobs env pid d = concat (map (\<lambda>(r, email). case slug_in pid d (rs_lang r) of
       None \<Rightarrow> []
     | Some (slug, name) \<Rightarrow> [(rs_id r, Restock_Mail email name (restock_url env (rs_lang r) slug) (rs_lang r))])
     (list_active_for_product pid d))"
  unfolding restock_jobs_def Let_def
  by (rule arg_cong [where f = concat], rule map_cong [OF refl]) (force simp: load_slugs_in split: option.splits)

lemma waiting_after:
  "list_active_for_product pid (d\<lparr>t_restock := upd (\<lambda>x. rs_id x \<in> ids) (notified now) (t_restock d)\<rparr>) =
    filter (\<lambda>(r, _). rs_id r \<notin> ids) (list_active_for_product pid d)"
proof -
  have other: "STATUS_NOTIFIED \<noteq> STATUS_ACTIVE" by (simp add: STATUS_NOTIFIED_def STATUS_ACTIVE_def)
  have keep: "filter (\<lambda>(r, _). rs_id r \<notin> ids) (map (\<lambda>u. (x, u_email u)) us) =
      (if rs_id x \<in> ids then [] else map (\<lambda>u. (x, u_email u)) us)" for x us
    by (induction us) auto
  have "concat (map (\<lambda>r. if rs_product_id r = pid \<and> rs_status r = STATUS_ACTIVE
          then map (\<lambda>u. (r, u_email u)) (filter (\<lambda>u. u_id u = rs_user_id r) us) else []) (upd (\<lambda>x. rs_id x \<in> ids) (notified now) rows))
      = filter (\<lambda>(r, _). rs_id r \<notin> ids) (concat (map (\<lambda>r. if rs_product_id r = pid \<and> rs_status r = STATUS_ACTIVE
          then map (\<lambda>u. (r, u_email u)) (filter (\<lambda>u. u_id u = rs_user_id r) us) else []) rows))" for us rows
    by (induction rows) (use other in \<open>auto simp: notified_def keep\<close>)
  then show ?thesis by (simp add: list_active_for_product_def list_comp_filter cong: if_cong)
qed

lemma jobs_after:
  "restock_jobs env pid (d\<lparr>t_restock := upd (\<lambda>x. rs_id x \<in> ids) (notified now) (t_restock d)\<rparr>) =
    filter (\<lambda>j. fst j \<notin> ids) (restock_jobs env pid d)"
proof -
  have slug: "slug_in pid (d\<lparr>t_restock := x\<rparr>) = slug_in pid d" for x by (simp add: slug_in_def)
  have commute: "concat (map f (filter (\<lambda>(r, _). rs_id r \<notin> ids) rows)) = filter (\<lambda>j. fst j \<notin> ids) (concat (map f rows))"
    if "\<And>r e j. j \<in> set (f (r, e)) \<Longrightarrow> fst j = rs_id r" for rows and f :: "restock_subscription \<times> string \<Rightarrow> (int \<times> mail) list"
  proof (induction rows)
    case (Cons x rows)
    obtain r e where x: "x = (r, e)" by (cases x)
    have "filter (\<lambda>j. fst j \<notin> ids) (f (r, e)) = (if rs_id r \<in> ids then [] else f (r, e))"
      using that [of _ r e] by (auto simp: filter_empty_conv filter_id_conv)
    then show ?case using Cons by (simp add: x)
  qed simp
  show ?thesis
    unfolding restock_jobs_eq waiting_after slug by (rule commute) (auto split: option.splits)
qed

lemma taken_all: "(\<And>box m. env_smtp env box m) \<Longrightarrow> taken env jobs box = jobs"
  by (induction jobs arbitrary: box) simp_all

end
