(* ===== verification/Keyset.thy ===== *)
theory Keyset
  imports Models "HOL-Library.Multiset"
begin

text \<open>
  Keyset pagination, the contract of every cursor-paged listing of the backend: rows in the order
  of a key, a page is the first \<open>limit\<close> rows after the cursor, the cursor of the next page names the
  last row of this one. A client that follows the cursors reads every row once, in order. The
  locale states what a listing must provide; the listings of the catalogue and of the reviews
  are interpretations of it.
\<close>

text \<open>One page cut from the rows still ahead: one row more is fetched to see whether more follow.\<close>

definition cut_page :: "nat \<Rightarrow> ('r \<Rightarrow> 'c) \<Rightarrow> 'r list \<Rightarrow> 'r list \<times> 'c option" where
  "cut_page limit token ahead =
    (let rows = take (limit + 1) ahead; page = take limit rows in
      (page, if limit < length rows \<and> page \<noteq> [] then Some (token (last page)) else None))"

text \<open>A client following the cursors, at most \<open>n\<close> requests.\<close>

fun walk :: "('c option \<Rightarrow> 'e + 'o list \<times> 'c option) \<Rightarrow> nat \<Rightarrow> 'c option \<Rightarrow> 'e + 'o list" where
  "walk fetch 0 cursor = Inr []"
| "walk fetch (Suc n) cursor =
    bindE (fetch cursor) (\<lambda>(page, next).
    case next of
      None \<Rightarrow> Inr page
    | Some t \<Rightarrow> bindE (walk fetch n (Some t)) (\<lambda>rest. Inr (page @ rest)))"

lemma cut_page_eq:
  "0 < limit \<Longrightarrow> cut_page limit token ahead =
    (take limit ahead, if limit < length ahead then Some (token (ahead ! (limit - 1))) else None)"
  by (auto simp: cut_page_def Let_def min_def take_eq_Nil last_conv_nth)

lemma filter_after:
  fixes key :: "'r \<Rightarrow> 'k::linorder"
  assumes "sorted (map key xs)" "distinct (map key xs)" "i < length xs"
  shows "filter (\<lambda>r. key (xs ! i) < key r) xs = drop (Suc i) xs"
  using assms
proof (induction xs arbitrary: i)
  case (Cons x xs)
  have ahead: "key x < key r" if "r \<in> set xs" for r
    using Cons.prems(1,2) that by (auto simp: order_le_less)
  show ?case
  proof (cases i)
    case 0
    then show ?thesis using ahead by simp
  next
    case (Suc j)
    then have "key x < key (xs ! j)" using ahead Cons.prems(3) by simp
    then show ?thesis using Cons Suc by auto
  qed
qed simp

locale keyset_listing =
  fixes inv :: "'s \<Rightarrow> bool" and rows :: "'s \<Rightarrow> 'r list" and key :: "'r \<Rightarrow> 'k::linorder"
    and token :: "'r \<Rightarrow> 'c" and out :: "'r \<Rightarrow> 'o" and limit :: nat
    and fetch :: "'s \<Rightarrow> 'c option \<Rightarrow> 'e + 'o list \<times> 'c option"
  assumes keys_distinct: "inv s \<Longrightarrow> distinct (map key (rows s))"
    and limit_pos: "0 < limit"
    and fetch_first: "inv s \<Longrightarrow> fetch s None = Inr (apfst (map out) (cut_page limit token (sort_key key (rows s))))"
    and fetch_next: "inv s \<Longrightarrow> r \<in> set (rows s) \<Longrightarrow> fetch s (Some (token r)) =
      Inr (apfst (map out) (cut_page limit token (sort_key key (filter (\<lambda>x. key r < key x) (rows s)))))"
begin

definition listing :: "'s \<Rightarrow> 'r list" where
  "listing s = sort_key key (rows s)"

lemma listing_facts:
  assumes "inv s"
  shows "sorted (map key (listing s))" "distinct (map key (listing s))" "mset (listing s) = mset (rows s)"
    "set (listing s) = set (rows s)"
  using keys_distinct [OF assms]
  by (simp_all add: listing_def distinct_map)

lemma fetch_at:
  assumes "inv s" "i < length (listing s)"
  shows "fetch s (Some (token (listing s ! i))) = Inr (apfst (map out) (cut_page limit token (drop (Suc i) (listing s))))"
proof -
  have "listing s ! i \<in> set (rows s)" using assms listing_facts(4) nth_mem by blast
  then show ?thesis
    using fetch_next [OF assms(1)] filter_after [OF listing_facts(1,2) [OF assms(1)] assms(2)]
    by (simp add: listing_def filter_sort)
qed

lemma walk_from:
  assumes "inv s"
  shows "i < length (listing s) \<Longrightarrow> length (listing s) - Suc i < n \<Longrightarrow>
    walk (fetch s) n (Some (token (listing s ! i))) = Inr (map out (drop (Suc i) (listing s)))"
proof (induction n arbitrary: i)
  case (Suc n)
  let ?L = "listing s" and ?ahead = "drop (Suc i) (listing s)"
  show ?case
  proof (cases "limit < length ?ahead")
    case True
    let ?j = "i + limit"
    have follow: "?ahead ! (limit - 1) = ?L ! ?j" using limit_pos True by simp
    have j: "?j < length ?L" "length ?L - Suc ?j < n" using True Suc.prems limit_pos by auto
    have "map out (take limit ?ahead) @ map out (drop (Suc ?j) ?L) = map out ?ahead"
      by (metis add.commute add_Suc_right append_take_drop_id drop_drop map_append)
    then show ?thesis
      using True fetch_at [OF assms Suc.prems(1)] Suc.IH [OF j] follow
      by (simp add: cut_page_eq [OF limit_pos])
  next
    case False
    then show ?thesis using fetch_at [OF assms Suc.prems(1)] by (simp add: cut_page_eq [OF limit_pos])
  qed
qed simp

text \<open>Following the cursors ends, and reads exactly the rows, each once, in the order of the key.\<close>

lemma walk_complete:
  assumes "inv s"
  shows "walk (fetch s) (Suc (length (rows s))) None = Inr (map out (listing s))"
proof (cases "limit < length (listing s)")
  case True
  have len: "length (listing s) = length (rows s)" by (simp add: listing_def)
  have first: "fetch s None = Inr (map out (take limit (listing s)), Some (token (listing s ! (limit - 1))))"
    using fetch_first [OF assms] True by (simp add: cut_page_eq [OF limit_pos] listing_def)
  have "walk (fetch s) (length (rows s)) (Some (token (listing s ! (limit - 1))))
      = Inr (map out (drop (Suc (limit - 1)) (listing s)))"
    by (rule walk_from [OF assms]) (use True limit_pos len in auto)
  moreover have "map out (take limit (listing s)) @ map out (drop (Suc (limit - 1)) (listing s)) = map out (listing s)"
    using limit_pos by (metis Suc_pred' append_take_drop_id map_append)
  ultimately show ?thesis using first by simp
next
  case False
  then show ?thesis
    using fetch_first [OF assms] by (simp add: cut_page_eq [OF limit_pos] listing_def)
qed

lemma page_bounded:
  "inv s \<Longrightarrow> c = None \<or> (\<exists>r \<in> set (rows s). c = Some (token r)) \<Longrightarrow> fetch s c = Inr (page, t) \<Longrightarrow> length page \<le> limit"
  using fetch_first fetch_next by (auto simp: cut_page_eq [OF limit_pos])

end

end
