(* ===== verification/Reviews.thy ===== *)
theory Reviews
  imports Catalog_Reads Keyed_Rows Keyset PyFloat
begin

text \<open>
  Reviews and ratings: \<open>app/repositories/review_repo.py\<close>, \<open>app/services/review_service.py\<close>,
  \<open>app/schemas/review.py\<close> and the routers \<open>reviews.py\<close> and \<open>admin_reviews.py\<close>. \<open>created_at\<close> and
  \<open>updated_at\<close> are the server's \<open>now()\<close>; where SQL leaves the order of groups open, they come in
  the order of their first row.
\<close>

definition STATUS_PENDING :: string where "STATUS_PENDING = ''pending''"
definition STATUS_APPROVED :: string where "STATUS_APPROVED = ''approved''"
definition STATUS_REJECTED :: string where "STATUS_REJECTED = ''rejected''"
definition REVIEW_STATUSES :: "string list" where
  "REVIEW_STATUSES = [STATUS_PENDING, STATUS_APPROVED, STATUS_REJECTED]"
definition MIN_RATING :: int where "MIN_RATING = 1"
definition MAX_RATING :: int where "MAX_RATING = 5"
definition PUBLIC_PAGE_SIZE :: nat where "PUBLIC_PAGE_SIZE = 10"
definition ADMIN_PAGE_SIZE :: nat where "ADMIN_PAGE_SIZE = 20"
definition CANCELED_STATUS :: string where "CANCELED_STATUS = ''canceled''"

text \<open>\<open>ReviewSort\<close>.\<close>

datatype review_sort = Newest | Highest | Lowest

fun sort_value :: "review_sort \<Rightarrow> string" where
  "sort_value Newest = ''newest''"
| "sort_value Highest = ''highest''"
| "sort_value Lowest = ''lowest''"

subsection \<open>Repository\<close>

definition review_get :: "int \<Rightarrow> int \<Rightarrow> db \<Rightarrow> exn + review option" where
  "review_get pid uid d =
    scalar_one_or_none (filter (\<lambda>r. (rv_product_id r, rv_user_id r) = (pid, uid)) (t_review d))"

definition review_get_by_id :: "int \<Rightarrow> db \<Rightarrow> review option" where
  "review_get_by_id i d = find (\<lambda>r. rv_id r = i) (t_review d)"

definition has_purchased :: "int \<Rightarrow> int \<Rightarrow> db \<Rightarrow> bool" where
  "has_purchased pid uid d \<longleftrightarrow>
    list_ex (\<lambda>i. oi_product_id i = Some pid \<and>
      list_ex (\<lambda>x. o_id x = oi_order_id i \<and> o_user_id x = Some uid \<and> o_status x \<noteq> CANCELED_STATUS) (t_order d))
      (t_order_item d)"

definition review_delete :: "int \<Rightarrow> db \<Rightarrow> db" where
  "review_delete i d = d\<lparr>t_review := filter (\<lambda>r. rv_id r \<noteq> i) (t_review d)\<rparr>"

definition delete_reviews_of :: "int \<Rightarrow> unit act" where
  "delete_reviews_of uid = writes (\<lambda>d. d\<lparr>t_review := filter (\<lambda>r. rv_user_id r \<noteq> uid) (t_review d)\<rparr>)"

definition approved_of :: "int \<Rightarrow> db \<Rightarrow> review list" where
  "approved_of pid d = filter (\<lambda>r. rv_product_id r = pid \<and> rv_status r = STATUS_APPROVED) (t_review d)"

text \<open>\<open>ORDER BY\<close> of the public list, and its \<open>WHERE id < after_id LIMIT limit\<close>.\<close>

definition review_order :: "review_sort \<Rightarrow> review \<Rightarrow> int \<times> int" where
  "review_order sort_by r =
    (case sort_by of
      Highest \<Rightarrow> (- rv_rating r, - rv_id r)
    | Lowest \<Rightarrow> (rv_rating r, - rv_id r)
    | Newest \<Rightarrow> (- rv_id r, 0))"

definition id_before :: "int option \<Rightarrow> review \<Rightarrow> bool" where
  "id_before after r \<longleftrightarrow> (case after of None \<Rightarrow> True | Some i \<Rightarrow> rv_id r < i)"

definition list_approved :: "int \<Rightarrow> review_sort \<Rightarrow> int option \<Rightarrow> nat \<Rightarrow> db \<Rightarrow> review list" where
  "list_approved pid sort_by after limit d =
    take limit (sort_key (review_order sort_by) (filter (id_before after) (approved_of pid d)))"

definition rating_distribution :: "int \<Rightarrow> db \<Rightarrow> (int \<times> nat) list" where
  "rating_distribution pid d =
    (let ratings = map rv_rating (approved_of pid d) in
      map (\<lambda>x. (x, length (filter ((=) x) ratings))) (remdups ratings))"

text \<open>
  PostgreSQL's \<open>avg\<close> of an integer column: the quotient with the scale \<open>numeric\<close> division
  chooses, sixteen digits adjusted by the operands' weights in base \<open>10 ^ 4\<close>.
\<close>

definition pg_weight :: "nat \<Rightarrow> nat" where
  "pg_weight n = (length (nat_str n) - 1) div 4"

definition pg_div_scale :: "nat \<Rightarrow> nat \<Rightarrow> nat" where
  "pg_div_scale a b =
    (let qw = int (pg_weight a) - int (pg_weight b)
           - (if a div 10 ^ (4 * pg_weight a) \<le> b div 10 ^ (4 * pg_weight b) then 1 else 0)
     in nat (16 - 4 * qw))"

definition pg_avg :: "int list \<Rightarrow> rat option" where
  "pg_avg xs =
    (if xs = [] then None
     else let total = sum_list xs in
       Some (quantize (pg_div_scale (nat total) (length xs)) (of_int total / of_nat (length xs))))"

definition aggregate_for_product :: "int \<Rightarrow> db \<Rightarrow> rat option \<times> nat" where
  "aggregate_for_product pid d =
    (let ratings = map rv_rating (approved_of pid d) in (map_option to_float (pg_avg ratings), length ratings))"

definition list_for_admin :: "string option \<Rightarrow> int option \<Rightarrow> int option \<Rightarrow> nat \<Rightarrow> db \<Rightarrow> review list" where
  "list_for_admin status pid after limit d =
    take limit (sort_key (\<lambda>r. - rv_id r)
      (filter (id_before after) (filter (\<lambda>r. (status = None \<or> status = Some (rv_status r))
        \<and> (pid = None \<or> pid = Some (rv_product_id r))) (t_review d))))"

definition review_pending_count :: "db \<Rightarrow> nat" where
  "review_pending_count d = length (filter (\<lambda>r. rv_status r = STATUS_PENDING) (t_review d))"

subsection \<open>Cursors\<close>

definition encode_cursor :: "string \<Rightarrow> int \<Rightarrow> string" where
  "encode_cursor sort_by last_id = cursor_token [(''s'', JStr sort_by), (''id'', JInt last_id)]"

text \<open>
  The handler names \<open>ValueError\<close>, \<open>TypeError\<close> and \<open>KeyError\<close>; the \<open>OverflowError\<close> of an infinite
  float goes through.
\<close>

definition decode_cursor :: "string \<Rightarrow> string \<Rightarrow> exn + int" where
  "decode_cursor cursor sort_by =
    (case cursor_object cursor of
      None \<Rightarrow> Inl ReviewInvalidCursorError
    | Some payload \<Rightarrow>
        (case (jlookup ''s'' payload, jlookup ''id'' payload) of
          (Some s, Some i) \<Rightarrow>
            (case int_of_json i of
              Inl e \<Rightarrow> if e = ''OverflowError'' then Inl (PyError e) else Inl ReviewInvalidCursorError
            | Inr last_id \<Rightarrow> if s \<noteq> JStr sort_by then Inl ReviewInvalidCursorError else Inr last_id)
        | _ \<Rightarrow> Inl ReviewInvalidCursorError))"

definition after_of :: "string option \<Rightarrow> string \<Rightarrow> exn + int option" where
  "after_of cursor sort_by =
    (case cursor of
      None \<Rightarrow> Inr None
    | Some c \<Rightarrow> bindE (decode_cursor c sort_by) (\<lambda>i. bindE (bind_bigint i) (\<lambda>_. Inr (Some i))))"

subsection \<open>Submitting and deleting\<close>

text \<open>The body of a submission after validation: bounds of the fields, the language, blanks to \<open>None\<close>.\<close>

record review_in =
  ri_product_id :: int
  ri_rating :: int
  ri_title :: "string option"
  ri_body :: "string option"
  ri_author_name :: "string option"
  ri_lang :: string

definition blank_to_none :: "string option \<Rightarrow> string option" where
  "blank_to_none v = (case v of None \<Rightarrow> None | Some s \<Rightarrow> if strip s = [] then None else Some (strip s))"

definition at_most :: "nat \<Rightarrow> string option \<Rightarrow> bool" where
  "at_most n v = (case v of None \<Rightarrow> True | Some s \<Rightarrow> length s \<le> n)"

definition review_submit_in :: "review_in \<Rightarrow> exn + review_in" where
  "review_submit_in raw =
    (if MIN_RATING \<le> ri_rating raw \<and> ri_rating raw \<le> MAX_RATING \<and> at_most 200 (ri_title raw)
        \<and> at_most 4000 (ri_body raw) \<and> at_most 100 (ri_author_name raw) \<and> ri_lang raw \<in> set ALLOWED_LANGS
     then Inr (raw\<lparr>ri_title := blank_to_none (ri_title raw), ri_body := blank_to_none (ri_body raw),
       ri_author_name := blank_to_none (ri_author_name raw)\<rparr>)
     else Inl (HTTPException 422 (Some ''validation_error'')))"

definition review_row_ok :: "review \<Rightarrow> db \<Rightarrow> bool" where
  "review_row_ok r d \<longleftrightarrow> list_ex (\<lambda>p. p_id p = rv_product_id r) (t_product d)
    \<and> list_ex (\<lambda>u. u_id u = rv_user_id r) (t_user d) \<and> rv_lang r \<in> set ALLOWED_LANGS
    \<and> rv_status r \<in> set REVIEW_STATUSES \<and> MIN_RATING \<le> rv_rating r \<and> rv_rating r \<le> MAX_RATING"

text \<open>What a submission writes: the payload, the verified-purchase snapshot and the clock.\<close>

definition new_review :: "int \<Rightarrow> int \<times> int \<Rightarrow> review_in \<times> bool \<times> instant \<Rightarrow> review" where
  "new_review i k v = (case v of (p, verified, now) \<Rightarrow>
    \<lparr>rv_id = i, rv_product_id = fst k, rv_user_id = snd k, rv_rating = ri_rating p, rv_title = ri_title p,
     rv_body = ri_body p, rv_author_name = ri_author_name p, rv_status = STATUS_PENDING, rv_is_verified = verified,
     rv_lang = ri_lang p, rv_moderated_at = None, rv_created_at = now, rv_updated_at = now\<rparr>)"

definition edit_review :: "review_in \<times> bool \<times> instant \<Rightarrow> review \<Rightarrow> review" where
  "edit_review v r = (case v of (p, verified, now) \<Rightarrow>
    r\<lparr>rv_rating := ri_rating p, rv_title := ri_title p, rv_body := ri_body p, rv_author_name := ri_author_name p,
      rv_status := STATUS_PENDING, rv_is_verified := verified, rv_lang := ri_lang p, rv_moderated_at := None,
      rv_updated_at := now\<rparr>)"

definition submit :: "environment \<Rightarrow> int \<Rightarrow> review_in \<Rightarrow> review act" where
  "submit env uid p =
    bindM (reads (get_product (ri_product_id p))) (\<lambda>product.
    if product = None then throw (ReviewNotFoundError (ri_product_id p))
    else
      bindM (reads (has_purchased (ri_product_id p) uid)) (\<lambda>verified.
      bindM (readsE (review_get (ri_product_id p) uid)) (\<lambda>found.
      let v = (p, verified, env_now env) in
      bindM
        (case found of
          None \<Rightarrow>
            bindM (next_id Review_T) (\<lambda>i.
            let r = new_review i (ri_product_id p, uid) v in
            bindM (readsE (\<lambda>d. guardE (review_row_ok r d) (IntegrityError ''review''))) (\<lambda>_.
            bindM (writes (\<lambda>d. d\<lparr>t_review := t_review d @ [r]\<rparr>)) (\<lambda>_.
            ret r)))
        | Some r \<Rightarrow>
            bindM (readsE (\<lambda>d. guardE (review_row_ok (edit_review v r) d) (IntegrityError ''review''))) (\<lambda>_.
            bindM (writes (\<lambda>d. d\<lparr>t_review := upd (\<lambda>x. rv_id x = rv_id r) (edit_review v) (t_review d)\<rparr>)) (\<lambda>_.
            ret (edit_review v r)))) (\<lambda>row.
      bindM commit (\<lambda>_.
      ret row)))))"

definition delete_own :: "int \<Rightarrow> int \<Rightarrow> unit act" where
  "delete_own uid i =
    bindM (reads (review_get_by_id i)) (\<lambda>found.
    case found of
      None \<Rightarrow> throw (ReviewNotFoundError i)
    | Some r \<Rightarrow>
        if rv_user_id r \<noteq> uid then throw ReviewForbiddenError
        else bindM (writes (review_delete i)) (\<lambda>_. commit))"

definition delete_admin :: "int \<Rightarrow> unit act" where
  "delete_admin i =
    bindM (reads (review_get_by_id i)) (\<lambda>found.
    case found of
      None \<Rightarrow> throw (ReviewNotFoundError i)
    | Some r \<Rightarrow> bindM (writes (review_delete i)) (\<lambda>_. commit))"

definition set_moderated :: "string \<Rightarrow> instant \<Rightarrow> review \<Rightarrow> review" where
  "set_moderated status now r = r\<lparr>rv_status := status, rv_moderated_at := Some now, rv_updated_at := now\<rparr>"

definition moderate :: "environment \<Rightarrow> int \<Rightarrow> string \<Rightarrow> review act" where
  "moderate env i status =
    bindM (reads (review_get_by_id i)) (\<lambda>found.
    case found of
      None \<Rightarrow> throw (ReviewNotFoundError i)
    | Some r \<Rightarrow>
        bindM (readsE (\<lambda>d. guardE (status \<in> set REVIEW_STATUSES) (IntegrityError ''review''))) (\<lambda>_.
        bindM (writes (\<lambda>d. d\<lparr>t_review := upd (\<lambda>x. rv_id x = i) (set_moderated status (env_now env)) (t_review d)\<rparr>)) (\<lambda>_.
        bindM commit (\<lambda>_.
        ret (set_moderated status (env_now env) r)))))"

subsection \<open>Lists and aggregates\<close>

record public_review =
  pv_id :: int
  pv_rating :: int
  pv_title :: "string option"
  pv_body :: "string option"
  pv_author_name :: "string option"
  pv_is_verified :: bool
  pv_created_at :: instant

definition public_out :: "review \<Rightarrow> public_review" where
  "public_out r = \<lparr>pv_id = rv_id r, pv_rating = rv_rating r, pv_title = rv_title r, pv_body = rv_body r,
     pv_author_name = rv_author_name r, pv_is_verified = rv_is_verified r, pv_created_at = rv_created_at r\<rparr>"

record rating_aggregate =
  ra_average :: "rat option"
  ra_count :: nat
  ra_distribution :: "(int \<times> nat) list"

text \<open>\<open>distribution[rating] = count\<close> on a dict: in place for a known key, appended otherwise.\<close>

fun dict_set :: "'k \<Rightarrow> 'v \<Rightarrow> ('k \<times> 'v) list \<Rightarrow> ('k \<times> 'v) list" where
  "dict_set k v [] = [(k, v)]"
| "dict_set k v ((k', v') # d) = (if k' = k then (k, v) # d else (k', v') # dict_set k v d)"

definition star_slots :: "(int \<times> nat) list" where
  "star_slots = map (\<lambda>star. (star, 0)) [5, 4, 3, 2, 1]"

text \<open>\<open>round(weighted / total, 1)\<close> is the float quotient, rounded to one decimal.\<close>

definition aggregate :: "int \<Rightarrow> db \<Rightarrow> rating_aggregate" where
  "aggregate pid d =
    (let rows = rating_distribution pid d; total = sum_list (map snd rows);
         weighted = sum_list (map (\<lambda>(rating, n). rating * int n) rows) in
      \<lparr>ra_average = (if total = 0 then None else Some (round1 (to_float (of_int weighted / of_nat total)))),
       ra_count = total,
       ra_distribution = foldl (\<lambda>dist (rating, n). dict_set rating n dist) star_slots rows\<rparr>)"

definition rating_summary :: "int \<Rightarrow> db \<Rightarrow> rat option \<times> nat" where
  "rating_summary pid d = (case aggregate_for_product pid d of (avg, n) \<Rightarrow> (map_option round1 avg, n))"

record product_reviews =
  pr_aggregate :: rating_aggregate
  pr_data :: "public_review list"
  pr_next_cursor :: "string option"

text \<open>The page both listings cut from the rows they fetched.\<close>

definition review_page :: "nat \<Rightarrow> string \<Rightarrow> review list \<Rightarrow> review list \<times> string option" where
  "review_page per_page sort_by rows =
    (let page = take per_page rows in
      (page, if per_page < length rows \<and> page \<noteq> [] then Some (encode_cursor sort_by (rv_id (last page))) else None))"

definition list_public :: "int \<Rightarrow> review_sort \<Rightarrow> string option \<Rightarrow> db \<Rightarrow> exn + product_reviews" where
  "list_public pid sort_by cursor d =
    bindE (after_of cursor (sort_value sort_by)) (\<lambda>after.
    let (page, follow) = review_page PUBLIC_PAGE_SIZE (sort_value sort_by)
          (list_approved pid sort_by after (PUBLIC_PAGE_SIZE + 1) d)
    in Inr \<lparr>pr_aggregate = aggregate pid d, pr_data = map public_out page, pr_next_cursor = follow\<rparr>)"

definition list_admin :: "string option \<Rightarrow> int option \<Rightarrow> string option \<Rightarrow> db \<Rightarrow> exn + review list \<times> string option" where
  "list_admin status pid cursor d =
    bindE (after_of cursor ''id'') (\<lambda>after.
    Inr (review_page ADMIN_PAGE_SIZE ''id'' (list_for_admin status pid after (ADMIN_PAGE_SIZE + 1) d)))"

definition get_mine :: "int \<Rightarrow> int \<Rightarrow> db \<Rightarrow> exn + review option" where
  "get_mine uid pid d = review_get pid uid d"

subsection \<open>Endpoints\<close>

definition submit_review_endpoint :: "environment \<Rightarrow> app_user \<Rightarrow> review_in \<Rightarrow> review act" where
  "submit_review_endpoint env user raw = bindM (liftE (review_submit_in raw)) (\<lambda>p. submit env (u_id user) p)"

definition delete_my_review_endpoint :: "app_user \<Rightarrow> int \<Rightarrow> unit act" where
  "delete_my_review_endpoint user i = delete_own (u_id user) i"

definition get_my_review_endpoint :: "app_user \<Rightarrow> int \<Rightarrow> review option act" where
  "get_my_review_endpoint user pid = readsE (get_mine (u_id user) pid)"

definition get_translation_by_slug :: "string \<Rightarrow> string \<Rightarrow> db \<Rightarrow> exn + product_translation option" where
  "get_translation_by_slug slug lang d =
    scalar_one_or_none (filter (\<lambda>t. pt_lang t = lang \<and> pt_slug t = slug) (t_product_translation d))"

definition list_product_reviews :: "string \<Rightarrow> review_sort \<Rightarrow> string option \<Rightarrow> string \<Rightarrow> db \<Rightarrow> exn + product_reviews" where
  "list_product_reviews slug sort_by cursor lang d =
    bindE (get_translation_by_slug slug lang d) (\<lambda>found.
    case found of
      None \<Rightarrow> Inl (HTTPException 404 (Some ''not_found''))
    | Some t \<Rightarrow> list_public (pt_product_id t) sort_by cursor d)"

text \<open>\<open>ReviewModerateIn\<close> admits the two decisions only.\<close>

definition moderate_review_endpoint :: "environment \<Rightarrow> int \<Rightarrow> string \<Rightarrow> review act" where
  "moderate_review_endpoint env i status =
    (if status \<notin> {STATUS_APPROVED, STATUS_REJECTED} then throw (HTTPException 422 (Some ''validation_error''))
     else moderate env i status)"

end
