(* ===== verification/Reviews_Correct.thy ===== *)
theory Reviews_Correct
  imports Reviews
begin

text \<open>
  One review per product and customer, every write sends it back to moderation, only approved
  reviews are shown, the aggregate counts exactly those, and the listings ordered by id are
  complete keyset listings. The listings ordered by rating are not: a page ends with the id of
  its last row, and the next page drops every review with a larger id.
\<close>

interpretation one_review: keyed_rows "\<lambda>r. (rv_product_id r, rv_user_id r)" rv_id new_review edit_review
  by unfold_locales (auto simp: new_review_def edit_review_def split: prod.splits)

subsection \<open>The review table\<close>

definition review_row_sound :: "review \<Rightarrow> bool" where
  "review_row_sound r \<longleftrightarrow> MIN_RATING \<le> rv_rating r \<and> rv_rating r \<le> MAX_RATING
    \<and> rv_status r \<in> set REVIEW_STATUSES \<and> (rv_status r = STATUS_PENDING \<longleftrightarrow> rv_moderated_at r = None)"

definition review_ok :: "db \<Rightarrow> bool" where
  "review_ok d \<longleftrightarrow> one_review.sound (t_review d) \<and> list_all review_row_sound (t_review d)"

definition review_inv :: "session \<Rightarrow> bool" where
  "review_inv s \<longleftrightarrow> both review_ok s \<and> both (\<lambda>d. \<forall>r \<in> set (t_review d). rv_id r < pk_seq s Review_T) s"

lemma status_names: "STATUS_PENDING \<noteq> STATUS_APPROVED" "STATUS_PENDING \<noteq> STATUS_REJECTED" "STATUS_APPROVED \<noteq> STATUS_REJECTED"
  by (simp_all add: STATUS_PENDING_def STATUS_APPROVED_def STATUS_REJECTED_def)

lemma review_get_row:
  "one_review.sound (t_review d) \<Longrightarrow> review_get pid uid d = Inr (one_review.row_of (pid, uid) (t_review d))"
  unfolding review_get_def by (rule one_review.scalar_row_of) (simp add: one_review.sound_def)

lemma submit_run:
  assumes "review_inv s"
  shows "submit env uid p s =
    (let pid = ri_product_id p; rows = t_review (work s); k = (pid, uid); i = pk_seq s Review_T;
         v = (p, has_purchased pid uid (work s), env_now env);
         d = (work s)\<lparr>t_review := one_review.put i k v rows\<rparr> in
      if get_product pid (work s) = None then (Inl (ReviewNotFoundError pid), s)
      else case one_review.row_of k rows of
        None \<Rightarrow>
          let s1 = s\<lparr>pk_seq := (pk_seq s)(Review_T := i + 1)\<rparr> in
          if review_row_ok (new_review i k v) (work s) then (Inr (new_review i k v), s1\<lparr>work := d, committed := d\<rparr>)
          else (Inl (IntegrityError ''review''), s1)
      | Some r \<Rightarrow>
          if review_row_ok (edit_review v r) (work s) then (Inr (edit_review v r), s\<lparr>work := d, committed := d\<rparr>)
          else (Inl (IntegrityError ''review''), s))"
proof -
  let ?pid = "ri_product_id p"
  have sound: "one_review.sound (t_review (work s))" using assms by (simp add: review_inv_def both_def review_ok_def)
  show ?thesis
  proof (cases "one_review.row_of (?pid, uid) (t_review (work s))")
    case None
    then show ?thesis
      by (simp add: submit_def bindM_app review_get_row [OF sound] one_review.put_def Let_def guardE_def)
  next
    case (Some r)
    have "upd (\<lambda>x. rv_id x = rv_id r) f (t_review (work s)) =
        upd (\<lambda>x. (rv_product_id x, rv_user_id x) = (?pid, uid)) f (t_review (work s))" for f
      by (rule one_review.upd_by_id [OF sound Some])
    then show ?thesis using Some
      by (simp add: submit_def bindM_app review_get_row [OF sound] one_review.put_def Let_def guardE_def)
  qed
qed

lemma review_put_ok:
  assumes "review_ok d" "\<forall>r \<in> set (t_review d). rv_id r \<noteq> i" "MIN_RATING \<le> ri_rating p" "ri_rating p \<le> MAX_RATING"
  shows "review_ok (d\<lparr>t_review := one_review.put i k (p, b, now) (t_review d)\<rparr>)"
proof -
  have "one_review.sound (one_review.put i k (p, b, now) (t_review d))"
    using assms(1,2) one_review.put_sound by (simp add: review_ok_def)
  moreover have "list_all review_row_sound (one_review.put i k (p, b, now) (t_review d))"
    using assms(1,3,4)
    by (auto simp: review_ok_def one_review.put_def list_all_iff set_upd review_row_sound_def new_review_def edit_review_def
        REVIEW_STATUSES_def)
  ultimately show ?thesis by (simp add: review_ok_def)
qed

lemma review_put_ids:
  "r \<in> set (one_review.put i k v rows) \<Longrightarrow> rv_id r = i \<or> rv_id r \<in> rv_id ` set rows"
  "r \<in> set (one_review.put i k v rows) \<Longrightarrow> one_review.row_of k rows \<noteq> None \<Longrightarrow> rv_id r \<in> rv_id ` set rows"
  by (auto simp: one_review.put_def new_review_def set_upd edit_review_def split: if_splits prod.splits)

lemma review_inv_put:
  fixes s :: session
  defines "i \<equiv> pk_seq s Review_T"
  assumes inv: "review_inv s" and rating: "MIN_RATING \<le> ri_rating p" "ri_rating p \<le> MAX_RATING"
    and d: "d = (work s)\<lparr>t_review := one_review.put i k (p, b, t) (t_review (work s))\<rparr>"
  shows "review_inv (s\<lparr>pk_seq := (pk_seq s)(Review_T := i + 1), work := d, committed := d\<rparr>)"
    "one_review.row_of k (t_review (work s)) = Some r \<Longrightarrow> review_inv (s\<lparr>work := d, committed := d\<rparr>)"
proof -
  have ok: "review_ok (work s)" "\<forall>r \<in> set (t_review (work s)). rv_id r < i"
    using inv by (auto simp: review_inv_def both_def i_def)
  have "review_ok d" unfolding d by (rule review_put_ok [OF ok(1) _ rating]) (use ok(2) in auto)
  moreover have "\<forall>r \<in> set (t_review d). rv_id r < i + 1"
  proof
    fix r assume "r \<in> set (t_review d)"
    then have "rv_id r = i \<or> rv_id r \<in> rv_id ` set (t_review (work s))" unfolding d by (simp add: review_put_ids(1))
    then show "rv_id r < i + 1" using ok(2) by auto
  qed
  ultimately show "review_inv (s\<lparr>pk_seq := (pk_seq s)(Review_T := i + 1), work := d, committed := d\<rparr>)"
    by (simp add: review_inv_def both_def)
  assume row: "one_review.row_of k (t_review (work s)) = Some r"
  have "\<forall>r \<in> set (t_review d). rv_id r < i"
  proof
    fix x assume "x \<in> set (t_review d)"
    then have "rv_id x \<in> rv_id ` set (t_review (work s))" unfolding d using row by (simp add: review_put_ids(2))
    then show "rv_id x < i" using ok(2) by auto
  qed
  with \<open>review_ok d\<close> show "review_inv (s\<lparr>work := d, committed := d\<rparr>)"
    by (simp add: review_inv_def both_def i_def)
qed

lemma submit_keeps: "preserves review_inv (submit env uid p)"
proof (rule preservesI)
  fix s r s' assume inv: "review_inv s" and run: "submit env uid p s = (r, s')"
  let ?i = "pk_seq s Review_T" and ?k = "(ri_product_id p, uid)" and ?b = "has_purchased (ri_product_id p) uid (work s)"
  let ?d = "(work s)\<lparr>t_review := one_review.put ?i ?k (p, ?b, env_now env) (t_review (work s))\<rparr>"
  have bump: "review_inv (s\<lparr>pk_seq := (pk_seq s)(Review_T := ?i + 1)\<rparr>)"
    using inv by (auto simp: review_inv_def both_def)
  have rating: "MIN_RATING \<le> ri_rating p" "ri_rating p \<le> MAX_RATING"
    if "review_row_ok (new_review ?i ?k (p, ?b, t)) (work s) \<or> review_row_ok (edit_review (p, ?b, t) x) (work s)" for t x
    using that by (auto simp: review_row_ok_def new_review_def edit_review_def)
  show "review_inv s'"
  proof (cases "one_review.row_of ?k (t_review (work s))")
    case None
    then show ?thesis
      using run inv bump rating review_inv_put(1) [OF inv, of p ?d ?k ?b "env_now env"]
      by (auto simp: submit_run [OF inv] Let_def split: if_splits)
  next
    case (Some x)
    then show ?thesis
      using run inv rating review_inv_put(2) [OF inv, of p ?d ?k ?b "env_now env" x]
      by (auto simp: submit_run [OF inv] Let_def split: if_splits)
  qed
qed

lemma review_inv_writes:
  assumes "\<And>d. review_ok d \<Longrightarrow> review_ok (g d)" "\<And>d. rv_id ` set (t_review (g d)) \<subseteq> rv_id ` set (t_review d)"
  shows "preserves review_inv (writes g)"
proof (rule preserves_writes)
  fix s assume inv: "review_inv s"
  have "rv_id r < pk_seq s Review_T" if "r \<in> set (t_review (g (work s)))" for r
  proof -
    have "rv_id r \<in> rv_id ` set (t_review (work s))" using that assms(2) by blast
    then show ?thesis using inv by (auto simp: review_inv_def both_def)
  qed
  then show "review_inv (s\<lparr>work := g (work s)\<rparr>)" using inv assms(1) by (simp add: review_inv_def both_def)
qed

lemma review_inv_commit: "preserves review_inv commit"
  by (rule preserves_commit) (auto simp: review_inv_def both_def)

lemma review_filter_ok: "review_ok d \<Longrightarrow> review_ok (d\<lparr>t_review := filter P (t_review d)\<rparr>)"
  by (auto simp: review_ok_def list_all_iff intro: one_review.sound_filter)

lemma review_deletes_keep:
  "preserves review_inv (delete_own uid i)" "preserves review_inv (delete_admin i)" "preserves review_inv (delete_reviews_of uid)"
  unfolding delete_own_def delete_admin_def delete_reviews_of_def review_delete_def
  by (intro pres review_inv_writes review_inv_commit review_filter_ok; auto)+

lemma moderate_keeps:
  assumes "status \<noteq> STATUS_PENDING"
  shows "preserves review_inv (moderate env i status)"
proof -
  have step: "preserves review_inv (writes (\<lambda>d. d\<lparr>t_review := upd (\<lambda>x. rv_id x = i) (set_moderated status now) (t_review d)\<rparr>))"
    if "status \<in> set REVIEW_STATUSES" for now
  proof (rule review_inv_writes)
    fix d assume ok: "review_ok d"
    have "map (\<lambda>r. (rv_product_id r, rv_user_id r)) (upd (\<lambda>x. rv_id x = i) (set_moderated status now) (t_review d))
        = map (\<lambda>r. (rv_product_id r, rv_user_id r)) (t_review d)"
      "map rv_id (upd (\<lambda>x. rv_id x = i) (set_moderated status now) (t_review d)) = map rv_id (t_review d)"
      by (auto intro!: map_upd_key simp: set_moderated_def)
    then show "review_ok (d\<lparr>t_review := upd (\<lambda>x. rv_id x = i) (set_moderated status now) (t_review d)\<rparr>)"
      using ok assms that
      by (auto simp: review_ok_def one_review.sound_def list_all_iff set_upd review_row_sound_def set_moderated_def)
  qed (auto simp: set_upd set_moderated_def)
  show ?thesis
  proof (rule preservesI)
    fix s r s' assume inv: "review_inv s" and run: "moderate env i status s = (r, s')"
    show "review_inv s'"
    proof (cases "status \<in> set REVIEW_STATUSES")
      case True
      have "preserves review_inv (moderate env i status)"
        unfolding moderate_def by (intro pres step True review_inv_commit)
      then show ?thesis using run inv by (rule preservesD)
    next
      case False
      then have "s' = s" using run by (auto simp: moderate_def bindM_app guardE_def split: option.splits)
      with inv show ?thesis by simp
    qed
  qed
qed


subsection \<open>What a submission does\<close>

lemma submit_Inr:
  assumes "review_inv s" "submit env uid p s = (Inr r, s')"
  shows "one_review.row_of (ri_product_id p, uid) (t_review (work s')) = Some r"
    "rv_status r = STATUS_PENDING" "rv_moderated_at r = None" "rv_rating r = ri_rating p"
    "rv_is_verified r = has_purchased (ri_product_id p) uid (work s)"
    "committed s' = work s'"
    "\<And>k. k \<noteq> (ri_product_id p, uid) \<Longrightarrow> one_review.row_of k (t_review (work s')) = one_review.row_of k (t_review (work s))"
    "approved_of pid (work s') = filter (\<lambda>x. (rv_product_id x, rv_user_id x) \<noteq> (ri_product_id p, uid)) (approved_of pid (work s))"
proof -
  let ?k = "(ri_product_id p, uid)" and ?rows = "t_review (work s)"
  let ?v = "(p, has_purchased (ri_product_id p) uid (work s), env_now env)"
  let ?d = "(work s)\<lparr>t_review := one_review.put (pk_seq s Review_T) ?k ?v ?rows\<rparr>"
  have all: "r = (case one_review.row_of ?k ?rows of None \<Rightarrow> new_review (pk_seq s Review_T) ?k ?v | Some x \<Rightarrow> edit_review ?v x)
      \<and> work s' = ?d \<and> committed s' = ?d"
  proof (cases "one_review.row_of ?k ?rows")
    case None
    with assms(2) show ?thesis by (clarsimp simp: submit_run [OF assms(1)] Let_def split: if_splits)
  next
    case (Some x)
    with assms(2) show ?thesis by (clarsimp simp: submit_run [OF assms(1)] Let_def split: if_splits)
  qed
  note r = conjunct1 [OF all] and d = conjunct1 [OF conjunct2 [OF all]]
  have c: "committed s' = work s'" using all by simp
  show "one_review.row_of ?k (t_review (work s')) = Some r" by (simp add: d r one_review.put_row)
  show "rv_status r = STATUS_PENDING" "rv_moderated_at r = None" "rv_rating r = ri_rating p"
    "rv_is_verified r = has_purchased (ri_product_id p) uid (work s)"
    by (simp_all add: r new_review_def edit_review_def split: option.splits)
  show "committed s' = work s'" by (rule c)
  show "one_review.row_of k (t_review (work s')) = one_review.row_of k ?rows" if "k \<noteq> ?k" for k
    using that by (simp add: d one_review.put_row)
  show "approved_of pid (work s') = filter (\<lambda>x. (rv_product_id x, rv_user_id x) \<noteq> ?k) (approved_of pid (work s))"
  proof (cases "one_review.row_of ?k ?rows")
    case None
    then have "\<forall>x \<in> set ?rows. (rv_product_id x, rv_user_id x) \<noteq> ?k" by (simp only: one_review.row_of_None)
    then have "filter (\<lambda>x. (rv_product_id x, rv_user_id x) \<noteq> ?k) (approved_of pid (work s)) = approved_of pid (work s)"
      by (intro filter_True) (simp add: approved_of_def)
    with None show ?thesis
      using status_names by (simp add: d one_review.put_def approved_of_def new_review_def)
  next
    case (Some x)
    have "filter (\<lambda>r. rv_product_id r = pid \<and> rv_status r = STATUS_APPROVED) (upd (\<lambda>r. (rv_product_id r, rv_user_id r) = ?k) (edit_review ?v) rows)
        = filter (\<lambda>x. (rv_product_id x, rv_user_id x) \<noteq> ?k) (filter (\<lambda>r. rv_product_id r = pid \<and> rv_status r = STATUS_APPROVED) rows)" for rows
      using status_names by (induction rows) (auto simp: edit_review_def)
    with Some show ?thesis by (simp add: d one_review.put_def approved_of_def)
  qed
qed

subsection \<open>The aggregate\<close>

definition stars :: "int \<Rightarrow> int \<Rightarrow> db \<Rightarrow> nat" where
  "stars pid star d = length (filter (\<lambda>r. rv_rating r = star) (approved_of pid d))"

lemma dict_set_map:
  "distinct ks \<Longrightarrow> k \<in> set ks \<Longrightarrow> dict_set k v (map (\<lambda>x. (x, f x)) ks) = map (\<lambda>x. (x, (f(k := v)) x)) ks"
proof (induction ks)
  case (Cons a ks)
  show ?case
  proof (cases "a = k")
    case True
    then have "map (\<lambda>x. (x, f x)) ks = map (\<lambda>x. (x, (f(k := v)) x)) ks" using Cons.prems(1) by auto
    with True show ?thesis by simp
  qed (use Cons in simp)
qed simp

lemma fold_dict_set:
  assumes "distinct ks"
  shows "set (map fst rows) \<subseteq> set ks \<Longrightarrow> distinct (map fst rows) \<Longrightarrow>
    foldl (\<lambda>dist (r, n). dict_set r n dist) (map (\<lambda>x. (x, f x)) ks) rows
      = map (\<lambda>x. (x, case map_of rows x of None \<Rightarrow> f x | Some n \<Rightarrow> n)) ks"
proof (induction rows arbitrary: f)
  case (Cons row rows)
  obtain r n where row: "row = (r, n)" by (cases row)
  have "map_of rows r = None" using Cons.prems(2) by (auto simp: row map_of_eq_None_iff)
  then show ?case using Cons dict_set_map [OF assms, of r n f]
    by (auto simp: row split: option.splits)
qed simp

lemma distribution_lookup:
  "map_of (rating_distribution pid d) x = (if stars pid x d = 0 then None else Some (stars pid x d))"
proof -
  have "map_of (map (\<lambda>x. (x, g x)) xs) x = (if x \<in> set xs then Some (g x) else None)" for g :: "int \<Rightarrow> nat" and xs
    by (induction xs) auto
  moreover have "stars pid x d = length (filter ((=) x) (map rv_rating (approved_of pid d)))"
    by (simp add: stars_def filter_map comp_def eq_commute)
  moreover have "stars pid x d = 0 \<longleftrightarrow> x \<notin> rv_rating ` set (approved_of pid d)"
    by (auto simp: stars_def filter_empty_conv)
  ultimately show ?thesis by (simp add: rating_distribution_def Let_def)
qed

lemma count_total:
  fixes xs :: "int list"
  shows "sum_list (map (\<lambda>x. length (filter ((=) x) xs)) (remdups xs)) = length xs"
    "sum_list (map (\<lambda>x. x * int (length (filter ((=) x) xs))) (remdups xs)) = sum_list xs"
proof -
  have "sum_list (map (\<lambda>x. length (filter ((=) x) xs)) (remdups xs)) = (\<Sum>x \<in> set xs. count_list xs x)"
    by (simp add: sum_list_distinct_conv_sum_set count_list_eq_length_filter)
  also have "\<dots> = length xs" by (rule sum_count_set) simp_all
  finally show "sum_list (map (\<lambda>x. length (filter ((=) x) xs)) (remdups xs)) = length xs" .
  have "(\<Sum>x \<in> X. x * int (count_list xs x)) = sum_list xs" if "finite X" "set xs \<subseteq> X" for X
    using that(2)
  proof (induction xs)
    case (Cons a xs)
    have "(\<Sum>x \<in> X. x * int (count_list (a # xs) x)) = (\<Sum>x \<in> X. (if x = a then x else 0) + x * int (count_list xs x))"
      by (rule sum.cong) (auto simp: algebra_simps)
    also have "\<dots> = a + sum_list xs" using Cons that(1) by (simp add: sum.distrib)
    finally show ?case by simp
  qed simp
  from this [of "set xs"] show "sum_list (map (\<lambda>x. x * int (length (filter ((=) x) xs))) (remdups xs)) = sum_list xs"
    by (simp add: sum_list_distinct_conv_sum_set count_list_eq_length_filter)
qed

lemma distribution_sums:
  "sum_list (map snd (rating_distribution pid d)) = length (approved_of pid d)"
  "sum_list (map (\<lambda>(rating, n). rating * int n) (rating_distribution pid d)) = sum_list (map rv_rating (approved_of pid d))"
  using count_total [of "map rv_rating (approved_of pid d)"]
  by (simp_all add: rating_distribution_def Let_def comp_def)

lemma approved_rating: "review_ok d \<Longrightarrow> r \<in> set (approved_of pid d) \<Longrightarrow> 1 \<le> rv_rating r \<and> rv_rating r \<le> 5"
  by (auto simp: review_ok_def list_all_iff approved_of_def review_row_sound_def MIN_RATING_def MAX_RATING_def)

lemma aggregate_count: "ra_count (aggregate pid d) = length (approved_of pid d)"
  by (simp add: aggregate_def Let_def distribution_sums)

lemma aggregate_distribution:
  assumes "review_ok d"
  shows "ra_distribution (aggregate pid d) = map (\<lambda>star. (star, stars pid star d)) [5, 4, 3, 2, 1]"
proof -
  let ?rows = "rating_distribution pid d"
  have "x \<in> {5, 4, 3, 2, 1}" if "x \<in> set (map fst ?rows)" for x
  proof -
    from that have "x \<in> rv_rating ` set (approved_of pid d)" by (auto simp: rating_distribution_def Let_def)
    then show ?thesis using approved_rating [OF assms] by force
  qed
  then have "set (map fst ?rows) \<subseteq> set [5, 4, 3, 2, 1]" by auto
  moreover have "distinct (map fst ?rows)" by (simp add: rating_distribution_def Let_def comp_def)
  ultimately have "foldl (\<lambda>dist (r, n). dict_set r n dist) star_slots ?rows
      = map (\<lambda>x. (x, case map_of ?rows x of None \<Rightarrow> 0 | Some n \<Rightarrow> n)) [5, 4, 3, 2, 1]"
    unfolding star_slots_def by (intro fold_dict_set) simp_all
  then show ?thesis by (simp add: aggregate_def Let_def distribution_lookup split: option.splits)
qed

lemma sum_bounds:
  fixes xs :: "int list"
  assumes "\<And>x. x \<in> set xs \<Longrightarrow> l \<le> x \<and> x \<le> u"
  shows "l * int (length xs) \<le> sum_list xs \<and> sum_list xs \<le> u * int (length xs)"
  using assms by (induction xs) (force simp: algebra_simps)+

lemma aggregate_average:
  assumes "review_ok d"
  shows "ra_average (aggregate pid d) = None \<longleftrightarrow> approved_of pid d = []"
    "ra_average (aggregate pid d) = Some a \<Longrightarrow> 1 \<le> a \<and> a \<le> 5"
proof -
  let ?n = "length (approved_of pid d)" and ?w = "sum_list (map rv_rating (approved_of pid d))"
  show "ra_average (aggregate pid d) = None \<longleftrightarrow> approved_of pid d = []"
    by (simp add: aggregate_def Let_def distribution_sums del: sum_list_eq_0_iff)
  assume a: "ra_average (aggregate pid d) = Some a"
  then have n: "?n \<noteq> 0" and val: "a = round1 (to_float (of_int ?w / of_nat ?n))"
    by (auto simp: aggregate_def Let_def distribution_sums simp del: sum_list_eq_0_iff split: if_splits)
  have b: "1 * int ?n \<le> ?w \<and> ?w \<le> 5 * int ?n"
    using sum_bounds [of "map rv_rating (approved_of pid d)" 1 5] approved_rating [OF assms] by auto
  then have "(of_int (int ?n) :: rat) \<le> of_int ?w" "(of_int ?w :: rat) \<le> of_int (5 * int ?n)" by (simp_all only: of_int_le_iff mult_1)
  then have q: "of_int 1 \<le> (of_int ?w / of_nat ?n :: rat)" "(of_int ?w / of_nat ?n :: rat) \<le> of_int 5"
    using n by (simp_all add: divide_simps)
  have "of_int 1 \<le> to_float (of_int ?w / of_nat ?n) \<and> to_float (of_int ?w / of_nat ?n) \<le> of_int 5"
    by (rule to_float_between) (use q in \<open>auto intro: float_exponent_bound\<close>)
  then show "1 \<le> a \<and> a \<le> 5" using round1_between [of 1 _ 5] by (simp add: val)
qed


subsection \<open>Cursors\<close>

lemma decode_encode: "decode_cursor (encode_cursor sort_by i) sort_by = Inr i"
  by (simp add: decode_cursor_def encode_cursor_def cursor_object_token jlookup_def int_of_json_def)

lemma decode_other_sort: "other \<noteq> sort_by \<Longrightarrow> decode_cursor (encode_cursor sort_by i) other = Inl ReviewInvalidCursorError"
  by (simp add: decode_cursor_def encode_cursor_def cursor_object_token jlookup_def int_of_json_def)

lemma after_of_encode: "bigint i \<Longrightarrow> after_of (Some (encode_cursor sort_by i)) sort_by = Inr (Some i)"
  by (simp add: after_of_def decode_encode bind_bigint_def)

text \<open>A token that is not one is refused with the documented error, save for an infinite id.\<close>

lemma decode_errors:
  "decode_cursor c sort_by = Inl e \<Longrightarrow> e = ReviewInvalidCursorError \<or> e = PyError ''OverflowError''"
  by (auto simp: decode_cursor_def split: option.splits sum.splits if_splits prod.splits)

subsection \<open>The listings ordered by id\<close>

definition review_ids_ok :: "db \<Rightarrow> bool" where
  "review_ids_ok d \<longleftrightarrow> distinct (map rv_id (t_review d)) \<and> (\<forall>r \<in> set (t_review d). bigint (rv_id r))"

definition public_page :: "int \<times> db \<Rightarrow> string option \<Rightarrow> exn + public_review list \<times> string option" where
  "public_page s c = (case s of (pid, d) \<Rightarrow>
    bindE (list_public pid Newest c d) (\<lambda>page. Inr (pr_data page, pr_next_cursor page)))"

lemma review_page_cut:
  "review_page n sort_by (take (n + 1) ahead) = cut_page n (\<lambda>r. encode_cursor sort_by (rv_id r)) ahead"
  by (simp add: review_page_def cut_page_def Let_def)

lemma public_page_run:
  assumes "after_of c ''newest'' = Inr after"
  shows "public_page (pid, d) c = Inr (apfst (map public_out) (cut_page PUBLIC_PAGE_SIZE
    (\<lambda>r. encode_cursor ''newest'' (rv_id r)) (sort_key (review_order Newest) (filter (id_before after) (approved_of pid d)))))"
  using assms
  by (simp add: public_page_def list_public_def list_approved_def review_page_cut del: One_nat_def add_Suc_right
      split: prod.splits)

interpretation public_reviews: keyset_listing
  "\<lambda>s. review_ids_ok (snd s)" "\<lambda>s. approved_of (fst s) (snd s)" "review_order Newest"
  "\<lambda>r. encode_cursor ''newest'' (rv_id r)" public_out PUBLIC_PAGE_SIZE public_page
proof unfold_locales
  show "0 < PUBLIC_PAGE_SIZE" by (simp add: PUBLIC_PAGE_SIZE_def)
  fix s :: "int \<times> db" assume ok: "review_ids_ok (snd s)"
  obtain pid d where s: "s = (pid, d)" by (cases s)
  have "distinct (map rv_id (approved_of pid d))" "\<And>r. r \<in> set (approved_of pid d) \<Longrightarrow> bigint (rv_id r)"
    using ok by (auto simp: s review_ids_ok_def approved_of_def distinct_map_filter)
  note ids = this
  have "inj_on (review_order Newest) (set (approved_of pid d))"
    using ids(1) by (auto simp: distinct_map review_order_def inj_on_def)
  then show "distinct (map (review_order Newest) (approved_of (fst s) (snd s)))"
    using ids(1) by (simp add: s distinct_map)
  show "public_page s None = Inr (apfst (map public_out) (cut_page PUBLIC_PAGE_SIZE (\<lambda>r. encode_cursor ''newest'' (rv_id r))
      (sort_key (review_order Newest) (approved_of (fst s) (snd s)))))"
    using public_page_run [of None None pid d] by (simp add: s after_of_def id_before_def)
  fix r assume r: "r \<in> set (approved_of (fst s) (snd s))"
  then have "after_of (Some (encode_cursor ''newest'' (rv_id r))) ''newest'' = Inr (Some (rv_id r))"
    using ids(2) by (simp add: s after_of_encode)
  moreover have "id_before (Some (rv_id r)) = (\<lambda>x. review_order Newest r < review_order Newest x)"
    by (auto simp: id_before_def review_order_def)
  ultimately show "public_page s (Some (encode_cursor ''newest'' (rv_id r))) =
    Inr (apfst (map public_out) (cut_page PUBLIC_PAGE_SIZE (\<lambda>r. encode_cursor ''newest'' (rv_id r))
      (sort_key (review_order Newest) (filter (\<lambda>x. review_order Newest r < review_order Newest x) (approved_of (fst s) (snd s))))))"
    using public_page_run [of "Some (encode_cursor ''newest'' (rv_id r))" "Some (rv_id r)" pid d] by (simp add: s)
qed

definition queue_rows :: "string option \<times> int option \<times> db \<Rightarrow> review list" where
  "queue_rows s = (case s of (status, pid, d) \<Rightarrow> filter (\<lambda>r. (status = None \<or> status = Some (rv_status r))
        \<and> (pid = None \<or> pid = Some (rv_product_id r))) (t_review d))"

definition queue_page :: "string option \<times> int option \<times> db \<Rightarrow> string option \<Rightarrow> exn + review list \<times> string option" where
  "queue_page s c = (case s of (status, pid, d) \<Rightarrow> list_admin status pid c d)"

lemma queue_page_run:
  assumes "after_of c ''id'' = Inr after"
  shows "queue_page s c = Inr (cut_page ADMIN_PAGE_SIZE (\<lambda>r. encode_cursor ''id'' (rv_id r))
    (sort_key (\<lambda>r. - rv_id r) (filter (id_before after) (queue_rows s))))"
  using assms
  by (cases s) (simp add: queue_page_def queue_rows_def list_admin_def list_for_admin_def review_page_cut del: One_nat_def add_Suc_right)

interpretation review_queue: keyset_listing
  "\<lambda>s. review_ids_ok (snd (snd s))" queue_rows "\<lambda>r. - rv_id r"
  "\<lambda>r. encode_cursor ''id'' (rv_id r)" "\<lambda>r. r" ADMIN_PAGE_SIZE queue_page
proof unfold_locales
  show "0 < ADMIN_PAGE_SIZE" by (simp add: ADMIN_PAGE_SIZE_def)
  fix s :: "string option \<times> int option \<times> db" assume ok: "review_ids_ok (snd (snd s))"
  obtain st pid d where s: "s = (st, pid, d)" by (cases s)
  have ids: "distinct (map rv_id (queue_rows s))" "\<And>r. r \<in> set (queue_rows s) \<Longrightarrow> bigint (rv_id r)"
    using ok by (auto simp: s review_ids_ok_def queue_rows_def distinct_map_filter)
  then show "distinct (map (\<lambda>r. - rv_id r) (queue_rows s))" by (auto simp: distinct_map inj_on_def)
  show "queue_page s None = Inr (apfst (map (\<lambda>r. r)) (cut_page ADMIN_PAGE_SIZE (\<lambda>r. encode_cursor ''id'' (rv_id r))
      (sort_key (\<lambda>r. - rv_id r) (queue_rows s))))"
    using queue_page_run [of None None s] by (simp add: after_of_def id_before_def apfst_def map_prod_def split: prod.splits)
  fix r assume "r \<in> set (queue_rows s)"
  then have "after_of (Some (encode_cursor ''id'' (rv_id r))) ''id'' = Inr (Some (rv_id r))"
    using ids(2) by (simp add: after_of_encode)
  from queue_page_run [OF this, of s]
  show "queue_page s (Some (encode_cursor ''id'' (rv_id r))) = Inr (apfst (map (\<lambda>r. r)) (cut_page ADMIN_PAGE_SIZE
      (\<lambda>r. encode_cursor ''id'' (rv_id r)) (sort_key (\<lambda>r. - rv_id r) (filter (\<lambda>x. - rv_id r < - rv_id x) (queue_rows s)))))"
    by (simp add: id_before_def [abs_def] apfst_def map_prod_def split: prod.splits)
qed

subsection \<open>The listings ordered by rating\<close>

text \<open>
  Eleven approved reviews of product 1: ten of five stars with the ids 1 to 10, one of four stars
  with the id 11. Ordered by rating, the first page ends with review 1, so the second asks for
  ids below 1.
\<close>

definition rated :: "int \<Rightarrow> int \<Rightarrow> review" where
  "rated i n = \<lparr>rv_id = i, rv_product_id = 1, rv_user_id = i, rv_rating = n, rv_title = None, rv_body = None,
     rv_author_name = None, rv_status = STATUS_APPROVED, rv_is_verified = False, rv_lang = ''ro'',
     rv_moderated_at = Some 0, rv_created_at = 0, rv_updated_at = 0\<rparr>"

definition rated_db :: db where
  "rated_db = empty_db\<lparr>t_review := map (\<lambda>i. rated i 5) [1, 2, 3, 4, 5, 6, 7, 8, 9, 10] @ [rated 11 4]\<rparr>"

lemma rated_pages:
  "list_approved 1 Highest None (PUBLIC_PAGE_SIZE + 1) rated_db =
    map (\<lambda>i. rated i 5) [10, 9, 8, 7, 6, 5, 4, 3, 2, 1] @ [rated 11 4]"
  "list_approved 1 Highest (Some 1) (PUBLIC_PAGE_SIZE + 1) rated_db = []"
  by code_simp+

lemma highest_walk:
  "walk (\<lambda>c. bindE (list_public 1 Highest c rated_db) (\<lambda>page. Inr (pr_data page, pr_next_cursor page))) (Suc (Suc n)) None
    = Inr (map (\<lambda>i. public_out (rated i 5)) [10, 9, 8, 7, 6, 5, 4, 3, 2, 1])"
proof -
  have first: "list_public 1 Highest None rated_db = Inr \<lparr>pr_aggregate = aggregate 1 rated_db,
      pr_data = map (\<lambda>i. public_out (rated i 5)) [10, 9, 8, 7, 6, 5, 4, 3, 2, 1],
      pr_next_cursor = Some (encode_cursor ''highest'' 1)\<rparr>"
  proof -
    have "rv_id (rated i n) = i" for i n by (simp add: rated_def)
    then have "review_page PUBLIC_PAGE_SIZE ''highest'' (map (\<lambda>i. rated i 5) [10, 9, 8, 7, 6, 5, 4, 3, 2, 1] @ [rated 11 4])
        = (map (\<lambda>i. rated i 5) [10, 9, 8, 7, 6, 5, 4, 3, 2, 1], Some (encode_cursor ''highest'' 1))"
      by (simp add: review_page_def PUBLIC_PAGE_SIZE_def)
    then show ?thesis
      unfolding list_public_def after_of_def option.case bindE.simps sort_value.simps rated_pages(1) by simp
  qed
  have "after_of (Some (encode_cursor ''highest'' 1)) ''highest'' = Inr (Some 1)"
    by (rule after_of_encode) (simp add: bigint_def)
  then have second: "list_public 1 Highest (Some (encode_cursor ''highest'' 1)) rated_db =
      Inr \<lparr>pr_aggregate = aggregate 1 rated_db, pr_data = [], pr_next_cursor = None\<rparr>"
    using rated_pages(2) by (simp add: list_public_def review_page_def del: One_nat_def)
  show ?thesis by (simp add: first second)
qed

end
