(* ===== verification/Security.thy ===== *)
theory Security
  imports PyFloat Toy_Servers
begin

text \<open>
  Tokens and passwords (\<open>app/core/security.py\<close>). PyJWT and argon2 are parameters of the
  environment; what is here is what the code adds: the claims of a token, the two types of token,
  the conversions and the exceptions of \<open>decode_token\<close>.
\<close>

datatype token_type = Access | Refresh

fun type_value :: "token_type \<Rightarrow> string" where
  "type_value Access = ''access''"
| "type_value Refresh = ''refresh''"

record token_claims =
  tc_sub :: int
  tc_jti :: string
  tc_type :: token_type
  tc_exp :: int

definition draw :: "nat net" where
  "draw = (\<lambda>w. (Inr (entropy w), w\<lparr>entropy := entropy w + 1\<rparr>))"

lemma draw_app [simp]: "draw w = (Inr (entropy w), w\<lparr>entropy := entropy w + 1\<rparr>)"
  by (simp add: draw_def)

definition hash_password :: "environment \<Rightarrow> string \<Rightarrow> string net" where
  "hash_password env plain = bindM draw (\<lambda>n. ret (env_argon_hash env n plain))"

text \<open>A mismatch is \<open>False\<close>; argon2's other errors are not caught.\<close>

definition verify_password :: "environment \<Rightarrow> string \<Rightarrow> string \<Rightarrow> exn + bool" where
  "verify_password env plain h =
    (case env_argon_verify env h plain of None \<Rightarrow> Inl (PyError ''VerificationError'') | Some ok \<Rightarrow> Inr ok)"

text \<open>The time stamps of a token are whole seconds.\<close>

definition unix_time :: "environment \<Rightarrow> int" where
  "unix_time env = env_now env div SECOND"

definition create_token :: "environment \<Rightarrow> int \<Rightarrow> token_type \<Rightarrow> int \<Rightarrow> (string \<times> string) net" where
  "create_token env uid ty ttl =
    bindM draw (\<lambda>n.
    let jti = env_uuid_hex env n; now = unix_time env;
        payload = token_payload (int_str uid) jti (type_value ty) (now + ttl) now
    in ret (env_jwt_encode env (jwt_secret (env_cfg env)) payload, jti))"

definition create_access_token :: "environment \<Rightarrow> int \<Rightarrow> string net" where
  "create_access_token env uid =
    bindM (create_token env uid Access (access_token_ttl_min (env_cfg env) * 60)) (\<lambda>(token, _). ret token)"

definition create_refresh_token :: "environment \<Rightarrow> int \<Rightarrow> (string \<times> string) net" where
  "create_refresh_token env uid =
    create_token env uid Refresh (refresh_token_ttl_days (env_cfg env) * 86400)"

text \<open>The integer fields of the claims model: pydantic also takes numerals and integral floats.\<close>

definition pydantic_int :: "json \<Rightarrow> int option" where
  "pydantic_int j =
    (case j of
      JInt i \<Rightarrow> Some i
    | JBool b \<Rightarrow> Some (if b then 1 else 0)
    | JStr s \<Rightarrow> py_int s
    | JFloat t \<Rightarrow> (case parse_decimal t of None \<Rightarrow> None | Some x \<Rightarrow> if of_int \<lfloor>x\<rfloor> = x then Some \<lfloor>x\<rfloor> else None)
    | _ \<Rightarrow> None)"

definition decode_token :: "environment \<Rightarrow> string \<Rightarrow> token_type \<Rightarrow> exn + token_claims" where
  "decode_token env token expected =
    (case env_jwt_decode env (jwt_secret (env_cfg env)) (env_now env) token of
      None \<Rightarrow> Inl InvalidTokenError
    | Some raw \<Rightarrow>
        if map_of raw ''type'' \<noteq> Some (JStr (type_value expected)) then Inl InvalidTokenError
        else case (map_of raw ''sub'', map_of raw ''jti'', map_of raw ''exp'') of
          (Some sub, Some jti, Some till) \<Rightarrow>
            (case int_of_json sub of
              Inl e \<Rightarrow> if e = ''ValueError'' then Inl InvalidTokenError else Inl (PyError e)
            | Inr uid \<Rightarrow>
                (case (jti, pydantic_int till) of
                  (JStr j, Some x) \<Rightarrow> Inr \<lparr>tc_sub = uid, tc_jti = j, tc_type = expected, tc_exp = x\<rparr>
                | _ \<Rightarrow> Inl InvalidTokenError))
        | _ \<Rightarrow> Inl InvalidTokenError)"

subsection \<open>What a token of our own is worth\<close>

lemma payload_fields [simp]:
  "map_of (token_payload sub jti ty till iat) ''sub'' = Some (JStr sub)"
  "map_of (token_payload sub jti ty till iat) ''jti'' = Some (JStr jti)"
  "map_of (token_payload sub jti ty till iat) ''type'' = Some (JStr ty)"
  "map_of (token_payload sub jti ty till iat) ''exp'' = Some (JInt till)"
  by (simp_all add: token_payload_def)

lemma type_value_inj [simp]: "type_value a = type_value b \<longleftrightarrow> a = b"
  by (cases a; cases b) simp_all

text \<open>A minted token, read at a later instant with the same secret.\<close>

lemma decode_minted:
  assumes "jwt_sound env" "create_token env uid ty ttl w = (Inr (token, jti), w')"
    and "env_jwt_decode env' = env_jwt_decode env" "jwt_secret (env_cfg env') = jwt_secret (env_cfg env)"
    and "env_now env \<le> env_now env'"
  shows "decode_token env' token expected =
    (if ty = expected \<and> env_now env' < (unix_time env + ttl) * SECOND
     then Inr \<lparr>tc_sub = uid, tc_jti = jti, tc_type = ty, tc_exp = unix_time env + ttl\<rparr> else Inl InvalidTokenError)"
proof -
  have iat: "unix_time env * SECOND \<le> env_now env'"
  proof -
    have "env_now env div SECOND * SECOND \<le> env_now env"
      using pos_mod_sign [of SECOND "env_now env"] div_mult_mod_eq [of "env_now env" SECOND] by (simp add: SECOND_def)
    then show ?thesis using assms(5) by (simp add: unix_time_def)
  qed
  let ?p = "token_payload (int_str uid) jti (type_value ty) (unix_time env + ttl) (unix_time env)"
  have token: "token = env_jwt_encode env (jwt_secret (env_cfg env)) ?p"
    using assms(2) by (auto simp: create_token_def Let_def bindM_app)
  have "env_jwt_decode env' (jwt_secret (env_cfg env')) (env_now env') token =
      (if env_now env' < (unix_time env + ttl) * SECOND then Some ?p else None)"
    using assms(1) iat unfolding token assms(3,4) by (simp add: jwt_sound_def)
  then show ?thesis by (auto simp: decode_token_def int_of_json_def pydantic_int_def)
qed

lemma decode_token_type: "decode_token env token ty = Inr c \<Longrightarrow> tc_type c = ty"
  by (auto simp: decode_token_def split: option.splits sum.splits json.splits if_splits)

subsection \<open>Reading a token twice\<close>

text \<open>
  What PyJWT promises of any token, ours or not: the payload does not depend on when the token is
  opened, and one that carries an expiry time is not opened after it.
\<close>

definition jwt_clocked :: "environment \<Rightarrow> bool" where
  "jwt_clocked env \<longleftrightarrow>
    (\<forall>secret t t' token p p'. env_jwt_decode env secret t token = Some p \<longrightarrow>
      env_jwt_decode env secret t' token = Some p' \<longrightarrow> p' = p) \<and>
    (\<forall>secret t token p till x. env_jwt_decode env secret t token = Some p \<longrightarrow>
      map_of p ''exp'' = Some till \<longrightarrow> pydantic_int till = Some x \<longrightarrow> t < x * SECOND)"

lemma toy_clocked:
  assumes "env_jwt_decode env = toy_jwt_decode"
  shows "jwt_clocked env"
  unfolding jwt_clocked_def assms
  by (auto simp: toy_jwt_decode_def Let_def pydantic_int_def split: prod.splits option.splits json.splits if_splits)

lemma decode_token_raw:
  assumes "decode_token env token ty = Inr c"
  obtains p till where "env_jwt_decode env (jwt_secret (env_cfg env)) (env_now env) token = Some p"
    "map_of p ''exp'' = Some till" "pydantic_int till = Some (tc_exp c)"
    "\<And>env'. env_jwt_decode env' (jwt_secret (env_cfg env')) (env_now env') token = Some p \<Longrightarrow> decode_token env' token ty = Inr c"
proof -
  obtain p where p: "env_jwt_decode env (jwt_secret (env_cfg env)) (env_now env) token = Some p"
    using assms by (auto simp: decode_token_def split: option.splits)
  obtain till where "map_of p ''exp'' = Some till" "pydantic_int till = Some (tc_exp c)"
    using assms p by (auto simp: decode_token_def split: option.splits sum.splits json.splits if_splits)
  moreover have "decode_token env' token ty = Inr c"
    if "env_jwt_decode env' (jwt_secret (env_cfg env')) (env_now env') token = Some p" for env'
    using assms p that by (simp add: decode_token_def)
  ultimately show ?thesis using p that by blast
qed

lemma decode_twice:
  assumes "jwt_clocked env" "decode_token (env\<lparr>env_now := t\<rparr>) token ty = Inr c"
    and "decode_token (env\<lparr>env_now := t'\<rparr>) token ty = Inr c'"
  shows "c' = c" "t < tc_exp c * SECOND"
proof -
  obtain p till where p: "env_jwt_decode env (jwt_secret (env_cfg env)) t token = Some p"
      "map_of p ''exp'' = Some till" "pydantic_int till = Some (tc_exp c)"
    and again: "\<And>env'. env_jwt_decode env' (jwt_secret (env_cfg env')) (env_now env') token = Some p \<Longrightarrow> decode_token env' token ty = Inr c"
    using assms(2) by (rule decode_token_raw) simp
  obtain p' where p': "env_jwt_decode env (jwt_secret (env_cfg env)) t' token = Some p'"
    using assms(3) by (auto simp: decode_token_def split: option.splits)
  have "p' = p" using assms(1) p(1) p' by (auto simp: jwt_clocked_def)
  then show "c' = c" using again [of "env\<lparr>env_now := t'\<rparr>"] p' assms(3) by simp
  show "t < tc_exp c * SECOND" using assms(1) p by (auto simp: jwt_clocked_def)
qed

end
