(* ===== verification/Auth_Service.thy ===== *)
theory Auth_Service
  imports Security Cart Restock
begin

text \<open>
  Accounts and sessions: \<open>app/repositories/user_repo.py\<close>, \<open>app/services/auth_service.py\<close>,
  \<open>app/schemas/auth.py\<close>, \<open>app/api/deps.py\<close> and the routers \<open>auth.py\<close> and \<open>users.py\<close>.

  A refresh token is revoked by a key of Redis that outlives it. \<open>CITEXT\<close> compares without case.
  The account rows leave out \<open>loyalty_points\<close> and the time stamps, which no operation here reads.
\<close>

definition BLACKLIST_PREFIX :: string where "BLACKLIST_PREFIX = ''auth:blacklist:refresh:''"

text \<open>The hash computed when the module is loaded.\<close>

definition DUMMY_PASSWORD_HASH :: "environment \<Rightarrow> string" where
  "DUMMY_PASSWORD_HASH env = env_argon_hash env 0 (env_token_urlsafe env 0)"

subsection \<open>Users: queries and inserts\<close>

definition get_by_id :: "int \<Rightarrow> db \<Rightarrow> app_user option" where
  "get_by_id uid d = find (\<lambda>u. u_id u = uid) (t_user d)"

definition get_by_email :: "string \<Rightarrow> db \<Rightarrow> exn + app_user option" where
  "get_by_email email d = scalar_one_or_none (filter (\<lambda>u. lower (u_email u) = lower email) (t_user d))"

definition get_by_phone :: "string \<Rightarrow> db \<Rightarrow> exn + app_user option" where
  "get_by_phone phone d = scalar_one_or_none (filter (\<lambda>u. u_phone u = Some phone) (t_user d))"

text \<open>The unique constraints of \<open>app_user\<close>, checked for the row \<open>u\<close> against the others.\<close>

definition user_unique :: "app_user \<Rightarrow> db \<Rightarrow> bool" where
  "user_unique u d \<longleftrightarrow> list_all (\<lambda>x. u_id x = u_id u \<or>
    lower (u_email x) \<noteq> lower (u_email u) \<and> (u_phone u = None \<or> u_phone x \<noteq> u_phone u)) (t_user d)"

definition create_user :: "string \<Rightarrow> string \<Rightarrow> string option \<Rightarrow> app_user act" where
  "create_user email password_hash phone =
    bindM (next_id User_T) (\<lambda>i.
    let u = \<lparr>u_id = i, u_email = email, u_is_active = True, u_is_staff = False, u_phone = phone,
             u_password_hash = password_hash, u_role = None\<rparr> in
    bindM (readsE (\<lambda>d. guardE (user_unique u d) (IntegrityError ''app_user''))) (\<lambda>_.
    bindM (writes (\<lambda>d. d\<lparr>t_user := t_user d @ [u]\<rparr>)) (\<lambda>_.
    ret u)))"

definition set_user :: "app_user \<Rightarrow> db \<Rightarrow> db" where
  "set_user u d = d\<lparr>t_user := upd (\<lambda>x. u_id x = u_id u) (\<lambda>_. u) (t_user d)\<rparr>"

subsection \<open>Addresses: queries and writes\<close>

definition list_addresses :: "int \<Rightarrow> db \<Rightarrow> address list" where
  "list_addresses uid d = sort_key a_id (filter (\<lambda>a. a_user_id a = uid) (t_address d))"

definition find_address :: "int \<Rightarrow> int \<Rightarrow> db \<Rightarrow> address option" where
  "find_address uid aid d = find (\<lambda>a. a_id a = aid \<and> a_user_id a = uid) (t_address d)"

definition clear_default :: "int \<Rightarrow> unit act" where
  "clear_default uid = writes (\<lambda>d. d\<lparr>t_address :=
     upd (\<lambda>a. a_user_id a = uid \<and> a_is_default a) (\<lambda>a. a\<lparr>a_is_default := False\<rparr>) (t_address d)\<rparr>)"

text \<open>The foreign key of an order to its address is \<open>ON DELETE SET NULL\<close>.\<close>

definition drop_addresses :: "(address \<Rightarrow> bool) \<Rightarrow> db \<Rightarrow> db" where
  "drop_addresses gone d =
    (let ids = map a_id (filter gone (t_address d)) in
      d\<lparr>t_address := filter (\<lambda>a. \<not> gone a) (t_address d),
        t_order := upd (\<lambda>x. \<exists>i \<in> set ids. o_delivery_address_id x = Some i)
          (\<lambda>x. x\<lparr>o_delivery_address_id := None\<rparr>) (t_order d)\<rparr>)"

definition delete_all_addresses :: "int \<Rightarrow> unit act" where
  "delete_all_addresses uid = writes (drop_addresses (\<lambda>a. a_user_id a = uid))"

subsection \<open>Requests\<close>

record register_request =
  rq_email :: string
  rq_password :: string
  rq_phone :: "string option"

record login_request =
  lq_email :: "string option"
  lq_phone :: "string option"
  lq_password :: string

record token_pair =
  tp_access :: string
  tp_refresh :: string

text \<open>A field of a partial update is absent (\<open>None\<close>), null (\<open>Some None\<close>) or a value.\<close>

record address_create =
  ac_full_name :: string
  ac_phone :: string
  ac_city :: string
  ac_street :: string
  ac_zip :: "string option"
  ac_is_default :: bool

record address_update =
  ax_full_name :: "string option option"
  ax_phone :: "string option option"
  ax_city :: "string option option"
  ax_street :: "string option option"
  ax_zip :: "string option option"
  ax_is_default :: "bool option option"

text \<open>\<open>^[^@\s]+@[^@\s]+\.[^@\s]+$\<close>\<close>

definition email_pattern :: "string \<Rightarrow> bool" where
  "email_pattern s = (case split_on CHR ''@'' s of
      [local, domain] \<Rightarrow> local \<noteq> [] \<and> list_all (\<lambda>c. \<not> is_space c) (local @ domain) \<and>
        list_ex (\<lambda>i. domain ! i = CHR ''.'') [1..<length domain - 1]
    | _ \<Rightarrow> False)"

definition invalid :: exn where
  "invalid = HTTPException 422 (Some ''validation_error'')"

definition length_in :: "nat \<Rightarrow> nat \<Rightarrow> string \<Rightarrow> bool" where
  "length_in lo hi s \<longleftrightarrow> lo \<le> length s \<and> length s \<le> hi"

definition option_ok :: "('a \<Rightarrow> bool) \<Rightarrow> 'a option \<Rightarrow> bool" where
  "option_ok p v = (case v of None \<Rightarrow> True | Some x \<Rightarrow> p x)"

definition register_in :: "register_request \<Rightarrow> exn + unit" where
  "register_in r = guardE (email_pattern (rq_email r) \<and> length (rq_email r) \<le> 255
    \<and> length_in 8 128 (rq_password r) \<and> option_ok (length_in 3 32) (rq_phone r)) invalid"

definition login_in :: "login_request \<Rightarrow> exn + unit" where
  "login_in r = guardE (option_ok (\<lambda>e. email_pattern e \<and> length e \<le> 255) (lq_email r)
    \<and> option_ok (length_in 3 32) (lq_phone r) \<and> length_in 1 128 (lq_password r)
    \<and> truthy (lq_email r) \<noteq> truthy (lq_phone r)) invalid"

definition address_create_in :: "address_create \<Rightarrow> exn + unit" where
  "address_create_in r = guardE (length_in 1 255 (ac_full_name r) \<and> length_in 3 32 (ac_phone r)
    \<and> length_in 1 255 (ac_city r) \<and> length_in 1 255 (ac_street r) \<and> option_ok (length_in 0 32) (ac_zip r)) invalid"

definition address_update_in :: "address_update \<Rightarrow> exn + unit" where
  "address_update_in r = guardE (option_ok (option_ok (length_in 1 255)) (ax_full_name r)
    \<and> option_ok (option_ok (length_in 3 32)) (ax_phone r) \<and> option_ok (option_ok (length_in 1 255)) (ax_city r)
    \<and> option_ok (option_ok (length_in 1 255)) (ax_street r) \<and> option_ok (option_ok (length_in 0 32)) (ax_zip r)) invalid"

subsection \<open>Registration and login\<close>

definition conflict :: exn where "conflict = HTTPException 409 None"
definition unauthorized :: exn where "unauthorized = HTTPException 401 None"

definition register :: "environment \<Rightarrow> register_request \<Rightarrow> app_user act" where
  "register env data =
    bindM (readsE (get_by_email (rq_email data))) (\<lambda>taken.
    bindM (whenM (taken \<noteq> None) (throw conflict)) (\<lambda>_.
    bindM (case rq_phone data of
             None \<Rightarrow> ret ()
           | Some p \<Rightarrow> if p = [] then ret ()
               else bindM (readsE (get_by_phone p)) (\<lambda>x. whenM (x \<noteq> None) (throw conflict))) (\<lambda>_.
    bindM (remote (hash_password env (rq_password data))) (\<lambda>h.
    bindM (create_user (rq_email data) h (rq_phone data)) (\<lambda>u.
    bindM commit (\<lambda>_.
    ret u))))))"

definition issue_pair :: "environment \<Rightarrow> int \<Rightarrow> token_pair net" where
  "issue_pair env uid =
    bindM (create_access_token env uid) (\<lambda>acc.
    bindM (create_refresh_token env uid) (\<lambda>(rfr, _).
    ret \<lparr>tp_access = acc, tp_refresh = rfr\<rparr>))"

definition resolve_login_user :: "login_request \<Rightarrow> db \<Rightarrow> exn + app_user option" where
  "resolve_login_user data d =
    (if truthy (lq_email data) then get_by_email (the (lq_email data)) d
     else case lq_phone data of
       None \<Rightarrow> scalar_one_or_none (filter (\<lambda>u. u_phone u = None) (t_user d))
     | Some p \<Rightarrow> get_by_phone p d)"

definition login :: "environment \<Rightarrow> login_request \<Rightarrow> token_pair act" where
  "login env data =
    bindM (readsE (resolve_login_user data)) (\<lambda>found.
    let h = (case found of None \<Rightarrow> DUMMY_PASSWORD_HASH env | Some u \<Rightarrow> u_password_hash u) in
    bindM (liftE (verify_password env (lq_password data) h)) (\<lambda>ok.
    case found of
      None \<Rightarrow> throw unauthorized
    | Some u \<Rightarrow>
        if \<not> ok \<or> \<not> u_is_active u then throw unauthorized
        else remote (issue_pair env (u_id u))))"

subsection \<open>Refresh and logout\<close>

definition decode_refresh :: "environment \<Rightarrow> string \<Rightarrow> exn + token_claims" where
  "decode_refresh env token =
    (case decode_token env token Refresh of
      Inl InvalidTokenError \<Rightarrow> Inl unauthorized
    | r \<Rightarrow> r)"

definition blacklist_key :: "string \<Rightarrow> string" where
  "blacklist_key jti = BLACKLIST_PREFIX @ jti"

definition is_blacklisted :: "environment \<Rightarrow> string \<Rightarrow> bool net" where
  "is_blacklisted env jti = redis_exists env (blacklist_key jti)"

definition blacklist :: "environment \<Rightarrow> string \<Rightarrow> int \<Rightarrow> unit net" where
  "blacklist env jti till =
    (let ttl = till - unix_time env in
      whenM (\<not> ttl \<le> 0) (redis_set_ex env (blacklist_key jti) 1 ttl))"

text \<open>
  A rotation has two moments: the look at the blacklist, and, after the round trip, the entry in
  it and the new pair. Concurrent requests may come between the two.
\<close>

definition refresh_check :: "environment \<Rightarrow> string \<Rightarrow> token_claims net" where
  "refresh_check env token =
    bindM (liftE (decode_refresh env token)) (\<lambda>claims.
    bindM (is_blacklisted env (tc_jti claims)) (\<lambda>revoked.
    bindM (whenM revoked (throw unauthorized)) (\<lambda>_.
    ret claims)))"

definition refresh_rotate :: "environment \<Rightarrow> token_claims \<Rightarrow> token_pair net" where
  "refresh_rotate env claims =
    bindM (blacklist env (tc_jti claims) (tc_exp claims)) (\<lambda>_.
    issue_pair env (tc_sub claims))"

definition refresh_pair :: "environment \<Rightarrow> string \<Rightarrow> token_pair net" where
  "refresh_pair env token = bindM (refresh_check env token) (refresh_rotate env)"

definition logout :: "environment \<Rightarrow> string \<Rightarrow> unit net" where
  "logout env token =
    bindM (liftE (decode_refresh env token)) (\<lambda>claims.
    blacklist env (tc_jti claims) (tc_exp claims))"

subsection \<open>Profile\<close>

definition get_me :: "int \<Rightarrow> app_user act" where
  "get_me uid =
    bindM (reads (get_by_id uid)) (\<lambda>u. liftE (the_orE u (HTTPException 404 None)))"

text \<open>\<open>UserUpdate\<close> has one field: it is absent, null or a phone.\<close>

definition update_me :: "int \<Rightarrow> string option option \<Rightarrow> app_user act" where
  "update_me uid phone =
    bindM (get_me uid) (\<lambda>u.
    bindM (case phone of
             Some (Some p) \<Rightarrow>
               if p \<noteq> [] \<and> Some p \<noteq> u_phone u then
                 bindM (readsE (get_by_phone p)) (\<lambda>x.
                 case x of
                   Some e \<Rightarrow> whenM (u_id e \<noteq> u_id u) (throw conflict)
                 | None \<Rightarrow> ret ())
               else ret ()
           | _ \<Rightarrow> ret ()) (\<lambda>_.
    let u' = (case phone of None \<Rightarrow> u | Some v \<Rightarrow> u\<lparr>u_phone := v\<rparr>) in
    bindM (readsE (\<lambda>d. guardE (user_unique u' d) (IntegrityError ''app_user''))) (\<lambda>_.
    bindM (writes (set_user u')) (\<lambda>_.
    bindM commit (\<lambda>_.
    ret u')))))"

subsection \<open>Addresses\<close>

definition create_address :: "int \<Rightarrow> address_create \<Rightarrow> address act" where
  "create_address uid data =
    bindM (whenM (ac_is_default data) (clear_default uid)) (\<lambda>_.
    bindM (next_id Address_T) (\<lambda>i.
    let a = \<lparr>a_id = i, a_user_id = uid, a_full_name = ac_full_name data, a_phone = ac_phone data,
             a_city = ac_city data, a_street = ac_street data, a_zip = ac_zip data,
             a_is_default = ac_is_default data\<rparr> in
    bindM (readsE (\<lambda>d. guardE (list_ex (\<lambda>u. u_id u = uid) (t_user d)) (IntegrityError ''address''))) (\<lambda>_.
    bindM (writes (\<lambda>d. d\<lparr>t_address := t_address d @ [a]\<rparr>)) (\<lambda>_.
    bindM commit (\<lambda>_.
    ret a)))))"

definition get_owned_address :: "int \<Rightarrow> int \<Rightarrow> address act" where
  "get_owned_address uid aid =
    bindM (reads (find_address uid aid)) (\<lambda>a. liftE (the_orE a (HTTPException 404 None)))"

text \<open>\<open>setattr\<close> of the fields that were sent; every column but \<open>zip\<close> refuses a null.\<close>

definition sent_value :: "'a \<Rightarrow> 'a option option \<Rightarrow> 'a option" where
  "sent_value old field = (case field of None \<Rightarrow> Some old | Some v \<Rightarrow> v)"

definition patched_address :: "address_update \<Rightarrow> address \<Rightarrow> address option" where
  "patched_address data a =
    (case (sent_value (a_full_name a) (ax_full_name data), sent_value (a_phone a) (ax_phone data),
           sent_value (a_city a) (ax_city data), sent_value (a_street a) (ax_street data),
           sent_value (a_is_default a) (ax_is_default data)) of
      (Some n, Some p, Some c, Some st, Some b) \<Rightarrow>
        Some (a\<lparr>a_full_name := n, a_phone := p, a_city := c, a_street := st,
          a_zip := (case ax_zip data of None \<Rightarrow> a_zip a | Some z \<Rightarrow> z), a_is_default := b\<rparr>)
    | _ \<Rightarrow> None)"

definition update_address :: "int \<Rightarrow> int \<Rightarrow> address_update \<Rightarrow> address act" where
  "update_address uid aid data =
    bindM (get_owned_address uid aid) (\<lambda>a.
    bindM (whenM (ax_is_default data = Some (Some True) \<and> \<not> a_is_default a) (clear_default uid)) (\<lambda>_.
    bindM (liftE (the_orE (patched_address data a) (IntegrityError ''address''))) (\<lambda>a'.
    bindM (writes (\<lambda>d. d\<lparr>t_address := upd (\<lambda>x. a_id x = aid) (\<lambda>_. a') (t_address d)\<rparr>)) (\<lambda>_.
    bindM commit (\<lambda>_.
    ret a')))))"

definition delete_address :: "int \<Rightarrow> int \<Rightarrow> unit act" where
  "delete_address uid aid =
    bindM (get_owned_address uid aid) (\<lambda>a.
    bindM (writes (drop_addresses (\<lambda>x. a_id x = a_id a))) (\<lambda>_.
    commit))"

subsection \<open>Erasure\<close>

definition placeholder_email :: "int \<Rightarrow> string" where
  "placeholder_email uid = ''deleted-'' @ int_str uid @ ''@anonymized.local''"

definition token_urlsafe :: "environment \<Rightarrow> string net" where
  "token_urlsafe env = bindM draw (\<lambda>n. ret (env_token_urlsafe env n))"

definition anonymize_account :: "environment \<Rightarrow> int \<Rightarrow> unit act" where
  "anonymize_account env uid =
    bindM (reads (get_by_id uid)) (\<lambda>found.
    case found of
      None \<Rightarrow> ret ()
    | Some u \<Rightarrow>
        bindM (delete_all_addresses uid) (\<lambda>_.
        bindM (delete_subscriptions_of uid) (\<lambda>_.
        bindM (Cart.delete_all_for_user uid) (\<lambda>_.
        bindM (remote (token_urlsafe env)) (\<lambda>secret.
        bindM (remote (hash_password env secret)) (\<lambda>h.
        let u' = u\<lparr>u_email := placeholder_email uid, u_phone := None, u_password_hash := h,
                   u_is_active := False, u_is_staff := False, u_role := None\<rparr> in
        bindM (readsE (\<lambda>d. guardE (user_unique u' d) (IntegrityError ''app_user''))) (\<lambda>_.
        bindM (writes (set_user u')) (\<lambda>_.
        commit))))))))"

subsection \<open>Who is asking\<close>

definition extract_access_token :: "web_request \<Rightarrow> string option" where
  "extract_access_token r =
    (case header ''Authorization'' r of
      Some h \<Rightarrow>
        if h \<noteq> [] \<and> take 7 (lower h) = ''bearer '' then Some (strip (drop 7 h))
        else map_of (wr_cookies r) ''access''
    | None \<Rightarrow> map_of (wr_cookies r) ''access'')"

definition current_user :: "environment \<Rightarrow> web_request \<Rightarrow> app_user act" where
  "current_user env r =
    (case extract_access_token r of
      None \<Rightarrow> throw unauthorized
    | Some token \<Rightarrow>
        if token = [] then throw unauthorized
        else case decode_token env token Access of
          Inl e \<Rightarrow> throw (if e = InvalidTokenError then unauthorized else e)
        | Inr claims \<Rightarrow>
            bindM (reads (get_by_id (tc_sub claims))) (\<lambda>found.
            case found of
              None \<Rightarrow> throw unauthorized
            | Some u \<Rightarrow> if u_is_active u then ret u else throw unauthorized))"

definition current_staff :: "environment \<Rightarrow> web_request \<Rightarrow> app_user act" where
  "current_staff env r =
    bindM (current_user env r) (\<lambda>u.
    if \<not> u_is_staff u then throw (HTTPException 403 None) else ret u)"

definition guest_or_user :: "environment \<Rightarrow> web_request \<Rightarrow> app_user option act" where
  "guest_or_user env r =
    (case extract_access_token r of
      None \<Rightarrow> ret None
    | Some token \<Rightarrow>
        if token = [] then ret None
        else case decode_token env token Access of
          Inl e \<Rightarrow> if e = InvalidTokenError then ret None else throw e
        | Inr claims \<Rightarrow>
            reads (\<lambda>d. case get_by_id (tc_sub claims) d of
              None \<Rightarrow> None | Some u \<Rightarrow> if u_is_active u then Some u else None))"

subsection \<open>Endpoints\<close>

text \<open>A cookie the response sets; \<open>delete_cookie\<close> sets it empty with no lifetime.\<close>

record cookie =
  ck_key :: string
  ck_value :: string
  ck_max_age :: int
  ck_httponly :: bool
  ck_secure :: bool
  ck_samesite :: string
  ck_path :: string

definition set_auth_cookies :: "environment \<Rightarrow> token_pair \<Rightarrow> cookie list" where
  "set_auth_cookies env tokens =
    [\<lparr>ck_key = ''access'', ck_value = tp_access tokens, ck_max_age = access_token_ttl_min (env_cfg env) * 60,
      ck_httponly = True, ck_secure = True, ck_samesite = ''lax'', ck_path = ''/''\<rparr>,
     \<lparr>ck_key = ''refresh'', ck_value = tp_refresh tokens,
      ck_max_age = refresh_token_ttl_days (env_cfg env) * 24 * 60 * 60,
      ck_httponly = True, ck_secure = True, ck_samesite = ''lax'', ck_path = ''/''\<rparr>]"

definition delete_cookie :: "string \<Rightarrow> cookie" where
  "delete_cookie k = \<lparr>ck_key = k, ck_value = '''', ck_max_age = 0, ck_httponly = False, ck_secure = False,
     ck_samesite = ''lax'', ck_path = ''/''\<rparr>"

definition cleared_cookies :: "cookie list" where
  "cleared_cookies = [delete_cookie ''access'', delete_cookie ''refresh'']"

text \<open>The body may be missing, or hold no token; an empty token counts as none.\<close>

definition read_refresh :: "web_request \<Rightarrow> string option option \<Rightarrow> exn + string" where
  "read_refresh r body =
    (let from_body = (case body of None \<Rightarrow> None | Some t \<Rightarrow> t);
         token = (if truthy from_body then from_body else map_of (wr_cookies r) ''refresh'') in
      if truthy token then Inr (the token) else Inl unauthorized)"

definition register_endpoint :: "environment \<Rightarrow> web_request \<Rightarrow> register_request \<Rightarrow> app_user act" where
  "register_endpoint env r data =
    bindM (remote (rate_limiter env (rate_limit_register (env_cfg env)) ''register'' r)) (\<lambda>_.
    bindM (liftE (register_in data)) (\<lambda>_.
    register env data))"

definition login_endpoint :: "environment \<Rightarrow> web_request \<Rightarrow> login_request \<Rightarrow> (token_pair \<times> cookie list) act" where
  "login_endpoint env r data =
    bindM (remote (rate_limiter env (rate_limit_login (env_cfg env)) ''login'' r)) (\<lambda>_.
    bindM (liftE (login_in data)) (\<lambda>_.
    bindM (login env data) (\<lambda>tokens.
    ret (tokens, set_auth_cookies env tokens))))"

definition refresh_endpoint :: "environment \<Rightarrow> web_request \<Rightarrow> string option option \<Rightarrow> (token_pair \<times> cookie list) act" where
  "refresh_endpoint env r body =
    bindM (remote (rate_limiter env (rate_limit_refresh (env_cfg env)) ''refresh'' r)) (\<lambda>_.
    bindM (liftE (read_refresh r body)) (\<lambda>token.
    bindM (remote (refresh_pair env token)) (\<lambda>tokens.
    ret (tokens, set_auth_cookies env tokens))))"

definition logout_endpoint :: "environment \<Rightarrow> web_request \<Rightarrow> string option option \<Rightarrow> cookie list act" where
  "logout_endpoint env r body =
    bindM (liftE (read_refresh r body)) (\<lambda>token.
    bindM (remote (logout env token)) (\<lambda>_.
    ret cleared_cookies))"

definition get_me_endpoint :: "environment \<Rightarrow> web_request \<Rightarrow> app_user act" where
  "get_me_endpoint env r = current_user env r"

definition update_me_endpoint :: "environment \<Rightarrow> web_request \<Rightarrow> string option option \<Rightarrow> app_user act" where
  "update_me_endpoint env r phone =
    bindM (current_user env r) (\<lambda>u.
    bindM (liftE (guardE (option_ok (option_ok (length_in 3 32)) phone) invalid)) (\<lambda>_.
    update_me (u_id u) phone))"

definition delete_me_endpoint :: "environment \<Rightarrow> web_request \<Rightarrow> cookie list act" where
  "delete_me_endpoint env r =
    bindM (current_user env r) (\<lambda>u.
    bindM (anonymize_account env (u_id u)) (\<lambda>_.
    ret cleared_cookies))"

definition list_addresses_endpoint :: "environment \<Rightarrow> web_request \<Rightarrow> address list act" where
  "list_addresses_endpoint env r =
    bindM (current_user env r) (\<lambda>u.
    reads (list_addresses (u_id u)))"

definition create_address_endpoint :: "environment \<Rightarrow> web_request \<Rightarrow> address_create \<Rightarrow> address act" where
  "create_address_endpoint env r data =
    bindM (current_user env r) (\<lambda>u.
    bindM (liftE (address_create_in data)) (\<lambda>_.
    create_address (u_id u) data))"

definition update_address_endpoint :: "environment \<Rightarrow> web_request \<Rightarrow> int \<Rightarrow> address_update \<Rightarrow> address act" where
  "update_address_endpoint env r aid data =
    bindM (current_user env r) (\<lambda>u.
    bindM (liftE (address_update_in data)) (\<lambda>_.
    update_address (u_id u) aid data))"

definition delete_address_endpoint :: "environment \<Rightarrow> web_request \<Rightarrow> int \<Rightarrow> unit act" where
  "delete_address_endpoint env r aid =
    bindM (current_user env r) (\<lambda>u.
    delete_address (u_id u) aid)"

end
