(* ===== verification/Auth_Correct.thy ===== *)
theory Auth_Correct
  imports Auth_Service
begin

text \<open>
  The accounts: identifiers stay unique and each customer keeps at most one default address over
  any sequence of calls; a refresh token that has been used or logged out is dead; an account can
  be opened with the password it was registered with; an erased one cannot.
\<close>

subsection \<open>The tables\<close>

definition accounts_ok :: "db \<Rightarrow> bool" where
  "accounts_ok d \<longleftrightarrow> distinct (map u_id (t_user d)) \<and> (\<forall>x \<in> set (t_user d). user_unique x d)"

definition addresses_ok :: "db \<Rightarrow> bool" where
  "addresses_ok d \<longleftrightarrow> distinct (map a_id (t_address d))
    \<and> (\<forall>x \<in> set (t_address d). \<forall>y \<in> set (t_address d).
          a_is_default x \<and> a_is_default y \<and> a_user_id x = a_user_id y \<longrightarrow> x = y)"

definition accounts_inv :: "session \<Rightarrow> bool" where
  "accounts_inv s \<longleftrightarrow> both (\<lambda>d. accounts_ok d \<and> addresses_ok d) s
    \<and> both (\<lambda>d. (\<forall>u \<in> set (t_user d). u_id u < pk_seq s User_T) \<and> (\<forall>a \<in> set (t_address d). a_id a < pk_seq s Address_T)) s"

lemma get_by_id_Some: "get_by_id uid d = Some u \<Longrightarrow> u \<in> set (t_user d) \<and> u_id u = uid"
  by (auto simp: get_by_id_def dest: find_SomeD)

text \<open>Uniqueness speaks of the identifiers only.\<close>

lemma user_unique_iff: "user_unique u d \<longleftrightarrow> (\<forall>x \<in> set (t_user d). u_id x = u_id u \<or>
    lower (u_email x) \<noteq> lower (u_email u) \<and> (u_phone u = None \<or> u_phone x \<noteq> u_phone u))"
  by (simp add: user_unique_def list_all_iff)

lemma new_user_ok:
  assumes "accounts_ok d" "user_unique u d" "\<forall>x \<in> set (t_user d). u_id x \<noteq> u_id u"
  shows "accounts_ok (d\<lparr>t_user := t_user d @ [u]\<rparr>)"
proof -
  have "user_unique x (d\<lparr>t_user := t_user d @ [u]\<rparr>)" if "x \<in> set (t_user d)" for x
    using assms that by (auto simp: accounts_ok_def user_unique_iff)
  moreover have "user_unique u (d\<lparr>t_user := t_user d @ [u]\<rparr>)"
    using assms by (auto simp: user_unique_iff)
  ultimately show ?thesis using assms by (auto simp: accounts_ok_def)
qed

lemma set_user_ok:
  assumes "accounts_ok d" "user_unique u d"
  shows "accounts_ok (set_user u d)"
proof -
  have "map u_id (t_user (set_user u d)) = map u_id (t_user d)"
    by (simp add: set_user_def) (rule map_upd_key, simp)
  moreover have "user_unique x (set_user u d)" if x: "x \<in> set (t_user (set_user u d))" for x
  proof (cases "u_id x = u_id u")
    case True
    then have "x = u" using x by (auto simp: set_user_def set_upd split: if_splits)
    with assms(2) show ?thesis by (auto simp: user_unique_iff set_user_def set_upd split: if_splits)
  next
    case False
    then have old: "x \<in> set (t_user d)" using x by (auto simp: set_user_def set_upd split: if_splits)
    then have "user_unique x d" "u_id x = u_id u \<or> lower (u_email x) \<noteq> lower (u_email u) \<and> (u_phone u = None \<or> u_phone x \<noteq> u_phone u)"
      using assms by (simp_all add: accounts_ok_def user_unique_iff)
    with False show ?thesis by (auto simp: user_unique_iff set_user_def set_upd)
  qed
  ultimately show ?thesis using assms(1) by (simp add: accounts_ok_def)
qed

lemma set_user_ids: "u_id ` set (t_user (set_user u d)) = u_id ` set (t_user d)"
proof -
  have "map u_id (t_user (set_user u d)) = map u_id (t_user d)"
    by (simp add: set_user_def) (rule map_upd_key, simp)
  then show ?thesis by (metis set_map)
qed

text \<open>The other tables of a handler leave the accounts alone.\<close>

lemma accounts_inv_writes:
  assumes "accounts_inv s" "accounts_ok (g (work s)) \<and> addresses_ok (g (work s))"
    and "u_id ` set (t_user (g (work s))) \<subseteq> u_id ` set (t_user (work s))"
    and "a_id ` set (t_address (g (work s))) \<subseteq> a_id ` set (t_address (work s))"
  shows "accounts_inv (s\<lparr>work := g (work s)\<rparr>)"
proof -
  have "u_id u < pk_seq s User_T" if u: "u \<in> set (t_user (g (work s)))" for u
  proof -
    have "u_id u \<in> u_id ` set (t_user (work s))" using u assms(3) by blast
    then show ?thesis using assms(1) by (auto simp: accounts_inv_def both_def)
  qed
  moreover have "a_id a < pk_seq s Address_T" if a: "a \<in> set (t_address (g (work s)))" for a
  proof -
    have "a_id a \<in> a_id ` set (t_address (work s))" using a assms(4) by blast
    then show ?thesis using assms(1) by (auto simp: accounts_inv_def both_def)
  qed
  ultimately show ?thesis using assms(1,2) by (auto simp: accounts_inv_def both_def)
qed

lemma accounts_inv_commit [pres]: "preserves accounts_inv commit"
  by (rule preserves_commit) (simp add: accounts_inv_def both_def)

lemma accounts_inv_next_id [pres]: "preserves accounts_inv (next_id t)"
  by (rule preserves_next_id) (auto simp: accounts_inv_def both_def)

lemma accounts_inv_remote [pres]: "preserves accounts_inv (remote m)"
  by (rule preservesI) (auto simp: accounts_inv_def both_def remote_def split: prod.splits)

lemma accounts_inv_other:
  assumes "\<And>d. t_user (g d) = t_user d" "\<And>d. t_address (g d) = t_address d"
  shows "preserves accounts_inv (writes g)"
proof (rule preserves_writes)
  fix s assume inv: "accounts_inv s"
  have "accounts_ok (g (work s)) = accounts_ok (work s)" "addresses_ok (g (work s)) = addresses_ok (work s)"
    using assms by (simp_all add: accounts_ok_def addresses_ok_def user_unique_def)
  then show "accounts_inv (s\<lparr>work := g (work s)\<rparr>)"
    using inv assms by (intro accounts_inv_writes) (auto simp: accounts_inv_def both_def)
qed

lemma accounts_inv_users:
  assumes "accounts_inv s" "user_unique u (work s)"
  shows "accounts_inv (s\<lparr>work := set_user u (work s)\<rparr>)"
proof (rule accounts_inv_writes [OF assms(1)])
  have "t_address (set_user u (work s)) = t_address (work s)" by (simp add: set_user_def)
  then show "accounts_ok (set_user u (work s)) \<and> addresses_ok (set_user u (work s))"
    "a_id ` set (t_address (set_user u (work s))) \<subseteq> a_id ` set (t_address (work s))"
    using assms by (simp_all add: accounts_inv_def both_def set_user_ok addresses_ok_def)
qed (simp add: set_user_ids)

subsection \<open>Registration and profile keep the identifiers unique\<close>

lemma create_user_keeps [pres]: "preserves accounts_inv (create_user email h phone)"
proof (rule preservesI)
  fix s r s' assume inv: "accounts_inv s" and run: "create_user email h phone s = (r, s')"
  let ?u = "\<lparr>u_id = pk_seq s User_T, u_email = email, u_is_active = True, u_is_staff = False, u_phone = phone,
             u_password_hash = h, u_role = None\<rparr>"
  have fresh: "\<forall>x \<in> set (t_user (work s)). u_id x \<noteq> u_id ?u" using inv by (auto simp: accounts_inv_def both_def)
  show "accounts_inv s'"
  proof (cases "user_unique ?u (work s)")
    case True
    have "accounts_ok ((work s)\<lparr>t_user := t_user (work s) @ [?u]\<rparr>)"
      using inv by (intro new_user_ok True fresh) (simp add: accounts_inv_def both_def)
    with run inv True show ?thesis
      by (auto simp: create_user_def bindM_app Let_def accounts_inv_def both_def addresses_ok_def) force+
  next
    case False
    with run inv show ?thesis
      by (auto simp: create_user_def bindM_app Let_def accounts_inv_def both_def guardE_def) force+
  qed
qed

lemma register_keeps [pres]: "preserves accounts_inv (register env data)"
  unfolding register_def by (intro pres)

lemma update_me_keeps [pres]: "preserves accounts_inv (update_me uid phone)"
proof (rule preservesI)
  fix s r s' assume inv: "accounts_inv s" and run: "update_me uid phone s = (r, s')"
  let ?s = "\<lambda>u. s\<lparr>work := set_user u (work s)\<rparr>"
  have "accounts_inv (?s u\<lparr>committed := work (?s u)\<rparr>)" if "user_unique u (work s)" for u
    using preservesD [OF accounts_inv_commit commit_app accounts_inv_users [OF inv that]] .
  then show "accounts_inv s'" using run inv
    by (auto simp: update_me_def get_me_def bindM_app Let_def guardE_def the_orE_def
        split: option.splits sum.splits if_splits)
qed

subsection \<open>One default address\<close>

text \<open>The customer \<open>uid\<close> has no default address.\<close>

definition no_default :: "int \<Rightarrow> db \<Rightarrow> bool" where
  "no_default uid d \<longleftrightarrow> (\<forall>a \<in> set (t_address d). a_user_id a = uid \<longrightarrow> \<not> a_is_default a)"

definition with_addresses :: "address list \<Rightarrow> db \<Rightarrow> db" where
  "with_addresses rows d = d\<lparr>t_address := rows\<rparr>"

lemma with_addresses_simps [simp]: "t_address (with_addresses rows d) = rows" "t_user (with_addresses rows d) = t_user d"
  by (simp_all add: with_addresses_def)

definition cleared :: "int \<Rightarrow> address list \<Rightarrow> address list" where
  "cleared uid = upd (\<lambda>a. a_user_id a = uid \<and> a_is_default a) (\<lambda>a. a\<lparr>a_is_default := False\<rparr>)"

lemma clear_default_app: "clear_default uid s = (Inr (), s\<lparr>work := with_addresses (cleared uid (t_address (work s))) (work s)\<rparr>)"
  by (simp add: clear_default_def with_addresses_def cleared_def)

lemma cleared_ids: "map a_id (cleared uid rows) = map a_id rows"
  unfolding cleared_def by (rule map_upd_key) simp

lemma cleared_ok:
  assumes "addresses_ok d"
  shows "addresses_ok (with_addresses (cleared uid (t_address d)) d)" "no_default uid (with_addresses (cleared uid (t_address d)) d)"
proof -
  have row: "\<exists>y \<in> set (t_address d). x = (if a_user_id y = uid \<and> a_is_default y then y\<lparr>a_is_default := False\<rparr> else y)"
    if "x \<in> set (cleared uid (t_address d))" for x
    using that by (auto simp: cleared_def set_upd)
  show "no_default uid (with_addresses (cleared uid (t_address d)) d)"
    by (auto simp: no_default_def dest!: row split: if_splits)
  have "x \<in> set (t_address d)" if "x \<in> set (cleared uid (t_address d))" "a_is_default x" for x
    using row [OF that(1)] that(2) by (auto split: if_splits)
  then show "addresses_ok (with_addresses (cleared uid (t_address d)) d)"
    using assms by (simp add: addresses_ok_def cleared_ids)
qed

lemma add_address_ok:
  assumes "addresses_ok d" "\<forall>x \<in> set (t_address d). a_id x \<noteq> a_id a" "a_is_default a \<Longrightarrow> no_default (a_user_id a) d"
  shows "addresses_ok (with_addresses (t_address d @ [a]) d)"
  using assms by (auto simp: addresses_ok_def no_default_def)

lemma put_address_ok:
  assumes "addresses_ok d" "a_id a' = aid"
    and "a_is_default a' \<Longrightarrow> \<forall>x \<in> set (t_address d). a_user_id x = a_user_id a' \<and> a_is_default x \<longrightarrow> a_id x = aid"
  shows "addresses_ok (with_addresses (upd (\<lambda>x. a_id x = aid) (\<lambda>_. a') (t_address d)) d)"
proof -
  have "map a_id (upd (\<lambda>x. a_id x = aid) (\<lambda>_. a') (t_address d)) = map a_id (t_address d)"
    by (rule map_upd_key) (simp add: assms(2))
  then show ?thesis using assms by (auto simp: addresses_ok_def set_upd split: if_splits)
qed

lemma drop_addresses_ok:
  assumes "addresses_ok d"
  shows "addresses_ok (drop_addresses P d)"
  using assms by (auto simp: addresses_ok_def drop_addresses_def Let_def distinct_map_filter)

lemma drop_addresses_simps [simp]:
  "t_address (drop_addresses P d) = filter (\<lambda>a. \<not> P a) (t_address d)" "t_user (drop_addresses P d) = t_user d"
  by (simp_all add: drop_addresses_def Let_def)

lemma accounts_ok_users: "t_user d = t_user d' \<Longrightarrow> accounts_ok d = accounts_ok d'"
  by (simp add: accounts_ok_def user_unique_def)

lemma accounts_inv_addresses:
  assumes "accounts_inv s" "addresses_ok (g (work s))" "t_user (g (work s)) = t_user (work s)"
    and "a_id ` set (t_address (g (work s))) \<subseteq> a_id ` set (t_address (work s))"
  shows "accounts_inv (s\<lparr>work := g (work s)\<rparr>)"
  using assms accounts_ok_users [OF assms(3)]
  by (intro accounts_inv_writes) (simp_all add: accounts_inv_def both_def)

lemma drop_addresses_keeps [pres]: "preserves accounts_inv (writes (drop_addresses P))"
  by (rule preserves_writes)
    (rule accounts_inv_addresses, auto simp: drop_addresses_ok accounts_inv_def both_def)

lemma clear_default_keeps:
  assumes "accounts_inv s" "clear_default uid s = (r, s')"
  shows "accounts_inv s'" "no_default uid (work s')" "pk_seq s' = pk_seq s" "t_user (work s') = t_user (work s)"
    "r = Inr ()" "committed s' = committed s"
proof -
  let ?d = "with_addresses (cleared uid (t_address (work s))) (work s)"
  have s': "s' = s\<lparr>work := ?d\<rparr>" "r = Inr ()" using assms(2) by (simp_all add: clear_default_app)
  have "accounts_inv (s\<lparr>work := (\<lambda>d. with_addresses (cleared uid (t_address d)) d) (work s)\<rparr>)"
  proof (rule accounts_inv_addresses [OF assms(1)])
    show "a_id ` set (t_address ((\<lambda>d. with_addresses (cleared uid (t_address d)) d) (work s))) \<subseteq> a_id ` set (t_address (work s))"
      using cleared_ids [of uid "t_address (work s)"] by simp (metis order_refl set_map)
  qed (use assms(1) in \<open>auto simp: accounts_inv_def both_def cleared_ok\<close>)
  moreover have "no_default uid ?d" using assms(1) by (simp add: accounts_inv_def both_def cleared_ok)
  ultimately show "accounts_inv s'" "no_default uid (work s')" "pk_seq s' = pk_seq s" "t_user (work s') = t_user (work s)"
      "r = Inr ()" "committed s' = committed s"
    by (simp_all add: s')
qed

text \<open>The second half of the two writing handlers, where the default has been cleared if it must be.\<close>

lemma insert_address_keeps:
  assumes "accounts_inv s" "a_is_default a \<Longrightarrow> no_default (a_user_id a) (work s)" "a_id a = pk_seq s Address_T"
  shows "accounts_inv (s\<lparr>pk_seq := (pk_seq s)(Address_T := pk_seq s Address_T + 1),
    work := (work s)\<lparr>t_address := t_address (work s) @ [a]\<rparr>\<rparr>)"
proof -
  have "\<forall>x \<in> set (t_address (work s)). a_id x \<noteq> a_id a"
    using assms(1,3) by (auto simp: accounts_inv_def both_def)
  then have "addresses_ok ((work s)\<lparr>t_address := t_address (work s) @ [a]\<rparr>)"
    using add_address_ok [of "work s" a] assms(1,2) by (simp add: with_addresses_def accounts_inv_def both_def)
  moreover have "accounts_ok ((work s)\<lparr>t_address := t_address (work s) @ [a]\<rparr>)"
    using assms(1) by (simp add: accounts_inv_def both_def accounts_ok_def user_unique_def)
  ultimately show ?thesis using assms(1,3) by (auto simp: accounts_inv_def both_def)
qed

lemma commit_keeps: "accounts_inv s \<Longrightarrow> accounts_inv (s\<lparr>committed := work s\<rparr>)"
  by (simp add: accounts_inv_def both_def)

lemma next_id_keeps: "accounts_inv s \<Longrightarrow> accounts_inv (s\<lparr>pk_seq := (pk_seq s)(Address_T := pk_seq s Address_T + 1)\<rparr>)"
  using preservesD [OF accounts_inv_next_id next_id_app] .

lemma create_address_keeps [pres]: "preserves accounts_inv (create_address uid data)"
proof -
  define rest where "rest = bindM (next_id Address_T) (\<lambda>i.
    let a = \<lparr>a_id = i, a_user_id = uid, a_full_name = ac_full_name data, a_phone = ac_phone data,
             a_city = ac_city data, a_street = ac_street data, a_zip = ac_zip data,
             a_is_default = ac_is_default data\<rparr> in
    bindM (readsE (\<lambda>d. guardE (list_ex (\<lambda>u. u_id u = uid) (t_user d)) (IntegrityError ''address''))) (\<lambda>_.
    bindM (writes (\<lambda>d. d\<lparr>t_address := t_address d @ [a]\<rparr>)) (\<lambda>_.
    bindM commit (\<lambda>_.
    ret a))))"
  have rest: "accounts_inv s'"
    if "accounts_inv s" "ac_is_default data \<Longrightarrow> no_default uid (work s)" "rest s = (r, s')" for s r s'
  proof -
    let ?a = "\<lparr>a_id = pk_seq s Address_T, a_user_id = uid, a_full_name = ac_full_name data, a_phone = ac_phone data,
             a_city = ac_city data, a_street = ac_street data, a_zip = ac_zip data, a_is_default = ac_is_default data\<rparr>"
    have "accounts_inv (s\<lparr>pk_seq := (pk_seq s)(Address_T := pk_seq s Address_T + 1),
      work := (work s)\<lparr>t_address := t_address (work s) @ [?a]\<rparr>\<rparr>)"
      by (rule insert_address_keeps) (use that in auto)
    from commit_keeps [OF this] next_id_keeps [OF that(1)] that(3) show ?thesis
      by (auto simp: rest_def bindM_app Let_def guardE_def split: if_splits)
  qed
  have def: "create_address uid data = bindM (whenM (ac_is_default data) (clear_default uid)) (\<lambda>_. rest)"
    by (simp add: create_address_def rest_def)
  show ?thesis
  proof (rule preservesI)
    fix s r s' assume inv: "accounts_inv s" and run: "create_address uid data s = (r, s')"
    show "accounts_inv s'"
    proof (cases "ac_is_default data")
      case True
      obtain r1 s1 where clear: "clear_default uid s = (r1, s1)" by (cases "clear_default uid s")
      note c = clear_default_keeps [OF inv clear]
      have "rest s1 = (r, s')" using run True clear c(5) by (simp add: def bindM_app)
      then show ?thesis using rest [OF c(1)] c(2) by blast
    next
      case False
      have "rest s = (r, s')" using run False by (simp add: def bindM_app)
      from rest [OF inv _ this] False show ?thesis by simp
    qed
  qed
qed

lemma replace_address_keeps:
  assumes "accounts_inv s" "a_id a' = aid"
    and "a_is_default a' \<Longrightarrow> \<forall>x \<in> set (t_address (work s)). a_user_id x = a_user_id a' \<and> a_is_default x \<longrightarrow> a_id x = aid"
  shows "accounts_inv (s\<lparr>work := (work s)\<lparr>t_address := upd (\<lambda>x. a_id x = aid) (\<lambda>_. a') (t_address (work s))\<rparr>\<rparr>)"
proof -
  have ids: "map a_id (upd (\<lambda>x. a_id x = aid) (\<lambda>_. a') rows) = map a_id rows" for rows
    by (rule map_upd_key) (simp add: assms(2))
  have "accounts_inv (s\<lparr>work := (\<lambda>d. with_addresses (upd (\<lambda>x. a_id x = aid) (\<lambda>_. a') (t_address d)) d) (work s)\<rparr>)"
  proof (rule accounts_inv_addresses [OF assms(1)])
    show "addresses_ok (with_addresses (upd (\<lambda>x. a_id x = aid) (\<lambda>_. a') (t_address (work s))) (work s))"
      using assms by (intro put_address_ok) (auto simp: accounts_inv_def both_def)
    show "a_id ` set (t_address (with_addresses (upd (\<lambda>x. a_id x = aid) (\<lambda>_. a') (t_address (work s))) (work s)))
        \<subseteq> a_id ` set (t_address (work s))"
      using ids [of "t_address (work s)"] by simp (metis order_refl set_map)
  qed simp
  then show ?thesis by (simp add: with_addresses_def)
qed

lemma find_address_Some: "find_address uid aid d = Some a \<Longrightarrow> a \<in> set (t_address d) \<and> a_id a = aid \<and> a_user_id a = uid"
  by (auto simp: find_address_def dest: find_SomeD)

lemma patched_fields:
  assumes "patched_address data a = Some a'"
  shows "a_id a' = a_id a" "a_user_id a' = a_user_id a" "a_is_default a' = (case ax_is_default data of Some (Some b) \<Rightarrow> b | _ \<Rightarrow> a_is_default a)"
  using assms by (auto simp: patched_address_def sent_value_def split: option.splits)

lemma update_address_keeps [pres]: "preserves accounts_inv (update_address uid aid data)"
proof (rule preservesI)
  fix s r s' assume inv: "accounts_inv s" and run: "update_address uid aid data s = (r, s')"
  show "accounts_inv s'"
  proof (cases "find_address uid aid (work s)")
    case None
    with run inv show ?thesis by (auto simp: update_address_def get_owned_address_def bindM_app the_orE_def)
  next
    case (Some a)
    note a = find_address_Some [OF Some]
    let ?clear = "ax_is_default data = Some (Some True) \<and> \<not> a_is_default a"
    define s1 where "s1 = (if ?clear then snd (clear_default uid s) else s)"
    obtain s2 where clear: "clear_default uid s = (Inr (), s2)" by (simp add: clear_default_app)
    note c = clear_default_keeps [OF inv clear]
    have s1: "accounts_inv s1" using inv c(1) by (simp add: s1_def clear)
    have only: "\<forall>x \<in> set (t_address (work s1)). a_user_id x = uid \<and> a_is_default x \<longrightarrow> a_id x = aid"
      if "patched_address data a = Some a'" "a_is_default a'" for a'
    proof (cases ?clear)
      case True
      then show ?thesis using c(2) by (auto simp: s1_def clear no_default_def)
    next
      case False
      then have "a_is_default a" using that patched_fields(3) [OF that(1)] by (auto split: option.splits)
      then show ?thesis using a inv False by (force simp: s1_def accounts_inv_def both_def addresses_ok_def)
    qed
    have "accounts_inv (s1\<lparr>work := (work s1)\<lparr>t_address := upd (\<lambda>x. a_id x = aid) (\<lambda>_. a') (t_address (work s1))\<rparr>\<rparr>)"
      if p: "patched_address data a = Some a'" for a'
      using replace_address_keeps [OF s1, of a' aid] only [OF p] patched_fields [OF p] a by simp
    note fin = commit_keeps [OF this]
    from run have "(case patched_address data a of None \<Rightarrow> (Inl (IntegrityError ''address''), s1)
      | Some a' \<Rightarrow> (Inr a', s1\<lparr>work := (work s1)\<lparr>t_address := upd (\<lambda>x. a_id x = aid) (\<lambda>_. a') (t_address (work s1))\<rparr>,
          committed := (work s1)\<lparr>t_address := upd (\<lambda>x. a_id x = aid) (\<lambda>_. a') (t_address (work s1))\<rparr>\<rparr>)) = (r, s')"
      by (cases ?clear) (auto simp: update_address_def get_owned_address_def bindM_app the_orE_def Some s1_def clear split: option.splits)
    with fin s1 show ?thesis by (auto split: option.splits)
  qed
qed

lemma delete_address_keeps [pres]: "preserves accounts_inv (delete_address uid aid)"
  unfolding delete_address_def get_owned_address_def by (intro pres)

subsection \<open>Erasure keeps the tables sound\<close>

lemma set_user_checked_keeps:
  assumes "\<And>x. preserves accounts_inv (f x)"
  shows "preserves accounts_inv (bindM (readsE (\<lambda>d. guardE (user_unique u d) e)) (\<lambda>_. bindM (writes (set_user u)) f))"
proof (rule preservesI)
  fix s r s' assume inv: "accounts_inv s"
    and run: "bindM (readsE (\<lambda>d. guardE (user_unique u d) e)) (\<lambda>_. bindM (writes (set_user u)) f) s = (r, s')"
  show "accounts_inv s'"
  proof (cases "user_unique u (work s)")
    case True
    then have "f () (s\<lparr>work := set_user u (work s)\<rparr>) = (r, s')" using run by (simp add: bindM_app)
    then show ?thesis using preservesD [OF assms] accounts_inv_users [OF inv True] by blast
  next
    case False
    then show ?thesis using run inv by (simp add: bindM_app guardE_def)
  qed
qed

lemma anonymize_keeps [pres]: "preserves accounts_inv (anonymize_account env uid)"
  unfolding anonymize_account_def delete_all_addresses_def delete_subscriptions_of_def Cart.delete_all_for_user_def Let_def
  by (intro pres set_user_checked_keeps accounts_inv_other) simp_all

subsection \<open>Calls of the two routers\<close>

datatype auth_call =
    Call_Register web_request register_request
  | Call_Login web_request login_request
  | Call_Refresh web_request "string option option"
  | Call_Logout web_request "string option option"
  | Call_Me web_request
  | Call_Update_Me web_request "string option option"
  | Call_Delete_Me web_request
  | Call_List_Addresses web_request
  | Call_Create_Address web_request address_create
  | Call_Update_Address web_request int address_update
  | Call_Delete_Address web_request int

definition void :: "'a act \<Rightarrow> unit act" where
  "void m = bindM m (\<lambda>_. ret ())"

fun call_act :: "environment \<Rightarrow> auth_call \<Rightarrow> unit act" where
  "call_act env (Call_Register r data) = void (register_endpoint env r data)"
| "call_act env (Call_Login r data) = void (login_endpoint env r data)"
| "call_act env (Call_Refresh r body) = void (refresh_endpoint env r body)"
| "call_act env (Call_Logout r body) = void (logout_endpoint env r body)"
| "call_act env (Call_Me r) = void (get_me_endpoint env r)"
| "call_act env (Call_Update_Me r phone) = void (update_me_endpoint env r phone)"
| "call_act env (Call_Delete_Me r) = void (delete_me_endpoint env r)"
| "call_act env (Call_List_Addresses r) = void (list_addresses_endpoint env r)"
| "call_act env (Call_Create_Address r data) = void (create_address_endpoint env r data)"
| "call_act env (Call_Update_Address r aid data) = void (update_address_endpoint env r aid data)"
| "call_act env (Call_Delete_Address r aid) = void (delete_address_endpoint env r aid)"

text \<open>One request is served by one session, which is closed at the end; did it succeed?\<close>

definition serve :: "environment \<Rightarrow> instant \<Rightarrow> auth_call \<Rightarrow> session \<Rightarrow> bool \<times> session" where
  "serve env t c s = (case call_act (env\<lparr>env_now := t\<rparr>) c s of (out, s') \<Rightarrow> (\<not> isl out, end_request s'))"

fun served :: "environment \<Rightarrow> (instant \<times> auth_call) list \<Rightarrow> session \<Rightarrow> bool list \<times> session" where
  "served env [] s = ([], s)"
| "served env ((t, c) # rest) s =
    (case serve env t c s of (ok, s1) \<Rightarrow> case served env rest s1 of (oks, s') \<Rightarrow> (ok # oks, s'))"

lemma served_append: "served env (xs @ ys) s =
    (case served env xs s of (oks, s1) \<Rightarrow> case served env ys s1 of (oks', s') \<Rightarrow> (oks @ oks', s'))"
  by (induction xs arbitrary: s) (auto split: prod.splits)

lemma served_length: "length (fst (served env xs s)) = length xs"
  by (induction xs arbitrary: s) (auto split: prod.splits, metis fst_conv)

lemmas endpoint_defs = register_endpoint_def login_endpoint_def refresh_endpoint_def logout_endpoint_def
  get_me_endpoint_def update_me_endpoint_def delete_me_endpoint_def list_addresses_endpoint_def
  create_address_endpoint_def update_address_endpoint_def delete_address_endpoint_def

lemma preserves_case_sum [pres]:
  "(\<And>e. preserves I (f e)) \<Longrightarrow> (\<And>x. preserves I (g x)) \<Longrightarrow> preserves I (case v of Inl e \<Rightarrow> f e | Inr x \<Rightarrow> g x)"
  by (cases v) simp_all

text \<open>What every primitive keeps and the session's end keeps, every call keeps.\<close>

lemma current_user_read_only: "read_only (current_user env r)"
  unfolding current_user_def Let_def by (intro read_onlyI pres)

lemma login_keeps: "(\<And>m :: token_pair net. preserves I (remote m)) \<Longrightarrow> preserves I (login env data)"
  unfolding login_def Let_def by (intro pres) auto

lemma call_keeps_accounts: "preserves accounts_inv (call_act env c)"
proof -
  note [pres] = login_keeps preserves_read_only [OF current_user_read_only]
  show ?thesis by (cases c) (simp_all only: call_act.simps void_def endpoint_defs, (intro pres)+)
qed

lemma end_request_keeps: "accounts_inv s \<Longrightarrow> accounts_inv (end_request s)"
  by (simp add: accounts_inv_def both_def end_request_def)

lemma served_keeps_accounts: "accounts_inv s \<Longrightarrow> accounts_inv (snd (served env trace s))"
proof (induction trace arbitrary: s)
  case (Cons q trace)
  obtain t c where q: "q = (t, c)" by (cases q)
  have "accounts_inv (snd (serve env t c s))"
    using call_keeps_accounts [of "env\<lparr>env_now := t\<rparr>" c] Cons.prems
    by (auto simp: serve_def preserves_def end_request_keeps split: prod.splits)
  then show ?case using Cons.IH by (auto simp: q split: prod.splits) (metis snd_conv)
qed simp

end
