(* ===== verification/Auth_Tokens.thy ===== *)
theory Auth_Tokens
  imports Auth_Correct
begin

text \<open>
  What a refresh token is good for, over any sequence of calls: once it has been rotated or logged
  out it is refused until it expires, and after that because it has expired.
\<close>

subsection \<open>What the calls do to Redis\<close>

definition beyond :: "(outside \<Rightarrow> bool) \<Rightarrow> session \<Rightarrow> bool" where
  "beyond R s \<longleftrightarrow> R (outside s)"

lemma beyond_prims [pres]:
  "preserves (beyond R) (writes g)" "preserves (beyond R) (next_id t)" "preserves (beyond R) commit"
  by (auto intro!: pres simp: beyond_def)

lemma beyond_remote [pres]: "preserves R m \<Longrightarrow> preserves (beyond R) (remote m)"
  by (rule preservesI) (auto simp: beyond_def remote_def dest: preservesD split: prod.splits)

text \<open>The key \<open>k\<close> is in Redis until the second \<open>till\<close> at least.\<close>

definition revoked_until :: "string \<Rightarrow> int \<Rightarrow> outside \<Rightarrow> bool" where
  "revoked_until k till w \<longleftrightarrow> (\<exists>v t. redis_keys w k = Some (v, Some t) \<and> till * SECOND \<le> t)"

lemma revoked_frame: "redis_keys w' k = redis_keys w k \<Longrightarrow> revoked_until k till w' = revoked_until k till w"
  by (simp add: revoked_until_def)

lemma revoked_draw [pres]: "preserves (revoked_until k till) draw"
  by (rule preservesI) (auto simp: revoked_until_def)

lemma blacklist_key_inj [simp]: "blacklist_key i = blacklist_key j \<longleftrightarrow> i = j"
  by (simp add: blacklist_key_def)

lemma limit_key_other [simp]: "limit_key b ip \<noteq> blacklist_key j" "blacklist_key j \<noteq> limit_key b ip"
  by (simp_all add: limit_key_def blacklist_key_def BLACKLIST_PREFIX_def)

lemma preserves_bind_liftE:
  "(\<And>x. r = Inr x \<Longrightarrow> preserves I (f x)) \<Longrightarrow> preserves I (bindM (liftE r) f)"
  by (cases r) (auto simp: preserves_def bindM_app)

lemma bindM_assoc: "bindM (bindM m f) g = bindM m (\<lambda>x. bindM (f x) g)"
  by (rule ext) (auto simp: bindM_app split: prod.splits sum.splits)

lemma bindM_ret [simp]: "bindM (ret x) f = f x"
  by (rule ext) simp

lemma revoked_limiter [pres]: "preserves (revoked_until (blacklist_key j) till) (rate_limiter env setting bucket r)"
proof (rule preservesI)
  fix w out w' assume I: "revoked_until (blacklist_key j) till w" and run: "rate_limiter env setting bucket r w = (out, w')"
  have "redis_keys w' (blacklist_key j) = redis_keys w (blacklist_key j)"
    using run
    by (auto simp: rate_limiter_def redis_incr_def redis_expire_def redis_call_def bindM_app Let_def
        split: if_splits option.splits sum.splits prod.splits)
  with I show "revoked_until (blacklist_key j) till w'" by (simp add: revoked_until_def)
qed

lemma ttl_reaches: "till * SECOND \<le> env_now env + (till - unix_time env) * SECOND"
proof -
  have "unix_time env * SECOND \<le> env_now env"
    using pos_mod_sign [of SECOND "env_now env"] div_mult_mod_eq [of "env_now env" SECOND] by (simp add: unix_time_def SECOND_def)
  then show ?thesis by (simp add: algebra_simps)
qed

lemma blacklist_put:
  assumes "env_cache_up env" "0 < till - unix_time env"
  shows "blacklist env j till w = (Inr (), redis_put (blacklist_key j) (1, Some (env_now env + (till - unix_time env) * SECOND)) w)"
  using assms by (simp add: blacklist_def redis_set_ex_def redis_call_def Let_def SECOND_def)

lemma blacklist_keeps:
  assumes "j' = j \<Longrightarrow> till' = till"
  shows "preserves (revoked_until (blacklist_key j) till) (blacklist env j' till')"
proof (rule preservesI)
  fix w r w' assume I: "revoked_until (blacklist_key j) till w" and run: "blacklist env j' till' w = (r, w')"
  show "revoked_until (blacklist_key j) till w'"
  proof (cases "env_cache_up env \<and> 0 < till' - unix_time env")
    case True
    then have "w' = redis_put (blacklist_key j') (1, Some (env_now env + (till' - unix_time env) * SECOND)) w"
      using run by (simp add: blacklist_put)
    then show ?thesis using I assms ttl_reaches [of till env] by (cases "j' = j") (auto simp: revoked_until_def)
  next
    case False
    then have "w' = w" using run by (auto simp: blacklist_def redis_set_ex_def redis_call_def Let_def split: if_splits)
    with I show ?thesis by simp
  qed
qed

lemma blacklist_Inr:
  assumes "blacklist env j till w = (Inr u, w')" "env_now env < till * SECOND"
  shows "revoked_until (blacklist_key j) till w'"
proof -
  have "0 < till - unix_time env"
    using assms(2) by (simp add: unix_time_def SECOND_def)
  then show ?thesis
    using assms ttl_reaches [of till env]
    by (auto simp: blacklist_def redis_set_ex_def redis_call_def Let_def revoked_until_def SECOND_def split: if_splits)
qed

lemma issue_keeps [pres]: "preserves (revoked_until k till) (issue_pair env uid)"
  unfolding issue_pair_def create_access_token_def create_refresh_token_def create_token_def Let_def by (intro pres)

lemma hash_keeps [pres]: "preserves (revoked_until k till) (hash_password env p)" "preserves (revoked_until k till) (token_urlsafe env)"
  unfolding hash_password_def token_urlsafe_def by (intro pres)+

lemma decode_refresh_Inr [simp]: "decode_refresh env token = Inr c \<longleftrightarrow> decode_token env token Refresh = Inr c"
  by (auto simp: decode_refresh_def split: sum.splits exn.splits)

text \<open>A token that agrees with \<open>j\<close> and \<open>till\<close>: if it carries the identifier, it carries that expiry.\<close>

definition agrees :: "environment \<Rightarrow> string \<Rightarrow> int \<Rightarrow> string \<Rightarrow> bool" where
  "agrees env j till token \<longleftrightarrow>
    (\<forall>c. decode_token env token Refresh = Inr c \<longrightarrow> tc_jti c = j \<longrightarrow> tc_exp c = till)"

lemma refresh_pair_keeps:
  assumes "agrees env j till token"
  shows "preserves (revoked_until (blacklist_key j) till) (refresh_pair env token)"
  unfolding refresh_pair_def refresh_check_def refresh_rotate_def bindM_assoc
proof (rule preserves_bind_liftE)
  fix c assume "decode_refresh env token = Inr c"
  with assms have "tc_jti c = j \<Longrightarrow> tc_exp c = till" by (simp add: agrees_def)
  then have "preserves (revoked_until (blacklist_key j) till) (blacklist env (tc_jti c) (tc_exp c))"
    by (rule blacklist_keeps)
  then have rotate: "preserves (revoked_until (blacklist_key j) till) (refresh_rotate env c)"
    unfolding refresh_rotate_def by (intro pres)
  have "preserves (revoked_until (blacklist_key j) till) (is_blacklisted env x)" for x
    unfolding is_blacklisted_def redis_exists_def redis_call_def by (intro pres)
  with rotate show "preserves (revoked_until (blacklist_key j) till)
      (bindM (is_blacklisted env (tc_jti c)) (\<lambda>x. bindM (whenM x (throw unauthorized)) (\<lambda>_. bindM (ret c)
        (\<lambda>claims. bindM (blacklist env (tc_jti claims) (tc_exp claims)) (\<lambda>_. issue_pair env (tc_sub claims))))))"
    unfolding bindM_ret refresh_rotate_def [symmetric] by (intro pres)
qed

lemma logout_keeps:
  assumes "agrees env j till token"
  shows "preserves (revoked_until (blacklist_key j) till) (logout env token)"
  unfolding logout_def
proof (rule preserves_bind_liftE)
  fix c assume "decode_refresh env token = Inr c"
  with assms have "tc_jti c = j \<Longrightarrow> tc_exp c = till" by (simp add: agrees_def)
  then show "preserves (revoked_until (blacklist_key j) till) (blacklist env (tc_jti c) (tc_exp c))"
    by (rule blacklist_keeps)
qed

subsection \<open>A dead token\<close>

text \<open>The refresh token a call presents.\<close>

definition presented :: "auth_call \<Rightarrow> string option" where
  "presented c = (case c of
      Call_Refresh r body \<Rightarrow> (case read_refresh r body of Inr t \<Rightarrow> Some t | Inl _ \<Rightarrow> None)
    | Call_Logout r body \<Rightarrow> (case read_refresh r body of Inr t \<Rightarrow> Some t | Inl _ \<Rightarrow> None)
    | _ \<Rightarrow> None)"

lemma call_keeps_revoked:
  assumes "\<And>T. presented c = Some T \<Longrightarrow> agrees env j till T"
  shows "preserves (beyond (revoked_until (blacklist_key j) till)) (call_act env c)"
proof -
  let ?I = "beyond (revoked_until (blacklist_key j) till)"
  note [pres] = preserves_read_only [OF current_user_read_only]
  note defs = call_act.simps void_def endpoint_defs Let_def
  show ?thesis
  proof (cases c)
    case (Call_Refresh r body)
    have pair: "preserves ?I (remote (refresh_pair env T))" if "read_refresh r body = Inr T" for T
      using assms [of T] that by (intro pres refresh_pair_keeps) (simp add: presented_def Call_Refresh)
    show ?thesis unfolding Call_Refresh defs bindM_assoc
      by (rule preserves_bindM, (intro pres)[1], rule preserves_bind_liftE, rule preserves_bindM, erule pair, intro pres)
  next
    case (Call_Logout r body)
    have out: "preserves ?I (remote (logout env T))" if "read_refresh r body = Inr T" for T
      using assms [of T] that by (intro pres logout_keeps) (simp add: presented_def Call_Logout)
    show ?thesis unfolding Call_Logout defs bindM_assoc
      by (rule preserves_bind_liftE, rule preserves_bindM, erule out, intro pres)
  qed (simp_all only: defs register_def login_def update_me_def get_me_def anonymize_account_def delete_all_addresses_def
        delete_subscriptions_of_def Cart.delete_all_for_user_def create_address_def update_address_def
        delete_address_def get_owned_address_def clear_default_def create_user_def, (intro pres)+)
qed

lemma outside_end_request [simp]: "outside (end_request s) = outside s"
  by (simp add: end_request_def)

lemma served_keeps_revoked:
  assumes "\<And>t c T. (t, c) \<in> set trace \<Longrightarrow> presented c = Some T \<Longrightarrow> agrees (env\<lparr>env_now := t\<rparr>) j till T"
    and "revoked_until (blacklist_key j) till (outside s)"
  shows "revoked_until (blacklist_key j) till (outside (snd (served env trace s)))"
  using assms
proof (induction trace arbitrary: s)
  case (Cons q trace)
  obtain t c where q: "q = (t, c)" by (cases q)
  have "preserves (beyond (revoked_until (blacklist_key j) till)) (call_act (env\<lparr>env_now := t\<rparr>) c)"
    by (rule call_keeps_revoked) (use Cons.prems(1) q in auto)
  then have "revoked_until (blacklist_key j) till (outside (snd (serve env t c s)))"
    using Cons.prems(2) by (auto simp: serve_def beyond_def preserves_def split: prod.splits)
  then have "revoked_until (blacklist_key j) till (outside (snd (served env trace (snd (serve env t c s)))))"
    by (rule Cons.IH [rotated]) (use Cons.prems(1) in auto)
  then show ?case by (auto simp: q split: prod.splits)
qed simp

text \<open>A call that consumed the token leaves its identifier in the blacklist.\<close>

lemma consumed_token:
  assumes "jwt_clocked env" "serve env t call s = (True, s')" "presented call = Some T"
  obtains c where "decode_token (env\<lparr>env_now := t\<rparr>) T Refresh = Inr c" "revoked_until (blacklist_key (tc_jti c)) (tc_exp c) (outside s')"
proof -
  let ?env = "env\<lparr>env_now := t\<rparr>"
  have live: "t < tc_exp c * SECOND" if "decode_token ?env T Refresh = Inr c" for c
    using decode_twice(2) [OF assms(1) that that] .
  show ?thesis
  proof (cases call)
    case (Call_Refresh r body)
    have T: "read_refresh r body = Inr T" using assms(3) by (auto simp: presented_def Call_Refresh split: sum.splits)
    obtain w w' p where run: "refresh_pair ?env T w = (Inr p, w')" and out: "outside s' = w'"
      using assms(2) by (auto simp: serve_def Call_Refresh void_def refresh_endpoint_def bindM_app T remote_def
        split: prod.splits sum.splits)
    obtain c where c: "decode_token ?env T Refresh = Inr c"
      using run by (auto simp: refresh_pair_def refresh_check_def bindM_Inr)
    then obtain w1 w2 where "blacklist ?env (tc_jti c) (tc_exp c) w1 = (Inr (), w2)" "issue_pair ?env (tc_sub c) w2 = (Inr p, w')"
      using run by (auto simp: refresh_pair_def refresh_check_def refresh_rotate_def bindM_Inr split: if_splits)
    then have "revoked_until (blacklist_key (tc_jti c)) (tc_exp c) w'"
      using blacklist_Inr live [OF c] preservesD [OF issue_keeps] by fastforce
    with that c out show ?thesis by blast
  next
    case (Call_Logout r body)
    have T: "read_refresh r body = Inr T" using assms(3) by (auto simp: presented_def Call_Logout split: sum.splits)
    obtain w w' where run: "logout ?env T w = (Inr (), w')" and out: "outside s' = w'"
      using assms(2) by (auto simp: serve_def Call_Logout void_def logout_endpoint_def bindM_app T remote_def
        split: prod.splits sum.splits)
    obtain c where c: "decode_token ?env T Refresh = Inr c" and "blacklist ?env (tc_jti c) (tc_exp c) w = (Inr (), w')"
      using run by (auto simp: logout_def bindM_Inr)
    then have "revoked_until (blacklist_key (tc_jti c)) (tc_exp c) w'"
      using blacklist_Inr live [OF c] by fastforce
    with that c out show ?thesis by blast
  qed (use assms(3) in \<open>simp_all add: presented_def\<close>)
qed

text \<open>In that state the token is refused, at any time.\<close>

lemma revoked_refused:
  assumes "jwt_clocked env" "decode_token (env\<lparr>env_now := t\<rparr>) T Refresh = Inr c"
    and "revoked_until (blacklist_key (tc_jti c)) (tc_exp c) (outside s)" "presented (Call_Refresh r body) = Some T"
  shows "\<not> fst (serve env t' (Call_Refresh r body) s)"
proof -
  let ?env = "env\<lparr>env_now := t'\<rparr>"
  have T: "read_refresh r body = Inr T" using assms(4) by (auto simp: presented_def split: sum.splits)
  have refused: "isl (fst (refresh_pair ?env T w))" if "revoked_until (blacklist_key (tc_jti c)) (tc_exp c) w" for w
  proof (cases "decode_token ?env T Refresh")
    case (Inl e)
    then have "\<exists>e. decode_refresh ?env T = Inl e" by (metis decode_refresh_Inr sum.exhaust Inr_Inl_False)
    then show ?thesis by (auto simp: refresh_pair_def refresh_check_def bindM_app simp del: decode_refresh_Inr)
  next
    case (Inr c')
    then have c: "c' = c" and live: "t' < tc_exp c * SECOND"
      using decode_twice(1) [OF assms(1,2) Inr] decode_twice(2) [OF assms(1) Inr Inr] by auto
    then have "redis_live t' (blacklist_key (tc_jti c)) w \<noteq> None"
      using that by (auto simp: revoked_until_def redis_live_def)
    moreover have "decode_refresh ?env T = Inr c" using Inr c by simp
    ultimately show ?thesis
      by (cases "env_cache_up ?env") (auto simp: refresh_pair_def refresh_check_def is_blacklisted_def redis_exists_def redis_call_def bindM_app simp del: decode_refresh_Inr)
  qed
  obtain out w1 where limiter: "rate_limiter ?env (rate_limit_refresh (env_cfg ?env)) ''refresh'' r (outside s) = (out, w1)"
    by (cases "rate_limiter ?env (rate_limit_refresh (env_cfg ?env)) ''refresh'' r (outside s)")
  then have "revoked_until (blacklist_key (tc_jti c)) (tc_exp c) w1"
    using preservesD [OF revoked_limiter] assms(3) by blast
  from refused [OF this] show ?thesis
    using limiter by (cases out)
      (auto simp: serve_def void_def refresh_endpoint_def bindM_app T remote_def split: prod.splits sum.splits)
qed

text \<open>Two tokens with one identifier expire together: what a random \<open>jti\<close> under a signature gives.\<close>

definition jtis_agree :: "environment \<Rightarrow> (instant \<times> auth_call) list \<Rightarrow> bool" where
  "jtis_agree env trace \<longleftrightarrow>
    (\<forall>(t, call) \<in> set trace. \<forall>(t', call') \<in> set trace. \<forall>T T' c c'.
      presented call = Some T \<longrightarrow> presented call' = Some T' \<longrightarrow>
      decode_token (env\<lparr>env_now := t\<rparr>) T Refresh = Inr c \<longrightarrow> decode_token (env\<lparr>env_now := t'\<rparr>) T' Refresh = Inr c' \<longrightarrow>
      tc_jti c' = tc_jti c \<longrightarrow> tc_exp c' = tc_exp c)"

lemma dead_token:
  assumes "jwt_clocked env" "jtis_agree env trace" "trace = pre @ (t, call) # mid @ (t', Call_Refresh r body) # post"
    and "presented call = Some T" "presented (Call_Refresh r body) = Some T"
    and "served env trace s = (oks, s')" "oks ! length pre"
  shows "\<not> oks ! (length pre + 1 + length mid)"
proof -
  obtain oks0 s0 where s0: "served env pre s = (oks0, s0)" by (cases "served env pre s")
  obtain ok s1 where s1: "serve env t call s0 = (ok, s1)" by (cases "serve env t call s0")
  obtain oks2 s2 where s2: "served env mid s1 = (oks2, s2)" by (cases "served env mid s1")
  obtain ok' s3 where s3: "serve env t' (Call_Refresh r body) s2 = (ok', s3)" by (cases "serve env t' (Call_Refresh r body) s2")
  obtain rest where oks: "oks = oks0 @ ok # oks2 @ ok' # rest"
    using assms(6) by (auto simp: assms(3) served_append s0 s1 s2 s3 split: prod.splits)
  have len: "length oks0 = length pre" "length oks2 = length mid"
    using served_length [of env pre s] served_length [of env mid s1] by (simp_all add: s0 s2)
  have "ok" using assms(7) by (simp add: oks nth_append len)
  then have run: "serve env t call s0 = (True, s1)" using s1 by simp
  obtain c where c: "decode_token (env\<lparr>env_now := t\<rparr>) T Refresh = Inr c"
      and dead: "revoked_until (blacklist_key (tc_jti c)) (tc_exp c) (outside s1)"
    by (rule consumed_token [OF assms(1) run assms(4)])
  have "agrees (env\<lparr>env_now := u\<rparr>) (tc_jti c) (tc_exp c) T'" if "(u, q) \<in> set mid" "presented q = Some T'" for u q T'
  proof -
    have "(t, call) \<in> set trace" "(u, q) \<in> set trace" using that by (simp_all add: assms(3))
    then show ?thesis using assms(2,4) c that(2) unfolding agrees_def jtis_agree_def by blast
  qed
  then have "revoked_until (blacklist_key (tc_jti c)) (tc_exp c) (outside (snd (served env mid s1)))"
    by (intro served_keeps_revoked dead) auto
  then have "revoked_until (blacklist_key (tc_jti c)) (tc_exp c) (outside s2)" by (simp add: s2)
  from revoked_refused [OF assms(1) c this assms(5)] have "\<not> ok'" using s3 by (metis fst_conv)
  then show ?thesis by (simp add: oks nth_append len)
qed

text \<open>A valid token that is not in the blacklist is rotated, if the limiter lets the request through.\<close>

lemma refresh_accepted:
  assumes "env_cache_up env" "presented (Call_Refresh r body) = Some T" "decode_token (env\<lparr>env_now := t\<rparr>) T Refresh = Inr c"
    and "redis_live t (blacklist_key (tc_jti c)) (outside s) = None"
    and "parse_limit (rate_limit_refresh (env_cfg env)) = Inr (count, window)"
    and "count_of t (limit_key ''refresh'' (client_ip r)) (outside s) < count"
  shows "fst (serve env t (Call_Refresh r body) s)"
proof -
  let ?env = "env\<lparr>env_now := t\<rparr>"
  have T: "read_refresh r body = Inr T" using assms(2) by (auto simp: presented_def split: sum.splits)
  obtain out w1 where limiter: "rate_limiter ?env (rate_limit_refresh (env_cfg ?env)) ''refresh'' r (outside s) = (out, w1)"
    by (cases "rate_limiter ?env (rate_limit_refresh (env_cfg ?env)) ''refresh'' r (outside s)")
  have up: "env_cache_up ?env" and lim: "parse_limit (rate_limit_refresh (env_cfg ?env)) = Inr (count, window)"
    using assms by simp_all
  have passed: "out = Inr ()"
    using rate_limiter_hit(1) [OF up lim refl limiter] assms(6) by simp
  have "redis_keys w1 (blacklist_key (tc_jti c)) = redis_keys (outside s) (blacklist_key (tc_jti c))"
    using limiter by (auto simp: rate_limiter_def redis_incr_def redis_expire_def redis_call_def bindM_app Let_def
        split: if_splits option.splits sum.splits prod.splits)
  then have "redis_live t (blacklist_key (tc_jti c)) w1 = None"
    using assms(4) by (simp add: redis_live_def)
  moreover have "decode_refresh ?env T = Inr c" using assms(3) by simp
  ultimately have "\<exists>p w2. refresh_pair ?env T w1 = (Inr p, w2)"
    using up by (simp add: refresh_pair_def refresh_check_def is_blacklisted_def redis_exists_def redis_call_def bindM_app
        refresh_rotate_def blacklist_def redis_set_ex_def issue_pair_def create_access_token_def create_refresh_token_def
        create_token_def Let_def del: decode_refresh_Inr)
  then show ?thesis
    using limiter passed by (auto simp: serve_def void_def refresh_endpoint_def bindM_app T remote_def)
qed

end
