(* ===== verification/Auth_Account.thy ===== *)
theory Auth_Account
  imports Auth_Tokens
begin

text \<open>
  The life of an account: registered, opened with its password, used, erased; and what one
  customer's calls can do to another's addresses.
\<close>

subsection \<open>Opening an account\<close>

lemma filter_one_key: "distinct (map k rows) \<Longrightarrow> r \<in> set rows \<Longrightarrow> filter (\<lambda>x. k x = k r) rows = [r]"
  by (induction rows) (auto simp: filter_empty_conv image_iff)

lemma unique_row:
  assumes "distinct (map k rows)" "r \<in> set rows" "\<And>x. x \<in> set rows \<Longrightarrow> P x \<longleftrightarrow> k x = k r"
  shows "scalar_one_or_none (filter P rows) = Inr (Some r)"
proof -
  have "filter P rows = filter (\<lambda>x. k x = k r) rows" using assms(3) by (intro filter_cong) auto
  then show ?thesis using filter_one_key [OF assms(1,2)] by (simp add: scalar_one_or_none_def)
qed

lemma unique_email:
  assumes "accounts_ok d" "u \<in> set (t_user d)" "lower e = lower (u_email u)"
  shows "get_by_email e d = Inr (Some u)"
  unfolding get_by_email_def
  by (rule unique_row [of u_id]) (use assms in \<open>auto simp: accounts_ok_def user_unique_iff dest: distinct_key_inj\<close>)

lemma unique_phone:
  assumes "accounts_ok d" "u \<in> set (t_user d)" "u_phone u = Some p"
  shows "get_by_phone p d = Inr (Some u)"
  unfolding get_by_phone_def
proof (rule unique_row [of u_id])
  fix x assume x: "x \<in> set (t_user d)"
  have "user_unique u d" using assms(1,2) by (simp add: accounts_ok_def)
  then have "u_id x = u_id u \<or> u_phone x \<noteq> u_phone u" using x assms(3) by (auto simp: user_unique_iff)
  moreover have "u_id x = u_id u \<Longrightarrow> x = u" using distinct_key_inj x assms(1,2) by (auto simp: accounts_ok_def)
  ultimately show "u_phone x = Some p \<longleftrightarrow> u_id x = u_id u" using assms(3) by auto
qed (use assms in \<open>simp_all add: accounts_ok_def\<close>)

lemma no_email: "(\<And>x. x \<in> set (t_user d) \<Longrightarrow> lower (u_email x) \<noteq> lower e) \<Longrightarrow> get_by_email e d = Inr None"
  by (auto simp: get_by_email_def scalar_one_or_none_def filter_empty_conv split: list.splits)

lemma no_phone: "(\<And>x. x \<in> set (t_user d) \<Longrightarrow> u_phone x \<noteq> Some p) \<Longrightarrow> get_by_phone p d = Inr None"
  by (auto simp: get_by_phone_def scalar_one_or_none_def filter_empty_conv split: list.splits)

lemma unique_id:
  assumes "accounts_ok d" "u \<in> set (t_user d)"
  shows "get_by_id (u_id u) d = Some u"
  unfolding get_by_id_def using assms by (intro find_key_unique) (simp add: accounts_ok_def)

lemma hash_app: "hash_password env p w = (Inr (env_argon_hash env (entropy w) p), w\<lparr>entropy := entropy w + 1\<rparr>)"
  by (simp add: hash_password_def bindM_app)

text \<open>What a registration leaves.\<close>

lemma registered:
  assumes "register env data s = (Inr u, s1)"
  shows "u \<in> set (t_user (work s1))" "u_email u = rq_email data" "u_phone u = rq_phone data" "u_is_active u"
    "\<exists>n. u_password_hash u = env_argon_hash env n (rq_password data)" "committed s1 = work s1" "\<not> u_is_staff u"
proof -
  obtain h sa sb sc where h: "remote (hash_password env (rq_password data)) sa = (Inr h, sb)"
    and user: "create_user (rq_email data) h (rq_phone data) sb = (Inr u, sc)" and s1: "s1 = sc\<lparr>committed := work sc\<rparr>"
    using assms unfolding register_def bindM_Inr by auto
  have "h = env_argon_hash env (entropy (outside sa)) (rq_password data)"
    using h by (auto simp: remote_def hash_app)
  with user show "u \<in> set (t_user (work s1))" "u_email u = rq_email data" "u_phone u = rq_phone data" "u_is_active u"
    "\<exists>n. u_password_hash u = env_argon_hash env n (rq_password data)" "committed s1 = work s1" "\<not> u_is_staff u"
    by (auto simp: create_user_def bindM_Inr bindM_app Let_def s1 split: sum.splits)
qed

lemma issue_pair_run:
  assumes "jwt_sound env"
  shows "\<exists>pair w'. issue_pair env uid w = (Inr pair, w') \<and> tp_access pair \<noteq> [] \<and> tp_refresh pair \<noteq> []
    \<and> (\<forall>t ty. env_now env \<le> t \<longrightarrow> decode_token (env\<lparr>env_now := t\<rparr>) (tp_access pair) ty =
        (if ty = Access \<and> t < (unix_time env + access_token_ttl_min (env_cfg env) * 60) * SECOND
         then Inr \<lparr>tc_sub = uid, tc_jti = env_uuid_hex env (entropy w), tc_type = Access,
                tc_exp = unix_time env + access_token_ttl_min (env_cfg env) * 60\<rparr>
         else Inl InvalidTokenError))
    \<and> (\<forall>t ty. env_now env \<le> t \<longrightarrow> decode_token (env\<lparr>env_now := t\<rparr>) (tp_refresh pair) ty =
        (if ty = Refresh \<and> t < (unix_time env + refresh_token_ttl_days (env_cfg env) * 86400) * SECOND
         then Inr \<lparr>tc_sub = uid, tc_jti = env_uuid_hex env (entropy w + 1), tc_type = Refresh,
                tc_exp = unix_time env + refresh_token_ttl_days (env_cfg env) * 86400\<rparr>
         else Inl InvalidTokenError))
    \<and> redis_keys w' = redis_keys w"
proof -
  obtain a j1 w1 where a: "create_token env uid Access (access_token_ttl_min (env_cfg env) * 60) w = (Inr (a, j1), w1)"
    and j1: "j1 = env_uuid_hex env (entropy w)" and w1: "w1 = w\<lparr>entropy := entropy w + 1\<rparr>"
    by (simp add: create_token_def bindM_app Let_def)
  obtain b j2 w2 where b: "create_token env uid Refresh (refresh_token_ttl_days (env_cfg env) * 86400) w1 = (Inr (b, j2), w2)"
    and j2: "j2 = env_uuid_hex env (entropy w1)" and w2: "w2 = w1\<lparr>entropy := entropy w1 + 1\<rparr>"
    by (simp add: create_token_def bindM_app Let_def)
  have "issue_pair env uid w = (Inr \<lparr>tp_access = a, tp_refresh = b\<rparr>, w2)"
    by (simp add: issue_pair_def create_access_token_def create_refresh_token_def bindM_app a b)
  moreover have "a \<noteq> []" "b \<noteq> []"
    using a b assms by (auto simp: create_token_def bindM_app Let_def jwt_sound_def)
  moreover have "decode_token (env\<lparr>env_now := t\<rparr>) a ty = (if ty = Access \<and> t < (unix_time env + access_token_ttl_min (env_cfg env) * 60) * SECOND
         then Inr \<lparr>tc_sub = uid, tc_jti = env_uuid_hex env (entropy w), tc_type = Access,
                tc_exp = unix_time env + access_token_ttl_min (env_cfg env) * 60\<rparr>
         else Inl InvalidTokenError)" if "env_now env \<le> t" for t ty
    using decode_minted [OF assms a, of "env\<lparr>env_now := t\<rparr>" ty] that j1 by auto
  moreover have "decode_token (env\<lparr>env_now := t\<rparr>) b ty = (if ty = Refresh \<and> t < (unix_time env + refresh_token_ttl_days (env_cfg env) * 86400) * SECOND
         then Inr \<lparr>tc_sub = uid, tc_jti = env_uuid_hex env (entropy w + 1), tc_type = Refresh,
                tc_exp = unix_time env + refresh_token_ttl_days (env_cfg env) * 86400\<rparr>
         else Inl InvalidTokenError)" if "env_now env \<le> t" for t ty
    using decode_minted [OF assms b, of "env\<lparr>env_now := t\<rparr>" ty] that j2 w1 by auto
  ultimately show ?thesis using w1 w2 by auto
qed

text \<open>An active account and its password.\<close>

lemma login_run:
  assumes "jwt_sound env" "argon_sound env" "resolve_login_user data (work s) = Inr (Some u)"
    and "u_password_hash u = env_argon_hash env n pw" "u_is_active u"
  shows "login env data s = (if lq_password data = pw then
      (case issue_pair env (u_id u) (outside s) of (r, w) \<Rightarrow> (r, s\<lparr>outside := w\<rparr>))
    else (Inl unauthorized, s))"
  using assms by (auto simp: login_def bindM_app Let_def verify_password_def argon_sound_def remote_def split: prod.splits)

lemma login_unknown:
  assumes "argon_sound env" "resolve_login_user data (work s) = Inr None"
  shows "login env data s = (Inl unauthorized, s)"
  using assms by (simp add: login_def bindM_app Let_def verify_password_def argon_sound_def DUMMY_PASSWORD_HASH_def)

lemma current_user_run:
  assumes "extract_access_token r = Some token" "token \<noteq> []" "decode_token env token Access = Inr c"
    and "get_by_id (tc_sub c) (work s) = Some u"
  shows "current_user env r s = ((if u_is_active u then Inr u else Inl unauthorized), s)"
  using assms by (simp add: current_user_def bindM_app)

lemma registered_login:
  assumes inv: "accounts_inv s" and sound: "jwt_sound env" "argon_sound env" and run: "register env data s = (Inr u, s1)"
    and e: "lower e = lower (rq_email data)" "e \<noteq> []"
  shows "\<exists>pair s2. login (env\<lparr>env_now := t\<rparr>) \<lparr>lq_email = Some e, lq_phone = None, lq_password = rq_password data\<rparr> s1 = (Inr pair, s2)
      \<and> work s2 = work s1 \<and> (\<forall>r t'. extract_access_token r = Some (tp_access pair) \<longrightarrow> t \<le> t' \<longrightarrow>
        t' < (t div SECOND + access_token_ttl_min (env_cfg env) * 60) * SECOND \<longrightarrow>
        current_user (env\<lparr>env_now := t'\<rparr>) r s2 = (Inr u, s2))"
    and "p \<noteq> rq_password data \<Longrightarrow>
      login (env\<lparr>env_now := t\<rparr>) \<lparr>lq_email = Some e, lq_phone = None, lq_password = p\<rparr> s1 = (Inl unauthorized, s1)"
proof -
  note reg = registered [OF run]
  let ?env = "env\<lparr>env_now := t\<rparr>" and ?d = "\<lambda>p. \<lparr>lq_email = Some e, lq_phone = None, lq_password = p\<rparr>"
  have "accounts_inv s1" using preservesD [OF register_keeps run inv] .
  then have ok: "accounts_ok (work s1)" by (simp add: accounts_inv_def both_def)
  have found: "resolve_login_user (?d p) (work s1) = Inr (Some u)" for p
    using unique_email [OF ok reg(1)] e reg(2) by (simp add: resolve_login_user_def)
  obtain n where h: "u_password_hash u = env_argon_hash ?env n (rq_password data)" using reg(5) by auto
  have sound': "jwt_sound ?env" "argon_sound ?env" using sound by (simp_all add: jwt_sound_def argon_sound_def)
  note login = login_run [OF sound' found h reg(4)]
  show "p \<noteq> rq_password data \<Longrightarrow> login ?env (?d p) s1 = (Inl unauthorized, s1)"
    by (simp add: login)
  obtain pair w' where pair: "issue_pair ?env (u_id u) (outside s1) = (Inr pair, w')" "tp_access pair \<noteq> []"
    and acc: "\<And>t' ty. t \<le> t' \<Longrightarrow> decode_token (env\<lparr>env_now := t'\<rparr>) (tp_access pair) ty =
        (if ty = Access \<and> t' < (t div SECOND + access_token_ttl_min (env_cfg env) * 60) * SECOND
         then Inr \<lparr>tc_sub = u_id u, tc_jti = env_uuid_hex env (entropy (outside s1)), tc_type = Access,
                tc_exp = t div SECOND + access_token_ttl_min (env_cfg env) * 60\<rparr>
         else Inl InvalidTokenError)"
    using issue_pair_run [OF sound'(1), of "u_id u" "outside s1"] by (auto simp: unix_time_def)
  have "current_user (env\<lparr>env_now := t'\<rparr>) r (s1\<lparr>outside := w'\<rparr>) = (Inr u, s1\<lparr>outside := w'\<rparr>)"
    if "extract_access_token r = Some (tp_access pair)" "t \<le> t'" "t' < (t div SECOND + access_token_ttl_min (env_cfg env) * 60) * SECOND" for r t'
    using current_user_run [OF that(1) pair(2), of "env\<lparr>env_now := t'\<rparr>"] acc [OF that(2), of Access] that(3)
      unique_id [OF ok reg(1)] reg(4) by simp
  moreover have "login ?env (?d (rq_password data)) s1 = (Inr pair, s1\<lparr>outside := w'\<rparr>)"
    by (simp add: login pair)
  ultimately show "\<exists>pair s2. login ?env (?d (rq_password data)) s1 = (Inr pair, s2)
      \<and> work s2 = work s1 \<and> (\<forall>r t'. extract_access_token r = Some (tp_access pair) \<longrightarrow> t \<le> t' \<longrightarrow>
        t' < (t div SECOND + access_token_ttl_min (env_cfg env) * 60) * SECOND \<longrightarrow>
        current_user (env\<lparr>env_now := t'\<rparr>) r s2 = (Inr u, s2))"
    by auto
qed

subsection \<open>Erasing an account\<close>

definition erased_user :: "environment \<Rightarrow> nat \<Rightarrow> app_user \<Rightarrow> app_user" where
  "erased_user env n u = u\<lparr>u_email := placeholder_email (u_id u), u_phone := None,
     u_password_hash := env_argon_hash env (n + 1) (env_token_urlsafe env n),
     u_is_active := False, u_is_staff := False, u_role := None\<rparr>"

text \<open>What is left of the tables when the account \<open>u\<close> has been erased.\<close>

definition erased_db :: "app_user \<Rightarrow> app_user \<Rightarrow> db \<Rightarrow> db" where
  "erased_db u u' d =
    (let uid = u_id u; carts = map c_id (filter (\<lambda>c. c_user_id c = Some uid) (t_cart d));
         addresses = map a_id (filter (\<lambda>a. a_user_id a = uid) (t_address d)) in
      d\<lparr>t_address := filter (\<lambda>a. a_user_id a \<noteq> uid) (t_address d),
        t_order := upd (\<lambda>x. \<exists>i \<in> set addresses. o_delivery_address_id x = Some i)
          (\<lambda>x. x\<lparr>o_delivery_address_id := None\<rparr>) (t_order d),
        t_restock := filter (\<lambda>r. rs_user_id r \<noteq> uid) (t_restock d),
        t_cart_item := filter (\<lambda>l. ci_cart_id l \<notin> set carts) (t_cart_item d),
        t_cart := filter (\<lambda>c. c_user_id c \<noteq> Some uid) (t_cart d),
        t_user := upd (\<lambda>x. u_id x = uid) (\<lambda>_. u') (t_user d)\<rparr>)"

lemma anonymize_run:
  assumes "get_by_id uid (work s) = Some u"
  shows "\<exists>s'. anonymize_account env uid s =
    (let u' = erased_user env (entropy (outside s)) u in
      if user_unique u' (work s)
      then (Inr (), s'\<lparr>work := erased_db u u' (work s), committed := erased_db u u' (work s)\<rparr>)
      else (Inl (IntegrityError ''app_user''), s')) \<and> committed s' = committed s \<and> pk_seq s' = pk_seq s"
proof -
  have uid: "u_id u = uid" using get_by_id_Some [OF assms] by simp
  have users: "user_unique u' d = user_unique u' d'" if "t_user d = t_user d'" for u' d d'
    using that by (simp add: user_unique_def)
  show ?thesis
    by (rule exI [of _ "snd (bindM (delete_all_addresses uid) (\<lambda>_. bindM (delete_subscriptions_of uid) (\<lambda>_.
        bindM (Cart.delete_all_for_user uid) (\<lambda>_. bindM (remote (token_urlsafe env)) (\<lambda>secret.
        remote (hash_password env secret))))) s)"])
      (simp add: anonymize_account_def bindM_app assms delete_all_addresses_def delete_subscriptions_of_def
        Cart.delete_all_for_user_def remote_def token_urlsafe_def hash_app Let_def uid erased_user_def erased_db_def
        drop_addresses_def set_user_def users guardE_def user_unique_def)
qed

text \<open>The erased account is found under its placeholder only, and its row is inactive.\<close>

lemma erased_rows:
  assumes "accounts_ok d" "u \<in> set (t_user d)" "u_id u' = u_id u"
  shows "x \<in> set (t_user (erased_db u u' d)) \<longleftrightarrow> x = u' \<or> x \<in> set (t_user d) \<and> u_id x \<noteq> u_id u"
  using assms(2) by (auto simp: erased_db_def Let_def set_upd)

lemma erased_by_id:
  assumes "u \<in> set (t_user d)" "u_id u' = u_id u"
  shows "get_by_id (u_id u) (erased_db u u' d) = Some u'"
proof -
  have "find (\<lambda>x. u_id x = u_id u) (upd (\<lambda>x. u_id x = u_id u) (\<lambda>_. u') (t_user d))
      = map_option (\<lambda>r. if u_id r = u_id u then u' else r) (find (\<lambda>x. u_id x = u_id u) (t_user d))"
    by (rule find_upd) (simp add: assms(2))
  moreover obtain r where "find (\<lambda>x. u_id x = u_id u) (t_user d) = Some r"
    using assms(1) by (metis (mono_tags, lifting) find_None_iff not_None_eq)
  ultimately show ?thesis using find_SomeD by (force simp: get_by_id_def erased_db_def Let_def)
qed

lemma erased_login:
  assumes "argon_sound env" "accounts_ok d" "u \<in> set (t_user d)" "u_id u' = u_id u" "\<not> u_is_active u'" "u_phone u' = None"
    and "work s = erased_db u u' d"
    and "lq_email data = Some e \<and> lower e = lower (u_email u) \<and> e \<noteq> [] \<and> lower e \<noteq> lower (u_email u')
      \<or> lq_email data = None \<and> lq_phone data = u_phone u \<and> u_phone u \<noteq> None"
  shows "login env data s = (Inl unauthorized, s)"
proof -
  have other: "x \<in> set (t_user d) \<Longrightarrow> u_id x \<noteq> u_id u \<Longrightarrow>
      lower (u_email x) \<noteq> lower (u_email u) \<and> (u_phone u = None \<or> u_phone x \<noteq> u_phone u)" for x
    using assms(2,3) unfolding accounts_ok_def user_unique_iff by blast
  have "resolve_login_user data (work s) = Inr None"
    using assms(8)
  proof (elim disjE conjE)
    assume e: "lq_email data = Some e" "lower e = lower (u_email u)" "e \<noteq> []" "lower e \<noteq> lower (u_email u')"
    have "get_by_email e (work s) = Inr None"
      by (rule no_email) (use other e in \<open>auto simp: assms(7) erased_rows [OF assms(2-4)]\<close>)
    with e show ?thesis by (simp add: resolve_login_user_def)
  next
    assume ph: "lq_email data = None" "lq_phone data = u_phone u" "u_phone u \<noteq> None"
    then obtain p where p: "u_phone u = Some p" by auto
    have "get_by_phone p (work s) = Inr None"
      by (rule no_phone) (use other p assms(6) in \<open>auto simp: assms(7) erased_rows [OF assms(2-4)]\<close>)
    with ph p show ?thesis by (simp add: resolve_login_user_def)
  qed
  then show ?thesis by (rule login_unknown [OF assms(1)])
qed

text \<open>Nobody is current on an erased account.\<close>

lemma erased_current:
  assumes "u \<in> set (t_user d)" "u_id u' = u_id u" "\<not> u_is_active u'" "work s = erased_db u u' d"
    and "current_user env r s = (Inr x, s')"
  shows "u_id x \<noteq> u_id u"
proof
  assume eq: "u_id x = u_id u"
  obtain i where "get_by_id i (work s) = Some x" and active: "u_is_active x"
    using assms(5) unfolding current_user_def
    by (auto simp: bindM_app split: option.splits sum.splits if_splits)
  moreover then have "i = u_id u" using get_by_id_Some eq by force
  ultimately show False using erased_by_id [OF assms(1,2)] assms(3,4) active by simp
qed

text \<open>
  Anybody may register the placeholder of an account that still exists; the erasure of that
  account then fails on the unique index, and nothing of it is erased.
\<close>

lemma placeholder_registrable: "email_pattern (placeholder_email 9)"
  by code_simp

lemma erasure_blocked:
  assumes "get_by_id uid (work s) = Some u" "x \<in> set (t_user (work s))" "u_id x \<noteq> uid"
    and "lower (u_email x) = lower (placeholder_email uid)"
  shows "\<exists>s'. anonymize_account env uid s = (Inl (IntegrityError ''app_user''), s') \<and> committed s' = committed s"
proof -
  have "\<not> user_unique (erased_user env n u) (work s)" for n
    using assms get_by_id_Some [OF assms(1)] by (auto simp: user_unique_iff erased_user_def)
  then show ?thesis using anonymize_run [OF assms(1), of env] by auto
qed

subsection \<open>Concurrent rotations\<close>

text \<open>Two requests that look at the blacklist before either writes to it both get a new pair.\<close>

lemma refresh_race:
  assumes "env_cache_up env" "refresh_check env token w = (Inr c, w')"
  shows "w' = w" "\<exists>p1 w1 p2 w2. refresh_rotate env c w = (Inr p1, w1) \<and> refresh_rotate env c w1 = (Inr p2, w2)"
proof -
  show "w' = w" using assms
    by (auto simp: refresh_check_def is_blacklisted_def redis_exists_def redis_call_def bindM_app split: sum.splits if_splits)
  have "\<exists>p w1. refresh_rotate env c v = (Inr p, w1)" for v
    using assms(1) by (simp add: refresh_rotate_def blacklist_def redis_set_ex_def redis_call_def issue_pair_def
        create_access_token_def create_refresh_token_def create_token_def bindM_app Let_def)
  then show "\<exists>p1 w1 p2 w2. refresh_rotate env c w = (Inr p1, w1) \<and> refresh_rotate env c w1 = (Inr p2, w2)" by meson
qed

end
