(* ===== verification/Auth_Privacy.thy ===== *)
theory Auth_Privacy
  imports Auth_Account
begin

text \<open>
  A customer's address book under the calls of everybody else, and who is let in as staff.
\<close>

definition address_book :: "int \<Rightarrow> db \<Rightarrow> address list" where
  "address_book uid d = filter (\<lambda>a. a_user_id a = uid) (t_address d)"

definition book_is :: "int \<Rightarrow> address list \<Rightarrow> session \<Rightarrow> bool" where
  "book_is uid X = both (\<lambda>d. address_book uid d = X)"

lemma book_prims [pres]:
  "preserves (book_is uid X) (next_id t)" "preserves (book_is uid X) commit" "preserves (book_is uid X) (remote m)"
  unfolding book_is_def by (intro pres)+

lemma book_other: "(\<And>d. t_address (g d) = t_address d) \<Longrightarrow> preserves (book_is uid X) (writes g)"
  unfolding book_is_def by (intro pres) (simp add: address_book_def)

lemma filter_upd_other:
  "(\<And>x. x \<in> set rows \<Longrightarrow> P x \<Longrightarrow> \<not> Q x \<and> \<not> Q (f x)) \<Longrightarrow> filter Q (upd P f rows) = filter Q rows"
  by (induction rows) auto

lemma book_cleared: "caller \<noteq> uid \<Longrightarrow> filter (\<lambda>a. a_user_id a = uid) (cleared caller rows) = filter (\<lambda>a. a_user_id a = uid) rows"
  unfolding cleared_def by (rule filter_upd_other) auto

lemma book_clear_default: "caller \<noteq> uid \<Longrightarrow> preserves (book_is uid X) (clear_default caller)"
  by (rule preservesI) (auto simp: clear_default_app book_is_def both_def address_book_def book_cleared)

lemma book_create_address: "caller \<noteq> uid \<Longrightarrow> preserves (book_is uid X) (create_address caller data)"
proof -
  assume other: "caller \<noteq> uid"
  show ?thesis
    unfolding create_address_def Let_def
    by (intro pres book_clear_default other) (use other in \<open>auto simp: book_is_def both_def address_book_def\<close>)
qed

lemma cleared_row: "x \<in> set (cleared uid rows) \<Longrightarrow> \<exists>y \<in> set rows. a_id y = a_id x \<and> a_user_id y = a_user_id x"
  unfolding cleared_def by (induction rows) (auto split: if_splits)

lemma book_own_row:
  assumes "addresses_ok d" "find_address caller aid d = Some a" "caller \<noteq> uid" "x \<in> set (t_address d)" "a_id x = aid"
  shows "a_user_id x = caller"
  using assms find_address_Some [OF assms(2)] distinct_key_inj [of a_id "t_address d" x a]
  by (auto simp: addresses_ok_def)

lemma book_update_address:
  assumes other: "caller \<noteq> uid" and inv: "accounts_inv s" and book: "book_is uid X s"
    and run: "update_address caller aid data s = (r, s')"
  shows "book_is uid X s'"
proof (cases "find_address caller aid (work s)")
  case None
  with run book show ?thesis by (auto simp: update_address_def get_owned_address_def bindM_app the_orE_def)
next
  case (Some a)
  let ?clear = "ax_is_default data = Some (Some True) \<and> \<not> a_is_default a"
  define rows where "rows = (if ?clear then cleared caller (t_address (work s)) else t_address (work s))"
  have ok: "addresses_ok (work s)" using inv by (simp add: accounts_inv_def both_def)
  have own: "a_user_id x = caller" if x: "x \<in> set rows" "a_id x = aid" for x
  proof -
    obtain y where y: "y \<in> set (t_address (work s))" "a_id y = a_id x" "a_user_id y = a_user_id x"
      using x(1) cleared_row [of x caller "t_address (work s)"] by (auto simp: rows_def split: if_splits)
    then show ?thesis using book_own_row [OF ok Some other y(1)] x(2) by simp
  qed
  have rows: "filter (\<lambda>a. a_user_id a = uid) rows = X"
    using book other by (simp add: rows_def book_cleared book_is_def both_def address_book_def)
  have "filter (\<lambda>a. a_user_id a = uid) (upd (\<lambda>x. a_id x = aid) (\<lambda>_. a') rows) = X"
    if "patched_address data a = Some a'" for a'
    using rows patched_fields(2) [OF that] find_address_Some [OF Some] own other
    by (subst filter_upd_other) auto
  moreover have "(case patched_address data a of
        None \<Rightarrow> (Inl (IntegrityError ''address''), s\<lparr>work := with_addresses rows (work s)\<rparr>)
      | Some a' \<Rightarrow> (Inr a', s\<lparr>work := with_addresses (upd (\<lambda>x. a_id x = aid) (\<lambda>_. a') rows) (work s),
          committed := with_addresses (upd (\<lambda>x. a_id x = aid) (\<lambda>_. a') rows) (work s)\<rparr>)) = (r, s')"
    using run by (cases ?clear)
      (auto simp: update_address_def get_owned_address_def bindM_app the_orE_def Some rows_def clear_default_app
        with_addresses_def split: option.splits)
  ultimately show ?thesis using rows book
    by (cases "patched_address data a") (simp_all add: book_is_def both_def address_book_def, auto)
qed

lemma book_delete_address:
  assumes other: "caller \<noteq> uid" and inv: "accounts_inv s" and book: "book_is uid X s"
    and run: "delete_address caller aid s = (r, s')"
  shows "book_is uid X s'"
proof (cases "find_address caller aid (work s)")
  case None
  with run book show ?thesis by (auto simp: delete_address_def get_owned_address_def bindM_app the_orE_def)
next
  case (Some a)
  have ok: "addresses_ok (work s)" using inv by (simp add: accounts_inv_def both_def)
  have eq: "address_book uid (drop_addresses (\<lambda>x. a_id x = a_id a) (work s)) = address_book uid (work s)"
    unfolding address_book_def drop_addresses_simps filter_filter
    by (rule filter_cong [OF refl]) (metis book_own_row [OF ok Some other] find_address_Some [OF Some] other)
  have "s' = s\<lparr>work := drop_addresses (\<lambda>x. a_id x = a_id a) (work s),
      committed := drop_addresses (\<lambda>x. a_id x = a_id a) (work s)\<rparr>"
    using run by (simp add: delete_address_def get_owned_address_def bindM_app Some)
  then show ?thesis using book by (simp add: book_is_def both_def eq)
qed

lemma book_drop: "caller \<noteq> uid \<Longrightarrow> address_book uid (drop_addresses (\<lambda>a. a_user_id a = caller) d) = address_book uid d"
  unfolding address_book_def drop_addresses_simps filter_filter by (rule filter_cong [OF refl]) auto

lemma book_anonymize: "caller \<noteq> uid \<Longrightarrow> preserves (book_is uid X) (anonymize_account env caller)"
  unfolding anonymize_account_def delete_all_addresses_def delete_subscriptions_of_def Cart.delete_all_for_user_def Let_def
  by (intro pres) (auto simp: book_is_def both_def book_drop, auto simp: address_book_def set_user_def)

subsection \<open>Over the calls\<close>

text \<open>The request whose credentials a call is made with, when it is behind \<open>current_user\<close>.\<close>

fun credentials :: "auth_call \<Rightarrow> web_request option" where
  "credentials (Call_Me r) = Some r"
| "credentials (Call_Update_Me r _) = Some r"
| "credentials (Call_Delete_Me r) = Some r"
| "credentials (Call_List_Addresses r) = Some r"
| "credentials (Call_Create_Address r _) = Some r"
| "credentials (Call_Update_Address r _ _) = Some r"
| "credentials (Call_Delete_Address r _) = Some r"
| "credentials _ = None"

text \<open>The customer a call acts for.\<close>

definition acts_for :: "environment \<Rightarrow> auth_call \<Rightarrow> session \<Rightarrow> int option" where
  "acts_for env c s = (case credentials c of
      None \<Rightarrow> None
    | Some r \<Rightarrow> (case fst (current_user env r s) of Inl _ \<Rightarrow> None | Inr u \<Rightarrow> Some (u_id u)))"

lemma bind_current_user:
  assumes "bindM (current_user env r) f s = (out, s')"
  shows "s' = s \<or> (\<exists>u. fst (current_user env r s) = Inr u \<and> f u s = (out, s'))"
  using assms read_onlyD [OF current_user_read_only, of env r s]
  by (cases "current_user env r s") (auto simp: bindM_app split: sum.splits)

lemma void_run: "void m s = (out, s') \<Longrightarrow> \<exists>r. m s = (r, s')"
  by (auto simp: void_def bindM_app split: prod.splits sum.splits)

lemma guest_calls_book:
  assumes "credentials c = None"
  shows "preserves (book_is uid X) (call_act env c)"
proof -
  have create: "preserves (book_is uid X) (create_user e h p)" for e h p
    unfolding create_user_def Let_def by (intro pres book_other) simp
  have [pres]: "preserves (book_is uid X) (register env data)" for data
    unfolding register_def by (intro pres create)
  have [pres]: "preserves (book_is uid X) (login env data)" for data
    by (rule login_keeps) (intro pres)
  show ?thesis using assms
    by (cases c) (simp_all only: call_act.simps void_def endpoint_defs credentials.simps option.distinct, (intro pres)+)
qed

lemma calls_keep_book:
  assumes inv: "accounts_inv s" and book: "book_is uid X s" and who: "acts_for env c s \<noteq> Some uid"
    and run: "call_act env c s = (out, s')"
  shows "book_is uid X s'"
proof (cases "credentials c")
  case None
  then show ?thesis using preservesD [OF guest_calls_book run book] by simp
next
  case (Some r)
  have other: "u_id u \<noteq> uid" if "fst (current_user env r s) = Inr u" for u
    using who that by (simp add: acts_for_def Some)
  have same: "book_is uid X s" by (rule book)
  have update_me: "preserves (book_is uid X) (update_me u ph)" for u ph
    unfolding update_me_def get_me_def Let_def by (intro pres book_other) (simp_all add: set_user_def)
  have step: "book_is uid X s'" if "bindM (current_user env r) f s = (x, s')"
    "\<And>u. u_id u \<noteq> uid \<Longrightarrow> f u s = (x, s') \<Longrightarrow> book_is uid X s'" for f :: "app_user \<Rightarrow> 'x act" and x
    using bind_current_user [OF that(1)] that(2) other same by blast
  show ?thesis
  proof (cases c)
    case (Call_Me q)
    then obtain x where "current_user env q s = (x, s')" using run by (auto simp: get_me_endpoint_def dest!: void_run)
    then show ?thesis using read_onlyD [OF current_user_read_only] same by blast
  next
    case (Call_List_Addresses q)
    with run Some obtain x where "bindM (current_user env r) (\<lambda>u. reads (list_addresses (u_id u))) s = (x, s')"
      by (auto simp: list_addresses_endpoint_def dest!: void_run)
    then show ?thesis by (rule step) (use same in auto)
  next
    case (Call_Update_Me q ph)
    with run Some obtain x where "bindM (current_user env r) (\<lambda>u. bindM (liftE (guardE (option_ok (option_ok (length_in 3 32)) ph) invalid))
        (\<lambda>_. update_me (u_id u) ph)) s = (x, s')"
      by (auto simp: update_me_endpoint_def dest!: void_run)
    then show ?thesis
      by (rule step) (use same in \<open>auto simp: bindM_app split: sum.splits dest: preservesD [OF update_me]\<close>)
  next
    case (Call_Delete_Me q)
    with run Some obtain x where "bindM (current_user env r) (\<lambda>u. bindM (anonymize_account env (u_id u)) (\<lambda>_. ret cleared_cookies)) s = (x, s')"
      by (auto simp: delete_me_endpoint_def dest!: void_run)
    then show ?thesis
      by (rule step) (use same in \<open>auto simp: bindM_app split: sum.splits prod.splits dest: preservesD [OF book_anonymize]\<close>)
  next
    case (Call_Create_Address q data)
    with run Some obtain x where "bindM (current_user env r) (\<lambda>u. bindM (liftE (address_create_in data)) (\<lambda>_. create_address (u_id u) data)) s = (x, s')"
      by (auto simp: create_address_endpoint_def dest!: void_run)
    then show ?thesis
      by (rule step) (use same in \<open>auto simp: bindM_app split: sum.splits dest: preservesD [OF book_create_address]\<close>)
  next
    case (Call_Update_Address q aid data)
    with run Some obtain x where "bindM (current_user env r) (\<lambda>u. bindM (liftE (address_update_in data)) (\<lambda>_. update_address (u_id u) aid data)) s = (x, s')"
      by (auto simp: update_address_endpoint_def dest!: void_run)
    then show ?thesis
      by (rule step) (use same in \<open>auto simp: bindM_app split: sum.splits dest: book_update_address [OF _ inv same]\<close>)
  next
    case (Call_Delete_Address q aid)
    with run Some obtain x where "bindM (current_user env r) (\<lambda>u. delete_address (u_id u) aid) s = (x, s')"
      by (auto simp: delete_address_endpoint_def dest!: void_run)
    then show ?thesis
      by (rule step) (rule book_delete_address [OF _ inv same])
  qed (use Some in simp_all)
qed

end
