(* ===== verification/Service_Properties.thy ===== *)
theory Service_Properties
  imports Sample Auth_Privacy
begin

text \<open>
  The properties of accounts, sessions and rate limits, on a shop with two registered people: a
  customer and a member of staff.
\<close>

definition ana_user :: app_user where
  "ana_user = \<lparr>u_id = 9, u_email = ''Ana@x.md'', u_is_active = True, u_is_staff = False, u_phone = Some ''069'',
     u_password_hash = toy_hash 0 ''password'', u_role = None\<rparr>"

definition dan_user :: app_user where
  "dan_user = \<lparr>u_id = 10, u_email = ''dan@x.md'', u_is_active = True, u_is_staff = True, u_phone = None,
     u_password_hash = toy_hash 0 ''letmein!'', u_role = None\<rparr>"

definition members_db :: db where
  "members_db = shop_db\<lparr>t_user := [ana_user, dan_user],
     t_product := t_product shop_db @ [\<lparr>p_id = 3, p_category_id = 1, p_code = ''C-3'', p_price = 70, p_old_price = None,
       p_qty = 0, p_is_active = True, p_is_featured = False, p_has_variants = False, p_weight_g = None, p_updated_at = 0\<rparr>],
     t_product_translation := [\<lparr>pt_product_id = 3, pt_lang = ''ro'', pt_name = ''Ceas'', pt_slug = ''ceas'',
       pt_description = None, pt_seo_title = None, pt_seo_description = None\<rparr>]\<rparr>"

definition members :: session where
  "members = shop\<lparr>work := members_db, committed := members_db\<rparr>"

text \<open>A request with a bearer token, and a token of Ana's.\<close>

definition bearing :: "string \<Rightarrow> web_request" where
  "bearing token = \<lparr>wr_headers = [], wr_cookies = [(''access'', token)], wr_client_host = Some ''10.0.0.1''\<rparr>"

definition ana_token :: "token_type \<Rightarrow> string" where
  "ana_token ty = toy_jwt_encode (jwt_secret shop_settings) (token_payload ''9'' ''j1'' (type_value ty) 1000 0)"

lemma shop_libraries: "jwt_sound shop_env" "argon_sound shop_env" "uuid_fresh shop_env" "jwt_clocked shop_env"
proof -
  have "env_jwt_encode shop_env = toy_jwt_encode" "env_jwt_decode shop_env = toy_jwt_decode"
    "env_argon_hash shop_env = toy_hash" "env_argon_verify shop_env = toy_verify" "env_uuid_hex shop_env = nat_str"
    by (simp_all add: shop_env_def)
  then show "jwt_sound shop_env" "argon_sound shop_env" "uuid_fresh shop_env" "jwt_clocked shop_env"
    using toy_sound toy_clocked by blast+
qed

lemma members_sides [simp]: "work members = members_db" "committed members = members_db" "pk_seq members = pk_seq shop"
  by (simp_all add: members_def)

lemma members_users: "t_user members_db = [ana_user, dan_user]"
  by (simp add: members_db_def)

lemma members_ok: "accounts_inv members"
proof -
  have "accounts_ok members_db"
    by (simp add: accounts_ok_def user_unique_def members_users) (simp add: ana_user_def dan_user_def lower_def lower_char_def)
  moreover have "addresses_ok members_db" by (simp add: addresses_ok_def members_db_def shop_db_def)
  ultimately show ?thesis
    by (simp add: accounts_inv_def both_def members_users) (simp add: members_db_def shop_db_def shop_def ana_user_def dan_user_def)
qed

subsection \<open>Sessions\<close>

text \<open>
  C16. A refresh token works once: in any sequence of calls to the account endpoints, at whatever
  times, after a call that rotated the token or logged it out succeeded, no later rotation with
  the same token succeeds. What is used of PyJWT is that a payload does not depend on when it is
  opened and that an expired token is not opened; of the random identifiers, that two tokens
  of the sequence with one \<open>jti\<close> expire together.
\<close>

theorem refresh_token_dies:
  assumes "jwt_clocked env" "jtis_agree env (pre @ (t, call) # mid @ (t', Call_Refresh r body) # post)"
    and "presented call = Some T" "presented (Call_Refresh r body) = Some T"
    and "served env (pre @ (t, call) # mid @ (t', Call_Refresh r body) # post) s = (oks, s')" "oks ! length pre"
  shows "\<not> oks ! (length pre + 1 + length mid)"
  by (rule dead_token [OF assms(1,2) refl assms(3-6)])

definition replay :: "(instant \<times> auth_call) list" where
  "replay = [(600, Call_Refresh (bearing []) (Some (Some (ana_token Refresh)))),
     (700, Call_Refresh (bearing []) (Some (Some (ana_token Refresh))))]"

lemma ana_presents: "presented (Call_Refresh (bearing []) (Some (Some (ana_token Refresh)))) = Some (ana_token Refresh)"
proof -
  have "ana_token Refresh \<noteq> []" by (simp add: ana_token_def toy_jwt_nonempty)
  then show ?thesis by (simp add: presented_def read_refresh_def Let_def truthy_def)
qed

lemma replay_presents: "q \<in> set replay \<Longrightarrow> presented (snd q) = Some (ana_token Refresh)"
  using ana_presents by (auto simp: replay_def)

lemma replay_agrees: "jtis_agree shop_env replay"
proof -
  have "tc_exp c' = tc_exp c" if "decode_token (shop_env\<lparr>env_now := t\<rparr>) (ana_token Refresh) Refresh = Inr c"
    "decode_token (shop_env\<lparr>env_now := t'\<rparr>) (ana_token Refresh) Refresh = Inr c'" for t t' c c'
    using decode_twice(1) [OF shop_libraries(4) that] by simp
  moreover have "T = ana_token Refresh" if "(t, call) \<in> set replay" "presented call = Some T" for t call T
    using replay_presents [OF that(1)] that(2) by simp
  ultimately show ?thesis unfolding jtis_agree_def by blast
qed

lemma ana_claims: "decode_token (shop_env\<lparr>env_now := 600\<rparr>) (ana_token ty) ty =
    Inr \<lparr>tc_sub = 9, tc_jti = ''j1'', tc_type = ty, tc_exp = 1000\<rparr>"
proof -
  have env: "env_cfg shop_env = shop_settings" "env_jwt_decode shop_env = toy_jwt_decode"
    by (simp_all add: shop_env_def)
  have "''9'' = int_str 9" by code_simp
  then have "int_of_json (JStr ''9'') = Inr 9" by (simp add: int_of_json_def)
  then show ?thesis
    by (simp add: decode_token_def env ana_token_def toy_jwt_sound SECOND_def pydantic_int_def)
qed

lemma refresh_budget: "parse_limit (rate_limit_refresh (env_cfg shop_env)) = Inr (60, 60)"
  by code_simp

theorem refresh_token_dies_witness:
  "fst (served shop_env replay members) ! 0 \<and> \<not> fst (served shop_env replay members) ! 1"
proof
  have "fst (serve shop_env 600 (Call_Refresh (bearing []) (Some (Some (ana_token Refresh)))) members)"
    by (rule refresh_accepted [OF _ _ ana_claims _ refresh_budget])
      (use ana_presents in \<open>auto simp: redis_live_def members_def shop_def count_of_def shop_env_def\<close>)
  then show first: "fst (served shop_env replay members) ! 0"
    by (auto simp: replay_def split: prod.splits)
  obtain oks s' where run: "served shop_env replay members = (oks, s')" by (cases "served shop_env replay members")
  have "\<not> oks ! (length ([] :: (instant \<times> auth_call) list) + 1 + length ([] :: (instant \<times> auth_call) list))"
    by (rule refresh_token_dies [of shop_env "[]" 600 "Call_Refresh (bearing []) (Some (Some (ana_token Refresh)))" "[]" 700
          "bearing []" "Some (Some (ana_token Refresh))" "[]" "ana_token Refresh" members oks s'])
      (use shop_libraries(4) replay_agrees ana_presents run first in \<open>auto simp: replay_def\<close>)
  with run show "\<not> fst (served shop_env replay members) ! 1" by simp
qed

text \<open>
  C17. Registration and login: an account just registered opens, at any later time, with its e-mail
  in whatever case and the password it was registered with, and the access token it gets
  identifies that account, and no other, until the token expires; with any other password the
  answer is 401 and nothing changes.
\<close>

theorem registered_account_opens:
  assumes "accounts_inv s" "jwt_sound env" "argon_sound env" "register env data s = (Inr u, s1)"
    and "lower e = lower (rq_email data)" "e \<noteq> []"
  shows "\<exists>pair s2. login (env\<lparr>env_now := t\<rparr>) \<lparr>lq_email = Some e, lq_phone = None, lq_password = rq_password data\<rparr> s1 = (Inr pair, s2)
      \<and> work s2 = work s1 \<and> (\<forall>r t'. extract_access_token r = Some (tp_access pair) \<longrightarrow> t \<le> t' \<longrightarrow>
        t' < (t div SECOND + access_token_ttl_min (env_cfg env) * 60) * SECOND \<longrightarrow>
        current_user (env\<lparr>env_now := t'\<rparr>) r s2 = (Inr u, s2))
      \<and> (\<forall>p. p \<noteq> rq_password data \<longrightarrow>
        login (env\<lparr>env_now := t\<rparr>) \<lparr>lq_email = Some e, lq_phone = None, lq_password = p\<rparr> s1 = (Inl unauthorized, s1))"
  using registered_login [OF assms, where t = t] by blast

definition joining :: register_request where
  "joining = \<lparr>rq_email = ''eva@x.md'', rq_password = ''qwertyui'', rq_phone = None\<rparr>"

lemma joined: "\<exists>u s1. register shop_env joining members = (Inr u, s1)"
proof -
  have "isl (fst (register shop_env joining members)) = False" by code_simp
  then show ?thesis by (metis prod.collapse sum.collapse(2))
qed

theorem registered_account_opens_witness:
  "\<exists>u s1 pair s2. register shop_env joining members = (Inr u, s1) \<and>
    login (shop_env\<lparr>env_now := 900\<rparr>) \<lparr>lq_email = Some ''EVA@x.md'', lq_phone = None, lq_password = ''qwertyui''\<rparr> s1 = (Inr pair, s2) \<and>
    login (shop_env\<lparr>env_now := 900\<rparr>) \<lparr>lq_email = Some ''EVA@x.md'', lq_phone = None, lq_password = ''guess''\<rparr> s1 = (Inl unauthorized, s1)"
proof -
  obtain u s1 where run: "register shop_env joining members = (Inr u, s1)" using joined by blast
  let ?in = "\<lambda>p. login (shop_env\<lparr>env_now := 900\<rparr>) \<lparr>lq_email = Some ''EVA@x.md'', lq_phone = None, lq_password = p\<rparr> s1"
  have low: "lower ''EVA@x.md'' = lower (rq_email joining)" by code_simp
  have pw: "rq_password joining = ''qwertyui''" by (simp add: joining_def)
  obtain pair s2 where "?in (rq_password joining) = (Inr pair, s2)"
      and wrong: "\<forall>p. p \<noteq> rq_password joining \<longrightarrow> ?in p = (Inl unauthorized, s1)"
    using registered_account_opens [OF members_ok shop_libraries(1,2) run low list.distinct(2), of 900] by (elim exE conjE)
  moreover have "?in ''guess'' = (Inl unauthorized, s1)"
    using wrong by (rule allE [of _ "''guess''"]) (simp add: pw)
  ultimately show ?thesis using run unfolding pw by blast
qed

text \<open>
  C18. Over any sequence of calls to the account endpoints the account tables stay sound: no two
  accounts share an id, an e-mail (without case) or a phone, and nobody has two default
  addresses, in the committed tables as well as in the open transaction.
\<close>

theorem accounts_stay_sound: "accounts_inv s \<Longrightarrow> accounts_inv (snd (served env trace s))"
  by (rule served_keeps_accounts)

theorem accounts_stay_sound_witness: "accounts_inv (snd (served shop_env replay members))"
  by (rule accounts_stay_sound [OF members_ok])

text \<open>
  C19. Erasure: when it succeeds, what is published is the old database without the addresses, the
  subscriptions, the carts and cart lines of the account, with its orders kept (their pointers to
  its addresses nulled) and its row scrubbed and inactive; from then on neither its old e-mail
  nor its old phone opens it, and no token identifies it.
\<close>

theorem erased_account_is_gone:
  assumes "accounts_inv s" "argon_sound env" "get_by_id uid (work s) = Some u" "anonymize_account env uid s = (Inr (), s')"
  shows "\<exists>u'. committed s' = erased_db u u' (work s) \<and> work s' = committed s' \<and> u_id u' = uid \<and> \<not> u_is_active u' \<and> \<not> u_is_staff u' \<and>
      u_phone u' = None \<and> u_email u' = placeholder_email uid \<and>
      (\<forall>e p env'. lower e = lower (u_email u) \<longrightarrow> e \<noteq> [] \<longrightarrow> lower e \<noteq> lower (placeholder_email uid) \<longrightarrow> argon_sound env' \<longrightarrow>
        login env' \<lparr>lq_email = Some e, lq_phone = None, lq_password = p\<rparr> s' = (Inl unauthorized, s')) \<and>
      (\<forall>p env'. u_phone u \<noteq> None \<longrightarrow> argon_sound env' \<longrightarrow>
        login env' \<lparr>lq_email = None, lq_phone = u_phone u, lq_password = p\<rparr> s' = (Inl unauthorized, s')) \<and>
      (\<forall>env' r x s''. current_user env' r s' = (Inr x, s'') \<longrightarrow> u_id x \<noteq> uid)"
proof -
  let ?u' = "erased_user env (entropy (outside s)) u"
  have u: "u \<in> set (t_user (work s))" "u_id u = uid" using get_by_id_Some [OF assms(3)] by auto
  have ok: "accounts_ok (work s)" using assms(1) by (simp add: accounts_inv_def both_def)
  have u': "u_id ?u' = u_id u" "\<not> u_is_active ?u'" "\<not> u_is_staff ?u'" "u_phone ?u' = None" "u_email ?u' = placeholder_email uid"
    by (simp_all add: erased_user_def u(2))
  have tables: "work s' = erased_db u ?u' (work s)" "committed s' = erased_db u ?u' (work s)"
    using anonymize_run [OF assms(3), of env] assms(4) by (auto simp: Let_def split: if_splits)
  note gone = erased_login [OF _ ok u(1) u'(1,2,4) tables(1)]
  show ?thesis
  proof (intro exI [of _ ?u'] conjI allI impI)
    fix env' r x s'' assume "current_user env' r s' = (Inr x, s'')"
    from erased_current [OF u(1) u'(1,2) tables(1) this] show "u_id x \<noteq> uid" by (simp add: u(2))
  qed (use tables u' u(2) in \<open>auto intro!: gone\<close>)
qed

lemma ana_row: "get_by_id 9 (work members) = Some ana_user"
  by (simp add: get_by_id_def members_users) (simp add: ana_user_def)

theorem erased_account_is_gone_witness:
  "\<exists>s'. anonymize_account shop_env 9 members = (Inr (), s') \<and>
    login shop_env \<lparr>lq_email = Some ''ana@x.md'', lq_phone = None, lq_password = ''password''\<rparr> s' = (Inl unauthorized, s')"
proof -
  have "isl (fst (anonymize_account shop_env 9 members)) = False" by code_simp
  then obtain s' where run: "anonymize_account shop_env 9 members = (Inr (), s')"
    by (metis (full_types) old.unit.exhaust prod.collapse sum.collapse(2))
  have e: "lower ''ana@x.md'' = lower (u_email ana_user)" "lower ''ana@x.md'' \<noteq> lower (placeholder_email 9)" by code_simp+
  show ?thesis
    using erased_account_is_gone [OF members_ok shop_libraries(2) ana_row run] e shop_libraries(2) run by blast
qed

text \<open>
  C39. A customer's addresses are hers: whatever call is served, at whatever time, her address book
  stays as it was unless the call carried a token that identifies her.
\<close>

theorem address_book_is_private:
  assumes "accounts_inv s" "work s = committed s" "acts_for (env\<lparr>env_now := t\<rparr>) c s \<noteq> Some uid" "serve env t c s = (ok, s')"
  shows "address_book uid (committed s') = address_book uid (committed s)"
proof -
  obtain out s1 where run: "call_act (env\<lparr>env_now := t\<rparr>) c s = (out, s1)" and s': "s' = end_request s1"
    using assms(4) by (auto simp: serve_def split: prod.splits)
  have "book_is uid (address_book uid (committed s)) s" using assms(2) by (simp add: book_is_def both_def)
  from calls_keep_book [OF assms(1) this assms(3) run] show ?thesis
    by (simp add: s' end_request_def book_is_def both_def)
qed

theorem address_book_is_private_witness:
  "address_book 9 (committed (snd (serve shop_env 500 (Call_Delete_Address (bearing []) 3) members))) = address_book 9 (committed members)"
proof (rule address_book_is_private [OF members_ok])
  show "acts_for (shop_env\<lparr>env_now := 500\<rparr>) (Call_Delete_Address (bearing []) 3) members \<noteq> Some 9"
    by (simp add: acts_for_def bearing_def current_user_def extract_access_token_def header_def)
qed (simp_all add: prod_eq_iff)

subsection \<open>Rate limits\<close>

text \<open>
  Within one window after the first hit on a client's counter, exactly as many requests of that
  client to that bucket pass as the budget says, or all of them when there are fewer, however the
  requests of other clients and other buckets are mixed in.
\<close>

theorem window_budget_respected:
  assumes "env_cache_up env" "parse_limit setting = Inr (budget, window)" "redis_keys w (limit_key bucket ip) = None"
    and "\<forall>q \<in> set trace. t0 \<le> fst q \<and> fst q < t0 + window * 1000000"
  shows "int (admitted_of (limit_key bucket ip) trace (limited env setting trace w)) = min budget (int (hits_of (limit_key bucket ip) trace))"
  by (rule limited_window [OF assms])

definition knocking :: "(instant \<times> string \<times> web_request) list" where
  "knocking = [(0, ''login'', bearing []), (1, ''login'', bearing []), (2, ''login'', bearing []), (3, ''login'', bearing []),
     (4, ''login'', bearing []), (5, ''login'', bearing []), (6, ''login'', bearing [])]"

theorem window_budget_respected_witness:
  "int (admitted_of (limit_key ''login'' ''10.0.0.1'') knocking (limited shop_env ''5/60'' knocking (outside members))) = 5"
proof -
  have "int (admitted_of (limit_key ''login'' ''10.0.0.1'') knocking (limited shop_env ''5/60'' knocking (outside members)))
      = min 5 (int (hits_of (limit_key ''login'' ''10.0.0.1'') knocking))"
  proof (rule window_budget_respected)
    show "parse_limit ''5/60'' = Inr (5, 60)" by code_simp
    show "\<forall>q \<in> set knocking. 0 \<le> fst q \<and> fst q < 0 + 60 * 1000000" by (simp add: knocking_def)
  qed (simp_all add: shop_env_def members_def shop_def)
  moreover have "hits_of (limit_key ''login'' ''10.0.0.1'') knocking = 7" by code_simp
  ultimately show ?thesis by simp
qed

end
