(* ===== verification/Feedback_Properties.thy ===== *)
theory Feedback_Properties
  imports Restock_Correct Reviews_Correct Service_Properties
begin

text \<open>
  The properties of back-in-stock notifications and of reviews.
\<close>

subsection \<open>Back in stock\<close>

text \<open>
  A subscription is accepted exactly for a product that exists, is not variable and is out of
  stock; after it the customer is subscribed, and subscribing again leaves the tables as they are.
\<close>

theorem restock_subscription:
  assumes "restock_inv s" "\<exists>u \<in> set (t_user (work s)). u_id u = uid" "lang \<in> set ALLOWED_LANGS"
  shows "((\<exists>r. fst (subscribe env pid uid lang s) = Inr r) \<longleftrightarrow>
      (\<exists>p. get_product pid (work s) = Some p \<and> \<not> p_has_variants p \<and> p_qty p \<le> 0)) \<and>
    (\<forall>r s1. subscribe env pid uid lang s = (Inr r, s1) \<longrightarrow>
      committed s1 = work s1 \<and> is_subscribed pid uid (work s1) = Inr True \<and>
      work (snd (subscribe env pid uid lang s1)) = work s1)"
proof -
  have accepted: "(\<exists>r. fst (subscribe env pid uid lang v) = Inr r) \<longleftrightarrow>
      (\<exists>p. get_product pid (work v) = Some p \<and> \<not> p_has_variants p \<and> p_qty p \<le> 0)"
    if inv: "restock_inv v" "\<exists>u \<in> set (t_user (work v)). u_id u = uid" for v
    using subscribe_decision [OF inv assms(3), where env = env and pid = pid] by (cases "get_product pid (work v)") auto
  have again: "committed s1 = work s1 \<and> is_subscribed pid uid (work s1) = Inr True \<and>
      work (snd (subscribe env pid uid lang s1)) = work s1" if run: "subscribe env pid uid lang s = (Inr r, s1)" for r s1
  proof -
    let ?k = "(pid, uid)" and ?v = "(lang, env_now env)"
    note first = subscribe_Inr [OF run assms(1)]
    have inv1: "restock_inv s1" using preservesD [OF subscribe_keeps run assms(1)] .
    have row: "waits.row_of ?k (t_restock (work s1)) =
        Some (case waits.row_of ?k (t_restock (work s)) of None \<Rightarrow> new_subscription (pk_seq s Restock_T) ?k ?v | Some r \<Rightarrow> reactivate ?v r)"
      by (simp add: first(2) waits.put_row)
    have "waits.sound (t_restock (work s1))" using inv1 by (simp add: restock_inv_def both_def restock_ok_def)
    then have sub: "is_subscribed pid uid (work s1) = Inr True"
      by (simp add: is_subscribed_row row new_subscription_def reactivate_def split: option.splits)
    have same: "t_user (work s1) = t_user (work s)" "get_product pid (work s1) = get_product pid (work s)"
      by (simp_all add: first(2) get_product_def)
    have "\<exists>r. fst (subscribe env pid uid lang s1) = Inr r"
      using accepted [OF inv1] accepted [OF assms(1,2)] assms(2) same run by (metis fst_conv)
    then obtain r2 s2 where second: "subscribe env pid uid lang s1 = (Inr r2, s2)"
      by (cases "subscribe env pid uid lang s1") auto
    have "work s2 = work s1"
      using subscribe_Inr(2) [OF second inv1] by (simp add: first(2) waits.put_put)
    with first(3) sub second show ?thesis by simp
  qed
  show ?thesis using accepted [OF assms(1,2)] again by blast
qed

lemma members_restock: "restock_inv members"
  by (simp add: restock_inv_def both_def restock_ok_def waits.sound_def members_db_def shop_db_def empty_db_def)

theorem restock_subscription_witness:
  "(\<exists>r. fst (subscribe shop_env 3 9 ''ro'' members) = Inr r) \<and> \<not> (\<exists>r. fst (subscribe shop_env 1 9 ''ro'' members) = Inr r)"
proof -
  have langs: "''ro'' \<in> set ALLOWED_LANGS" by code_simp
  have user: "\<exists>u \<in> set (t_user (work members)). u_id u = 9" by (simp add: members_users) (simp add: ana_user_def)
  note decide = restock_subscription [OF members_restock user langs, THEN conjunct1]
  have "get_product 3 (work members) = Some (t_product members_db ! 2)" "get_product 1 (work members) = Some (t_product members_db ! 0)"
    by (simp_all add: get_product_def members_db_def shop_db_def)
  then show ?thesis unfolding decide by (simp add: members_db_def shop_db_def)
qed




text \<open>
  C40. Whatever the subscription and review operations do, and whether they succeed or fail, there is
  at most one subscription and at most one review per product and customer, a subscription is
  either active or notified with its time, and a review has a rating of one to five, a known
  status, and a moderation time exactly when it has been moderated.
\<close>

theorem one_row_per_customer:
  "preserves restock_inv (subscribe env pid uid lang) \<and> preserves restock_inv (unsubscribe pid uid) \<and>
   preserves restock_inv (notify_product env pid) \<and> preserves restock_inv (sweep env) \<and>
   preserves restock_inv (delete_subscriptions_of uid) \<and>
   preserves review_inv (submit env uid p) \<and> preserves review_inv (moderate_review_endpoint env i status) \<and>
   preserves review_inv (delete_own uid i) \<and> preserves review_inv (delete_admin i) \<and> preserves review_inv (delete_reviews_of uid)"
proof -
  have "preserves review_inv (moderate_review_endpoint env i status)"
    unfolding moderate_review_endpoint_def
    by (intro pres moderate_keeps) (auto simp: status_names [symmetric] dest: sym)
  then show ?thesis
    by (intro conjI subscribe_keeps unsubscribe_keeps notify_product_keeps sweep_keeps delete_subscriptions_of_keeps
        submit_keeps review_deletes_keep)
qed

subsection \<open>Reviews\<close>

text \<open>
  A submitted review is pending, carries the verified mark exactly when the customer has an order
  with the product that was not cancelled, replaces her earlier review of the product and
  nobody else's, and takes the earlier one off the public list until it is moderated.
\<close>

theorem submitted_review_awaits_moderation:
  assumes "review_inv s" "submit env uid p s = (Inr r, s')"
  shows "one_review.row_of (ri_product_id p, uid) (t_review (work s')) = Some r \<and> rv_status r = STATUS_PENDING \<and>
    rv_rating r = ri_rating p \<and> rv_is_verified r = has_purchased (ri_product_id p) uid (work s) \<and> committed s' = work s' \<and>
    (\<forall>k. k \<noteq> (ri_product_id p, uid) \<longrightarrow> one_review.row_of k (t_review (work s')) = one_review.row_of k (t_review (work s))) \<and>
    (\<forall>pid. approved_of pid (work s') =
      filter (\<lambda>x. (rv_product_id x, rv_user_id x) \<noteq> (ri_product_id p, uid)) (approved_of pid (work s)))"
  using submit_Inr [OF assms] by blast

definition praise :: review_in where
  "praise = \<lparr>ri_product_id = 1, ri_rating = 5, ri_title = None, ri_body = Some ''bun'', ri_author_name = None, ri_lang = ''ro''\<rparr>"

lemma members_review: "review_inv members"
  by (simp add: review_inv_def both_def review_ok_def one_review.sound_def members_db_def shop_db_def empty_db_def)

theorem submitted_review_awaits_moderation_witness:
  "\<exists>r s'. submit shop_env 9 praise members = (Inr r, s') \<and> rv_status r = STATUS_PENDING \<and> \<not> rv_is_verified r \<and> approved_of 1 (work s') = []"
proof -
  have "isl (fst (submit shop_env 9 praise members)) = False" by code_simp
  then obtain r s' where run: "submit shop_env 9 praise members = (Inr r, s')" by (metis prod.collapse sum.collapse(2))
  have "\<not> has_purchased (ri_product_id praise) 9 (work members)" "approved_of 1 (work members) = []"
    by (simp_all add: has_purchased_def approved_of_def members_db_def shop_db_def empty_db_def)
  with submitted_review_awaits_moderation [OF members_review run] run show ?thesis by auto
qed

text \<open>
  The rating summary adds up: the count is the number of approved reviews, the distribution
  lists five stars to one with how many reviews gave each, and the average, when there are
  reviews, lies between one and five.
\<close>

theorem rating_summary_adds_up:
  assumes "review_ok d"
  shows "ra_count (aggregate pid d) = length (approved_of pid d) \<and>
    ra_distribution (aggregate pid d) = map (\<lambda>star. (star, stars pid star d)) [5, 4, 3, 2, 1] \<and>
    (ra_average (aggregate pid d) = None \<longleftrightarrow> approved_of pid d = []) \<and>
    (\<forall>a. ra_average (aggregate pid d) = Some a \<longrightarrow> 1 \<le> a \<and> a \<le> 5)"
  using aggregate_average [OF assms] by (simp add: aggregate_count aggregate_distribution [OF assms])

definition few_rated :: db where
  "few_rated = empty_db\<lparr>t_review := [rated 1 5, rated 2 4, rated 3 5]\<rparr>"

lemma rated_rows: "review_ok few_rated"
  by (simp add: review_ok_def one_review.sound_def few_rated_def rated_def review_row_sound_def
      MIN_RATING_def MAX_RATING_def REVIEW_STATUSES_def STATUS_PENDING_def STATUS_APPROVED_def)

theorem rating_summary_adds_up_witness:
  "ra_count (aggregate 1 few_rated) = 3 \<and>
   ra_distribution (aggregate 1 few_rated) = [(5, 2), (4, 1), (3, 0), (2, 0), (1, 0)]"
proof -
  have "length (approved_of 1 few_rated) = 3" by code_simp
  moreover have "map (\<lambda>star. (star, stars 1 star few_rated)) [5, 4, 3, 2, 1] = [(5, 2), (4, 1), (3, 0), (2, 0), (1, 0)]"
    by code_simp
  ultimately show ?thesis using rating_summary_adds_up [OF rated_rows, of 1] by simp
qed

text \<open>
  C21. A client that follows the cursors of the newest-first review list, or of the moderation queue
  under any filter, comes to an end and has read every review of the list exactly once, in order.
\<close>

theorem review_pages_complete:
  assumes "review_ids_ok d"
  shows "walk (public_page (pid, d)) (Suc (length (approved_of pid d))) None
      = Inr (map public_out (sort_key (review_order Newest) (approved_of pid d))) \<and>
    walk (queue_page (status, product, d)) (Suc (length (queue_rows (status, product, d)))) None
      = Inr (sort_key (\<lambda>r. - rv_id r) (queue_rows (status, product, d)))"
  using public_reviews.walk_complete [of "(pid, d)"] review_queue.walk_complete [of "(status, product, d)"] assms
  by (simp add: public_reviews.listing_def review_queue.listing_def)

theorem review_pages_complete_witness:
  "walk (public_page (1, few_rated)) 4 None = Inr (map public_out [rated 3 5, rated 2 4, rated 1 5])"
proof -
  have "review_ids_ok few_rated"
    by (simp add: review_ids_ok_def few_rated_def rated_def bigint_def)
  from review_pages_complete [OF this, of 1 None None]
  have "walk (public_page (1, few_rated)) (Suc (length (approved_of 1 few_rated))) None
      = Inr (map public_out (sort_key (review_order Newest) (approved_of 1 few_rated)))" by simp
  moreover have "length (approved_of 1 few_rated) = 3" by code_simp
  moreover have "sort_key (review_order Newest) (approved_of 1 few_rated) = [rated 3 5, rated 2 4, rated 1 5]"
    by code_simp
  ultimately show ?thesis by (simp add: numeral_eq_Suc)
qed

end
