(* ===== verification/Catalog_Listing.thy ===== *)
theory Catalog_Listing
  imports Catalog_Reads Keyset PyFloat
begin

text \<open>
  Product lists of the storefront, read from the denormalized cards: the listing half of
  \<open>app/repositories/catalog_repo.py\<close> and \<open>app/services/catalog_service.py\<close> (filters, sorts, cursors,
  pages, related products). Elasticsearch's ranking of related products is a parameter. A
  cursor whose price is the name of an infinity or of NaN, or a JSON array, is taken as malformed here.
\<close>

definition DEFAULT_PAGE_SIZE :: int where "DEFAULT_PAGE_SIZE = 24"
definition MAX_PAGE_SIZE :: int where "MAX_PAGE_SIZE = 100"
definition RELATED_OVERFETCH_FACTOR :: int where "RELATED_OVERFETCH_FACTOR = 5"
definition RELATED_MAX_CANDIDATES :: int where "RELATED_MAX_CANDIDATES = 50"
definition PRICE_SORTS :: "string list" where "PRICE_SORTS = [''price_asc'', ''price_desc'']"

subsection \<open>Cursors\<close>

definition encode_card_cursor :: "string \<Rightarrow> int \<Rightarrow> money option \<Rightarrow> string" where
  "encode_card_cursor sort_by pid price = cursor_token
    [(''s'', JStr sort_by), (''id'', JInt pid), (''p'', case price of None \<Rightarrow> JNull | Some x \<Rightarrow> JStr (money_str x))]"

text \<open>\<open>Decimal(value)\<close> of a decoded JSON value that is not null.\<close>

definition decimal_of_json :: "json \<Rightarrow> rat option" where
  "decimal_of_json j =
    (case j of
      JStr s \<Rightarrow> parse_decimal s
    | JInt i \<Rightarrow> Some (of_int i)
    | JBool b \<Rightarrow> Some (if b then 1 else 0)
    | JFloat t \<Rightarrow> map_option (\<lambda>x. if x < 0 then - to_float (- x) else to_float x) (parse_decimal t)
    | _ \<Rightarrow> None)"

definition decode_card_cursor :: "string \<Rightarrow> string \<Rightarrow> exn + int \<times> money option" where
  "decode_card_cursor cursor sort_by =
    (case cursor_object cursor of
      None \<Rightarrow> Inl CatalogInvalidCursorError
    | Some payload \<Rightarrow>
        (case (jlookup ''s'' payload, jlookup ''id'' payload) of
          (Some s, Some i) \<Rightarrow>
            (case int_of_json i of
              Inl e \<Rightarrow> Inl (if e = ''OverflowError'' then PyError e else CatalogInvalidCursorError)
            | Inr last_id \<Rightarrow>
                bindE (case jlookup ''p'' payload of
                    None \<Rightarrow> Inl CatalogInvalidCursorError
                  | Some JNull \<Rightarrow> Inr None
                  | Some p \<Rightarrow> (case decimal_of_json p of None \<Rightarrow> Inl CatalogInvalidCursorError | Some x \<Rightarrow> Inr (Some x)))
                  (\<lambda>last_price.
                if s \<noteq> JStr sort_by then Inl CatalogInvalidCursorError else Inr (last_id, last_price)))
        | _ \<Rightarrow> Inl CatalogInvalidCursorError))"

subsection \<open>The read model\<close>

text \<open>The products whose attribute values meet every attribute of a facet selection.\<close>

definition chosen_attributes :: "int list \<Rightarrow> db \<Rightarrow> int list" where
  "chosen_attributes value_ids d =
    remdups [av_attribute_id v. v \<leftarrow> t_attribute_value d, av_id v \<in> set value_ids]"

definition met_attributes :: "int \<Rightarrow> int list \<Rightarrow> db \<Rightarrow> int list" where
  "met_attributes pid value_ids d =
    remdups [av_attribute_id v. a \<leftarrow> t_product_attribute d, pav_product_id a = pid \<and> pav_value_id a \<in> set value_ids,
      v \<leftarrow> t_attribute_value d, av_id v = pav_value_id a]"

definition facet_match :: "int list \<Rightarrow> db \<Rightarrow> int \<Rightarrow> bool" where
  "facet_match value_ids d pid \<longleftrightarrow>
    (let met = met_attributes pid value_ids d in met \<noteq> [] \<and> length met = length (chosen_attributes value_ids d))"

record listing_filter =
  lf_category :: "int option"
  lf_lang :: string
  lf_price_min :: "money option"
  lf_price_max :: "money option"
  lf_value_ids :: "int list option"
  lf_on_sale :: bool
  lf_featured :: bool

definition listed :: "listing_filter \<Rightarrow> db \<Rightarrow> product_card \<Rightarrow> bool" where
  "listed f d c \<longleftrightarrow> pc_lang c = lf_lang f \<and> pc_is_active c
    \<and> (case lf_category f of None \<Rightarrow> True | Some cid \<Rightarrow> cid \<in> set (pc_path c))
    \<and> (lf_on_sale f \<longrightarrow> pc_old_price c \<noteq> None) \<and> (lf_featured f \<longrightarrow> pc_is_featured c)
    \<and> (case lf_price_min f of None \<Rightarrow> True | Some x \<Rightarrow> x \<le> pc_price c)
    \<and> (case lf_price_max f of None \<Rightarrow> True | Some x \<Rightarrow> pc_price c \<le> x)
    \<and> (case lf_value_ids f of None \<Rightarrow> True | Some ids \<Rightarrow> ids = [] \<or> facet_match ids d (pc_product_id c))"

text \<open>\<open>ORDER BY\<close>: the columns of a sort, descending ones negated.\<close>

definition order_columns_for :: "string \<Rightarrow> product_card \<Rightarrow> rat \<times> int" where
  "order_columns_for sort_by c =
    (if sort_by = ''price_asc'' then (pc_price c, pc_product_id c)
     else if sort_by = ''price_desc'' then (- pc_price c, - pc_product_id c)
     else (0, - pc_product_id c))"

text \<open>A comparison with a null price is never true.\<close>

definition keyset_predicate_for :: "string \<Rightarrow> int \<Rightarrow> money option \<Rightarrow> product_card \<Rightarrow> bool" where
  "keyset_predicate_for sort_by last_id last_price c \<longleftrightarrow>
    (if sort_by = ''price_asc'' then
       (case last_price of None \<Rightarrow> False
        | Some x \<Rightarrow> pc_price c > x \<or> pc_price c = x \<and> pc_product_id c > last_id)
     else if sort_by = ''price_desc'' then
       (case last_price of None \<Rightarrow> False
        | Some x \<Rightarrow> pc_price c < x \<or> pc_price c = x \<and> pc_product_id c < last_id)
     else pc_product_id c < last_id)"

definition list_cards :: "listing_filter \<Rightarrow> string \<Rightarrow> (product_card \<Rightarrow> bool) option \<Rightarrow> nat \<Rightarrow> db \<Rightarrow> product_card list" where
  "list_cards f sort_by after limit d =
    take limit (sort_key (order_columns_for sort_by)
      (filter (\<lambda>c. case after of None \<Rightarrow> True | Some p \<Rightarrow> p c) (filter (listed f d) (t_card d))))"

definition get_card :: "int \<Rightarrow> string \<Rightarrow> db \<Rightarrow> exn + product_card option" where
  "get_card pid lang d = scalar_one_or_none (filter (\<lambda>c. pc_product_id c = pid \<and> pc_lang c = lang) (t_card d))"

definition buyable :: "string \<Rightarrow> int \<Rightarrow> product_card \<Rightarrow> bool" where
  "buyable lang seed c \<longleftrightarrow> pc_lang c = lang \<and> pc_is_active c \<and> pc_in_stock c \<and> pc_product_id c \<noteq> seed"

definition list_related_cards :: "int \<Rightarrow> string \<Rightarrow> int \<Rightarrow> nat \<Rightarrow> db \<Rightarrow> product_card list" where
  "list_related_cards cid lang seed limit d =
    take limit (sort_key (\<lambda>c. - pc_product_id c)
      (filter (\<lambda>c. buyable lang seed c \<and> pc_category_id c = cid) (t_card d)))"

definition load_related_cards_by_ids :: "int list \<Rightarrow> string \<Rightarrow> int \<Rightarrow> db \<Rightarrow> (int \<rightharpoonup> product_card)" where
  "load_related_cards_by_ids ids lang seed d =
    (if ids = [] then Map.empty
     else map_of (rev (map (\<lambda>c. (pc_product_id c, c))
       (filter (\<lambda>c. buyable lang seed c \<and> pc_product_id c \<in> set ids) (t_card d)))))"

definition count_products_by_category :: "string \<Rightarrow> int list option \<Rightarrow> db \<Rightarrow> (int \<rightharpoonup> nat)" where
  "count_products_by_category lang ids d =
    (\<lambda>cid. let n = length (filter (\<lambda>x. x = cid)
           (concat (map pc_path (filter (\<lambda>c. pc_lang c = lang \<and> pc_is_active c) (t_card d))))) in
      if n = 0 \<or> (case ids of None \<Rightarrow> False | Some l \<Rightarrow> cid \<notin> set l) then None else Some n)"

definition get_category_by_slug :: "string \<Rightarrow> string \<Rightarrow> db \<Rightarrow> (category \<times> category_translation) option" where
  "get_category_by_slug slug lang d =
    (case [(c, t). c \<leftarrow> t_category d, cg_is_active c,
         t \<leftarrow> t_category_translation d, cgt_category_id t = cg_id c \<and> cgt_lang t = lang \<and> cgt_slug t = slug] of
      [] \<Rightarrow> None | r # _ \<Rightarrow> Some r)"

definition get_product_translation_by_slug :: "string \<Rightarrow> string \<Rightarrow> db \<Rightarrow> exn + product_translation option" where
  "get_product_translation_by_slug slug lang d =
    scalar_one_or_none (filter (\<lambda>t. pt_lang t = lang \<and> pt_slug t = slug) (t_product_translation d))"

subsection \<open>Pages\<close>

record product_card_out =
  po_product_id :: int
  po_name :: string
  po_slug :: string
  po_price :: money
  po_old_price :: "money option"
  po_price_max :: "money option"
  po_in_stock :: bool
  po_main_image_url :: "string option"
  po_badge :: "string option"

definition card_to_out :: "product_card \<Rightarrow> product_card_out" where
  "card_to_out c = \<lparr>po_product_id = pc_product_id c, po_name = pc_name c, po_slug = pc_slug c, po_price = pc_price c,
     po_old_price = pc_old_price c, po_price_max = pc_price_max c, po_in_stock = pc_in_stock c,
     po_main_image_url = pc_main_image_url c, po_badge = pc_badge c\<rparr>"

definition page_limit :: "int \<Rightarrow> nat" where
  "page_limit page_size = nat (max 1 (min page_size MAX_PAGE_SIZE))"

definition card_cursor_of :: "string \<Rightarrow> product_card \<Rightarrow> string" where
  "card_cursor_of sort_by c =
    encode_card_cursor sort_by (pc_product_id c) (if sort_by \<in> set PRICE_SORTS then Some (pc_price c) else None)"

definition list_cards_page ::
  "listing_filter \<Rightarrow> string \<Rightarrow> int \<Rightarrow> db \<Rightarrow> string option \<Rightarrow> exn + product_card_out list \<times> string option" where
  "list_cards_page f sort_by page_size d cursor =
    (let limit = page_limit page_size in
     bindE (case cursor of
         None \<Rightarrow> Inr None
       | Some c \<Rightarrow> bindE (decode_card_cursor c sort_by) (\<lambda>(last_id, last_price).
           bindE (bind_bigint last_id) (\<lambda>_. Inr (Some (keyset_predicate_for sort_by last_id last_price))))) (\<lambda>after.
     let cards = list_cards f sort_by after (limit + 1) d; page = take limit cards in
     Inr (map card_to_out page,
       if limit < length cards \<and> page \<noteq> [] then Some (card_cursor_of sort_by (last page)) else None)))"

definition list_products ::
  "string \<Rightarrow> string \<Rightarrow> string \<Rightarrow> string option \<Rightarrow> money option \<Rightarrow> money option \<Rightarrow> int list option \<Rightarrow> int \<Rightarrow> db \<Rightarrow>
    exn + product_card_out list \<times> string option" where
  "list_products slug lang sort_by cursor price_min price_max value_ids page_size d =
    (case get_category_by_slug slug lang d of
      None \<Rightarrow> Inl (CatalogNotFoundError slug)
    | Some (c, _) \<Rightarrow>
        list_cards_page \<lparr>lf_category = Some (cg_id c), lf_lang = lang, lf_price_min = price_min, lf_price_max = price_max,
          lf_value_ids = value_ids, lf_on_sale = False, lf_featured = False\<rparr> sort_by page_size d cursor)"

definition list_all_products ::
  "string \<Rightarrow> string \<Rightarrow> string option \<Rightarrow> money option \<Rightarrow> money option \<Rightarrow> bool \<Rightarrow> bool \<Rightarrow> int \<Rightarrow> db \<Rightarrow>
    exn + product_card_out list \<times> string option" where
  "list_all_products lang sort_by cursor price_min price_max on_sale featured page_size d =
    list_cards_page \<lparr>lf_category = None, lf_lang = lang, lf_price_min = price_min, lf_price_max = price_max,
      lf_value_ids = None, lf_on_sale = on_sale, lf_featured = featured\<rparr> sort_by page_size d cursor"

text \<open>The query parameters: one of three sorts, bounds that are not negative, at most fifty values.\<close>

definition listing_query_ok :: "string \<Rightarrow> money option \<Rightarrow> money option \<Rightarrow> int list option \<Rightarrow> bool" where
  "listing_query_ok sort_by price_min price_max value_ids \<longleftrightarrow>
    sort_by \<in> set (''newest'' # PRICE_SORTS) \<and>
    (case price_min of None \<Rightarrow> True | Some x \<Rightarrow> 0 \<le> x) \<and> (case price_max of None \<Rightarrow> True | Some x \<Rightarrow> 0 \<le> x) \<and>
    (case value_ids of None \<Rightarrow> True | Some ids \<Rightarrow> length ids \<le> 50)"

definition list_category_products_endpoint where
  "list_category_products_endpoint slug sort_by cursor price_min price_max value_ids lang d =
    (if listing_query_ok sort_by price_min price_max value_ids
     then list_products slug lang sort_by cursor price_min price_max value_ids DEFAULT_PAGE_SIZE d
     else Inl (HTTPException 422 (Some ''validation_error'')))"

definition list_all_products_endpoint where
  "list_all_products_endpoint sort_by on_sale featured cursor price_min price_max lang d =
    (if listing_query_ok sort_by price_min price_max None
     then list_all_products lang sort_by cursor price_min price_max on_sale featured DEFAULT_PAGE_SIZE d
     else Inl (HTTPException 422 (Some ''validation_error'')))"

subsection \<open>Related products\<close>

text \<open>A loop that takes candidates until the rail is full: the cards picked, newest last.\<close>

fun pick_related :: "nat \<Rightarrow> (int \<Rightarrow> product_card option) \<Rightarrow> int list \<Rightarrow> product_card list \<Rightarrow> product_card list" where
  "pick_related limit hydrated [] picked = picked"
| "pick_related limit hydrated (pid # rest) picked =
    (case hydrated pid of
      None \<Rightarrow> pick_related limit hydrated rest picked
    | Some c \<Rightarrow>
        let picked' = picked @ [c] in
        if length picked' \<ge> limit then picked' else pick_related limit hydrated rest picked')"

fun top_up :: "nat \<Rightarrow> product_card list \<Rightarrow> product_card list \<Rightarrow> int list \<Rightarrow> product_card list" where
  "top_up limit [] picked seen = picked"
| "top_up limit (c # rest) picked seen =
    (if pc_product_id c \<in> set seen then top_up limit rest picked seen
     else let picked' = picked @ [c] in
       if length picked' \<ge> limit then picked' else top_up limit rest picked' (pc_product_id c # seen))"

definition related_elastic ::
  "(int \<Rightarrow> string \<Rightarrow> int \<Rightarrow> int list option) \<Rightarrow> product_card \<Rightarrow> string \<Rightarrow> nat \<Rightarrow> db \<Rightarrow> product_card_out list option" where
  "related_elastic fetch seed lang limit d =
    (case fetch (pc_product_id seed) lang (min (int limit * RELATED_OVERFETCH_FACTOR) RELATED_MAX_CANDIDATES) of
      None \<Rightarrow> None
    | Some ids \<Rightarrow>
        let hydrated = load_related_cards_by_ids ids lang (pc_product_id seed) d;
            picked = pick_related limit hydrated ids [];
            seen = remdups (pc_product_id seed # map pc_product_id picked)
        in Some (map card_to_out
          (if length picked < limit
           then top_up limit (list_related_cards (pc_category_id seed) lang (pc_product_id seed) (limit + length seen) d) picked seen
           else picked)))"

definition related_products ::
  "settings \<Rightarrow> (int \<Rightarrow> string \<Rightarrow> int \<Rightarrow> int list option) \<Rightarrow> string \<Rightarrow> string \<Rightarrow> nat \<Rightarrow> db \<Rightarrow> exn + product_card_out list" where
  "related_products cfg fetch slug lang limit d =
    bindE (get_product_translation_by_slug slug lang d) (\<lambda>found.
    case found of
      None \<Rightarrow> Inr []
    | Some t \<Rightarrow>
        bindE (get_card (pt_product_id t) lang d) (\<lambda>seed.
        case seed of
          None \<Rightarrow> Inr []
        | Some c \<Rightarrow>
            let plain = map card_to_out (list_related_cards (pc_category_id c) lang (pc_product_id c) limit d) in
            if search_uses_elastic cfg then
              (case related_elastic fetch c lang limit d of None \<Rightarrow> Inr plain | Some cards \<Rightarrow> Inr cards)
            else Inr plain))"

definition get_related_products_endpoint where
  "get_related_products_endpoint cfg fetch slug limit lang d =
    (if 1 \<le> limit \<and> limit \<le> (24 :: int) then related_products cfg fetch slug lang (nat limit) d
     else Inl (HTTPException 422 (Some ''validation_error'')))"

end
