(* ===== verification/Catalog_Pages.thy ===== *)
theory Catalog_Pages
  imports Catalog_Listing Reviews "HOL-Library.List_Lexorder" "HOL-Library.Char_ord"
begin

text \<open>
  The category tree, category and product pages, and the sitemap of the storefront: the other reads
  of \<open>app/services/catalog_service.py\<close> and \<open>app/repositories/catalog_repo.py\<close>. SQL orders texts by
  the collation of the database; here they are ordered by their characters. Every medium is an
  image, the only kind the table admits.
\<close>

definition get_category :: "int \<Rightarrow> db \<Rightarrow> category option" where
  "get_category cid d = find (\<lambda>c. cg_id c = cid) (t_category d)"

definition get_category_translations :: "int \<Rightarrow> db \<Rightarrow> category_translation list" where
  "get_category_translations cid d = filter (\<lambda>t. cgt_category_id t = cid) (t_category_translation d)"

definition get_product_translations :: "int \<Rightarrow> db \<Rightarrow> product_translation list" where
  "get_product_translations pid d = filter (\<lambda>t. pt_product_id t = pid) (t_product_translation d)"

subsection \<open>Categories\<close>

definition localized_categories :: "string \<Rightarrow> (category \<Rightarrow> bool) \<Rightarrow> db \<Rightarrow> (category \<times> category_translation) list" where
  "localized_categories lang p d =
    [(c, t). c \<leftarrow> t_category d, p c \<and> cg_is_active c,
       t \<leftarrow> t_category_translation d, cgt_category_id t = cg_id c \<and> cgt_lang t = lang]"

definition list_active_categories :: "string \<Rightarrow> db \<Rightarrow> (category \<times> category_translation) list" where
  "list_active_categories lang d =
    sort_key (\<lambda>(c, _). (cg_depth c, cg_position c, cg_id c)) (localized_categories lang (\<lambda>_. True) d)"

definition get_child_categories :: "int \<Rightarrow> string \<Rightarrow> db \<Rightarrow> (category \<times> category_translation) list" where
  "get_child_categories parent lang d =
    sort_key (\<lambda>(c, _). (cg_position c, cg_id c)) (localized_categories lang (\<lambda>c. cg_parent_id c = Some parent) d)"

definition get_breadcrumb_translations :: "int list \<Rightarrow> string \<Rightarrow> db \<Rightarrow> (int \<rightharpoonup> category_translation)" where
  "get_breadcrumb_translations ids lang d =
    map_of (rev (map (\<lambda>t. (cgt_category_id t, t))
      (filter (\<lambda>t. cgt_category_id t \<in> set ids \<and> cgt_lang t = lang) (t_category_translation d))))"

record node_data =
  nd_id :: int
  nd_parent_id :: "int option"
  nd_name :: string
  nd_slug :: string
  nd_depth :: int
  nd_position :: int
  nd_cover_image_url :: "string option"
  nd_product_count :: nat

datatype category_node = Category_Node node_data "category_node list"

definition node_of :: "(int \<rightharpoonup> nat) \<Rightarrow> category \<times> category_translation \<Rightarrow> node_data" where
  "node_of counts r = (case r of (c, t) \<Rightarrow>
    \<lparr>nd_id = cg_id c, nd_parent_id = cg_parent_id c, nd_name = cgt_name t, nd_slug = cgt_slug t, nd_depth = cg_depth c,
     nd_position = cg_position c, nd_cover_image_url = cg_cover_image_url c,
     nd_product_count = (case counts (cg_id c) of None \<Rightarrow> 0 | Some n \<Rightarrow> n)\<rparr>)"

text \<open>
  Each node is appended to the children of its parent, or to the roots when its parent is not in
  the list. The tree below a node is built with as much fuel as there are nodes.
\<close>

definition children_of :: "node_data list \<Rightarrow> int \<Rightarrow> node_data list" where
  "children_of nodes i = filter (\<lambda>n. nd_parent_id n = Some i) nodes"

fun grow :: "node_data list \<Rightarrow> nat \<Rightarrow> node_data \<Rightarrow> category_node" where
  "grow nodes 0 n = Category_Node n []"
| "grow nodes (Suc fuel) n = Category_Node n (map (grow nodes fuel) (children_of nodes (nd_id n)))"

definition is_root :: "node_data list \<Rightarrow> node_data \<Rightarrow> bool" where
  "is_root nodes n \<longleftrightarrow> (case nd_parent_id n of None \<Rightarrow> True | Some p \<Rightarrow> list_all (\<lambda>m. nd_id m \<noteq> p) nodes)"

definition tree_of :: "node_data list \<Rightarrow> category_node list" where
  "tree_of nodes = map (grow nodes (length nodes)) (filter (is_root nodes) nodes)"

definition category_nodes :: "string \<Rightarrow> db \<Rightarrow> node_data list" where
  "category_nodes lang d = map (node_of (count_products_by_category lang None d)) (list_active_categories lang d)"

definition list_categories :: "string \<Rightarrow> db \<Rightarrow> category_node list" where
  "list_categories lang d = tree_of (category_nodes lang d)"

record breadcrumb =
  bc_id :: int
  bc_name :: string
  bc_slug :: string

definition build_breadcrumbs :: "int list \<Rightarrow> string \<Rightarrow> db \<Rightarrow> breadcrumb list" where
  "build_breadcrumbs path lang d =
    (let translations = get_breadcrumb_translations path lang d in
      concat (map (\<lambda>cid. case translations cid of
          None \<Rightarrow> []
        | Some t \<Rightarrow> [\<lparr>bc_id = cid, bc_name = cgt_name t, bc_slug = cgt_slug t\<rparr>]) path))"

record category_detail =
  cd_id :: int
  cd_name :: string
  cd_slug :: string
  cd_seo_title :: "string option"
  cd_seo_description :: "string option"
  cd_breadcrumbs :: "breadcrumb list"
  cd_children :: "node_data list"
  cd_slugs :: "(string \<times> string) list"

text \<open>The child nodes of a detail carry no cover image.\<close>

definition get_category_detail :: "string \<Rightarrow> string \<Rightarrow> db \<Rightarrow> exn + category_detail" where
  "get_category_detail slug lang d =
    (case get_category_by_slug slug lang d of
      None \<Rightarrow> Inl (CatalogNotFoundError slug)
    | Some (c, t) \<Rightarrow>
        let pairs = get_child_categories (cg_id c) lang d;
            counts = count_products_by_category lang (Some (map (\<lambda>(x, _). cg_id x) pairs)) d in
        Inr \<lparr>cd_id = cg_id c, cd_name = cgt_name t, cd_slug = cgt_slug t, cd_seo_title = cgt_seo_title t,
             cd_seo_description = cgt_seo_description t, cd_breadcrumbs = build_breadcrumbs (cg_path c) lang d,
             cd_children = map (\<lambda>r. (node_of counts r)\<lparr>nd_cover_image_url := None\<rparr>) pairs,
             cd_slugs = map (\<lambda>x. (cgt_lang x, cgt_slug x)) (get_category_translations (cg_id c) d)\<rparr>)"

subsection \<open>Product page\<close>

definition get_product_media :: "int \<Rightarrow> db \<Rightarrow> media list" where
  "get_product_media pid d =
    sort_key (\<lambda>m. (md_position m, md_id m)) (filter (\<lambda>m. md_product_id m = pid) (t_media d))"

definition count_live_carts_with_product :: "int \<Rightarrow> db \<Rightarrow> nat" where
  "count_live_carts_with_product pid d =
    length (remdups [ci_cart_id l. l \<leftarrow> t_cart_item d, ci_product_id l = pid,
      c \<leftarrow> t_cart d, c_id c = ci_cart_id l \<and> c_status c = ''draft''])"

definition get_product_attributes :: "int \<Rightarrow> string \<Rightarrow> db \<Rightarrow> (string \<times> string \<times> string) list" where
  "get_product_attributes pid lang d =
    sort_key (\<lambda>(code, _, v). (code, v))
      [(at_code a, att_name an, avt_value vt).
        a \<leftarrow> t_attribute d,
        v \<leftarrow> t_attribute_value d, av_attribute_id v = at_id a,
        pa \<leftarrow> t_product_attribute d, pav_value_id pa = av_id v \<and> pav_product_id pa = pid,
        an \<leftarrow> t_attribute_translation d, att_attribute_id an = at_id a \<and> att_lang an = lang,
        vt \<leftarrow> t_attribute_value_translation d, avt_value_id vt = av_id v \<and> avt_lang vt = lang]"

text \<open>Grouping rows by a key into a dict, in the order of the first row of each key.\<close>

fun group_into :: "('r \<Rightarrow> 'k) \<Rightarrow> ('r \<Rightarrow> 'h) \<Rightarrow> ('r \<Rightarrow> 'v) \<Rightarrow> 'r list \<Rightarrow> ('k \<times> 'h \<times> 'v list) list" where
  "group_into k h v [] = []"
| "group_into k h v (r # rows) =
    (k r, h r, v r # map v (filter (\<lambda>x. k x = k r) rows))
      # filter (\<lambda>(j, _). j \<noteq> k r) (group_into k h v rows)"

record attribute_group =
  ag_code :: string
  ag_name :: string
  ag_values :: "string list"

definition group_attributes :: "(string \<times> string \<times> string) list \<Rightarrow> attribute_group list" where
  "group_attributes rows =
    map (\<lambda>(code, name, vs). \<lparr>ag_code = code, ag_name = name, ag_values = vs\<rparr>)
      (group_into (\<lambda>(code, _, _). code) (\<lambda>(_, name, _). name) (\<lambda>(_, _, v). v) rows)"

definition get_variation_attributes :: "int \<Rightarrow> string \<Rightarrow> db \<Rightarrow> (int \<times> string \<times> string \<times> int \<times> int \<times> string) list" where
  "get_variation_attributes pid lang d =
    sort_key (\<lambda>(_, code, _, position, _, v). (position, code, v)) (remdups
      [(at_id a, at_code a, att_name an, pva_position pa, av_id v, avt_value vt).
        a \<leftarrow> t_attribute d,
        pa \<leftarrow> t_product_variation_attribute d, pva_attribute_id pa = at_id a \<and> pva_product_id pa = pid,
        v \<leftarrow> t_attribute_value d, av_attribute_id v = at_id a,
        x \<leftarrow> t_product_variant_value d, pvv_value_id x = av_id v,
        w \<leftarrow> t_variant d, v_id w = pvv_variant_id x \<and> v_product_id w = pid \<and> v_is_active w,
        an \<leftarrow> t_attribute_translation d, att_attribute_id an = at_id a \<and> att_lang an = lang,
        vt \<leftarrow> t_attribute_value_translation d, avt_value_id vt = av_id v \<and> avt_lang vt = lang])"

record variation_attribute =
  va_attribute_id :: int
  va_code :: string
  va_name :: string
  va_values :: "(int \<times> string) list"

definition group_variation_attributes :: "(int \<times> string \<times> string \<times> int \<times> int \<times> string) list \<Rightarrow> variation_attribute list" where
  "group_variation_attributes rows =
    map (\<lambda>(i, (code, name), vs). \<lparr>va_attribute_id = i, va_code = code, va_name = name, va_values = vs\<rparr>)
      (group_into (\<lambda>(i, _). i) (\<lambda>(_, code, name, _). (code, name)) (\<lambda>(_, _, _, _, vid, v). (vid, v)) rows)"

definition get_product_variants :: "int \<Rightarrow> db \<Rightarrow> variant list" where
  "get_product_variants pid d =
    sort_key (\<lambda>v. (v_position v, v_id v)) (filter (\<lambda>v. v_product_id v = pid \<and> v_is_active v) (t_variant d))"

definition get_variant_value_ids :: "int list \<Rightarrow> db \<Rightarrow> int \<Rightarrow> int list" where
  "get_variant_value_ids ids d vid =
    (if vid \<in> set ids then sort (map pvv_value_id (filter (\<lambda>x. pvv_variant_id x = vid) (t_product_variant_value d))) else [])"

definition get_variant_image_urls :: "int list \<Rightarrow> db \<Rightarrow> (int \<rightharpoonup> string)" where
  "get_variant_image_urls ids d vid =
    (if vid \<notin> set ids then None
     else case sort_key (\<lambda>m. (md_position m, md_id m)) (filter (\<lambda>m. md_variant_id m = Some vid) (t_media d)) of
       [] \<Rightarrow> None | m # _ \<Rightarrow> Some (md_url m))"

record variant_out =
  vo_id :: int
  vo_code :: "string option"
  vo_price :: money
  vo_old_price :: "money option"
  vo_in_stock :: bool
  vo_value_ids :: "int list"
  vo_image_url :: "string option"

definition load_variant_view :: "int \<Rightarrow> string \<Rightarrow> db \<Rightarrow> variation_attribute list \<times> variant_out list" where
  "load_variant_view pid lang d =
    (let variants = get_product_variants pid d; ids = map v_id variants;
         value_ids = get_variant_value_ids ids d; urls = get_variant_image_urls ids d in
      (group_variation_attributes (get_variation_attributes pid lang d),
       map (\<lambda>v. \<lparr>vo_id = v_id v, vo_code = v_code v, vo_price = v_price v, vo_old_price = v_old_price v,
          vo_in_stock = v_qty v > 0, vo_value_ids = value_ids (v_id v), vo_image_url = urls (v_id v)\<rparr>) variants))"

record product_detail =
  pd_id :: int
  pd_code :: string
  pd_name :: string
  pd_slug :: string
  pd_description :: "string option"
  pd_seo_title :: "string option"
  pd_seo_description :: "string option"
  pd_price :: money
  pd_old_price :: "money option"
  pd_has_variants :: bool
  pd_price_min :: money
  pd_price_max :: "money option"
  pd_variation_attributes :: "variation_attribute list"
  pd_variants :: "variant_out list"
  pd_in_stock :: bool
  pd_in_cart_count :: nat
  pd_rating_avg :: "rat option"
  pd_rating_count :: nat
  pd_category_id :: int
  pd_breadcrumbs :: "breadcrumb list"
  pd_attributes :: "attribute_group list"
  pd_media :: "media list"
  pd_slugs :: "(string \<times> string) list"

definition get_product_page :: "string \<Rightarrow> string \<Rightarrow> db \<Rightarrow> exn + product_detail" where
  "get_product_page slug lang d =
    bindE (get_product_translation_by_slug slug lang d) (\<lambda>found.
    case found of
      None \<Rightarrow> Inl (CatalogNotFoundError slug)
    | Some t \<Rightarrow>
        (case get_product (pt_product_id t) d of
          None \<Rightarrow> Inl (CatalogNotFoundError slug)
        | Some p \<Rightarrow>
            if \<not> p_is_active p then Inl (CatalogNotFoundError slug)
            else
              let attributes = group_attributes (get_product_attributes (p_id p) lang d);
                  view = (if p_has_variants p then load_variant_view (p_id p) lang d else ([], []));
                  prices = map vo_price (snd view);
                  price_min = (if p_has_variants p \<and> prices \<noteq> [] then Min (set prices) else p_price p);
                  price_max = (if p_has_variants p \<and> prices \<noteq> [] \<and> Max (set prices) \<noteq> Min (set prices)
                    then Some (Max (set prices)) else None);
                  in_stock = (if p_has_variants p then list_ex vo_in_stock (snd view) else p_qty p > 0);
                  codes = map va_code (fst view)
              in Inr \<lparr>pd_id = p_id p, pd_code = p_code p, pd_name = pt_name t, pd_slug = pt_slug t,
                   pd_description = pt_description t, pd_seo_title = pt_seo_title t, pd_seo_description = pt_seo_description t,
                   pd_price = price_min, pd_old_price = p_old_price p, pd_has_variants = p_has_variants p,
                   pd_price_min = price_min, pd_price_max = price_max, pd_variation_attributes = fst view,
                   pd_variants = snd view, pd_in_stock = in_stock,
                   pd_in_cart_count = count_live_carts_with_product (p_id p) d,
                   pd_rating_avg = map_option round1 (fst (aggregate_for_product (p_id p) d)),
                   pd_rating_count = snd (aggregate_for_product (p_id p) d),
                   pd_category_id = p_category_id p,
                   pd_breadcrumbs = (case get_category (p_category_id p) d of
                     None \<Rightarrow> [] | Some c \<Rightarrow> build_breadcrumbs (cg_path c) lang d),
                   pd_attributes = (if p_has_variants p then filter (\<lambda>a. ag_code a \<notin> set codes) attributes else attributes),
                   pd_media = get_product_media (p_id p) d,
                   pd_slugs = map (\<lambda>x. (pt_lang x, pt_slug x)) (get_product_translations (p_id p) d)\<rparr>))"

subsection \<open>Sitemap\<close>

type_synonym sitemap_row = "int \<times> instant \<times> string \<times> string"

definition get_active_category_slugs :: "db \<Rightarrow> sitemap_row list" where
  "get_active_category_slugs d =
    sort_key fst [(cg_id c, cg_updated_at c, cgt_lang t, cgt_slug t).
      c \<leftarrow> t_category d, cg_is_active c, t \<leftarrow> t_category_translation d, cgt_category_id t = cg_id c]"

definition get_active_product_slugs :: "db \<Rightarrow> sitemap_row list" where
  "get_active_product_slugs d =
    sort_key fst [(p_id p, p_updated_at p, pt_lang t, pt_slug t).
      p \<leftarrow> t_product d, p_is_active p, t \<leftarrow> t_product_translation d, pt_product_id t = p_id p]"

record sitemap_entry =
  se_slugs :: "(string \<times> string) list"
  se_updated_at :: instant

definition group_sitemap :: "sitemap_row list \<Rightarrow> sitemap_entry list" where
  "group_sitemap rows =
    map (\<lambda>(_, t, slugs). \<lparr>se_slugs = slugs, se_updated_at = t\<rparr>)
      (group_into fst (\<lambda>(_, t, _, _). t) (\<lambda>(_, _, lang, slug). (lang, slug)) rows)"

definition get_sitemap :: "db \<Rightarrow> sitemap_entry list \<times> sitemap_entry list" where
  "get_sitemap d = (group_sitemap (get_active_category_slugs d), group_sitemap (get_active_product_slugs d))"

end
