(* ===== verification/Catalog_Cards.thy ===== *)
theory Catalog_Cards
  imports Catalog_Pages
begin

text \<open>
  The publication rule and the rebuild of the \<open>product_card\<close> read model
  (\<open>CatalogService.assert_publishable\<close>, \<open>rebuild_card\<close>, \<open>rebuild_cards\<close>), with the contract of the read
  model: the cards of a product are the projection of its tables.
\<close>

subsection \<open>Aggregates and the rule\<close>

record variant_aggregate =
  vg_min :: "money option"
  vg_max :: "money option"
  vg_in_stock :: bool
  vg_on_sale :: bool
  vg_qty :: int

definition active_variants :: "int \<Rightarrow> db \<Rightarrow> variant list" where
  "active_variants pid d = filter (\<lambda>v. v_product_id v = pid \<and> v_is_active v) (t_variant d)"

definition get_variant_aggregate :: "int \<Rightarrow> db \<Rightarrow> variant_aggregate" where
  "get_variant_aggregate pid d =
    (let vs = active_variants pid d; prices = map v_price vs in
      \<lparr>vg_min = (if vs = [] then None else Some (Min (set prices))), vg_max = (if vs = [] then None else Some (Max (set prices))),
       vg_in_stock = list_ex (\<lambda>v. v_qty v > 0) vs,
       vg_on_sale = list_ex (\<lambda>v. case v_old_price v of None \<Rightarrow> False | Some x \<Rightarrow> x > v_price v) vs,
       vg_qty = sum_list (map v_qty vs)\<rparr>)"

definition assert_publishable :: "int \<Rightarrow> db \<Rightarrow> exn + unit" where
  "assert_publishable pid d =
    (case get_product pid d of
      None \<Rightarrow> Inl (CatalogNotFoundError (int_str pid))
    | Some p \<Rightarrow>
        if \<not> set ALLOWED_LANGS \<subseteq> pt_lang ` set (get_product_translations pid d) then Inl (PublicationError pid)
        else if p_has_variants p \<and> vg_min (get_variant_aggregate pid d) = None then Inl (PublicationError pid)
        else Inr ())"

definition compute_badge :: "bool \<Rightarrow> string option" where
  "compute_badge has_old_price = (if has_old_price then Some ''sale'' else None)"

definition get_main_image_url :: "int \<Rightarrow> db \<Rightarrow> string option" where
  "get_main_image_url pid d =
    (case get_product_media pid d of [] \<Rightarrow> None | m # _ \<Rightarrow> Some (md_url m))"

subsection \<open>Rebuilding\<close>

definition delete_product_cards :: "int \<Rightarrow> unit act" where
  "delete_product_cards pid = writes (\<lambda>d. d\<lparr>t_card := filter (\<lambda>c. pc_product_id c \<noteq> pid) (t_card d)\<rparr>)"

definition upsert_card :: "product_card \<Rightarrow> unit act" where
  "upsert_card c = writes (\<lambda>d. d\<lparr>t_card := t_card d @ [c]\<rparr>)"

definition build_card :: "product \<Rightarrow> variant_aggregate \<Rightarrow> int list \<Rightarrow> string option \<Rightarrow> product_translation \<Rightarrow> product_card" where
  "build_card p g path pic t =
    (let vs = p_has_variants p; ranged = vs \<and> vg_min g \<noteq> None in
      \<lparr>pc_product_id = p_id p, pc_lang = pt_lang t, pc_category_id = p_category_id p, pc_name = pt_name t,
       pc_slug = pt_slug t, pc_price = (if ranged then the (vg_min g) else p_price p),
       pc_old_price = (if vs then None else p_old_price p),
       pc_price_max = (if ranged \<and> vg_max g \<noteq> vg_min g then vg_max g else None),
       pc_in_stock = (if vs then vg_in_stock g else p_qty p > 0), pc_main_image_url = pic,
       pc_badge = compute_badge (if vs then vg_on_sale g else p_old_price p \<noteq> None), pc_path = path,
       pc_is_active = p_is_active p, pc_is_featured = p_is_featured p\<rparr>)"

definition card_path :: "product \<Rightarrow> db \<Rightarrow> int list" where
  "card_path p d = (case get_category (p_category_id p) d of None \<Rightarrow> [p_category_id p] | Some c \<Rightarrow> cg_path c)"

text \<open>The row of a variable product follows its variants; a row that changes gets a new time stamp.\<close>

definition sync_product :: "environment \<Rightarrow> product \<Rightarrow> variant_aggregate \<Rightarrow> product" where
  "sync_product env p g =
    (case (p_has_variants p, vg_min g) of
      (True, Some x) \<Rightarrow>
        if p_price p = x \<and> p_qty p = vg_qty g then p
        else p\<lparr>p_price := x, p_qty := vg_qty g, p_updated_at := env_now env\<rparr>
    | _ \<Rightarrow> p)"

definition set_product :: "product \<Rightarrow> db \<Rightarrow> db" where
  "set_product p d = d\<lparr>t_product := upd (\<lambda>x. p_id x = p_id p) (\<lambda>_. p) (t_product d)\<rparr>"

definition rebuild_card :: "environment \<Rightarrow> int \<Rightarrow> nat act" where
  "rebuild_card env pid =
    bindM (reads (get_product pid)) (\<lambda>found.
    case found of
      None \<Rightarrow> throw (CatalogNotFoundError (int_str pid))
    | Some p \<Rightarrow>
        bindM (delete_product_cards pid) (\<lambda>_.
        if \<not> p_is_active p then ret 0
        else
          bindM (readsE (assert_publishable pid)) (\<lambda>_.
          bindM (reads (card_path p)) (\<lambda>path.
          bindM (reads (get_main_image_url pid)) (\<lambda>pic.
          bindM (reads (get_variant_aggregate pid)) (\<lambda>g.
          bindM (reads (get_product_translations pid)) (\<lambda>ts.
          bindM (forEach ts (\<lambda>t. upsert_card (build_card p g path pic t))) (\<lambda>_.
          bindM (writes (set_product (sync_product env p g))) (\<lambda>_.
          ret (length ts)))))))))) "

fun rebuild_cards :: "environment \<Rightarrow> int list \<Rightarrow> nat act" where
  "rebuild_cards env [] = ret 0"
| "rebuild_cards env (pid # rest) =
    bindM (rebuild_card env pid) (\<lambda>n. bindM (rebuild_cards env rest) (\<lambda>m. ret (n + m)))"

subsection \<open>The contract of the read model\<close>

definition cards_of :: "int \<Rightarrow> db \<Rightarrow> product_card list" where
  "cards_of pid d = filter (\<lambda>c. pc_product_id c = pid) (t_card d)"

text \<open>What the tables say the cards of a product should be: none unless it is active.\<close>

definition projection :: "int \<Rightarrow> db \<Rightarrow> product_card list" where
  "projection pid d = (case get_product pid d of
      None \<Rightarrow> []
    | Some p \<Rightarrow>
        if \<not> p_is_active p then []
        else map (build_card p (get_variant_aggregate pid d) (card_path p d) (get_main_image_url pid d))
          (get_product_translations pid d))"

definition in_sync :: "int \<Rightarrow> db \<Rightarrow> bool" where
  "in_sync pid d \<longleftrightarrow> cards_of pid d = projection pid d"

lemma upsert_all:
  "forEach ts (\<lambda>t. upsert_card (f t)) s = (Inr (), s\<lparr>work := (work s)\<lparr>t_card := t_card (work s) @ map f ts\<rparr>\<rparr>)"
  by (induction ts arbitrary: s) (simp_all add: upsert_card_def bindM_app)

lemma sync_fields:
  "p_id (sync_product env p g) = p_id p" "p_has_variants (sync_product env p g) = p_has_variants p"
  "p_is_active (sync_product env p g) = p_is_active p" "p_category_id (sync_product env p g) = p_category_id p"
  by (simp_all add: sync_product_def split: option.splits bool.splits)

lemma build_synced: "build_card (sync_product env p g) g path pic t = build_card p g path pic t"
  by (auto simp: build_card_def sync_product_def Let_def split: option.splits)

lemma built_id [simp]: "pc_product_id (build_card p g path pic t) = p_id p"
  by (simp add: build_card_def Let_def)

lemma get_set_product:
  assumes "get_product pid d = Some p" "p_id p' = p_id p"
  shows "get_product pid (set_product p' d) = Some p'" "j \<noteq> pid \<Longrightarrow> get_product j (set_product p' d) = get_product j d"
proof -
  have id: "p_id p = pid" using assms(1) by (simp add: get_product_key)
  have upd: "find (\<lambda>x. p_id x = i) (upd (\<lambda>x. p_id x = p_id p') (\<lambda>_. p') (t_product d))
      = map_option (\<lambda>r. if p_id r = p_id p' then p' else r) (find (\<lambda>x. p_id x = i) (t_product d))" for i
    by (rule find_upd) simp
  show "get_product pid (set_product p' d) = Some p'"
    using assms upd [of pid] id by (simp add: get_product_def set_product_def)
  show "j \<noteq> pid \<Longrightarrow> get_product j (set_product p' d) = get_product j d"
    using upd [of j] assms(2) id
    by (cases "find (\<lambda>x. p_id x = j) (t_product d)") (auto simp: get_product_def set_product_def dest: find_SomeD)
qed

text \<open>A rebuild, as a whole.\<close>

definition without_cards :: "int \<Rightarrow> db \<Rightarrow> db" where
  "without_cards pid d = d\<lparr>t_card := filter (\<lambda>c. pc_product_id c \<noteq> pid) (t_card d)\<rparr>"

lemma without_cards_reads [simp]:
  "get_product i (without_cards pid d) = get_product i d" "get_variant_aggregate i (without_cards pid d) = get_variant_aggregate i d"
  "card_path p (without_cards pid d) = card_path p d" "get_main_image_url i (without_cards pid d) = get_main_image_url i d"
  "get_product_translations i (without_cards pid d) = get_product_translations i d"
  by (simp_all add: without_cards_def get_product_def get_variant_aggregate_def active_variants_def card_path_def get_category_def
      get_main_image_url_def get_product_media_def get_product_translations_def)

lemma publishable_without_cards [simp]: "assert_publishable i (without_cards pid d) = assert_publishable i d"
  by (simp add: assert_publishable_def split: option.split)

lemma filter_other:
  "j \<noteq> pid \<Longrightarrow> filter (\<lambda>c. pc_product_id c \<noteq> pid \<and> pc_product_id c = j) cs = filter (\<lambda>c. pc_product_id c = j) cs"
  by (induction cs) auto

lemma rebuild_run:
  "rebuild_card env pid s =
    (let d = work s; clean = s\<lparr>work := without_cards pid d\<rparr> in
      case get_product pid d of
        None \<Rightarrow> (Inl (CatalogNotFoundError (int_str pid)), s)
      | Some p \<Rightarrow>
          if \<not> p_is_active p then (Inr 0, clean)
          else case assert_publishable pid d of
            Inl e \<Rightarrow> (Inl e, clean)
          | Inr _ \<Rightarrow> (Inr (length (projection pid d)),
              s\<lparr>work := set_product (sync_product env p (get_variant_aggregate pid d))
                ((without_cards pid d)\<lparr>t_card := filter (\<lambda>c. pc_product_id c \<noteq> pid) (t_card d) @ projection pid d\<rparr>)\<rparr>))"
proof (cases "get_product pid (work s)")
  case (Some p)
  have del: "delete_product_cards pid s = (Inr (), s\<lparr>work := without_cards pid (work s)\<rparr>)"
    by (simp add: delete_product_cards_def without_cards_def)
  have cards: "t_card (without_cards pid (work s)) = filter (\<lambda>c. pc_product_id c \<noteq> pid) (t_card (work s))"
    by (simp add: without_cards_def)
  show ?thesis
    by (cases "p_is_active p"; cases "assert_publishable pid (work s)")
      (simp_all add: rebuild_card_def bindM_app Some del Let_def upsert_all cards projection_def)
qed (simp add: rebuild_card_def bindM_app)

lemma rebuild_in_sync:
  assumes "rebuild_card env pid s = (Inr n, s')"
  shows "in_sync pid (work s')" "n = length (cards_of pid (work s'))" "committed s' = committed s"
    "j \<noteq> pid \<Longrightarrow> cards_of j (work s') = cards_of j (work s) \<and> get_product j (work s') = get_product j (work s)"
proof -
  let ?d = "work s" and ?g = "get_variant_aggregate pid (work s)"
  obtain p where p: "get_product pid ?d = Some p" using assms by (auto simp: rebuild_run Let_def split: option.splits)
  have pid: "p_id p = pid" using p by (simp add: get_product_key)
  have mine: "filter (\<lambda>c. pc_product_id c = i) (projection pid ?d) = (if i = pid then projection pid ?d else [])" for i
    by (auto simp: projection_def p pid filter_empty_conv intro!: filter_True)
  show "committed s' = committed s"
    using assms by (auto simp: rebuild_run Let_def p split: sum.splits if_splits)
  show "in_sync pid (work s')" "n = length (cards_of pid (work s'))"
    "j \<noteq> pid \<Longrightarrow> cards_of j (work s') = cards_of j (work s) \<and> get_product j (work s') = get_product j (work s)"
  proof (atomize (full), goal_cases)
    case 1
    show ?case
    proof (cases "p_is_active p")
      case False
      then have s': "s' = s\<lparr>work := without_cards pid ?d\<rparr>" "n = 0"
        using assms by (simp_all add: rebuild_run Let_def p)
      have "cards_of pid (work s') = []" by (simp add: s' cards_of_def without_cards_def)
      moreover have "projection pid (work s') = []" using False by (simp add: projection_def s' p)
      moreover have "j \<noteq> pid \<Longrightarrow> cards_of j (work s') = cards_of j ?d"
        by (simp add: s' cards_of_def without_cards_def filter_other)
      ultimately show ?thesis using s' by (simp add: in_sync_def)
    next
      case True
      let ?p = "sync_product env p ?g"
      let ?e = "(without_cards pid ?d)\<lparr>t_card := filter (\<lambda>c. pc_product_id c \<noteq> pid) (t_card ?d) @ projection pid ?d\<rparr>"
      have s': "work s' = set_product ?p ?e" "n = length (projection pid ?d)"
        using assms True by (auto simp: rebuild_run Let_def p split: sum.splits)
      have tables: "t_card (set_product ?p ?e) = filter (\<lambda>c. pc_product_id c \<noteq> pid) (t_card ?d) @ projection pid ?d"
        by (simp add: set_product_def)
      have reads: "get_variant_aggregate pid (set_product ?p ?e) = ?g" "get_main_image_url pid (set_product ?p ?e) = get_main_image_url pid ?d"
        "get_product_translations pid (set_product ?p ?e) = get_product_translations pid ?d" "card_path q (set_product ?p ?e) = card_path q ?d" for q
        by (simp_all add: set_product_def without_cards_def get_variant_aggregate_def active_variants_def card_path_def
            get_category_def get_main_image_url_def get_product_media_def get_product_translations_def)
      have product: "get_product i ?e = get_product i ?d" for i by (simp add: get_product_def without_cards_def)
      have now: "get_product pid (set_product ?p ?e) = Some ?p"
        by (rule get_set_product(1) [of pid ?e p]) (simp_all add: product p sync_fields)
      have path: "card_path ?p ?d = card_path p ?d" by (simp add: card_path_def sync_fields split: option.split)
      have "projection pid (work s') = map (build_card ?p ?g (card_path ?p ?d) (get_main_image_url pid ?d)) (get_product_translations pid ?d)"
        unfolding s'(1) projection_def [of pid "set_product ?p ?e"] now reads by (simp add: sync_fields True reads)
      also have "\<dots> = projection pid ?d" using True by (simp add: projection_def p build_synced path cong: map_cong)
      finally have "projection pid (work s') = projection pid ?d" .
      moreover have "cards_of pid (work s') = projection pid ?d" by (simp add: cards_of_def s' tables mine)
      moreover have "cards_of j (work s') = cards_of j ?d \<and> get_product j (work s') = get_product j ?d" if j: "j \<noteq> pid"
      proof
        show "cards_of j (work s') = cards_of j ?d"
          using j unfolding cards_of_def s'(1) tables filter_append mine by (simp add: filter_other)
        show "get_product j (work s') = get_product j ?d"
          using get_set_product(2) [of pid ?e p ?p j] j by (simp add: s' product p sync_fields)
      qed
      ultimately show ?thesis using s' by (simp add: in_sync_def)
    qed
  qed
qed

lemma rebuilt_languages:
  assumes "rebuild_card env pid s = (Inr n, s')" "get_product pid (work s) = Some p" "p_is_active p"
  shows "set ALLOWED_LANGS \<subseteq> pc_lang ` set (cards_of pid (work s'))"
proof -
  have pid: "p_id p = pid" using assms(2) by (simp add: get_product_key)
  obtain u where ok: "assert_publishable pid (work s) = Inr u"
    and s': "t_card (work s') = filter (\<lambda>c. pc_product_id c \<noteq> pid) (t_card (work s)) @ projection pid (work s)"
    using assms by (auto simp: rebuild_run Let_def set_product_def split: sum.splits)
  have langs: "set ALLOWED_LANGS \<subseteq> pt_lang ` set (get_product_translations pid (work s))"
    using ok assms(2) by (auto simp: assert_publishable_def split: if_splits)
  have shown: "projection pid (work s) = map (build_card p (get_variant_aggregate pid (work s)) (card_path p (work s))
      (get_main_image_url pid (work s))) (get_product_translations pid (work s))"
    using assms(2,3) by (simp add: projection_def)
  have "pc_lang (build_card p g path pic t) = pt_lang t" for g path pic t by (simp add: build_card_def Let_def)
  then have same: "pc_lang ` set (projection pid (work s)) = pt_lang ` set (get_product_translations pid (work s))"
    unfolding shown by (simp add: image_image)
  have kept: "set (projection pid (work s)) \<subseteq> set (cards_of pid (work s'))"
  proof
    fix c assume c: "c \<in> set (projection pid (work s))"
    then have "pc_product_id c = pid" unfolding shown using pid by auto
    then show "c \<in> set (cards_of pid (work s'))" using c unfolding cards_of_def s' by simp
  qed
  show ?thesis
    by (rule order_trans [OF _ image_mono [OF kept]]) (use langs same in simp)
qed

end
