(* ===== verification/Category_Tree.thy ===== *)
theory Category_Tree
  imports Catalog_Pages "HOL-Library.Multiset" "HOL-Library.Sublist"
begin

text \<open>
  The category tree. The back office keeps with every category the path from its root; when the
  paths agree with the parents (\<open>categories_ok\<close>) there is no cycle, and the tree the storefront
  builds shows every category once.
\<close>

subsection \<open>Paths\<close>

definition find_category :: "int \<Rightarrow> category list \<Rightarrow> category option" where
  "find_category i cs = find (\<lambda>c. cg_id c = i) cs"

definition path_ok :: "category list \<Rightarrow> category \<Rightarrow> bool" where
  "path_ok cs c \<longleftrightarrow> cg_depth c = int (length (cg_path c)) - 1 \<and>
    (case cg_parent_id c of
       None \<Rightarrow> cg_path c = [cg_id c]
     | Some p \<Rightarrow> (case find_category p cs of None \<Rightarrow> False | Some q \<Rightarrow> cg_path c = cg_path q @ [cg_id c]))"

definition tree_ok :: "category list \<Rightarrow> bool" where
  "tree_ok cs \<longleftrightarrow> distinct (map cg_id cs) \<and> list_all (path_ok cs) cs"

definition categories_ok :: "db \<Rightarrow> bool" where
  "categories_ok d \<longleftrightarrow> tree_ok (t_category d)
    \<and> distinct (map (\<lambda>t. (cgt_category_id t, cgt_lang t)) (t_category_translation d))"

lemma find_category_SomeD: "find_category i cs = Some c \<Longrightarrow> c \<in> set cs \<and> cg_id c = i"
  by (auto simp: find_category_def dest: find_SomeD)

lemma find_category_self: "distinct (map cg_id cs) \<Longrightarrow> c \<in> set cs \<Longrightarrow> find_category (cg_id c) cs = Some c"
  by (induction cs) (auto simp: find_category_def image_iff)

lemma path_cases:
  assumes "tree_ok cs" "c \<in> set cs"
  obtains (root) "cg_parent_id c = None" "cg_path c = [cg_id c]"
  | (child) q where "q \<in> set cs" "cg_parent_id c = Some (cg_id q)" "cg_path c = cg_path q @ [cg_id c]"
proof -
  have "path_ok cs c" using assms by (simp add: tree_ok_def list_all_iff)
  then show thesis
    using root child by (auto simp: path_ok_def dest!: find_category_SomeD split: option.splits)
qed

text \<open>Every number of a path is a category, whose own path is a prefix.\<close>

lemma path_prefix:
  assumes "tree_ok cs"
  shows "c \<in> set cs \<Longrightarrow> i \<in> set (cg_path c) \<Longrightarrow> \<exists>a \<in> set cs. cg_id a = i \<and> prefix (cg_path a) (cg_path c)"
proof (induction "length (cg_path c)" arbitrary: c rule: less_induct)
  case less
  from assms less.prems(1) show ?case
  proof (cases rule: path_cases)
    case root
    then show ?thesis using less.prems by auto
  next
    case (child q)
    show ?thesis
    proof (cases "i = cg_id c")
      case True
      then show ?thesis using less.prems by auto
    next
      case False
      then have "i \<in> set (cg_path q)" using less.prems child by simp
      then obtain a where "a \<in> set cs" "cg_id a = i" "prefix (cg_path a) (cg_path q)"
        using less.hyps [of q] child by auto
      then show ?thesis using child by (auto intro: prefix_order.trans)
    qed
  qed
qed

lemma path_of_member:
  assumes "tree_ok cs" "c \<in> set cs" "a \<in> set cs" "cg_id a \<in> set (cg_path c)"
  shows "prefix (cg_path a) (cg_path c)"
proof -
  obtain b where b: "b \<in> set cs" "cg_id b = cg_id a" "prefix (cg_path b) (cg_path c)"
    using path_prefix [OF assms(1,2,4)] by blast
  have "distinct (map cg_id cs)" using assms by (simp add: tree_ok_def)
  then have "b = a" using assms(3) b(1,2) by (auto simp: distinct_map dest: inj_onD)
  then show ?thesis using b by simp
qed

lemma path_ends: "tree_ok cs \<Longrightarrow> c \<in> set cs \<Longrightarrow> \<exists>p. cg_path c = p @ [cg_id c]"
  by (erule path_cases, assumption) auto

lemma path_distinct:
  assumes "tree_ok cs"
  shows "c \<in> set cs \<Longrightarrow> distinct (cg_path c)"
proof (induction "length (cg_path c)" arbitrary: c rule: less_induct)
  case less
  from assms less.prems show ?case
  proof (cases rule: path_cases)
    case (child q)
    have "cg_id c \<notin> set (cg_path q)"
    proof
      assume "cg_id c \<in> set (cg_path q)"
      then have "prefix (cg_path c) (cg_path q)" using path_of_member [OF assms child(1) less.prems] by simp
      then show False using child(3) prefix_length_le by fastforce
    qed
    then show ?thesis using less.hyps [of q] child by simp
  qed simp
qed

subsection \<open>The tree shown\<close>

primrec tree_nodes :: "category_node \<Rightarrow> node_data list" where
  "tree_nodes (Category_Node n ts) = n # concat (map tree_nodes ts)"

definition forest :: "node_data list \<Rightarrow> bool" where
  "forest nodes \<longleftrightarrow> distinct (map nd_id nodes) \<and>
    (\<forall>n \<in> set nodes. \<forall>p \<in> set nodes. nd_parent_id n = Some (nd_id p) \<longrightarrow> nd_depth p < nd_depth n)"

text \<open>\<open>above k n\<close>: there are at least \<open>k\<close> generations above the node; \<open>gen k n\<close>: exactly \<open>k\<close>.\<close>

fun above :: "node_data list \<Rightarrow> nat \<Rightarrow> node_data \<Rightarrow> bool" where
  "above nodes 0 n = True"
| "above nodes (Suc k) n = (\<exists>p \<in> set nodes. nd_parent_id n = Some (nd_id p) \<and> above nodes k p)"

abbreviation gen :: "node_data list \<Rightarrow> nat \<Rightarrow> node_data \<Rightarrow> bool" where
  "gen nodes k n \<equiv> above nodes k n \<and> \<not> above nodes (Suc k) n"

lemma above_antimono: "above nodes (Suc k) n \<Longrightarrow> above nodes k n"
  by (induction k arbitrary: n) auto

lemma above_mono: "above nodes k n \<Longrightarrow> j \<le> k \<Longrightarrow> above nodes j n"
  by (induction k) (auto simp: le_Suc_eq dest: above_antimono simp del: above.simps)

lemma above_depth:
  assumes "forest nodes"
  shows "n \<in> set nodes \<Longrightarrow> above nodes k n \<Longrightarrow> k \<le> card {m \<in> set nodes. nd_depth m < nd_depth n}"
proof (induction k arbitrary: n)
  case (Suc k)
  then obtain p where p: "p \<in> set nodes" "nd_parent_id n = Some (nd_id p)" "above nodes k p" by auto
  then have deeper: "nd_depth p < nd_depth n" using assms Suc.prems(1) by (auto simp: forest_def)
  let ?B = "{m \<in> set nodes. nd_depth m < nd_depth p}"
  have "Suc k \<le> card (insert p ?B)" using Suc.IH [OF p(1,3)] by simp
  also have "\<dots> \<le> card {m \<in> set nodes. nd_depth m < nd_depth n}"
    by (rule card_mono) (use p deeper in auto)
  finally show ?case .
qed simp

lemma above_bounded:
  assumes "forest nodes" "n \<in> set nodes"
  shows "\<not> above nodes (length nodes) n"
proof
  assume "above nodes (length nodes) n"
  then have "length nodes \<le> card {m \<in> set nodes. nd_depth m < nd_depth n}" by (rule above_depth [OF assms])
  also have "\<dots> < card (set nodes)" by (rule psubset_card_mono) (use assms in auto)
  also have "\<dots> \<le> length nodes" by (rule card_length)
  finally show False by simp
qed

lemma is_root_at: "is_root nodes n \<longleftrightarrow> gen nodes 0 n"
  by (auto simp: is_root_def list_all_iff split: option.splits)

lemma at_Suc:
  assumes "forest nodes"
  shows "gen nodes (Suc k) n \<longleftrightarrow> (\<exists>p \<in> set nodes. nd_parent_id n = Some (nd_id p) \<and> gen nodes k p)"
proof -
  have "p = q" if "p \<in> set nodes" "q \<in> set nodes" "nd_id p = nd_id q" for p q
    using assms that by (auto simp: forest_def distinct_map inj_on_def)
  note same = this
  show ?thesis
  proof
    assume a: "gen nodes (Suc k) n"
    then obtain p where p: "p \<in> set nodes" "nd_parent_id n = Some (nd_id p)" "above nodes k p" by auto
    then have "\<not> above nodes (Suc k) p" using a by (auto simp del: above.simps(2) simp: above.simps(2) [of nodes "Suc k" n])
    then show "\<exists>p \<in> set nodes. nd_parent_id n = Some (nd_id p) \<and> gen nodes k p" using p by blast
  next
    assume "\<exists>p \<in> set nodes. nd_parent_id n = Some (nd_id p) \<and> gen nodes k p"
    then obtain p where p: "p \<in> set nodes" "nd_parent_id n = Some (nd_id p)" "above nodes k p" "\<not> above nodes (Suc k) p" by blast
    have "\<not> above nodes (Suc (Suc k)) n"
    proof
      assume "above nodes (Suc (Suc k)) n"
      then obtain q where "q \<in> set nodes" "nd_parent_id n = Some (nd_id q)" "above nodes (Suc k) q"
        unfolding above.simps(2) [of nodes "Suc k" n] by blast
      then show False using same [OF p(1), of q] p by simp
    qed
    then show "gen nodes (Suc k) n" using p above.simps(2) [of nodes k n] by blast
  qed
qed

lemma children_of_all:
  assumes "distinct (map nd_id ps)"
  shows "mset (concat (map (\<lambda>p. children_of nodes (nd_id p)) ps))
    = filter_mset (\<lambda>n. \<exists>p \<in> set ps. nd_parent_id n = Some (nd_id p)) (mset nodes)"
  using assms
proof (induction ps)
  case (Cons p ps)
  have split: "filter_mset (\<lambda>n. P n \<or> Q n) M = filter_mset P M + filter_mset Q M"
    if "\<And>n. \<not> (P n \<and> Q n)" for P Q and M :: "node_data multiset"
    using that by (induction M) auto
  have "filter_mset (\<lambda>n. \<exists>q \<in> set (p # ps). nd_parent_id n = Some (nd_id q)) (mset nodes)
      = filter_mset (\<lambda>n. nd_parent_id n = Some (nd_id p) \<or> (\<exists>q \<in> set ps. nd_parent_id n = Some (nd_id q))) (mset nodes)"
    by simp
  also have "\<dots> = filter_mset (\<lambda>n. nd_parent_id n = Some (nd_id p)) (mset nodes)
      + filter_mset (\<lambda>n. \<exists>q \<in> set ps. nd_parent_id n = Some (nd_id q)) (mset nodes)"
    by (rule split) (use Cons.prems in \<open>auto simp: image_iff\<close>)
  finally show ?case using Cons by (simp add: children_of_def)
qed simp

lemma grown:
  assumes "forest nodes"
  shows "mset xs = filter_mset (gen nodes k) (mset nodes) \<Longrightarrow>
    mset (concat (map (\<lambda>n. tree_nodes (grow nodes fuel n)) xs))
      = filter_mset (\<lambda>n. above nodes k n \<and> \<not> above nodes (Suc (k + fuel)) n) (mset nodes)"
proof (induction fuel arbitrary: k xs)
  case 0
  then show ?case by simp
next
  case (Suc fuel)
  let ?below = "concat (map (\<lambda>n. children_of nodes (nd_id n)) xs)"
  have xs: "set xs = {n \<in> set nodes. gen nodes k n}" using arg_cong [OF Suc.prems, of set_mset] by (simp add: conj_ac)
  have "distinct (map nd_id (filter (gen nodes k) nodes))"
    using assms by (simp add: forest_def distinct_map_filter)
  moreover have "mset (map nd_id xs) = mset (map nd_id (filter (gen nodes k) nodes))"
    using Suc.prems by (metis mset_filter mset_map)
  ultimately have "distinct (map nd_id xs)" by (metis mset_eq_imp_distinct_iff)
  then have "mset ?below = filter_mset (\<lambda>n. \<exists>p \<in> set xs. nd_parent_id n = Some (nd_id p)) (mset nodes)"
    by (rule children_of_all)
  also have "\<dots> = filter_mset (gen nodes (Suc k)) (mset nodes)"
    by (rule filter_mset_cong0) (use at_Suc [OF assms, of k] xs in blast)
  finally have IH: "mset (concat (map (\<lambda>n. tree_nodes (grow nodes fuel n)) ?below))
      = filter_mset (\<lambda>n. above nodes (Suc k) n \<and> \<not> above nodes (Suc (Suc k + fuel)) n) (mset nodes)"
    by (rule Suc.IH)
  have "mset (concat (map (\<lambda>n. tree_nodes (grow nodes (Suc fuel) n)) ys)) = mset ys
      + mset (concat (map (\<lambda>n. tree_nodes (grow nodes fuel n)) (concat (map (\<lambda>n. children_of nodes (nd_id n)) ys))))" for ys
    by (induction ys) (simp_all add: o_def)
  then have "mset (concat (map (\<lambda>n. tree_nodes (grow nodes (Suc fuel) n)) xs)) = filter_mset (gen nodes k) (mset nodes)
      + filter_mset (\<lambda>n. above nodes (Suc k) n \<and> \<not> above nodes (Suc (Suc k + fuel)) n) (mset nodes)"
    using Suc.prems IH by simp
  also have "\<dots> = filter_mset (\<lambda>n. above nodes k n \<and> \<not> above nodes (Suc (k + Suc fuel)) n) (mset nodes)"
  proof -
    have "above nodes (Suc (Suc k + fuel)) n \<Longrightarrow> above nodes (Suc k) n" for n by (erule above_mono) simp
    note deeper = this
    have join: "filter_mset P M + filter_mset Q M = filter_mset R M"
      if "\<And>n. R n \<longleftrightarrow> P n \<or> Q n" "\<And>n. \<not> (P n \<and> Q n)" for P Q R and M :: "node_data multiset"
      using that by (induction M) auto
    show ?thesis
      by (rule join) (use deeper above_antimono in \<open>auto simp del: above.simps\<close>)
  qed
  finally show ?case .
qed

lemma tree_complete:
  assumes "forest nodes"
  shows "mset (concat (map tree_nodes (tree_of nodes))) = mset nodes"
proof -
  have "filter_mset (is_root nodes) (mset nodes) = filter_mset (gen nodes 0) (mset nodes)"
    by (rule filter_mset_cong0) (simp add: is_root_at)
  then have "mset (concat (map (\<lambda>n. tree_nodes (grow nodes (length nodes) n)) (filter (is_root nodes) nodes)))
      = filter_mset (\<lambda>n. above nodes 0 n \<and> \<not> above nodes (Suc (0 + length nodes)) n) (mset nodes)"
    by (intro grown [OF assms]) simp
  also have "\<dots> = mset nodes"
  proof -
    have "\<not> above nodes (Suc (length nodes)) n" if "n \<in> set nodes" for n
      using above_bounded [OF assms that] above_antimono by blast
    then have "filter (\<lambda>n. above nodes 0 n \<and> \<not> above nodes (Suc (0 + length nodes)) n) nodes = nodes"
      by (intro filter_True) simp
    then show ?thesis by (metis mset_filter)
  qed
  finally show ?thesis by (simp add: tree_of_def o_def)
qed

text \<open>The nodes of a language.\<close>

lemma localized_distinct:
  assumes "categories_ok d"
  shows "distinct (map (\<lambda>(c, _). cg_id c) (localized_categories lang P d))"
proof -
  have one: "length (filter (\<lambda>t. cgt_category_id t = i \<and> cgt_lang t = lang) ts) \<le> 1"
    if "distinct (map (\<lambda>t. (cgt_category_id t, cgt_lang t)) ts)" for i ts
    using that
  proof (induction ts)
    case (Cons t ts)
    then show ?case by (auto simp: image_iff filter_empty_conv)
  qed simp
  let ?ts = "t_category_translation d"
  have shape: "localized_categories lang P d
      = concat (map (\<lambda>c. map (Pair c) (filter (\<lambda>t. cgt_category_id t = cg_id c \<and> cgt_lang t = lang) ?ts))
          (filter (\<lambda>c. P c \<and> cg_is_active c) (t_category d)))"
  proof -
    have inner: "concat (map (\<lambda>t. if Q t then [(c, t)] else []) ts) = map (Pair c) (filter Q ts)" for Q ts and c :: category
      by (induction ts) auto
    have "concat (map (\<lambda>c. if Q c then f c else []) cs) = concat (map f (filter Q cs))" for Q cs
      and f :: "category \<Rightarrow> (category \<times> category_translation) list"
      by (induction cs) auto
    then show ?thesis by (simp add: localized_categories_def inner)
  qed
  have "distinct (map (\<lambda>(c, _). cg_id c) (concat (map (\<lambda>c. map (Pair c)
      (filter (\<lambda>t. cgt_category_id t = cg_id c \<and> cgt_lang t = lang) ?ts)) cs)))"
    if "distinct (map cg_id cs)" for cs
    using that
  proof (induction cs)
    case (Cons c cs)
    let ?fs = "filter (\<lambda>t. cgt_category_id t = cg_id c \<and> cgt_lang t = lang) ?ts"
    have "length ?fs \<le> 1" using assms by (intro one) (simp add: categories_ok_def)
    then have "distinct (map (\<lambda>_. cg_id c) ?fs)" by (cases ?fs; cases "tl ?fs") auto
    then show ?case using Cons by (auto simp: o_def)
  qed simp
  moreover have "distinct (map cg_id (filter (\<lambda>c. P c \<and> cg_is_active c) (t_category d)))"
    using assms by (simp add: categories_ok_def tree_ok_def distinct_map_filter)
  ultimately show ?thesis by (simp add: shape)
qed

lemma category_nodes_forest:
  assumes ok: "categories_ok d"
  shows "forest (category_nodes lang d)"
proof -
  let ?counts = "count_products_by_category lang None d"
  have id: "map nd_id (category_nodes lang d) = map (\<lambda>(c, _). cg_id c) (list_active_categories lang d)"
    by (simp add: category_nodes_def node_of_def split_def o_def)
  have "distinct (map (\<lambda>(c, _). cg_id c) (list_active_categories lang d))"
    using localized_distinct [OF ok, of lang "\<lambda>_. True"] unfolding list_active_categories_def
    by (simp add: distinct_map)
  moreover have "nd_depth p < nd_depth n"
    if n: "n \<in> set (category_nodes lang d)" and p: "p \<in> set (category_nodes lang d)" and up: "nd_parent_id n = Some (nd_id p)" for n p
  proof -
    have tree: "tree_ok (t_category d)" using ok by (simp add: categories_ok_def)
    have from_table: "m \<in> set (category_nodes lang d) \<Longrightarrow>
        \<exists>c \<in> set (t_category d). nd_id m = cg_id c \<and> nd_parent_id m = cg_parent_id c \<and> nd_depth m = cg_depth c" for m
      by (auto simp: category_nodes_def list_active_categories_def localized_categories_def node_of_def)
    obtain c where c: "c \<in> set (t_category d)" "nd_parent_id n = cg_parent_id c" "nd_depth n = cg_depth c"
      using from_table [OF n] by blast
    obtain q where q: "q \<in> set (t_category d)" "nd_id p = cg_id q" "nd_depth p = cg_depth q"
      using from_table [OF p] by blast
    have "find_category (cg_id q) (t_category d) = Some q"
      using tree q(1) by (auto simp: tree_ok_def intro: find_category_self)
    moreover have "path_ok (t_category d) c" "path_ok (t_category d) q"
      using tree c(1) q(1) by (simp_all add: tree_ok_def list_all_iff)
    ultimately show ?thesis using up c q by (auto simp: path_ok_def)
  qed
  ultimately show ?thesis unfolding forest_def id by blast
qed

lemma categories_shown_once:
  assumes "categories_ok d"
  shows "mset (map nd_id (concat (map tree_nodes (list_categories lang d))))
    = mset (map (\<lambda>(c, _). cg_id c) (localized_categories lang (\<lambda>_. True) d))"
proof -
  have "mset (map nd_id (concat (map tree_nodes (list_categories lang d)))) = mset (map nd_id (category_nodes lang d))"
    using tree_complete [OF category_nodes_forest [OF assms]] unfolding list_categories_def by (metis mset_map)
  also have "\<dots> = mset (map (\<lambda>(c, _). cg_id c) (localized_categories lang (\<lambda>_. True) d))"
  proof -
    have "map nd_id (category_nodes lang d) = map (\<lambda>(c, _). cg_id c) (list_active_categories lang d)"
      by (simp add: category_nodes_def node_of_def split_def o_def)
    then show ?thesis by (simp add: list_active_categories_def)
  qed
  finally show ?thesis .
qed

end
