(* ===== verification/Admin_Categories.thy ===== *)
theory Admin_Categories
  imports Category_Tree Auth_Service
begin

text \<open>
  The category half of the catalogue back office: \<open>app/services/admin_catalog_service.py\<close>, the
  payloads of \<open>app/schemas/admin_catalog.py\<close> it takes and the endpoints of
  \<open>app/api/routers/admin_catalog.py\<close> around it.

  Each category keeps the path from its root. A translation is unique per category and language,
  and its slug unique per language: a duplicate makes the flush raise.
\<close>

definition SLUG_MIN :: nat where "SLUG_MIN = 2"
definition SLUG_MAX :: nat where "SLUG_MAX = 255"
definition NAME_MAX :: nat where "NAME_MAX = 512"
definition CODE_MAX :: nat where "CODE_MAX = 128"

subsection \<open>Payloads\<close>

text \<open>\<open>^[a-z0-9]+(?:-[a-z0-9]+)*$\<close>\<close>

definition slug_char :: "char \<Rightarrow> bool" where
  "slug_char c \<longleftrightarrow> (48 \<le> (of_char c :: nat) \<and> of_char c \<le> (57 :: nat)) \<or> (97 \<le> (of_char c :: nat) \<and> of_char c \<le> (122 :: nat))"

definition slug_pattern :: "string \<Rightarrow> bool" where
  "slug_pattern s \<longleftrightarrow> list_all (\<lambda>w. w \<noteq> [] \<and> list_all slug_char w) (split_on CHR ''-'' s)"

definition validate_slug :: "string \<Rightarrow> string option" where
  "validate_slug s = (let slug = lower (strip s) in
    if length slug < SLUG_MIN then None else if \<not> slug_pattern slug then None else Some slug)"

definition validate_lang :: "string \<Rightarrow> bool" where
  "validate_lang lang \<longleftrightarrow> lang \<in> set ALLOWED_LANGS"

record category_translation_in =
  ct_lang :: string
  ct_name :: string
  ct_slug :: string
  ct_seo_title :: "string option"
  ct_seo_description :: "string option"

definition category_translation_ok :: "category_translation_in \<Rightarrow> exn + category_translation_in" where
  "category_translation_ok t =
    (if validate_lang (ct_lang t) \<and> length_in 1 NAME_MAX (ct_name t) \<and> length_in SLUG_MIN SLUG_MAX (ct_slug t)
     then case validate_slug (ct_slug t) of None \<Rightarrow> Inl invalid | Some slug \<Rightarrow> Inr (t\<lparr>ct_slug := slug\<rparr>)
     else Inl invalid)"

record category_create =
  cc_parent_id :: "int option"
  cc_position :: int
  cc_is_active :: bool
  cc_translations :: "category_translation_in list"

definition category_create_ok :: "category_create \<Rightarrow> exn + category_create" where
  "category_create_ok p = bindE (mapE category_translation_ok (cc_translations p)) (\<lambda>ts. Inr (p\<lparr>cc_translations := ts\<rparr>))"

text \<open>A field of a partial update is absent, null or a value.\<close>

record category_update =
  cu_parent_id :: "int option option"
  cu_position :: "int option option"
  cu_is_active :: "bool option option"
  cu_cover_image_url :: "string option option"

subsection \<open>Rows\<close>

definition admin_get_category :: "int \<Rightarrow> category act" where
  "admin_get_category cid =
    bindM (reads (get_category cid)) (\<lambda>c.
    case c of None \<Rightarrow> throw (AdminNotFoundError (int_str cid)) | Some c \<Rightarrow> ret c)"

definition resolve_path :: "int option \<Rightarrow> int list act" where
  "resolve_path parent =
    (case parent of
      None \<Rightarrow> ret []
    | Some p \<Rightarrow> bindM (admin_get_category p) (\<lambda>c. ret (cg_path c)))"

text \<open>An update of a row that changes a column also moves its time stamp.\<close>

definition touched :: "environment \<Rightarrow> category \<Rightarrow> category \<Rightarrow> category" where
  "touched env old c = (if c = old then c else c\<lparr>cg_updated_at := env_now env\<rparr>)"

definition update_rows :: "environment \<Rightarrow> (category \<Rightarrow> category) \<Rightarrow> db \<Rightarrow> db" where
  "update_rows env f d = d\<lparr>t_category := map (\<lambda>c. touched env c (f c)) (t_category d)\<rparr>"

definition translation_row :: "int \<Rightarrow> category_translation_in \<Rightarrow> category_translation" where
  "translation_row cid t = \<lparr>cgt_category_id = cid, cgt_lang = ct_lang t, cgt_name = ct_name t, cgt_slug = ct_slug t,
     cgt_seo_title = ct_seo_title t, cgt_seo_description = ct_seo_description t\<rparr>"

definition translation_unique :: "category_translation \<Rightarrow> db \<Rightarrow> bool" where
  "translation_unique t d \<longleftrightarrow> list_all (\<lambda>x. (cgt_category_id x, cgt_lang x) \<noteq> (cgt_category_id t, cgt_lang t)
    \<and> (cgt_lang x, cgt_slug x) \<noteq> (cgt_lang t, cgt_slug t)) (t_category_translation d)"

definition add_category_translation :: "int \<Rightarrow> category_translation_in \<Rightarrow> unit act" where
  "add_category_translation cid t =
    bindM (readsE (\<lambda>d. guardE (translation_unique (translation_row cid t) d) (IntegrityError ''category_translation''))) (\<lambda>_.
    writes (\<lambda>d. d\<lparr>t_category_translation := t_category_translation d @ [translation_row cid t]\<rparr>))"

subsection \<open>Operations\<close>

definition create_category :: "environment \<Rightarrow> category_create \<Rightarrow> category act" where
  "create_category env p =
    bindM (resolve_path (cc_parent_id p)) (\<lambda>prefix.
    bindM (next_id Category_T) (\<lambda>i.
    let c = \<lparr>cg_id = i, cg_parent_id = cc_parent_id p, cg_path = [], cg_depth = int (length prefix),
        cg_is_active = cc_is_active p, cg_position = cc_position p, cg_cover_image_url = None, cg_updated_at = env_now env\<rparr> in
    bindM (writes (\<lambda>d. d\<lparr>t_category := t_category d @ [c]\<rparr>)) (\<lambda>_.
    bindM (writes (update_rows env (\<lambda>x. if cg_id x = i then x\<lparr>cg_path := prefix @ [i]\<rparr> else x))) (\<lambda>_.
    bindM (forEach (cc_translations p) (add_category_translation i)) (\<lambda>_.
    bindM commit (\<lambda>_.
    admin_get_category i))))))"

definition in_subtree :: "int \<Rightarrow> category \<Rightarrow> bool" where
  "in_subtree cid c \<longleftrightarrow> cid \<in> set (cg_path c)"

definition moved :: "int \<Rightarrow> int option \<Rightarrow> int list \<Rightarrow> nat \<Rightarrow> category \<Rightarrow> category" where
  "moved cid parent new_path old_len c =
    (if in_subtree cid c then
       let path = new_path @ drop old_len (cg_path c); c' = c\<lparr>cg_path := path, cg_depth := int (length path) - 1\<rparr> in
       if cg_id c = cid then c'\<lparr>cg_parent_id := parent\<rparr> else c'
     else c)"

definition move_category :: "environment \<Rightarrow> int \<Rightarrow> int option \<Rightarrow> category act" where
  "move_category env cid parent =
    bindM (admin_get_category cid) (\<lambda>node.
    bindM (resolve_path parent) (\<lambda>prefix.
    if cid \<in> set prefix then throw (AdminValidationError ''subtree'')
    else
      bindM (writes (update_rows env (moved cid parent (prefix @ [cid]) (length (cg_path node))))) (\<lambda>_.
      bindM commit (\<lambda>_.
      admin_get_category cid))))"

text \<open>A null for a column that must not be null is written, and refused by the database.\<close>

definition patched_category :: "category_update \<Rightarrow> category \<Rightarrow> category option" where
  "patched_category p c =
    (case (sent_value (cg_position c) (cu_position p), sent_value (cg_is_active c) (cu_is_active p)) of
      (Some pos, Some active) \<Rightarrow>
        Some (c\<lparr>cg_position := pos, cg_is_active := active,
          cg_cover_image_url := (case cu_cover_image_url p of None \<Rightarrow> cg_cover_image_url c | Some u \<Rightarrow> u)\<rparr>)
    | _ \<Rightarrow> None)"

text \<open>A change of parent is a move, which commits before the other fields are written.\<close>

definition update_category :: "environment \<Rightarrow> int \<Rightarrow> category_update \<Rightarrow> category act" where
  "update_category env cid p =
    bindM (admin_get_category cid) (\<lambda>_.
    bindM (case cu_parent_id p of
             None \<Rightarrow> ret ()
           | Some parent \<Rightarrow> bindM (move_category env cid parent) (\<lambda>_. ret ())) (\<lambda>_.
    bindM (admin_get_category cid) (\<lambda>c.
    bindM (liftE (the_orE (patched_category p c) (IntegrityError ''category''))) (\<lambda>c'.
    bindM (writes (update_rows env (\<lambda>x. if cg_id x = cid then c' else x))) (\<lambda>_.
    bindM commit (\<lambda>_.
    admin_get_category cid))))))"

definition has_children :: "int \<Rightarrow> db \<Rightarrow> bool" where
  "has_children cid d \<longleftrightarrow> rowcount (\<lambda>c. cg_parent_id c = Some cid) (t_category d) \<noteq> 0"

definition has_products :: "int \<Rightarrow> db \<Rightarrow> bool" where
  "has_products cid d \<longleftrightarrow> rowcount (\<lambda>p. p_category_id p = cid) (t_product d) \<noteq> 0"

definition delete_category :: "int \<Rightarrow> unit act" where
  "delete_category cid =
    bindM (admin_get_category cid) (\<lambda>_.
    bindM (reads (has_children cid)) (\<lambda>children.
    bindM (whenM children (throw (AdminConflictError ''children''))) (\<lambda>_.
    bindM (reads (has_products cid)) (\<lambda>products.
    bindM (whenM products (throw (AdminConflictError ''products''))) (\<lambda>_.
    bindM (writes (\<lambda>d. d\<lparr>t_category_translation := filter (\<lambda>t. cgt_category_id t \<noteq> cid) (t_category_translation d)\<rparr>)) (\<lambda>_.
    bindM (writes (\<lambda>d. d\<lparr>t_category := filter (\<lambda>c. cg_id c \<noteq> cid) (t_category d)\<rparr>)) (\<lambda>_.
    commit)))))))"

definition set_category_translation :: "int \<Rightarrow> category_translation_in \<Rightarrow> category_translation act" where
  "set_category_translation cid t =
    bindM (admin_get_category cid) (\<lambda>_.
    bindM (reads (\<lambda>d. find (\<lambda>x. cgt_category_id x = cid \<and> cgt_lang x = ct_lang t) (t_category_translation d))) (\<lambda>found.
    let row = translation_row cid t; mine = (\<lambda>x. cgt_category_id x = cid \<and> cgt_lang x = ct_lang t) in
    bindM (readsE (\<lambda>d. guardE (list_all (\<lambda>x. mine x \<or> (cgt_lang x, cgt_slug x) \<noteq> (ct_lang t, ct_slug t)) (t_category_translation d))
      (IntegrityError ''category_translation''))) (\<lambda>_.
    bindM (writes (\<lambda>d. d\<lparr>t_category_translation :=
        (if found = None then t_category_translation d @ [row] else upd mine (\<lambda>_. row) (t_category_translation d))\<rparr>)) (\<lambda>_.
    bindM commit (\<lambda>_.
    ret row)))))"

definition reorder_categories :: "environment \<Rightarrow> (int \<times> int) list \<Rightarrow> unit act" where
  "reorder_categories env items =
    bindM (forEach items (\<lambda>(cid, position).
      bindM (admin_get_category cid) (\<lambda>_.
      writes (update_rows env (\<lambda>x. if cg_id x = cid then x\<lparr>cg_position := position\<rparr> else x))))) (\<lambda>_.
    commit)"

definition admin_list_categories :: "db \<Rightarrow> category list" where
  "admin_list_categories d = sort_key (\<lambda>c. (cg_path c, cg_position c)) (t_category d)"

definition get_category_out_data :: "category list \<Rightarrow> db \<Rightarrow> (int \<times> category_translation list) list" where
  "get_category_out_data cs d =
    map (\<lambda>i. (i, filter (\<lambda>t. cgt_category_id t = i) (t_category_translation d))) (remdups (map cg_id cs))"

subsection \<open>Endpoints\<close>

definition build_category_out :: "category \<Rightarrow> (category \<times> category_translation list) act" where
  "build_category_out c = bindM (reads (get_category_translations (cg_id c))) (\<lambda>ts. ret (c, ts))"

definition list_categories_endpoint :: "environment \<Rightarrow> web_request \<Rightarrow> (category \<times> category_translation list) list act" where
  "list_categories_endpoint env r =
    bindM (current_staff env r) (\<lambda>_.
    reads (\<lambda>d. let cs = admin_list_categories d; ts = map_of (get_category_out_data cs d) in
      map (\<lambda>c. (c, case ts (cg_id c) of None \<Rightarrow> [] | Some l \<Rightarrow> l)) cs))"

definition create_category_endpoint where
  "create_category_endpoint env r p =
    bindM (current_staff env r) (\<lambda>_.
    bindM (liftE (category_create_ok p)) (\<lambda>p'.
    bindM (create_category env p') build_category_out))"

definition update_category_endpoint where
  "update_category_endpoint env r cid p =
    bindM (current_staff env r) (\<lambda>_.
    bindM (update_category env cid p) build_category_out)"

definition delete_category_endpoint where
  "delete_category_endpoint env r cid = bindM (current_staff env r) (\<lambda>_. delete_category cid)"

definition set_category_translation_endpoint where
  "set_category_translation_endpoint env r cid t =
    bindM (current_staff env r) (\<lambda>_.
    bindM (liftE (category_translation_ok t)) (\<lambda>t'. set_category_translation cid t'))"

definition reorder_categories_endpoint where
  "reorder_categories_endpoint env r items =
    bindM (current_staff env r) (\<lambda>_.
    bindM (liftE (guardE (items \<noteq> []) invalid)) (\<lambda>_. reorder_categories env items))"

definition move_category_endpoint where
  "move_category_endpoint env r cid parent =
    bindM (current_staff env r) (\<lambda>_.
    bindM (move_category env cid parent) build_category_out)"

end
