(* ===== verification/Media_Storage.thy ===== *)
theory Media_Storage
  imports Security
begin

text \<open>
  Uploaded pictures: the object store of \<open>app/core/storage.py\<close> with its two backends and the
  resizing rules of \<open>app/core/images.py\<close>. The store itself (a directory, or a bucket behind \<open>aioboto3\<close>)
  is the map \<open>objects\<close> of the outside world, Pillow the two functions of the environment; a call
  the store does not answer raises.
\<close>

definition RESPONSIVE_WIDTHS :: "nat list" where "RESPONSIVE_WIDTHS = [200, 400, 800, 1200]"
definition MAX_UPLOAD_DIMENSION :: nat where "MAX_UPLOAD_DIMENSION = 6000"
definition MAX_UPLOAD_BYTES :: int where "MAX_UPLOAD_BYTES = 10 * 1024 * 1024"
definition S3_KEY_PREFIX :: string where "S3_KEY_PREFIX = ''media''"
definition SUPPORT_KEY_PREFIX :: string where "SUPPORT_KEY_PREFIX = ''support''"
definition SUPPORT_CACHE_CONTROL :: string where "SUPPORT_CACHE_CONTROL = ''private, no-store''"
definition DEFAULT_CONTENT_TYPE :: string where "DEFAULT_CONTENT_TYPE = ''application/octet-stream''"
definition MEDIA_CACHE_CONTROL :: string where "MEDIA_CACHE_CONTROL = ''public, max-age=31536000, immutable''"
definition VARIANT_CONTENT_TYPE :: string where "VARIANT_CONTENT_TYPE = ''image/webp''"

subsection \<open>Names\<close>

text \<open>\<open>Path(s).name\<close>, \<open>.suffix\<close> and \<open>.stem\<close>.\<close>

definition path_name :: "string \<Rightarrow> string" where
  "path_name s = (case rev (filter (\<lambda>c. c \<noteq> [] \<and> c \<noteq> ''.'') (split_on CHR ''/'' s)) of [] \<Rightarrow> [] | c # _ \<Rightarrow> c)"

definition name_extension :: "string \<Rightarrow> string" where
  "name_extension name =
    (let ext = takeWhile (\<lambda>c. c \<noteq> CHR ''.'') (rev name); n = length name - length ext - 1 in
      if CHR ''.'' \<in> set name \<and> 0 < n \<and> ext \<noteq> [] then CHR ''.'' # rev ext else [])"

definition path_suffix :: "string \<Rightarrow> string" where
  "path_suffix s = name_extension (path_name s)"

definition path_stem :: "string \<Rightarrow> string" where
  "path_stem s = take (length (path_name s) - length (path_suffix s)) (path_name s)"

definition variant_object_name :: "string \<Rightarrow> nat \<Rightarrow> string" where
  "variant_object_name original_url width = path_stem original_url @ ''_'' @ nat_str width @ ''.webp''"

definition object_name :: "environment \<Rightarrow> string \<Rightarrow> string net" where
  "object_name env filename = bindM draw (\<lambda>n. ret (env_uuid_hex env n @ path_suffix filename))"

definition support_attachment_key :: "environment \<Rightarrow> int \<Rightarrow> string \<Rightarrow> string net" where
  "support_attachment_key env conversation_id ext =
    bindM draw (\<lambda>n. ret (SUPPORT_KEY_PREFIX @ ''/'' @ int_str conversation_id @ ''/'' @ env_uuid_hex env n @ ext))"

subsection \<open>The two backends\<close>

datatype backend = LocalStorage | S3Storage

definition get_storage :: "settings \<Rightarrow> exn + backend" where
  "get_storage cfg =
    (if storage_backend cfg = ''local'' then Inr LocalStorage
     else if storage_backend cfg = ''s3'' then Inr S3Storage
     else Inl (PyError ''ValueError''))"

text \<open>Where an object with a name is kept: under the media root, or under the prefix of the bucket.\<close>

definition media_key :: "settings \<Rightarrow> backend \<Rightarrow> string \<Rightarrow> string" where
  "media_key cfg b name = (case b of LocalStorage \<Rightarrow> media_root cfg @ ''/'' @ name | S3Storage \<Rightarrow> S3_KEY_PREFIX @ ''/'' @ name)"

definition exact_key :: "settings \<Rightarrow> backend \<Rightarrow> string \<Rightarrow> string" where
  "exact_key cfg b key = (case b of LocalStorage \<Rightarrow> media_root cfg @ ''/'' @ key | S3Storage \<Rightarrow> key)"

definition stored :: "backend \<Rightarrow> string \<Rightarrow> string \<Rightarrow> string \<Rightarrow> stored_object" where
  "stored b data content_type cache =
    (case b of
      LocalStorage \<Rightarrow> \<lparr>so_data = data, so_content_type = None, so_cache_control = None\<rparr>
    | S3Storage \<Rightarrow> \<lparr>so_data = data, so_content_type = Some content_type, so_cache_control = Some cache\<rparr>)"

definition store_call :: "environment \<Rightarrow> backend \<Rightarrow> unit net" where
  "store_call env b =
    whenM (\<not> env_store_up env) (throw (PyError (case b of LocalStorage \<Rightarrow> ''OSError'' | S3Storage \<Rightarrow> ''ClientError'')))"

definition put_object :: "environment \<Rightarrow> backend \<Rightarrow> string \<Rightarrow> stored_object \<Rightarrow> unit net" where
  "put_object env b key x = bindM (store_call env b) (\<lambda>_. modify (\<lambda>w. w\<lparr>objects := (objects w)(key \<mapsto> x)\<rparr>))"

definition delete_object :: "environment \<Rightarrow> backend \<Rightarrow> string \<Rightarrow> unit net" where
  "delete_object env b key = bindM (store_call env b) (\<lambda>_. modify (\<lambda>w. w\<lparr>objects := (objects w)(key := None)\<rparr>))"

definition public_url_for :: "settings \<Rightarrow> string \<Rightarrow> string" where
  "public_url_for cfg key =
    (let public = rstrip_char CHR ''/'' (s3_public_url cfg) in
      if public \<noteq> [] then public @ ''/'' @ key
      else rstrip_char CHR ''/'' (s3_endpoint_url cfg) @ ''/'' @ s3_bucket cfg @ ''/'' @ key)"

definition media_url :: "settings \<Rightarrow> backend \<Rightarrow> string \<Rightarrow> string" where
  "media_url cfg b name =
    (case b of
      LocalStorage \<Rightarrow> rstrip_char CHR ''/'' (media_url_prefix cfg) @ ''/'' @ name
    | S3Storage \<Rightarrow> public_url_for cfg (media_key cfg S3Storage name))"

definition save :: "environment \<Rightarrow> backend \<Rightarrow> string \<Rightarrow> string \<Rightarrow> string \<Rightarrow> string net" where
  "save env b data filename content_type =
    bindM (object_name env filename) (\<lambda>name.
    bindM (put_object env b (media_key (env_cfg env) b name) (stored b data content_type MEDIA_CACHE_CONTROL)) (\<lambda>_.
    ret (media_url (env_cfg env) b name)))"

definition save_variants :: "environment \<Rightarrow> backend \<Rightarrow> string \<Rightarrow> (nat \<times> string) list \<Rightarrow> unit net" where
  "save_variants env b original_url variants =
    forEach variants (\<lambda>(width, payload).
      put_object env b (media_key (env_cfg env) b (variant_object_name original_url width))
        (stored b payload VARIANT_CONTENT_TYPE MEDIA_CACHE_CONTROL))"

definition storage_delete :: "environment \<Rightarrow> backend \<Rightarrow> string \<Rightarrow> unit net" where
  "storage_delete env b url =
    (let name = path_name url in
      if name = [] then ret () else delete_object env b (media_key (env_cfg env) b name))"

definition put_key :: "environment \<Rightarrow> backend \<Rightarrow> string \<Rightarrow> string \<Rightarrow> string \<Rightarrow> unit net" where
  "put_key env b key data content_type =
    put_object env b (exact_key (env_cfg env) b key) (stored b data content_type SUPPORT_CACHE_CONTROL)"

text \<open>The type of a file is guessed from its name by the table of \<open>mimetypes\<close>, a parameter.\<close>

definition fetch_key :: "environment \<Rightarrow> (string \<Rightarrow> string option) \<Rightarrow> backend \<Rightarrow> string \<Rightarrow> (string \<times> string) option net" where
  "fetch_key env guess_type b key =
    bindM (store_call env b) (\<lambda>_.
    gets (\<lambda>w. map_option (\<lambda>x. (so_data x,
        case (case b of LocalStorage \<Rightarrow> guess_type key | S3Storage \<Rightarrow> so_content_type x) of
          None \<Rightarrow> DEFAULT_CONTENT_TYPE
        | Some t \<Rightarrow> if t = [] then DEFAULT_CONTENT_TYPE else t))
      (objects w (exact_key (env_cfg env) b key))))"

definition remove_key :: "environment \<Rightarrow> backend \<Rightarrow> string \<Rightarrow> unit net" where
  "remove_key env b key = delete_object env b (exact_key (env_cfg env) b key)"

subsection \<open>Resized copies\<close>

text \<open>One encoding per distinct width; a width beyond the picture's shares the copy at full width.\<close>

fun fixed_set :: "(nat \<Rightarrow> string) \<Rightarrow> nat \<Rightarrow> nat list \<Rightarrow> (nat \<times> string) list \<Rightarrow> (nat \<times> string) list" where
  "fixed_set encode original [] encoded = []"
| "fixed_set encode original (w # ws) encoded =
    (let e = min w original;
         encoded' = (if map_of encoded e = None then (e, encode e) # encoded else encoded)
     in (w, the (map_of encoded' e)) # fixed_set encode original ws encoded')"

fun dict_keys :: "'a list \<Rightarrow> 'a list" where
  "dict_keys [] = []"
| "dict_keys (x # xs) = x # dict_keys (filter (\<lambda>y. y \<noteq> x) xs)"

definition image_error :: exn where "image_error = PyError ''ImageValidationError''"

definition generate_fixed_webp_set :: "environment \<Rightarrow> string \<Rightarrow> nat list \<Rightarrow> exn + (nat \<times> string) list" where
  "generate_fixed_webp_set env data widths =
    (case env_open_image env data of
      Unidentified \<Rightarrow> Inl (PyError ''ValueError'')
    | Pixel_Bomb \<Rightarrow> Inl (PyError ''DecompressionBombError'')
    | Opened w h decodes \<Rightarrow>
        if \<not> decodes then Inl (PyError ''OSError'')
        else Inr (fixed_set (env_webp env data) w (dict_keys widths) []))"

definition generate_webp_variants :: "environment \<Rightarrow> string \<Rightarrow> nat list \<Rightarrow> exn + (nat \<times> string) list" where
  "generate_webp_variants env data widths =
    (case env_open_image env data of
      Unidentified \<Rightarrow> Inl (PyError ''ValueError'')
    | Pixel_Bomb \<Rightarrow> Inl (PyError ''DecompressionBombError'')
    | Opened w h decodes \<Rightarrow>
        if \<not> decodes then Inl (PyError ''OSError'')
        else Inr (map (\<lambda>x. (x, env_webp env data x)) (dict_keys (filter (\<lambda>x. x < w) widths))))"

definition validate_and_build_variants :: "environment \<Rightarrow> string \<Rightarrow> exn + (nat \<times> string) list" where
  "validate_and_build_variants env data =
    (case env_open_image env data of
      Unidentified \<Rightarrow> Inl image_error
    | Pixel_Bomb \<Rightarrow> Inl image_error
    | Opened w h _ \<Rightarrow>
        if w > MAX_UPLOAD_DIMENSION \<or> h > MAX_UPLOAD_DIMENSION then Inl image_error
        else case generate_fixed_webp_set env data RESPONSIVE_WIDTHS of
          Inl e \<Rightarrow> Inl (if e = PyError ''ValueError'' then image_error else e)
        | Inr vs \<Rightarrow> Inr vs)"

subsection \<open>Uploads\<close>

record upload_file =
  uf_filename :: "string option"
  uf_content_type :: "string option"
  uf_size :: "int option"
  uf_data :: string

definition text_or :: "string \<Rightarrow> string option \<Rightarrow> string" where
  "text_or other x = (case x of None \<Rightarrow> other | Some s \<Rightarrow> if s = [] then other else s)"

text \<open>What both upload paths do once the file is accepted: check, encode, store.\<close>

definition store_upload :: "environment \<Rightarrow> exn \<Rightarrow> upload_file \<Rightarrow> string net" where
  "store_upload env refusal f =
    bindM (liftE (case validate_and_build_variants env (uf_data f) of
        Inl e \<Rightarrow> Inl (if e = image_error then refusal else e) | Inr vs \<Rightarrow> Inr vs)) (\<lambda>variants.
    bindM (liftE (get_storage (env_cfg env))) (\<lambda>b.
    bindM (save env b (uf_data f) (text_or [] (uf_filename f)) (text_or DEFAULT_CONTENT_TYPE (uf_content_type f))) (\<lambda>url.
    bindM (save_variants env b url variants) (\<lambda>_.
    ret url))))"

text \<open>\<open>POST /admin/assets\<close>, after the staff check.\<close>

definition upload_asset :: "environment \<Rightarrow> upload_file \<Rightarrow> string net" where
  "upload_asset env f =
    (let refused = HTTPException 422 None in
      if take 6 (text_or [] (uf_content_type f)) \<noteq> ''image/'' then throw refused
      else if (case uf_size f of None \<Rightarrow> False | Some n \<Rightarrow> n > MAX_UPLOAD_BYTES) then throw refused
      else store_upload env refused f)"

subsection \<open>What is stored\<close>

definition plain_name :: "string \<Rightarrow> bool" where
  "plain_name s \<longleftrightarrow> s \<noteq> [] \<and> CHR ''/'' \<notin> set s \<and> CHR ''.'' \<notin> set s"

text \<open>\<open>uuid4().hex\<close>: different draws differ, and the text has neither slash nor full stop.\<close>

definition uuid_plain :: "environment \<Rightarrow> bool" where
  "uuid_plain env \<longleftrightarrow> inj (env_uuid_hex env) \<and> (\<forall>n. plain_name (env_uuid_hex env n))"

lemma path_name_simple: "name \<noteq> [] \<Longrightarrow> name \<noteq> ''.'' \<Longrightarrow> CHR ''/'' \<notin> set name \<Longrightarrow> path_name (dir @ ''/'' @ name) = name"
proof -
  assume "name \<noteq> []" "name \<noteq> ''.''" "CHR ''/'' \<notin> set name"
  have "split_on CHR ''/'' (dir @ CHR ''/'' # s) = split_on CHR ''/'' dir @ split_on CHR ''/'' s" for s
    by (induction dir) (auto split: list.splits simp: neq_Nil_conv)
  then show ?thesis
    using \<open>name \<noteq> []\<close> \<open>name \<noteq> ''.''\<close> \<open>CHR ''/'' \<notin> set name\<close> by (simp add: path_name_def split_on_no_sep)
qed

lemma extension_plain: "CHR ''/'' \<notin> set s \<Longrightarrow> CHR ''/'' \<notin> set (name_extension s)"
  by (auto simp: name_extension_def Let_def dest: set_takeWhileD)

lemma path_name_no_slash: "CHR ''/'' \<notin> set (path_name s)"
proof (cases "rev (filter (\<lambda>c. c \<noteq> [] \<and> c \<noteq> ''.'') (split_on CHR ''/'' s))")
  case Nil
  then show ?thesis by (simp add: path_name_def)
next
  case (Cons c cs)
  then have "c \<in> set (rev (filter (\<lambda>c. c \<noteq> [] \<and> c \<noteq> ''.'') (split_on CHR ''/'' s)))" by simp
  then have "c \<in> set (split_on CHR ''/'' s)" by simp
  then show ?thesis using Cons split_on_parts [of c] by (simp add: path_name_def)
qed

lemma suffix_plain: "CHR ''/'' \<notin> set (path_suffix s)"
  by (simp add: path_suffix_def extension_plain path_name_no_slash)

lemma media_url_name:
  assumes "name \<noteq> []" "name \<noteq> ''.''" "CHR ''/'' \<notin> set name"
  shows "path_name (media_url cfg b name) = name"
proof (cases b)
  case LocalStorage
  then show ?thesis using path_name_simple [OF assms] by (simp add: media_url_def)
next
  case S3Storage
  have "\<exists>dir. media_url cfg S3Storage name = dir @ ''/'' @ name"
    unfolding media_url_def public_url_for_def media_key_def Let_def
    by (auto intro!: exI [of _ "rstrip_char CHR ''/'' (s3_public_url cfg) @ ''/'' @ S3_KEY_PREFIX"]
        exI [of _ "rstrip_char CHR ''/'' (s3_endpoint_url cfg) @ ''/'' @ s3_bucket cfg @ ''/'' @ S3_KEY_PREFIX"])
  then show ?thesis using S3Storage path_name_simple [OF assms] by auto
qed

text \<open>Sharing the encodings changes nothing: every width gets the picture at its own width or its full one.\<close>

lemma fixed_set_each:
  assumes "\<And>e s. map_of encoded e = Some s \<Longrightarrow> s = encode e"
  shows "fixed_set encode original ws encoded = map (\<lambda>w. (w, encode (min w original))) ws"
  using assms
proof (induction encode original ws encoded rule: fixed_set.induct)
  case (2 encode original w ws encoded)
  let ?e = "min w original"
  let ?encoded = "if map_of encoded ?e = None then (?e, encode ?e) # encoded else encoded"
  have inv: "map_of ?encoded e = Some s \<Longrightarrow> s = encode e" for e s
    using 2(2) by (auto split: if_splits)
  have "map_of ?encoded ?e = Some (encode ?e)" using 2(2) by (cases "map_of encoded ?e") auto
  then show ?case using 2(1) [OF refl refl inv] by (simp add: Let_def)
qed simp

text \<open>A saved file is found under the name in its URL; deleting by URL removes that object and no other.\<close>

lemma object_name_plain:
  assumes "uuid_plain env"
  shows "env_uuid_hex env n @ path_suffix fn \<noteq> []" "env_uuid_hex env n @ path_suffix fn \<noteq> ''.''"
    "CHR ''/'' \<notin> set (env_uuid_hex env n @ path_suffix fn)"
proof -
  have "plain_name (env_uuid_hex env n)" using assms by (simp add: uuid_plain_def)
  then show "env_uuid_hex env n @ path_suffix fn \<noteq> []" "env_uuid_hex env n @ path_suffix fn \<noteq> ''.''"
    "CHR ''/'' \<notin> set (env_uuid_hex env n @ path_suffix fn)"
    using suffix_plain [of fn] by (auto simp: plain_name_def Cons_eq_append_conv append_eq_Cons_conv)
qed

lemma save_run:
  assumes "uuid_plain env" "save env b data fn ct w = (Inr url, w')"
  shows "path_name url = env_uuid_hex env (entropy w) @ path_suffix fn"
    "w' = w\<lparr>entropy := entropy w + 1, objects := (objects w)(media_key (env_cfg env) b (path_name url) \<mapsto> stored b data ct MEDIA_CACHE_CONTROL)\<rparr>"
proof -
  let ?name = "env_uuid_hex env (entropy w) @ path_suffix fn"
  have url: "url = media_url (env_cfg env) b ?name" and up: "env_store_up env"
    using assms(2) by (auto simp: save_def object_name_def put_object_def store_call_def bindM_app split: if_splits)
  then show name: "path_name url = ?name" using media_url_name [OF object_name_plain [OF assms(1)]] by simp
  show "w' = w\<lparr>entropy := entropy w + 1, objects := (objects w)(media_key (env_cfg env) b (path_name url) \<mapsto> stored b data ct MEDIA_CACHE_CONTROL)\<rparr>"
    using assms(2) up unfolding name by (auto simp: save_def object_name_def put_object_def store_call_def bindM_app)
qed

lemma save_variants_run:
  "save_variants env b url vs w = (Inr u, w') \<Longrightarrow> w' = w\<lparr>objects := (objects w)
    ++ map_of (rev (map (\<lambda>(n, data). (media_key (env_cfg env) b (variant_object_name url n), stored b data VARIANT_CONTENT_TYPE MEDIA_CACHE_CONTROL)) vs))\<rparr>"
proof (induction vs arbitrary: w)
  case Nil
  then show ?case by (simp add: save_variants_def)
next
  case (Cons v vs)
  obtain n data where v: "v = (n, data)" by fastforce
  let ?key = "media_key (env_cfg env) b (variant_object_name url n)" and ?x = "stored b data VARIANT_CONTENT_TYPE MEDIA_CACHE_CONTROL"
  have "save_variants env b url vs (w\<lparr>objects := (objects w)(?key \<mapsto> ?x)\<rparr>) = (Inr u, w')"
    using Cons.prems by (auto simp: save_variants_def v bindM_app put_object_def store_call_def split: if_splits)
  from Cons.IH [OF this] show ?case by (simp add: v map_add_def fun_eq_iff split: option.split)
qed

lemma delete_by_url:
  assumes "storage_delete env b url w = (Inr u, w')" "path_name url \<noteq> []"
  shows "w' = w\<lparr>objects := (objects w)(media_key (env_cfg env) b (path_name url) := None)\<rparr>"
  using assms by (auto simp: storage_delete_def Let_def delete_object_def store_call_def bindM_app split: if_splits)

lemma media_key_inj: "media_key cfg b x = media_key cfg b y \<longleftrightarrow> x = y"
  by (cases b) (simp_all add: media_key_def)

text \<open>A resized copy has another name than its original: the stem is followed by an underscore, not by a suffix.\<close>

lemma extension_ends:
  "\<exists>stem. name = stem @ name_extension name \<and> (name_extension name = [] \<or> hd (name_extension name) = CHR ''.'')"
proof (cases "name_extension name = []")
  case False
  let ?ext = "takeWhile (\<lambda>c. c \<noteq> CHR ''.'') (rev name)" and ?rest = "dropWhile (\<lambda>c. c \<noteq> CHR ''.'') (rev name)"
  from False have dot: "CHR ''.'' \<in> set name" and ext: "name_extension name = CHR ''.'' # rev ?ext"
    by (auto simp: name_extension_def Let_def split: if_splits)
  have found: "?rest \<noteq> []" using dot by (auto simp: dropWhile_eq_Nil_conv)
  then have "hd ?rest = CHR ''.''" using hd_dropWhile [OF found] by simp
  then obtain before where rest: "?rest = CHR ''.'' # before" using found by (metis list.collapse)
  have "rev name = ?ext @ CHR ''.'' # before" using takeWhile_dropWhile_id [of "\<lambda>c. c \<noteq> CHR ''.''" "rev name"] unfolding rest by simp
  from arg_cong [OF this, of rev] have "name = rev before @ CHR ''.'' # rev ?ext"
    by (simp only: rev_rev_ident rev_append rev.simps append_assoc append_Cons append_Nil)
  then show ?thesis unfolding ext by auto
qed simp

lemma name_parts: "path_name s = path_stem s @ path_suffix s"
proof -
  obtain stem where "path_name s = stem @ path_suffix s" using extension_ends [of "path_name s"] unfolding path_suffix_def by blast
  then show ?thesis by (simp add: path_stem_def)
qed

lemma variant_name_other: "variant_object_name url n \<noteq> path_name url"
proof -
  have "path_suffix url = [] \<or> hd (path_suffix url) = CHR ''.''"
    using extension_ends [of "path_name url"] unfolding path_suffix_def by blast
  then show ?thesis unfolding name_parts [of url] by (cases "path_suffix url") (auto simp: variant_object_name_def)
qed

lemma variant_name_inj: "variant_object_name url n = variant_object_name url m \<longleftrightarrow> n = m"
  by (simp add: variant_object_name_def nat_str_inject)

text \<open>
  After an upload and the deletion of its URL the original is gone, and every other object of the
  store is as before the deletion: the resized copies of the upload stay.
\<close>

lemma deleted_upload:
  assumes "uuid_plain env" "save env b data fn ct w = (Inr url, w1)" "save_variants env b url vs w1 = (Inr u, w2)"
    and "storage_delete env b url w2 = (Inr u', w3)"
  shows "objects w3 (media_key (env_cfg env) b (path_name url)) = None"
    "(n, copy) \<in> set vs \<Longrightarrow>
      objects w3 (media_key (env_cfg env) b (variant_object_name url n)) \<noteq> None"
proof -
  have nonempty: "path_name url \<noteq> []"
    unfolding save_run(1) [OF assms(1,2)] by (rule object_name_plain(1) [OF assms(1)])
  note w3 = delete_by_url [OF assms(4) nonempty]
  show "objects w3 (media_key (env_cfg env) b (path_name url)) = None" by (simp add: w3)
  show "objects w3 (media_key (env_cfg env) b (variant_object_name url n)) \<noteq> None"
    if "(n, copy) \<in> set vs"
  proof -
    let ?key = "media_key (env_cfg env) b (variant_object_name url n)"
    have "?key \<noteq> media_key (env_cfg env) b (path_name url)"
      using variant_name_other by (simp add: media_key_inj)
    moreover have "?key \<in> fst ` set (rev (map (\<lambda>(n, data). (media_key (env_cfg env) b (variant_object_name url n),
        stored b data VARIANT_CONTENT_TYPE MEDIA_CACHE_CONTROL)) vs))"
      using that by force
    then have "objects w2 ?key \<noteq> None"
      unfolding save_variants_run [OF assms(3)] by (simp add: map_add_None map_of_eq_None_iff)
    ultimately show ?thesis by (simp add: w3)
  qed
qed

text \<open>After an accepted upload the store holds the original and one copy per responsive width.\<close>

lemma stored_upload:
  assumes "uuid_plain env" "store_upload env refusal f w = (Inr url, w')"
  shows "\<exists>b width height. get_storage (env_cfg env) = Inr b \<and> env_open_image env (uf_data f) = Opened width height True \<and> path_name url \<noteq> []
    \<and> width \<le> MAX_UPLOAD_DIMENSION \<and> height \<le> MAX_UPLOAD_DIMENSION
    \<and> objects w' (media_key (env_cfg env) b (path_name url)) =
        Some (stored b (uf_data f) (text_or DEFAULT_CONTENT_TYPE (uf_content_type f)) MEDIA_CACHE_CONTROL)
    \<and> (\<forall>n \<in> set RESPONSIVE_WIDTHS. objects w' (media_key (env_cfg env) b (variant_object_name url n)) =
        Some (stored b (env_webp env (uf_data f) (min n width)) VARIANT_CONTENT_TYPE MEDIA_CACHE_CONTROL))"
proof -
  obtain vs where vs: "validate_and_build_variants env (uf_data f) = Inr vs"
    and "bindM (liftE (get_storage (env_cfg env))) (\<lambda>b.
      bindM (save env b (uf_data f) (text_or [] (uf_filename f)) (text_or DEFAULT_CONTENT_TYPE (uf_content_type f))) (\<lambda>url.
      bindM (save_variants env b url vs) (\<lambda>_. ret url))) w = (Inr url, w')"
    using assms(2) by (cases "validate_and_build_variants env (uf_data f)") (auto simp: store_upload_def bindM_app split: if_splits)
  then obtain b w1 u where b: "get_storage (env_cfg env) = Inr b"
    and saved: "save env b (uf_data f) (text_or [] (uf_filename f)) (text_or DEFAULT_CONTENT_TYPE (uf_content_type f)) w = (Inr url, w1)"
    and copies: "save_variants env b url vs w1 = (Inr u, w')"
    by (auto simp: bindM_Inr)
  obtain width height where opened: "env_open_image env (uf_data f) = Opened width height True"
    and small: "width \<le> MAX_UPLOAD_DIMENSION" "height \<le> MAX_UPLOAD_DIMENSION"
    and all: "vs = map (\<lambda>n. (n, env_webp env (uf_data f) (min n width))) RESPONSIVE_WIDTHS"
  proof -
    have keys: "dict_keys RESPONSIVE_WIDTHS = RESPONSIVE_WIDTHS" by (simp add: RESPONSIVE_WIDTHS_def)
    have each: "fixed_set encode original ws [] = map (\<lambda>n. (n, encode (min n original))) ws" for encode original ws
      by (rule fixed_set_each) simp
    show ?thesis
      using vs that unfolding validate_and_build_variants_def generate_fixed_webp_set_def keys each
      by (auto split: opened_image.splits if_splits)
  qed
  let ?key = "\<lambda>n. media_key (env_cfg env) b (variant_object_name url n)"
  have objects: "objects w' k = (case map_of (rev (map (\<lambda>n. (?key n, stored b (env_webp env (uf_data f) (min n width)) VARIANT_CONTENT_TYPE MEDIA_CACHE_CONTROL)) RESPONSIVE_WIDTHS)) k of
      None \<Rightarrow> objects w1 k | Some x \<Rightarrow> Some x)" for k
    unfolding save_variants_run [OF copies] all by (simp add: map_add_def o_def)
  have "objects w' (?key n) = Some (stored b (env_webp env (uf_data f) (min n width)) VARIANT_CONTENT_TYPE MEDIA_CACHE_CONTROL)"
    if "n \<in> set RESPONSIVE_WIDTHS" for n
    using that unfolding objects by (auto simp: RESPONSIVE_WIDTHS_def media_key_inj variant_name_inj)
  moreover have "objects w' (media_key (env_cfg env) b (path_name url)) = objects w1 (media_key (env_cfg env) b (path_name url))"
    unfolding objects by (simp add: RESPONSIVE_WIDTHS_def media_key_inj variant_name_other [symmetric])
  moreover have "objects w1 (media_key (env_cfg env) b (path_name url)) =
      Some (stored b (uf_data f) (text_or DEFAULT_CONTENT_TYPE (uf_content_type f)) MEDIA_CACHE_CONTROL)"
    unfolding save_run(2) [OF assms(1) saved] by simp
  moreover have "path_name url \<noteq> []"
    unfolding save_run(1) [OF assms(1) saved] by (rule object_name_plain(1) [OF assms(1)])
  ultimately show ?thesis
    using b opened small by (intro exI [of _ b] exI [of _ width] exI [of _ height]) simp
qed

end
