(* ===== verification/Admin_Products.thy ===== *)
theory Admin_Products
  imports Catalog_Cards Admin_Categories Admin_Orders Media_Storage
begin

text \<open>
  The product half of the catalogue back office: products with their translations, attribute links
  and pictures (\<open>app/services/admin_catalog_service.py\<close>, \<open>app/schemas/admin_catalog.py\<close>,
  \<open>app/api/routers/admin_catalog.py\<close>). Prices are \<open>Numeric(12, 2)\<close> columns: they are rounded to cents
  when they are stored. Integers are taken to fit their columns.

  A product that a cart refers to cannot be deleted: the foreign keys of \<open>cart_item\<close> do not cascade.
  Subscriptions and reviews go with the product, order lines lose the reference.
\<close>

definition WEIGHT_MAX_G :: int where "WEIGHT_MAX_G = 200000"
definition LOW_STOCK_THRESHOLD :: int where "LOW_STOCK_THRESHOLD = 5"
definition DEFAULT_MEDIA_KIND :: string where "DEFAULT_MEDIA_KIND = ''image''"

subsection \<open>Payloads\<close>

record product_translation_in =
  ptn_lang :: string
  ptn_name :: string
  ptn_slug :: string
  ptn_description :: "string option"
  ptn_seo_title :: "string option"
  ptn_seo_description :: "string option"

definition product_translation_ok :: "product_translation_in \<Rightarrow> exn + product_translation_in" where
  "product_translation_ok t =
    (if validate_lang (ptn_lang t) \<and> length_in 1 NAME_MAX (ptn_name t) \<and> length_in SLUG_MIN SLUG_MAX (ptn_slug t)
     then case validate_slug (ptn_slug t) of None \<Rightarrow> Inl invalid | Some slug \<Rightarrow> Inr (t\<lparr>ptn_slug := slug\<rparr>)
     else Inl invalid)"

record product_create =
  pn_category_id :: int
  pn_code :: string
  pn_price :: money
  pn_old_price :: "money option"
  pn_qty :: int
  pn_weight_g :: "int option"
  pn_is_active :: bool
  pn_is_featured :: bool
  pn_has_variants :: bool
  pn_translations :: "product_translation_in list"

definition weight_ok :: "int \<Rightarrow> bool" where
  "weight_ok g \<longleftrightarrow> 0 \<le> g \<and> g \<le> WEIGHT_MAX_G"

definition product_create_ok :: "product_create \<Rightarrow> exn + product_create" where
  "product_create_ok p =
    bindE (guardE (length_in 1 CODE_MAX (pn_code p) \<and> 0 \<le> pn_price p \<and> option_ok (\<lambda>x. 0 \<le> x) (pn_old_price p)
      \<and> 0 \<le> pn_qty p \<and> option_ok weight_ok (pn_weight_g p)) invalid) (\<lambda>_.
    bindE (mapE product_translation_ok (pn_translations p)) (\<lambda>ts. Inr (p\<lparr>pn_translations := ts\<rparr>)))"

record product_update =
  px_category_id :: "int option option"
  px_code :: "string option option"
  px_price :: "money option option"
  px_old_price :: "money option option"
  px_qty :: "int option option"
  px_weight_g :: "int option option"
  px_is_active :: "bool option option"
  px_is_featured :: "bool option option"
  px_has_variants :: "bool option option"

definition product_update_ok :: "product_update \<Rightarrow> exn + unit" where
  "product_update_ok p = guardE (option_ok (option_ok (length_in 1 CODE_MAX)) (px_code p)
    \<and> option_ok (option_ok (\<lambda>x. 0 \<le> x)) (px_price p) \<and> option_ok (option_ok (\<lambda>x. 0 \<le> x)) (px_old_price p)
    \<and> option_ok (option_ok (\<lambda>x. 0 \<le> x)) (px_qty p) \<and> option_ok (option_ok weight_ok) (px_weight_g p)) invalid"

subsection \<open>Rows\<close>

definition admin_get_product :: "int \<Rightarrow> product act" where
  "admin_get_product pid =
    bindM (reads (get_product pid)) (\<lambda>p.
    case p of None \<Rightarrow> throw (AdminNotFoundError (int_str pid)) | Some p \<Rightarrow> ret p)"

definition to_cents :: "money \<Rightarrow> money" where
  "to_cents x = quantize 2 x"

definition code_free :: "int \<Rightarrow> string \<Rightarrow> db \<Rightarrow> bool" where
  "code_free pid code d \<longleftrightarrow> list_all (\<lambda>p. p_id p = pid \<or> p_code p \<noteq> code) (t_product d)"

text \<open>A changed row gets a new time stamp.\<close>

definition stamped :: "environment \<Rightarrow> product \<Rightarrow> product \<Rightarrow> product" where
  "stamped env old p = (if p = old then p else p\<lparr>p_updated_at := env_now env\<rparr>)"

definition product_translation_row :: "int \<Rightarrow> product_translation_in \<Rightarrow> product_translation" where
  "product_translation_row pid t = \<lparr>pt_product_id = pid, pt_lang = ptn_lang t, pt_name = ptn_name t, pt_slug = ptn_slug t,
     pt_description = ptn_description t, pt_seo_title = ptn_seo_title t, pt_seo_description = ptn_seo_description t\<rparr>"

definition product_translation_unique :: "product_translation \<Rightarrow> db \<Rightarrow> bool" where
  "product_translation_unique t d \<longleftrightarrow> list_all (\<lambda>x. (pt_product_id x, pt_lang x) \<noteq> (pt_product_id t, pt_lang t)
    \<and> (pt_lang x, pt_slug x) \<noteq> (pt_lang t, pt_slug t)) (t_product_translation d)"

definition add_product_translation :: "int \<Rightarrow> product_translation_in \<Rightarrow> unit act" where
  "add_product_translation pid t =
    bindM (readsE (\<lambda>d. guardE (product_translation_unique (product_translation_row pid t) d) (IntegrityError ''product_translation''))) (\<lambda>_.
    writes (\<lambda>d. d\<lparr>t_product_translation := t_product_translation d @ [product_translation_row pid t]\<rparr>))"

definition publish_check :: "product \<Rightarrow> unit act" where
  "publish_check p = whenM (p_is_active p) (readsE (assert_publishable (p_id p)))"

text \<open>The last steps of a product write: the cards, the commit.\<close>

definition rebuild_and_commit :: "environment \<Rightarrow> int \<Rightarrow> unit act" where
  "rebuild_and_commit env pid = bindM (rebuild_cards env [pid]) (\<lambda>_. commit)"

subsection \<open>Products\<close>

definition product_row :: "environment \<Rightarrow> int \<Rightarrow> product_create \<Rightarrow> product" where
  "product_row env i p =
    \<lparr>p_id = i, p_category_id = pn_category_id p, p_code = pn_code p, p_price = to_cents (pn_price p),
     p_old_price = map_option to_cents (pn_old_price p), p_qty = pn_qty p, p_is_active = pn_is_active p,
     p_is_featured = pn_is_featured p, p_has_variants = pn_has_variants p, p_weight_g = pn_weight_g p,
     p_updated_at = env_now env\<rparr>"

definition create_product :: "environment \<Rightarrow> product_create \<Rightarrow> product act" where
  "create_product env p =
    bindM (admin_get_category (pn_category_id p)) (\<lambda>_.
    bindM (next_id Product_T) (\<lambda>i.
    bindM (readsE (\<lambda>d. guardE (code_free i (pn_code p) d) (IntegrityError ''product''))) (\<lambda>_.
    bindM (writes (\<lambda>d. d\<lparr>t_product := t_product d @ [product_row env i p]\<rparr>)) (\<lambda>_.
    bindM (forEach (pn_translations p) (add_product_translation i)) (\<lambda>_.
    bindM (if pn_is_active p
           then bindM (readsE (assert_publishable i)) (\<lambda>_. rebuild_and_commit env i)
           else commit) (\<lambda>_.
    bindM (admin_get_product i) (\<lambda>out.
    bindM (enqueue env (Es_Index [i])) (\<lambda>_.
    ret out))))))))"

text \<open>A null for a required column is refused by the database.\<close>

definition patched_product :: "product_update \<Rightarrow> product \<Rightarrow> product option" where
  "patched_product x p =
    (case (sent_value (p_category_id p) (px_category_id x), sent_value (p_code p) (px_code x), sent_value (p_price p) (map_option (map_option to_cents) (px_price x)),
           sent_value (p_qty p) (px_qty x), sent_value (p_is_active p) (px_is_active x),
           sent_value (p_is_featured p) (px_is_featured x), sent_value (p_has_variants p) (px_has_variants x)) of
      (Some cat, Some code, Some price, Some qty, Some active, Some featured, Some variants) \<Rightarrow>
        Some (p\<lparr>p_category_id := cat, p_code := code, p_price := price,
          p_old_price := (case px_old_price x of None \<Rightarrow> p_old_price p | Some v \<Rightarrow> map_option to_cents v),
          p_qty := qty, p_is_active := active, p_is_featured := featured, p_has_variants := variants,
          p_weight_g := (case px_weight_g x of None \<Rightarrow> p_weight_g p | Some v \<Rightarrow> v)\<rparr>)
    | _ \<Rightarrow> None)"

definition notify_if_restocked :: "environment \<Rightarrow> int \<Rightarrow> int \<Rightarrow> int \<Rightarrow> unit act" where
  "notify_if_restocked env pid old_qty new_qty =
    whenM (old_qty \<le> 0 \<and> new_qty > 0) (enqueue env (Restock_Notify pid))"

definition update_product :: "environment \<Rightarrow> int \<Rightarrow> product_update \<Rightarrow> product act" where
  "update_product env pid x =
    bindM (admin_get_product pid) (\<lambda>p.
    bindM (case px_category_id x of
             Some (Some cat) \<Rightarrow> bindM (admin_get_category cat) (\<lambda>_. ret ())
           | _ \<Rightarrow> ret ()) (\<lambda>_.
    bindM (liftE (the_orE (patched_product x p) (IntegrityError ''product''))) (\<lambda>p'.
    bindM (readsE (\<lambda>d. guardE (code_free pid (p_code p') d) (IntegrityError ''product''))) (\<lambda>_.
    bindM (writes (set_product (stamped env p p'))) (\<lambda>_.
    bindM (publish_check p') (\<lambda>_.
    bindM (rebuild_and_commit env pid) (\<lambda>_.
    bindM (admin_get_product pid) (\<lambda>out.
    bindM (notify_if_restocked env pid (p_qty p) (p_qty out)) (\<lambda>_.
    bindM (enqueue env (Es_Index [pid])) (\<lambda>_.
    ret out))))))))))"

definition variant_ids_of :: "int \<Rightarrow> db \<Rightarrow> int list" where
  "variant_ids_of pid d = map v_id (filter (\<lambda>v. v_product_id v = pid) (t_variant d))"

text \<open>The rows that keep a product or some variants from being deleted.\<close>

definition in_a_cart :: "int \<Rightarrow> int list \<Rightarrow> db \<Rightarrow> bool" where
  "in_a_cart pid vids d \<longleftrightarrow> list_ex (\<lambda>l. ci_product_id l = pid \<or> (\<exists>v \<in> set vids. ci_variant_id l = Some v)) (t_cart_item d)"

definition without_product :: "int \<Rightarrow> db \<Rightarrow> db" where
  "without_product pid d =
    (let vids = variant_ids_of pid d in
      d\<lparr>t_product_translation := filter (\<lambda>t. pt_product_id t \<noteq> pid) (t_product_translation d),
        t_media := filter (\<lambda>m. md_product_id m \<noteq> pid) (t_media d),
        t_product_attribute := filter (\<lambda>a. pav_product_id a \<noteq> pid) (t_product_attribute d),
        t_product_variant_value := filter (\<lambda>x. pvv_variant_id x \<notin> set vids) (t_product_variant_value d),
        t_product_variation_attribute := filter (\<lambda>a. pva_product_id a \<noteq> pid) (t_product_variation_attribute d),
        t_variant := filter (\<lambda>v. v_product_id v \<noteq> pid) (t_variant d),
        t_card := filter (\<lambda>c. pc_product_id c \<noteq> pid) (t_card d),
        t_product := filter (\<lambda>p. p_id p \<noteq> pid) (t_product d),
        t_restock := filter (\<lambda>r. rs_product_id r \<noteq> pid) (t_restock d),
        t_review := filter (\<lambda>r. rv_product_id r \<noteq> pid) (t_review d),
        t_order_item := map (\<lambda>l. l\<lparr>oi_product_id := (if oi_product_id l = Some pid then None else oi_product_id l),
          oi_variant_id := (case oi_variant_id l of None \<Rightarrow> None | Some v \<Rightarrow> if v \<in> set vids then None else Some v)\<rparr>) (t_order_item d)\<rparr>)"

definition delete_product :: "environment \<Rightarrow> int \<Rightarrow> unit act" where
  "delete_product env pid =
    bindM (admin_get_product pid) (\<lambda>_.
    bindM (readsE (\<lambda>d. guardE (\<not> in_a_cart pid (variant_ids_of pid d) d) (IntegrityError ''product''))) (\<lambda>_.
    bindM (writes (without_product pid)) (\<lambda>_.
    bindM commit (\<lambda>_.
    enqueue env (Es_Delete [pid])))))"

definition set_product_translation :: "environment \<Rightarrow> int \<Rightarrow> product_translation_in \<Rightarrow> product_translation act" where
  "set_product_translation env pid t =
    bindM (admin_get_product pid) (\<lambda>p.
    let row = product_translation_row pid t; mine = (\<lambda>x. pt_product_id x = pid \<and> pt_lang x = ptn_lang t) in
    bindM (readsE (\<lambda>d. scalar_one_or_none (filter mine (t_product_translation d)))) (\<lambda>found.
    bindM (readsE (\<lambda>d. guardE (list_all (\<lambda>x. mine x \<or> (pt_lang x, pt_slug x) \<noteq> (ptn_lang t, ptn_slug t)) (t_product_translation d))
      (IntegrityError ''product_translation''))) (\<lambda>_.
    bindM (writes (\<lambda>d. d\<lparr>t_product_translation :=
        (if found = None then t_product_translation d @ [row] else upd mine (\<lambda>_. row) (t_product_translation d))\<rparr>)) (\<lambda>_.
    bindM (publish_check p) (\<lambda>_.
    bindM (rebuild_and_commit env pid) (\<lambda>_.
    bindM (enqueue env (Es_Index [pid])) (\<lambda>_.
    ret row)))))))"

definition set_product_attributes :: "environment \<Rightarrow> int \<Rightarrow> int list \<Rightarrow> int list act" where
  "set_product_attributes env pid value_ids =
    bindM (admin_get_product pid) (\<lambda>_.
    let ids = dict_keys value_ids in
    bindM (reads (\<lambda>d. filter (\<lambda>i. list_all (\<lambda>v. av_id v \<noteq> i) (t_attribute_value d)) ids)) (\<lambda>missing.
    bindM (whenM (missing \<noteq> []) (throw (AdminNotFoundError ''values''))) (\<lambda>_.
    bindM (writes (\<lambda>d. d\<lparr>t_product_attribute := filter (\<lambda>a. pav_product_id a \<noteq> pid) (t_product_attribute d)
        @ map (\<lambda>i. \<lparr>pav_product_id = pid, pav_value_id = i\<rparr>) ids\<rparr>)) (\<lambda>_.
    bindM commit (\<lambda>_.
    bindM (enqueue env (Es_Index [pid])) (\<lambda>_.
    ret ids))))))"

subsection \<open>Pictures\<close>

definition get_media :: "int \<Rightarrow> db \<Rightarrow> media option" where
  "get_media mid d = find (\<lambda>m. md_id m = mid) (t_media d)"

definition own_media :: "int \<Rightarrow> int \<Rightarrow> media act" where
  "own_media pid mid =
    bindM (reads (get_media mid)) (\<lambda>m.
    case m of
      None \<Rightarrow> throw (AdminNotFoundError (int_str mid))
    | Some m \<Rightarrow> if md_product_id m \<noteq> pid then throw (AdminNotFoundError (int_str mid)) else ret m)"

definition bind_media_to_variant :: "environment \<Rightarrow> int \<Rightarrow> int \<Rightarrow> int option \<Rightarrow> media act" where
  "bind_media_to_variant env pid mid vid =
    bindM (admin_get_product pid) (\<lambda>_.
    bindM (own_media pid mid) (\<lambda>m.
    bindM (case vid of
             None \<Rightarrow> ret ()
           | Some v \<Rightarrow> bindM (reads (get_variant v)) (\<lambda>x.
               case x of
                 None \<Rightarrow> throw (AdminNotFoundError (int_str v))
               | Some w \<Rightarrow> if v_product_id w \<noteq> pid then throw (AdminNotFoundError (int_str v)) else ret ())) (\<lambda>_.
    bindM (writes (\<lambda>d. d\<lparr>t_media := upd (\<lambda>x. md_id x = mid) (\<lambda>x. x\<lparr>md_variant_id := vid\<rparr>) (t_media d)\<rparr>)) (\<lambda>_.
    bindM (rebuild_and_commit env pid) (\<lambda>_.
    bindM (enqueue env (Es_Index [pid])) (\<lambda>_.
    ret (m\<lparr>md_variant_id := vid\<rparr>)))))))"

definition rebuild_if_active :: "environment \<Rightarrow> product \<Rightarrow> unit act" where
  "rebuild_if_active env p =
    bindM (whenM (p_is_active p) (bindM (rebuild_cards env [p_id p]) (\<lambda>_. ret ()))) (\<lambda>_. commit)"

definition next_media_position :: "int \<Rightarrow> db \<Rightarrow> int" where
  "next_media_position pid d =
    (case map md_position (filter (\<lambda>m. md_product_id m = pid) (t_media d)) of [] \<Rightarrow> 0 | x # xs \<Rightarrow> Max (set (x # xs)) + 1)"

text \<open>\<open>_is_allowed_image\<close>; the default kind is the one allowed kind.\<close>

definition is_allowed_image :: "upload_file \<Rightarrow> bool" where
  "is_allowed_image f \<longleftrightarrow> take 6 (lower (text_or [] (uf_content_type f))) = ''image/''"

definition add_product_media :: "environment \<Rightarrow> int \<Rightarrow> upload_file \<Rightarrow> media act" where
  "add_product_media env pid f =
    bindM (admin_get_product pid) (\<lambda>p.
    if \<not> is_allowed_image f then throw (AdminValidationError ''kind'')
    else if (case uf_size f of None \<Rightarrow> False | Some n \<Rightarrow> n > MAX_UPLOAD_BYTES) then throw (AdminValidationError ''size'')
    else
      bindM (remote (store_upload env (AdminValidationError ''picture'') f)) (\<lambda>url.
      bindM (reads (next_media_position pid)) (\<lambda>position.
      bindM (next_id Media_T) (\<lambda>i.
      let m = \<lparr>md_id = i, md_product_id = pid, md_variant_id = None, md_url = url, md_position = position\<rparr> in
      bindM (writes (\<lambda>d. d\<lparr>t_media := t_media d @ [m]\<rparr>)) (\<lambda>_.
      bindM (rebuild_if_active env p) (\<lambda>_.
      ret m))))))"

definition delete_product_media :: "environment \<Rightarrow> int \<Rightarrow> int \<Rightarrow> unit act" where
  "delete_product_media env pid mid =
    bindM (admin_get_product pid) (\<lambda>p.
    bindM (own_media pid mid) (\<lambda>m.
    bindM (writes (\<lambda>d. d\<lparr>t_media := filter (\<lambda>x. md_id x \<noteq> mid) (t_media d)\<rparr>)) (\<lambda>_.
    bindM (rebuild_if_active env p) (\<lambda>_.
    catchM (remote (bindM (liftE (get_storage (env_cfg env))) (\<lambda>b. storage_delete env b (md_url m)))) (\<lambda>_. True) (\<lambda>_. ret ())))))"

definition position_of :: "int \<Rightarrow> int list \<Rightarrow> int" where
  "position_of i ids = int (length (takeWhile (\<lambda>x. x \<noteq> i) ids))"

definition reorder_product_media :: "environment \<Rightarrow> int \<Rightarrow> int list \<Rightarrow> media list act" where
  "reorder_product_media env pid ordered_ids =
    bindM (admin_get_product pid) (\<lambda>p.
    bindM (reads (get_product_media pid)) (\<lambda>current.
    bindM (whenM (set ordered_ids \<noteq> md_id ` set current \<or> length ordered_ids \<noteq> length current)
      (throw (AdminValidationError ''permutation''))) (\<lambda>_.
    bindM (writes (\<lambda>d. d\<lparr>t_media := upd (\<lambda>m. md_id m \<in> set ordered_ids)
        (\<lambda>m. m\<lparr>md_position := position_of (md_id m) ordered_ids\<rparr>) (t_media d)\<rparr>)) (\<lambda>_.
    bindM (rebuild_if_active env p) (\<lambda>_.
    reads (get_product_media pid))))))"

subsection \<open>Search\<close>

text \<open>One row per product: the newest products that match in the code or in the name in either language.\<close>

definition matches_search :: "string option \<Rightarrow> db \<Rightarrow> product \<Rightarrow> bool" where
  "matches_search search d p =
    (case search of
      None \<Rightarrow> True
    | Some s \<Rightarrow> s = [] \<or>
        (let term = ''%'' @ strip s @ ''%'' in
          ilike (p_code p) term \<or> list_ex (\<lambda>t. pt_product_id t = p_id p \<and> ilike (pt_name t) term) (t_product_translation d)))"

definition search_products :: "string option \<Rightarrow> nat \<Rightarrow> bool option \<Rightarrow> bool \<Rightarrow> bool \<Rightarrow> bool \<Rightarrow> db \<Rightarrow> (product \<times> string option) list" where
  "search_products search limit is_active low_stock on_sale no_weight d =
    map (\<lambda>p. (p, map_option pt_name (find (\<lambda>t. pt_product_id t = p_id p \<and> pt_lang t = hd ALLOWED_LANGS) (t_product_translation d))))
      (take limit (sort_key (\<lambda>p. - p_id p) (filter (\<lambda>p. matches_search search d p
        \<and> (case is_active of None \<Rightarrow> True | Some a \<Rightarrow> p_is_active p = a)
        \<and> (low_stock \<longrightarrow> p_qty p \<le> LOW_STOCK_THRESHOLD)
        \<and> (on_sale \<longrightarrow> (case p_old_price p of None \<Rightarrow> False | Some x \<Rightarrow> x > p_price p))
        \<and> (no_weight \<longrightarrow> p_weight_g p = None)) (t_product d))))"

end
