(* ===== verification/Admin_Variants.thy ===== *)
theory Admin_Variants
  imports Admin_Products
begin

text \<open>
  Variable products: which attributes select a variant, the variants with their prices and stock, and
  the attribute dictionary itself (\<open>app/services/admin_catalog_service.py\<close>). A variant is a
  combination with one value per selector attribute.
\<close>

subsection \<open>Queries\<close>

definition get_product_variation_attribute_ids :: "int \<Rightarrow> db \<Rightarrow> int list" where
  "get_product_variation_attribute_ids pid d =
    map pva_attribute_id (sort_key pva_position (filter (\<lambda>a. pva_product_id a = pid) (t_product_variation_attribute d)))"

definition all_variants :: "int \<Rightarrow> db \<Rightarrow> variant list" where
  "all_variants pid d = sort_key (\<lambda>v. (v_position v, v_id v)) (filter (\<lambda>v. v_product_id v = pid) (t_variant d))"

definition get_variant_value_ids_map :: "int list \<Rightarrow> db \<Rightarrow> (int \<times> int list) list" where
  "get_variant_value_ids_map ids d =
    map (\<lambda>(vid, _, xs). (vid, xs)) (group_into pvv_variant_id (\<lambda>_. ()) pvv_value_id
      (sort_key (\<lambda>x. (pvv_variant_id x, pvv_value_id x)) (filter (\<lambda>x. pvv_variant_id x \<in> set ids) (t_product_variant_value d))))"

definition get_variant_image_ids :: "int list \<Rightarrow> db \<Rightarrow> (int \<rightharpoonup> int)" where
  "get_variant_image_ids ids d vid =
    (if vid \<notin> set ids then None
     else case sort_key (\<lambda>m. (md_position m, md_id m)) (filter (\<lambda>m. md_variant_id m = Some vid) (t_media d)) of
       [] \<Rightarrow> None | m # _ \<Rightarrow> Some (md_id m))"

subsection \<open>Selector attributes\<close>

fun numbered :: "int \<Rightarrow> int \<Rightarrow> int list \<Rightarrow> product_variation_attribute list" where
  "numbered pid n [] = []"
| "numbered pid n (a # rest) = \<lparr>pva_product_id = pid, pva_attribute_id = a, pva_position = n\<rparr> # numbered pid (n + 1) rest"

definition mark_variable :: "environment \<Rightarrow> int \<Rightarrow> bool \<Rightarrow> unit act" where
  "mark_variable env pid b =
    writes (\<lambda>d. case get_product pid d of None \<Rightarrow> d | Some p \<Rightarrow> set_product (stamped env p (p\<lparr>p_has_variants := b\<rparr>)) d)"

definition set_variation_attributes :: "environment \<Rightarrow> int \<Rightarrow> int list \<Rightarrow> int list act" where
  "set_variation_attributes env pid attribute_ids =
    bindM (admin_get_product pid) (\<lambda>_.
    let unique = dict_keys attribute_ids in
    bindM (if unique \<noteq> [] then
             bindM (reads (\<lambda>d. filter (\<lambda>i. list_all (\<lambda>a. at_id a \<noteq> i) (t_attribute d)) unique)) (\<lambda>missing.
             whenM (missing \<noteq> []) (throw (AdminNotFoundError ''attributes'')))
           else
             bindM (reads (\<lambda>d. rowcount (\<lambda>v. v_product_id v = pid) (t_variant d))) (\<lambda>n.
             whenM (n \<noteq> 0) (throw (AdminValidationError ''variants'')))) (\<lambda>_.
    bindM (writes (\<lambda>d. d\<lparr>t_product_variation_attribute :=
        filter (\<lambda>a. pva_product_id a \<noteq> pid) (t_product_variation_attribute d) @ numbered pid 0 unique\<rparr>)) (\<lambda>_.
    bindM (mark_variable env pid (unique \<noteq> [])) (\<lambda>_.
    bindM (rebuild_and_commit env pid) (\<lambda>_.
    bindM (enqueue env (Es_Index [pid])) (\<lambda>_.
    ret unique))))))"

subsection \<open>Creating variants\<close>

record variant_create =
  vn_value_ids :: "int list"
  vn_code :: "string option"
  vn_price :: money
  vn_old_price :: "money option"
  vn_qty :: int
  vn_weight_g :: "int option"
  vn_is_active :: bool

definition variant_create_ok :: "variant_create \<Rightarrow> exn + unit" where
  "variant_create_ok v = guardE (vn_value_ids v \<noteq> [] \<and> option_ok (\<lambda>c. length c \<le> CODE_MAX) (vn_code v) \<and> 0 \<le> vn_price v
    \<and> option_ok (\<lambda>x. 0 \<le> x) (vn_old_price v) \<and> 0 \<le> vn_qty v \<and> option_ok weight_ok (vn_weight_g v)) invalid"

definition assert_variant_code_free :: "string option \<Rightarrow> unit act" where
  "assert_variant_code_free code =
    (if \<not> truthy code then ret ()
     else bindM (reads (\<lambda>d. list_ex (\<lambda>v. v_code v = code) (t_variant d))) (\<lambda>taken.
       whenM taken (throw (AdminConflictError (the code)))))"

definition combo_exists :: "int \<Rightarrow> int set \<Rightarrow> db \<Rightarrow> bool" where
  "combo_exists pid combo d \<longleftrightarrow>
    list_ex (\<lambda>(_, xs). set xs = combo) (get_variant_value_ids_map (map v_id (all_variants pid d)) d)"

definition next_variant_position :: "int \<Rightarrow> db \<Rightarrow> int" where
  "next_variant_position pid d =
    (case map v_position (filter (\<lambda>v. v_product_id v = pid) (t_variant d)) of [] \<Rightarrow> 0 | x # xs \<Rightarrow> Max (set (x # xs)) + 1)"

text \<open>The code is unique when there is one; two empty codes clash.\<close>

definition insert_variant :: "variant \<Rightarrow> int list \<Rightarrow> unit act" where
  "insert_variant v value_ids =
    bindM (readsE (\<lambda>d. guardE (v_code v = None \<or> list_all (\<lambda>x. v_code x \<noteq> v_code v) (t_variant d)) (IntegrityError ''product_variant''))) (\<lambda>_.
    bindM (writes (\<lambda>d. d\<lparr>t_variant := t_variant d @ [v]\<rparr>)) (\<lambda>_.
    writes (\<lambda>d. d\<lparr>t_product_variant_value := t_product_variant_value d
      @ map (\<lambda>i. \<lparr>pvv_variant_id = v_id v, pvv_value_id = i\<rparr>) value_ids\<rparr>)))"

definition create_variant :: "environment \<Rightarrow> int \<Rightarrow> variant_create \<Rightarrow> variant act" where
  "create_variant env pid data =
    bindM (admin_get_product pid) (\<lambda>p.
    bindM (reads (get_product_variation_attribute_ids pid)) (\<lambda>selectors.
    bindM (whenM (selectors = []) (throw (AdminValidationError ''attributes''))) (\<lambda>_.
    let values = dict_keys (vn_value_ids data) in
    bindM (reads (\<lambda>d. map_of (map (\<lambda>v. (av_id v, av_attribute_id v)) (t_attribute_value d)))) (\<lambda>found.
    bindM (whenM (\<exists>v \<in> set values. found v = None) (throw (AdminNotFoundError ''values''))) (\<lambda>_.
    bindM (whenM (sort (map (\<lambda>v. the (found v)) values) \<noteq> sort selectors) (throw (AdminValidationError ''combination''))) (\<lambda>_.
    bindM (assert_variant_code_free (vn_code data)) (\<lambda>_.
    bindM (reads (combo_exists pid (set values))) (\<lambda>exists.
    bindM (whenM exists (throw (AdminConflictError ''combination''))) (\<lambda>_.
    bindM (reads (next_variant_position pid)) (\<lambda>position.
    bindM (next_id Variant_T) (\<lambda>i.
    let v = \<lparr>v_id = i, v_product_id = pid, v_code = vn_code data, v_price = to_cents (vn_price data),
        v_old_price = map_option to_cents (vn_old_price data), v_qty = vn_qty data, v_position = position,
        v_is_active = vn_is_active data, v_weight_g = vn_weight_g data\<rparr> in
    bindM (insert_variant v values) (\<lambda>_.
    bindM (mark_variable env pid True) (\<lambda>_.
    bindM (rebuild_and_commit env pid) (\<lambda>_.
    bindM (enqueue env (Es_Index [pid])) (\<lambda>_.
    ret v)))))))))))))))"

text \<open>\<open>itertools.product\<close>: the last list varies fastest.\<close>

fun cartesian :: "'a list list \<Rightarrow> 'a list list" where
  "cartesian [] = [[]]"
| "cartesian (xs # rest) = concat (map (\<lambda>x. map (\<lambda>c. x # c) (cartesian rest)) xs)"

definition assigned_values :: "int \<Rightarrow> int \<Rightarrow> db \<Rightarrow> int list" where
  "assigned_values pid a d = sort [av_id v. v \<leftarrow> t_attribute_value d, av_attribute_id v = a,
     x \<leftarrow> t_product_attribute d, pav_value_id x = av_id v \<and> pav_product_id x = pid]"

text \<open>The loop over the combinations: those already there are counted, the others created.\<close>

fun fill_gaps :: "product \<Rightarrow> int list list \<Rightarrow> int set list \<Rightarrow> int \<Rightarrow> (variant list \<times> nat) act" where
  "fill_gaps p [] combos position = ret ([], 0)"
| "fill_gaps p (combo # rest) combos position =
    (if set combo \<in> set combos then
       bindM (fill_gaps p rest combos position) (\<lambda>(created, skipped). ret (created, Suc skipped))
     else
       bindM (next_id Variant_T) (\<lambda>i.
       let v = \<lparr>v_id = i, v_product_id = p_id p, v_code = None, v_price = p_price p, v_old_price = None, v_qty = 0,
           v_position = position, v_is_active = True, v_weight_g = None\<rparr> in
       bindM (insert_variant v combo) (\<lambda>_.
       bindM (fill_gaps p rest (set combo # combos) (position + 1)) (\<lambda>(created, skipped).
       ret (v # created, skipped)))))"

definition generate_variants :: "environment \<Rightarrow> int \<Rightarrow> (variant list \<times> nat) act" where
  "generate_variants env pid =
    bindM (admin_get_product pid) (\<lambda>p.
    bindM (reads (get_product_variation_attribute_ids pid)) (\<lambda>selectors.
    bindM (whenM (selectors = []) (throw (AdminValidationError ''attributes''))) (\<lambda>_.
    bindM (reads (\<lambda>d. map (\<lambda>a. assigned_values pid a d) selectors)) (\<lambda>ordered_values.
    bindM (whenM ([] \<in> set ordered_values) (throw (AdminValidationError ''values''))) (\<lambda>_.
    bindM (reads (\<lambda>d. map (\<lambda>(_, xs). set xs) (get_variant_value_ids_map (map v_id (all_variants pid d)) d))) (\<lambda>combos.
    bindM (reads (next_variant_position pid)) (\<lambda>position.
    bindM (fill_gaps p (cartesian ordered_values) combos position) (\<lambda>(created, skipped).
    bindM (whenM (created \<noteq> []) (mark_variable env pid True)) (\<lambda>_.
    bindM (rebuild_and_commit env pid) (\<lambda>_.
    bindM (enqueue env (Es_Index [pid])) (\<lambda>_.
    ret (created, skipped))))))))))))"

subsection \<open>Editing variants\<close>

definition admin_get_variant :: "int \<Rightarrow> variant act" where
  "admin_get_variant vid =
    bindM (reads (get_variant vid)) (\<lambda>v.
    case v of None \<Rightarrow> throw (AdminNotFoundError (int_str vid)) | Some v \<Rightarrow> ret v)"

record variant_update =
  vx_code :: "string option option"
  vx_price :: "money option option"
  vx_old_price :: "money option option"
  vx_qty :: "int option option"
  vx_weight_g :: "int option option"
  vx_position :: "int option option"
  vx_is_active :: "bool option option"

definition variant_update_ok :: "variant_update \<Rightarrow> exn + unit" where
  "variant_update_ok x = guardE (option_ok (option_ok (\<lambda>c. length c \<le> CODE_MAX)) (vx_code x)
    \<and> option_ok (option_ok (\<lambda>v. 0 \<le> v)) (vx_price x) \<and> option_ok (option_ok (\<lambda>v. 0 \<le> v)) (vx_old_price x)
    \<and> option_ok (option_ok (\<lambda>v. 0 \<le> v)) (vx_qty x) \<and> option_ok (option_ok weight_ok) (vx_weight_g x)
    \<and> option_ok (option_ok (\<lambda>v. 0 \<le> v)) (vx_position x)
    \<and> (vx_code x \<noteq> None \<or> vx_price x \<noteq> None \<or> vx_old_price x \<noteq> None \<or> vx_qty x \<noteq> None \<or> vx_weight_g x \<noteq> None
       \<or> vx_position x \<noteq> None \<or> vx_is_active x \<noteq> None)) invalid"

definition patched_variant :: "variant_update \<Rightarrow> variant \<Rightarrow> variant option" where
  "patched_variant x v =
    (case (sent_value (v_price v) (map_option (map_option to_cents) (vx_price x)), sent_value (v_qty v) (vx_qty x),
           sent_value (v_position v) (vx_position x), sent_value (v_is_active v) (vx_is_active x)) of
      (Some price, Some qty, Some position, Some active) \<Rightarrow>
        Some (v\<lparr>v_code := (case vx_code x of None \<Rightarrow> v_code v | Some c \<Rightarrow> c), v_price := price,
          v_old_price := (case vx_old_price x of None \<Rightarrow> v_old_price v | Some p \<Rightarrow> map_option to_cents p), v_qty := qty,
          v_position := position, v_is_active := active,
          v_weight_g := (case vx_weight_g x of None \<Rightarrow> v_weight_g v | Some g \<Rightarrow> g)\<rparr>)
    | _ \<Rightarrow> None)"

definition publish_check_id :: "int \<Rightarrow> unit act" where
  "publish_check_id pid = bindM (admin_get_product pid) publish_check"

definition check_new_code :: "variant_update \<Rightarrow> variant \<Rightarrow> unit act" where
  "check_new_code x v =
    (case vx_code x of
      Some (Some c) \<Rightarrow> if c \<noteq> [] \<and> Some c \<noteq> v_code v then assert_variant_code_free (Some c) else ret ()
    | _ \<Rightarrow> ret ())"

definition update_variant :: "environment \<Rightarrow> int \<Rightarrow> variant_update \<Rightarrow> variant act" where
  "update_variant env vid x =
    bindM (admin_get_variant vid) (\<lambda>v.
    bindM (check_new_code x v) (\<lambda>_.
    bindM (liftE (the_orE (patched_variant x v) (IntegrityError ''product_variant''))) (\<lambda>v'.
    bindM (readsE (\<lambda>d. guardE (v_code v' = None \<or> list_all (\<lambda>y. v_id y = vid \<or> v_code y \<noteq> v_code v') (t_variant d))
      (IntegrityError ''product_variant''))) (\<lambda>_.
    bindM (writes (\<lambda>d. d\<lparr>t_variant := upd (\<lambda>y. v_id y = vid) (\<lambda>_. v') (t_variant d)\<rparr>)) (\<lambda>_.
    bindM (publish_check_id (v_product_id v)) (\<lambda>_.
    bindM (rebuild_and_commit env (v_product_id v)) (\<lambda>_.
    bindM (enqueue env (Es_Index [v_product_id v])) (\<lambda>_.
    ret v'))))))))"

text \<open>A variant in a cart cannot be deleted; order lines lose the reference.\<close>

definition without_variant :: "int \<Rightarrow> db \<Rightarrow> db" where
  "without_variant vid d =
    d\<lparr>t_media := upd (\<lambda>m. md_variant_id m = Some vid) (\<lambda>m. m\<lparr>md_variant_id := None\<rparr>) (t_media d),
      t_product_variant_value := filter (\<lambda>x. pvv_variant_id x \<noteq> vid) (t_product_variant_value d),
      t_variant := filter (\<lambda>v. v_id v \<noteq> vid) (t_variant d),
      t_order_item := map (\<lambda>l. l\<lparr>oi_variant_id := (if oi_variant_id l = Some vid then None else oi_variant_id l)\<rparr>) (t_order_item d)\<rparr>"

definition delete_variant :: "environment \<Rightarrow> int \<Rightarrow> unit act" where
  "delete_variant env vid =
    bindM (admin_get_variant vid) (\<lambda>v.
    bindM (readsE (\<lambda>d. guardE (list_all (\<lambda>l. ci_variant_id l \<noteq> Some vid) (t_cart_item d)) (IntegrityError ''product_variant''))) (\<lambda>_.
    bindM (writes (without_variant vid)) (\<lambda>_.
    bindM (publish_check_id (v_product_id v)) (\<lambda>_.
    bindM (rebuild_and_commit env (v_product_id v)) (\<lambda>_.
    enqueue env (Es_Index [v_product_id v]))))))"

subsection \<open>The attribute dictionary\<close>

record attribute_create =
  ac_code :: string
  ac_names :: "(string \<times> string) list"

text \<open>Translations are pairs of a language and a text, at most one per language.\<close>

definition names_ok :: "(string \<times> string) list \<Rightarrow> bool" where
  "names_ok ts \<longleftrightarrow> list_all (\<lambda>(l, n). validate_lang l \<and> length_in 1 NAME_MAX n) ts"

definition admin_get_attribute :: "int \<Rightarrow> attribute act" where
  "admin_get_attribute aid =
    bindM (reads (\<lambda>d. find (\<lambda>a. at_id a = aid) (t_attribute d))) (\<lambda>a.
    case a of None \<Rightarrow> throw (AdminNotFoundError (int_str aid)) | Some a \<Rightarrow> ret a)"

definition add_attribute_names :: "int \<Rightarrow> (string \<times> string) list \<Rightarrow> unit act" where
  "add_attribute_names aid ts = forEach ts (\<lambda>(lang, name).
    bindM (readsE (\<lambda>d. guardE (list_all (\<lambda>x. (att_attribute_id x, att_lang x) \<noteq> (aid, lang)) (t_attribute_translation d))
      (IntegrityError ''attribute_translation''))) (\<lambda>_.
    writes (\<lambda>d. d\<lparr>t_attribute_translation := t_attribute_translation d
      @ [\<lparr>att_attribute_id = aid, att_lang = lang, att_name = name\<rparr>]\<rparr>)))"

definition attribute_code_free :: "int \<Rightarrow> string \<Rightarrow> db \<Rightarrow> bool" where
  "attribute_code_free aid code d \<longleftrightarrow> list_all (\<lambda>a. at_id a = aid \<or> at_code a \<noteq> code) (t_attribute d)"

definition create_attribute :: "attribute_create \<Rightarrow> attribute act" where
  "create_attribute p =
    bindM (next_id Attribute_T) (\<lambda>i.
    let a = \<lparr>at_id = i, at_code = ac_code p\<rparr> in
    bindM (readsE (\<lambda>d. guardE (attribute_code_free i (ac_code p) d) (IntegrityError ''attribute''))) (\<lambda>_.
    bindM (writes (\<lambda>d. d\<lparr>t_attribute := t_attribute d @ [a]\<rparr>)) (\<lambda>_.
    bindM (add_attribute_names i (ac_names p)) (\<lambda>_.
    bindM commit (\<lambda>_.
    ret a)))))"

definition update_attribute :: "int \<Rightarrow> string option \<Rightarrow> (string \<times> string) list option \<Rightarrow> attribute act" where
  "update_attribute aid code names =
    bindM (admin_get_attribute aid) (\<lambda>a.
    bindM (case code of
             None \<Rightarrow> ret ()
           | Some c \<Rightarrow>
               bindM (readsE (\<lambda>d. guardE (attribute_code_free aid c d) (IntegrityError ''attribute''))) (\<lambda>_.
               writes (\<lambda>d. d\<lparr>t_attribute := upd (\<lambda>x. at_id x = aid) (\<lambda>x. x\<lparr>at_code := c\<rparr>) (t_attribute d)\<rparr>))) (\<lambda>_.
    bindM (case names of
             None \<Rightarrow> ret ()
           | Some ts \<Rightarrow>
               bindM (writes (\<lambda>d. d\<lparr>t_attribute_translation := filter (\<lambda>x. att_attribute_id x \<noteq> aid) (t_attribute_translation d)\<rparr>)) (\<lambda>_.
               add_attribute_names aid ts)) (\<lambda>_.
    bindM commit (\<lambda>_.
    admin_get_attribute aid))))"

text \<open>
  Deleting an attribute, or a value, is refused by the database while a variant is made of the
  value, or while the attribute is a selector of a product.
\<close>

definition value_in_variant :: "int set \<Rightarrow> db \<Rightarrow> bool" where
  "value_in_variant ids d \<longleftrightarrow> list_ex (\<lambda>x. pvv_value_id x \<in> ids) (t_product_variant_value d)"

definition without_values :: "int set \<Rightarrow> db \<Rightarrow> db" where
  "without_values ids d =
    d\<lparr>t_product_attribute := filter (\<lambda>a. pav_value_id a \<notin> ids) (t_product_attribute d),
      t_attribute_value_translation := filter (\<lambda>t. avt_value_id t \<notin> ids) (t_attribute_value_translation d),
      t_attribute_value := filter (\<lambda>v. av_id v \<notin> ids) (t_attribute_value d)\<rparr>"

definition delete_attribute :: "int \<Rightarrow> unit act" where
  "delete_attribute aid =
    bindM (admin_get_attribute aid) (\<lambda>_.
    bindM (reads (\<lambda>d. set (map av_id (filter (\<lambda>v. av_attribute_id v = aid) (t_attribute_value d))))) (\<lambda>ids.
    bindM (readsE (\<lambda>d. guardE (\<not> value_in_variant ids d) (IntegrityError ''attribute_value''))) (\<lambda>_.
    bindM (writes (without_values ids)) (\<lambda>_.
    bindM (writes (\<lambda>d. d\<lparr>t_attribute_translation := filter (\<lambda>x. att_attribute_id x \<noteq> aid) (t_attribute_translation d)\<rparr>)) (\<lambda>_.
    bindM (readsE (\<lambda>d. guardE (list_all (\<lambda>x. pva_attribute_id x \<noteq> aid) (t_product_variation_attribute d)) (IntegrityError ''attribute''))) (\<lambda>_.
    bindM (writes (\<lambda>d. d\<lparr>t_attribute := filter (\<lambda>a. at_id a \<noteq> aid) (t_attribute d)\<rparr>)) (\<lambda>_.
    commit)))))))"

definition add_value_names :: "int \<Rightarrow> (string \<times> string) list \<Rightarrow> unit act" where
  "add_value_names vid ts = forEach ts (\<lambda>(lang, x).
    bindM (readsE (\<lambda>d. guardE (list_all (\<lambda>y. (avt_value_id y, avt_lang y) \<noteq> (vid, lang)) (t_attribute_value_translation d))
      (IntegrityError ''attribute_value_translation''))) (\<lambda>_.
    writes (\<lambda>d. d\<lparr>t_attribute_value_translation := t_attribute_value_translation d
      @ [\<lparr>avt_value_id = vid, avt_lang = lang, avt_value = x\<rparr>]\<rparr>)))"

definition create_attribute_value :: "int \<Rightarrow> (string \<times> string) list \<Rightarrow> attribute_value act" where
  "create_attribute_value aid ts =
    bindM (admin_get_attribute aid) (\<lambda>_.
    bindM (next_id Attribute_Value_T) (\<lambda>i.
    let v = \<lparr>av_id = i, av_attribute_id = aid\<rparr> in
    bindM (writes (\<lambda>d. d\<lparr>t_attribute_value := t_attribute_value d @ [v]\<rparr>)) (\<lambda>_.
    bindM (add_value_names i ts) (\<lambda>_.
    bindM commit (\<lambda>_.
    ret v)))))"

definition admin_get_value :: "int \<Rightarrow> attribute_value act" where
  "admin_get_value vid =
    bindM (reads (\<lambda>d. find (\<lambda>v. av_id v = vid) (t_attribute_value d))) (\<lambda>v.
    case v of None \<Rightarrow> throw (AdminNotFoundError (int_str vid)) | Some v \<Rightarrow> ret v)"

definition update_attribute_value :: "int \<Rightarrow> (string \<times> string) list option \<Rightarrow> attribute_value act" where
  "update_attribute_value vid ts =
    bindM (admin_get_value vid) (\<lambda>v.
    bindM (case ts of
             None \<Rightarrow> ret ()
           | Some names \<Rightarrow>
               bindM (writes (\<lambda>d. d\<lparr>t_attribute_value_translation := filter (\<lambda>x. avt_value_id x \<noteq> vid) (t_attribute_value_translation d)\<rparr>)) (\<lambda>_.
               add_value_names vid names)) (\<lambda>_.
    bindM commit (\<lambda>_.
    ret v)))"

definition delete_attribute_value :: "int \<Rightarrow> unit act" where
  "delete_attribute_value vid =
    bindM (admin_get_value vid) (\<lambda>_.
    bindM (readsE (\<lambda>d. guardE (\<not> value_in_variant {vid} d) (IntegrityError ''attribute_value''))) (\<lambda>_.
    bindM (writes (without_values {vid})) (\<lambda>_.
    commit)))"

definition get_attribute_detail ::
  "int \<Rightarrow> (attribute \<times> attribute_translation list \<times> (attribute_value \<times> attribute_value_translation list) list) act" where
  "get_attribute_detail aid =
    bindM (admin_get_attribute aid) (\<lambda>a.
    reads (\<lambda>d. (a, filter (\<lambda>t. att_attribute_id t = aid) (t_attribute_translation d),
      map (\<lambda>v. (v, filter (\<lambda>t. avt_value_id t = av_id v) (t_attribute_value_translation d)))
        (filter (\<lambda>v. av_attribute_id v = aid) (t_attribute_value d)))))"

definition list_attributes :: "db \<Rightarrow> attribute list" where
  "list_attributes d = sort_key at_id (t_attribute d)"

end
