(* ===== verification/Admin_Endpoints.thy ===== *)
theory Admin_Endpoints
  imports Admin_Variants Restock
begin

text \<open>
  What the catalogue router answers: the full views of a product, its variants and an attribute,
  and the endpoints for products, variants, attributes and pictures
  (\<open>app/api/routers/admin_catalog.py\<close>). Every endpoint first requires a member of the staff, then
  checks the payload, then calls the service.
\<close>

subsection \<open>Views\<close>

definition get_product_value_ids :: "int \<Rightarrow> db \<Rightarrow> int list" where
  "get_product_value_ids pid d = map pav_value_id (filter (\<lambda>a. pav_product_id a = pid) (t_product_attribute d))"

record variant_out =
  vo_variant :: variant
  vo_value_ids :: "int list"
  vo_image_media_id :: "int option"

definition variant_row_out :: "int list \<Rightarrow> db \<Rightarrow> variant \<Rightarrow> variant_out" where
  "variant_row_out ids d v =
    \<lparr>vo_variant = v,
     vo_value_ids = (case map_of (get_variant_value_ids_map ids d) (v_id v) of None \<Rightarrow> [] | Some xs \<Rightarrow> xs),
     vo_image_media_id = get_variant_image_ids ids d (v_id v)\<rparr>"

definition build_variants_out :: "int \<Rightarrow> db \<Rightarrow> variant_out list" where
  "build_variants_out pid d =
    (let vs = all_variants pid d in map (variant_row_out (map v_id vs) d) vs)"

definition variant_view :: "variant \<Rightarrow> db \<Rightarrow> variant_out" where
  "variant_view v d = variant_row_out [v_id v] d v"

record product_out =
  po_product :: product
  po_translations :: "product_translation list"
  po_media :: "media list"
  po_value_ids :: "int list"
  po_variation_attribute_ids :: "int list"
  po_variants :: "variant_out list"

definition build_product_out :: "product \<Rightarrow> db \<Rightarrow> product_out" where
  "build_product_out p d =
    \<lparr>po_product = p, po_translations = get_product_translations (p_id p) d, po_media = get_product_media (p_id p) d,
     po_value_ids = get_product_value_ids (p_id p) d,
     po_variation_attribute_ids = get_product_variation_attribute_ids (p_id p) d,
     po_variants = build_variants_out (p_id p) d\<rparr>"

type_synonym attribute_view = "attribute \<times> attribute_translation list \<times> (attribute_value \<times> attribute_value_translation list) list"

definition build_attribute_out :: "attribute \<Rightarrow> attribute_view act" where
  "build_attribute_out a = get_attribute_detail (at_id a)"

subsection \<open>Products\<close>

definition search_products_endpoint where
  "search_products_endpoint env r search limit is_active low_stock on_sale no_weight =
    bindM (current_staff env r) (\<lambda>_.
    bindM (liftE (guardE (option_ok (\<lambda>s. length s \<le> 200) search \<and> 1 \<le> limit \<and> limit \<le> (200::int)) invalid)) (\<lambda>_.
    reads (search_products search (nat limit) is_active low_stock on_sale no_weight)))"

definition create_product_endpoint :: "environment \<Rightarrow> web_request \<Rightarrow> product_create \<Rightarrow> product_out act" where
  "create_product_endpoint env r p =
    bindM (current_staff env r) (\<lambda>_.
    bindM (liftE (product_create_ok p)) (\<lambda>p'.
    bindM (create_product env p') (\<lambda>x. reads (build_product_out x))))"

definition get_product_endpoint :: "environment \<Rightarrow> web_request \<Rightarrow> int \<Rightarrow> product_out act" where
  "get_product_endpoint env r pid =
    bindM (current_staff env r) (\<lambda>_.
    bindM (admin_get_product pid) (\<lambda>x. reads (build_product_out x)))"

definition update_product_endpoint :: "environment \<Rightarrow> web_request \<Rightarrow> int \<Rightarrow> product_update \<Rightarrow> product_out act" where
  "update_product_endpoint env r pid p =
    bindM (current_staff env r) (\<lambda>_.
    bindM (liftE (product_update_ok p)) (\<lambda>_.
    bindM (update_product env pid p) (\<lambda>x. reads (build_product_out x))))"

definition delete_product_endpoint :: "environment \<Rightarrow> web_request \<Rightarrow> int \<Rightarrow> unit act" where
  "delete_product_endpoint env r pid = bindM (current_staff env r) (\<lambda>_. delete_product env pid)"

definition set_product_translation_endpoint where
  "set_product_translation_endpoint env r pid t =
    bindM (current_staff env r) (\<lambda>_.
    bindM (liftE (product_translation_ok t)) (\<lambda>t'. set_product_translation env pid t'))"

definition set_product_attributes_endpoint :: "environment \<Rightarrow> web_request \<Rightarrow> int \<Rightarrow> int list \<Rightarrow> product_out act" where
  "set_product_attributes_endpoint env r pid value_ids =
    bindM (current_staff env r) (\<lambda>_.
    bindM (set_product_attributes env pid value_ids) (\<lambda>_.
    bindM (admin_get_product pid) (\<lambda>x. reads (build_product_out x))))"

subsection \<open>Pictures\<close>

definition upload_product_media_endpoint :: "environment \<Rightarrow> web_request \<Rightarrow> int \<Rightarrow> upload_file \<Rightarrow> media act" where
  "upload_product_media_endpoint env r pid f = bindM (current_staff env r) (\<lambda>_. add_product_media env pid f)"

definition upload_asset_endpoint :: "environment \<Rightarrow> web_request \<Rightarrow> upload_file \<Rightarrow> string act" where
  "upload_asset_endpoint env r f = bindM (current_staff env r) (\<lambda>_. remote (upload_asset env f))"

definition reorder_product_media_endpoint :: "environment \<Rightarrow> web_request \<Rightarrow> int \<Rightarrow> int list \<Rightarrow> media list act" where
  "reorder_product_media_endpoint env r pid ids =
    bindM (current_staff env r) (\<lambda>_.
    bindM (liftE (guardE (ids \<noteq> []) invalid)) (\<lambda>_. reorder_product_media env pid ids))"

definition delete_product_media_endpoint :: "environment \<Rightarrow> web_request \<Rightarrow> int \<Rightarrow> int \<Rightarrow> unit act" where
  "delete_product_media_endpoint env r pid mid = bindM (current_staff env r) (\<lambda>_. delete_product_media env pid mid)"

definition bind_media_endpoint :: "environment \<Rightarrow> web_request \<Rightarrow> int \<Rightarrow> int \<Rightarrow> int option \<Rightarrow> media act" where
  "bind_media_endpoint env r pid mid vid = bindM (current_staff env r) (\<lambda>_. bind_media_to_variant env pid mid vid)"

subsection \<open>Variants\<close>

definition list_product_variants_endpoint :: "environment \<Rightarrow> web_request \<Rightarrow> int \<Rightarrow> variant_out list act" where
  "list_product_variants_endpoint env r pid = bindM (current_staff env r) (\<lambda>_. reads (build_variants_out pid))"

definition set_variation_attributes_endpoint :: "environment \<Rightarrow> web_request \<Rightarrow> int \<Rightarrow> int list \<Rightarrow> product_out act" where
  "set_variation_attributes_endpoint env r pid ids =
    bindM (current_staff env r) (\<lambda>_.
    bindM (set_variation_attributes env pid ids) (\<lambda>_.
    bindM (admin_get_product pid) (\<lambda>x. reads (build_product_out x))))"

definition create_variant_endpoint :: "environment \<Rightarrow> web_request \<Rightarrow> int \<Rightarrow> variant_create \<Rightarrow> variant_out act" where
  "create_variant_endpoint env r pid v =
    bindM (current_staff env r) (\<lambda>_.
    bindM (liftE (variant_create_ok v)) (\<lambda>_.
    bindM (create_variant env pid v) (\<lambda>x. reads (variant_view x))))"

definition generate_product_variants_endpoint :: "environment \<Rightarrow> web_request \<Rightarrow> int \<Rightarrow> (variant_out list \<times> nat) act" where
  "generate_product_variants_endpoint env r pid =
    bindM (current_staff env r) (\<lambda>_.
    bindM (generate_variants env pid) (\<lambda>(created, skipped).
    reads (\<lambda>d. (map (\<lambda>v. variant_view v d) created, skipped))))"

definition update_variant_endpoint :: "environment \<Rightarrow> web_request \<Rightarrow> int \<Rightarrow> variant_update \<Rightarrow> variant_out act" where
  "update_variant_endpoint env r vid x =
    bindM (current_staff env r) (\<lambda>_.
    bindM (liftE (variant_update_ok x)) (\<lambda>_.
    bindM (update_variant env vid x) (\<lambda>v. reads (variant_view v))))"

definition delete_variant_endpoint :: "environment \<Rightarrow> web_request \<Rightarrow> int \<Rightarrow> unit act" where
  "delete_variant_endpoint env r vid = bindM (current_staff env r) (\<lambda>_. delete_variant env vid)"

subsection \<open>Attributes\<close>

definition list_attributes_endpoint :: "environment \<Rightarrow> web_request \<Rightarrow> attribute_view list act" where
  "list_attributes_endpoint env r =
    bindM (current_staff env r) (\<lambda>_.
    bindM (reads list_attributes) (\<lambda>xs. mapM build_attribute_out xs))"

definition create_attribute_endpoint :: "environment \<Rightarrow> web_request \<Rightarrow> attribute_create \<Rightarrow> attribute_view act" where
  "create_attribute_endpoint env r p =
    bindM (current_staff env r) (\<lambda>_.
    bindM (liftE (guardE (length_in 1 CODE_MAX (ac_code p) \<and> names_ok (ac_names p)) invalid)) (\<lambda>_.
    bindM (create_attribute p) build_attribute_out))"

definition update_attribute_endpoint ::
  "environment \<Rightarrow> web_request \<Rightarrow> int \<Rightarrow> string option \<Rightarrow> (string \<times> string) list option \<Rightarrow> attribute_view act" where
  "update_attribute_endpoint env r aid code names =
    bindM (current_staff env r) (\<lambda>_.
    bindM (liftE (guardE (option_ok (length_in 1 CODE_MAX) code \<and> option_ok names_ok names) invalid)) (\<lambda>_.
    bindM (update_attribute aid code names) build_attribute_out))"

definition delete_attribute_endpoint :: "environment \<Rightarrow> web_request \<Rightarrow> int \<Rightarrow> unit act" where
  "delete_attribute_endpoint env r aid = bindM (current_staff env r) (\<lambda>_. delete_attribute aid)"

definition value_view :: "attribute_value \<Rightarrow> attribute_view \<Rightarrow> attribute_value \<times> attribute_value_translation list" where
  "value_view v view = (v, case find (\<lambda>(x, _). av_id x = av_id v) (snd (snd view)) of None \<Rightarrow> [] | Some (_, ts) \<Rightarrow> ts)"

definition create_attribute_value_endpoint where
  "create_attribute_value_endpoint env r aid names =
    bindM (current_staff env r) (\<lambda>_.
    bindM (liftE (guardE (names_ok names) invalid)) (\<lambda>_.
    bindM (create_attribute_value aid names) (\<lambda>v.
    bindM (get_attribute_detail aid) (\<lambda>view. ret (value_view v view)))))"

definition update_attribute_value_endpoint where
  "update_attribute_value_endpoint env r vid names =
    bindM (current_staff env r) (\<lambda>_.
    bindM (liftE (guardE (option_ok names_ok names) invalid)) (\<lambda>_.
    bindM (update_attribute_value vid names) (\<lambda>v.
    bindM (get_attribute_detail (av_attribute_id v)) (\<lambda>view. ret (value_view v view)))))"

definition delete_attribute_value_endpoint :: "environment \<Rightarrow> web_request \<Rightarrow> int \<Rightarrow> unit act" where
  "delete_attribute_value_endpoint env r vid = bindM (current_staff env r) (\<lambda>_. delete_attribute_value vid)"

subsection \<open>Restock demand\<close>

definition get_restock_waiters_endpoint :: "environment \<Rightarrow> web_request \<Rightarrow> int \<Rightarrow> nat act" where
  "get_restock_waiters_endpoint env r pid = bindM (current_staff env r) (\<lambda>_. reads (waiter_count pid))"

definition get_restock_demand_endpoint :: "environment \<Rightarrow> web_request \<Rightarrow> string \<Rightarrow> demand_item list act" where
  "get_restock_demand_endpoint env r lang = bindM (current_staff env r) (\<lambda>_. reads (demand_overview env lang))"

end
