(* ===== verification/Categories_Correct.thy ===== *)
theory Categories_Correct
  imports Admin_Categories
begin

text \<open>
  The category tree stays a tree: every operation of the back office keeps the paths in agreement
  with the parents, and the translations unique.
\<close>

definition category_inv :: "session \<Rightarrow> bool" where
  "category_inv s \<longleftrightarrow> both categories_ok s \<and> both (\<lambda>d. \<forall>c \<in> set (t_category d). cg_id c < pk_seq s Category_T) s"

subsection \<open>Rows\<close>

lemma path_ok_iff: "path_ok cs c \<longleftrightarrow> cg_depth c = int (length (cg_path c)) - 1 \<and>
    (cg_parent_id c = None \<and> cg_path c = [cg_id c] \<or>
     (\<exists>p q. cg_parent_id c = Some p \<and> find_category p cs = Some q \<and> cg_path c = cg_path q @ [cg_id c]))"
  by (auto simp: path_ok_def split: option.splits)

lemma touched_fields [simp]:
  "cg_id (touched env old c) = cg_id c" "cg_parent_id (touched env old c) = cg_parent_id c"
  "cg_path (touched env old c) = cg_path c" "cg_depth (touched env old c) = cg_depth c"
  by (simp_all add: touched_def)

lemma find_category_map:
  "(\<And>c. cg_id (f c) = cg_id c) \<Longrightarrow> find_category i (map f cs) = map_option f (find_category i cs)"
  by (induction cs) (auto simp: find_category_def)

lemma find_category_append:
  "find_category i (cs @ ds) = (case find_category i cs of None \<Rightarrow> find_category i ds | Some c \<Rightarrow> Some c)"
  by (simp add: find_category_def find_append split: option.split)

lemma find_category_filter: "i \<noteq> j \<Longrightarrow> find_category i (filter (\<lambda>c. cg_id c \<noteq> j) cs) = find_category i cs"
  by (induction cs) (auto simp: find_category_def)

lemma tree_map:
  assumes "tree_ok cs" "\<And>c. cg_id (f c) = cg_id c" "\<And>c. c \<in> set cs \<Longrightarrow> path_ok cs c \<Longrightarrow> path_ok (map f cs) (f c)"
  shows "tree_ok (map f cs)"
proof -
  have "distinct (map cg_id (map f cs))" using assms(1) by (simp add: tree_ok_def o_def assms(2))
  moreover have "list_all (path_ok (map f cs)) (map f cs)" using assms(1,3) by (simp add: tree_ok_def list_all_iff)
  ultimately show ?thesis by (simp only: tree_ok_def)
qed

text \<open>Writing other columns changes nothing of the tree.\<close>

lemma tree_columns:
  assumes "tree_ok cs" "\<And>c. c \<in> set cs \<Longrightarrow>
    cg_id (f c) = cg_id c \<and> cg_parent_id (f c) = cg_parent_id c \<and> cg_path (f c) = cg_path c \<and> cg_depth (f c) = cg_depth c"
  shows "tree_ok (map f cs)"
proof -
  have "map cg_id (map f cs) = map cg_id cs" using assms(2) by simp
  then have "distinct (map cg_id (map f cs))" using assms(1) by (simp only: tree_ok_def)
  moreover have "path_ok (map f cs) (f c)" if c: "c \<in> set cs" for c
  proof -
    have found: "find_category p (map f cs) = map_option f (find_category p cs)" for p
      using assms(2) by (induction cs) (auto simp: find_category_def)
    have fields: "cg_id (f x) = cg_id x" "cg_parent_id (f x) = cg_parent_id x" "cg_path (f x) = cg_path x"
      "cg_depth (f x) = cg_depth x" if "x \<in> set cs" for x using assms(2) [OF that] by auto
    have "path_ok cs c" using assms(1) c by (simp add: tree_ok_def list_all_iff)
    moreover have "cg_path (f q) = cg_path q" if "find_category p cs = Some q" for p q
      using fields find_category_SomeD [OF that] by simp
    ultimately show ?thesis unfolding path_ok_iff found fields [OF c] by fastforce
  qed
  ultimately show ?thesis using assms(1) by (simp add: tree_ok_def list_all_iff)
qed

subsection \<open>Moving a subtree\<close>

lemma moved_id [simp]: "cg_id (moved cid parent new_path old_len c) = cg_id c"
  by (simp add: moved_def Let_def)

lemma moved_tree:
  assumes ok: "tree_ok cs" and node: "node \<in> set cs" "cg_id node = cid"
    and new: "new_path = above_it @ [cid]" "cid \<notin> set above_it"
    and parent: "case parent of None \<Rightarrow> above_it = [] | Some p \<Rightarrow> \<exists>q \<in> set cs. cg_id q = p \<and> cg_path q = above_it"
  shows "tree_ok (map (\<lambda>c. touched env c (moved cid parent new_path (length (cg_path node)) c)) cs)"
proof (rule tree_map [OF ok])
  let ?m = "moved cid parent new_path (length (cg_path node))"
  let ?f = "\<lambda>c. touched env c (?m c)"
  fix c assume c: "c \<in> set cs" and old: "path_ok cs c"
  have dist: "distinct (map cg_id cs)" using ok by (simp add: tree_ok_def)
  have find: "find_category p (map ?f cs) = map_option ?f (find_category p cs)" for p
    by (rule find_category_map) simp
  have same: "b = node" if "b \<in> set cs" "cg_id b = cid" for b
    using distinct_key_inj [OF dist that(1) node(1)] that(2) node(2) by simp
  have node_in: "in_subtree cid node" using path_ends [OF ok node(1)] node(2) by (auto simp: in_subtree_def)
  show "path_ok (map ?f cs) (?f c)"
  proof (cases "cg_id c = cid")
    case True
    then have "c = node" using same c by simp
    then have moved: "?m c = c\<lparr>cg_path := new_path, cg_depth := int (length new_path) - 1, cg_parent_id := parent\<rparr>"
      using node_in node(2) by (simp add: moved_def Let_def)
    show ?thesis
    proof (cases parent)
      case None
      then show ?thesis using moved new parent \<open>c = node\<close> node(2) by (simp add: path_ok_iff)
    next
      case (Some p)
      then obtain q where q: "q \<in> set cs" "cg_id q = p" "cg_path q = above_it" using parent by auto
      then have "find_category p cs = Some q" using find_category_self [OF dist q(1)] by simp
      then have "find_category p (map ?f cs) = Some (?f q)" by (simp only: find option.map)
      moreover have "?m q = q" using q new(2) by (simp add: moved_def in_subtree_def)
      ultimately show ?thesis using moved new Some q \<open>c = node\<close> node(2) by (simp add: path_ok_iff)
    qed
  next
    case False
    have up: "cg_parent_id (?m c) = cg_parent_id c" using False by (simp add: moved_def Let_def)
    show ?thesis
    proof (cases "cg_parent_id c")
      case None
      then have "\<not> in_subtree cid c" using old False by (simp add: path_ok_iff in_subtree_def)
      then show ?thesis using old None by (simp add: path_ok_iff moved_def)
    next
      case (Some p)
      then obtain q where found: "find_category p cs = Some q" and path: "cg_path c = cg_path q @ [cg_id c]"
        and depth: "cg_depth c = int (length (cg_path c)) - 1"
        using old by (auto simp: path_ok_iff split: option.splits)
      have q: "q \<in> set cs" using find_category_SomeD [OF found] by simp
      have found': "find_category p (map ?f cs) = Some (?f q)" by (simp only: find found option.map)
      show ?thesis
      proof (cases "in_subtree cid q")
        case True
        then have "prefix (cg_path node) (cg_path q)"
          using path_of_member [OF ok q node(1)] node(2) by (simp add: in_subtree_def)
        then have "length (cg_path node) \<le> length (cg_path q)" by (rule prefix_length_le)
        moreover have "in_subtree cid c" using True path by (simp add: in_subtree_def)
        moreover have "cg_path (?m q) = new_path @ drop (length (cg_path node)) (cg_path q)"
          using True by (simp add: moved_def Let_def)
        moreover have "cg_path (?m c) = new_path @ drop (length (cg_path node)) (cg_path c)"
          "cg_depth (?m c) = int (length (cg_path (?m c))) - 1"
          using \<open>in_subtree cid c\<close> by (simp_all add: moved_def Let_def)
        ultimately show ?thesis using Some found' path up by (simp add: path_ok_iff)
      next
        case False
        then have "\<not> in_subtree cid c" using path \<open>cg_id c \<noteq> cid\<close> by (simp add: in_subtree_def)
        then have "?m c = c" "?m q = q" using False by (simp_all add: moved_def)
        then show ?thesis using Some found' path depth by (simp add: path_ok_iff)
      qed
    qed
  qed
qed simp

subsection \<open>The operations\<close>

lemma category_inv_commit [pres]: "preserves category_inv commit"
  by (rule preserves_commit) (simp add: category_inv_def both_def)

lemma category_inv_work:
  assumes "category_inv s" "categories_ok d" "\<forall>c \<in> set (t_category d). cg_id c < pk_seq s Category_T"
  shows "category_inv (s\<lparr>work := d\<rparr>)"
  using assms by (simp add: category_inv_def both_def)

lemma admin_get_category_Inr:
  "admin_get_category cid s = (Inr c, s') \<longleftrightarrow> get_category cid (work s) = Some c \<and> s' = s"
  by (auto simp: admin_get_category_def bindM_app split: option.splits)

lemma admin_get_category_read_only: "read_only (admin_get_category cid)"
  unfolding admin_get_category_def by (rule read_onlyI) (intro pres)

lemmas admin_get_category_pres [pres] = preserves_read_only [OF admin_get_category_read_only]

lemma resolve_path_pres [pres]: "preserves I (resolve_path parent)"
  unfolding resolve_path_def by (intro pres)

lemma resolve_path_Inr:
  assumes "resolve_path parent s = (Inr above_it, s')"
  shows "s' = s \<and> (case parent of None \<Rightarrow> above_it = [] | Some p \<Rightarrow> \<exists>q \<in> set (t_category (work s)). cg_id q = p \<and> cg_path q = above_it)"
  using assms
  by (auto simp: resolve_path_def bindM_Inr admin_get_category_Inr get_category_def dest!: find_SomeD split: option.splits)

lemma update_rows_keeps:
  assumes inv: "category_inv s"
    and same: "\<And>c. c \<in> set (t_category (work s)) \<Longrightarrow>
      cg_id (f c) = cg_id c \<and> cg_parent_id (f c) = cg_parent_id c \<and> cg_path (f c) = cg_path c \<and> cg_depth (f c) = cg_depth c"
  shows "category_inv (s\<lparr>work := update_rows env f (work s)\<rparr>)"
proof (rule category_inv_work [OF inv])
  have "tree_ok (map (\<lambda>c. touched env c (f c)) (t_category (work s)))"
    using inv same by (intro tree_columns) (simp_all add: category_inv_def both_def categories_ok_def)
  then show "categories_ok (update_rows env f (work s))"
    using inv by (simp add: category_inv_def both_def categories_ok_def update_rows_def)
  show "\<forall>c \<in> set (t_category (update_rows env f (work s))). cg_id c < pk_seq s Category_T"
    using inv same by (simp add: category_inv_def both_def update_rows_def)
qed

lemma move_category_keeps [pres]: "preserves category_inv (move_category env cid parent)"
proof (rule preservesI)
  fix s r s' assume inv: "category_inv s" and run: "move_category env cid parent s = (r, s')"
  show "category_inv s'"
  proof (cases "\<exists>node above_it. get_category cid (work s) = Some node \<and> resolve_path parent s = (Inr above_it, s) \<and> cid \<notin> set above_it")
    case True
    then obtain node above_it where node: "get_category cid (work s) = Some node"
      and pre: "resolve_path parent s = (Inr above_it, s)" "cid \<notin> set above_it" by blast
    let ?d = "update_rows env (moved cid parent (above_it @ [cid]) (length (cg_path node))) (work s)"
    have at: "node \<in> set (t_category (work s))" "cg_id node = cid"
      using node by (auto simp: get_category_def dest: find_SomeD)
    have "tree_ok (t_category ?d)"
      unfolding update_rows_def
      using moved_tree [OF _ at refl pre(2)] inv resolve_path_Inr [OF pre(1)]
      by (simp add: category_inv_def both_def categories_ok_def)
    then have "category_inv (s\<lparr>work := ?d\<rparr>)"
      using inv by (intro category_inv_work [OF inv])
        (simp_all add: category_inv_def both_def categories_ok_def update_rows_def)
    then have "category_inv (s\<lparr>work := ?d, committed := ?d\<rparr>)" by (simp add: category_inv_def both_def)
    moreover have "s' = s\<lparr>work := ?d, committed := ?d\<rparr>"
      using run node pre
      by (auto simp: move_category_def bindM_app admin_get_category_def split: option.splits)
    ultimately show ?thesis by simp
  next
    case False
    have "s' = s"
    proof (cases "get_category cid (work s)")
      case None
      then show ?thesis using run by (simp add: move_category_def bindM_app admin_get_category_def)
    next
      case (Some node)
      obtain x s1 where pre: "resolve_path parent s = (x, s1)" by (cases "resolve_path parent s")
      then have s1: "s1 = s" using preservesD [OF resolve_path_pres [of "\<lambda>t. t = s"] pre] by simp
      show ?thesis
        using run Some pre s1 False
        by (cases x) (auto simp: move_category_def bindM_app admin_get_category_def)
    qed
    with inv show ?thesis by simp
  qed
qed

lemma patched_same:
  "patched_category p c = Some c' \<Longrightarrow> cg_id c' = cg_id c \<and> cg_parent_id c' = cg_parent_id c \<and> cg_path c' = cg_path c \<and> cg_depth c' = cg_depth c"
  by (auto simp: patched_category_def split: option.splits)

lemma write_category_keeps:
  assumes inv: "category_inv s" and c: "get_category cid (work s) = Some c"
    and same: "cg_id c' = cg_id c" "cg_parent_id c' = cg_parent_id c" "cg_path c' = cg_path c" "cg_depth c' = cg_depth c"
  shows "category_inv (s\<lparr>work := update_rows env (\<lambda>x. if cg_id x = cid then c' else x) (work s)\<rparr>)"
proof (rule update_rows_keeps [OF inv])
  fix x assume x: "x \<in> set (t_category (work s))"
  have "x = c" if "cg_id x = cid"
  proof -
    have "c \<in> set (t_category (work s))" "cg_id c = cid" using c by (auto simp: get_category_def dest: find_SomeD)
    moreover have "distinct (map cg_id (t_category (work s)))"
      using inv by (simp add: category_inv_def both_def categories_ok_def tree_ok_def)
    ultimately show ?thesis using x that distinct_key_inj by metis
  qed
  then show "cg_id (if cg_id x = cid then c' else x) = cg_id x
      \<and> cg_parent_id (if cg_id x = cid then c' else x) = cg_parent_id x
      \<and> cg_path (if cg_id x = cid then c' else x) = cg_path x \<and> cg_depth (if cg_id x = cid then c' else x) = cg_depth x"
    using same by auto
qed

lemma update_category_keeps [pres]: "preserves category_inv (update_category env cid p)"
proof -
  let ?rest = "bindM (admin_get_category cid) (\<lambda>c.
    bindM (liftE (the_orE (patched_category p c) (IntegrityError ''category''))) (\<lambda>c'.
    bindM (writes (update_rows env (\<lambda>x. if cg_id x = cid then c' else x))) (\<lambda>_.
    bindM commit (\<lambda>_. admin_get_category cid))))"
  have [pres]: "preserves category_inv ?rest"
  proof (rule preservesI)
    fix s r s' assume inv: "category_inv s" and run: "?rest s = (r, s')"
    show "category_inv s'"
    proof (cases "get_category cid (work s)")
      case None
      then show ?thesis using run inv by (simp add: bindM_app admin_get_category_def)
    next
      case (Some c)
      show ?thesis
      proof (cases "patched_category p c")
        case None
        then show ?thesis using run inv Some by (simp add: bindM_app admin_get_category_def)
      next
        case (Some c')
        let ?d = "update_rows env (\<lambda>x. if cg_id x = cid then c' else x) (work s)"
        have "category_inv (s\<lparr>work := ?d\<rparr>)"
          using write_category_keeps [OF inv \<open>get_category cid (work s) = Some c\<close>] patched_same [OF Some] by blast
        then have "category_inv (s\<lparr>work := ?d, committed := ?d\<rparr>)" by (simp add: category_inv_def both_def)
        moreover have "s' = s\<lparr>work := ?d, committed := ?d\<rparr>"
          using run Some \<open>get_category cid (work s) = Some c\<close>
          by (auto simp: bindM_app admin_get_category_def split: option.splits)
        ultimately show ?thesis by simp
      qed
    qed
  qed
  show ?thesis unfolding update_category_def by (intro pres)
qed

lemma reorder_categories_keeps [pres]: "preserves category_inv (reorder_categories env items)"
proof -
  have "preserves category_inv (writes (update_rows env (\<lambda>x. if cg_id x = cid then x\<lparr>cg_position := pos\<rparr> else x)))" for cid pos
    by (rule preserves_writes, rule update_rows_keeps) auto
  then have [pres]: "preserves category_inv (case item of (cid, pos) \<Rightarrow> bindM (admin_get_category cid)
      (\<lambda>_. writes (update_rows env (\<lambda>x. if cg_id x = cid then x\<lparr>cg_position := pos\<rparr> else x))))" for item
    by (auto simp: split_def intro!: preserves_bindM admin_get_category_pres)
  show ?thesis unfolding reorder_categories_def by (rule preserves_bindM) (intro preserves_forEach pres, rule category_inv_commit)
qed

lemma category_translations_keep:
  assumes "category_inv s" "t_category d = t_category (work s)"
    and "distinct (map (\<lambda>t. (cgt_category_id t, cgt_lang t)) (t_category_translation d))"
  shows "category_inv (s\<lparr>work := d\<rparr>)"
  using assms by (intro category_inv_work) (simp_all add: category_inv_def both_def categories_ok_def)

lemma add_category_translation_keeps [pres]: "preserves category_inv (add_category_translation cid t)"
proof (rule preservesI)
  fix s r s' assume inv: "category_inv s" and run: "add_category_translation cid t s = (r, s')"
  let ?row = "translation_row cid t"
  show "category_inv s'"
  proof (cases "translation_unique ?row (work s)")
    case True
    have "category_inv (s\<lparr>work := (work s)\<lparr>t_category_translation := t_category_translation (work s) @ [?row]\<rparr>\<rparr>)"
      using inv True
      by (intro category_translations_keep [OF inv])
        (auto simp: category_inv_def both_def categories_ok_def translation_unique_def list_all_iff)
    then show ?thesis using run True by (simp add: add_category_translation_def bindM_app)
  next
    case False
    then show ?thesis using run inv by (simp add: add_category_translation_def bindM_app guardE_def)
  qed
qed

lemma set_category_translation_keeps [pres]: "preserves category_inv (set_category_translation cid t)"
proof -
  let ?mine = "\<lambda>x. cgt_category_id x = cid \<and> cgt_lang x = ct_lang t"
  have step: "category_inv (s\<lparr>work := (work s)\<lparr>t_category_translation :=
      (if found = None then t_category_translation (work s) @ [translation_row cid t]
       else upd ?mine (\<lambda>_. translation_row cid t) (t_category_translation (work s)))\<rparr>\<rparr>)"
    if "category_inv s" "found = find ?mine (t_category_translation (work s))" for s found
  proof (cases found)
    case None
    then show ?thesis using that
      by (intro category_translations_keep [OF that(1)])
        (auto simp: category_inv_def both_def categories_ok_def translation_row_def find_None_iff)
  next
    case (Some x)
    have "map (\<lambda>t. (cgt_category_id t, cgt_lang t)) (upd ?mine (\<lambda>_. translation_row cid t) rows)
        = map (\<lambda>t. (cgt_category_id t, cgt_lang t)) rows" for rows
      by (rule map_upd_key) (simp add: translation_row_def)
    then have "distinct (map (\<lambda>t. (cgt_category_id t, cgt_lang t)) (upd ?mine (\<lambda>_. translation_row cid t) (t_category_translation (work s))))"
      using that(1) by (simp add: category_inv_def both_def categories_ok_def)
    then show ?thesis using Some by (intro category_translations_keep [OF that(1)]) simp_all
  qed
  have commit: "category_inv (s\<lparr>committed := work s\<rparr>)" if "category_inv s" for s
    using that by (simp add: category_inv_def both_def)
  show ?thesis
  proof (rule preservesI)
    fix s r s' assume inv: "category_inv s" and run: "set_category_translation cid t s = (r, s')"
    show "category_inv s'"
    proof (cases "get_category cid (work s) \<noteq> None \<and>
        list_all (\<lambda>x. ?mine x \<or> (cgt_lang x, cgt_slug x) \<noteq> (ct_lang t, ct_slug t)) (t_category_translation (work s))")
      case True
      then show ?thesis
        using run commit [OF step [OF inv refl]]
        by (auto simp: set_category_translation_def admin_get_category_def bindM_app Let_def)
    next
      case False
      then have "s' = s"
        using run by (auto simp: set_category_translation_def admin_get_category_def bindM_app Let_def guardE_def split: option.splits if_splits)
      with inv show ?thesis by simp
    qed
  qed
qed

lemma create_category_keeps [pres]: "preserves category_inv (create_category env p)"
proof (rule preservesI)
  fix s r s' assume inv: "category_inv s" and run: "create_category env p s = (r, s')"
  show "category_inv s'"
  proof (cases "resolve_path (cc_parent_id p) s")
    case (Pair x s1)
    then have s1: "s1 = s" using preservesD [OF resolve_path_pres [of "\<lambda>t. t = s"] Pair] by simp
    show ?thesis
    proof (cases x)
      case (Inl e)
      then show ?thesis using run Pair s1 inv by (simp add: create_category_def bindM_app)
    next
      case (Inr above_it)
      let ?i = "pk_seq s Category_T"
      let ?c = "\<lparr>cg_id = ?i, cg_parent_id = cc_parent_id p, cg_path = [], cg_depth = int (length above_it),
        cg_is_active = cc_is_active p, cg_position = cc_position p, cg_cover_image_url = None, cg_updated_at = env_now env\<rparr>"
      let ?f = "\<lambda>x. if cg_id x = ?i then x\<lparr>cg_path := above_it @ [?i]\<rparr> else x"
      let ?d = "update_rows env ?f ((work s)\<lparr>t_category := t_category (work s) @ [?c]\<rparr>)"
      let ?s = "s\<lparr>pk_seq := (pk_seq s)(Category_T := ?i + 1), work := ?d\<rparr>"
      have below: "\<forall>c \<in> set (t_category (work s)). cg_id c < ?i" and tree: "tree_ok (t_category (work s))"
        using inv by (simp_all add: category_inv_def both_def categories_ok_def)
      have "map (\<lambda>c. touched env c (?f c)) (t_category (work s)) = t_category (work s)"
        by (rule map_idI) (use below in \<open>auto simp: touched_def\<close>)
      then have rows: "t_category ?d = t_category (work s) @ [?c\<lparr>cg_path := above_it @ [?i]\<rparr>]"
        by (simp add: update_rows_def touched_def)
      have "tree_ok (t_category ?d)"
      proof -
        have up: "case cc_parent_id p of None \<Rightarrow> above_it = [] | Some q \<Rightarrow>
            \<exists>x \<in> set (t_category (work s)). cg_id x = q \<and> cg_path x = above_it"
          using resolve_path_Inr [of "cc_parent_id p" s above_it s] Pair s1 Inr by simp
        have dist: "distinct (map cg_id (t_category (work s)))" using tree by (simp add: tree_ok_def)
        have "path_ok (t_category (work s) @ [y]) c" if "c \<in> set (t_category (work s))" for c y
        proof -
          have "path_ok (t_category (work s)) c" using tree that by (simp add: tree_ok_def list_all_iff)
          moreover have "find_category p (t_category (work s)) = Some q \<Longrightarrow> find_category p (t_category (work s) @ [y]) = Some q" for p q
            by (simp add: find_category_append)
          ultimately show ?thesis unfolding path_ok_iff by blast
        qed
        moreover have "path_ok (t_category (work s) @ [y]) (?c\<lparr>cg_path := above_it @ [?i]\<rparr>)" for y
        proof (cases "cc_parent_id p")
          case None
          then show ?thesis using up by (simp add: path_ok_iff)
        next
          case (Some q)
          then obtain x where "x \<in> set (t_category (work s))" "cg_id x = q" "cg_path x = above_it" using up by auto
          then show ?thesis using Some find_category_self [OF dist] by (auto simp: path_ok_iff find_category_append)
        qed
        ultimately show ?thesis using dist below unfolding rows by (auto simp: tree_ok_def list_all_iff)
      qed
      then have start: "category_inv ?s"
        using inv by (auto simp: category_inv_def both_def categories_ok_def rows) (auto simp: update_rows_def)
      let ?tail = "bindM (forEach (cc_translations p) (add_category_translation ?i)) (\<lambda>_.
          bindM commit (\<lambda>_. admin_get_category ?i))"
      have keep: "preserves category_inv ?tail" by (intro pres)
      have "?tail ?s = (r, s')"
        using run Pair s1 Inr by (simp add: create_category_def bindM_app [of "resolve_path _"] Let_def)
      then show ?thesis by (rule preservesD [OF keep _ start])
    qed
  qed
qed

lemma delete_category_keeps [pres]: "preserves category_inv (delete_category cid)"
proof (rule preservesI)
  fix s r s' assume inv: "category_inv s" and run: "delete_category cid s = (r, s')"
  let ?d = "(work s)\<lparr>t_category_translation := filter (\<lambda>t. cgt_category_id t \<noteq> cid) (t_category_translation (work s)),
    t_category := filter (\<lambda>c. cg_id c \<noteq> cid) (t_category (work s))\<rparr>"
  show "category_inv s'"
  proof (cases "get_category cid (work s) \<noteq> None \<and> \<not> has_children cid (work s) \<and> \<not> has_products cid (work s)")
    case True
    have tree: "tree_ok (t_category (work s))" using inv by (simp add: category_inv_def both_def categories_ok_def)
    have "path_ok (t_category ?d) c" if c: "c \<in> set (t_category (work s))" for c
    proof -
      have "cg_parent_id c \<noteq> Some cid" using True c by (auto simp: has_children_def)
      then show ?thesis using tree c
        by (auto simp: tree_ok_def list_all_iff path_ok_iff find_category_filter split: option.splits)
    qed
    then have "tree_ok (t_category ?d)" using tree by (auto simp: tree_ok_def list_all_iff distinct_map_filter)
    then have "category_inv (s\<lparr>work := ?d\<rparr>)"
      using inv by (intro category_inv_work) (simp_all add: category_inv_def both_def categories_ok_def distinct_map_filter)
    then have "category_inv (s\<lparr>work := ?d, committed := ?d\<rparr>)" by (simp add: category_inv_def both_def)
    then show ?thesis using run True
      by (auto simp: delete_category_def admin_get_category_def bindM_app)
  next
    case False
    then have "s' = s"
      using run by (auto simp: delete_category_def admin_get_category_def bindM_app split: option.splits if_splits)
    with inv show ?thesis by simp
  qed
qed

end
