(* ===== verification/Cards_Follow.thy ===== *)
theory Cards_Follow
  imports Admin_Endpoints Categories_Correct Auth_Privacy
begin

text \<open>
  The read model follows the catalogue: whatever a product, variant, picture or attribute call of the
  back office does, and whether it succeeds or fails, in what it commits the cards of every product
  are the projection of its tables. Within a call only the cards of its own product are behind,
  and they are rebuilt before the commit.
\<close>

definition synced :: "db \<Rightarrow> bool" where
  "synced d \<longleftrightarrow> (\<forall>pid. in_sync pid d)"

definition synced_but :: "int \<Rightarrow> db \<Rightarrow> bool" where
  "synced_but pid d \<longleftrightarrow> (\<forall>j. j \<noteq> pid \<longrightarrow> in_sync j d)"

text \<open>
  The keys that matter: a picture and a variant have one row each, and the sequences are ahead.
\<close>

definition keys_ok :: "db \<Rightarrow> bool" where
  "keys_ok d \<longleftrightarrow> distinct (map md_id (t_media d)) \<and> distinct (map v_id (t_variant d))"

definition keys_below :: "(table \<Rightarrow> int) \<Rightarrow> db \<Rightarrow> bool" where
  "keys_below seq d \<longleftrightarrow> (\<forall>p \<in> set (t_product d). p_id p < seq Product_T)
    \<and> (\<forall>v \<in> set (t_variant d). v_id v < seq Variant_T) \<and> (\<forall>m \<in> set (t_media d). md_id m < seq Media_T)"

definition office_keys :: "session \<Rightarrow> bool" where
  "office_keys s \<longleftrightarrow> both keys_ok s \<and> both (keys_below (pk_seq s)) s"

definition held :: "int \<Rightarrow> session \<Rightarrow> bool" where
  "held pid s \<longleftrightarrow> office_keys s \<and> synced (committed s) \<and> synced_but pid (work s)"

subsection \<open>What the cards of a product depend on\<close>

definition same_view :: "int \<Rightarrow> db \<Rightarrow> db \<Rightarrow> bool" where
  "same_view j d d' \<longleftrightarrow> cards_of j d' = cards_of j d \<and> get_product j d' = get_product j d
    \<and> active_variants j d' = active_variants j d \<and> get_main_image_url j d' = get_main_image_url j d
    \<and> get_product_translations j d' = get_product_translations j d \<and> t_category d' = t_category d"

lemma same_view_in_sync:
  assumes "same_view j d d'"
  shows "in_sync j d' \<longleftrightarrow> in_sync j d"
proof -
  have "get_variant_aggregate j d' = get_variant_aggregate j d" "card_path p d' = card_path p d" for p
    using assms by (simp_all add: same_view_def get_variant_aggregate_def card_path_def get_category_def)
  then have "projection j d' = projection j d" using assms by (simp add: same_view_def projection_def split: option.split)
  then show ?thesis using assms by (simp add: same_view_def in_sync_def)
qed

lemmas view_defs = same_view_def cards_of_def get_product_def active_variants_def get_main_image_url_def
  get_product_media_def get_product_translations_def

text \<open>No row of the three tables is new.\<close>

definition no_new_keys :: "db \<Rightarrow> db \<Rightarrow> bool" where
  "no_new_keys d d' \<longleftrightarrow> set (map p_id (t_product d')) \<subseteq> set (map p_id (t_product d))
    \<and> set (map v_id (t_variant d')) \<subseteq> set (map v_id (t_variant d)) \<and> set (map md_id (t_media d')) \<subseteq> set (map md_id (t_media d))
    \<and> (keys_ok d \<longrightarrow> keys_ok d')"

lemma keys_below_iff: "keys_below seq d \<longleftrightarrow> (\<forall>i \<in> set (map p_id (t_product d)). i < seq Product_T)
    \<and> (\<forall>i \<in> set (map v_id (t_variant d)). i < seq Variant_T) \<and> (\<forall>i \<in> set (map md_id (t_media d)). i < seq Media_T)"
  by (simp add: keys_below_def)

lemma no_new_keys_below: "no_new_keys d d' \<Longrightarrow> keys_below seq d \<Longrightarrow> keys_below seq d'"
  unfolding keys_below_iff no_new_keys_def by blast

lemma office_keys_writes: "office_keys s \<Longrightarrow> no_new_keys (work s) d \<Longrightarrow> office_keys (s\<lparr>work := d\<rparr>)"
  using no_new_keys_below by (auto simp: office_keys_def both_def no_new_keys_def)

lemma heldI:
  assumes "held pid s" "no_new_keys (work s) d" "\<And>j. j \<noteq> pid \<Longrightarrow> same_view j (work s) d"
  shows "held pid (s\<lparr>work := d\<rparr>)"
  using assms(1) office_keys_writes [OF _ assms(2)] same_view_in_sync [OF assms(3)]
  by (simp add: held_def synced_but_def)

lemma held_writes:
  assumes "\<And>d. no_new_keys d (g d)" "\<And>d j. keys_ok d \<Longrightarrow> j \<noteq> pid \<Longrightarrow> same_view j d (g d)"
  shows "preserves (held pid) (writes g)"
proof (rule preserves_writes)
  fix s assume held: "held pid s"
  then have "keys_ok (work s)" by (simp add: held_def office_keys_def both_def)
  then show "held pid (s\<lparr>work := g (work s)\<rparr>)" by (intro heldI [OF held] assms)
qed

text \<open>Of the keys and the views, only the table of the cards and the tables of the call's product count.\<close>

lemma find_other:
  assumes "\<And>r. P r \<Longrightarrow> k (f r) = k r" "\<And>r. P r \<Longrightarrow> k r \<noteq> j"
  shows "find (\<lambda>r. k r = j) (upd P f rows) = find (\<lambda>r. k r = j) rows"
  by (induction rows) (auto simp: assms)

lemma filter_filter_other: "(\<And>r. Q r \<Longrightarrow> P r) \<Longrightarrow> filter Q (filter P rows) = filter Q rows"
  by (induction rows) auto

lemma find_filter_other: "(\<And>r. Q r \<Longrightarrow> P r) \<Longrightarrow> find Q (filter P rows) = find Q rows"
  by (induction rows) auto

lemma held_prims [pres]: "preserves (held pid) (enqueue env msg)" "preserves (held pid) (remote m)"
  by (rule preserves_enqueue, simp add: held_def office_keys_def both_def)
    (rule preservesI, simp add: held_def office_keys_def both_def remote_frame)

lemma keys_of_products [simp]: "map p_id (t_product (set_product p d)) = map p_id (t_product d)"
  unfolding set_product_def by (simp, rule map_upd_key) simp

lemma set_product_tables [simp]:
  "t_variant (set_product p d) = t_variant d" "t_media (set_product p d) = t_media d"
  "t_card (set_product p d) = t_card d" "t_category (set_product p d) = t_category d"
  "t_product_translation (set_product p d) = t_product_translation d"
  by (simp_all add: set_product_def)

lemma get_set_product_other: "j \<noteq> p_id p \<Longrightarrow> get_product j (set_product p d) = get_product j d"
  unfolding get_product_def set_product_def by (simp, rule find_other) auto

lemma view_set_product: "j \<noteq> p_id p \<Longrightarrow> same_view j d (set_product p d)"
  by (simp add: same_view_def get_set_product_other cards_of_def active_variants_def get_main_image_url_def
      get_product_media_def get_product_translations_def)

lemma held_set_product [pres]: "p_id p = pid \<Longrightarrow> preserves (held pid) (writes (set_product p))"
  by (rule held_writes) (auto simp: no_new_keys_def keys_ok_def view_set_product simp del: set_map)

subsection \<open>Rebuilding\<close>

lemma held_rebuild [pres]: "preserves (held pid) (rebuild_and_commit env pid)"
proof (rule preservesI)
  fix s r s' assume held: "held pid s" and run: "rebuild_and_commit env pid s = (r, s')"
  obtain x s1 where rebuild: "rebuild_card env pid s = (x, s1)" by (cases "rebuild_card env pid s")
  show "held pid s'"
  proof (cases x)
    case (Inl e)
    have s': "s' = s1" using run Inl rebuild by (simp add: rebuild_and_commit_def bindM_app)
    have "same_view j (work s) (without_cards pid (work s))" if "j \<noteq> pid" for j
      using that by (auto simp: view_defs without_cards_def filter_other)
    then have clean: "synced_but pid (without_cards pid (work s))"
      using held same_view_in_sync [THEN iffD2] unfolding held_def synced_but_def by blast
    have "office_keys (s\<lparr>work := without_cards pid (work s)\<rparr>)"
      using held by (simp add: held_def office_keys_def both_def keys_ok_def keys_below_def without_cards_def)
    then show ?thesis
      using rebuild held Inl clean unfolding s' rebuild_run Let_def
      by (auto simp: held_def split: option.splits if_splits sum.splits)
  next
    case (Inr n)
    note done_ = rebuild_in_sync [OF rebuild [unfolded Inr]]
    have keys: "office_keys s1"
      using rebuild Inr held unfolding rebuild_run Let_def held_def
      by (auto simp: office_keys_def both_def keys_ok_def keys_below_iff without_cards_def
          simp del: set_map split: option.splits if_splits sum.splits)
    have s': "s' = s1\<lparr>committed := work s1\<rparr>" using run Inr rebuild by (simp add: rebuild_and_commit_def bindM_app)
    have "in_sync j (work s1)" if "j \<noteq> pid" for j
    proof -
      have "same_view j (work s) (work s1)"
        using done_(4) [OF that] rebuild Inr unfolding rebuild_run Let_def
        by (auto simp: view_defs set_product_def without_cards_def split: option.splits if_splits sum.splits)
      then show ?thesis using held that by (simp add: held_def synced_but_def same_view_in_sync)
    qed
    with done_(1) have "synced (work s1)" unfolding synced_def by metis
    then show ?thesis using keys by (simp add: s' held_def synced_def synced_but_def office_keys_def both_def)
  qed
qed

lemma bind_product:
  "(\<And>p. p_id p = pid \<Longrightarrow> preserves I (f p)) \<Longrightarrow> preserves I (bindM (admin_get_product pid) f)"
  by (rule preservesI) (auto simp: admin_get_product_def bindM_app split: option.splits dest!: get_product_key intro: preservesD)

lemma admin_get_product_pres [pres]: "preserves I (admin_get_product pid)"
  unfolding admin_get_product_def by (intro pres)

lemma publish_check_pres [pres]: "preserves I (publish_check p)" "preserves I (publish_check_id pid)"
  unfolding publish_check_def publish_check_id_def by (intro pres)+

lemma own_media_pres [pres]: "preserves I (own_media pid mid)"
  unfolding own_media_def by (intro pres)

lemma admin_get_variant_pres [pres]: "preserves I (admin_get_variant vid)"
  unfolding admin_get_variant_def by (intro pres)

lemma code_free_pres [pres]: "preserves I (assert_variant_code_free code)"
  unfolding assert_variant_code_free_def by (intro pres)

lemma stamped_id [simp]: "p_id (stamped env p q) = p_id q"
  by (simp add: stamped_def)

lemma patched_product_id: "patched_product x p = Some q \<Longrightarrow> p_id q = p_id p"
  by (auto simp: patched_product_def split: option.splits)

subsection \<open>The calls on one product\<close>

subsection \<open>The calls on one product\<close>

lemmas held_steps = preserves_ret preserves_throw preserves_reads preserves_readsE preserves_whenM preserves_forEach
  preserves_if preserves_case_option preserves_Let preserves_case_prod preserves_bindM held_prims held_rebuild
  admin_get_product_pres publish_check_pres own_media_pres admin_get_variant_pres code_free_pres admin_get_category_pres

lemma held_update_product: "preserves (held pid) (update_product env pid x)"
proof -
  have new: "preserves (held pid) (writes (set_product (stamped env p q)))"
    if "p_id p = pid" "patched_product x p = Some q" for p q
    using that patched_product_id by (auto intro!: held_set_product)
  show ?thesis unfolding update_product_def notify_if_restocked_def
    by (rule bind_product, rule preserves_bindM, intro held_steps, rule preserves_bind_liftE, rule preserves_bindM,
      rule preserves_readsE, rule preserves_bindM, rule new, assumption, simp) (intro held_steps)+
qed

lemma synced_but_view: "synced_but pid d \<Longrightarrow> (\<And>j. j \<noteq> pid \<Longrightarrow> same_view j d d') \<Longrightarrow> synced_but pid d'"
  unfolding synced_but_def using same_view_in_sync by blast

lemma no_new_keys_same:
  "t_product d' = t_product d \<Longrightarrow> t_variant d' = t_variant d \<Longrightarrow> map md_id (t_media d') = map md_id (t_media d) \<Longrightarrow> no_new_keys d d'"
  by (simp add: no_new_keys_def keys_ok_def)

lemma no_new_keys_filter:
  assumes "t_product d' = filter P (t_product d)" "t_variant d' = filter Q (t_variant d)"
    "map md_id (t_media d') = map md_id (filter R (t_media d))"
  shows "no_new_keys d d'"
  using assms(3) unfolding no_new_keys_def keys_ok_def assms(1,2,3) by (auto simp: distinct_map_filter)

lemma filter_ne_eq:
  "j \<noteq> i \<Longrightarrow> filter (\<lambda>x. k x \<noteq> i \<and> k x = j) rows = filter (\<lambda>x. k x = j) rows"
  "j \<noteq> i \<Longrightarrow> filter (\<lambda>x. k x \<noteq> i \<and> k x = j \<and> Q x) rows = filter (\<lambda>x. k x = j \<and> Q x) rows"
  "j \<noteq> i \<Longrightarrow> find (\<lambda>x. k x = j) (filter (\<lambda>x. k x \<noteq> i) rows) = find (\<lambda>x. k x = j) rows"
  by (induction rows) auto

lemma held_translation: "preserves (held pid) (set_product_translation env pid t)"
proof -
  have [pres]: "preserves (held pid) (writes (\<lambda>d. d\<lparr>t_product_translation :=
      (if found = None then t_product_translation d @ [product_translation_row pid t]
       else upd (\<lambda>x. pt_product_id x = pid \<and> pt_lang x = ptn_lang t) (\<lambda>_. product_translation_row pid t) (t_product_translation d))\<rparr>))" for found
    by (rule held_writes, simp add: no_new_keys_same) (auto simp: view_defs product_translation_row_def intro!: filter_upd_other)
  show ?thesis unfolding set_product_translation_def Let_def by (intro held_steps pres)
qed

text \<open>Moving a picture between the gallery and a variant keeps every first picture.\<close>

lemma insort_map: "(\<And>m. k (g m) = k m) \<Longrightarrow> insort_key k (g x) (map g ys) = map g (insort_key k x ys)"
  by (induction ys) auto

lemma sort_map: "(\<And>m. k (g m) = k m) \<Longrightarrow> sort_key k (map g ys) = map g (sort_key k ys)"
  by (induction ys) (auto simp: insort_map)

lemma media_upd:
  assumes "\<And>m. P m \<Longrightarrow> md_id (f m) = md_id m \<and> md_product_id (f m) = md_product_id m \<and> md_url (f m) = md_url m \<and> md_position (f m) = md_position m"
    and "t_media d' = upd P f (t_media d)"
  shows "get_main_image_url j d' = get_main_image_url j d"
proof -
  let ?f = "\<lambda>m. if P m then f m else m"
  have "filter (\<lambda>m. md_product_id m = j) (upd P f rows) = map ?f (filter (\<lambda>m. md_product_id m = j) rows)" for rows
    by (induction rows) (use assms in auto)
  moreover have "sort_key (\<lambda>m. (md_position m, md_id m)) (map ?f rows) = map ?f (sort_key (\<lambda>m. (md_position m, md_id m)) rows)" for rows
    by (rule sort_map) (use assms in auto)
  ultimately show ?thesis
    using assms by (simp add: get_main_image_url_def get_product_media_def split: list.split)
qed


lemma held_bind_media: "preserves (held pid) (bind_media_to_variant env pid mid vid)"
proof -
  have [pres]: "preserves (held pid) (writes (\<lambda>d. d\<lparr>t_media := upd (\<lambda>x. md_id x = mid) (\<lambda>x. x\<lparr>md_variant_id := vid\<rparr>) (t_media d)\<rparr>))"
  proof (rule held_writes)
    show "no_new_keys d (d\<lparr>t_media := upd (\<lambda>x. md_id x = mid) (\<lambda>x. x\<lparr>md_variant_id := vid\<rparr>) (t_media d)\<rparr>)" for d
      by (rule no_new_keys_same) (simp_all add: map_upd_key)
    show "same_view j d (d\<lparr>t_media := upd (\<lambda>x. md_id x = mid) (\<lambda>x. x\<lparr>md_variant_id := vid\<rparr>) (t_media d)\<rparr>)" for d j
      unfolding same_view_def
      by (subst media_upd [of "\<lambda>x. md_id x = mid" "\<lambda>x. x\<lparr>md_variant_id := vid\<rparr>" _ d]) (simp_all add: view_defs)
  qed
  show ?thesis unfolding bind_media_to_variant_def by (intro held_steps pres)
qed

lemma held_mark: "preserves (held pid) (mark_variable env pid b)"
  unfolding mark_variable_def
proof (rule held_writes)
  let ?g = "\<lambda>d. case get_product pid d of None \<Rightarrow> d | Some p \<Rightarrow> set_product (stamped env p (p\<lparr>p_has_variants := b\<rparr>)) d"
  show "no_new_keys d (?g d)" for d
    by (simp add: no_new_keys_def keys_ok_def del: set_map split: option.split)
  show "same_view j d (?g d)" if "j \<noteq> pid" for d j
    using that by (auto simp: same_view_def [of j d d] dest!: get_product_key intro!: view_set_product split: option.split)
qed

lemma held_variation_attributes: "preserves (held pid) (set_variation_attributes env pid ids)"
proof -
  have [pres]: "preserves (held pid) (writes (\<lambda>d. d\<lparr>t_product_variation_attribute := g d\<rparr>))" for g
    by (rule held_writes, simp add: no_new_keys_same) (simp add: view_defs)
  show ?thesis unfolding set_variation_attributes_def Let_def by (intro held_steps held_mark pres)
qed

lemma held_insert_variant:
  assumes "\<And>i. v_id (mk i) = i" "\<And>i. v_product_id (mk i) = pid" "\<And>i. preserves (held pid) (k i)"
  shows "preserves (held pid) (bindM (next_id Variant_T) (\<lambda>i. bindM (insert_variant (mk i) xs) (\<lambda>_. k i)))"
proof (rule preservesI)
  fix s r s' assume held: "held pid s"
    and run: "bindM (next_id Variant_T) (\<lambda>i. bindM (insert_variant (mk i) xs) (\<lambda>_. k i)) s = (r, s')"
  let ?i = "pk_seq s Variant_T" and ?seq = "(pk_seq s)(Variant_T := pk_seq s Variant_T + 1)"
  let ?d = "\<lambda>d. d\<lparr>t_variant := t_variant d @ [mk ?i], t_product_variant_value := t_product_variant_value d
      @ map (\<lambda>x. \<lparr>pvv_variant_id = ?i, pvv_value_id = x\<rparr>) xs\<rparr>"
  have later: "held pid (s\<lparr>pk_seq := ?seq\<rparr>)"
    using held by (force simp: held_def office_keys_def both_def keys_below_def)
  have "?i \<notin> v_id ` set (t_variant (work s))"
    using held by (force simp: held_def office_keys_def both_def keys_below_def)
  moreover have "same_view j (work s) (?d (work s))" if "j \<noteq> pid" for j
    using that assms(2) by (simp add: view_defs)
  then have "synced_but pid (?d (work s))"
    using held same_view_in_sync [THEN iffD2] unfolding held_def synced_but_def by blast
  ultimately have new: "held pid (s\<lparr>pk_seq := ?seq, work := ?d (work s)\<rparr>)"
    using later assms(1) by (auto simp: held_def office_keys_def both_def keys_ok_def keys_below_def)
  show "held pid s'"
  proof (cases "v_code (mk ?i) = None \<or> list_all (\<lambda>x. v_code x \<noteq> v_code (mk ?i)) (t_variant (work s))")
    case True
    then have "k ?i (s\<lparr>pk_seq := ?seq, work := ?d (work s)\<rparr>) = (r, s')"
      using run assms(1) by (simp add: insert_variant_def bindM_app guardE_def)
    then show ?thesis by (rule preservesD [OF assms(3) _ new])
  next
    case False
    then show ?thesis using run later by (auto simp: insert_variant_def bindM_app guardE_def)
  qed
qed

lemma held_create_variant: "preserves (held pid) (create_variant env pid v)"
  unfolding create_variant_def Let_def by (intro held_insert_variant held_steps held_mark) simp_all

lemma held_fill_gaps: "p_id p = pid \<Longrightarrow> preserves (held pid) (fill_gaps p combos seen position)"
proof (induction p combos seen position rule: fill_gaps.induct)
  case (2 p combo rest seen position)
  show ?case
  proof (cases "set combo \<in> set seen")
    case True
    then show ?thesis using 2 by (auto intro!: held_steps)
  next
    case False
    then show ?thesis using 2(2-3) unfolding fill_gaps.simps Let_def if_not_P [OF False]
      by (intro held_insert_variant held_steps) simp_all
  qed
qed (simp add: preserves_ret)

lemma held_generate_variants: "preserves (held pid) (generate_variants env pid)"
  unfolding generate_variants_def
  by (rule bind_product) (intro held_steps held_fill_gaps held_mark, simp_all)


text \<open>A call that names a variant works on the product of that variant.\<close>

lemma bind_variant:
  "(\<And>v. v_id v = vid \<Longrightarrow> preserves I (f v)) \<Longrightarrow> preserves I (bindM (admin_get_variant vid) f)"
  by (rule preservesI) (auto simp: admin_get_variant_def bindM_app split: option.splits dest!: get_variant_key intro: preservesD)

text \<open>The state in which such a call has found its variant.\<close>

definition of_variant :: "variant \<Rightarrow> session \<Rightarrow> bool" where
  "of_variant v s \<longleftrightarrow> held (v_product_id v) s \<and> (\<forall>w \<in> set (t_variant (work s)). v_id w = v_id v \<longrightarrow> v_product_id w = v_product_id v)"

lemma found_of_variant:
  assumes "held (v_product_id v) s" "get_variant vid (work s) = Some v"
  shows "of_variant v s"
proof -
  have v: "v \<in> set (t_variant (work s))" using assms(2) by (auto simp: get_variant_def dest: find_SomeD)
  have "distinct (map v_id (t_variant (work s)))"
    using assms(1) by (simp add: held_def office_keys_def both_def keys_ok_def)
  then have "w = v" if "w \<in> set (t_variant (work s))" "v_id w = v_id v" for w
    using distinct_key_inj v that by metis
  then show ?thesis using assms(1) by (auto simp: of_variant_def)
qed

lemma of_variant_held: "preserves (held (v_product_id v)) m \<Longrightarrow> of_variant v s \<Longrightarrow> m s = (r, s') \<Longrightarrow> held (v_product_id v) s'"
  by (auto simp: of_variant_def dest: preservesD)

lemma patched_variant_ids: "patched_variant x v = Some w \<Longrightarrow> v_id w = v_id v \<and> v_product_id w = v_product_id v"
  by (auto simp: patched_variant_def split: option.splits)

lemma check_new_code_reads: "read_only (check_new_code x v)"
  unfolding check_new_code_def by (rule read_onlyI) (intro held_steps)

lemma held_update_variant:
  assumes run: "update_variant env vid x s = (r, s')" and held: "\<And>pid. held pid s"
  shows "\<exists>pid. held pid s'"
proof (cases "get_variant vid (work s)")
  case None
  then show ?thesis using run held by (auto simp: update_variant_def bindM_app admin_get_variant_def)
next
  case (Some v)
  let ?pid = "v_product_id v"
  have "v_id v = vid" using Some by (simp add: get_variant_key)
  note here = found_of_variant [OF held Some]
  have found: "admin_get_variant vid s = (Inr v, s)" by (simp add: admin_get_variant_def Some)
  define tail where "tail v' = bindM (publish_check_id ?pid) (\<lambda>_. bindM (rebuild_and_commit env ?pid) (\<lambda>_.
    bindM (enqueue env (Es_Index [?pid])) (\<lambda>_. ret v')))" for v' :: variant
  have tail: "preserves (held ?pid) (tail v')" for v' unfolding tail_def by (intro held_steps)
  obtain a where code: "check_new_code x v s = (a, s)"
    using check_new_code_reads by (metis prod.collapse read_only_def)
  show ?thesis
  proof (cases "\<exists>v'. a = Inr () \<and> patched_variant x v = Some v' \<and>
      (v_code v' = None \<or> list_all (\<lambda>y. v_id y = vid \<or> v_code y \<noteq> v_code v') (t_variant (work s)))")
    case True
    then obtain v' where a: "a = Inr ()" and new: "patched_variant x v = Some v'"
      and free: "v_code v' = None \<or> list_all (\<lambda>y. v_id y = vid \<or> v_code y \<noteq> v_code v') (t_variant (work s))" by blast
    have ids: "v_id v' = vid" "v_product_id v' = ?pid" using patched_variant_ids [OF new] \<open>v_id v = vid\<close> by simp_all
    let ?d = "(work s)\<lparr>t_variant := upd (\<lambda>y. v_id y = vid) (\<lambda>_. v') (t_variant (work s))\<rparr>"
    have "same_view j (work s) ?d" if "j \<noteq> ?pid" for j
      using here that ids \<open>v_id v = vid\<close> by (auto simp: view_defs of_variant_def intro!: filter_upd_other)
    moreover have "map v_id (upd (\<lambda>y. v_id y = vid) (\<lambda>_. v') rows) = map v_id rows" for rows
      by (rule map_upd_key) (simp add: ids)
    then have "no_new_keys (work s) ?d" by (simp add: no_new_keys_def keys_ok_def del: set_map)
    ultimately have "held ?pid (s\<lparr>work := ?d\<rparr>)"
      using here by (intro heldI) (simp_all add: of_variant_def)
    moreover have "tail v' (s\<lparr>work := ?d\<rparr>) = (r, s')"
      using run by (simp add: update_variant_def tail_def bindM_app found code a new free guardE_def)
    ultimately show ?thesis using preservesD [OF tail] by blast
  next
    case False
    have "s' = s"
      using run False
      by (cases a; cases "patched_variant x v") (auto simp: update_variant_def bindM_app found code guardE_def)
    then show ?thesis using held by blast
  qed
qed


lemma held_delete_variant:
  assumes run: "delete_variant env vid s = (r, s')" and held: "\<And>pid. held pid s"
  shows "\<exists>pid. held pid s'"
proof (cases "get_variant vid (work s)")
  case None
  then show ?thesis using run held by (auto simp: delete_variant_def bindM_app admin_get_variant_def)
next
  case (Some v)
  let ?pid = "v_product_id v" and ?d = "without_variant vid (work s)"
  have vid: "v_id v = vid" using Some by (simp add: get_variant_key)
  note here = found_of_variant [OF held Some]
  have found: "admin_get_variant vid s = (Inr v, s)" by (simp add: admin_get_variant_def Some)
  show ?thesis
  proof (cases "list_all (\<lambda>l. ci_variant_id l \<noteq> Some vid) (t_cart_item (work s))")
    case True
    let ?P = "\<lambda>m. md_variant_id m = Some vid" and ?f = "\<lambda>m. m\<lparr>md_variant_id := None\<rparr>"
    have media: "t_media ?d = upd ?P ?f (t_media (work s))" by (simp add: without_variant_def)
    have "same_view j (work s) ?d" if "j \<noteq> ?pid" for j
    proof -
      have "get_main_image_url j ?d = get_main_image_url j (work s)" by (rule media_upd [OF _ media]) simp
      moreover have "active_variants j ?d = active_variants j (work s)"
        using here that vid by (auto simp: active_variants_def without_variant_def of_variant_def intro!: filter_cong)
      ultimately show ?thesis
        by (simp add: same_view_def without_variant_def cards_of_def get_product_def get_product_translations_def)
    qed
    moreover have "map md_id (t_media ?d) = map md_id (t_media (work s))"
      unfolding media by (rule map_upd_key) simp
    then have "no_new_keys (work s) ?d"
      by (intro no_new_keys_filter [of _ "\<lambda>_. True" _ "\<lambda>v. v_id v \<noteq> vid" "\<lambda>_. True"]) (simp_all add: without_variant_def)
    ultimately have start: "held ?pid (s\<lparr>work := ?d\<rparr>)" using here by (intro heldI) (simp_all add: of_variant_def)
    let ?tail = "bindM (publish_check_id ?pid) (\<lambda>_. bindM (rebuild_and_commit env ?pid) (\<lambda>_. enqueue env (Es_Index [?pid])))"
    have "?tail (s\<lparr>work := ?d\<rparr>) = (r, s')"
      using run True by (simp add: delete_variant_def bindM_app [of "admin_get_variant vid"] bindM_app [of "readsE _"] found guardE_def)
    moreover have "preserves (held ?pid) ?tail" by (intro held_steps)
    ultimately have "held ?pid s'" using start by (metis preservesD)
    then show ?thesis ..
  next
    case False
    then show ?thesis using run held
      by (simp add: delete_variant_def bindM_app [of "admin_get_variant vid"] bindM_app [of "readsE _"] found guardE_def)
  qed
qed

subsection \<open>Deleting and creating products\<close>

lemma in_sync_absent: "get_product pid d = None \<Longrightarrow> cards_of pid d = [] \<Longrightarrow> in_sync pid d"
  by (simp add: in_sync_def projection_def)

lemma in_sync_inactive: "get_product pid d = Some p \<Longrightarrow> \<not> p_is_active p \<Longrightarrow> in_sync pid d \<longleftrightarrow> cards_of pid d = []"
  by (simp add: in_sync_def projection_def)

lemma held_commit: "held pid s \<Longrightarrow> in_sync pid (work s) \<Longrightarrow> held pid (s\<lparr>committed := work s\<rparr>)"
  by (simp add: held_def office_keys_def both_def synced_def synced_but_def) metis

lemma held_delete_product: "preserves (held pid) (delete_product env pid)"
proof (rule preservesI)
  fix s r s' assume held: "held pid s" and run: "delete_product env pid s = (r, s')"
  let ?d = "without_product pid (work s)"
  have sub: "no_new_keys (work s) ?d"
    by (rule no_new_keys_filter) (simp_all add: without_product_def Let_def)
  have "same_view j (work s) ?d" if "j \<noteq> pid" for j
    using that by (simp add: view_defs without_product_def Let_def filter_ne_eq)
  then have "held pid (s\<lparr>work := ?d\<rparr>)" using held sub by (intro heldI)
  moreover have "in_sync pid ?d"
    by (rule in_sync_absent) (auto simp: get_product_def cards_of_def without_product_def Let_def find_None_iff filter_empty_conv)
  ultimately have "held pid (s\<lparr>work := ?d, committed := ?d\<rparr>)" using held_commit [of pid "s\<lparr>work := ?d\<rparr>"] by simp
  moreover have "preserves (held pid) (enqueue env (Es_Delete [pid]))" by (intro held_steps)
  ultimately show "held pid s'"
    using run held
    by (cases "get_product pid (work s)"; cases "in_a_cart pid (variant_ids_of pid (work s)) (work s)")
      (auto simp: delete_product_def admin_get_product_def bindM_app guardE_def intro: preservesD)
qed


text \<open>
  A product row as the call has read it, with no card unless it is active: what a creation has before
  its commit, and what the picture calls rely on when they skip the rebuild.
\<close>

definition stands :: "product \<Rightarrow> session \<Rightarrow> bool" where
  "stands p s \<longleftrightarrow> held (p_id p) s \<and> get_product (p_id p) (work s) = Some p
    \<and> (p_is_active p \<or> cards_of (p_id p) (work s) = [])"

lemma stands_writes:
  assumes "\<And>s. stands p s \<Longrightarrow> no_new_keys (work s) (g (work s))"
    "\<And>s j. stands p s \<Longrightarrow> j \<noteq> p_id p \<Longrightarrow> same_view j (work s) (g (work s))"
    "\<And>d. t_product (g d) = t_product d" "\<And>d. t_card (g d) = t_card d"
  shows "preserves (stands p) (writes g)"
proof (rule preserves_writes)
  fix s assume s: "stands p s"
  have "held (p_id p) (s\<lparr>work := g (work s)\<rparr>)" using s assms(1,2) by (intro heldI) (auto simp: stands_def)
  then show "stands p (s\<lparr>work := g (work s)\<rparr>)" using s assms(3,4) by (simp add: stands_def get_product_def cards_of_def)
qed

lemma stands_prims: "preserves (stands p) (enqueue env msg)" "preserves (stands p) (remote m)"
  by (rule preserves_enqueue, simp add: stands_def held_def office_keys_def both_def)
    (rule preservesI, simp add: stands_def held_def office_keys_def both_def remote_frame)

lemma stands_commit: "stands p s \<Longrightarrow> \<not> p_is_active p \<Longrightarrow> held (p_id p) (s\<lparr>committed := work s\<rparr>)"
  by (rule held_commit) (auto simp: stands_def in_sync_inactive)

lemma stands_finish:
  assumes "stands p s" "rebuild_if_active env p s = (r, s')"
  shows "held (p_id p) s'"
proof (cases "p_is_active p")
  case True
  have "rebuild_and_commit env (p_id p) s = (r, s')"
    using assms(2) True by (auto simp: rebuild_if_active_def rebuild_and_commit_def bindM_app split: prod.splits sum.splits)
  then show ?thesis using preservesD [OF held_rebuild] assms(1) by (auto simp: stands_def)
next
  case False
  then show ?thesis using assms stands_commit by (auto simp: rebuild_if_active_def bindM_app)
qed

text \<open>Between two calls: the tables and the cards agree.\<close>

definition whole :: "session \<Rightarrow> bool" where
  "whole s \<longleftrightarrow> office_keys s \<and> both synced s"

lemma whole_held: "whole s \<Longrightarrow> held pid s"
  by (simp add: whole_def held_def both_def synced_def synced_but_def)

lemma whole_stands: "whole s \<Longrightarrow> get_product pid (work s) = Some p \<Longrightarrow> stands p s"
  using whole_held [of s] in_sync_inactive [of pid "work s" p]
  by (auto simp: stands_def whole_def both_def synced_def dest: get_product_key)

lemma held_create_product:
  assumes run: "create_product env p s = (r, s')" and whole: "whole s"
  shows "\<exists>pid. held pid s'"
proof (cases "get_category (pn_category_id p) (work s)")
  case None
  then show ?thesis using run whole_held [OF whole] by (auto simp: create_product_def bindM_app admin_get_category_def)
next
  case (Some cat)
  let ?i = "pk_seq s Product_T"
  let ?row = "product_row env ?i p"
  have row [simp]: "p_id ?row = ?i" "p_is_active ?row = pn_is_active p" by (simp_all add: product_row_def)
  let ?s = "s\<lparr>pk_seq := (pk_seq s)(Product_T := ?i + 1)\<rparr>"
  let ?d = "(work s)\<lparr>t_product := t_product (work s) @ [?row]\<rparr>"
  have fresh: "\<forall>x \<in> set (t_product (work s)). p_id x < ?i"
    using whole by (simp add: whole_def office_keys_def both_def keys_below_def)
  then have absent: "get_product ?i (work s) = None" by (auto simp: get_product_def find_None_iff)
  then have none: "cards_of ?i (work s) = []"
    using whole by (auto simp: whole_def both_def synced_def in_sync_def projection_def dest: spec [of _ ?i])
  have here: "get_product ?i ?d = Some ?row" using absent by (simp add: get_product_def find_append)
  have later: "held ?i ?s"
    using whole_held [OF whole, of ?i] by (force simp: held_def office_keys_def both_def keys_below_def)
  have "synced_but ?i ?d"
  proof (rule synced_but_view)
    show "synced_but ?i (work s)" using later by (simp add: held_def)
    show "same_view j (work s) ?d" if "j \<noteq> ?i" for j
      using that by (simp add: view_defs find_append split: option.split)
  qed
  moreover have "office_keys (?s\<lparr>work := ?d\<rparr>)"
  proof -
    have keys: "office_keys ?s" using later by (simp add: held_def)
    have "keys_ok ?d" using keys by (simp add: office_keys_def both_def keys_ok_def)
    moreover have "keys_below (pk_seq ?s) ?d" using keys by (simp add: office_keys_def both_def keys_below_def)
    ultimately show ?thesis using keys by (simp add: office_keys_def both_def)
  qed
  ultimately have start: "stands ?row (?s\<lparr>work := ?d\<rparr>)"
    using later none here by (simp add: stands_def held_def cards_of_def)
  have texts: "preserves (stands ?row) (forEach (pn_translations p) (add_product_translation ?i))"
    unfolding add_product_translation_def
    by (intro preserves_forEach preserves_bindM preserves_readsE stands_writes)
      (simp_all add: no_new_keys_same view_defs product_translation_row_def)
  obtain a s1 where written: "forEach (pn_translations p) (add_product_translation ?i) (?s\<lparr>work := ?d\<rparr>) = (a, s1)"
    by (cases "forEach (pn_translations p) (add_product_translation ?i) (?s\<lparr>work := ?d\<rparr>)")
  have s1: "stands ?row s1" using preservesD [OF texts written start] .
  let ?tail = "\<lambda>_::unit. bindM (admin_get_product ?i) (\<lambda>out. bindM (enqueue env (Es_Index [?i])) (\<lambda>_. ret out))"
  have tail: "preserves (held ?i) (?tail ())" by (intro held_steps)
  have active: "preserves (held ?i) (bindM (bindM (readsE (assert_publishable ?i)) (\<lambda>_. rebuild_and_commit env ?i)) ?tail)"
    by (intro held_steps)
  show ?thesis
  proof (cases "code_free ?i (pn_code p) (work s)")
    case False
    then show ?thesis
      using run Some later by (auto simp: create_product_def bindM_app admin_get_category_def guardE_def)
  next
    case True
    have found: "admin_get_category (pn_category_id p) s = (Inr cat, s)" by (simp add: admin_get_category_def Some)
    have body: "(case (a, s1) of (Inl e, s') \<Rightarrow> (Inl e, s') | (Inr x, s') \<Rightarrow>
        bindM (if pn_is_active p then bindM (readsE (assert_publishable ?i)) (\<lambda>_. rebuild_and_commit env ?i) else commit) ?tail s') = (r, s')"
      using run written True by (simp add: create_product_def found guardE_def
          bindM_app [of "admin_get_category (pn_category_id p)"]
          bindM_app [of "readsE F" for F]
          bindM_app [of "forEach (pn_translations p) (add_product_translation ?i)"])
    show ?thesis
    proof (cases a)
      case (Inl e)
      then show ?thesis using body s1 by (auto simp: stands_def)
    next
      case (Inr u)
      show ?thesis
      proof (cases "pn_is_active p")
        case True
        then show ?thesis using body Inr s1 preservesD [OF active, of s1 r s'] by (auto simp: stands_def)
      next
        case False
        then show ?thesis using body Inr stands_commit [OF s1] preservesD [OF tail, of "s1\<lparr>committed := work s1\<rparr>" r s'] by auto
      qed
    qed
  qed
qed


subsection \<open>Pictures\<close>

lemma bind_whole_product:
  assumes "whole s" "bindM (admin_get_product pid) f s = (r, s')"
    and "\<And>p. get_product pid (work s) = Some p \<Longrightarrow> p_id p = pid \<Longrightarrow> stands p s \<Longrightarrow> f p s = (r, s') \<Longrightarrow> held pid s'"
  shows "held pid s'"
proof (cases "get_product pid (work s)")
  case None
  then show ?thesis using assms(1,2) whole_held by (simp add: bindM_app admin_get_product_def)
next
  case (Some p)
  then show ?thesis using assms(3) [OF Some] whole_stands [OF assms(1) Some] assms(2) get_product_key [OF Some]
    by (simp add: bindM_app admin_get_product_def)
qed

text \<open>The shape of a picture call: some steps that leave the product alone, then the rebuild.\<close>

lemma stands_then_finish:
  assumes "stands p s" "preserves (stands p) m" "\<And>x. preserves (held (p_id p)) (k x)"
    and "bindM m (\<lambda>x. bindM (rebuild_if_active env p) (\<lambda>_. k x)) s = (r, s')"
  shows "held (p_id p) s'"
proof (cases "m s")
  case (Pair a s1)
  have s1: "stands p s1" using preservesD [OF assms(2) Pair assms(1)] .
  show ?thesis
  proof (cases a)
    case (Inl e)
    then show ?thesis using assms(4) Pair s1 by (auto simp: bindM_app stands_def)
  next
    case (Inr x)
    obtain b s2 where built: "rebuild_if_active env p s1 = (b, s2)" by (cases "rebuild_if_active env p s1")
    have "held (p_id p) s2" using stands_finish [OF s1 built] .
    then show ?thesis using assms(4) Pair Inr built preservesD [OF assms(3) [of x], of s2 r s']
      by (cases b) (simp_all add: bindM_app)
  qed
qed

lemma stands_insert_media:
  assumes "\<And>i. md_id (mk i) = i" "\<And>i. md_product_id (mk i) = p_id p" "\<And>i. preserves (stands p) (k i)"
  shows "preserves (stands p) (bindM (next_id Media_T) (\<lambda>i. bindM (writes (\<lambda>d. d\<lparr>t_media := t_media d @ [mk i]\<rparr>)) (\<lambda>_. k i)))"
proof (rule preservesI)
  fix s r s' assume s: "stands p s"
    and run: "bindM (next_id Media_T) (\<lambda>i. bindM (writes (\<lambda>d. d\<lparr>t_media := t_media d @ [mk i]\<rparr>)) (\<lambda>_. k i)) s = (r, s')"
  let ?i = "pk_seq s Media_T"
  let ?s = "s\<lparr>pk_seq := (pk_seq s)(Media_T := ?i + 1)\<rparr>"
  let ?d = "(work s)\<lparr>t_media := t_media (work s) @ [mk ?i]\<rparr>"
  have keys: "office_keys s" using s by (simp add: stands_def held_def)
  then have fresh: "?i \<notin> md_id ` set (t_media (work s))" by (force simp: office_keys_def both_def keys_below_def)
  have "keys_ok ?d" using keys fresh assms(1) by (simp add: office_keys_def both_def keys_ok_def)
  moreover have "keys_below (pk_seq ?s) ?d" using keys assms(1) by (auto simp: office_keys_def both_def keys_below_def)
  moreover have "keys_below (pk_seq ?s) (committed s)" using keys by (force simp: office_keys_def both_def keys_below_def)
  ultimately have "office_keys (?s\<lparr>work := ?d\<rparr>)" using keys by (simp add: office_keys_def both_def)
  moreover have "synced_but (p_id p) ?d"
  proof (rule synced_but_view)
    show "synced_but (p_id p) (work s)" using s by (simp add: stands_def held_def)
    show "same_view j (work s) ?d" if "j \<noteq> p_id p" for j using that assms(2) by (simp add: view_defs)
  qed
  ultimately have "stands p (?s\<lparr>work := ?d\<rparr>)" using s by (simp add: stands_def held_def get_product_def cards_of_def)
  moreover have "k ?i (?s\<lparr>work := ?d\<rparr>) = (r, s')" using run by simp
  ultimately show "stands p s'" using preservesD [OF assms(3)] by blast
qed

lemma held_add_media:
  assumes "add_product_media env pid f s = (r, s')" "whole s"
  shows "held pid s'"
  using assms(1) unfolding add_product_media_def
proof (rule bind_whole_product [OF assms(2)])
  fix p assume p: "p_id p = pid" "stands p s"
    and run: "(if \<not> is_allowed_image f then throw (AdminValidationError ''kind'')
      else if (case uf_size f of None \<Rightarrow> False | Some n \<Rightarrow> n > MAX_UPLOAD_BYTES) then throw (AdminValidationError ''size'')
      else bindM (remote (store_upload env (AdminValidationError ''picture'') f)) (\<lambda>url.
        bindM (reads (next_media_position pid)) (\<lambda>position. bindM (next_id Media_T) (\<lambda>i.
        let m = \<lparr>md_id = i, md_product_id = pid, md_variant_id = None, md_url = url, md_position = position\<rparr> in
        bindM (writes (\<lambda>d. d\<lparr>t_media := t_media d @ [m]\<rparr>)) (\<lambda>_.
        bindM (rebuild_if_active env p) (\<lambda>_. ret m)))))) s = (r, s')"
  let ?m = "bindM (remote (store_upload env (AdminValidationError ''picture'') f)) (\<lambda>url.
      bindM (reads (next_media_position pid)) (\<lambda>position. bindM (next_id Media_T) (\<lambda>i.
      bindM (writes (\<lambda>d. d\<lparr>t_media := t_media d
        @ [\<lparr>md_id = i, md_product_id = pid, md_variant_id = None, md_url = url, md_position = position\<rparr>]\<rparr>)) (\<lambda>_.
      ret \<lparr>md_id = i, md_product_id = pid, md_variant_id = None, md_url = url, md_position = position\<rparr>))))"
  have m: "preserves (stands p) ?m"
    by (intro preserves_bindM stands_prims preserves_reads stands_insert_media) (simp_all add: p preserves_ret)
  show "held pid s'"
  proof (cases "is_allowed_image f \<and> \<not> (case uf_size f of None \<Rightarrow> False | Some n \<Rightarrow> n > MAX_UPLOAD_BYTES)")
    case True
    then have "bindM ?m (\<lambda>x. bindM (rebuild_if_active env p) (\<lambda>_. ret x)) s = (r, s')"
      using run by (simp add: bindM_assoc Let_def)
    then have "held (p_id p) s'" by (rule stands_then_finish [OF p(2) m, rotated]) (rule preserves_ret)
    then show ?thesis by (simp add: p(1))
  next
    case False
    then show ?thesis using run whole_held [OF assms(2)] by (auto split: if_splits)
  qed
qed


lemma held_delete_media:
  assumes "delete_product_media env pid mid s = (r, s')" "whole s"
  shows "held pid s'"
  using assms(1) unfolding delete_product_media_def
proof (rule bind_whole_product [OF assms(2)])
  let ?k = "\<lambda>m. catchM (remote (bindM (liftE (get_storage (env_cfg env))) (\<lambda>b. storage_delete env b (md_url m)))) (\<lambda>_. True) (\<lambda>_. ret ())"
  fix p assume p: "p_id p = pid" "stands p s"
    and run: "bindM (own_media pid mid) (\<lambda>m. bindM (writes (\<lambda>d. d\<lparr>t_media := filter (\<lambda>x. md_id x \<noteq> mid) (t_media d)\<rparr>)) (\<lambda>_.
      bindM (rebuild_if_active env p) (\<lambda>_. ?k m))) s = (r, s')"
  let ?m = "bindM (own_media pid mid) (\<lambda>m. bindM (writes (\<lambda>d. d\<lparr>t_media := filter (\<lambda>x. md_id x \<noteq> mid) (t_media d)\<rparr>)) (\<lambda>_. ret m))"
  show "held pid s'"
  proof (cases "own_media pid mid s")
    case (Pair a s1)
    have s1: "s1 = s" using Pair by (auto simp: own_media_def bindM_app split: option.splits if_splits)
    show ?thesis
    proof (cases a)
      case (Inl e)
      then show ?thesis using run Pair s1 whole_held [OF assms(2)] by (simp add: bindM_app)
    next
      case (Inr m)
      then have m: "m \<in> set (t_media (work s))" "md_id m = mid" "md_product_id m = pid"
        using Pair by (auto simp: own_media_def get_media_def bindM_app dest!: find_SomeD split: option.splits if_splits)
      let ?d = "(work s)\<lparr>t_media := filter (\<lambda>x. md_id x \<noteq> mid) (t_media (work s))\<rparr>"
      have "same_view j (work s) ?d" if "j \<noteq> pid" for j
      proof -
        have dist: "distinct (map md_id (t_media (work s)))"
          using p(2) by (simp add: stands_def held_def office_keys_def both_def keys_ok_def)
        have "x = m" if "x \<in> set (t_media (work s))" "md_id x = mid" for x
          using distinct_key_inj [OF dist that(1) m(1)] that(2) m(2) by simp
        then have "filter (\<lambda>x. md_id x \<noteq> mid \<and> md_product_id x = j) (t_media (work s)) = filter (\<lambda>x. md_product_id x = j) (t_media (work s))"
          using m(3) that by (intro filter_cong) auto
        then show ?thesis by (simp add: view_defs)
      qed
      moreover have "no_new_keys (work s) ?d"
        by (rule no_new_keys_filter [of _ "\<lambda>_. True" _ "\<lambda>_. True"]) simp_all
      ultimately have "held pid (s\<lparr>work := ?d\<rparr>)" using p by (intro heldI) (simp_all add: stands_def)
      then have st: "stands p (s\<lparr>work := ?d\<rparr>)" using p by (simp add: stands_def get_product_def cards_of_def)
      have fin: "bindM (ret m) (\<lambda>m. bindM (rebuild_if_active env p) (\<lambda>_. ?k m)) (s\<lparr>work := ?d\<rparr>) = (r, s')"
        using run Pair s1 Inr by (simp add: bindM_app [of "own_media pid mid"])
      have "held (p_id p) s'"
        by (rule stands_then_finish [OF st preserves_ret _ fin]) (intro preserves_ret preserves_catchM held_prims)
      then show ?thesis by (simp add: p(1))
    qed
  qed
qed


text \<open>A new order of the pictures of one product touches the pictures of no other.\<close>

lemma held_reorder_media:
  assumes "reorder_product_media env pid ids s = (r, s')" "whole s"
  shows "held pid s'"
  using assms(1) unfolding reorder_product_media_def
proof (rule bind_whole_product [OF assms(2)])
  let ?set = "\<lambda>d. d\<lparr>t_media := upd (\<lambda>m. md_id m \<in> set ids) (\<lambda>m. m\<lparr>md_position := position_of (md_id m) ids\<rparr>) (t_media d)\<rparr>"
  fix p assume p: "p_id p = pid" "stands p s"
    and run: "bindM (reads (get_product_media pid)) (\<lambda>current.
      bindM (whenM (set ids \<noteq> md_id ` set current \<or> length ids \<noteq> length current) (throw (AdminValidationError ''permutation''))) (\<lambda>_.
      bindM (writes ?set) (\<lambda>_. bindM (rebuild_if_active env p) (\<lambda>_. reads (get_product_media pid))))) s = (r, s')"
  show "held pid s'"
  proof (cases "set ids = md_id ` set (get_product_media pid (work s)) \<and> length ids = length (get_product_media pid (work s))")
    case True
    let ?d = "?set (work s)"
    have dist: "distinct (map md_id (t_media (work s)))"
      using p(2) by (simp add: stands_def held_def office_keys_def both_def keys_ok_def)
    have own: "md_product_id m = pid" if m: "m \<in> set (t_media (work s))" "md_id m \<in> set ids" for m
    proof -
      obtain x where "x \<in> set (t_media (work s))" "md_product_id x = pid" "md_id x = md_id m"
        using m(2) True by (auto simp: get_product_media_def)
      then show ?thesis using distinct_key_inj [OF dist _ m(1)] by metis
    qed
    have "same_view j (work s) ?d" if "j \<noteq> pid" for j
      using that own by (auto simp: view_defs intro!: arg_cong [where f = "case_list _ _"] arg_cong [where f = "sort_key _"] filter_upd_other)
    moreover have "map md_id (t_media ?d) = map md_id (t_media (work s))" by (simp add: map_upd_key)
    ultimately have "held pid (s\<lparr>work := ?d\<rparr>)"
      using p by (intro heldI no_new_keys_same) (simp_all add: stands_def)
    then have st: "stands p (s\<lparr>work := ?d\<rparr>)" using p by (simp add: stands_def get_product_def cards_of_def)
    have fin: "bindM (ret ()) (\<lambda>_. bindM (rebuild_if_active env p) (\<lambda>_. reads (get_product_media pid))) (s\<lparr>work := ?d\<rparr>) = (r, s')"
      using run True by (simp add: bindM_app [of "whenM B M" for B M])
    have "held (p_id p) s'"
      by (rule stands_then_finish [OF st preserves_ret _ fin]) (rule preserves_reads)
    then show ?thesis by (simp add: p(1))
  next
    case False
    then show ?thesis using run whole_held [OF assms(2)] by (auto simp: bindM_app)
  qed
qed

subsection \<open>Attributes\<close>

lemma whole_writes:
  assumes "\<And>d. t_product (g d) = t_product d" "\<And>d. t_variant (g d) = t_variant d" "\<And>d. t_media (g d) = t_media d"
    "\<And>d. t_card (g d) = t_card d" "\<And>d. t_category (g d) = t_category d" "\<And>d. t_product_translation (g d) = t_product_translation d"
  shows "preserves whole (writes g)"
proof (rule preserves_writes)
  fix s assume s: "whole s"
  have "same_view j (work s) (g (work s))" for j by (simp add: view_defs assms)
  then have "synced (g (work s))" using s same_view_in_sync [of _ "work s" "g (work s)"] by (simp add: whole_def both_def synced_def)
  moreover have "office_keys (s\<lparr>work := g (work s)\<rparr>)"
    using s by (intro office_keys_writes no_new_keys_same) (simp_all add: assms whole_def)
  ultimately show "whole (s\<lparr>work := g (work s)\<rparr>)" using s by (simp add: whole_def both_def)
qed

lemma whole_prims: "preserves whole commit" "preserves whole (enqueue env msg)"
    "t \<notin> {Product_T, Variant_T, Media_T} \<Longrightarrow> preserves whole (next_id t)"
  by (rule preserves_commit, simp add: whole_def office_keys_def both_def)
    (rule preserves_enqueue, simp add: whole_def office_keys_def both_def,
     rule preserves_next_id, auto simp: whole_def office_keys_def both_def keys_below_def)

lemma attribute_calls_whole:
  "preserves whole (set_product_attributes env pid ids)" "preserves whole (create_attribute a)"
  "preserves whole (update_attribute aid code names)" "preserves whole (delete_attribute aid)"
  "preserves whole (create_attribute_value aid ts)" "preserves whole (update_attribute_value vid us)"
  "preserves whole (delete_attribute_value vid)"
  unfolding set_product_attributes_def create_attribute_def update_attribute_def delete_attribute_def
    create_attribute_value_def update_attribute_value_def delete_attribute_value_def add_attribute_names_def
    add_value_names_def admin_get_attribute_def admin_get_value_def without_values_def Let_def
  by (intro held_steps whole_prims whole_writes; simp)+

end
