(* ===== verification/Variants_Correct.thy ===== *)
theory Variants_Correct
  imports Admin_Endpoints
begin

text \<open>
  Generating the variants of a product: the combinations that exist, as sets of values, and the loop
  that creates the others.
\<close>

subsection \<open>Combinations\<close>

definition values_of :: "int \<Rightarrow> db \<Rightarrow> int set" where
  "values_of vid d = pvv_value_id ` {x \<in> set (t_product_variant_value d). pvv_variant_id x = vid}"

definition combinations :: "int \<Rightarrow> db \<Rightarrow> int set set" where
  "combinations pid d = (\<lambda>v. values_of (v_id v) d) ` {v \<in> set (t_variant d). v_product_id v = pid} - {{}}"

text \<open>The links are to variants that exist: the next variant has none yet.\<close>

definition links_below :: "session \<Rightarrow> bool" where
  "links_below s \<longleftrightarrow> (\<forall>v \<in> set (t_variant (work s)). v_id v < pk_seq s Variant_T)
    \<and> (\<forall>x \<in> set (t_product_variant_value (work s)). pvv_variant_id x < pk_seq s Variant_T)"

lemma group_into_iff:
  "(\<exists>h0. (i, h0, xs) \<in> set (group_into k h v rows)) \<longleftrightarrow> i \<in> k ` set rows \<and> xs = map v (filter (\<lambda>r. k r = i) rows)"
proof (induction rows)
  case (Cons r rows)
  show ?case
  proof (cases "i = k r")
    case True
    then show ?thesis by auto
  next
    case False
    then have "(\<exists>h0. (i, h0, xs) \<in> set (group_into k h v (r # rows))) \<longleftrightarrow> (\<exists>h0. (i, h0, xs) \<in> set (group_into k h v rows))"
      by auto
    then show ?thesis using Cons False by auto
  qed
qed simp

lemma existing_combinations:
  "(\<lambda>(_, xs). set xs) ` set (get_variant_value_ids_map ids d) = (\<lambda>i. values_of i d) ` set ids - {{}}"
proof -
  let ?rows = "sort_key (\<lambda>x. (pvv_variant_id x, pvv_value_id x)) (filter (\<lambda>x. pvv_variant_id x \<in> set ids) (t_product_variant_value d))"
  have mem: "(i, xs) \<in> set (get_variant_value_ids_map ids d) \<longleftrightarrow>
      i \<in> pvv_variant_id ` set ?rows \<and> xs = map pvv_value_id (filter (\<lambda>r. pvv_variant_id r = i) ?rows)" for i xs
    unfolding get_variant_value_ids_map_def
    using group_into_iff [of i xs pvv_variant_id "\<lambda>_. ()" pvv_value_id ?rows] by force
  have vals: "set (map pvv_value_id (filter (\<lambda>r. pvv_variant_id r = i) ?rows)) = (if i \<in> set ids then values_of i d else {})" for i
    by (auto simp: values_of_def)
  have keys: "i \<in> pvv_variant_id ` set ?rows \<longleftrightarrow> i \<in> set ids \<and> values_of i d \<noteq> {}" for i
    by (auto simp: values_of_def)
  show ?thesis
  proof (intro set_eqI iffI)
    fix c assume "c \<in> (\<lambda>(_, xs). set xs) ` set (get_variant_value_ids_map ids d)"
    then obtain i xs where "(i, xs) \<in> set (get_variant_value_ids_map ids d)" "c = set xs" by auto
    then show "c \<in> (\<lambda>i. values_of i d) ` set ids - {{}}" unfolding mem keys using vals [of i] by auto
  next
    fix c assume "c \<in> (\<lambda>i. values_of i d) ` set ids - {{}}"
    then obtain i where i: "i \<in> set ids" "c = values_of i d" "values_of i d \<noteq> {}" by auto
    let ?xs = "map pvv_value_id (filter (\<lambda>r. pvv_variant_id r = i) ?rows)"
    have "(i, ?xs) \<in> set (get_variant_value_ids_map ids d)" unfolding mem keys using i by simp
    moreover have "set ?xs = c" unfolding vals using i by simp
    ultimately show "c \<in> (\<lambda>(_, xs). set xs) ` set (get_variant_value_ids_map ids d)"
      by (intro image_eqI [of _ _ "(i, ?xs)"]) (simp only: prod.case, assumption)
  qed
qed

lemma product_combinations:
  "(\<lambda>(_, xs). set xs) ` set (get_variant_value_ids_map (map v_id (all_variants pid d)) d) = combinations pid d"
  unfolding existing_combinations combinations_def by (auto simp: all_variants_def image_image)

lemma seen_combinations:
  "set (map (\<lambda>(_, xs). set xs) (get_variant_value_ids_map (map v_id (all_variants pid d)) d)) = combinations pid d"
  by (simp only: set_map product_combinations)

lemma combo_exists_iff: "combo_exists pid c d \<longleftrightarrow> c \<in> combinations pid d"
  unfolding product_combinations [symmetric] combo_exists_def list_ex_iff image_iff split_beta by (simp add: eq_commute)

subsection \<open>The loop\<close>

fun gaps :: "int set list \<Rightarrow> int list list \<Rightarrow> int list list" where
  "gaps seen [] = []"
| "gaps seen (c # cs) = (if set c \<in> set seen then gaps seen cs else c # gaps (set c # seen) cs)"

lemma gaps_cover: "c \<in> set cs \<Longrightarrow> set c \<in> set seen \<or> set c \<in> set ` set (gaps seen cs)"
  by (induction seen cs rule: gaps.induct) auto

lemma gaps_new: "c \<in> set (gaps seen cs) \<Longrightarrow> c \<in> set cs \<and> set c \<notin> set seen"
  by (induction seen cs rule: gaps.induct) (auto split: if_splits)

lemma gaps_once: "distinct (map set (gaps seen cs))"
  by (induction seen cs rule: gaps.induct) (auto dest: gaps_new)

lemma length_gaps: "length (gaps seen cs) \<le> length cs"
  by (induction seen cs rule: gaps.induct) auto

lemma no_gaps: "(\<And>c. c \<in> set cs \<Longrightarrow> set c \<in> set seen) \<Longrightarrow> gaps seen cs = []"
  by (induction seen cs rule: gaps.induct) auto

definition new_variant :: "product \<Rightarrow> int \<Rightarrow> int \<Rightarrow> variant" where
  "new_variant p i position = \<lparr>v_id = i, v_product_id = p_id p, v_code = None, v_price = p_price p, v_old_price = None, v_qty = 0,
     v_position = position, v_is_active = True, v_weight_g = None\<rparr>"

fun created_rows :: "product \<Rightarrow> int \<Rightarrow> int \<Rightarrow> int list list \<Rightarrow> variant list" where
  "created_rows p i position [] = []"
| "created_rows p i position (c # cs) = new_variant p i position # created_rows p (i + 1) (position + 1) cs"

fun created_links :: "int \<Rightarrow> int list list \<Rightarrow> product_variant_value list" where
  "created_links i [] = []"
| "created_links i (c # cs) = map (\<lambda>x. \<lparr>pvv_variant_id = i, pvv_value_id = x\<rparr>) c @ created_links (i + 1) cs"

lemma insert_variant_free:
  "v_code v = None \<Longrightarrow> insert_variant v xs s = (Inr (), s\<lparr>work := (work s)\<lparr>t_variant := t_variant (work s) @ [v],
     t_product_variant_value := t_product_variant_value (work s) @ map (\<lambda>i. \<lparr>pvv_variant_id = v_id v, pvv_value_id = i\<rparr>) xs\<rparr>\<rparr>)"
  by (simp add: insert_variant_def bindM_app guardE_def)

lemma fill_gaps_run:
  "\<exists>s'. fill_gaps p cs seen position s =
      (Inr (created_rows p (pk_seq s Variant_T) position (gaps seen cs), length cs - length (gaps seen cs)), s') \<and>
    work s' = (work s)\<lparr>t_variant := t_variant (work s) @ created_rows p (pk_seq s Variant_T) position (gaps seen cs),
      t_product_variant_value := t_product_variant_value (work s) @ created_links (pk_seq s Variant_T) (gaps seen cs)\<rparr>"
proof (induction cs arbitrary: seen position s)
  case Nil
  then show ?case by simp
next
  case (Cons c cs)
  show ?case
  proof (cases "set c \<in> set seen")
    case True
    then show ?thesis
      using Cons.IH [of seen position s] length_gaps [of seen cs] by (auto simp: bindM_app Suc_diff_le)
  next
    case False
    let ?i = "pk_seq s Variant_T"
    let ?s = "s\<lparr>pk_seq := (pk_seq s)(Variant_T := ?i + 1), work := (work s)\<lparr>t_variant := t_variant (work s) @ [new_variant p ?i position],
      t_product_variant_value := t_product_variant_value (work s) @ map (\<lambda>x. \<lparr>pvv_variant_id = ?i, pvv_value_id = x\<rparr>) c\<rparr>\<rparr>"
    have one: "fill_gaps p (c # cs) seen position s =
        bindM (fill_gaps p cs (set c # seen) (position + 1)) (\<lambda>(created, skipped). ret (new_variant p ?i position # created, skipped)) ?s"
      using False by (simp add: bindM_app [of "insert_variant v xs" for v xs] insert_variant_free new_variant_def Let_def)
    show ?thesis
      using Cons.IH [of "set c # seen" "position + 1" ?s] False unfolding one by (auto simp: bindM_app)
  qed
qed

subsection \<open>The call\<close>

definition selected_values :: "int \<Rightarrow> db \<Rightarrow> int list list" where
  "selected_values pid d = map (\<lambda>a. assigned_values pid a d) (get_product_variation_attribute_ids pid d)"

lemma cartesian_length: "c \<in> set (cartesian xss) \<Longrightarrow> length c = length xss"
  by (induction xss arbitrary: c) auto

lemma created_ids: "v \<in> set (created_rows p i position cs) \<Longrightarrow> i \<le> v_id v"
  by (induction p i position cs rule: created_rows.induct) (auto simp: new_variant_def)

lemma created_fields:
  "v \<in> set (created_rows p i position cs) \<Longrightarrow> v_product_id v = p_id p \<and> v_price v = p_price p \<and> v_qty v = 0 \<and> v_is_active v \<and> v_code v = None"
  by (induction p i position cs rule: created_rows.induct) (auto simp: new_variant_def)

lemma created_length [simp]: "length (created_rows p i position cs) = length cs"
  by (induction p i position cs rule: created_rows.induct) auto

lemma created_links_ids: "x \<in> set (created_links i cs) \<Longrightarrow> i \<le> pvv_variant_id x"
  by (induction i cs rule: created_links.induct) auto

lemma created_values:
  "c \<in> set cs \<Longrightarrow> \<exists>v \<in> set (created_rows p i position cs).
    pvv_value_id ` {x \<in> set (created_links i cs). pvv_variant_id x = v_id v} = set c"
proof (induction p i position cs rule: created_rows.induct)
  case (2 p i position d cs)
  have later: "pvv_variant_id x \<noteq> i" if "x \<in> set (created_links (i + 1) cs)" for x
    using created_links_ids [OF that] by auto
  show ?case
  proof (cases "c = d")
    case True
    have "pvv_value_id ` {x \<in> set (created_links i (d # cs)). pvv_variant_id x = v_id (new_variant p i position)} = set c"
    proof -
      have "{x \<in> set (created_links i (d # cs)). pvv_variant_id x = i} = set (map (\<lambda>x. \<lparr>pvv_variant_id = i, pvv_value_id = x\<rparr>) d)"
        using later by auto
      then show ?thesis using True by (simp add: new_variant_def image_image)
    qed
    then show ?thesis by (intro bexI [of _ "new_variant p i position"]) simp_all
  next
    case False
    then obtain v where v: "v \<in> set (created_rows p (i + 1) (position + 1) cs)"
      "pvv_value_id ` {x \<in> set (created_links (i + 1) cs). pvv_variant_id x = v_id v} = set c"
      using 2 by auto
    have "i \<noteq> v_id v" using created_ids [OF v(1)] by simp
    then have "{x \<in> set (created_links i (d # cs)). pvv_variant_id x = v_id v} = {x \<in> set (created_links (i + 1) cs). pvv_variant_id x = v_id v}"
      by auto
    then show ?thesis using v by (intro bexI [of _ v]) simp_all
  qed
qed simp

lemma extended_combinations:
  assumes "links_below s" "i = pk_seq s Variant_T" "p_id p = pid"
    and "t_variant d = t_variant (work s) @ created_rows p i position cs"
    and "t_product_variant_value d = t_product_variant_value (work s) @ created_links i cs"
  shows "combinations pid (work s) \<subseteq> combinations pid d" "c \<in> set cs \<Longrightarrow> c \<noteq> [] \<Longrightarrow> set c \<in> combinations pid d"
proof -
  have old: "values_of (v_id v) d = values_of (v_id v) (work s)" if "v \<in> set (t_variant (work s))" for v
    using that assms(1,2,5) created_links_ids by (fastforce simp: values_of_def links_below_def)
  show "combinations pid (work s) \<subseteq> combinations pid d"
    using old assms(4) unfolding combinations_def by (force simp: image_iff)
  show "set c \<in> combinations pid d" if c: "c \<in> set cs" "c \<noteq> []"
  proof -
    obtain v where v: "v \<in> set (created_rows p i position cs)"
      "pvv_value_id ` {x \<in> set (created_links i cs). pvv_variant_id x = v_id v} = set c"
      using created_values [OF c(1)] by blast
    have "i \<le> v_id v" using created_ids [OF v(1)] .
    then have "values_of (v_id v) d = set c"
      using assms(1,2,5) unfolding v(2) [symmetric] by (fastforce simp: values_of_def links_below_def)
    moreover have "v \<in> set (t_variant d)" "v_product_id v = pid" using v(1) assms(3,4) created_fields [OF v(1)] by simp_all
    ultimately show ?thesis using c(2) unfolding combinations_def by (auto simp: image_iff)
  qed
qed

text \<open>Nothing after the loop touches the variants, their values or the dictionary.\<close>

definition variant_tables :: "db \<Rightarrow> db \<Rightarrow> bool" where
  "variant_tables d d' \<longleftrightarrow> t_variant d' = t_variant d \<and> t_product_variant_value d' = t_product_variant_value d
    \<and> t_attribute_value d' = t_attribute_value d \<and> t_product_attribute d' = t_product_attribute d
    \<and> t_product_variation_attribute d' = t_product_variation_attribute d"

lemma selected_values_cong:
  assumes "t_attribute_value d' = t_attribute_value d" "t_product_attribute d' = t_product_attribute d"
    "t_product_variation_attribute d' = t_product_variation_attribute d"
  shows "selected_values pid d' = selected_values pid d"
  by (simp only: selected_values_def assigned_values_def get_product_variation_attribute_ids_def assms)

lemma keeps_variant_tables:
  "preserves (\<lambda>s. variant_tables d (work s)) (mark_variable env pid b)"
  "preserves (\<lambda>s. variant_tables d (work s)) (rebuild_and_commit env pid)"
proof -
  show "preserves (\<lambda>s. variant_tables d (work s)) (mark_variable env pid b)"
    unfolding mark_variable_def by (rule preserves_writes) (simp add: variant_tables_def set_product_def split: option.split)
  have card: "preserves (\<lambda>s. variant_tables d (work s)) (rebuild_card env pid)"
    by (rule preservesI)
      (auto simp: rebuild_run Let_def variant_tables_def without_cards_def set_product_def split: option.splits if_splits sum.splits)
  show "preserves (\<lambda>s. variant_tables d (work s)) (rebuild_and_commit env pid)"
    unfolding rebuild_and_commit_def rebuild_cards.simps
    by (intro preserves_bindM card preserves_ret preserves_commit) simp_all
qed

lemma generate_run:
  assumes "generate_variants env pid s = (Inr (created, skipped), s')"
  shows "\<exists>p position. let g = gaps (map (\<lambda>(_, xs). set xs) (get_variant_value_ids_map (map v_id (all_variants pid (work s))) (work s)))
        (cartesian (selected_values pid (work s))) in
    get_product pid (work s) = Some p \<and> get_product_variation_attribute_ids pid (work s) \<noteq> [] \<and>
    created = created_rows p (pk_seq s Variant_T) position g \<and> skipped = length (cartesian (selected_values pid (work s))) - length g \<and>
    committed s' = work s' \<and>
    variant_tables ((work s)\<lparr>t_variant := t_variant (work s) @ created,
      t_product_variant_value := t_product_variant_value (work s) @ created_links (pk_seq s Variant_T) g\<rparr>) (work s')"
proof -
  obtain p where p: "get_product pid (work s) = Some p"
    using assms by (auto simp: generate_variants_def bindM_app admin_get_product_def split: option.splits)
  let ?d = "work s"
  let ?seen = "map (\<lambda>(_, xs). set xs) (get_variant_value_ids_map (map v_id (all_variants pid ?d)) ?d)"
  let ?cs = "cartesian (selected_values pid ?d)" and ?position = "next_variant_position pid ?d"
  let ?g = "gaps ?seen ?cs"
  let ?made = "created_rows p (pk_seq s Variant_T) ?position ?g"
  obtain s1 where loop: "fill_gaps p ?cs ?seen ?position s = (Inr (?made, length ?cs - length ?g), s1)"
    and s1: "work s1 = ?d\<lparr>t_variant := t_variant ?d @ ?made, t_product_variant_value := t_product_variant_value ?d @ created_links (pk_seq s Variant_T) ?g\<rparr>"
    using fill_gaps_run [of p ?cs ?seen ?position s] by blast
  have found: "admin_get_product pid s = (Inr p, s)" by (simp add: admin_get_product_def p)
  have sel: "get_product_variation_attribute_ids pid ?d \<noteq> []"
    using assms by (auto simp: generate_variants_def bindM_app found split: if_splits)
  let ?finish = "bindM (whenM (?made \<noteq> []) (mark_variable env pid True)) (\<lambda>_. bindM (rebuild_and_commit env pid) (\<lambda>_.
      bindM (enqueue env (Es_Index [pid])) (\<lambda>_. ret (?made, length ?cs - length ?g))))"
  have fin: "?finish s1 = (Inr (created, skipped), s')"
    using assms sel loop
    by (simp add: generate_variants_def bindM_app [of "admin_get_product pid"] found bindM_app [of "whenM b (throw e)" for b e]
        bindM_app [of "fill_gaps p a b c" for a b c] selected_values_def split: if_splits)
  have out: "created = ?made" "skipped = length ?cs - length ?g"
    using fin by (auto simp: bindM_Inr)
  have "variant_tables (work s1) (work s')"
  proof -
    have "preserves (\<lambda>t. variant_tables (work s1) (work t)) ?finish"
      by (intro preserves_bindM preserves_whenM keeps_variant_tables preserves_enqueue preserves_ret) simp_all
    moreover have "variant_tables (work s1) (work s1)" by (simp add: variant_tables_def)
    ultimately have "variant_tables (work s1) (work (snd (?finish s1)))" unfolding preserves_def by blast
    then show ?thesis unfolding fin by simp
  qed
  moreover have "committed s' = work s'"
    using fin by (auto simp: bindM_Inr rebuild_and_commit_def enqueue_def split: if_splits)
  ultimately show ?thesis using p sel out s1 by (intro exI [of _ p] exI [of _ ?position]) (simp add: Let_def)
qed

text \<open>The whole contract of a generation, and of a second one after it.\<close>

definition generated :: "environment \<Rightarrow> int \<Rightarrow> session \<Rightarrow> variant list \<Rightarrow> nat \<Rightarrow> session \<Rightarrow> bool" where
  "generated env pid s created skipped s' \<longleftrightarrow>
    (let combos = cartesian (selected_values pid (work s)) in
      (\<forall>c \<in> set combos. combo_exists pid (set c) (work s')) \<and>
      length created + skipped = length combos \<and>
      t_variant (work s') = t_variant (work s) @ created \<and> committed s' = work s' \<and>
      (\<exists>p. get_product pid (work s) = Some p \<and>
        (\<forall>v \<in> set created. v_product_id v = pid \<and> v_price v = p_price p \<and> v_qty v = 0 \<and> v_is_active v)))"

lemma generate_complete:
  assumes run: "generate_variants env pid s = (Inr (created, skipped), s')" and below: "links_below s"
  shows "generated env pid s created skipped s'"
proof -
  let ?d = "work s" and ?cs = "cartesian (selected_values pid (work s))"
  let ?seen = "map (\<lambda>(_, xs). set xs) (get_variant_value_ids_map (map v_id (all_variants pid ?d)) ?d)"
  let ?g = "gaps ?seen ?cs"
  obtain p position where p: "get_product pid ?d = Some p" and sel: "get_product_variation_attribute_ids pid ?d \<noteq> []"
    and created: "created = created_rows p (pk_seq s Variant_T) position ?g" and skipped: "skipped = length ?cs - length ?g"
    and commits: "committed s' = work s'"
    and tables: "variant_tables (?d\<lparr>t_variant := t_variant ?d @ created,
      t_product_variant_value := t_product_variant_value ?d @ created_links (pk_seq s Variant_T) ?g\<rparr>) (work s')"
    using generate_run [OF run] unfolding Let_def by blast
  have rows: "t_variant (work s') = t_variant ?d @ created_rows p (pk_seq s Variant_T) position ?g"
    "t_product_variant_value (work s') = t_product_variant_value ?d @ created_links (pk_seq s Variant_T) ?g"
    using tables by (simp_all add: variant_tables_def created)
  note more = extended_combinations [OF below refl get_product_key [OF p, THEN conjunct1] rows]
  have "set c \<in> combinations pid (work s')" if c: "c \<in> set ?cs" for c
  proof -
    have "c \<noteq> []" using cartesian_length [OF c] sel by (auto simp: selected_values_def)
    from gaps_cover [OF c, of ?seen] show ?thesis
    proof
      assume "set c \<in> set ?seen"
      then have "set c \<in> combinations pid ?d" by (simp only: seen_combinations)
      then show ?thesis using more(1) by blast
    next
      assume "set c \<in> set ` set ?g"
      then obtain e where e: "e \<in> set ?g" "set e = set c" by auto
      then have "e \<noteq> []" using \<open>c \<noteq> []\<close> by auto
      with more(2) [OF e(1)] e(2) show ?thesis by simp
    qed
  qed
  then show ?thesis
    unfolding generated_def Let_def combo_exists_iff
    using p commits rows created skipped length_gaps [of ?seen ?cs] created_fields get_product_key [OF p] by auto
qed

lemma generate_again:
  assumes run: "generate_variants env pid s = (Inr (created, skipped), s')" and below: "links_below s"
    and again: "generate_variants env' pid s' = (Inr (created', skipped'), s'')"
  shows "created' = [] \<and> skipped' = length (cartesian (selected_values pid (work s)))"
proof -
  note first = generate_complete [OF run below]
  have "selected_values pid (work s') = selected_values pid (work s)"
  proof -
    obtain g where "variant_tables ((work s)\<lparr>t_variant := t_variant (work s) @ created,
        t_product_variant_value := t_product_variant_value (work s) @ created_links (pk_seq s Variant_T) g\<rparr>) (work s')"
      using generate_run [OF run] unfolding Let_def by blast
    then show ?thesis by (intro selected_values_cong) (simp_all add: variant_tables_def)
  qed
  moreover have "gaps (map (\<lambda>(_, xs). set xs) (get_variant_value_ids_map (map v_id (all_variants pid (work s'))) (work s')))
      (cartesian (selected_values pid (work s))) = []"
  proof (rule no_gaps)
    fix c assume "c \<in> set (cartesian (selected_values pid (work s)))"
    then have "set c \<in> combinations pid (work s')"
      using first by (simp add: generated_def Let_def combo_exists_iff)
    then show "set c \<in> set (map (\<lambda>(_, xs). set xs) (get_variant_value_ids_map (map v_id (all_variants pid (work s'))) (work s')))"
      by (simp only: seen_combinations)
  qed
  ultimately show ?thesis using generate_run [OF again] by (auto simp: Let_def)
qed

end
