(* ===== verification/Listing_Correct.thy ===== *)
theory Listing_Correct
  imports Catalog_Listing
begin

text \<open>
  The product lists: prices survive the cursor, following the cursors of any of the three sorts
  reads every listed product once, and the number shown beside a category is the length of its list.
\<close>

subsection \<open>Prices as text\<close>

definition cents :: "money \<Rightarrow> bool" where
  "cents x \<longleftrightarrow> 0 \<le> x \<and> x * 100 = of_int \<lfloor>x * 100\<rfloor>"

lemma str_val_append: "str_val (s @ t) = str_val s * 10 ^ length t + str_val t"
proof (induction t rule: rev_induct)
  case (snoc c t)
  have "str_val (s @ t @ [c]) = 10 * str_val (s @ t) + digit_val c" using str_val_snoc [of "s @ t" c] by simp
  with snoc show ?case by (simp add: algebra_simps)
qed (simp add: str_val_def)

lemma plain_digits: "c \<in> set (zero_pad w (nat_str n)) \<Longrightarrow> 48 \<le> (of_char c :: nat) \<and> of_char c \<le> (57 :: nat)"
  using nat_str_plain [of c n] by (auto simp: zero_pad_def)

lemma length_two: "n < 100 \<Longrightarrow> length (zero_pad 2 (nat_str n)) = 2"
proof -
  assume "n < 100"
  then have "length (nat_str n) \<le> 2"
    by (cases "n < 10") (simp_all add: nat_str.simps [of n] nat_str.simps [of "n div 10"])
  then show ?thesis by (auto simp: zero_pad_def)
qed

lemma price_text:
  assumes "cents x"
  shows "parse_decimal (money_str x) = Some x"
proof -
  let ?c = "\<lfloor>x * 100\<rfloor>"
  define ip where "ip = nat_str (nat (?c div 100))"
  define fp where "fp = zero_pad 2 (nat_str (nat (?c mod 100)))"
  have pos: "0 \<le> ?c" using assms by (simp add: cents_def)
  have shown: "money_str x = ip @ CHR ''.'' # fp"
    using assms by (simp add: money_str_def cents_def ip_def fp_def Let_def)
  have digit: "48 \<le> (of_char c :: nat) \<and> of_char c \<le> (57 :: nat)" if "c \<in> set (ip @ fp)" for c
    using that nat_str_plain plain_digits by (auto simp: ip_def fp_def)
  have dot: "CHR ''.'' \<notin> set ip" using digit [of "CHR ''.''"] by auto
  have plain: "c = CHR ''.'' \<or> 48 \<le> (of_char c :: nat) \<and> of_char c \<le> (57 :: nat)" if "c \<in> set (money_str x)" for c
    using that digit by (auto simp: shown)
  have "\<not> is_space c" if "c \<in> set (money_str x)" for c
    using plain [OF that] is_space_digit [of c] by (auto simp: is_space_def)
  then have strip: "strip (money_str x) = money_str x" by (rule strip_no_space)
  have keep: "filter (\<lambda>c. c \<noteq> CHR ''_'') (money_str x) = money_str x"
    using plain by (intro filter_True) fastforce
  obtain a as where ip: "ip = a # as" by (cases ip) (simp_all add: ip_def)
  have sign: "drop_sign (money_str x) = (1, money_str x)"
    using digit [of a] by (auto simp: drop_sign_def shown ip)
  have m: "takeWhile (\<lambda>c. c \<noteq> CHR ''e'' \<and> c \<noteq> CHR ''E'') (money_str x) = money_str x"
    using plain by (intro takeWhile_eq_all_conv [THEN iffD2] ballI) fastforce
  have before: "before CHR ''.'' (money_str x) = ip"
    using dot unfolding before_def shown by (induction ip) auto
  have len: "length fp = 2" using pos by (simp add: fp_def length_two)
  have "str_val (ip @ fp) = nat ?c"
  proof -
    have "str_val (ip @ fp) = nat (?c div 100) * 100 + nat (?c mod 100)"
      by (simp add: str_val_append len) (simp add: ip_def fp_def)
    also have "\<dots> = nat ?c" using pos by (simp add: nat_div_distrib nat_mod_distrib)
    finally show ?thesis .
  qed
  then have "parse_mantissa (money_str x) = Some (of_nat (nat ?c) / 100)"
    using digit len before by (auto simp: parse_mantissa_def Let_def shown digits_only_def list_all_iff ip)
  moreover have "(of_nat (nat ?c) / 100 :: rat) = x"
  proof -
    have "(of_nat (nat ?c) :: rat) = of_int ?c" using pos by simp
    also have "\<dots> = x * 100" using assms by (simp only: cents_def)
    finally show ?thesis by simp
  qed
  ultimately have "parse_mantissa (money_str x) = Some x" by (simp only:)
  then show ?thesis by (simp add: parse_decimal_def strip keep sign m Let_def)
qed

subsection \<open>Cursors\<close>

lemma decode_encode_card:
  assumes "\<And>x. price = Some x \<Longrightarrow> cents x"
  shows "decode_card_cursor (encode_card_cursor sort_by pid price) sort_by = Inr (pid, price)"
    "other \<noteq> sort_by \<Longrightarrow> decode_card_cursor (encode_card_cursor sort_by pid price) other = Inl CatalogInvalidCursorError"
  using assms
  by (auto simp: decode_card_cursor_def encode_card_cursor_def cursor_object_token jlookup_def int_of_json_def
      decimal_of_json_def price_text split: option.splits)

lemma decode_card_errors:
  "decode_card_cursor c sort_by = Inl e \<Longrightarrow> e = CatalogInvalidCursorError \<or> e = PyError ''OverflowError''"
  by (auto simp: decode_card_cursor_def bindE_Inl split: option.splits sum.splits if_splits json.splits)

subsection \<open>Pages\<close>

text \<open>The read model has one card per product and language, with prices in cents.\<close>

definition cards_ok :: "db \<Rightarrow> bool" where
  "cards_ok d \<longleftrightarrow> distinct (map (\<lambda>c. (pc_product_id c, pc_lang c)) (t_card d))
    \<and> list_all (\<lambda>c. cents (pc_price c) \<and> bigint (pc_product_id c) \<and> distinct (pc_path c)) (t_card d)"

definition listed_cards :: "listing_filter \<Rightarrow> db \<Rightarrow> product_card list" where
  "listed_cards f d = filter (listed f d) (t_card d)"

lemma listed_card: "c \<in> set (listed_cards f d) \<Longrightarrow> c \<in> set (t_card d) \<and> pc_lang c = lf_lang f"
  by (auto simp: listed_cards_def listed_def)

text \<open>The predicate of the cursor is \<open>comes later in the order\<close>.\<close>

lemma predicate_is_order:
  "keyset_predicate_for sort_by (pc_product_id r) (if sort_by \<in> set PRICE_SORTS then Some (pc_price r) else None) c
    \<longleftrightarrow> order_columns_for sort_by r < order_columns_for sort_by c"
  by (auto simp: keyset_predicate_for_def order_columns_for_def PRICE_SORTS_def less_prod_def)

definition cards_page :: "nat \<Rightarrow> string \<Rightarrow> listing_filter \<times> db \<Rightarrow> string option \<Rightarrow> exn + product_card_out list \<times> string option" where
  "cards_page n sort_by s cursor = list_cards_page (fst s) sort_by (int n) (snd s) cursor"

lemma cards_page_cut:
  assumes "0 < n" "n \<le> 100"
    and "(case cursor of None \<Rightarrow> Inr None
       | Some c \<Rightarrow> bindE (decode_card_cursor c sort_by) (\<lambda>(last_id, last_price).
           bindE (bind_bigint last_id) (\<lambda>_. Inr (Some (keyset_predicate_for sort_by last_id last_price))))) = Inr after"
  shows "cards_page n sort_by (f, d) cursor = Inr (apfst (map card_to_out)
    (cut_page n (card_cursor_of sort_by) (sort_key (order_columns_for sort_by)
      (filter (\<lambda>c. case after of None \<Rightarrow> True | Some p \<Rightarrow> p c) (listed_cards f d)))))"
proof -
  have "page_limit (int n) = n" using assms(1,2) by (simp add: page_limit_def MAX_PAGE_SIZE_def)
  then show ?thesis using assms(3)
    by (simp add: cards_page_def list_cards_page_def Let_def list_cards_def cut_page_def listed_cards_def)
qed

text \<open>Every listing is a keyset listing: any filter, any of the sorts.\<close>

interpretation card_pages: keyset_listing
  "\<lambda>s. cards_ok (snd s)" "\<lambda>s. listed_cards (fst s) (snd s)" "order_columns_for sort_by"
  "card_cursor_of sort_by" card_to_out 24 "cards_page 24 sort_by"
  for sort_by
proof unfold_locales
  fix s :: "listing_filter \<times> db" assume ok: "cards_ok (snd s)"
  have "distinct (map pc_product_id (listed_cards (fst s) (snd s)))"
  proof -
    have "distinct (map (\<lambda>c. (pc_product_id c, pc_lang c)) (listed_cards (fst s) (snd s)))"
      using ok by (simp add: cards_ok_def listed_cards_def distinct_map_filter)
    then show ?thesis
      using listed_card by (auto simp: distinct_map inj_on_def)
  qed
  then show "distinct (map (order_columns_for sort_by) (listed_cards (fst s) (snd s)))"
    by (auto simp: distinct_map inj_on_def order_columns_for_def)
  show "cards_page 24 sort_by s None = Inr (apfst (map card_to_out)
      (cut_page 24 (card_cursor_of sort_by) (sort_key (order_columns_for sort_by) (listed_cards (fst s) (snd s)))))"
    using cards_page_cut [where n = 24 and cursor = None and after = None and sort_by = sort_by and f = "fst s" and d = "snd s"] by simp
  fix r assume r: "r \<in> set (listed_cards (fst s) (snd s))"
  then have row: "cents (pc_price r)" "bigint (pc_product_id r)"
    using ok by (auto simp: cards_ok_def list_all_iff listed_cards_def)
  let ?price = "if sort_by \<in> set PRICE_SORTS then Some (pc_price r) else None"
  have "decode_card_cursor (card_cursor_of sort_by r) sort_by = Inr (pc_product_id r, ?price)"
    unfolding card_cursor_of_def by (rule decode_encode_card) (use row in \<open>auto split: if_splits\<close>)
  then show "cards_page 24 sort_by s (Some (card_cursor_of sort_by r)) = Inr (apfst (map card_to_out)
      (cut_page 24 (card_cursor_of sort_by) (sort_key (order_columns_for sort_by)
        (filter (\<lambda>x. order_columns_for sort_by r < order_columns_for sort_by x) (listed_cards (fst s) (snd s))))))"
    using cards_page_cut [where n = 24 and cursor = "Some (card_cursor_of sort_by r)" and sort_by = sort_by
        and after = "Some (keyset_predicate_for sort_by (pc_product_id r) ?price)" and f = "fst s" and d = "snd s"] row
    by (simp add: bind_bigint_def predicate_is_order)
qed simp

subsection \<open>Counts\<close>

definition plain_filter :: "int \<Rightarrow> string \<Rightarrow> listing_filter" where
  "plain_filter cid lang = \<lparr>lf_category = Some cid, lf_lang = lang, lf_price_min = None, lf_price_max = None,
     lf_value_ids = None, lf_on_sale = False, lf_featured = False\<rparr>"

lemma count_in_paths:
  "(\<And>c. c \<in> set cs \<Longrightarrow> distinct (pc_path c)) \<Longrightarrow>
    length (filter (\<lambda>x. x = cid) (concat (map pc_path cs))) = length (filter (\<lambda>c. cid \<in> set (pc_path c)) cs)"
proof (induction cs)
  case (Cons c cs)
  have "length (filter (\<lambda>x. x = cid) xs) = (if cid \<in> set xs then 1 else 0)" if "distinct xs" for xs
    using that by (induction xs) auto
  with Cons show ?case by simp
qed simp

lemma count_is_length:
  assumes "cards_ok d" "case ids of None \<Rightarrow> True | Some l \<Rightarrow> cid \<in> set l"
  shows "(case count_products_by_category lang ids d cid of None \<Rightarrow> 0 | Some n \<Rightarrow> n) = length (listed_cards (plain_filter cid lang) d)"
proof -
  have "length (filter (\<lambda>x. x = cid) (concat (map pc_path (filter (\<lambda>c. pc_lang c = lang \<and> pc_is_active c) (t_card d)))))
      = length (filter (\<lambda>c. cid \<in> set (pc_path c)) (filter (\<lambda>c. pc_lang c = lang \<and> pc_is_active c) (t_card d)))"
    by (rule count_in_paths) (use assms(1) in \<open>auto simp: cards_ok_def list_all_iff\<close>)
  also have "\<dots> = length (listed_cards (plain_filter cid lang) d)"
  proof -
    have "listed (plain_filter cid lang) d = (\<lambda>c. pc_is_active c \<and> pc_lang c = lang \<and> cid \<in> set (pc_path c))"
      by (rule ext) (auto simp: listed_def plain_filter_def)
    then show ?thesis by (simp add: listed_cards_def conj_ac)
  qed
  finally show ?thesis using assms(2) by (auto simp: count_products_by_category_def Let_def split: option.splits)
qed

subsection \<open>Related products\<close>

lemma pick_related_length: "length picked < limit \<Longrightarrow> length (pick_related limit h ids picked) \<le> limit"
  by (induction limit h ids picked rule: pick_related.induct) (auto simp: Let_def split: option.splits)

lemma pick_related_set: "set (pick_related limit h ids picked) \<subseteq> set picked \<union> {c. \<exists>i \<in> set ids. h i = Some c}"
proof (induction limit h ids picked rule: pick_related.induct)
  case (2 limit h pid rest picked)
  show ?case
  proof (cases "h pid")
    case None
    then show ?thesis using 2(1) by auto
  next
    case (Some c)
    then show ?thesis using 2(2) [OF Some refl] by (auto simp: Let_def)
  qed
qed simp

lemma pick_related_distinct:
  assumes "\<And>i c. h i = Some c \<Longrightarrow> pc_product_id c = i"
  shows "distinct ids \<Longrightarrow> distinct (map pc_product_id picked) \<Longrightarrow> set ids \<inter> pc_product_id ` set picked = {} \<Longrightarrow>
    distinct (map pc_product_id (pick_related limit h ids picked))"
  using assms by (induction limit h ids picked rule: pick_related.induct)
    (auto simp: Let_def split: option.splits)

lemma top_up_bounds:
  assumes "length picked < limit"
  shows "length (top_up limit cs picked seen) \<le> limit" "set (top_up limit cs picked seen) \<subseteq> set picked \<union> set cs"
  using assms by (induction limit cs picked seen rule: top_up.induct) (auto simp: Let_def split: if_splits)

lemma top_up_distinct:
  "distinct (map pc_product_id picked) \<Longrightarrow> pc_product_id ` set picked \<subseteq> set seen \<Longrightarrow>
    distinct (map pc_product_id (top_up limit cs picked seen))"
  by (induction limit cs picked seen rule: top_up.induct) (auto simp: Let_def)

lemma related_cards_buyable: "c \<in> set (list_related_cards cid lang seed limit d) \<Longrightarrow> c \<in> set (t_card d) \<and> buyable lang seed c"
  by (auto simp: list_related_cards_def dest!: in_set_takeD)

lemma hydrated_buyable:
  "load_related_cards_by_ids ids lang seed d i = Some c \<Longrightarrow> c \<in> set (t_card d) \<and> buyable lang seed c \<and> pc_product_id c = i"
  by (auto simp: load_related_cards_by_ids_def split: if_splits dest!: map_of_SomeD)

lemma related_cards_distinct:
  assumes "cards_ok d"
  shows "distinct (map pc_product_id (list_related_cards cid lang seed limit d))"
proof -
  let ?cs = "filter (\<lambda>c. buyable lang seed c \<and> pc_category_id c = cid) (t_card d)"
  have "distinct (map (\<lambda>c. (pc_product_id c, pc_lang c)) ?cs)"
    using assms by (simp add: cards_ok_def distinct_map_filter)
  then have "distinct (map pc_product_id ?cs)"
    by (auto simp: distinct_map inj_on_def buyable_def)
  then have "distinct (map pc_product_id (sort_key (\<lambda>c. - pc_product_id c) ?cs))" by (simp add: distinct_map)
  then show ?thesis unfolding list_related_cards_def by (simp add: distinct_take flip: take_map)
qed

lemma related_elastic_all:
  assumes "related_elastic fetch seed lang limit d = Some outs" "0 < limit"
    and "\<And>i l n ids. fetch i l n = Some ids \<Longrightarrow> distinct ids"
  shows "\<exists>cs. outs = map card_to_out cs \<and> length cs \<le> limit \<and> distinct (map pc_product_id cs)
    \<and> set cs \<subseteq> {c \<in> set (t_card d). buyable lang (pc_product_id seed) c}"
proof -
  obtain ids where f: "fetch (pc_product_id seed) lang (min (int limit * RELATED_OVERFETCH_FACTOR) RELATED_MAX_CANDIDATES) = Some ids"
    using assms(1) by (auto simp: related_elastic_def split: option.splits)
  let ?h = "load_related_cards_by_ids ids lang (pc_product_id seed) d"
  let ?picked = "pick_related limit ?h ids []"
  let ?seen = "remdups (pc_product_id seed # map pc_product_id ?picked)"
  let ?more = "list_related_cards (pc_category_id seed) lang (pc_product_id seed) (limit + length ?seen) d"
  have "{c. \<exists>i \<in> set ids. ?h i = Some c} \<subseteq> {c \<in> set (t_card d). buyable lang (pc_product_id seed) c}"
    using hydrated_buyable by blast
  then have picked: "length ?picked \<le> limit" "set ?picked \<subseteq> {c \<in> set (t_card d). buyable lang (pc_product_id seed) c}"
    using pick_related_length [of "[]" limit ?h ids] pick_related_set [of limit ?h ids "[]"] assms(2) by auto
  have once: "distinct (map pc_product_id ?picked)"
    by (rule pick_related_distinct) (use hydrated_buyable assms(3) [OF f] in auto)
  show ?thesis
  proof (cases "length ?picked < limit")
    case True
    have "distinct (map pc_product_id (top_up limit ?more ?picked ?seen))" by (rule top_up_distinct [OF once]) auto
    moreover have "set (top_up limit ?more ?picked ?seen) \<subseteq> {c \<in> set (t_card d). buyable lang (pc_product_id seed) c}"
      using top_up_bounds(2) [OF True, of ?more ?seen] picked(2) related_cards_buyable by blast
    ultimately show ?thesis
      using assms(1) f True top_up_bounds(1) [OF True, of ?more ?seen]
      by (intro exI [of _ "top_up limit ?more ?picked ?seen"]) (simp add: related_elastic_def Let_def)
  next
    case False
    then show ?thesis
      using assms(1) f picked once by (intro exI [of _ ?picked]) (simp add: related_elastic_def Let_def)
  qed
qed

lemma related_all:
  assumes "related_products cfg fetch slug lang limit d = Inr outs" "0 < limit" "cards_ok d"
    and "\<And>i l n ids. fetch i l n = Some ids \<Longrightarrow> distinct ids"
  shows "length outs \<le> limit \<and> distinct (map po_product_id outs)
    \<and> (\<forall>t o'. get_product_translation_by_slug slug lang d = Inr (Some t) \<and> o' \<in> set outs \<longrightarrow>
        (\<exists>c \<in> set (t_card d). buyable lang (pt_product_id t) c \<and> o' = card_to_out c))"
proof (cases "outs = []")
  case False
  then obtain t seed where t: "get_product_translation_by_slug slug lang d = Inr (Some t)"
    and seed: "get_card (pt_product_id t) lang d = Inr (Some seed)"
    using assms(1) by (auto simp: related_products_def bindE_Inr split: option.splits)
  have id: "pc_product_id seed = pt_product_id t"
  proof -
    have "seed \<in> set (filter (\<lambda>c. pc_product_id c = pt_product_id t \<and> pc_lang c = lang) (t_card d))"
      using seed unfolding get_card_def
      by (cases "filter (\<lambda>c. pc_product_id c = pt_product_id t \<and> pc_lang c = lang) (t_card d)")
        (simp_all only: scalar_one_or_none_def, auto split: list.splits)
    then show ?thesis by simp
  qed
  let ?plain = "list_related_cards (pc_category_id seed) lang (pc_product_id seed) limit d"
  have plain: "length ?plain \<le> limit" by (simp add: list_related_cards_def)
  have buys: "set ?plain \<subseteq> {c \<in> set (t_card d). buyable lang (pc_product_id seed) c}" using related_cards_buyable by fast
  have "\<exists>cs. outs = map card_to_out cs \<and> length cs \<le> limit \<and> distinct (map pc_product_id cs)
    \<and> set cs \<subseteq> {c \<in> set (t_card d). buyable lang (pc_product_id seed) c}"
  proof (cases "search_uses_elastic cfg \<and> related_elastic fetch seed lang limit d \<noteq> None")
    case True
    then have "related_elastic fetch seed lang limit d = Some outs"
      using assms(1) by (auto simp: related_products_def bindE_Inr t seed)
    then show ?thesis by (rule related_elastic_all [OF _ assms(2)]) (rule assms(4))
  next
    case False
    then have "outs = map card_to_out ?plain"
      using assms(1) by (auto simp: related_products_def bindE_Inr t seed Let_def split: if_splits)
    then show ?thesis using plain buys related_cards_distinct [OF assms(3)] by (intro exI [of _ ?plain]) simp
  qed
  then obtain cs where cs: "outs = map card_to_out cs" "length cs \<le> limit" "distinct (map pc_product_id cs)"
    "set cs \<subseteq> {c \<in> set (t_card d). buyable lang (pc_product_id seed) c}" by blast
  have out: "map po_product_id outs = map pc_product_id cs" unfolding cs(1) by (simp add: card_to_out_def o_def)
  have "\<exists>c \<in> set (t_card d). buyable lang (pt_product_id t) c \<and> o' = card_to_out c" if "o' \<in> set outs" for o'
    using that cs(4) unfolding cs(1) id by auto
  then show ?thesis using cs(2,3) t unfolding out by (simp add: cs(1))
qed simp

end
