(* ===== verification/Catalog_Properties.thy ===== *)
theory Catalog_Properties
  imports Sample Listing_Correct Catalog_Cards Category_Tree
begin

text \<open>
  The properties of the storefront catalogue, on a shop with two categories, one inside the other,
  and the two products of the sample shop in both languages.
\<close>

definition name_in :: "int \<Rightarrow> string \<Rightarrow> string \<Rightarrow> product_translation" where
  "name_in pid lang slug = \<lparr>pt_product_id = pid, pt_lang = lang, pt_name = slug, pt_slug = slug,
     pt_description = None, pt_seo_title = None, pt_seo_description = None\<rparr>"

definition category_row :: "int \<Rightarrow> int option \<Rightarrow> int list \<Rightarrow> category" where
  "category_row i parent path = \<lparr>cg_id = i, cg_parent_id = parent, cg_path = path, cg_depth = int (length path) - 1,
     cg_is_active = True, cg_position = 0, cg_cover_image_url = None, cg_updated_at = 0\<rparr>"

definition category_name :: "int \<Rightarrow> string \<Rightarrow> string \<Rightarrow> category_translation" where
  "category_name i lang slug = \<lparr>cgt_category_id = i, cgt_lang = lang, cgt_name = slug, cgt_slug = slug,
     cgt_seo_title = None, cgt_seo_description = None\<rparr>"

definition boutique_db :: db where
  "boutique_db = shop_db\<lparr>
     t_category := [category_row 1 None [1], category_row 2 (Some 1) [1, 2]],
     t_category_translation := [category_name 1 ''ro'' ''casa'', category_name 2 ''ro'' ''vaze'', category_name 2 ''ru'' ''vazy''],
     t_product_translation := [name_in 1 ''ro'' ''ceas'', name_in 1 ''ru'' ''chasy'', name_in 2 ''ro'' ''vaza'', name_in 2 ''ru'' ''vaza-2'']\<rparr>"

definition boutique :: session where
  "boutique = shop\<lparr>work := boutique_db, committed := boutique_db\<rparr>"

definition opened_boutique :: db where
  "opened_boutique = work (snd (rebuild_cards shop_env [1, 2] boutique))"

lemma opened_cards:
  "map (\<lambda>c. (pc_product_id c, pc_lang c, pc_price c, pc_path c, pc_is_active c, pc_in_stock c, pc_category_id c)) (t_card opened_boutique)
    = [(1, ''ro'', 100, [1], True, True, 1), (1, ''ru'', 100, [1], True, True, 1),
       (2, ''ro'', 260, [1], True, True, 1), (2, ''ru'', 260, [1], True, True, 1)]"
  unfolding opened_boutique_def by code_simp

lemma opened_cards_ok: "cards_ok opened_boutique"
proof -
  have shape: "cards_ok d \<longleftrightarrow> distinct (map (\<lambda>(i, l, _). (i, l)) rows)
      \<and> list_all (\<lambda>(i, l, p, path, _). cents p \<and> bigint i \<and> distinct path) rows"
    if "map (\<lambda>c. (pc_product_id c, pc_lang c, pc_price c, pc_path c, pc_is_active c, pc_in_stock c, pc_category_id c)) (t_card d) = rows"
    for d rows
    unfolding that [symmetric] by (simp add: cards_ok_def list_all_iff o_def)
  show ?thesis
    unfolding shape [OF opened_cards] by (simp add: cents_def bigint_def)
qed

subsection \<open>Listings\<close>

text \<open>
  C32. Following the cursors of a product listing, under any filter and any of the sorts, ends and
  reads every listed card exactly once, in the order of the sort.
\<close>

theorem listing_pages_complete:
  assumes "cards_ok d"
  shows "walk (list_cards_page f sort_by 24 d) (Suc (length (listed_cards f d))) None
    = Inr (map card_to_out (sort_key (order_columns_for sort_by) (listed_cards f d)))"
proof -
  have page: "cards_page 24 sort_by (f, d) = list_cards_page f sort_by 24 d"
    by (rule ext) (simp add: cards_page_def)
  show ?thesis
    using card_pages.walk_complete [of "(f, d)" sort_by] assms by (simp add: page card_pages.listing_def)
qed

theorem listing_pages_complete_witness:
  "walk (list_cards_page (plain_filter 1 ''ro'') ''price_desc'' 24 opened_boutique)
     (Suc (length (listed_cards (plain_filter 1 ''ro'') opened_boutique))) None
   = Inr (map card_to_out (sort_key (order_columns_for ''price_desc'') (listed_cards (plain_filter 1 ''ro'') opened_boutique)))"
  by (rule listing_pages_complete [OF opened_cards_ok])

text \<open>
  A cursor carries its sort, product and price through the text the client returns: decoded
  under the sort it was made for it gives them back, under another sort it is refused.
\<close>

theorem card_cursor_roundtrip:
  assumes "\<And>x. price = Some x \<Longrightarrow> cents x"
  shows "decode_card_cursor (encode_card_cursor sort_by pid price) sort_by = Inr (pid, price)
    \<and> (other \<noteq> sort_by \<longrightarrow> decode_card_cursor (encode_card_cursor sort_by pid price) other = Inl CatalogInvalidCursorError)"
  using decode_encode_card [OF assms] by simp

theorem card_cursor_roundtrip_witness:
  "decode_card_cursor (encode_card_cursor ''price_asc'' 7 (Some (2599 / 100))) ''price_asc'' = Inr (7, Some (2599 / 100))
    \<and> decode_card_cursor (encode_card_cursor ''price_asc'' 7 (Some (2599 / 100))) ''newest'' = Inl CatalogInvalidCursorError"
proof -
  have "x = 2599 / 100 \<Longrightarrow> cents x" for x by (simp add: cents_def)
  then show ?thesis
    using card_cursor_roundtrip [of "Some (2599 / 100)" "''price_asc''" 7 "''newest''"] by simp
qed



subsection \<open>The read model\<close>

text \<open>
  C22. Rebuilding the cards of a product makes them the projection of its tables: none when it is
  inactive, otherwise one per translation, in all languages of the shop. The cards and rows of the
  other products stay, and the number returned is the number of cards.
\<close>

theorem rebuild_projects_product:
  assumes "rebuild_card env pid s = (Inr n, s')"
  shows "in_sync pid (work s') \<and> n = length (cards_of pid (work s'))
    \<and> (\<forall>p. get_product pid (work s) = Some p \<and> p_is_active p \<longrightarrow> set ALLOWED_LANGS \<subseteq> pc_lang ` set (cards_of pid (work s')))
    \<and> (\<forall>j. j \<noteq> pid \<longrightarrow> cards_of j (work s') = cards_of j (work s) \<and> get_product j (work s') = get_product j (work s))"
  using rebuild_in_sync [OF assms] rebuilt_languages [OF assms] by blast

theorem rebuild_projects_product_witness:
  "\<exists>s'. rebuild_card shop_env 2 boutique = (Inr 2, s') \<and> in_sync 2 (work s') \<and> length (cards_of 2 (work s')) = 2"
proof -
  have "fst (rebuild_card shop_env 2 boutique) = Inr 2" by code_simp
  then have run: "rebuild_card shop_env 2 boutique = (Inr 2, snd (rebuild_card shop_env 2 boutique))"
    by (metis prod.collapse)
  show ?thesis
    using run rebuild_projects_product [OF run] by (metis (no_types))
qed

subsection \<open>Categories\<close>




subsection \<open>Related products\<close>

text \<open>
  Whatever the search engine ranks, also when it does not answer, the related products of a
  product are at most as many as asked, each the card of another product that is active, in stock
  and in the language of the page; and no product appears twice when the ranking names none twice.
\<close>

theorem related_products_buyable:
  assumes "related_products cfg fetch slug lang limit d = Inr cards" "0 < limit" "cards_ok d"
    and "\<And>i l n ids. fetch i l n = Some ids \<Longrightarrow> distinct ids"
  shows "length cards \<le> limit \<and> distinct (map po_product_id cards)
    \<and> (\<forall>t o'. get_product_translation_by_slug slug lang d = Inr (Some t) \<and> o' \<in> set cards \<longrightarrow>
        (\<exists>c \<in> set (t_card d). buyable lang (pt_product_id t) c \<and> o' = card_to_out c))"
  by (rule related_all [OF assms])

theorem related_products_buyable_witness:
  "\<exists>cards. related_products (shop_settings\<lparr>search_backend := ''elastic''\<rparr>) (\<lambda>_ _ _. Some [2, 9]) ''ceas'' ''ro'' 4 opened_boutique = Inr cards
    \<and> cards \<noteq> [] \<and> length cards \<le> 4 \<and> distinct (map po_product_id cards)"
proof -
  let ?call = "related_products (shop_settings\<lparr>search_backend := ''elastic''\<rparr>) (\<lambda>_ _ _. Some [2, 9]) ''ceas'' ''ro'' 4 opened_boutique"
  have "(case ?call of Inl _ \<Rightarrow> None | Inr cards \<Rightarrow> Some (length cards)) = Some 1"
    unfolding opened_boutique_def by code_simp
  then obtain cards where run: "?call = Inr cards" "length cards = 1" by (auto split: sum.splits)
  have "length cards \<le> 4 \<and> distinct (map po_product_id cards)"
    using related_products_buyable [OF run(1) _ opened_cards_ok] by simp
  moreover have "cards \<noteq> []" using run(2) by auto
  ultimately show ?thesis using run(1) by blast
qed

end
