(* ===== verification/Back_Office_Properties.thy ===== *)
theory Back_Office_Properties
  imports Cards_Follow Variants_Correct Catalog_Properties
begin

text \<open>
  The properties of the catalogue back office, over sequences of calls as the endpoints run them: each
  in its own transaction, which is given up when the call fails.
\<close>

subsection \<open>The category tree\<close>

datatype category_call =
    New_Category category_create | Edit_Category int category_update | Move_Category int "int option"
  | Drop_Category int | Name_Category int category_translation_in | Order_Categories "(int \<times> int) list"

fun category_run :: "environment \<Rightarrow> category_call \<Rightarrow> unit act" where
  "category_run env (New_Category p) = void (create_category env p)"
| "category_run env (Edit_Category cid p) = void (update_category env cid p)"
| "category_run env (Move_Category cid parent) = void (move_category env cid parent)"
| "category_run env (Drop_Category cid) = delete_category cid"
| "category_run env (Name_Category cid t) = void (set_category_translation cid t)"
| "category_run env (Order_Categories items) = reorder_categories env items"

definition after_calls :: "(environment \<Rightarrow> 'c \<Rightarrow> unit act) \<Rightarrow> (environment \<times> 'c) list \<Rightarrow> session \<Rightarrow> session" where
  "after_calls run calls s = fold (\<lambda>(env, c) s. end_request (snd (run env c s))) calls s"

lemma after_calls_keep:
  assumes "\<And>env c s. I s \<Longrightarrow> I (end_request (snd (run env c s)))" "I s"
  shows "I (after_calls run calls s)"
  using assms(2) unfolding after_calls_def by (induction calls arbitrary: s) (auto simp: assms(1))









subsection \<open>The read model\<close>

datatype office_call =
    Create_Product product_create | Update_Product int product_update | Delete_Product int
  | Translate_Product int product_translation_in | Link_Values int "int list"
  | Add_Picture int upload_file | Delete_Picture int int | Order_Pictures int "int list" | Bind_Picture int int "int option"
  | Choose_Selectors int "int list" | Create_Variant int variant_create | Generate_Variants int
  | Update_Variant int variant_update | Delete_Variant int
  | Create_Attribute attribute_create | Update_Attribute int "string option" "(string \<times> string) list option"
  | Delete_Attribute int | Create_Value int "(string \<times> string) list" | Update_Value int "(string \<times> string) list option"
  | Delete_Value int

fun office_run :: "environment \<Rightarrow> office_call \<Rightarrow> unit act" where
  "office_run env (Create_Product p) = void (create_product env p)"
| "office_run env (Update_Product pid p) = void (update_product env pid p)"
| "office_run env (Delete_Product pid) = void (delete_product env pid)"
| "office_run env (Translate_Product pid t) = void (set_product_translation env pid t)"
| "office_run env (Link_Values pid ids) = void (set_product_attributes env pid ids)"
| "office_run env (Add_Picture pid f) = void (add_product_media env pid f)"
| "office_run env (Delete_Picture pid mid) = void (delete_product_media env pid mid)"
| "office_run env (Order_Pictures pid ids) = void (reorder_product_media env pid ids)"
| "office_run env (Bind_Picture pid mid vid) = void (bind_media_to_variant env pid mid vid)"
| "office_run env (Choose_Selectors pid ids) = void (set_variation_attributes env pid ids)"
| "office_run env (Create_Variant pid v) = void (create_variant env pid v)"
| "office_run env (Generate_Variants pid) = void (generate_variants env pid)"
| "office_run env (Update_Variant vid x) = void (update_variant env vid x)"
| "office_run env (Delete_Variant vid) = void (delete_variant env vid)"
| "office_run env (Create_Attribute a) = void (create_attribute a)"
| "office_run env (Update_Attribute aid code names) = void (update_attribute aid code names)"
| "office_run env (Delete_Attribute aid) = void (delete_attribute aid)"
| "office_run env (Create_Value aid ts) = void (create_attribute_value aid ts)"
| "office_run env (Update_Value vid ts) = void (update_attribute_value vid ts)"
| "office_run env (Delete_Value vid) = void (delete_attribute_value vid)"

lemma void_state: "snd (void m s) = snd (m s)"
  by (simp add: void_def bindM_app split: prod.split sum.split)

lemma held_end: "held pid s \<Longrightarrow> whole (end_request s)"
  by (simp add: held_def whole_def end_request_def office_keys_def both_def)

lemma whole_end: "whole s \<Longrightarrow> whole (end_request s)"
  by (simp add: whole_def end_request_def office_keys_def both_def)

lemma office_run_keeps:
  assumes "whole s"
  shows "whole (end_request (snd (office_run env c s)))"
proof -
  note held = whole_held [OF assms]
  have one: "whole (end_request (snd (m s)))" if "preserves (held pid) m" for pid and m :: "'a act"
    using that held held_end by (auto simp: preserves_def)
  have all: "whole (end_request (snd (m s)))" if "preserves whole m" for m :: "'a act"
    using that assms whole_end by (auto simp: preserves_def)
  have any: "whole (end_request (snd (m s)))" if "\<And>r s'. m s = (r, s') \<Longrightarrow> \<exists>pid. held pid s'" for m :: "'a act"
    using that [of "fst (m s)" "snd (m s)"] held_end by auto
  have pictures: "\<And>pid f r s'. add_product_media env pid f s = (r, s') \<Longrightarrow> \<exists>pid. held pid s'"
    "\<And>pid mid r s'. delete_product_media env pid mid s = (r, s') \<Longrightarrow> \<exists>pid. held pid s'"
    "\<And>pid ids r s'. reorder_product_media env pid ids s = (r, s') \<Longrightarrow> \<exists>pid. held pid s'"
    using held_add_media held_delete_media held_reorder_media assms by blast+
  show ?thesis
    by (cases c)
      (auto simp: void_state intro: one [OF held_update_product] one [OF held_delete_product] one [OF held_translation]
        one [OF held_bind_media] one [OF held_variation_attributes] one [OF held_create_variant] one [OF held_generate_variants]
        all [OF attribute_calls_whole(1)] all [OF attribute_calls_whole(2)] all [OF attribute_calls_whole(3)]
        all [OF attribute_calls_whole(4)] all [OF attribute_calls_whole(5)] all [OF attribute_calls_whole(6)]
        all [OF attribute_calls_whole(7)] any [OF held_create_product [OF _ assms]] any [OF held_update_variant [OF _ held]]
        any [OF held_delete_variant [OF _ held]] any [OF pictures(1)]
        any [OF pictures(2)] any [OF pictures(3)])
qed

text \<open>
  C23. Whatever sequence of product, variant, picture and attribute calls the back office makes, failing
  calls included, the read model follows: after it the cards of every product in the committed tables
  are exactly the projection of the product, its translations, its active variants and its first
  picture, and a product that is inactive or gone has none.
\<close>

theorem cards_follow_catalogue:
  assumes "whole s"
  shows "let d = committed (after_calls office_run calls s) in
    cards_of pid d = projection pid d \<and>
    ((\<forall>p. get_product pid d = Some p \<longrightarrow> \<not> p_is_active p) \<longrightarrow> cards_of pid d = [])"
proof -
  have "whole (after_calls office_run calls s)"
    by (rule after_calls_keep [where I = whole, OF office_run_keeps assms])
  then have "in_sync pid (committed (after_calls office_run calls s))" by (simp add: whole_def both_def synced_def)
  then show ?thesis by (auto simp: in_sync_def projection_def Let_def split: option.splits)
qed


text \<open>An empty shop with one category, in which a product is put up for sale, repriced, and loses a language in vain.\<close>

definition empty_shop :: session where
  "empty_shop = shop\<lparr>work := empty_db\<lparr>t_category := [category_row 1 None [1]]\<rparr>,
     committed := empty_db\<lparr>t_category := [category_row 1 None [1]]\<rparr>\<rparr>"

definition text_in :: "string \<Rightarrow> string \<Rightarrow> product_translation_in" where
  "text_in lang slug = \<lparr>ptn_lang = lang, ptn_name = slug, ptn_slug = slug, ptn_description = None, ptn_seo_title = None, ptn_seo_description = None\<rparr>"

definition new_lamp :: product_create where
  "new_lamp = \<lparr>pn_category_id = 1, pn_code = ''L1'', pn_price = 250, pn_old_price = None, pn_qty = 4, pn_weight_g = None,
     pn_is_active = True, pn_is_featured = False, pn_has_variants = False, pn_translations = [text_in ''ru'' ''lampa'', text_in ''ro'' ''lampa-ro'']\<rparr>"

definition no_change :: product_update where
  "no_change = \<lparr>px_category_id = None, px_code = None, px_price = None, px_old_price = None, px_qty = None, px_weight_g = None,
     px_is_active = None, px_is_featured = None, px_has_variants = None\<rparr>"

definition lamp_calls :: "(environment \<times> office_call) list" where
  "lamp_calls =
    (let lamp = pk_seq empty_shop Product_T in
      [(shop_env, Create_Product new_lamp), (shop_env, Update_Product lamp (no_change\<lparr>px_price := Some (Some 199), px_old_price := Some (Some 250)\<rparr>)),
       (shop_env, Update_Product lamp (no_change\<lparr>px_price := Some None\<rparr>)), (shop_env, Create_Product new_lamp)])"

lemma empty_shop_whole: "whole empty_shop"
  by (simp add: whole_def office_keys_def both_def keys_ok_def keys_below_def synced_def in_sync_def projection_def
      get_product_def cards_of_def empty_shop_def empty_db_def)

theorem cards_follow_catalogue_witness:
  "let d = committed (after_calls office_run lamp_calls empty_shop); lamp = pk_seq empty_shop Product_T in
    cards_of lamp d = projection lamp d \<and> map (\<lambda>c. (pc_lang c, pc_price c, pc_badge c)) (projection lamp d)
      = [(''ru'', 199, Some ''sale''), (''ro'', 199, Some ''sale'')]"
proof -
  have "map (\<lambda>c. (pc_lang c, pc_price c, pc_badge c)) (projection (pk_seq empty_shop Product_T) (committed (after_calls office_run lamp_calls empty_shop)))
      = [(''ru'', 199, Some ''sale''), (''ro'', 199, Some ''sale'')]"
    by code_simp
  then show ?thesis
    using cards_follow_catalogue [OF empty_shop_whole, of lamp_calls "pk_seq empty_shop Product_T"] unfolding Let_def by blast
qed

text \<open>
  Moving a category is the call that leaves the read model behind: the cards keep the old path, and with
  it their place in the lists and the counts of the old parents, until the product is next saved.
\<close>

lemma moved_cards_stale:
  "in_sync 1 opened_boutique \<and>
   \<not> in_sync 1 (committed (after_calls category_run [(shop_env, Move_Category 2 None), (shop_env, Move_Category 1 (Some 2))]
     (boutique\<lparr>work := opened_boutique, committed := opened_boutique\<rparr>)))"
  by code_simp

subsection \<open>Pictures\<close>

text \<open>
  C26. An accepted upload can be served: the picture opened and is within the size limits, the original
  is kept under the name in its URL, and under the names the storefront derives from that URL there
  is a WebP copy for every responsive width, never wider than the original; the URL is the storage's
  own, so that deleting by it removes the original.
\<close>

theorem upload_can_be_served:
  assumes "uuid_plain env" "upload_asset env f w = (Inr url, w')"
  shows "\<exists>b width height. get_storage (env_cfg env) = Inr b \<and> env_open_image env (uf_data f) = Opened width height True
    \<and> width \<le> MAX_UPLOAD_DIMENSION \<and> height \<le> MAX_UPLOAD_DIMENSION
    \<and> objects w' (media_key (env_cfg env) b (path_name url)) =
        Some (stored b (uf_data f) (text_or DEFAULT_CONTENT_TYPE (uf_content_type f)) MEDIA_CACHE_CONTROL)
    \<and> (\<forall>n \<in> set RESPONSIVE_WIDTHS. objects w' (media_key (env_cfg env) b (variant_object_name url n)) =
        Some (stored b (env_webp env (uf_data f) (min n width)) VARIANT_CONTENT_TYPE MEDIA_CACHE_CONTROL))
    \<and> (\<forall>w''. storage_delete env b url w' = (Inr (), w'') \<longrightarrow> objects w'' (media_key (env_cfg env) b (path_name url)) = None)"
proof -
  have "store_upload env (HTTPException 422 None) f w = (Inr url, w')"
    using assms(2) by (simp add: upload_asset_def Let_def split: if_splits)
  note kept = stored_upload [OF assms(1) this]
  have "objects w'' (media_key (env_cfg env) b (path_name url)) = None"
    if "storage_delete env b url w' = (Inr (), w'')" "path_name url \<noteq> []" for b w''
    using that by (auto simp: storage_delete_def Let_def delete_object_def store_call_def bindM_app split: if_splits)
  then show ?thesis using kept by fastforce
qed

definition snapshot :: upload_file where
  "snapshot = \<lparr>uf_filename = Some ''a/b.jpg'', uf_content_type = Some ''image/jpeg'', uf_size = Some 3, uf_data = ''jpg''\<rparr>"

lemma shop_uuid_plain: "uuid_plain shop_env"
proof -
  have "plain_name (nat_str n)" for n
  proof -
    have "nat_str n \<noteq> []" by (simp add: nat_str.simps [of n])
    moreover have "\<not> isdigit CHR ''/''" "\<not> isdigit CHR ''.''" by (simp_all add: isdigit_def)
    ultimately show ?thesis using nat_str_digits [of _ n] unfolding plain_name_def by blast
  qed
  then show ?thesis by (simp add: uuid_plain_def shop_env_def inj_def)
qed

theorem upload_can_be_served_witness:
  "\<exists>url w'. upload_asset shop_env snapshot (outside shop) = (Inr url, w')
    \<and> objects w' (media_key (env_cfg shop_env) LocalStorage (variant_object_name url 800))
      = Some \<lparr>so_data = ''jpg640'', so_content_type = None, so_cache_control = None\<rparr>"
proof -
  have url: "fst (upload_asset shop_env snapshot (outside shop)) = Inr ''/media/0.jpg''" by code_simp
  then obtain w' where run: "upload_asset shop_env snapshot (outside shop) = (Inr ''/media/0.jpg'', w')"
    by (cases "upload_asset shop_env snapshot (outside shop)") simp
  have b: "get_storage (env_cfg shop_env) = Inr LocalStorage" by code_simp
  have pic: "env_open_image shop_env (uf_data snapshot) = Opened 640 480 True" by code_simp
  have "objects w' (media_key (env_cfg shop_env) LocalStorage (variant_object_name ''/media/0.jpg'' 800))
      = Some (stored LocalStorage (env_webp shop_env (uf_data snapshot) (min 800 640)) VARIANT_CONTENT_TYPE MEDIA_CACHE_CONTROL)"
    using upload_can_be_served [OF shop_uuid_plain run] b pic by (auto simp: RESPONSIVE_WIDTHS_def)
  moreover have "stored LocalStorage (env_webp shop_env (uf_data snapshot) (min 800 640)) VARIANT_CONTENT_TYPE MEDIA_CACHE_CONTROL
      = \<lparr>so_data = ''jpg640'', so_content_type = None, so_cache_control = None\<rparr>" by code_simp
  ultimately show ?thesis using run by auto
qed

subsection \<open>Generated variants\<close>

text \<open>
  C25. Generating the variants of a product leaves one for every combination of the values assigned to
  its selector attributes, keeps the variants that were there, and reports exactly how many it made
  and how many it found; what it makes is active, at the price of the product and out of stock. A
  second run makes nothing.
\<close>

theorem generated_variants_complete:
  assumes "generate_variants env pid s = (Inr (created, skipped), s')" "links_below s"
  shows "let combos = cartesian (selected_values pid (work s)) in
    (\<forall>c \<in> set combos. combo_exists pid (set c) (work s')) \<and> length created + skipped = length combos \<and>
    t_variant (work s') = t_variant (work s) @ created \<and> committed s' = work s' \<and>
    (\<exists>p. get_product pid (work s) = Some p \<and>
      (\<forall>v \<in> set created. v_product_id v = pid \<and> v_price v = p_price p \<and> v_qty v = 0 \<and> v_is_active v)) \<and>
    (\<forall>env' created' skipped' s''. generate_variants env' pid s' = (Inr (created', skipped'), s'') \<longrightarrow>
      created' = [] \<and> skipped' = length combos)"
  using generate_complete [OF assms] generate_again [OF assms] unfolding generated_def Let_def by blast

definition colours_and_sizes :: session where
  "colours_and_sizes =
    (let d = boutique_db\<lparr>t_attribute_value := [\<lparr>av_id = 1, av_attribute_id = 10\<rparr>, \<lparr>av_id = 2, av_attribute_id = 10\<rparr>, \<lparr>av_id = 3, av_attribute_id = 20\<rparr>],
        t_product_attribute := map (\<lambda>i. \<lparr>pav_product_id = 1, pav_value_id = i\<rparr>) [1, 2, 3],
        t_product_variation_attribute := [\<lparr>pva_product_id = 1, pva_attribute_id = 10, pva_position = 0\<rparr>,
          \<lparr>pva_product_id = 1, pva_attribute_id = 20, pva_position = 1\<rparr>]\<rparr>
     in boutique\<lparr>work := d, committed := d\<rparr>)"

theorem generated_variants_complete_witness:
  "\<exists>created s'. generate_variants shop_env 1 colours_and_sizes = (Inr (created, 0), s') \<and> length created = 2 \<and>
    combo_exists 1 {1, 3} (work s') \<and> combo_exists 1 {2, 3} (work s')"
proof -
  have "map_sum id (\<lambda>(created, skipped). (length created, skipped)) (fst (generate_variants shop_env 1 colours_and_sizes)) = Inr (2, 0)"
    by code_simp
  then obtain created s' where run: "generate_variants shop_env 1 colours_and_sizes = (Inr (created, 0), s')" and n: "length created = 2"
    by (cases "generate_variants shop_env 1 colours_and_sizes"; cases "fst (generate_variants shop_env 1 colours_and_sizes)") auto
  have below: "links_below colours_and_sizes"
    by code_simp
  have combos: "cartesian (selected_values 1 (work colours_and_sizes)) = [[1, 3], [2, 3]]" by code_simp
  show ?thesis
    using generated_variants_complete [OF run below] run n unfolding Let_def combos by auto
qed

end
