(* ===== verification/Support_Chat.thy ===== *)
theory Support_Chat
  imports Media_Storage Catalog_Listing Order_Repo Auth_Service
begin

text \<open>
  The support desk: customers write to a Telegram bot, operators answer from an inbox. Modelled are
  \<open>core/telegram.py\<close> (what is read of an update), \<open>repositories/support_repo.py\<close>,
  \<open>services/support_service.py\<close>, \<open>core/support_events.py\<close> and the webhook
  \<open>api/routers/telegram.py\<close>; the operators' endpoints and the tasks are in \<open>Support_Desk\<close>.

  Telegram is the parameter \<open>env_tg_send\<close>: the id of the message sent, or \<open>None\<close> when aiogram raises.
  The fixed phrases of the source are Cyrillic and emoji, beyond the characters of the model: they are
  the fields of \<open>phrases\<close>, an argument, named after the literals. What a column cannot hold (a
  text where a number is expected, an integer beyond 64 bits) the driver refuses with \<open>DBAPIError\<close>;
  fractions and booleans sent as ids count as refused. A file id is kept as its text.
\<close>

record phrases =
  ph_photo :: string
  ph_clip :: string
  ph_document :: string
  ph_about_product :: string
  ph_after_product :: string
  ph_product :: string
  ph_product_end :: string
  ph_about_order :: string
  ph_order :: string
  ph_from_site :: string
  ph_hello_about :: string
  ph_ask :: string
  ph_hello :: string
  ph_client :: string
  ph_ping :: string

subsection \<open>Reading an update\<close>

record inbound_message =
  im_chat_id :: json
  im_message_id :: json
  im_text :: json
  im_customer_name :: "string option"
  im_customer_username :: json
  im_lang :: json
  im_attachment_file_id :: json
  im_attachment_kind :: "string option"
  im_attachment_name :: json

definition parse_document :: "json \<Rightarrow> exn + (json \<times> string \<times> json) option" where
  "parse_document message =
    bindE (jget ''document'' message) (\<lambda>doc.
    if \<not> is_obj doc then Inr None
    else
      bindE (jget ''file_id'' doc) (\<lambda>file_id.
      bindE (jget ''file_name'' doc) (\<lambda>name.
      Inr (if jtruthy file_id then Some (file_id, ''document'', name) else None))))"

definition parse_attachment :: "json \<Rightarrow> exn + (json \<times> string \<times> json) option" where
  "parse_attachment message =
    bindE (jget ''photo'' message) (\<lambda>photo.
    case photo of
      JArr (x # xs) \<Rightarrow>
        bindE (jget ''file_id'' (jor (last (x # xs)) (JObj []))) (\<lambda>file_id.
        if jtruthy file_id then Inr (Some (file_id, ''photo'', JNull)) else parse_document message)
    | _ \<Rightarrow> parse_document message)"

text \<open>\<open>" ".join(part for part in (..) if part).strip()\<close>: a truthy part must be a string.\<close>

fun name_parts_of :: "json list \<Rightarrow> exn + string list" where
  "name_parts_of [] = Inr []"
| "name_parts_of (j # js) =
    (if \<not> jtruthy j then name_parts_of js
     else case j of
       JStr s \<Rightarrow> bindE (name_parts_of js) (\<lambda>rest. Inr (s # rest))
     | _ \<Rightarrow> Inl (PyError ''TypeError''))"

definition display_name :: "json \<Rightarrow> exn + string option" where
  "display_name sender =
    bindE (jget ''first_name'' sender) (\<lambda>first.
    bindE (jget ''last_name'' sender) (\<lambda>last.
    bindE (name_parts_of [first, last]) (\<lambda>parts.
    let name = strip (join '' '' parts) in Inr (if name = [] then None else Some name))))"

definition parse_body :: "json \<Rightarrow> exn + (json \<times> json \<times> string option \<times> json) option" where
  "parse_body message =
    bindE (parse_attachment message) (\<lambda>attachment.
    bindE (jget ''text'' message) (\<lambda>text.
    case attachment of
      Some (file_id, kind, name) \<Rightarrow>
        bindE (jget ''caption'' message) (\<lambda>caption.
        Inr (Some (jor caption (JStr []), file_id, Some kind, name)))
    | None \<Rightarrow> Inr (if jtruthy text then Some (text, JNull, None, JNull) else None)))"

definition parse_inbound :: "json \<Rightarrow> exn + inbound_message option" where
  "parse_inbound update =
    bindE (jget ''message'' update) (\<lambda>message.
    if \<not> is_obj message then Inr None
    else
      bindE (jget ''chat'' message) (\<lambda>chat.
      bindE (jget ''id'' (jor chat (JObj []))) (\<lambda>chat_id.
      bindE (jget ''message_id'' message) (\<lambda>message_id.
      if chat_id = JNull \<or> message_id = JNull then Inr None
      else
        bindE (parse_body message) (\<lambda>body.
        case body of
          None \<Rightarrow> Inr None
        | Some (text, file_id, kind, name) \<Rightarrow>
            bindE (jget ''from'' message) (\<lambda>from.
            let sender = jor from (JObj []) in
            bindE (display_name sender) (\<lambda>customer.
            bindE (jget ''username'' sender) (\<lambda>username.
            bindE (jget ''language_code'' sender) (\<lambda>lang.
            Inr (Some \<lparr>im_chat_id = chat_id, im_message_id = message_id, im_text = text,
              im_customer_name = customer, im_customer_username = username, im_lang = lang,
              im_attachment_file_id = file_id, im_attachment_kind = kind, im_attachment_name = name\<rparr>))))))))))"

text \<open>\<open>secrets.compare_digest\<close> of two strings raises when one of them is not ASCII.\<close>

definition is_ascii :: "string \<Rightarrow> bool" where
  "is_ascii s \<longleftrightarrow> list_all (\<lambda>c. (of_char c :: nat) < 128) s"

definition compare_digest :: "string \<Rightarrow> string \<Rightarrow> exn + bool" where
  "compare_digest a b = (if is_ascii a \<and> is_ascii b then Inr (a = b) else Inl (PyError ''TypeError''))"

definition verify_webhook_secret :: "settings \<Rightarrow> string option \<Rightarrow> exn + bool" where
  "verify_webhook_secret cfg header_value =
    (case header_value of
      None \<Rightarrow> Inr False
    | Some v \<Rightarrow> if telegram_webhook_secret cfg = [] then Inr False else compare_digest v (telegram_webhook_secret cfg))"

subsection \<open>Telegram and the live inbox\<close>

text \<open>Without a token sending does nothing and returns \<open>None\<close>.\<close>

definition tg_send_message :: "environment \<Rightarrow> string \<Rightarrow> string \<Rightarrow> int option net" where
  "tg_send_message env chat text =
    (if telegram_bot_token (env_cfg env) = [] then ret None
     else
       bindM (gets tg_sent) (\<lambda>log.
       case env_tg_send env log chat text of
         None \<Rightarrow> throw (PyError ''TelegramAPIError'')
       | Some i \<Rightarrow>
           bindM (modify (\<lambda>w. w\<lparr>tg_sent := tg_sent w @ [(chat, text)]\<rparr>)) (\<lambda>_. ret (Some i))))"

definition publish_support_event :: "environment \<Rightarrow> int \<Rightarrow> string \<Rightarrow> unit act" where
  "publish_support_event env conversation_id kind =
    remote (redis_call env (modify (\<lambda>w. w\<lparr>events := events w @ [(conversation_id, kind)]\<rparr>)))"

definition support_event_payload :: "int \<times> string \<Rightarrow> json" where
  "support_event_payload e = JObj [(''conversation_id'', JInt (fst e)), (''kind'', JStr (snd e))]"

subsection \<open>Columns\<close>

definition db_int :: "json \<Rightarrow> exn + int" where
  "db_int j = (case j of JInt i \<Rightarrow> bindE (bind_bigint i) (\<lambda>_. Inr i) | _ \<Rightarrow> Inl (PyError ''DBAPIError''))"

definition db_text :: "json \<Rightarrow> exn + string option" where
  "db_text j = (case j of JNull \<Rightarrow> Inr None | JStr s \<Rightarrow> Inr (Some s) | _ \<Rightarrow> Inl (PyError ''DBAPIError''))"

text \<open>\<open>inbound.text.startswith(..)\<close>, the first use of a text: only a string has the method.\<close>

definition py_string :: "json \<Rightarrow> exn + string" where
  "py_string j = (case j of JStr s \<Rightarrow> Inr s | _ \<Rightarrow> Inl (PyError ''AttributeError''))"

subsection \<open>The repository\<close>

definition get_by_tg_chat_id :: "int \<Rightarrow> db \<Rightarrow> exn + support_conversation option" where
  "get_by_tg_chat_id chat d = scalar_one_or_none (filter (\<lambda>c. sc_tg_chat_id c = chat) (t_conversation d))"

definition get_conversation :: "int \<Rightarrow> db \<Rightarrow> support_conversation option" where
  "get_conversation cid d = find (\<lambda>c. sc_id c = cid) (t_conversation d)"

definition new_conversation :: "int \<Rightarrow> int \<Rightarrow> string option \<Rightarrow> string option \<Rightarrow> string option \<Rightarrow> instant \<Rightarrow> support_conversation" where
  "new_conversation i chat name username lang now = \<lparr>sc_id = i, sc_tg_chat_id = chat, sc_linked_order_id = None,
     sc_customer_name = name, sc_customer_username = username, sc_lang = lang, sc_status = ''open'',
     sc_unread_count = 0, sc_last_message_at = now, sc_created_at = now\<rparr>"

definition create_conversation :: "environment \<Rightarrow> int \<Rightarrow> inbound_message \<Rightarrow> support_conversation act" where
  "create_conversation env chat im =
    bindM (liftE (db_text (im_customer_username im))) (\<lambda>username.
    bindM (liftE (db_text (im_lang im))) (\<lambda>lang.
    bindM (next_id Conversation_T) (\<lambda>i.
    let c = new_conversation i chat (im_customer_name im) username lang (env_now env) in
    bindM (writes (\<lambda>d. d\<lparr>t_conversation := t_conversation d @ [c]\<rparr>)) (\<lambda>_.
    ret c))))"

definition set_conversation :: "int \<Rightarrow> (support_conversation \<Rightarrow> support_conversation) \<Rightarrow> db \<Rightarrow> db" where
  "set_conversation cid f d = d\<lparr>t_conversation := upd (\<lambda>c. sc_id c = cid) f (t_conversation d)\<rparr>"

definition set_message :: "int \<Rightarrow> (support_message \<Rightarrow> support_message) \<Rightarrow> db \<Rightarrow> db" where
  "set_message mid f d = d\<lparr>t_message := upd (\<lambda>m. sm_id m = mid) f (t_message d)\<rparr>"

record message_args =
  ma_conversation_id :: int
  ma_direction :: string
  ma_text :: string
  ma_tg_message_id :: "int option"
  ma_sender_staff_id :: "int option"
  ma_attachment_kind :: "string option"
  ma_attachment_name :: "string option"

definition plain_message :: "int \<Rightarrow> string \<Rightarrow> string \<Rightarrow> message_args" where
  "plain_message cid direction text = \<lparr>ma_conversation_id = cid, ma_direction = direction, ma_text = text,
     ma_tg_message_id = None, ma_sender_staff_id = None, ma_attachment_kind = None, ma_attachment_name = None\<rparr>"

definition new_message :: "int \<Rightarrow> instant \<Rightarrow> message_args \<Rightarrow> support_message" where
  "new_message i now a = \<lparr>sm_id = i, sm_conversation_id = ma_conversation_id a, sm_direction = ma_direction a,
     sm_text = ma_text a, sm_tg_message_id = ma_tg_message_id a, sm_sender_staff_id = ma_sender_staff_id a,
     sm_delivery = None, sm_attachment_kind = ma_attachment_kind a, sm_attachment_key = None,
     sm_attachment_name = ma_attachment_name a, sm_created_at = now\<rparr>"

text \<open>The foreign keys and checks of \<open>support_message\<close>.\<close>

definition message_row_ok :: "support_message \<Rightarrow> db \<Rightarrow> bool" where
  "message_row_ok m d \<longleftrightarrow> list_ex (\<lambda>c. sc_id c = sm_conversation_id m) (t_conversation d)
    \<and> (case sm_sender_staff_id m of None \<Rightarrow> True | Some u \<Rightarrow> list_ex (\<lambda>x. u_id x = u) (t_user d))
    \<and> sm_direction m \<in> {''in'', ''out''}
    \<and> (case sm_attachment_kind m of None \<Rightarrow> True | Some k \<Rightarrow> k \<in> {''photo'', ''document''})"

definition add_message :: "environment \<Rightarrow> message_args \<Rightarrow> int act" where
  "add_message env a =
    bindM (next_id Message_T) (\<lambda>i.
    let m = new_message i (env_now env) a in
    bindM (readsE (\<lambda>d. guardE (message_row_ok m d) (IntegrityError ''support_message''))) (\<lambda>_.
    bindM (writes (\<lambda>d. d\<lparr>t_message := t_message d @ [m]\<rparr>)) (\<lambda>_.
    ret i)))"

definition get_message :: "int \<Rightarrow> db \<Rightarrow> support_message option" where
  "get_message mid d = find (\<lambda>m. sm_id m = mid) (t_message d)"

definition message_exists :: "int \<Rightarrow> int \<Rightarrow> db \<Rightarrow> bool" where
  "message_exists cid tg d \<longleftrightarrow>
    list_ex (\<lambda>m. sm_conversation_id m = cid \<and> sm_tg_message_id m = Some tg) (t_message d)"

definition status_matches :: "string option \<Rightarrow> support_conversation \<Rightarrow> bool" where
  "status_matches status c \<longleftrightarrow> (case status of None \<Rightarrow> True | Some st \<Rightarrow> sc_status c = st)"

definition count_conversations :: "string option \<Rightarrow> db \<Rightarrow> nat" where
  "count_conversations status d = rowcount (status_matches status) (t_conversation d)"

definition list_conversations :: "string option \<Rightarrow> nat \<Rightarrow> nat \<Rightarrow> db \<Rightarrow> support_conversation list" where
  "list_conversations status offset limit d =
    take limit (drop offset (sort_key (\<lambda>c. - sc_last_message_at c) (filter (status_matches status) (t_conversation d))))"

definition messages_of :: "int \<Rightarrow> db \<Rightarrow> support_message list" where
  "messages_of cid d = filter (\<lambda>m. sm_conversation_id m = cid) (t_message d)"

definition get_thread :: "int \<Rightarrow> nat \<Rightarrow> nat \<Rightarrow> db \<Rightarrow> support_message list" where
  "get_thread cid offset limit d = take limit (drop offset (sort_key sm_created_at (messages_of cid d)))"

definition count_thread :: "int \<Rightarrow> db \<Rightarrow> nat" where
  "count_thread cid d = length (messages_of cid d)"

definition bumped :: "instant \<Rightarrow> bool \<Rightarrow> support_conversation \<Rightarrow> support_conversation" where
  "bumped now inbound c = c\<lparr>sc_last_message_at := now,
     sc_unread_count := (if inbound then sc_unread_count c + 1 else sc_unread_count c)\<rparr>"

definition bump_activity :: "environment \<Rightarrow> int \<Rightarrow> bool \<Rightarrow> unit act" where
  "bump_activity env cid inbound = writes (set_conversation cid (bumped (env_now env) inbound))"

definition repo_mark_read :: "int \<Rightarrow> unit act" where
  "repo_mark_read cid = writes (set_conversation cid (\<lambda>c. c\<lparr>sc_unread_count := 0\<rparr>))"

definition repo_set_status :: "int \<Rightarrow> string \<Rightarrow> support_conversation option act" where
  "repo_set_status cid status =
    bindM (reads (get_conversation cid)) (\<lambda>found.
    case found of
      None \<Rightarrow> ret None
    | Some c \<Rightarrow>
        bindM (writes (set_conversation cid (\<lambda>c. c\<lparr>sc_status := status\<rparr>))) (\<lambda>_.
        ret (Some (c\<lparr>sc_status := status\<rparr>))))"

definition set_linked_order :: "int \<Rightarrow> int option \<Rightarrow> support_conversation option act" where
  "set_linked_order cid oid =
    bindM (reads (get_conversation cid)) (\<lambda>found.
    case found of
      None \<Rightarrow> ret None
    | Some c \<Rightarrow>
        bindM (writes (set_conversation cid (\<lambda>c. c\<lparr>sc_linked_order_id := oid\<rparr>))) (\<lambda>_.
        ret (Some (c\<lparr>sc_linked_order_id := oid\<rparr>))))"

text \<open>Deleting conversations deletes their messages: the foreign key cascades.\<close>

definition drop_conversations :: "(support_conversation \<Rightarrow> bool) \<Rightarrow> db \<Rightarrow> db" where
  "drop_conversations P d = d\<lparr>t_conversation := filter (\<lambda>c. \<not> P c) (t_conversation d),
     t_message := filter (\<lambda>m. sm_conversation_id m \<notin> sc_id ` set (filter P (t_conversation d))) (t_message d)\<rparr>"

definition is_stale :: "instant \<Rightarrow> support_conversation \<Rightarrow> bool" where
  "is_stale cutoff c \<longleftrightarrow> sc_last_message_at c < cutoff"

definition attachment_keys :: "support_message list \<Rightarrow> string list" where
  "attachment_keys ms = List.map_filter sm_attachment_key ms"

definition attachment_keys_for_conversation :: "int \<Rightarrow> db \<Rightarrow> string list" where
  "attachment_keys_for_conversation cid d = attachment_keys (messages_of cid d)"

definition attachment_keys_stale :: "instant \<Rightarrow> db \<Rightarrow> string list" where
  "attachment_keys_stale cutoff d =
    attachment_keys (filter (\<lambda>m. sm_conversation_id m \<in> sc_id ` set (filter (is_stale cutoff) (t_conversation d))) (t_message d))"

definition delete_stale :: "instant \<Rightarrow> nat act" where
  "delete_stale cutoff =
    bindM (reads (\<lambda>d. rowcount (is_stale cutoff) (t_conversation d))) (\<lambda>n.
    bindM (writes (drop_conversations (is_stale cutoff))) (\<lambda>_.
    ret n))"

definition repo_delete_conversation :: "int \<Rightarrow> bool act" where
  "repo_delete_conversation cid =
    bindM (reads (\<lambda>d. rowcount (\<lambda>c. sc_id c = cid) (t_conversation d))) (\<lambda>n.
    bindM (writes (drop_conversations (\<lambda>c. sc_id c = cid))) (\<lambda>_.
    ret (n > 0)))"

subsection \<open>Messages from customers\<close>

record attachment_ref =
  ar_message_id :: int
  ar_conversation_id :: int
  ar_file_id :: string

record inbound_outcome =
  io_conversation_id :: "int option"
  io_notify_snippet :: string
  io_attachment :: "attachment_ref option"

definition dropped :: inbound_outcome where
  "dropped = \<lparr>io_conversation_id = None, io_notify_snippet = [], io_attachment = None\<rparr>"

text \<open>\<open>payload[1:].isdigit()\<close>, then \<open>int(..)\<close>, which the digits of a superscript or too many digits make raise.\<close>

definition all_digits :: "string \<Rightarrow> bool" where
  "all_digits s \<longleftrightarrow> s \<noteq> [] \<and> list_all isdigit s"

definition start_product_id :: "string \<Rightarrow> exn + int" where
  "start_product_id s =
    (if length s > 4300 then Inl (PyError ''ValueError'')
     else case py_int s of
       None \<Rightarrow> Inl (PyError ''ValueError'')
     | Some i \<Rightarrow> bindE (bind_bigint i) (\<lambda>_. Inr i))"

definition resolve_start_context ::
    "environment \<Rightarrow> phrases \<Rightarrow> string \<Rightarrow> string option \<Rightarrow> db \<Rightarrow> exn + string \<times> string option \<times> int option" where
  "resolve_start_context env ph payload lang d =
    (let resolved = str_or lang (default_lang (env_cfg env)) in
      if take 1 payload = ''p'' \<and> all_digits (drop 1 payload) then
        bindE (start_product_id (drop 1 payload)) (\<lambda>pid.
        bindE (get_card pid resolved d) (\<lambda>card.
        case card of
          None \<Rightarrow> Inr (ph_from_site ph, None, None)
        | Some c \<Rightarrow>
            let url = storefront_base_url (env_cfg env) @ ''/'' @ resolved @ ''/p/'' @ pc_slug c in
            Inr (ph_about_product ph @ pc_name c @ ph_after_product ph @ url,
                 Some (ph_product ph @ pc_name c @ ph_product_end ph), None)))
      else if take 1 payload = ''o'' \<and> length payload > 1 then
        bindE (get_order_by_number (drop 1 payload) d) (\<lambda>found.
        case found of
          None \<Rightarrow> Inr (ph_from_site ph, None, None)
        | Some x \<Rightarrow> Inr (ph_about_order ph @ o_number x, Some (ph_order ph @ o_number x), Some (o_id x)))
      else Inr (ph_from_site ph, None, None))"

definition start_greeting :: "phrases \<Rightarrow> string option \<Rightarrow> string" where
  "start_greeting ph name =
    (if truthy name then ph_hello_about ph @ the name @ ph_ask ph else ph_hello ph)"

text \<open>A failed send is a saved message with the badge \<open>failed\<close>: no exception of Telegram gets out.\<close>

definition deliver :: "environment \<Rightarrow> int \<Rightarrow> int \<Rightarrow> string \<Rightarrow> unit act" where
  "deliver env mid chat text =
    bindM (catchM (bindM (remote (tg_send_message env (int_str chat) text)) (\<lambda>tg. ret (tg, ''sent'')))
       (\<lambda>_. True) (\<lambda>_. ret (None, ''failed''))) (\<lambda>(tg, badge).
    writes (set_message mid (\<lambda>m. m\<lparr>sm_tg_message_id := tg, sm_delivery := Some badge\<rparr>)))"

definition is_fresh :: "bool \<Rightarrow> support_conversation \<Rightarrow> bool" where
  "is_fresh is_new conv \<longleftrightarrow> is_new \<or> sc_unread_count conv = 0"

text \<open>The command a deep link opens the chat with.\<close>

definition START_COMMAND :: string where "START_COMMAND = ''/start''"

definition handle_start :: "environment \<Rightarrow> phrases \<Rightarrow> support_conversation \<Rightarrow> bool \<Rightarrow> inbound_message \<Rightarrow> string \<Rightarrow> inbound_outcome act" where
  "handle_start env ph conv is_new im text =
    bindM (liftE (db_int (im_message_id im))) (\<lambda>tg.
    bindM (reads (message_exists (sc_id conv) tg)) (\<lambda>seen.
    if \<not> is_new \<and> seen then ret dropped
    else
      let payload = strip (drop (length START_COMMAND) text) in
      bindM (readsE (resolve_start_context env ph payload (sc_lang conv))) (\<lambda>(context, greeting_name, linked).
      bindM (add_message env ((plain_message (sc_id conv) ''in'' context)\<lparr>ma_tg_message_id := Some tg\<rparr>)) (\<lambda>_.
      bindM (bump_activity env (sc_id conv) True) (\<lambda>_.
      bindM (whenM (linked \<noteq> None) (bindM (set_linked_order (sc_id conv) linked) (\<lambda>_. ret ()))) (\<lambda>_.
      let greeting = start_greeting ph greeting_name in
      bindM (add_message env (plain_message (sc_id conv) ''out'' greeting)) (\<lambda>mid.
      bindM (deliver env mid (sc_tg_chat_id conv) greeting) (\<lambda>_.
      bindM commit (\<lambda>_.
      bindM (publish_support_event env (sc_id conv) ''inbound'') (\<lambda>_.
      ret \<lparr>io_conversation_id = Some (sc_id conv), io_notify_snippet = context, io_attachment = None\<rparr>))))))))))"

definition attachment_text :: "phrases \<Rightarrow> string \<Rightarrow> inbound_message \<Rightarrow> string" where
  "attachment_text ph caption im =
    (if caption \<noteq> [] then caption
     else if im_attachment_kind im = Some ''photo'' then ph_photo ph
     else ph_clip ph @ py_str (jor (im_attachment_name im) (JStr (ph_document ph))))"

definition handle_attachment :: "environment \<Rightarrow> phrases \<Rightarrow> support_conversation \<Rightarrow> bool \<Rightarrow> inbound_message \<Rightarrow> string \<Rightarrow> inbound_outcome act" where
  "handle_attachment env ph conv is_new im caption =
    (let text = attachment_text ph caption im; fresh = is_fresh is_new conv in
     bindM (liftE (db_int (im_message_id im))) (\<lambda>tg.
     bindM (liftE (db_text (im_attachment_name im))) (\<lambda>name.
     bindM (add_message env ((plain_message (sc_id conv) ''in'' text)\<lparr>ma_tg_message_id := Some tg,
       ma_attachment_kind := im_attachment_kind im, ma_attachment_name := name\<rparr>)) (\<lambda>mid.
     bindM (bump_activity env (sc_id conv) True) (\<lambda>_.
     bindM commit (\<lambda>_.
     bindM (publish_support_event env (sc_id conv) ''inbound'') (\<lambda>_.
     ret \<lparr>io_conversation_id = (if fresh then Some (sc_id conv) else None), io_notify_snippet = text,
       io_attachment = Some \<lparr>ar_message_id = mid, ar_conversation_id = sc_id conv,
         ar_file_id = py_str (im_attachment_file_id im)\<rparr>\<rparr>)))))))"

definition handle_text :: "environment \<Rightarrow> support_conversation \<Rightarrow> bool \<Rightarrow> inbound_message \<Rightarrow> string \<Rightarrow> inbound_outcome act" where
  "handle_text env conv is_new im text =
    (let fresh = is_fresh is_new conv in
     bindM (liftE (db_int (im_message_id im))) (\<lambda>tg.
     bindM (add_message env ((plain_message (sc_id conv) ''in'' text)\<lparr>ma_tg_message_id := Some tg\<rparr>)) (\<lambda>_.
     bindM (bump_activity env (sc_id conv) True) (\<lambda>_.
     bindM commit (\<lambda>_.
     bindM (publish_support_event env (sc_id conv) ''inbound'') (\<lambda>_.
     ret \<lparr>io_conversation_id = (if fresh then Some (sc_id conv) else None), io_notify_snippet = text,
       io_attachment = None\<rparr>))))))"

definition handle_new :: "environment \<Rightarrow> phrases \<Rightarrow> support_conversation \<Rightarrow> bool \<Rightarrow> inbound_message \<Rightarrow> inbound_outcome act" where
  "handle_new env ph conv is_new im =
    bindM (liftE (py_string (im_text im))) (\<lambda>text.
    if take (length START_COMMAND) text = START_COMMAND then handle_start env ph conv is_new im text
    else if im_attachment_kind im \<noteq> None then handle_attachment env ph conv is_new im text
    else handle_text env conv is_new im text)"

definition refreshed :: "string option \<Rightarrow> string option \<Rightarrow> string option \<Rightarrow> support_conversation \<Rightarrow> support_conversation" where
  "refreshed name username lang c = c\<lparr>sc_customer_name := name, sc_customer_username := username, sc_lang := lang\<rparr>"

text \<open>
  The snapshot of a known customer is changed in memory before the check for a re-delivery, and
  written when the message is: a re-delivered update writes nothing.
\<close>

definition refresh_snapshot :: "support_conversation \<Rightarrow> inbound_message \<Rightarrow> support_conversation act" where
  "refresh_snapshot conv im =
    bindM (liftE (db_text (im_customer_username im))) (\<lambda>username.
    bindM (liftE (db_text (im_lang im))) (\<lambda>lang.
    let f = refreshed (im_customer_name im) username lang in
    bindM (writes (set_conversation (sc_id conv) f)) (\<lambda>_.
    ret (f conv))))"

definition handle_inbound :: "environment \<Rightarrow> phrases \<Rightarrow> inbound_message \<Rightarrow> inbound_outcome act" where
  "handle_inbound env ph im =
    bindM (liftE (db_int (im_chat_id im))) (\<lambda>chat.
    bindM (readsE (get_by_tg_chat_id chat)) (\<lambda>found.
    case found of
      None \<Rightarrow> bindM (create_conversation env chat im) (\<lambda>conv. handle_new env ph conv True im)
    | Some conv \<Rightarrow>
        bindM (liftE (db_int (im_message_id im))) (\<lambda>tg.
        bindM (reads (message_exists (sc_id conv) tg)) (\<lambda>seen.
        if seen then ret dropped
        else bindM (refresh_snapshot conv im) (\<lambda>conv'. handle_new env ph conv' False im)))))"

subsection \<open>The webhook\<close>

text \<open>\<open>task.delay(..)\<close> outside any \<open>try\<close>: the broker being down is an exception.\<close>

definition delay :: "environment \<Rightarrow> message \<Rightarrow> unit act" where
  "delay env msg = (if env_broker_up env then enqueue env msg else throw (PyError ''OperationalError''))"

definition after_handling :: "environment \<Rightarrow> phrases \<Rightarrow> inbound_message \<Rightarrow> inbound_outcome \<Rightarrow> unit act" where
  "after_handling env ph im out =
    bindM (whenM (io_conversation_id out \<noteq> None \<and> telegram_staff_chat_id (env_cfg env) \<noteq> [])
      (let name = (if truthy (im_customer_name im) then the (im_customer_name im)
           else py_str (jor (im_customer_username im) (JStr (ph_client ph)))) in
       delay env (Notify_Staff (the (io_conversation_id out)) name (take 200 (io_notify_snippet out))))) (\<lambda>_.
    case io_attachment out of
      None \<Rightarrow> ret ()
    | Some a \<Rightarrow> delay env (Fetch_Attachment (ar_message_id a) (ar_conversation_id a) (ar_file_id a)))"

text \<open>The body is \<open>None\<close> when it is not JSON.\<close>

definition telegram_webhook :: "environment \<Rightarrow> phrases \<Rightarrow> web_request \<Rightarrow> json option \<Rightarrow> unit act" where
  "telegram_webhook env ph r body =
    bindM (remote (rate_limiter env (rate_limit_telegram (env_cfg env)) ''telegram'' r)) (\<lambda>_.
    bindM (liftE (verify_webhook_secret (env_cfg env) (header ''X-Telegram-Bot-Api-Secret-Token'' r))) (\<lambda>ok.
    if \<not> ok then throw (HTTPException 403 (Some ''forbidden''))
    else case body of
      None \<Rightarrow> ret ()
    | Some update \<Rightarrow>
        bindM (liftE (parse_inbound update)) (\<lambda>parsed.
        case parsed of
          None \<Rightarrow> ret ()
        | Some im \<Rightarrow> bindM (handle_inbound env ph im) (after_handling env ph im))))"

end
