(* ===== verification/Support_Desk.thy ===== *)
theory Support_Desk
  imports Support_Chat
begin

text \<open>
  The operators' side of the support desk: replies, statuses, order links, erasure and retention
  (\<open>services/support_service.py\<close>), canned answers, the metrics of \<open>repositories/support_repo.py\<close>,
  the endpoints of \<open>api/routers/admin_support.py\<close>, all behind \<open>current_staff\<close>, and the tasks of
  \<open>tasks/support.py\<close>. A task that raises is run again by Celery, which the model shows as another
  run. Averages are exact rationals; days are counted from the epoch, in UTC.
\<close>

subsection \<open>Replies, statuses, links\<close>

definition support_reply :: "environment \<Rightarrow> int \<Rightarrow> int \<Rightarrow> string \<Rightarrow> int act" where
  "support_reply env cid staff_id text =
    bindM (reads (get_conversation cid)) (\<lambda>found.
    case found of
      None \<Rightarrow> throw (ConversationNotFoundError cid)
    | Some conv \<Rightarrow>
        bindM (add_message env ((plain_message (sc_id conv) ''out'' text)\<lparr>ma_sender_staff_id := Some staff_id\<rparr>)) (\<lambda>mid.
        bindM (deliver env mid (sc_tg_chat_id conv) text) (\<lambda>_.
        bindM (bump_activity env (sc_id conv) False) (\<lambda>_.
        bindM (repo_mark_read (sc_id conv)) (\<lambda>_.
        bindM commit (\<lambda>_.
        bindM (publish_support_event env (sc_id conv) ''outbound'') (\<lambda>_.
        ret mid)))))))"

definition support_set_status :: "environment \<Rightarrow> int \<Rightarrow> string \<Rightarrow> support_conversation act" where
  "support_set_status env cid status =
    bindM (repo_set_status cid status) (\<lambda>found.
    case found of
      None \<Rightarrow> throw (ConversationNotFoundError cid)
    | Some conv \<Rightarrow>
        bindM commit (\<lambda>_.
        bindM (publish_support_event env (sc_id conv) ''status'') (\<lambda>_.
        ret conv)))"

definition support_link_order :: "int \<Rightarrow> string \<Rightarrow> order act" where
  "support_link_order cid order_number =
    bindM (readsE (get_order_by_number order_number)) (\<lambda>found.
    case found of
      None \<Rightarrow> throw SupportOrderNotFoundError
    | Some x \<Rightarrow>
        bindM (set_linked_order cid (Some (o_id x))) (\<lambda>conv.
        case conv of
          None \<Rightarrow> throw (ConversationNotFoundError cid)
        | Some _ \<Rightarrow> bindM commit (\<lambda>_. ret x)))"

definition support_unlink_order :: "int \<Rightarrow> unit act" where
  "support_unlink_order cid =
    bindM (set_linked_order cid None) (\<lambda>conv.
    case conv of None \<Rightarrow> throw (ConversationNotFoundError cid) | Some _ \<Rightarrow> commit)"

definition get_linked_order :: "support_conversation \<Rightarrow> db \<Rightarrow> exn + order option" where
  "get_linked_order conv d =
    (case sc_linked_order_id conv of None \<Rightarrow> Inr None | Some i \<Rightarrow> get_order_by_id i d)"

definition support_mark_read :: "int \<Rightarrow> unit act" where
  "support_mark_read cid = bindM (repo_mark_read cid) (\<lambda>_. commit)"

subsection \<open>Erasure and retention\<close>

text \<open>The rows are gone before the objects are removed; an object that cannot be removed is passed over.\<close>

definition remove_attachment_keys :: "environment \<Rightarrow> string list \<Rightarrow> unit act" where
  "remove_attachment_keys env ks =
    bindM (liftE (get_storage (env_cfg env))) (\<lambda>b.
    forEach ks (\<lambda>k. catchM (remote (remove_key env b k)) (\<lambda>_. True) (\<lambda>_. ret ())))"

definition purge_stale :: "environment \<Rightarrow> int \<Rightarrow> nat act" where
  "purge_stale env retention_days =
    (let cutoff = env_now env - retention_days * 86400000000 in
     bindM (reads (attachment_keys_stale cutoff)) (\<lambda>ks.
     bindM (delete_stale cutoff) (\<lambda>deleted.
     bindM commit (\<lambda>_.
     bindM (remove_attachment_keys env ks) (\<lambda>_.
     ret deleted)))))"

definition delete_conversation :: "environment \<Rightarrow> int \<Rightarrow> unit act" where
  "delete_conversation env cid =
    bindM (reads (attachment_keys_for_conversation cid)) (\<lambda>ks.
    bindM (repo_delete_conversation cid) (\<lambda>deleted.
    if \<not> deleted then throw (ConversationNotFoundError cid)
    else
      bindM commit (\<lambda>_.
      bindM (remove_attachment_keys env ks) (\<lambda>_.
      publish_support_event env cid ''status''))))"

text \<open>\<open>set_attachment_key\<close>, which nothing in the source calls.\<close>

definition set_attachment_key :: "int \<Rightarrow> string \<Rightarrow> unit act" where
  "set_attachment_key mid key =
    bindM (reads (get_message mid)) (\<lambda>found.
    case found of
      None \<Rightarrow> ret ()
    | Some _ \<Rightarrow> bindM (writes (set_message mid (\<lambda>m. m\<lparr>sm_attachment_key := Some key\<rparr>))) (\<lambda>_. commit))"

subsection \<open>Tasks\<close>

definition purge_stale_conversations :: "environment \<Rightarrow> nat act" where
  "purge_stale_conversations env = purge_stale env (support_retention_days (env_cfg env))"

definition notify_staff :: "environment \<Rightarrow> phrases \<Rightarrow> int \<Rightarrow> string \<Rightarrow> string \<Rightarrow> unit net" where
  "notify_staff env ph conversation_id name snippet =
    (if telegram_bot_token (env_cfg env) = [] \<or> telegram_staff_chat_id (env_cfg env) = [] then ret ()
     else
       let nl = [char_of (10 :: nat)]; admin_url = storefront_base_url (env_cfg env) @ ''/admin/support'' in
       bindM (tg_send_message env (telegram_staff_chat_id (env_cfg env))
         (ph_ping ph @ name @ '':'' @ nl @ snippet @ nl @ nl @ admin_url)) (\<lambda>_. ret ()))"

definition download_file_isolated :: "environment \<Rightarrow> string \<Rightarrow> (string \<times> string) option net" where
  "download_file_isolated env file_id =
    (if telegram_bot_token (env_cfg env) = [] then ret None
     else case env_tg_file env file_id of
       None \<Rightarrow> throw (PyError ''TelegramAPIError'')
     | Some (data, ext) \<Rightarrow> ret (Some (data, ext)))"

text \<open>\<open>guess_type\<close> is the table of \<open>mimetypes\<close>.\<close>

definition fetch_attachment :: "environment \<Rightarrow> (string \<Rightarrow> string option) \<Rightarrow> int \<Rightarrow> int \<Rightarrow> string \<Rightarrow> unit act" where
  "fetch_attachment env guess_type mid cid file_id =
    (if telegram_bot_token (env_cfg env) = [] then ret ()
     else
       bindM (remote (download_file_isolated env file_id)) (\<lambda>downloaded.
       case downloaded of
         None \<Rightarrow> ret ()
       | Some (data, ext) \<Rightarrow>
           let content_type = text_or DEFAULT_CONTENT_TYPE (guess_type (''x'' @ ext)) in
           bindM (remote (support_attachment_key env cid ext)) (\<lambda>key.
           bindM (liftE (get_storage (env_cfg env))) (\<lambda>b.
           bindM (remote (put_key env b key data content_type)) (\<lambda>_.
           bindM (reads (get_message mid)) (\<lambda>found.
           whenM (found \<noteq> None)
             (bindM (writes (set_message mid (\<lambda>m. m\<lparr>sm_attachment_key := Some key\<rparr>))) (\<lambda>_. commit))))))))"

subsection \<open>Canned answers\<close>

record canned_in =
  ki_title :: string
  ki_text :: string
  ki_lang :: string
  ki_sort_order :: int

definition length_between :: "nat \<Rightarrow> nat \<Rightarrow> string \<Rightarrow> bool" where
  "length_between lo hi s \<longleftrightarrow> lo \<le> length s \<and> length s \<le> hi"

definition canned_valid :: "canned_in \<Rightarrow> exn + unit" where
  "canned_valid p = guardE (length_between 1 100 (ki_title p) \<and> length_between 1 4096 (ki_text p)
      \<and> ki_lang p \<in> {''ro'', ''ru''}) (HTTPException 422 (Some ''validation_error''))"

definition list_canned :: "string option \<Rightarrow> db \<Rightarrow> support_canned_response list" where
  "list_canned lang d = sort_key (\<lambda>c. (cn_sort_order c, cn_id c))
    (filter (\<lambda>c. case lang of None \<Rightarrow> True | Some l \<Rightarrow> cn_lang c = l) (t_canned d))"

definition get_canned :: "int \<Rightarrow> db \<Rightarrow> support_canned_response option" where
  "get_canned i d = find (\<lambda>c. cn_id c = i) (t_canned d)"

definition create_canned :: "environment \<Rightarrow> canned_in \<Rightarrow> support_canned_response act" where
  "create_canned env p =
    bindM (next_id Canned_T) (\<lambda>i.
    let c = \<lparr>cn_id = i, cn_title = ki_title p, cn_lang = ki_lang p, cn_sort_order = ki_sort_order p,
             cn_text = ki_text p, cn_created_at = env_now env\<rparr> in
    bindM (writes (\<lambda>d. d\<lparr>t_canned := t_canned d @ [c]\<rparr>)) (\<lambda>_.
    bindM commit (\<lambda>_.
    ret c)))"

definition update_canned :: "int \<Rightarrow> canned_in \<Rightarrow> support_canned_response act" where
  "update_canned i p =
    bindM (reads (get_canned i)) (\<lambda>found.
    case found of
      None \<Rightarrow> throw (CannedNotFoundError i)
    | Some c \<Rightarrow>
        let f = (\<lambda>c. c\<lparr>cn_title := ki_title p, cn_text := ki_text p, cn_lang := ki_lang p, cn_sort_order := ki_sort_order p\<rparr>) in
        bindM (writes (\<lambda>d. d\<lparr>t_canned := upd (\<lambda>c. cn_id c = i) f (t_canned d)\<rparr>)) (\<lambda>_.
        bindM commit (\<lambda>_.
        ret (f c))))"

definition delete_canned :: "int \<Rightarrow> unit act" where
  "delete_canned i =
    bindM (reads (\<lambda>d. rowcount (\<lambda>c. cn_id c = i) (t_canned d))) (\<lambda>n.
    bindM (writes (\<lambda>d. d\<lparr>t_canned := filter (\<lambda>c. cn_id c \<noteq> i) (t_canned d)\<rparr>)) (\<lambda>_.
    if n = 0 then throw (CannedNotFoundError i) else commit))"

subsection \<open>Metrics\<close>

record support_metrics =
  mt_total :: nat
  mt_new_in_period :: nat
  mt_open :: nat
  mt_pending :: nat
  mt_closed :: nat
  mt_unanswered :: nat
  mt_avg_first_response_seconds :: "rat option"
  mt_series :: "(int \<times> nat) list"
  mt_days :: int

definition count_status :: "string \<Rightarrow> db \<Rightarrow> nat" where
  "count_status st d = rowcount (\<lambda>c. sc_status c = st) (t_conversation d)"

text \<open>The direction of the last message: the latest instant, and among those the highest id.\<close>

definition last_direction :: "int \<Rightarrow> db \<Rightarrow> string option" where
  "last_direction cid d =
    (case sort_key (\<lambda>m. (- sm_created_at m, - sm_id m)) (messages_of cid d) of [] \<Rightarrow> None | m # _ \<Rightarrow> Some (sm_direction m))"

definition unanswered_count :: "db \<Rightarrow> nat" where
  "unanswered_count d =
    rowcount (\<lambda>c. sc_status c \<noteq> ''closed'' \<and> last_direction (sc_id c) d = Some ''in'') (t_conversation d)"

definition first_time :: "(support_message \<Rightarrow> bool) \<Rightarrow> int \<Rightarrow> db \<Rightarrow> instant option" where
  "first_time P cid d =
    (case map sm_created_at (filter P (messages_of cid d)) of [] \<Rightarrow> None | t # ts \<Rightarrow> Some (fold min ts t))"

definition first_response :: "db \<Rightarrow> support_conversation \<Rightarrow> rat option" where
  "first_response d c =
    (case (first_time (\<lambda>m. sm_direction m = ''in'') (sc_id c) d,
           first_time (\<lambda>m. sm_direction m = ''out'' \<and> sm_sender_staff_id m \<noteq> None) (sc_id c) d) of
      (Some t_in, Some t_out) \<Rightarrow> if t_out \<ge> t_in then Some (of_int (t_out - t_in) / 1000000) else None
    | _ \<Rightarrow> None)"

definition avg_first_response_seconds :: "instant \<Rightarrow> db \<Rightarrow> rat option" where
  "avg_first_response_seconds cutoff d =
    (let xs = List.map_filter (first_response d) (filter (\<lambda>c. sc_created_at c \<ge> cutoff) (t_conversation d)) in
      if xs = [] then None else Some (sum_list xs / of_nat (length xs)))"

definition day_of :: "instant \<Rightarrow> int" where
  "day_of t = t div 86400000000"

definition new_conversations_series :: "instant \<Rightarrow> db \<Rightarrow> (int \<times> nat) list" where
  "new_conversations_series cutoff d =
    (let days = map (\<lambda>c. day_of (sc_created_at c)) (filter (\<lambda>c. sc_created_at c \<ge> cutoff) (t_conversation d)) in
      map (\<lambda>x. (x, count_list days x)) (sort (remdups days)))"

definition support_metrics_of :: "environment \<Rightarrow> int \<Rightarrow> db \<Rightarrow> support_metrics" where
  "support_metrics_of env days d =
    (let cutoff = env_now env - days * 86400000000 in
      \<lparr>mt_total = length (t_conversation d),
       mt_new_in_period = rowcount (\<lambda>c. sc_created_at c \<ge> cutoff) (t_conversation d),
       mt_open = count_status ''open'' d, mt_pending = count_status ''pending'' d,
       mt_closed = count_status ''closed'' d, mt_unanswered = unanswered_count d,
       mt_avg_first_response_seconds = avg_first_response_seconds cutoff d,
       mt_series = new_conversations_series cutoff d, mt_days = days\<rparr>)"

subsection \<open>Endpoints\<close>

definition INBOX_PAGE_SIZE :: nat where "INBOX_PAGE_SIZE = 20"
definition THREAD_PAGE_SIZE :: nat where "THREAD_PAGE_SIZE = 50"

definition valid_or_422 :: "bool \<Rightarrow> unit act" where
  "valid_or_422 ok = whenM (\<not> ok) (throw (HTTPException 422 (Some ''validation_error'')))"

definition page_valid :: "int \<Rightarrow> bool" where
  "page_valid page \<longleftrightarrow> 1 \<le> page \<and> page \<le> 10000"

definition page_offset :: "int \<Rightarrow> nat \<Rightarrow> nat" where
  "page_offset page page_size = nat (page - 1) * page_size"

definition list_conversations_endpoint ::
    "environment \<Rightarrow> web_request \<Rightarrow> string option \<Rightarrow> int \<Rightarrow> (support_conversation list \<times> nat) act" where
  "list_conversations_endpoint env r status page =
    bindM (current_staff env r) (\<lambda>_.
    bindM (valid_or_422 (page_valid page)) (\<lambda>_.
    bindM (reads (list_conversations status (page_offset page INBOX_PAGE_SIZE) INBOX_PAGE_SIZE)) (\<lambda>rows.
    bindM (reads (count_conversations status)) (\<lambda>total.
    ret (rows, total)))))"

definition metrics_endpoint :: "environment \<Rightarrow> web_request \<Rightarrow> int \<Rightarrow> support_metrics act" where
  "metrics_endpoint env r days =
    bindM (current_staff env r) (\<lambda>_.
    bindM (valid_or_422 (1 \<le> days \<and> days \<le> 365)) (\<lambda>_.
    reads (support_metrics_of env days)))"

record message_out =
  mo_id :: int
  mo_direction :: string
  mo_text :: string
  mo_delivery :: "string option"
  mo_sender_staff_id :: "int option"
  mo_created_at :: instant
  mo_attachment_kind :: "string option"
  mo_attachment_ready :: bool

definition to_message_out :: "support_message \<Rightarrow> message_out" where
  "to_message_out m = \<lparr>mo_id = sm_id m, mo_direction = sm_direction m, mo_text = sm_text m, mo_delivery = sm_delivery m,
     mo_sender_staff_id = sm_sender_staff_id m, mo_created_at = sm_created_at m,
     mo_attachment_kind = sm_attachment_kind m, mo_attachment_ready = (sm_attachment_key m \<noteq> None)\<rparr>"

record thread_out =
  th_conversation :: support_conversation
  th_data :: "message_out list"
  th_total :: nat
  th_linked_order :: "order option"

definition get_conversation_endpoint :: "environment \<Rightarrow> web_request \<Rightarrow> int \<Rightarrow> int \<Rightarrow> thread_out act" where
  "get_conversation_endpoint env r cid page =
    bindM (current_staff env r) (\<lambda>_.
    bindM (valid_or_422 (page_valid page)) (\<lambda>_.
    bindM (reads (get_conversation cid)) (\<lambda>found.
    bindM (whenM (found = None) (throw (HTTPException 404 (Some ''not_found'')))) (\<lambda>_.
    bindM (support_mark_read cid) (\<lambda>_.
    bindM (reads (get_conversation cid)) (\<lambda>again.
    bindM (reads (get_thread cid (page_offset page THREAD_PAGE_SIZE) THREAD_PAGE_SIZE)) (\<lambda>ms.
    bindM (reads (count_thread cid)) (\<lambda>total.
    bindM (readsE (get_linked_order (the again))) (\<lambda>linked.
    ret \<lparr>th_conversation = the again, th_data = map to_message_out ms, th_total = total, th_linked_order = linked\<rparr>)))))))))"

text \<open>The bytes, their type, and the file name of the \<open>Content-Disposition\<close> header, if it is sent.\<close>

definition get_attachment_endpoint ::
    "environment \<Rightarrow> (string \<Rightarrow> string option) \<Rightarrow> web_request \<Rightarrow> int \<Rightarrow> int \<Rightarrow> (string \<times> string \<times> string option) act" where
  "get_attachment_endpoint env guess_type r cid mid =
    bindM (current_staff env r) (\<lambda>_.
    bindM (reads (get_message mid)) (\<lambda>found.
    case found of
      None \<Rightarrow> throw (HTTPException 404 (Some ''not_found''))
    | Some m \<Rightarrow>
        if sm_conversation_id m \<noteq> cid \<or> sm_attachment_key m = None then throw (HTTPException 404 (Some ''not_found''))
        else
          bindM (liftE (get_storage (env_cfg env))) (\<lambda>b.
          bindM (remote (fetch_key env guess_type b (the (sm_attachment_key m)))) (\<lambda>fetched.
          case fetched of
            None \<Rightarrow> throw (HTTPException 404 (Some ''not_found''))
          | Some (data, content_type) \<Rightarrow>
              ret (data, content_type, if truthy (sm_attachment_name m) then sm_attachment_name m else None)))))"

definition reply_endpoint :: "environment \<Rightarrow> web_request \<Rightarrow> int \<Rightarrow> string \<Rightarrow> message_out act" where
  "reply_endpoint env r cid text =
    bindM (current_staff env r) (\<lambda>staff.
    bindM (valid_or_422 (length_between 1 4096 text)) (\<lambda>_.
    bindM (support_reply env cid (u_id staff) text) (\<lambda>mid.
    reads (\<lambda>d. to_message_out (the (get_message mid d))))))"

definition SUPPORT_STATUSES :: "string list" where
  "SUPPORT_STATUSES = [''open'', ''pending'', ''closed'']"

definition set_status_endpoint :: "environment \<Rightarrow> web_request \<Rightarrow> int \<Rightarrow> string \<Rightarrow> support_conversation act" where
  "set_status_endpoint env r cid status =
    bindM (current_staff env r) (\<lambda>_.
    bindM (valid_or_422 (status \<in> set SUPPORT_STATUSES)) (\<lambda>_.
    support_set_status env cid status))"

definition link_order_endpoint :: "environment \<Rightarrow> web_request \<Rightarrow> int \<Rightarrow> string \<Rightarrow> order act" where
  "link_order_endpoint env r cid order_number =
    bindM (current_staff env r) (\<lambda>_.
    bindM (valid_or_422 (length_between 1 64 order_number)) (\<lambda>_.
    support_link_order cid order_number))"

definition unlink_order_endpoint :: "environment \<Rightarrow> web_request \<Rightarrow> int \<Rightarrow> unit act" where
  "unlink_order_endpoint env r cid = bindM (current_staff env r) (\<lambda>_. support_unlink_order cid)"

definition delete_conversation_endpoint :: "environment \<Rightarrow> web_request \<Rightarrow> int \<Rightarrow> unit act" where
  "delete_conversation_endpoint env r cid = bindM (current_staff env r) (\<lambda>_. delete_conversation env cid)"

definition list_canned_endpoint :: "environment \<Rightarrow> web_request \<Rightarrow> string option \<Rightarrow> support_canned_response list act" where
  "list_canned_endpoint env r lang = bindM (current_staff env r) (\<lambda>_. reads (list_canned lang))"

definition create_canned_endpoint :: "environment \<Rightarrow> web_request \<Rightarrow> canned_in \<Rightarrow> support_canned_response act" where
  "create_canned_endpoint env r p =
    bindM (current_staff env r) (\<lambda>_. bindM (liftE (canned_valid p)) (\<lambda>_. create_canned env p))"

definition update_canned_endpoint :: "environment \<Rightarrow> web_request \<Rightarrow> int \<Rightarrow> canned_in \<Rightarrow> support_canned_response act" where
  "update_canned_endpoint env r i p =
    bindM (current_staff env r) (\<lambda>_. bindM (liftE (canned_valid p)) (\<lambda>_. update_canned i p))"

definition delete_canned_endpoint :: "environment \<Rightarrow> web_request \<Rightarrow> int \<Rightarrow> unit act" where
  "delete_canned_endpoint env r i = bindM (current_staff env r) (\<lambda>_. delete_canned i)"

end
