(* ===== verification/Support_Correct.thy ===== *)
theory Support_Correct
  imports Support_Desk
begin

text \<open>
  The support desk over any sequence of updates, replies and tasks. Each call commits at most
  one step: a message filed under its conversation, an answer, or the end of a conversation.
\<close>

subsection \<open>One call, as a change of the tables\<close>

lemma tg_send_frame:
  "tg_send_message env chat text w = (r, w') \<Longrightarrow> \<exists>log. w' = w\<lparr>tg_sent := log\<rparr>"
  by (cases w) (auto simp: tg_send_message_def bindM_app split: option.splits if_splits)

definition tg_outcome :: "environment \<Rightarrow> string \<Rightarrow> string \<Rightarrow> outside \<Rightarrow> int option \<times> string" where
  "tg_outcome env chat text w = (case fst (tg_send_message env chat text w) of Inl _ \<Rightarrow> (None, ''failed'') | Inr tg \<Rightarrow> (tg, ''sent''))"

lemma tg_outcome_badge: "snd (tg_outcome env chat text w) \<in> {''sent'', ''failed''}"
  by (simp add: tg_outcome_def split: sum.splits)

definition badged :: "int option \<times> string \<Rightarrow> support_message \<Rightarrow> support_message" where
  "badged x m = m\<lparr>sm_tg_message_id := fst x, sm_delivery := Some (snd x)\<rparr>"

lemma deliver_app:
  "deliver env mid chat text s =
    (Inr (), s\<lparr>outside := snd (tg_send_message env (int_str chat) text (outside s)),
      work := set_message mid (badged (tg_outcome env (int_str chat) text (outside s))) (work s)\<rparr>)"
  by (simp add: deliver_def bindM_app catchM_def remote_def tg_outcome_def badged_def [abs_def] split: prod.splits sum.splits)

lemma publish_frame:
  "publish_support_event env cid kind s = (r, s') \<Longrightarrow>
    work s' = work s \<and> committed s' = committed s \<and> pk_seq s' = pk_seq s \<and> outbox s' = outbox s \<and>
    (env_cache_up env \<longrightarrow> r = Inr () \<and> s' = s\<lparr>outside := (outside s)\<lparr>events := events (outside s) @ [(cid, kind)]\<rparr>\<rparr>) \<and>
    (\<not> env_cache_up env \<longrightarrow> r = Inl (PyError ''ConnectionError'') \<and> s' = s)"
  by (auto simp: publish_support_event_def redis_call_def remote_def split: if_splits)

lemma set_message_other: "\<forall>m \<in> set ms. sm_id m \<noteq> i \<Longrightarrow> upd (\<lambda>m. sm_id m = i) f ms = ms"
  by (rule upd_none) auto

text \<open>
  Filing: messages \<open>ms\<close> are appended and their conversation is changed by \<open>g\<close>, which leaves its identity
  alone.
\<close>

definition same_conversation :: "(support_conversation \<Rightarrow> support_conversation) \<Rightarrow> bool" where
  "same_conversation g \<longleftrightarrow> (\<forall>c. sc_id (g c) = sc_id c \<and> sc_tg_chat_id (g c) = sc_tg_chat_id c)"

definition file_messages :: "int \<Rightarrow> (support_conversation \<Rightarrow> support_conversation) \<Rightarrow> support_message list \<Rightarrow> db \<Rightarrow> db" where
  "file_messages cid g ms d = d\<lparr>t_conversation := upd (\<lambda>c. sc_id c = cid) g (t_conversation d), t_message := t_message d @ ms\<rparr>"

lemma file_messages_tables [simp]:
  "t_conversation (file_messages cid g ms d) = upd (\<lambda>c. sc_id c = cid) g (t_conversation d)"
  "t_message (file_messages cid g ms d) = t_message d @ ms"
  by (simp_all add: file_messages_def)


text \<open>The message of the customer, first, and after a \<open>/start\<close> the greeting, which carries its badge.\<close>

definition filing :: "int \<Rightarrow> int \<Rightarrow> int \<Rightarrow> instant \<Rightarrow> support_message list \<Rightarrow> bool" where
  "filing cid tg k now ms \<longleftrightarrow> (\<exists>m rest. ms = m # rest \<and> sm_id m = k \<and> sm_conversation_id m = cid \<and> sm_direction m = ''in''
    \<and> sm_tg_message_id m = Some tg \<and> sm_delivery m = None \<and> sm_created_at m = now
    \<and> (rest = [] \<or> (\<exists>a. rest = [a] \<and> sm_id a = k + 1 \<and> sm_conversation_id a = cid \<and> sm_direction a = ''out''
          \<and> sm_delivery a \<in> {Some ''sent'', Some ''failed''})))"

definition bumps :: "instant \<Rightarrow> (support_conversation \<Rightarrow> support_conversation) \<Rightarrow> bool" where
  "bumps now g \<longleftrightarrow> same_conversation g \<and> (\<forall>c. sc_unread_count (g c) = sc_unread_count c + 1 \<and> sc_last_message_at (g c) = now)"

definition untouched :: "session \<Rightarrow> session \<Rightarrow> bool" where
  "untouched s s' \<longleftrightarrow> committed s' = committed s \<and> outbox s' = outbox s \<and> events (outside s') = events (outside s)
    \<and> tg_sent (outside s') = tg_sent (outside s) \<and> objects (outside s') = objects (outside s)"

definition filed :: "environment \<Rightarrow> int \<Rightarrow> int \<Rightarrow> session \<Rightarrow> session \<Rightarrow> bool" where
  "filed env cid tg s s' \<longleftrightarrow> (\<exists>g ms. bumps (env_now env) g \<and> filing cid tg (pk_seq s Message_T) (env_now env) ms
    \<and> committed s' = file_messages cid g ms (work s) \<and> outbox s' = outbox s
    \<and> pk_seq s' Message_T = pk_seq s Message_T + int (length ms) \<and> pk_seq s' Conversation_T = pk_seq s Conversation_T)"

lemma bumps_bumped: "bumps now (bumped now True)"
  by (simp add: bumps_def same_conversation_def bumped_def)

lemma filedI:
  "bumps (env_now env) g \<Longrightarrow> filing cid tg (pk_seq s Message_T) (env_now env) ms \<Longrightarrow>
    committed s' = file_messages cid g ms (work s) \<Longrightarrow> outbox s' = outbox s \<Longrightarrow>
    pk_seq s' = (pk_seq s)(Message_T := pk_seq s Message_T + int (length ms)) \<Longrightarrow> filed env cid tg s s'"
  unfolding filed_def by (intro exI [of _ g] exI [of _ ms]) simp

lemma filing_one: "filing cid tg k now [new_message k now ((plain_message cid ''in'' text)\<lparr>ma_tg_message_id := Some tg,
    ma_attachment_kind := kind, ma_attachment_name := name\<rparr>)]"
  by (simp add: filing_def new_message_def plain_message_def)

lemmas handling = bindM_app Let_def add_message_def bump_activity_def set_conversation_def publish_support_event_def
  redis_call_def remote_def guardE_def

text \<open>The answer of a call that filed something: the outcome, or the failure of the live inbox.\<close>

definition announced :: "environment \<Rightarrow> int \<Rightarrow> inbound_outcome \<Rightarrow> exn + inbound_outcome \<Rightarrow> session \<Rightarrow> session \<Rightarrow> bool" where
  "announced env cid out r s s' \<longleftrightarrow>
    (if env_cache_up env then r = Inr out \<and> events (outside s') = events (outside s) @ [(cid, ''inbound'')]
     else r = Inl (PyError ''ConnectionError'') \<and> events (outside s') = events (outside s))"

lemma add_message_app:
  "add_message env a s =
    (let i = pk_seq s Message_T; m = new_message i (env_now env) a; s1 = s\<lparr>pk_seq := (pk_seq s)(Message_T := i + 1)\<rparr> in
      if message_row_ok m (work s) then (Inr i, s1\<lparr>work := (work s)\<lparr>t_message := t_message (work s) @ [m]\<rparr>\<rparr>)
      else (Inl (IntegrityError ''support_message''), s1))"
  by (simp add: add_message_def Let_def bindM_app guardE_def)

lemma handle_text_run:
  assumes "handle_text env conv is_new im text s = (r, s')"
  shows "untouched s s' \<and> isl r \<or>
    (\<exists>tg. db_int (im_message_id im) = Inr tg \<and> filed env (sc_id conv) tg s s' \<and>
      announced env (sc_id conv) \<lparr>io_conversation_id = (if is_fresh is_new conv then Some (sc_id conv) else None),
        io_notify_snippet = text, io_attachment = None\<rparr> r s s')"
proof (cases "db_int (im_message_id im)")
  case (Inl e)
  then show ?thesis using assms by (auto simp: handle_text_def bindM_app Let_def untouched_def)
next
  case (Inr tg)
  define m where "m = new_message (pk_seq s Message_T) (env_now env) ((plain_message (sc_id conv) ''in'' text)\<lparr>ma_tg_message_id := Some tg\<rparr>)"
  have f: "filing (sc_id conv) tg (pk_seq s Message_T) (env_now env) [m]"
    by (simp add: m_def filing_def new_message_def plain_message_def)
  show ?thesis
  proof (cases "message_row_ok m (work s)")
    case True
    then have "committed s' = file_messages (sc_id conv) (bumped (env_now env) True) [m] (work s)" "outbox s' = outbox s"
        "pk_seq s' = (pk_seq s)(Message_T := pk_seq s Message_T + 1)"
        "announced env (sc_id conv) \<lparr>io_conversation_id = (if is_fresh is_new conv then Some (sc_id conv) else None),
           io_notify_snippet = text, io_attachment = None\<rparr> r s s'"
      using assms Inr by (auto simp: handle_text_def handling file_messages_def announced_def m_def split: if_splits)
    then show ?thesis using Inr filedI [OF bumps_bumped f] by simp
  next
    case False
    then show ?thesis using assms Inr by (auto simp: handle_text_def handling untouched_def m_def split: if_splits)
  qed
qed

lemma handle_attachment_run:
  assumes "handle_attachment env ph conv is_new im caption s = (r, s')"
  shows "untouched s s' \<and> isl r \<or>
    (\<exists>tg. db_int (im_message_id im) = Inr tg \<and> filed env (sc_id conv) tg s s' \<and>
      announced env (sc_id conv) \<lparr>io_conversation_id = (if is_fresh is_new conv then Some (sc_id conv) else None),
        io_notify_snippet = attachment_text ph caption im, io_attachment = Some \<lparr>ar_message_id = pk_seq s Message_T,
          ar_conversation_id = sc_id conv, ar_file_id = py_str (im_attachment_file_id im)\<rparr>\<rparr> r s s')"
proof (cases "\<exists>tg name. db_int (im_message_id im) = Inr tg \<and> db_text (im_attachment_name im) = Inr name")
  case False
  then show ?thesis using assms
    by (cases "db_int (im_message_id im)"; cases "db_text (im_attachment_name im)")
      (auto simp: handle_attachment_def bindM_app Let_def untouched_def)
next
  case True
  then obtain tg name where Inr: "db_int (im_message_id im) = Inr tg" "db_text (im_attachment_name im) = Inr name" by blast
  define m where "m = new_message (pk_seq s Message_T) (env_now env) ((plain_message (sc_id conv) ''in'' (attachment_text ph caption im))
    \<lparr>ma_tg_message_id := Some tg, ma_attachment_kind := im_attachment_kind im, ma_attachment_name := name\<rparr>)"
  have f: "filing (sc_id conv) tg (pk_seq s Message_T) (env_now env) [m]" unfolding m_def by (rule filing_one)
  show ?thesis
  proof (cases "message_row_ok m (work s)")
    case True
    then have "committed s' = file_messages (sc_id conv) (bumped (env_now env) True) [m] (work s)" "outbox s' = outbox s"
        "pk_seq s' = (pk_seq s)(Message_T := pk_seq s Message_T + 1)"
        "announced env (sc_id conv) \<lparr>io_conversation_id = (if is_fresh is_new conv then Some (sc_id conv) else None),
           io_notify_snippet = attachment_text ph caption im, io_attachment = Some \<lparr>ar_message_id = pk_seq s Message_T,
             ar_conversation_id = sc_id conv, ar_file_id = py_str (im_attachment_file_id im)\<rparr>\<rparr> r s s'"
      using assms Inr by (auto simp: handle_attachment_def handling file_messages_def announced_def m_def split: if_splits)
    then show ?thesis using Inr filedI [OF bumps_bumped f] by simp
  next
    case False
    then show ?thesis using assms Inr by (auto simp: handle_attachment_def handling untouched_def m_def split: if_splits)
  qed
qed

lemma conversation_upd_twice: "(\<And>x. P (g x) = P x) \<Longrightarrow> upd P f (upd P g xs) = upd P (\<lambda>x. f (g x)) xs"
  by (induction xs) auto

definition ids_below :: "session \<Rightarrow> bool" where
  "ids_below s \<longleftrightarrow> (\<forall>m \<in> set (t_message (work s)). sm_id m < pk_seq s Message_T)"

definition linking :: "instant \<Rightarrow> int option \<Rightarrow> support_conversation \<Rightarrow> support_conversation" where
  "linking now oid c = (if oid = None then bumped now True c else (bumped now True c)\<lparr>sc_linked_order_id := oid\<rparr>)"

lemma bumps_linking: "bumps now (linking now oid)"
  by (simp add: bumps_def same_conversation_def linking_def bumped_def)

text \<open>Adding an answer and sending it: one new row with its badge.\<close>

lemma post_run:
  assumes "message_row_ok (new_message (pk_seq s Message_T) (env_now env) a) (work s)"
    "\<forall>m \<in> set (t_message (work s)). sm_id m < pk_seq s Message_T"
  shows "bindM (add_message env a) (\<lambda>mid. bindM (deliver env mid chat text) (\<lambda>_. k mid)) s =
    (let i = pk_seq s Message_T; m = badged (tg_outcome env (int_str chat) text (outside s)) (new_message i (env_now env) a) in
      k i (s\<lparr>pk_seq := (pk_seq s)(Message_T := i + 1), outside := snd (tg_send_message env (int_str chat) text (outside s)),
        work := (work s)\<lparr>t_message := t_message (work s) @ [m]\<rparr>\<rparr>))"
proof -
  let ?i = "pk_seq s Message_T" and ?o = "tg_outcome env (int_str chat) text (outside s)"
  let ?m = "new_message ?i (env_now env) a"
  let ?s1 = "s\<lparr>pk_seq := (pk_seq s)(Message_T := ?i + 1), work := (work s)\<lparr>t_message := t_message (work s) @ [?m]\<rparr>\<rparr>"
  have added: "add_message env a s = (Inr ?i, ?s1)" using assms(1) by (simp add: add_message_app Let_def)
  have others: "upd (\<lambda>m. sm_id m = ?i) f (t_message (work s)) = t_message (work s)" for f
    using assms(2) by (intro set_message_other) auto
  have "set_message ?i (badged ?o) (work ?s1) = (work s)\<lparr>t_message := t_message (work s) @ [badged ?o ?m]\<rparr>"
    using others by (simp add: set_message_def upd_append) (simp add: new_message_def)
  then have "deliver env ?i chat text ?s1 = (Inr (), s\<lparr>pk_seq := (pk_seq s)(Message_T := ?i + 1),
      outside := snd (tg_send_message env (int_str chat) text (outside s)),
      work := (work s)\<lparr>t_message := t_message (work s) @ [badged ?o ?m]\<rparr>\<rparr>)"
    by (simp add: deliver_app)
  then show ?thesis by (simp add: bindM_app [of "add_message env a"] added bindM_app [of "deliver env ?i chat text"] Let_def)
qed

lemma still_there: "(\<And>c. sc_id (g c) = sc_id c) \<Longrightarrow> list_ex (\<lambda>c. sc_id c = i) (upd P g cs) = list_ex (\<lambda>c. sc_id c = i) cs"
  by (induction cs) auto

lemma record_opening:
  assumes ok: "message_row_ok (new_message (pk_seq s Message_T) (env_now env) a) (work s)" and a: "ma_conversation_id a = cid"
  shows "bindM (add_message env a) (\<lambda>_. bindM (bump_activity env cid True) (\<lambda>_.
      bindM (whenM (linked \<noteq> None) (bindM (set_linked_order cid linked) (\<lambda>_. ret ()))) (\<lambda>_. k))) s =
    k (s\<lparr>pk_seq := (pk_seq s)(Message_T := pk_seq s Message_T + 1),
      work := file_messages cid (linking (env_now env) linked) [new_message (pk_seq s Message_T) (env_now env) a] (work s)\<rparr>)"
proof -
  let ?m = "new_message (pk_seq s Message_T) (env_now env) a"
  define sa where "sa = s\<lparr>pk_seq := (pk_seq s)(Message_T := pk_seq s Message_T + 1), work := (work s)\<lparr>t_message := t_message (work s) @ [?m]\<rparr>\<rparr>"
  define sb where "sb = sa\<lparr>work := set_conversation cid (bumped (env_now env) True) (work sa)\<rparr>"
  define sc where "sc = s\<lparr>pk_seq := (pk_seq s)(Message_T := pk_seq s Message_T + 1),
      work := file_messages cid (linking (env_now env) linked) [?m] (work s)\<rparr>"
  have added: "add_message env a s = (Inr (pk_seq s Message_T), sa)"
    using ok by (simp add: add_message_app Let_def sa_def)
  have bump: "bump_activity env cid True sa = (Inr (), sb)"
    by (simp add: bump_activity_def sb_def)
  have "list_ex (\<lambda>c. sc_id c = cid) (t_conversation (work s))"
    using ok a by (simp add: message_row_ok_def new_message_def)
  then have "find (\<lambda>c. sc_id c = cid) (t_conversation (work sb)) \<noteq> None"
    by (auto simp: find_None_iff list_ex_iff set_upd bumped_def sb_def sa_def set_conversation_def)
  then obtain c where c: "get_conversation cid (work sb) = Some c" by (auto simp: get_conversation_def)
  have link: "whenM (linked \<noteq> None) (bindM (set_linked_order cid linked) (\<lambda>_. ret ())) sb = (Inr (), sc)"
  proof (cases linked)
    case None
    then show ?thesis
      by (simp add: sb_def sa_def sc_def file_messages_def set_conversation_def linking_def [abs_def])
  next
    case (Some x)
    then show ?thesis using c
      by (simp add: bindM_app set_linked_order_def) (simp add: sb_def sa_def sc_def file_messages_def set_conversation_def
          linking_def [abs_def] conversation_upd_twice bumped_def)
  qed
  show ?thesis
    by (simp add: bindM_app [of "add_message env a"] added bindM_app [of "bump_activity env x y" for x y] bump
        bindM_app [of "whenM b (bindM x y)" for b x y] link sc_def del: whenM_app not_None_eq)
qed

lemma greet_run:
  assumes known: "list_ex (\<lambda>c. sc_id c = cid) (t_conversation (work s))"
    and below: "\<forall>m \<in> set (t_message (work s)). sm_id m < pk_seq s Message_T"
    and run: "bindM (add_message env (plain_message cid ''out'' g)) (\<lambda>mid. bindM (deliver env mid chat g) (\<lambda>_.
      bindM commit (\<lambda>_. bindM (publish_support_event env cid ''inbound'') (\<lambda>_. ret out)))) s = (r, s')"
  shows "\<exists>a. sm_id a = pk_seq s Message_T \<and> sm_conversation_id a = cid \<and> sm_direction a = ''out'' \<and>
    sm_delivery a \<in> {Some ''sent'', Some ''failed''} \<and> committed s' = (work s)\<lparr>t_message := t_message (work s) @ [a]\<rparr> \<and>
    outbox s' = outbox s \<and> pk_seq s' = (pk_seq s)(Message_T := pk_seq s Message_T + 1) \<and> announced env cid out r s s'"
proof -
  let ?a = "plain_message cid ''out'' g" and ?o = "tg_outcome env (int_str chat) g (outside s)"
  let ?tail = "bindM commit (\<lambda>_. bindM (publish_support_event env cid ''inbound'') (\<lambda>_. ret out))"
  define m where "m = badged ?o (new_message (pk_seq s Message_T) (env_now env) ?a)"
  define s2 where "s2 = s\<lparr>pk_seq := (pk_seq s)(Message_T := pk_seq s Message_T + 1),
      outside := snd (tg_send_message env (int_str chat) g (outside s)), work := (work s)\<lparr>t_message := t_message (work s) @ [m]\<rparr>\<rparr>"
  have row: "message_row_ok (new_message (pk_seq s Message_T) (env_now env) ?a) (work s)"
    using known by (simp add: message_row_ok_def new_message_def plain_message_def)
  have "?tail s2 = (r, s')"
    using run unfolding post_run [OF row below] Let_def s2_def m_def .
  moreover obtain log where log: "outside s2 = (outside s)\<lparr>tg_sent := log\<rparr>"
    using tg_send_frame [of env "int_str chat" g "outside s"]
    by (cases "tg_send_message env (int_str chat) g (outside s)") (auto simp: s2_def)
  ultimately have "committed s' = work s2 \<and> outbox s' = outbox s2 \<and> pk_seq s' = pk_seq s2 \<and> announced env cid out r s s'"
    by (auto simp: bindM_app publish_support_event_def redis_call_def remote_def announced_def split: if_splits)
  moreover have "sm_id m = pk_seq s Message_T \<and> sm_conversation_id m = cid \<and> sm_direction m = ''out'' \<and> sm_delivery m \<in> {Some ''sent'', Some ''failed''}"
    using tg_outcome_badge [of env "int_str chat" g "outside s"] by (auto simp: m_def badged_def new_message_def plain_message_def)
  ultimately show ?thesis by (intro exI [of _ m]) (simp add: s2_def)
qed

lemma handle_start_run:
  assumes run: "handle_start env ph conv is_new im text s = (r, s')" and ids: "ids_below s"
  shows "untouched s s' \<and> (isl r \<or> r = Inr dropped \<and> \<not> is_new \<and> (\<exists>tg. db_int (im_message_id im) = Inr tg \<and> message_exists (sc_id conv) tg (work s))) \<or>
    (\<exists>tg line name linked. db_int (im_message_id im) = Inr tg \<and> filed env (sc_id conv) tg s s' \<and>
      resolve_start_context env ph (strip (drop (length START_COMMAND) text)) (sc_lang conv) (work s) = Inr (line, name, linked) \<and>
      announced env (sc_id conv) \<lparr>io_conversation_id = Some (sc_id conv), io_notify_snippet = line, io_attachment = None\<rparr> r s s')"
proof (cases "\<exists>tg res. db_int (im_message_id im) = Inr tg \<and> (is_new \<or> \<not> message_exists (sc_id conv) tg (work s)) \<and>
    resolve_start_context env ph (strip (drop (length START_COMMAND) text)) (sc_lang conv) (work s) = Inr res")
  case False
  then show ?thesis using run
    by (cases "db_int (im_message_id im)";
        cases "resolve_start_context env ph (strip (drop (length START_COMMAND) text)) (sc_lang conv) (work s)")
      (auto simp: handle_start_def bindM_app untouched_def Let_def split: if_splits)
next
  case True
  then obtain tg line name linked where tg: "db_int (im_message_id im) = Inr tg" and new: "(\<not> is_new \<and> message_exists (sc_id conv) tg (work s)) = False"
    and res: "resolve_start_context env ph (strip (drop (length START_COMMAND) text)) (sc_lang conv) (work s) = Inr (line, name, linked)"
    by (metis (full_types) prod_cases3)
  let ?in = "(plain_message (sc_id conv) ''in'' line)\<lparr>ma_tg_message_id := Some tg\<rparr>"
  define m where "m = new_message (pk_seq s Message_T) (env_now env) ?in"
  show ?thesis
  proof (cases "message_row_ok m (work s)")
    case False
    then show ?thesis using run tg new res
      by (auto simp: handle_start_def handling untouched_def m_def split: if_splits)
  next
    case ok: True
    let ?g = "start_greeting ph name" and ?out = "\<lparr>io_conversation_id = Some (sc_id conv), io_notify_snippet = line, io_attachment = None\<rparr>"
    define s1 where "s1 = s\<lparr>pk_seq := (pk_seq s)(Message_T := pk_seq s Message_T + 1),
        work := file_messages (sc_id conv) (linking (env_now env) linked) [m] (work s)\<rparr>"
    have whose: "ma_conversation_id ?in = sc_id conv" by (simp add: plain_message_def)
    have known: "list_ex (\<lambda>c. sc_id c = sc_id conv) (t_conversation (work s1))"
      using ok by (simp add: message_row_ok_def m_def new_message_def plain_message_def s1_def still_there linking_def bumped_def)
    have below: "\<forall>m \<in> set (t_message (work s1)). sm_id m < pk_seq s1 Message_T"
      using ids by (auto simp: ids_below_def s1_def m_def new_message_def)
    have "bindM (add_message env (plain_message (sc_id conv) ''out'' ?g)) (\<lambda>mid. bindM (deliver env mid (sc_tg_chat_id conv) ?g) (\<lambda>_.
        bindM commit (\<lambda>_. bindM (publish_support_event env (sc_id conv) ''inbound'') (\<lambda>_. ret ?out)))) s1 = (r, s')"
      using run
      by (simp add: new handle_start_def bindM_app [of "liftE F" for F] bindM_app [of "readsE F" for F] tg res Let_def s1_def m_def
          record_opening [OF ok [unfolded m_def] whose] del: whenM_app not_None_eq cong: if_cong)
    then obtain a where a: "sm_id a = pk_seq s1 Message_T" "sm_conversation_id a = sc_id conv" "sm_direction a = ''out''"
        "sm_delivery a \<in> {Some ''sent'', Some ''failed''}" "committed s' = (work s1)\<lparr>t_message := t_message (work s1) @ [a]\<rparr>"
        "outbox s' = outbox s1" "pk_seq s' = (pk_seq s1)(Message_T := pk_seq s1 Message_T + 1)" "announced env (sc_id conv) ?out r s1 s'"
      using greet_run [OF known below] by blast
    have "filing (sc_id conv) tg (pk_seq s Message_T) (env_now env) [m, a]"
      using a by (auto simp: filing_def m_def new_message_def plain_message_def s1_def)
    moreover have "committed s' = file_messages (sc_id conv) (linking (env_now env) linked) [m, a] (work s)"
      using a(5) by (simp add: s1_def file_messages_def)
    moreover have "pk_seq s' = (pk_seq s)(Message_T := pk_seq s Message_T + int (length [m, a]))" "outbox s' = outbox s"
      using a(6,7) by (simp_all add: s1_def add.commute)
    moreover have "announced env (sc_id conv) ?out r s s'" using a(8) by (simp add: announced_def s1_def)
    ultimately show ?thesis using tg res filedI [OF bumps_linking] by blast
  qed
qed

lemma handle_new_run:
  assumes run: "handle_new env ph conv is_new im s = (r, s')" and ids: "ids_below s"
  shows "untouched s s' \<and> (isl r \<or> r = Inr dropped \<and> \<not> is_new \<and> (\<exists>tg. db_int (im_message_id im) = Inr tg \<and> message_exists (sc_id conv) tg (work s))) \<or>
    (\<exists>tg text out. db_int (im_message_id im) = Inr tg \<and> py_string (im_text im) = Inr text \<and> filed env (sc_id conv) tg s s' \<and>
      announced env (sc_id conv) out r s s' \<and> io_conversation_id out =
        (if take (length START_COMMAND) text = START_COMMAND \<or> is_fresh is_new conv then Some (sc_id conv) else None))"
proof (cases "py_string (im_text im)")
  case (Inl e)
  then show ?thesis using run by (auto simp: handle_new_def bindM_app untouched_def)
next
  case (Inr body)
  note step = run [unfolded handle_new_def]
  consider (start) "take (length START_COMMAND) body = START_COMMAND" "handle_start env ph conv is_new im body s = (r, s')"
    | (attachment) "take (length START_COMMAND) body \<noteq> START_COMMAND" "handle_attachment env ph conv is_new im body s = (r, s')"
    | (plain) "take (length START_COMMAND) body \<noteq> START_COMMAND" "handle_text env conv is_new im body s = (r, s')"
    using step Inr by (auto simp: bindM_app split: if_splits)
  then show ?thesis
  proof cases
    case start
    show ?thesis using handle_start_run [OF start(2) ids] start(1) Inr by fastforce
  next
    case attachment
    show ?thesis using handle_attachment_run [OF attachment(2)] attachment(1) Inr by fastforce
  next
    case plain
    show ?thesis using handle_text_run [OF plain(2)] plain(1) Inr by fastforce
  qed
qed

text \<open>The conversation a message belongs to: a new one, or the one of its chat with the snapshot refreshed.\<close>

definition opened :: "environment \<Rightarrow> inbound_message \<Rightarrow> int \<Rightarrow> session \<Rightarrow> session \<Rightarrow> support_conversation \<Rightarrow> bool \<Rightarrow> bool" where
  "opened env im chat s s1 conv is_new \<longleftrightarrow> (\<exists>u l.
    (is_new \<and> get_by_tg_chat_id chat (work s) = Inr None \<and>
      conv = new_conversation (pk_seq s Conversation_T) chat (im_customer_name im) u l (env_now env) \<and>
      s1 = s\<lparr>pk_seq := (pk_seq s)(Conversation_T := pk_seq s Conversation_T + 1),
        work := (work s)\<lparr>t_conversation := t_conversation (work s) @ [conv]\<rparr>\<rparr>) \<or>
    (\<not> is_new \<and> (\<exists>c. get_by_tg_chat_id chat (work s) = Inr (Some c) \<and> conv = refreshed (im_customer_name im) u l c \<and>
      s1 = s\<lparr>work := set_conversation (sc_id c) (refreshed (im_customer_name im) u l) (work s)\<rparr>)))"

lemma opened_frame:
  assumes "opened env im chat s s1 conv is_new"
  shows "untouched s s1" "ids_below s \<Longrightarrow> ids_below s1" "message_exists i tg (work s1) = message_exists i tg (work s)"
  using assms by (auto simp: opened_def untouched_def ids_below_def set_conversation_def message_exists_def)

text \<open>The update has been recorded before.\<close>

definition already :: "inbound_message \<Rightarrow> db \<Rightarrow> bool" where
  "already im d \<longleftrightarrow> (\<exists>chat tg c. db_int (im_chat_id im) = Inr chat \<and> db_int (im_message_id im) = Inr tg \<and>
    get_by_tg_chat_id chat d = Inr (Some c) \<and> message_exists (sc_id c) tg d)"

lemma already_dropped: "already im (work s) \<Longrightarrow> handle_inbound env ph im s = (Inr dropped, s)"
  by (auto simp: already_def handle_inbound_def bindM_app)

lemma handle_inbound_run:
  assumes run: "handle_inbound env ph im s = (r, s')" and ids: "ids_below s"
  shows "untouched s s' \<and> (isl r \<or> r = Inr dropped \<and> already im (work s)) \<or>
    (\<exists>chat tg text conv is_new s1 out. db_int (im_chat_id im) = Inr chat \<and> db_int (im_message_id im) = Inr tg \<and> py_string (im_text im) = Inr text \<and>
      opened env im chat s s1 conv is_new \<and> (is_new \<or> \<not> message_exists (sc_id conv) tg (work s)) \<and>
      filed env (sc_id conv) tg s1 s' \<and> announced env (sc_id conv) out r s s' \<and> io_conversation_id out =
        (if take (length START_COMMAND) text = START_COMMAND \<or> is_fresh is_new conv then Some (sc_id conv) else None))"
    (is "?keep \<or> ?file")
proof -
  have inner: "?keep \<or> ?file"
    if chat: "db_int (im_chat_id im) = Inr chat" and op: "opened env im chat s s1 conv is_new"
      and call: "handle_new env ph conv is_new im s1 = (r, s')"
      and new: "\<And>tg. db_int (im_message_id im) = Inr tg \<Longrightarrow> is_new \<or> \<not> message_exists (sc_id conv) tg (work s)" for chat s1 conv is_new
  proof -
    have "untouched s1 s' \<Longrightarrow> untouched s s'" using opened_frame(1) [OF op] by (simp add: untouched_def)
    moreover have "announced env (sc_id conv) out r s1 s' \<Longrightarrow> announced env (sc_id conv) out r s s'" for out
      using opened_frame(1) [OF op] by (simp add: untouched_def announced_def)
    ultimately show ?thesis
      using handle_new_run [OF call opened_frame(2) [OF op ids]] chat op new unfolding opened_frame(3) [OF op] by blast
  qed
  have bad: "?keep" if "isl r" "s' = s" using that by (simp add: untouched_def)
  show ?thesis
  proof (cases "db_int (im_chat_id im)")
    case (Inl e)
    then show ?thesis using run bad by (auto simp: handle_inbound_def bindM_app)
  next
    case chat: (Inr chat)
    show ?thesis
    proof (cases "get_by_tg_chat_id chat (work s)")
      case (Inl e)
      then show ?thesis using run chat bad by (auto simp: handle_inbound_def bindM_app)
    next
      case (Inr found)
      show ?thesis
      proof (cases found)
        case None
        show ?thesis
        proof (cases "isl r \<and> untouched s s'")
          case True
          then show ?thesis by blast
        next
          case False
          obtain u l where ul: "db_text (im_customer_username im) = Inr u" "db_text (im_lang im) = Inr l"
            using False run chat Inr None
            by (cases "db_text (im_customer_username im)"; cases "db_text (im_lang im)")
              (auto simp: handle_inbound_def bindM_app create_conversation_def untouched_def)
          define conv where "conv = new_conversation (pk_seq s Conversation_T) chat (im_customer_name im) u l (env_now env)"
          have op: "opened env im chat s (s\<lparr>pk_seq := (pk_seq s)(Conversation_T := pk_seq s Conversation_T + 1),
              work := (work s)\<lparr>t_conversation := t_conversation (work s) @ [conv]\<rparr>\<rparr>) conv True"
            using Inr None unfolding opened_def conv_def by blast
          show ?thesis
            using run chat Inr None ul
            by (intro inner [OF chat op]) (simp_all add: handle_inbound_def bindM_app create_conversation_def Let_def conv_def)
        qed
      next
        case (Some c)
        show ?thesis
        proof (cases "(isl r \<or> r = Inr dropped \<and> already im (work s)) \<and> untouched s s'")
          case True
          then show ?thesis by blast
        next
          case False
          obtain tg u l where tg: "db_int (im_message_id im) = Inr tg" "\<not> message_exists (sc_id c) tg (work s)"
              "db_text (im_customer_username im) = Inr u" "db_text (im_lang im) = Inr l"
            using False run chat Inr Some
            by (cases "db_int (im_message_id im)"; cases "db_text (im_customer_username im)"; cases "db_text (im_lang im)")
              (auto simp: handle_inbound_def bindM_app refresh_snapshot_def untouched_def already_def split: if_splits)
          define conv where "conv = refreshed (im_customer_name im) u l c"
          have op: "opened env im chat s (s\<lparr>work := set_conversation (sc_id c) (refreshed (im_customer_name im) u l) (work s)\<rparr>) conv False"
            using Inr Some unfolding opened_def conv_def by blast
          show ?thesis
            using run chat Inr Some tg
            by (intro inner [OF chat op]) (simp_all add: handle_inbound_def bindM_app refresh_snapshot_def Let_def conv_def refreshed_def)
        qed
      qed
    qed
  qed
qed

subsection \<open>The desk as a state machine\<close>

text \<open>
  What the calls may do to the conversations and messages, the next ids included, which only grow
  (a call that fails may have drawn some).
\<close>

record desk =
  dk_next_conversation :: int
  dk_next_message :: int
  dk_conversations :: "support_conversation list"
  dk_messages :: "support_message list"

definition desk_of :: "session \<Rightarrow> desk" where
  "desk_of s = \<lparr>dk_next_conversation = pk_seq s Conversation_T, dk_next_message = pk_seq s Message_T,
     dk_conversations = t_conversation (committed s), dk_messages = t_message (committed s)\<rparr>"

definition heard :: "int \<Rightarrow> int \<Rightarrow> support_message list \<Rightarrow> bool" where
  "heard cid tg ms \<longleftrightarrow> (\<exists>m \<in> set ms. sm_conversation_id m = cid \<and> sm_tg_message_id m = Some tg)"

definition reads_or_keeps :: "(support_conversation \<Rightarrow> support_conversation) \<Rightarrow> bool" where
  "reads_or_keeps g \<longleftrightarrow> same_conversation g \<and> (\<forall>c. sc_unread_count (g c) \<in> {0, sc_unread_count c})"

definition answer :: "int \<Rightarrow> int \<Rightarrow> support_message \<Rightarrow> bool" where
  "answer cid k a \<longleftrightarrow> sm_id a = k \<and> sm_conversation_id a = cid \<and> sm_direction a = ''out''
    \<and> sm_delivery a \<in> {Some ''sent'', Some ''failed''}"

inductive desk_step :: "desk \<Rightarrow> desk \<Rightarrow> bool" where
  Draw: "kc \<le> kc' \<Longrightarrow> km \<le> km' \<Longrightarrow> desk_step \<lparr>dk_next_conversation = kc, dk_next_message = km, dk_conversations = cs, dk_messages = ms\<rparr>
     \<lparr>dk_next_conversation = kc', dk_next_message = km', dk_conversations = cs, dk_messages = ms\<rparr>"
| First_contact: "\<forall>c \<in> set cs. sc_tg_chat_id c \<noteq> sc_tg_chat_id conv \<Longrightarrow> sc_id conv = kc \<Longrightarrow> sc_unread_count conv = 1 \<Longrightarrow>
     filing kc tg km now new \<Longrightarrow>
     desk_step \<lparr>dk_next_conversation = kc, dk_next_message = km, dk_conversations = cs, dk_messages = ms\<rparr>
       \<lparr>dk_next_conversation = kc + 1, dk_next_message = km + int (length new), dk_conversations = cs @ [conv], dk_messages = ms @ new\<rparr>"
| Further_message: "conv \<in> set cs \<Longrightarrow> \<not> heard (sc_id conv) tg ms \<Longrightarrow> bumps now g \<Longrightarrow> filing (sc_id conv) tg km now new \<Longrightarrow>
     desk_step \<lparr>dk_next_conversation = kc, dk_next_message = km, dk_conversations = cs, dk_messages = ms\<rparr>
       \<lparr>dk_next_conversation = kc, dk_next_message = km + int (length new),
        dk_conversations = upd (\<lambda>c. sc_id c = sc_id conv) g cs, dk_messages = ms @ new\<rparr>"
| Answer: "conv \<in> set cs \<Longrightarrow> reads_or_keeps g \<Longrightarrow> answer (sc_id conv) km a \<Longrightarrow>
     desk_step \<lparr>dk_next_conversation = kc, dk_next_message = km, dk_conversations = cs, dk_messages = ms\<rparr>
       \<lparr>dk_next_conversation = kc, dk_next_message = km + 1, dk_conversations = upd (\<lambda>c. sc_id c = sc_id conv) g cs, dk_messages = ms @ [a]\<rparr>"
| Change: "reads_or_keeps g \<Longrightarrow>
     desk_step \<lparr>dk_next_conversation = kc, dk_next_message = km, dk_conversations = cs, dk_messages = ms\<rparr>
       \<lparr>dk_next_conversation = kc, dk_next_message = km, dk_conversations = upd P g cs, dk_messages = ms\<rparr>"
| Attach: "desk_step \<lparr>dk_next_conversation = kc, dk_next_message = km, dk_conversations = cs, dk_messages = ms\<rparr>
       \<lparr>dk_next_conversation = kc, dk_next_message = km, dk_conversations = cs,
        dk_messages = upd (\<lambda>m. sm_id m = i) (\<lambda>m. m\<lparr>sm_attachment_key := key\<rparr>) ms\<rparr>"
| Erase: "desk_step \<lparr>dk_next_conversation = kc, dk_next_message = km, dk_conversations = cs, dk_messages = ms\<rparr>
       \<lparr>dk_next_conversation = kc, dk_next_message = km, dk_conversations = filter (\<lambda>c. \<not> P c) cs,
        dk_messages = filter (\<lambda>m. sm_conversation_id m \<notin> sc_id ` set (filter P cs)) ms\<rparr>"

definition received :: "support_message list \<Rightarrow> support_message list" where
  "received ms = filter (\<lambda>m. sm_direction m = ''in'') ms"

definition received_by :: "int \<Rightarrow> support_message list \<Rightarrow> int" where
  "received_by cid ms = int (length (filter (\<lambda>m. sm_conversation_id m = cid) (received ms)))"

definition message_ok :: "int \<Rightarrow> support_conversation list \<Rightarrow> support_message \<Rightarrow> bool" where
  "message_ok km cs m \<longleftrightarrow> sm_id m < km \<and> sm_conversation_id m \<in> sc_id ` set cs
    \<and> (if sm_direction m = ''in'' then sm_tg_message_id m \<noteq> None \<and> sm_delivery m = None
       else sm_direction m = ''out'' \<and> sm_delivery m \<in> {Some ''sent'', Some ''failed''})"

definition desk_ok :: "desk \<Rightarrow> bool" where
  "desk_ok k \<longleftrightarrow> (let cs = dk_conversations k; ms = dk_messages k in
    distinct (map sc_id cs) \<and> distinct (map sc_tg_chat_id cs) \<and> (\<forall>c \<in> set cs. sc_id c < dk_next_conversation k) \<and>
    distinct (map sm_id ms) \<and> (\<forall>m \<in> set ms. message_ok (dk_next_message k) cs m) \<and>
    distinct (map (\<lambda>m. (sm_conversation_id m, sm_tg_message_id m)) (received ms)) \<and>
    (\<forall>c \<in> set cs. 0 \<le> sc_unread_count c \<and> sc_unread_count c \<le> received_by (sc_id c) ms))"

lemma received_append [simp]: "received (ms @ new) = received ms @ received new"
  by (simp add: received_def)

lemma received_by_append [simp]: "received_by cid (ms @ new) = received_by cid ms + received_by cid new"
  by (simp add: received_by_def)

lemma filing_facts:
  assumes "filing cid tg km now new"
  shows "distinct (map sm_id new)" "\<forall>m \<in> set new. km \<le> sm_id m" "cid \<in> sc_id ` set cs \<Longrightarrow> \<forall>m \<in> set new. message_ok (km + int (length new)) cs m"
    "\<exists>m. received new = [m] \<and> sm_conversation_id m = cid \<and> sm_tg_message_id m = Some tg" "received_by i new = (if i = cid then 1 else 0)"
  using assms by (auto simp: filing_def message_ok_def received_def received_by_def)

lemma message_ok_mono: "message_ok km cs m \<Longrightarrow> km \<le> km' \<Longrightarrow> sc_id ` set cs \<subseteq> sc_id ` set cs' \<Longrightarrow> message_ok km' cs' m"
  by (auto simp: message_ok_def split: if_splits)

lemma upd_keys: "same_conversation g \<Longrightarrow> map sc_id (upd P g cs) = map sc_id cs"
    "same_conversation g \<Longrightarrow> map sc_tg_chat_id (upd P g cs) = map sc_tg_chat_id cs"
  by (auto simp: upd_def same_conversation_def)

lemma upd_ids: "same_conversation g \<Longrightarrow> sc_id ` set (upd P g cs) = sc_id ` set cs"
  using upd_keys(1) [of g P cs] by (metis set_map)

lemma file_ok:
  assumes ok: "desk_ok \<lparr>dk_next_conversation = kc, dk_next_message = km, dk_conversations = cs, dk_messages = ms\<rparr>"
    and new: "filing cid tg km now new" "cid \<in> sc_id ` set cs'" "\<not> heard cid tg ms"
    and cs': "distinct (map sc_id cs')" "distinct (map sc_tg_chat_id cs')" "\<forall>c \<in> set cs'. sc_id c < kc'" "sc_id ` set cs \<subseteq> sc_id ` set cs'"
    and unread: "\<forall>c \<in> set cs'. 0 \<le> sc_unread_count c \<and> sc_unread_count c \<le> received_by (sc_id c) ms + (if sc_id c = cid then 1 else 0)"
  shows "desk_ok \<lparr>dk_next_conversation = kc', dk_next_message = km + int (length new), dk_conversations = cs', dk_messages = ms @ new\<rparr>"
proof -
  note old = ok [unfolded desk_ok_def, simplified]
  note facts = filing_facts [OF new(1)]
  have "sm_id m < km" if "m \<in> set ms" for m using old that by (auto simp: message_ok_def)
  then have "distinct (map sm_id (ms @ new))" using old facts(1,2) by fastforce
  moreover have "\<forall>m \<in> set (ms @ new). message_ok (km + int (length new)) cs' m"
    using old facts(3) [OF new(2)] message_ok_mono [OF _ _ cs'(4)] by auto
  moreover have "distinct (map (\<lambda>m. (sm_conversation_id m, sm_tg_message_id m)) (received (ms @ new)))"
  proof -
    have "\<forall>x \<in> set (received ms). (sm_conversation_id x, sm_tg_message_id x) \<noteq> (cid, Some tg)"
      using new(3) by (auto simp: heard_def received_def)
    then show ?thesis using old facts(4) by auto
  qed
  moreover have "\<forall>c \<in> set cs'. 0 \<le> sc_unread_count c \<and> sc_unread_count c \<le> received_by (sc_id c) (ms @ new)"
    using unread facts(5) by simp
  ultimately show ?thesis using cs'(1-3) by (simp add: desk_ok_def)
qed

lemma unheard_new: "desk_ok \<lparr>dk_next_conversation = kc, dk_next_message = km, dk_conversations = cs, dk_messages = ms\<rparr> \<Longrightarrow> \<not> heard kc tg ms"
  by (fastforce simp: desk_ok_def heard_def message_ok_def)

lemma unread_kept:
  assumes "desk_ok \<lparr>dk_next_conversation = kc, dk_next_message = km, dk_conversations = cs, dk_messages = ms\<rparr>" "reads_or_keeps g"
  shows "\<forall>c \<in> set (upd P g cs). 0 \<le> sc_unread_count c \<and> sc_unread_count c \<le> received_by (sc_id c) ms"
proof
  fix c assume "c \<in> set (upd P g cs)"
  then obtain c0 where c0: "c0 \<in> set cs" "c = c0 \<or> c = g c0" by (auto simp: set_upd)
  have g: "sc_unread_count (g c0) = 0 \<or> sc_unread_count (g c0) = sc_unread_count c0" "sc_id (g c0) = sc_id c0"
    using assms(2) by (auto simp: reads_or_keeps_def same_conversation_def)
  have "0 \<le> sc_unread_count c0 \<and> sc_unread_count c0 \<le> received_by (sc_id c0) ms"
    using assms(1) c0(1) by (simp add: desk_ok_def)
  then show "0 \<le> sc_unread_count c \<and> sc_unread_count c \<le> received_by (sc_id c) ms" using c0(2) g by auto
qed

lemma message_ok_upd: "same_conversation g \<Longrightarrow> message_ok km (upd P g cs) m = message_ok km cs m"
  by (simp add: message_ok_def upd_ids)

lemma rekey_ok:
  assumes ok: "desk_ok \<lparr>dk_next_conversation = kc, dk_next_message = km, dk_conversations = cs, dk_messages = ms\<rparr>" and g: "reads_or_keeps g"
  shows "desk_ok \<lparr>dk_next_conversation = kc, dk_next_message = km, dk_conversations = upd P g cs, dk_messages = ms\<rparr>"
proof -
  have same: "same_conversation g" using g by (simp add: reads_or_keeps_def)
  have "\<forall>i \<in> sc_id ` set cs. i < kc" using ok by (auto simp: desk_ok_def)
  then have "\<forall>c \<in> set (upd P g cs). sc_id c < kc" unfolding upd_ids [OF same, symmetric, of cs P] by blast
  moreover have "\<forall>m \<in> set ms. message_ok km (upd P g cs) m"
    using ok by (simp add: desk_ok_def message_ok_upd [OF same])
  ultimately show ?thesis using ok unread_kept [OF ok g] by (simp add: desk_ok_def upd_keys [OF same])
qed

lemma answer_ok:
  assumes ok: "desk_ok \<lparr>dk_next_conversation = kc, dk_next_message = km, dk_conversations = cs, dk_messages = ms\<rparr>"
    and a: "answer cid km a" "cid \<in> sc_id ` set cs"
  shows "desk_ok \<lparr>dk_next_conversation = kc, dk_next_message = km + 1, dk_conversations = cs, dk_messages = ms @ [a]\<rparr>"
proof -
  note old = ok [unfolded desk_ok_def, simplified]
  have "\<forall>m \<in> set ms. sm_id m < km" using old by (auto simp: message_ok_def)
  then have "distinct (map sm_id (ms @ [a]))" using old a(1) by (auto simp: answer_def)
  moreover have "\<forall>m \<in> set (ms @ [a]). message_ok (km + 1) cs m"
    using old a message_ok_mono [of km cs _ "km + 1" cs] by (auto simp: answer_def message_ok_def)
  moreover have "received [a] = []" using a(1) by (simp add: answer_def received_def)
  then have "received (ms @ [a]) = received ms" "received_by i (ms @ [a]) = received_by i ms" for i
    by (simp_all add: received_by_def)
  ultimately show ?thesis using old by (simp add: desk_ok_def)
qed

lemma received_attach: "received (upd P (\<lambda>m. m\<lparr>sm_attachment_key := key\<rparr>) ms) = upd P (\<lambda>m. m\<lparr>sm_attachment_key := key\<rparr>) (received ms)"
  by (induction ms) (auto simp: received_def)

lemma received_by_attach [simp]: "received_by i (upd P (\<lambda>m. m\<lparr>sm_attachment_key := key\<rparr>) ms) = received_by i ms"
  by (induction ms) (auto simp: received_by_def received_def)

lemma desk_step_ok: "desk_step k k' \<Longrightarrow> desk_ok k \<Longrightarrow> desk_ok k'"
proof (induction rule: desk_step.induct)
  case (Draw kc kc' km km' cs ms)
  then show ?case using message_ok_mono [of km cs _ km' cs] by (fastforce simp: desk_ok_def)
next
  case (First_contact cs conv kc km tg now new ms)
  note ok = First_contact.prems
  show ?case
  proof (rule file_ok [OF ok First_contact.hyps(4)])
    have "\<forall>c \<in> set cs. sc_id c \<noteq> kc" using ok by (auto simp: desk_ok_def)
    then show "distinct (map sc_id (cs @ [conv]))" using ok First_contact.hyps(2) by (auto simp: desk_ok_def)
    show "distinct (map sc_tg_chat_id (cs @ [conv]))" using ok First_contact.hyps(1) by (auto simp: desk_ok_def)
    show "\<forall>c \<in> set (cs @ [conv]). sc_id c < kc + 1" using ok First_contact.hyps(2) by (force simp: desk_ok_def)
    have "0 \<le> received_by kc ms" by (simp add: received_by_def)
    then show "\<forall>c \<in> set (cs @ [conv]). 0 \<le> sc_unread_count c \<and> sc_unread_count c \<le> received_by (sc_id c) ms + (if sc_id c = kc then 1 else 0)"
      using ok First_contact.hyps(2,3) by (auto simp: desk_ok_def)
  qed (use First_contact.hyps unheard_new [OF ok] in auto)
next
  case (Further_message conv cs tg ms now g km new kc)
  note ok = Further_message.prems
  have g: "same_conversation g" "\<And>c. sc_unread_count (g c) = sc_unread_count c + 1" "\<And>c. sc_id (g c) = sc_id c"
    using Further_message.hyps(3) by (auto simp: bumps_def same_conversation_def)
  show ?case
  proof (rule file_ok [OF ok Further_message.hyps(4) _ Further_message.hyps(2)])
    show "sc_id conv \<in> sc_id ` set (upd (\<lambda>c. sc_id c = sc_id conv) g cs)" using Further_message.hyps(1) by (simp add: upd_ids g(1))
    show "\<forall>c \<in> set (upd (\<lambda>c. sc_id c = sc_id conv) g cs). 0 \<le> sc_unread_count c \<and>
        sc_unread_count c \<le> received_by (sc_id c) ms + (if sc_id c = sc_id conv then 1 else 0)"
      using ok g(2,3) by (fastforce simp: desk_ok_def set_upd)
    have "\<forall>i \<in> sc_id ` set cs. i < kc" using ok by (auto simp: desk_ok_def)
    then show "\<forall>c \<in> set (upd (\<lambda>c. sc_id c = sc_id conv) g cs). sc_id c < kc" unfolding upd_ids [OF g(1), symmetric, of cs "\<lambda>c. sc_id c = sc_id conv"] by blast
  qed (use ok in \<open>simp_all add: upd_keys upd_ids g(1) desk_ok_def\<close>)
next
  case (Answer conv cs g km a kc ms)
  have "sc_id conv \<in> sc_id ` set (upd (\<lambda>c. sc_id c = sc_id conv) g cs)"
    using Answer.hyps(1,2) by (simp add: reads_or_keeps_def upd_ids)
  then show ?case using answer_ok [OF rekey_ok [OF Answer.prems Answer.hyps(2)] Answer.hyps(3)] by blast
next
  case (Change g kc km cs ms P)
  then show ?case by (blast intro: rekey_ok)
next
  case (Attach kc km cs ms i key)
  have "\<forall>m \<in> set (upd Q (\<lambda>m. m\<lparr>sm_attachment_key := key\<rparr>) ms). message_ok km cs m" if "\<forall>m \<in> set ms. message_ok km cs m" for Q
    using that by (auto simp: set_upd message_ok_def split: if_splits)
  then show ?case using Attach.prems by (simp add: desk_ok_def received_attach map_upd_key)
next
  case (Erase kc km cs ms P)
  let ?gone = "sc_id ` set (filter P cs)"
  let ?ms = "filter (\<lambda>m. sm_conversation_id m \<notin> ?gone) ms"
  note old = Erase.prems [unfolded desk_ok_def, simplified]
  have inj: "inj_on sc_id (set cs)" using old by (simp add: distinct_map)
  have stay: "P x \<Longrightarrow> sc_id x \<noteq> sc_id c" if "c \<in> set cs" "\<not> P c" "x \<in> set cs" for c x
    using that inj by (auto simp: inj_on_def)
  have same: "received ?ms = filter (\<lambda>m. sm_conversation_id m \<notin> ?gone) (received ms)"
    unfolding received_def by (simp add: conj_commute)
  have "received_by (sc_id c) ?ms = received_by (sc_id c) ms" if "c \<in> set cs" "\<not> P c" for c
    using stay [OF that(1,2)] unfolding received_by_def same by (intro arg_cong [of _ _ "\<lambda>xs. int (length xs)"]) (auto intro!: filter_cong)
  moreover have "message_ok km (filter (\<lambda>c. \<not> P c) cs) m" if "m \<in> set ?ms" for m
  proof -
    have m: "m \<in> set ms" "sm_conversation_id m \<notin> ?gone" "message_ok km cs m" using that old by auto
    then have "sm_conversation_id m \<in> sc_id ` set (filter (\<lambda>c. \<not> P c) cs)" by (auto simp: message_ok_def)
    then show ?thesis using m(3) unfolding message_ok_def by blast
  qed
  moreover have "distinct (map (\<lambda>m. (sm_conversation_id m, sm_tg_message_id m)) (received ?ms))"
    unfolding same using old by (simp add: distinct_map_filter)
  ultimately show ?case using old unfolding desk_ok_def by (simp add: distinct_map_filter)
qed

end
