(* ===== verification/Support_Calls.thy ===== *)
theory Support_Calls
  imports Support_Correct Auth_Correct
begin

text \<open>
  Every call on the support desk, a webhook request, an operator's or a task's, takes its committed
  tables through steps of \<open>desk_step\<close>; and what single calls do: an answer, an erasure, a re-delivery.
\<close>

subsection \<open>Answers\<close>

definition read_at :: "instant \<Rightarrow> support_conversation \<Rightarrow> support_conversation" where
  "read_at now c = (bumped now False c)\<lparr>sc_unread_count := 0\<rparr>"

definition reply_message :: "environment \<Rightarrow> support_conversation \<Rightarrow> int \<Rightarrow> string \<Rightarrow> session \<Rightarrow> support_message" where
  "reply_message env conv staff body s = badged (tg_outcome env (int_str (sc_tg_chat_id conv)) body (outside s))
    (new_message (pk_seq s Message_T) (env_now env)
      ((plain_message (sc_id conv) ''out'' body)\<lparr>ma_sender_staff_id := Some staff\<rparr>))"

definition replied :: "environment \<Rightarrow> support_conversation \<Rightarrow> support_message \<Rightarrow> db \<Rightarrow> db" where
  "replied env conv m d = d\<lparr>t_conversation := upd (\<lambda>c. sc_id c = sc_id conv) (read_at (env_now env)) (t_conversation d),
     t_message := t_message d @ [m]\<rparr>"

lemma reply_run:
  assumes conv: "get_conversation cid (work s) = Some conv"
    and staff: "list_ex (\<lambda>x. u_id x = staff) (t_user (work s))" and below: "ids_below s"
    and run: "support_reply env cid staff body s = (r, s')"
  shows "committed s' = replied env conv (reply_message env conv staff body s) (work s)" "work s' = committed s'"
    "pk_seq s' = (pk_seq s)(Message_T := pk_seq s Message_T + 1)" "outbox s' = outbox s"
    "env_cache_up env \<Longrightarrow> r = Inr (pk_seq s Message_T) \<and> events (outside s') = events (outside s) @ [(sc_id conv, ''outbound'')]"
proof -
  let ?a = "(plain_message (sc_id conv) ''out'' body)\<lparr>ma_sender_staff_id := Some staff\<rparr>"
  have "list_ex (\<lambda>c. sc_id c = sc_id conv) (t_conversation (work s))"
    using conv by (auto simp: get_conversation_def list_ex_iff find_Some_iff)
  then have row: "message_row_ok (new_message (pk_seq s Message_T) (env_now env) ?a) (work s)"
    using staff by (simp add: message_row_ok_def new_message_def plain_message_def)
  define s2 where "s2 = s\<lparr>pk_seq := (pk_seq s)(Message_T := pk_seq s Message_T + 1),
      outside := snd (tg_send_message env (int_str (sc_tg_chat_id conv)) body (outside s)),
      work := (work s)\<lparr>t_message := t_message (work s) @ [reply_message env conv staff body s]\<rparr>\<rparr>"
  have "bindM (bump_activity env (sc_id conv) False) (\<lambda>_. bindM (repo_mark_read (sc_id conv)) (\<lambda>_. bindM commit (\<lambda>_.
      bindM (publish_support_event env (sc_id conv) ''outbound'') (\<lambda>_. ret (pk_seq s Message_T))))) s2 = (r, s')"
    using run conv below
    by (simp add: support_reply_def post_run [OF row] ids_below_def Let_def s2_def reply_message_def)
  moreover obtain log where "outside s2 = (outside s)\<lparr>tg_sent := log\<rparr>"
    using tg_send_frame [of env "int_str (sc_tg_chat_id conv)" body "outside s"]
    by (cases "tg_send_message env (int_str (sc_tg_chat_id conv)) body (outside s)") (auto simp: s2_def)
  moreover have "(\<lambda>c. (bumped (env_now env) False c)\<lparr>sc_unread_count := 0\<rparr>) = read_at (env_now env)"
    by (simp add: fun_eq_iff read_at_def)
  ultimately show "committed s' = replied env conv (reply_message env conv staff body s) (work s)" "work s' = committed s'"
    "pk_seq s' = (pk_seq s)(Message_T := pk_seq s Message_T + 1)" "outbox s' = outbox s"
    "env_cache_up env \<Longrightarrow> r = Inr (pk_seq s Message_T) \<and> events (outside s') = events (outside s) @ [(sc_id conv, ''outbound'')]"
    by (auto simp: bindM_app bump_activity_def repo_mark_read_def publish_support_event_def redis_call_def remote_def set_conversation_def
        conversation_upd_twice bumped_def replied_def s2_def split: if_splits)
qed

lemma reply_is_answer: "answer (sc_id conv) (pk_seq s Message_T) (reply_message env conv staff body s)"
  using tg_outcome_badge [of env "int_str (sc_tg_chat_id conv)" body "outside s"]
  by (auto simp: answer_def reply_message_def badged_def new_message_def plain_message_def)

lemma reads_or_keeps_basic: "reads_or_keeps (read_at now)" "reads_or_keeps (\<lambda>c. c\<lparr>sc_unread_count := 0\<rparr>)"
    "reads_or_keeps (\<lambda>c. c\<lparr>sc_status := st\<rparr>)" "reads_or_keeps (\<lambda>c. c\<lparr>sc_linked_order_id := oid\<rparr>)"
  by (simp_all add: reads_or_keeps_def same_conversation_def read_at_def bumped_def)

subsection \<open>Calls\<close>

datatype support_call =
    Telegram_Update phrases web_request "json option"
  | List_Inbox web_request "string option" int | Read_Metrics web_request int
  | Open_Thread web_request int int | Get_File "string \<Rightarrow> string option" web_request int int
  | Send_Reply web_request int string | Set_Status web_request int string
  | Link_Order web_request int string | Unlink_Order web_request int | Erase_Conversation web_request int
  | List_Canned web_request "string option" | Create_Canned web_request canned_in
  | Update_Canned web_request int canned_in | Delete_Canned web_request int
  | Purge_Task | Fetch_Task "string \<Rightarrow> string option" int int string | Notify_Task phrases int string string

fun support_run :: "environment \<Rightarrow> support_call \<Rightarrow> unit act" where
  "support_run env (Telegram_Update ph r body) = telegram_webhook env ph r body"
| "support_run env (List_Inbox r status page) = void (list_conversations_endpoint env r status page)"
| "support_run env (Read_Metrics r days) = void (metrics_endpoint env r days)"
| "support_run env (Open_Thread r cid page) = void (get_conversation_endpoint env r cid page)"
| "support_run env (Get_File guess r cid mid) = void (get_attachment_endpoint env guess r cid mid)"
| "support_run env (Send_Reply r cid body) = void (reply_endpoint env r cid body)"
| "support_run env (Set_Status r cid st) = void (set_status_endpoint env r cid st)"
| "support_run env (Link_Order r cid number) = void (link_order_endpoint env r cid number)"
| "support_run env (Unlink_Order r cid) = unlink_order_endpoint env r cid"
| "support_run env (Erase_Conversation r cid) = delete_conversation_endpoint env r cid"
| "support_run env (List_Canned r lang) = void (list_canned_endpoint env r lang)"
| "support_run env (Create_Canned r p) = void (create_canned_endpoint env r p)"
| "support_run env (Update_Canned r i p) = void (update_canned_endpoint env r i p)"
| "support_run env (Delete_Canned r i) = delete_canned_endpoint env r i"
| "support_run env Purge_Task = void (purge_stale_conversations env)"
| "support_run env (Fetch_Task guess mid cid f) = fetch_attachment env guess mid cid f"
| "support_run env (Notify_Task ph cid name snippet) = remote (notify_staff env ph cid name snippet)"

text \<open>Between requests the session sees what is committed.\<close>

definition settled :: "session \<Rightarrow> bool" where
  "settled s \<longleftrightarrow> work s = committed s"

text \<open>
  What a call may leave behind before its commit: nothing committed yet, and the ids drawn so far.
  \<open>desk_run\<close> is the statement about a whole call, from a settled session.
\<close>

definition desk_run :: "'a act \<Rightarrow> bool" where
  "desk_run m \<longleftrightarrow> (\<forall>s. settled s \<longrightarrow> desk_ok (desk_of s) \<longrightarrow> rtranclp desk_step (desk_of s) (desk_of (snd (m s))))"

definition later :: "session \<Rightarrow> session \<Rightarrow> bool" where
  "later s t \<longleftrightarrow> (\<forall>T. pk_seq s T \<le> pk_seq t T)"

definition quiet :: "session \<Rightarrow> session \<Rightarrow> bool" where
  "quiet s t \<longleftrightarrow> later s t \<and> committed t = committed s"

lemma desk_of_tables: "desk_of s = \<lparr>dk_next_conversation = pk_seq s Conversation_T, dk_next_message = pk_seq s Message_T,
     dk_conversations = t_conversation (committed s), dk_messages = t_message (committed s)\<rparr>"
  by (simp add: desk_of_def)

lemma later_desk:
  assumes "later s t" "t_conversation (committed t) = t_conversation (committed s)" "t_message (committed t) = t_message (committed s)"
  shows "rtranclp desk_step (desk_of s) (desk_of t)"
  using assms unfolding desk_of_def later_def by (intro r_into_rtranclp) (simp add: desk_step.Draw)

lemma later_prims [pres]:
  "preserves (later s) (writes g)" "preserves (later s) (next_id T)" "preserves (later s) commit" "preserves (later s) rollback"
  "preserves (later s) (enqueue env msg)" "preserves (later s) (remote m)" "preserves (later s) (delay env msg)"
  by (auto intro!: preservesI simp: later_def delay_def remote_def split: if_splits prod.splits) (metis add_increasing2 zero_le_one)+

lemma settled_below: "settled s \<Longrightarrow> desk_ok (desk_of s) \<Longrightarrow> ids_below s"
  by (auto simp: settled_def ids_below_def desk_ok_def desk_of_def message_ok_def Let_def)

text \<open>The parts of a call before and after its transaction leave tables and ids alone.\<close>

definition frame :: "db \<Rightarrow> db \<Rightarrow> (table \<Rightarrow> int) \<Rightarrow> session \<Rightarrow> bool" where
  "frame w c k t \<longleftrightarrow> work t = w \<and> committed t = c \<and> pk_seq t = k"

definition aside :: "'a act \<Rightarrow> bool" where
  "aside m \<longleftrightarrow> (\<forall>w c k. preserves (frame w c k) m)"

lemma aside_prims [intro]:
  "aside (ret x)" "aside (throw e)" "aside (liftE r)" "aside (reads f)" "aside (readsE g)" "aside (remote n)"
  "aside (delay env msg)" "aside (enqueue env msg)" "aside (valid_or_422 b)" "aside (publish_support_event env cid kind)"
  unfolding aside_def valid_or_422_def publish_support_event_def delay_def
  by (auto intro!: pres simp: frame_def) (auto intro!: preservesI simp: frame_def remote_def split: prod.splits)

lemma aside_bindM [intro]: "aside m \<Longrightarrow> (\<And>x. aside (f x)) \<Longrightarrow> aside (bindM m f)"
  by (simp add: aside_def preserves_bindM)

lemma aside_whenM [intro]: "aside m \<Longrightarrow> aside (whenM b m)"
  by (simp add: aside_def preserves_whenM)

lemma aside_case_option [intro]: "aside m \<Longrightarrow> (\<And>x. aside (f x)) \<Longrightarrow> aside (case v of None \<Rightarrow> m | Some x \<Rightarrow> f x)"
  by (cases v) simp_all

lemma aside_if: "aside m \<Longrightarrow> aside n \<Longrightarrow> aside (if b then m else n)"
  by simp

lemma aside_case_prod: "(\<And>a b. aside (f a b)) \<Longrightarrow> aside (case p of (a, b) \<Rightarrow> f a b)"
  by (cases p) simp

lemma aside_catchM [intro]: "aside m \<Longrightarrow> (\<And>e. aside (h e)) \<Longrightarrow> aside (catchM m p h)"
  by (simp add: aside_def preserves_catchM)

lemma aside_forEach [intro]: "(\<And>x. aside (f x)) \<Longrightarrow> aside (forEach xs f)"
  by (simp add: aside_def preserves_forEach)

lemma aside_staff [intro]: "aside (current_staff env r)"
  unfolding current_staff_def current_user_def
  by (auto split: option.splits sum.splits intro!: aside_bindM aside_prims)

lemma asideD: "aside m \<Longrightarrow> m s = (r, s') \<Longrightarrow> work s' = work s \<and> committed s' = committed s \<and> pk_seq s' = pk_seq s"
  unfolding aside_def by (metis frame_def preservesD)

lemma aside_desk: "aside m \<Longrightarrow> m s = (r, s') \<Longrightarrow> desk_of s' = desk_of s"
  by (auto simp: desk_of_def dest: asideD)

lemma desk_runI: "(\<And>s r s'. settled s \<Longrightarrow> desk_ok (desk_of s) \<Longrightarrow> m s = (r, s') \<Longrightarrow> rtranclp desk_step (desk_of s) (desk_of s')) \<Longrightarrow> desk_run m"
  unfolding desk_run_def by (metis prod.collapse)

lemma desk_run_aside: "aside m \<Longrightarrow> desk_run m"
  by (rule desk_runI) (simp add: aside_desk)

lemma desk_run_first: 
  assumes "aside m" "\<And>x. desk_run (f x)"
  shows "desk_run (bindM m f)"
proof (rule desk_runI)
  fix s r s' assume s: "settled s" "desk_ok (desk_of s)" and run: "bindM m f s = (r, s')"
  obtain q s1 where m: "m s = (q, s1)" by (cases "m s")
  have s1: "settled s1" "desk_of s1 = desk_of s" using s(1) asideD [OF assms(1) m] by (auto simp: settled_def desk_of_def)
  show "rtranclp desk_step (desk_of s) (desk_of s')"
  proof (cases q)
    case (Inl e)
    then show ?thesis using run m s1 by (simp add: bindM_app)
  next
    case (Inr x)
    then have "f x s1 = (r, s')" using run m by (simp add: bindM_app)
    then show ?thesis using assms(2) [of x] s1 s(2) unfolding desk_run_def by (metis snd_conv)
  qed
qed

lemma desk_run_then:
  assumes "desk_run m" "\<And>x. aside (f x)"
  shows "desk_run (bindM m f)"
proof (rule desk_runI)
  fix s r s' assume s: "settled s" "desk_ok (desk_of s)" and run: "bindM m f s = (r, s')"
  obtain q s1 where m: "m s = (q, s1)" by (cases "m s")
  have "desk_of s' = desk_of s1" using run m aside_desk [OF assms(2)] by (cases q) (auto simp: bindM_app)
  then show "rtranclp desk_step (desk_of s) (desk_of s')"
    using assms(1) s m unfolding desk_run_def by (metis snd_conv)
qed

lemmas later_rules = later_prims preserves_bindM preserves_liftE preserves_reads preserves_readsE preserves_ret preserves_throw
  preserves_whenM preserves_if preserves_case_option preserves_case_prod preserves_catchM

lemma later_parts:
  "preserves (later s0) (add_message env a)" "preserves (later s0) (bump_activity env cid b)"
  "preserves (later s0) (deliver env mid chat body)" "preserves (later s0) (set_linked_order cid oid)"
  "preserves (later s0) (publish_support_event env cid kind)" "preserves (later s0) (repo_mark_read cid)"
  "preserves (later s0) (create_conversation env chat im)" "preserves (later s0) (refresh_snapshot c im)"
  unfolding add_message_def bump_activity_def deliver_def set_linked_order_def publish_support_event_def repo_mark_read_def
    create_conversation_def refresh_snapshot_def Let_def
  by (intro later_rules)+

lemma later_handlers:
  "preserves (later s0) (handle_inbound env ph im)" "preserves (later s0) (support_reply env cid staff body)"
  unfolding handle_inbound_def handle_new_def handle_start_def handle_attachment_def handle_text_def support_reply_def Let_def
  by (intro later_rules later_parts)+

lemma chat_found:
  "get_by_tg_chat_id chat d = Inr (Some c) \<Longrightarrow> c \<in> set (t_conversation d) \<and> sc_tg_chat_id c = chat"
  by (auto simp: get_by_tg_chat_id_def scalar_one_or_none_def filter_eq_Cons_iff split: list.splits)

lemma chat_free: "get_by_tg_chat_id chat d = Inr None \<Longrightarrow> \<forall>c \<in> set (t_conversation d). sc_tg_chat_id c \<noteq> chat"
  by (auto simp: get_by_tg_chat_id_def scalar_one_or_none_def filter_empty_conv split: list.splits)

lemma filed_step:
  assumes "settled s" "desk_ok (desk_of s)" and op: "opened env im chat s s1 conv is_new" and fl: "filed env (sc_id conv) tg s1 s'"
    and new: "is_new \<or> \<not> message_exists (sc_id conv) tg (work s)"
  shows "desk_step (desk_of s) (desk_of s')"
proof -
  let ?d = "committed s"
  have w: "work s = ?d" using assms(1) by (simp add: settled_def)
  obtain g ms where g: "bumps (env_now env) g" and ms: "filing (sc_id conv) tg (pk_seq s1 Message_T) (env_now env) ms"
    and c': "committed s' = file_messages (sc_id conv) g ms (work s1)" "pk_seq s' Message_T = pk_seq s1 Message_T + int (length ms)"
      "pk_seq s' Conversation_T = pk_seq s1 Conversation_T"
    using fl unfolding filed_def by blast
  show ?thesis
  proof (cases is_new)
    case True
    then obtain u l where free: "get_by_tg_chat_id chat ?d = Inr None"
      and conv: "conv = new_conversation (pk_seq s Conversation_T) chat (im_customer_name im) u l (env_now env)"
      and s1: "s1 = s\<lparr>pk_seq := (pk_seq s)(Conversation_T := pk_seq s Conversation_T + 1),
        work := ?d\<lparr>t_conversation := t_conversation ?d @ [conv]\<rparr>\<rparr>"
      using op w by (auto simp: opened_def)
    have "\<forall>c \<in> set (t_conversation ?d). sc_id c \<noteq> sc_id conv"
      using assms(2) by (auto simp: desk_ok_def desk_of_def conv new_conversation_def Let_def)
    then have "upd (\<lambda>c. sc_id c = sc_id conv) g (t_conversation ?d @ [conv]) = t_conversation ?d @ [g conv]"
      by (simp add: upd_append upd_none)
    moreover have "sc_tg_chat_id (g conv) = chat" "sc_id (g conv) = pk_seq s Conversation_T" "sc_unread_count (g conv) = 1"
      "sc_id conv = pk_seq s Conversation_T"
      using g by (simp_all add: bumps_def same_conversation_def conv new_conversation_def)
    ultimately show ?thesis using First_contact [of "t_conversation ?d" "g conv" "pk_seq s Conversation_T" tg "pk_seq s Message_T" "env_now env" ms "t_message ?d"]
      chat_free [OF free] ms c' by (simp add: desk_of_def s1)
  next
    case False
    then obtain u l c where c: "get_by_tg_chat_id chat ?d = Inr (Some c)" "conv = refreshed (im_customer_name im) u l c"
      and s1: "s1 = s\<lparr>work := set_conversation (sc_id c) (refreshed (im_customer_name im) u l) ?d\<rparr>"
      using op w by (auto simp: opened_def)
    let ?g = "\<lambda>x. g (refreshed (im_customer_name im) u l x)"
    have ids: "sc_id conv = sc_id c" by (simp add: c(2) refreshed_def)
    have "bumps (env_now env) ?g" using g by (simp add: bumps_def same_conversation_def refreshed_def)
    moreover have "upd (\<lambda>x. sc_id x = sc_id c) g (upd (\<lambda>x. sc_id x = sc_id c) (refreshed (im_customer_name im) u l) (t_conversation ?d))
        = upd (\<lambda>x. sc_id x = sc_id c) ?g (t_conversation ?d)"
      by (rule conversation_upd_twice) (simp add: refreshed_def)
    moreover have "\<not> heard (sc_id c) tg (t_message ?d)"
      using new False w ids by (auto simp: message_exists_def heard_def list_ex_iff)
    ultimately show ?thesis using Further_message [of c "t_conversation ?d" tg "t_message ?d" "env_now env" ?g "pk_seq s Message_T" ms "pk_seq s Conversation_T"]
      chat_found [OF c(1)] ms c' ids by (simp add: desk_of_def s1 set_conversation_def)
  qed
qed

lemma inbound_desk: "desk_run (handle_inbound env ph im)"
proof (rule desk_runI)
  fix s r s' assume s: "settled s" "desk_ok (desk_of s)" and run: "handle_inbound env ph im s = (r, s')"
  have "later s s'" using later_handlers(1) [of s env ph im] run unfolding preserves_def by (metis later_def order_refl snd_conv)
  then show "rtranclp desk_step (desk_of s) (desk_of s')"
    using handle_inbound_run [OF run settled_below [OF s]] filed_step [OF s] later_desk [of s s']
    by (fastforce simp: untouched_def)
qed

lemma desk_run_cases:
  "desk_run m \<Longrightarrow> desk_run n \<Longrightarrow> desk_run (if b then m else n)"
  "desk_run m \<Longrightarrow> (\<And>x. desk_run (f x)) \<Longrightarrow> desk_run (case v of None \<Rightarrow> m | Some x \<Rightarrow> f x)"
  by simp (cases v; simp)

lemma webhook_desk: "desk_run (telegram_webhook env ph r body)"
proof -
  have tail: "desk_run (bindM (handle_inbound env ph im) f)" if "\<And>x. aside (f x)" for im f
    using that by (rule desk_run_then [OF inbound_desk])
  have rest: "desk_run (case parsed of None \<Rightarrow> ret () | Some im \<Rightarrow> bindM (handle_inbound env ph im) (f im))" if "\<And>im x. aside (f im x)" for parsed f
    by (rule desk_run_cases(2) [OF desk_run_aside [OF aside_prims(1)]]) (rule tail, rule that)
  show ?thesis unfolding telegram_webhook_def
    apply (rule desk_run_first [OF aside_prims(6)], rule desk_run_first [OF aside_prims(3)])
    apply (rule desk_run_cases(1) [OF desk_run_aside [OF aside_prims(2)]])
    apply (rule desk_run_cases(2) [OF desk_run_aside [OF aside_prims(1)]])
    apply (rule desk_run_first [OF aside_prims(3)], rule rest)
    apply (unfold after_handling_def Let_def, intro aside_bindM aside_whenM aside_prims aside_case_option)
    done
qed

text \<open>The operators' calls.\<close>

lemma conversation_found: "get_conversation cid d = Some c \<Longrightarrow> c \<in> set (t_conversation d) \<and> sc_id c = cid"
  by (auto simp: get_conversation_def find_Some_iff)

lemma reply_desk: "desk_run (support_reply env cid staff body)"
proof (rule desk_runI)
  fix s r s' assume s: "settled s" "desk_ok (desk_of s)" and run: "support_reply env cid staff body s = (r, s')"
  note below = settled_below [OF s]
  have later: "later s s'"
    using later_handlers(2) [of s env cid staff body] run unfolding preserves_def by (metis later_def order_refl snd_conv)
  show "rtranclp desk_step (desk_of s) (desk_of s')"
  proof (cases "\<exists>conv. get_conversation cid (work s) = Some conv \<and> list_ex (\<lambda>x. u_id x = staff) (t_user (work s))")
    case True
    then obtain conv where conv: "get_conversation cid (work s) = Some conv" "list_ex (\<lambda>x. u_id x = staff) (t_user (work s))" by blast
    note outcome = reply_run [OF conv below run]
    have "desk_step (desk_of s) (desk_of s')"
      using Answer [OF conjunct1 [OF conversation_found [OF conv(1)]] reads_or_keeps_basic(1) [of "env_now env"] reply_is_answer [of conv s env staff body],
          where kc = "pk_seq s Conversation_T" and ms = "t_message (work s)"] outcome s(1)
      by (simp add: desk_of_def replied_def settled_def)
    then show ?thesis by blast
  next
    case False
    then have "committed s' = committed s"
      using run by (auto simp: support_reply_def bindM_app add_message_app Let_def message_row_ok_def new_message_def plain_message_def
          split: option.splits if_splits)
    then show ?thesis using later by (intro later_desk) simp_all
  qed
qed

lemma change_desk:
  assumes "reads_or_keeps g" "committed s' = set_conversation cid g (committed s)" "pk_seq s' = pk_seq s"
  shows "rtranclp desk_step (desk_of s) (desk_of s')"
  using Change [OF assms(1)] assms(2,3) by (intro r_into_rtranclp) (simp add: desk_of_def set_conversation_def)

lemma set_status_desk: "desk_run (support_set_status env cid st)"
proof (rule desk_runI)
  fix s r s' assume s: "settled s" and run: "support_set_status env cid st s = (r, s')"
  have "committed s' = committed s \<or> committed s' = set_conversation cid (\<lambda>c. c\<lparr>sc_status := st\<rparr>) (committed s)" "pk_seq s' = pk_seq s"
    using run s by (auto simp: support_set_status_def repo_set_status_def bindM_app publish_support_event_def redis_call_def remote_def settled_def
        split: option.splits if_splits)
  then show "rtranclp desk_step (desk_of s) (desk_of s')"
    using change_desk [OF reads_or_keeps_basic(3)] by (metis later_def later_desk order_refl)
qed

lemma desk_same: "committed s' = committed s \<Longrightarrow> pk_seq s' = pk_seq s \<Longrightarrow> rtranclp desk_step (desk_of s) (desk_of s')"
  by (simp add: desk_of_def)

lemma link_desk: "desk_run (support_link_order cid number)" "desk_run (support_unlink_order cid)" "desk_run (support_mark_read cid)"
proof -
  show "desk_run (support_link_order cid number)"
  proof (rule desk_runI)
    fix s r s' assume s: "settled s" and run: "support_link_order cid number s = (r, s')"
    have "committed s' = committed s \<or> (\<exists>oid. committed s' = set_conversation cid (\<lambda>c. c\<lparr>sc_linked_order_id := oid\<rparr>) (committed s))" "pk_seq s' = pk_seq s"
      using run s by (auto simp: support_link_order_def set_linked_order_def bindM_app settled_def split: option.splits sum.splits)
    then show "rtranclp desk_step (desk_of s) (desk_of s')"
      using change_desk [OF reads_or_keeps_basic(4)] desk_same by metis
  qed
  show "desk_run (support_unlink_order cid)"
  proof (rule desk_runI)
    fix s r s' assume s: "settled s" and run: "support_unlink_order cid s = (r, s')"
    have "committed s' = committed s \<or> committed s' = set_conversation cid (\<lambda>c. c\<lparr>sc_linked_order_id := None\<rparr>) (committed s)" "pk_seq s' = pk_seq s"
      using run s by (auto simp: support_unlink_order_def set_linked_order_def bindM_app settled_def split: option.splits)
    then show "rtranclp desk_step (desk_of s) (desk_of s')"
      using change_desk [OF reads_or_keeps_basic(4)] desk_same by metis
  qed
  show "desk_run (support_mark_read cid)"
    using change_desk [OF reads_or_keeps_basic(2)]
    by (intro desk_runI) (auto simp: support_mark_read_def repo_mark_read_def settled_def)
qed

lemma erase_desk:
  assumes "committed s' = drop_conversations P (committed s)" "pk_seq s' = pk_seq s"
  shows "rtranclp desk_step (desk_of s) (desk_of s')"
  using Erase [of "pk_seq s Conversation_T" "pk_seq s Message_T" "t_conversation (committed s)" "t_message (committed s)" P] assms
  by (intro r_into_rtranclp) (simp add: desk_of_def drop_conversations_def)

lemma aside_removal: "aside (remove_attachment_keys env ks)"
  unfolding remove_attachment_keys_def by (intro aside_bindM aside_forEach aside_catchM aside_prims)

lemma repo_erasures:
  "repo_delete_conversation cid s = (Inr (0 < rowcount (\<lambda>c. sc_id c = cid) (t_conversation (work s))),
     s\<lparr>work := drop_conversations (\<lambda>c. sc_id c = cid) (work s)\<rparr>)"
  "delete_stale cutoff s = (Inr (rowcount (is_stale cutoff) (t_conversation (work s))), s\<lparr>work := drop_conversations (is_stale cutoff) (work s)\<rparr>)"
  by (simp_all add: repo_delete_conversation_def delete_stale_def)

lemma erasure_desk: "desk_run (delete_conversation env cid)" "desk_run (purge_stale env days)"
proof -
  show "desk_run (delete_conversation env cid)"
  proof (rule desk_runI)
    fix s r s' assume s: "settled s" and run: "delete_conversation env cid s = (r, s')"
    let ?ks = "attachment_keys_for_conversation cid (work s)" and ?d = "drop_conversations (\<lambda>c. sc_id c = cid) (work s)"
    have "aside (bindM (remove_attachment_keys env ?ks) (\<lambda>_. publish_support_event env cid ''status''))"
      by (intro aside_bindM aside_removal aside_prims)
    moreover have "committed s' = committed s \<and> pk_seq s' = pk_seq s \<or>
        bindM (remove_attachment_keys env ?ks) (\<lambda>_. publish_support_event env cid ''status'') (s\<lparr>work := ?d, committed := ?d\<rparr>) = (r, s')"
      using run by (auto simp: delete_conversation_def bindM_app [of "repo_delete_conversation cid"] repo_erasures split: if_splits)
    ultimately have "committed s' = committed s \<and> pk_seq s' = pk_seq s \<or> committed s' = ?d \<and> pk_seq s' = pk_seq s"
      using asideD by fastforce
    then show "rtranclp desk_step (desk_of s) (desk_of s')"
      using desk_same erase_desk s unfolding settled_def by metis
  qed
  show "desk_run (purge_stale env days)"
  proof (rule desk_runI)
    fix s r s' assume s: "settled s" and run: "purge_stale env days s = (r, s')"
    let ?cut = "env_now env - days * 86400000000"
    let ?d = "drop_conversations (is_stale ?cut) (work s)"
    have keep: "aside (bindM (remove_attachment_keys env ks) (\<lambda>_. ret n))" for ks n
      by (intro aside_bindM aside_removal aside_prims)
    have tail: "bindM (remove_attachment_keys env (attachment_keys_stale ?cut (work s))) (\<lambda>_. ret (rowcount (is_stale ?cut) (t_conversation (work s))))
        (s\<lparr>work := ?d, committed := ?d\<rparr>) = (r, s')"
      using run by (simp add: purge_stale_def Let_def bindM_app [of "delete_stale c" for c] repo_erasures)
    have "committed s' = ?d" "pk_seq s' = pk_seq s" using asideD [OF keep tail] by simp_all
    then show "rtranclp desk_step (desk_of s) (desk_of s')" using erase_desk s unfolding settled_def by metis
  qed
qed

lemma fetch_desk: "desk_run (fetch_attachment env guess mid cid f)"
proof -
  have attach: "desk_run (bindM (reads (get_message mid)) (\<lambda>found. whenM (found \<noteq> None)
      (bindM (writes (set_message mid (\<lambda>m. m\<lparr>sm_attachment_key := key\<rparr>))) (\<lambda>_. commit))))" for key
  proof (rule desk_runI)
    fix s r s' assume s: "settled s" and run: "bindM (reads (get_message mid)) (\<lambda>found. whenM (found \<noteq> None)
      (bindM (writes (set_message mid (\<lambda>m. m\<lparr>sm_attachment_key := key\<rparr>))) (\<lambda>_. commit))) s = (r, s')"
    have "s' = s \<or> committed s' = set_message mid (\<lambda>m. m\<lparr>sm_attachment_key := key\<rparr>) (committed s) \<and> pk_seq s' = pk_seq s"
      using run s by (auto simp: settled_def split: if_splits)
    then show "rtranclp desk_step (desk_of s) (desk_of s')"
      using Attach [of "pk_seq s Conversation_T" "pk_seq s Message_T" "t_conversation (committed s)" "t_message (committed s)" mid key]
      by (auto simp: desk_of_def set_message_def)
  qed
  show ?thesis unfolding fetch_attachment_def Let_def
    apply (rule desk_run_cases(1) [OF desk_run_aside [OF aside_prims(1)]], rule desk_run_first [OF aside_prims(6)])
    apply (rule desk_run_cases(2) [OF desk_run_aside [OF aside_prims(1)]])
    apply (simp only: case_prod_beta, rule desk_run_first [OF aside_prims(6)], rule desk_run_first [OF aside_prims(3)],
        rule desk_run_first [OF aside_prims(6)], rule attach)
    done
qed

lemma canned_desk: "desk_run (create_canned env p)" "desk_run (update_canned i p)" "desk_run (delete_canned i)"
proof -
  have same: "desk_run m" if "\<And>s r s'. settled s \<Longrightarrow> m s = (r, s') \<Longrightarrow>
      t_conversation (committed s') = t_conversation (committed s) \<and> t_message (committed s') = t_message (committed s) \<and>
      pk_seq s' Conversation_T = pk_seq s Conversation_T \<and> pk_seq s' Message_T = pk_seq s Message_T" for m :: "'a act"
    using that by (intro desk_runI) (metis desk_of_def rtranclp.rtrancl_refl)
  show "desk_run (create_canned env p)" by (rule same) (auto simp: create_canned_def Let_def settled_def)
  show "desk_run (update_canned i p)" by (rule same) (auto simp: update_canned_def Let_def settled_def split: option.splits)
  show "desk_run (delete_canned i)" by (rule same) (auto simp: delete_canned_def settled_def split: if_splits)
qed

lemma desk_run_void: "desk_run m \<Longrightarrow> desk_run (void m)"
  unfolding void_def by (erule desk_run_then) (rule aside_prims)

lemma aside_void: "aside m \<Longrightarrow> aside (void m)"
  unfolding void_def by (erule aside_bindM) (rule aside_prims)

lemma staff_desk: "(\<And>u. desk_run (f u)) \<Longrightarrow> desk_run (bindM (current_staff env r) f)"
  by (rule desk_run_first [OF aside_staff])

lemma reading_endpoints:
  "aside (list_conversations_endpoint env r status page)" "aside (metrics_endpoint env r days)"
  "aside (get_attachment_endpoint env guess r cid mid)" "aside (list_canned_endpoint env r lang)"
proof -
  show "aside (get_attachment_endpoint env guess r cid mid)"
    unfolding get_attachment_endpoint_def
    by (intro aside_bindM aside_staff aside_prims aside_case_option aside_if aside_case_prod)
qed (unfold list_conversations_endpoint_def metrics_endpoint_def list_canned_endpoint_def, (intro aside_bindM aside_staff aside_prims)+)

lemma endpoints_desk:
  "desk_run (get_conversation_endpoint env r cid page)" "desk_run (reply_endpoint env r cid body)" "desk_run (set_status_endpoint env r cid st)"
  "desk_run (link_order_endpoint env r cid number)" "desk_run (unlink_order_endpoint env r cid)" "desk_run (delete_conversation_endpoint env r cid)"
  "desk_run (create_canned_endpoint env r p)" "desk_run (update_canned_endpoint env r i p)" "desk_run (delete_canned_endpoint env r i)"
proof -
  have checked: "desk_run (bindM (valid_or_422 b) (\<lambda>_. m))" if "desk_run m" for b and m :: "'b act"
    using that by (intro desk_run_first aside_prims)
  have canned: "desk_run (bindM (liftE q) (\<lambda>_. m))" if "desk_run m" for q :: "exn + unit" and m :: "'b act"
    using that by (intro desk_run_first aside_prims)
  show "desk_run (get_conversation_endpoint env r cid page)"
    unfolding get_conversation_endpoint_def
    apply (rule staff_desk, rule checked, rule desk_run_first [OF aside_prims(4)], rule desk_run_first [OF aside_whenM [OF aside_prims(2)]])
    apply (rule desk_run_then [OF link_desk(3)], intro aside_bindM aside_prims)
    done
  show "desk_run (reply_endpoint env r cid body)"
    unfolding reply_endpoint_def by (rule staff_desk, rule checked, rule desk_run_then [OF reply_desk], rule aside_prims)
  show "desk_run (set_status_endpoint env r cid st)" "desk_run (link_order_endpoint env r cid number)" "desk_run (unlink_order_endpoint env r cid)"
    "desk_run (delete_conversation_endpoint env r cid)" "desk_run (create_canned_endpoint env r p)" "desk_run (update_canned_endpoint env r i p)"
    "desk_run (delete_canned_endpoint env r i)"
    unfolding set_status_endpoint_def link_order_endpoint_def unlink_order_endpoint_def delete_conversation_endpoint_def
      create_canned_endpoint_def update_canned_endpoint_def delete_canned_endpoint_def
    by (intro staff_desk checked canned set_status_desk link_desk erasure_desk canned_desk)+
qed

lemma support_run_desk: "desk_run (support_run env c)"
  by (cases c) (simp_all add: desk_run_void webhook_desk endpoints_desk erasure_desk purge_stale_conversations_def fetch_desk
      desk_run_aside aside_prims aside_void reading_endpoints)

subsection \<open>A re-delivered update\<close>

lemma upd_same_key: "(\<And>c. k (g c) = k c) \<Longrightarrow> filter (\<lambda>c. k c = x) (upd P g cs) = upd P g (filter (\<lambda>c. k c = x) cs)"
  by (induction cs) auto

lemma filed_already:
  assumes op: "opened env im chat s s1 conv is_new" and fl: "filed env (sc_id conv) tg s1 s'"
    and ids: "db_int (im_chat_id im) = Inr chat" "db_int (im_message_id im) = Inr tg"
  shows "already im (committed s')"
proof -
  obtain g ms where g: "bumps (env_now env) g" and ms: "filing (sc_id conv) tg (pk_seq s1 Message_T) (env_now env) ms"
    and c': "committed s' = file_messages (sc_id conv) g ms (work s1)"
    using fl unfolding filed_def by blast
  have g': "sc_id (g c) = sc_id c" "sc_tg_chat_id (g c) = sc_tg_chat_id c" for c using g by (simp_all add: bumps_def same_conversation_def)
  obtain c where c: "filter (\<lambda>c. sc_tg_chat_id c = chat) (t_conversation (work s1)) = [c]" "sc_id c = sc_id conv"
  proof (cases is_new)
    case True
    then show thesis using op that chat_free [of chat "work s"]
      by (auto simp: opened_def new_conversation_def filter_empty_conv)
  next
    case False
    then obtain u l c where c: "get_by_tg_chat_id chat (work s) = Inr (Some c)" "conv = refreshed (im_customer_name im) u l c"
      and s1: "s1 = s\<lparr>work := set_conversation (sc_id c) (refreshed (im_customer_name im) u l) (work s)\<rparr>"
      using op by (auto simp: opened_def)
    have "filter (\<lambda>c. sc_tg_chat_id c = chat) (t_conversation (work s)) = [c]"
      using c(1) by (auto simp: get_by_tg_chat_id_def scalar_one_or_none_def split: list.splits)
    then show thesis using that [of conv]
      by (simp add: s1 set_conversation_def c(2) upd_same_key refreshed_def)
  qed
  then have "get_by_tg_chat_id chat (committed s') = Inr (Some (g c))"
    by (simp add: c' get_by_tg_chat_id_def upd_same_key g' scalar_one_or_none_def)
  moreover have "message_exists (sc_id (g c)) tg (committed s')"
    using ms c(2) by (auto simp: message_exists_def c' g' filing_def)
  ultimately show ?thesis using ids by (auto simp: already_def)
qed

lemma rate_limiter_frame:
  assumes "rate_limiter env setting bucket r w = (out, w')"
  shows "tg_sent w' = tg_sent w \<and> events w' = events w \<and> objects w' = objects w"
proof -
  have "preserves (\<lambda>v. tg_sent v = tg_sent w \<and> events v = events w \<and> objects v = objects w) (rate_limiter env setting bucket r)"
    unfolding rate_limiter_def redis_incr_def redis_expire_def redis_call_def redis_put_def Let_def
    by (intro pres) (auto split: option.splits)
  then show ?thesis using assms unfolding preserves_def by (metis snd_conv)
qed

lemma webhook_cases:
  assumes run: "telegram_webhook env ph r body s = (out, s')"
  obtains (ignored) "untouched s s'" "\<And>update im. out = Inr () \<Longrightarrow> body = Some update \<Longrightarrow> parse_inbound update \<noteq> Inr (Some im)"
  | (handled) update im w where "body = Some update" "parse_inbound update = Inr (Some im)" "untouched s (s\<lparr>outside := w\<rparr>)"
      "bindM (handle_inbound env ph im) (after_handling env ph im) (s\<lparr>outside := w\<rparr>) = (out, s')"
proof -
  obtain lim w where lim: "rate_limiter env (rate_limit_telegram (env_cfg env)) ''telegram'' r (outside s) = (lim, w)"
    by (cases "rate_limiter env (rate_limit_telegram (env_cfg env)) ''telegram'' r (outside s)")
  have rem: "remote (rate_limiter env (rate_limit_telegram (env_cfg env)) ''telegram'' r) s = (lim, s\<lparr>outside := w\<rparr>)"
    by (simp add: remote_def lim)
  have same: "untouched s (s\<lparr>outside := w\<rparr>)" using rate_limiter_frame [OF lim] by (simp add: untouched_def)
  show thesis
  proof (cases "\<exists>update im. lim = Inr () \<and> verify_webhook_secret (env_cfg env) (header ''X-Telegram-Bot-Api-Secret-Token'' r) = Inr True \<and>
      body = Some update \<and> parse_inbound update = Inr (Some im)")
    case True
    then obtain update im where u: "lim = Inr ()" "verify_webhook_secret (env_cfg env) (header ''X-Telegram-Bot-Api-Secret-Token'' r) = Inr True"
      "body = Some update" "parse_inbound update = Inr (Some im)" by blast
    have "bindM (handle_inbound env ph im) (after_handling env ph im) (s\<lparr>outside := w\<rparr>) = (out, s')"
      using run u by (simp add: telegram_webhook_def bindM_app [of "remote m" for m] rem bindM_app [of "liftE m" for m])
    then show thesis using handled u same by blast
  next
    case False
    have "s' = s\<lparr>outside := w\<rparr> \<and> (out = Inr () \<longrightarrow> (\<forall>update im. body = Some update \<longrightarrow> parse_inbound update \<noteq> Inr (Some im)))"
      using run False
      by (auto simp: telegram_webhook_def bindM_app [of "remote m" for m] rem bindM_app [of "liftE m" for m]
          split: sum.splits option.splits if_splits)
    then show thesis using ignored same by blast
  qed
qed

lemma webhook_after:
  assumes "already im (work s)" "parse_inbound update = Inr (Some im)" "telegram_webhook env ph r (Some update) s = (out, s')"
  shows "untouched s s'"
  using assms(3)
proof (cases rule: webhook_cases)
  case (handled u i w)
  then have "i = im" "bindM (handle_inbound env ph im) (after_handling env ph im) (s\<lparr>outside := w\<rparr>) = (out, s')" using assms(2) by auto
  then have "s' = s\<lparr>outside := w\<rparr>"
    using already_dropped [of im "s\<lparr>outside := w\<rparr>" env ph] assms(1)
    by (simp add: bindM_app [of "handle_inbound env ph im"] after_handling_def Let_def dropped_def bindM_app [of "whenM b m" for b m])
  then show ?thesis using handled(3) by simp
qed

lemma webhook_recorded:
  assumes "settled s" "desk_ok (desk_of s)" "parse_inbound update = Inr (Some im)" "telegram_webhook env ph r (Some update) s = (Inr (), s')"
  shows "already im (committed s')"
  using assms(4)
proof (cases rule: webhook_cases)
  case ignored
  then show ?thesis using assms(3) by blast
next
  case (handled u i w)
  let ?s = "s\<lparr>outside := w\<rparr>"
  have i: "i = im" using handled(1,2) assms(3) by simp
  obtain q s2 where q: "handle_inbound env ph im ?s = (q, s2)" by (cases "handle_inbound env ph im ?s")
  obtain o1 where o1: "q = Inr o1" "after_handling env ph im o1 s2 = (Inr (), s')"
    using handled(4) q i by (auto simp: bindM_app [of "handle_inbound env ph im"] split: sum.splits)
  have "committed s' = committed s2"
    using o1(2) by (auto simp: after_handling_def Let_def delay_def bindM_app split: option.splits if_splits)
  moreover have below: "ids_below ?s" using settled_below [OF assms(1,2)] by (simp add: ids_below_def)
  have "already im (committed s2)"
    using handle_inbound_run [OF q below] o1(1) filed_already [of env im _ ?s] assms(1) by (auto simp: untouched_def settled_def)
  ultimately show ?thesis by simp
qed

subsection \<open>What is left after an erasure\<close>

lemma remove_attachments_run:
  assumes store: "get_storage (env_cfg env) = Inr b" and up: "env_store_up env"
  shows "remove_attachment_keys env ks s = (Inr (), s\<lparr>outside := (outside s)\<lparr>objects :=
    objects (outside s) |` (- exact_key (env_cfg env) b ` set ks)\<rparr>\<rparr>)"
proof -
  have "forEach ks (\<lambda>k. catchM (remote (remove_key env b k)) (\<lambda>_. True) (\<lambda>_. ret ())) s = (Inr (), s\<lparr>outside := (outside s)\<lparr>objects :=
    objects (outside s) |` (- exact_key (env_cfg env) b ` set ks)\<rparr>\<rparr>)" for s
  proof (induction ks arbitrary: s)
    case Nil
    then show ?case by simp
  next
    case (Cons k ks)
    let ?f = "\<lambda>k. catchM (remote (remove_key env b k)) (\<lambda>_. True) (\<lambda>_. ret ())"
    let ?w = "(outside s)\<lparr>objects := (objects (outside s))(exact_key (env_cfg env) b k := None)\<rparr>"
    have "?f k s = (Inr (), s\<lparr>outside := ?w\<rparr>)"
      using up by (simp add: catchM_def remote_def remove_key_def delete_object_def store_call_def bindM_app)
    then have "forEach (k # ks) ?f s = forEach ks ?f (s\<lparr>outside := ?w\<rparr>)" by (simp add: bindM_app [of "?f k"])
    also have "\<dots> = (Inr (), s\<lparr>outside := (outside s)\<lparr>objects :=
        objects (outside s) |` (- exact_key (env_cfg env) b ` set (k # ks))\<rparr>\<rparr>)"
      unfolding Cons.IH by (simp add: fun_eq_iff restrict_map_def)
    finally show ?case .
  qed
  then show ?thesis by (simp add: remove_attachment_keys_def bindM_app [of "liftE r" for r] store)
qed

lemma drop_one:
  assumes "rowcount (\<lambda>c. sc_id c = cid) (t_conversation d) \<noteq> 0"
  shows "drop_conversations (\<lambda>c. sc_id c = cid) d = d\<lparr>t_conversation := filter (\<lambda>c. sc_id c \<noteq> cid) (t_conversation d),
    t_message := filter (\<lambda>m. sm_conversation_id m \<noteq> cid) (t_message d)\<rparr>"
proof -
  have "sc_id ` set (filter (\<lambda>c. sc_id c = cid) (t_conversation d)) = {cid}" using assms by auto
  then show ?thesis unfolding drop_conversations_def by simp
qed

lemma erase_run:
  assumes store: "env_store_up env" and run: "delete_conversation env cid s = (Inr (), s')"
  shows "committed s' = (work s)\<lparr>t_conversation := filter (\<lambda>c. sc_id c \<noteq> cid) (t_conversation (work s)),
      t_message := filter (\<lambda>m. sm_conversation_id m \<noteq> cid) (t_message (work s))\<rparr>" (is "_ = ?d")
    "\<exists>b. get_storage (env_cfg env) = Inr b \<and> objects (outside s') =
      objects (outside s) |` (- exact_key (env_cfg env) b ` set (attachment_keys_for_conversation cid (work s)))"
    "events (outside s') = events (outside s) @ [(cid, ''status'')]"
proof -
  let ?ks = "attachment_keys_for_conversation cid (work s)"
  have some: "rowcount (\<lambda>c. sc_id c = cid) (t_conversation (work s)) \<noteq> 0"
    and tail: "bindM (remove_attachment_keys env ?ks) (\<lambda>_. publish_support_event env cid ''status'') (s\<lparr>work := ?d, committed := ?d\<rparr>) = (Inr (), s')"
    using run drop_one [of cid "work s"]
    by (auto simp: delete_conversation_def bindM_app [of "repo_delete_conversation cid"] repo_erasures split: if_splits)
  obtain b where b: "get_storage (env_cfg env) = Inr b"
    using tail by (cases "get_storage (env_cfg env)") (auto simp: remove_attachment_keys_def bindM_app [of "liftE r" for r] bindM_app [of "bindM m f" for m f])
  have pub: "publish_support_event env cid ''status'' (s\<lparr>work := ?d, committed := ?d, outside := (outside s)\<lparr>objects :=
      objects (outside s) |` (- exact_key (env_cfg env) b ` set ?ks)\<rparr>\<rparr>) = (Inr (), s')"
    using tail by (simp add: bindM_app [of "remove_attachment_keys env ks" for ks] remove_attachments_run [OF b store])
  then show "committed s' = ?d" "\<exists>b. get_storage (env_cfg env) = Inr b \<and> objects (outside s') =
      objects (outside s) |` (- exact_key (env_cfg env) b ` set ?ks)" "events (outside s') = events (outside s) @ [(cid, ''status'')]"
    using b by (auto simp: publish_support_event_def redis_call_def remote_def split: if_splits)
qed

end
