(* ===== verification/Support_Properties.thy ===== *)
theory Support_Properties
  imports Support_Calls Back_Office_Properties Service_Properties
begin

text \<open>
  The properties of the support desk, over sequences of webhook requests, operators' requests and
  tasks, each in its own transaction.
\<close>

definition desk_env :: environment where
  "desk_env = shop_env\<lparr>env_cfg := shop_settings\<lparr>telegram_bot_token := ''bot'', telegram_webhook_secret := ''hush'',
     telegram_staff_chat_id := ''-100''\<rparr>\<rparr>"

definition plain_phrases :: phrases where
  "plain_phrases = \<lparr>ph_photo = ''photo'', ph_clip = ''file '', ph_document = ''document'', ph_about_product = ''product '',
     ph_after_product = '' - '', ph_product = ''the product '', ph_product_end = '''', ph_about_order = ''order '', ph_order = ''the order '',
     ph_from_site = ''from the site'', ph_hello_about = ''Hello about '', ph_ask = ''. Ask'', ph_hello = ''Hello'', ph_client = ''client'',
     ph_ping = ''message from ''\<rparr>"

definition hook_request :: web_request where
  "hook_request = \<lparr>wr_headers = [(''x-telegram-bot-api-secret-token'', ''hush'')], wr_cookies = [], wr_client_host = Some ''149.154.167.1''\<rparr>"

definition update_of :: "int \<Rightarrow> (string \<times> json) list \<Rightarrow> json option" where
  "update_of i content = Some (JObj [(''update_id'', JInt (900 + i)), (''message'', JObj ([(''message_id'', JInt i),
     (''chat'', JObj [(''id'', JInt 77)]), (''from'', JObj [(''first_name'', JStr ''Ion''), (''language_code'', JStr ''ro'')])] @ content))])"

definition dan_request :: web_request where
  "dan_request = bearing (toy_jwt_encode (jwt_secret shop_settings) (token_payload ''10'' ''j2'' (type_value Access) 1000 0))"

text \<open>A desk nobody has written to, and one with a customer who has sent a picture and asked a question.\<close>

definition desk_open :: session where
  "desk_open = members\<lparr>work := empty_db\<lparr>t_user := [dan_user]\<rparr>, committed := empty_db\<lparr>t_user := [dan_user]\<rparr>, pk_seq := \<lambda>_. 50\<rparr>"

definition ion :: support_conversation where
  "ion = (new_conversation 40 77 (Some ''Ion'') None (Some ''ro'') 100)\<lparr>sc_unread_count := 2\<rparr>"

definition asked_db :: db where
  "asked_db = empty_db\<lparr>t_user := [dan_user], t_conversation := [ion],
     t_message := [(new_message 41 100 ((plain_message 40 ''in'' ''photo'')\<lparr>ma_tg_message_id := Some 1, ma_attachment_kind := Some ''photo''\<rparr>))
         \<lparr>sm_attachment_key := Some ''support/40/0.jpg''\<rparr>,
       new_message 42 100 ((plain_message 40 ''in'' ''When?'')\<lparr>ma_tg_message_id := Some 2\<rparr>)]\<rparr>"

definition desk_asked :: session where
  "desk_asked = members\<lparr>work := asked_db, committed := asked_db, pk_seq := \<lambda>_. 50,
     outside := (outside members)\<lparr>objects := [''var/media/support/40/0.jpg'' \<mapsto> stored LocalStorage ''bytes'' [] []]\<rparr>\<rparr>"

definition picture :: "json option" where
  "picture = update_of 2 [(''photo'', JArr [JObj [(''file_id'', JStr ''f1'')]])]"

definition writing :: "(environment \<times> support_call) list" where
  "writing = [(desk_env, Telegram_Update plain_phrases hook_request picture), (desk_env, Fetch_Task (\<lambda>_. None) 50 50 ''f1''),
     (desk_env, Set_Status dan_request 50 ''closed'')]"

lemma desks_ok: "settled desk_open" "desk_ok (desk_of desk_open)" "settled desk_asked" "desk_ok (desk_of desk_asked)"
proof -
  show "settled desk_open" "desk_ok (desk_of desk_open)"
    by (simp_all add: settled_def desk_open_def desk_of_def desk_ok_def empty_db_def received_def)
  show "settled desk_asked" "desk_ok (desk_of desk_asked)"
    by (simp_all add: settled_def desk_asked_def asked_db_def ion_def new_conversation_def desk_of_def desk_ok_def empty_db_def received_def
        received_by_def message_ok_def new_message_def plain_message_def)
qed

subsection \<open>The desk\<close>

lemma support_step: "settled s \<Longrightarrow> desk_ok (desk_of s) \<Longrightarrow>
    rtranclp desk_step (desk_of s) (desk_of (end_request (snd (support_run env c s))))"
  using support_run_desk [of env c] by (auto simp: desk_run_def desk_of_def end_request_def)

lemma desk_steps_ok: "rtranclp desk_step k k' \<Longrightarrow> desk_ok k \<Longrightarrow> desk_ok k'"
  by (induction rule: rtranclp_induct) (auto dest: desk_step_ok)

lemma support_steps:
  assumes "settled s" "desk_ok (desk_of s)"
  shows "settled (after_calls support_run calls s) \<and> rtranclp desk_step (desk_of s) (desk_of (after_calls support_run calls s))"
proof -
  have "settled t \<and> rtranclp desk_step (desk_of s) (desk_of t) \<and> desk_ok (desk_of t)" if "t = after_calls support_run calls s" for t
    unfolding that
  proof (rule after_calls_keep)
    fix env c t assume t: "settled t \<and> rtranclp desk_step (desk_of s) (desk_of t) \<and> desk_ok (desk_of t)"
    then have step: "rtranclp desk_step (desk_of t) (desk_of (end_request (snd (support_run env c t))))" by (blast intro: support_step)
    then show "settled (end_request (snd (support_run env c t))) \<and> rtranclp desk_step (desk_of s) (desk_of (end_request (snd (support_run env c t))))
        \<and> desk_ok (desk_of (end_request (snd (support_run env c t))))"
      using t by (auto simp: settled_def end_request_def intro: rtranclp_trans dest: desk_steps_ok)
  qed (use assms in simp)
  then show ?thesis by blast
qed

text \<open>
  C27. Every sequence of webhook requests, operators' requests and tasks, failing ones included, takes
  the committed conversations and messages through steps of the desk: a first contact, a further
  message, an answer, a change of status, link or unread counter, an attachment's key, an erasure.
\<close>

theorem support_calls_refine_desk:
  assumes "settled s" "desk_ok (desk_of s)"
  shows "rtranclp desk_step (desk_of s) (desk_of (after_calls support_run calls s))"
  using support_steps [OF assms] by blast

theorem support_calls_refine_desk_witness:
  "rtranclp desk_step (desk_of desk_open) (desk_of (after_calls support_run writing desk_open)) \<and>
    map (\<lambda>c. (sc_unread_count c, sc_status c)) (t_conversation (committed (after_calls support_run writing desk_open))) = [(1, ''closed'')] \<and>
    map (\<lambda>m. (sm_text m, sm_attachment_key m)) (t_message (committed (after_calls support_run writing desk_open))) =
      [(''photo'', Some ''support/50/0f1.jpg'')]"
proof (intro conjI)
  show "rtranclp desk_step (desk_of desk_open) (desk_of (after_calls support_run writing desk_open))"
    by (rule support_calls_refine_desk [OF desks_ok(1,2)])
  show "map (\<lambda>c. (sc_unread_count c, sc_status c)) (t_conversation (committed (after_calls support_run writing desk_open))) = [(1, ''closed'')]"
    by code_simp
  show "map (\<lambda>m. (sm_text m, sm_attachment_key m)) (t_message (committed (after_calls support_run writing desk_open))) =
      [(''photo'', Some ''support/50/0f1.jpg'')]" by code_simp
qed

lemma message_ok_facts:
  assumes "message_ok km cs m"
  shows "(\<exists>c \<in> set cs. sc_id c = sm_conversation_id m) \<and> (sm_direction m = ''out'' \<longrightarrow> sm_delivery m \<in> {Some ''sent'', Some ''failed''})"
proof -
  have "sm_conversation_id m \<in> sc_id ` set cs" using assms unfolding message_ok_def by blast
  moreover have "sm_delivery m \<in> {Some ''sent'', Some ''failed''}" if "sm_direction m = ''out''"
    using assms that by (simp add: message_ok_def)
  ultimately show ?thesis by auto
qed

text \<open>
  C28. Whatever is called, one conversation belongs to one chat, every message to a conversation, a
  message of Telegram is recorded at most once in its conversation, every answer carries the badge of
  its delivery, and no conversation has more unread messages than it has received.
\<close>

theorem inbox_stays_consistent:
  assumes "settled s" "desk_ok (desk_of s)"
  shows "let d = committed (after_calls support_run calls s); arrived = filter (\<lambda>m. sm_direction m = ''in'') (t_message d) in
    distinct (map sc_tg_chat_id (t_conversation d)) \<and>
    (\<forall>m \<in> set (t_message d). (\<exists>c \<in> set (t_conversation d). sc_id c = sm_conversation_id m) \<and>
      (sm_direction m = ''out'' \<longrightarrow> sm_delivery m \<in> {Some ''sent'', Some ''failed''})) \<and>
    distinct (map (\<lambda>m. (sm_conversation_id m, sm_tg_message_id m)) arrived) \<and>
    (\<forall>c \<in> set (t_conversation d). 0 \<le> sc_unread_count c \<and>
      sc_unread_count c \<le> int (length (filter (\<lambda>m. sm_conversation_id m = sc_id c) arrived)))"
proof -
  let ?d = "committed (after_calls support_run calls s)"
  have "desk_ok (desk_of (after_calls support_run calls s))" using support_steps [OF assms] desk_steps_ok assms(2) by blast
  then have ok: "distinct (map sc_tg_chat_id (t_conversation ?d))"
    "\<forall>m \<in> set (t_message ?d). message_ok (pk_seq (after_calls support_run calls s) Message_T) (t_conversation ?d) m"
    "distinct (map (\<lambda>m. (sm_conversation_id m, sm_tg_message_id m)) (received (t_message ?d)))"
    "\<forall>c \<in> set (t_conversation ?d). 0 \<le> sc_unread_count c \<and> sc_unread_count c \<le> received_by (sc_id c) (t_message ?d)"
    by (simp_all add: desk_ok_def desk_of_def Let_def)
  have "\<forall>m \<in> set (t_message ?d). (\<exists>c \<in> set (t_conversation ?d). sc_id c = sm_conversation_id m) \<and>
      (sm_direction m = ''out'' \<longrightarrow> sm_delivery m \<in> {Some ''sent'', Some ''failed''})"
  proof
    fix m assume "m \<in> set (t_message ?d)"
    then have "message_ok (pk_seq (after_calls support_run calls s) Message_T) (t_conversation ?d) m" using ok(2) by blast
    then show "(\<exists>c \<in> set (t_conversation ?d). sc_id c = sm_conversation_id m) \<and> (sm_direction m = ''out'' \<longrightarrow> sm_delivery m \<in> {Some ''sent'', Some ''failed''})"
      by (rule message_ok_facts)
  qed
  then show ?thesis using ok(1,3,4) unfolding received_def received_by_def Let_def by blast
qed

theorem inbox_stays_consistent_witness:
  "\<exists>n. map sc_unread_count (t_conversation (committed (after_calls support_run writing desk_open))) = [n] \<and> 0 \<le> n \<and> n \<le> 1 \<and>
    length (t_message (committed (after_calls support_run writing desk_open))) = 1"
proof -
  have heard: "length (filter (\<lambda>m. sm_conversation_id m = 50) (filter (\<lambda>m. sm_direction m = ''in'')
      (t_message (committed (after_calls support_run writing desk_open))))) = 1"
    by code_simp
  have ids: "map sc_id (t_conversation (committed (after_calls support_run writing desk_open))) = [50]" by code_simp
  have total: "length (t_message (committed (after_calls support_run writing desk_open))) = 1" by code_simp
  define d where "d = committed (after_calls support_run writing desk_open)"
  note one = heard [folded d_def] ids [folded d_def] total [folded d_def]
  obtain c where c: "t_conversation d = [c]" "sc_id c = 50"
    using one(2) unfolding map_eq_Cons_conv map_is_Nil_conv by blast
  have "\<forall>c \<in> set (t_conversation d). 0 \<le> sc_unread_count c \<and>
      sc_unread_count c \<le> int (length (filter (\<lambda>m. sm_conversation_id m = sc_id c) (filter (\<lambda>m. sm_direction m = ''in'') (t_message d))))"
    using inbox_stays_consistent [OF desks_ok(1,2), of writing, folded d_def] unfolding Let_def by blast
  then have "0 \<le> sc_unread_count c \<and> sc_unread_count c \<le> 1" using one(1) c by simp
  then show ?thesis unfolding d_def [symmetric] c(1) one(3) list.map by blast
qed

subsection \<open>Single calls\<close>

text \<open>
  C29. An update Telegram delivers again after it was acknowledged changes nothing, whatever
  configuration serves it: no message, no event, nothing sent, nobody pinged, no file fetched.
\<close>

theorem redelivered_update_changes_nothing:
  assumes "settled s" "desk_ok (desk_of s)" "parse_inbound update = Inr (Some im)"
    and "telegram_webhook env ph r (Some update) s = (Inr (), s1)" and "telegram_webhook env' ph' r' (Some update) (end_request s1) = (out, s2)"
  shows "committed s2 = committed s1 \<and> outbox s2 = outbox s1 \<and> events (outside s2) = events (outside s1) \<and>
    tg_sent (outside s2) = tg_sent (outside s1) \<and> objects (outside s2) = objects (outside s1)"
proof -
  have "already im (work (end_request s1))"
    using webhook_recorded [OF assms(1-4)] by (simp add: end_request_def)
  then have "untouched (end_request s1) s2" by (rule webhook_after [OF _ assms(3,5)])
  then show ?thesis by (simp add: untouched_def end_request_def)
qed

definition ion_picture :: inbound_message where
  "ion_picture = \<lparr>im_chat_id = JInt 77, im_message_id = JInt 2, im_text = JStr [], im_customer_name = Some ''Ion'',
     im_customer_username = JNull, im_lang = JStr ''ro'', im_attachment_file_id = JStr ''f1'', im_attachment_kind = Some ''photo'',
     im_attachment_name = JNull\<rparr>"

theorem redelivered_update_changes_nothing_witness:
  "parse_inbound (the picture) = Inr (Some ion_picture) \<and>
   (\<exists>s1. telegram_webhook desk_env plain_phrases hook_request (Some (the picture)) desk_open = (Inr (), s1) \<and> length (t_message (committed s1)) = 1 \<and>
    outbox s1 = [Notify_Staff 50 ''Ion'' ''photo'', Fetch_Attachment 50 50 ''f1''] \<and>
    (\<exists>out s2. telegram_webhook desk_env plain_phrases hook_request (Some (the picture)) (end_request s1) = (out, s2) \<and> outbox s2 = outbox s1))"
proof -
  have parsed: "parse_inbound (the picture) = Inr (Some ion_picture)" by code_simp
  obtain r s1 where run: "telegram_webhook desk_env plain_phrases hook_request (Some (the picture)) desk_open = (r, s1)"
    by (cases "telegram_webhook desk_env plain_phrases hook_request (Some (the picture)) desk_open")
  have r: "fst (telegram_webhook desk_env plain_phrases hook_request (Some (the picture)) desk_open) = Inr ()" by code_simp
  have rows: "length (t_message (committed (snd (telegram_webhook desk_env plain_phrases hook_request (Some (the picture)) desk_open)))) = 1" by code_simp
  have out: "outbox (snd (telegram_webhook desk_env plain_phrases hook_request (Some (the picture)) desk_open))
      = [Notify_Staff 50 ''Ion'' ''photo'', Fetch_Attachment 50 50 ''f1'']" by code_simp
  have run': "telegram_webhook desk_env plain_phrases hook_request (Some (the picture)) desk_open = (Inr (), s1)" using run r by simp
  obtain q s2 where again: "telegram_webhook desk_env plain_phrases hook_request (Some (the picture)) (end_request s1) = (q, s2)"
    by (cases "telegram_webhook desk_env plain_phrases hook_request (Some (the picture)) (end_request s1)")
  have "outbox s2 = outbox s1"
    using redelivered_update_changes_nothing [OF desks_ok(1,2) parsed run' again] by blast
  then show ?thesis using parsed run' rows out run again by auto
qed




text \<open>
  C31. Erasing a conversation on request removes its row, all its messages and, when the object store
  answers, every file of theirs; other conversations and other objects stay; the inboxes are told.
\<close>

theorem erased_conversation_leaves_nothing:
  assumes "settled s" "env_store_up env" "delete_conversation_endpoint env r cid s = (Inr (), s')"
  shows "let d = committed s; keys = attachment_keys_for_conversation cid d in
    committed s' = d\<lparr>t_conversation := filter (\<lambda>c. sc_id c \<noteq> cid) (t_conversation d),
      t_message := filter (\<lambda>m. sm_conversation_id m \<noteq> cid) (t_message d)\<rparr> \<and>
    (\<exists>b. get_storage (env_cfg env) = Inr b \<and> (\<forall>k \<in> set keys. objects (outside s') (exact_key (env_cfg env) b k) = None) \<and>
      (\<forall>j. j \<notin> exact_key (env_cfg env) b ` set keys \<longrightarrow> objects (outside s') j = objects (outside s) j)) \<and>
    events (outside s') = events (outside s) @ [(cid, ''status'')]"
proof -
  obtain u s1 where staff: "current_staff env r s = (Inr u, s1)" and run: "delete_conversation env cid s1 = (Inr (), s')"
    using assms(3) by (auto simp: delete_conversation_endpoint_def bindM_Inr)
  have "s1 = s" using staff by (auto simp: current_staff_def current_user_def bindM_app split: option.splits sum.splits if_splits)
  then show ?thesis using erase_run [OF assms(2) run] assms(1) by (auto simp: settled_def Let_def restrict_map_def)
qed

theorem erased_conversation_leaves_nothing_witness:
  "\<exists>s'. delete_conversation_endpoint desk_env dan_request 40 desk_asked = (Inr (), s') \<and> t_message (committed s') = [] \<and>
    objects (outside desk_asked) ''var/media/support/40/0.jpg'' \<noteq> None \<and> objects (outside s') ''var/media/support/40/0.jpg'' = None"
proof -
  obtain out s' where run: "delete_conversation_endpoint desk_env dan_request 40 desk_asked = (out, s')"
    by (cases "delete_conversation_endpoint desk_env dan_request 40 desk_asked")
  have "fst (delete_conversation_endpoint desk_env dan_request 40 desk_asked) = Inr ()" by code_simp
  then have run': "delete_conversation_endpoint desk_env dan_request 40 desk_asked = (Inr (), s')" using run by simp
  have up: "env_store_up desk_env" by (simp add: desk_env_def shop_env_def)
  have store: "get_storage (env_cfg desk_env) = Inr LocalStorage" by code_simp
  have keys: "attachment_keys_for_conversation 40 (committed desk_asked) = [''support/40/0.jpg'']" by code_simp
  have place: "exact_key (env_cfg desk_env) LocalStorage ''support/40/0.jpg'' = ''var/media/support/40/0.jpg''" by code_simp
  have "filter (\<lambda>m. sm_conversation_id m \<noteq> 40) (t_message (committed desk_asked)) = []" by code_simp
  then have "t_message (committed s') = []" "objects (outside s') ''var/media/support/40/0.jpg'' = None"
    using erased_conversation_leaves_nothing [OF desks_ok(3) up run'] unfolding Let_def keys store by (auto simp: place)
  moreover have "objects (outside desk_asked) ''var/media/support/40/0.jpg'' \<noteq> None" by (simp add: desk_asked_def)
  ultimately show ?thesis using run' by blast
qed

end
