(* ===== verification/Spec2Isabelle.thy ===== *)
theory Spec2Isabelle
  imports Order_Properties Cart_Properties Feedback_Properties Back_Office_Properties Support_Properties
begin

text \<open>
  A verification development of the shop backend under \<open>src/app\<close>: a FastAPI application over
  PostgreSQL (SQLAlchemy), Redis, Celery workers, an object store, the carrier Nova Post and the bank
  maib. What is modelled is the code that decides something: the repositories' queries, the services,
  the request schemas and the endpoints, and the background tasks. The servers and libraries they
  call are parameters.

  \<^bold>\<open>How the code is represented.\<close>
  \<^item> A row is a \<open>record\<close> of \<open>Models\<close>, a table the list of its rows in the order of insertion, the
    database \<open>db\<close> a record of tables. A session (\<open>session\<close>) holds the tables as the transaction sees
    them (\<open>work\<close>), as they were last committed (\<open>committed\<close>), the sequences of primary keys, and what
    survives a rollback: Redis, the objects stored, messages queued, mails sent (\<open>outside\<close>).
  \<^item> A method of a service is a function from its arguments and a session to a result and a session;
    the result is \<open>Inl\<close> of the exception raised (\<open>Errors\<close>) or \<open>Inr\<close> of the value returned. \<open>bindM\<close>
    sequences such functions and stops at the first exception; \<open>preserves\<close> is the invariant of one
    such call and \<open>preserves_bindM\<close> its rule, with the laws of \<open>Prelude\<close> the basis of most proofs.
  \<^item> Every request has its own transaction, closed by \<open>end_request\<close>: what was not committed is given
    up. Sequences of requests are lists of calls run one after the other (\<open>after_calls\<close> and its
    variants); only the withdrawal of stock is also modelled interleaved, statement by statement.
  \<^item> The configuration is the record \<open>settings\<close>, the external servers and libraries the record
    \<open>environment\<close> of functions (\<open>Models\<close>). What the proofs need of them is a named predicate on it
    (\<open>Toy_Servers\<close>), with functions that satisfy it; every property that assumes one has a witness on
    such functions.
  \<^item> Money is a decimal, an exact rational rounded where the code rounds it (\<open>quantize\<close>); integers
    are Python's, and those of a payload are assumed to fit their columns. Floats, used for
    weights and the average rating, are the rationals an IEEE double holds (\<open>PyFloat\<close>). Texts are
    HOL strings: a character is a code point below 256, so the round trips of codecs are claimed for
    those only (\<open>PyText\<close>, \<open>PyCodec\<close>). Decoded JSON is the datatype \<open>json\<close> with Python's access rules,
    exceptions included (\<open>PyJson\<close>).

  \<^bold>\<open>The parts, in the order they build on each other.\<close>
  \<^item> \<open>Prelude\<close>, \<open>PyText\<close>, \<open>PyCodec\<close>, \<open>PyJson\<close>, \<open>PyFloat\<close>: the result and session monads, and the parts of
    Python's library the code uses. \<open>Errors\<close> (\<open>core/errors.py\<close>), \<open>Lang\<close> (\<open>api/lang.py\<close>), \<open>Settings\<close>
    (\<open>core/config.py\<close>), \<open>Models\<close> (\<open>models/*.py\<close>). \<open>Sample\<close> is the shop the witnesses run on.
  \<^item> Two contracts stated as locales and interpreted on the code's own functions. \<open>Keyset\<close>: a page is
    the first rows after a cursor in the order of a key, and following the cursors reads everything
    once; interpreted for the product lists by price, newness and id (\<open>Listing_Correct\<close>) and the reviews
    and the moderation queue (\<open>Reviews_Correct\<close>). \<open>Keyed_Rows\<close>: insert-or-update on a business key keeps
    one row per key; interpreted for subscriptions and reviews.
  \<^item> Buying. \<open>Catalog_Reads\<close>, \<open>Cart\<close> (cart service and repository, the merge of a guest's cart at
    login), \<open>Promo\<close>, \<open>Order_Repo\<close>, \<open>Novapost\<close> and \<open>Novapost_Service\<close> (client with its token and retries,
    stub, cached search, quotes, waybills), \<open>Order_Service\<close> and \<open>Order_Views\<close> (status machines, audit
    trail, what a caller may see), \<open>Payment\<close> (client, signed callbacks, refunds), \<open>Checkout\<close> (quote,
    checkout, one-click purchase), \<open>Stock_Race\<close> (concurrent withdrawal as a step relation),
    \<open>Admin_Orders\<close> (listing, transitions, waybills, the tracking task).
  \<^item> The storefront. \<open>Catalog_Cards\<close> (the publication rule and the read model \<open>product_card\<close>),
    \<open>Catalog_Listing\<close> (filters, facets, sorts, cursors, related products), \<open>Catalog_Pages\<close> (category
    tree, pages, sitemap). \<open>Restock\<close> and \<open>Reviews\<close> with their tasks and endpoints.
  \<^item> People. \<open>Security\<close> (tokens and password hashes), \<open>Rate_Limit\<close> (fixed windows in Redis),
    \<open>Auth_Service\<close> (registration, sessions, profile, addresses, erasure, the request dependencies).
  \<^item> The back office of the catalogue. \<open>Category_Tree\<close> and \<open>Admin_Categories\<close>, \<open>Admin_Products\<close>,
    \<open>Admin_Variants\<close>, \<open>Media_Storage\<close> (object names, stores, responsive copies) and \<open>Admin_Endpoints\<close>:
    \<open>services/admin_catalog_service.py\<close>, its router and schemas, \<open>core/storage.py\<close>, \<open>core/images.py\<close>.
  \<^item> The support desk. \<open>Support_Chat\<close> (what is read of a Telegram update, the inbox, the webhook) and
    \<open>Support_Desk\<close> (replies, statuses, erasure, canned answers, metrics, tasks, staff endpoints):
    \<open>services/support_service.py\<close>, \<open>repositories/support_repo.py\<close>, \<open>core/telegram.py\<close>,
    \<open>tasks/support.py\<close> and the two routers.

  \<^bold>\<open>What is proved.\<close> The theories ending in \<open>_Correct\<close>, \<open>_Safe\<close>, \<open>_Lines\<close>, \<open>_Quote\<close>, \<open>_Invariants\<close>,
  \<open>_Tokens\<close>, \<open>_Account\<close>, \<open>_Privacy\<close>, \<open>_Calls\<close> and \<open>Cards_Follow\<close> hold the lemmas; the theories
  ending in \<open>_Properties\<close> hold the statements meant to be quoted, each with a run on concrete data.
  \<^item> Checkout: stock is conserved and never negative, sequentially and interleaved, where the
    interleaved withdrawals also always come to an end; a failure publishes nothing; the totals add
    up; what was quoted is what is charged; a cart is bought once; coupons keep to their limit; the
    order book (numbers, rows an order owns, audit trail) stays consistent.
  \<^item> Orders: only legal transitions, each recorded; a fresh order can be cancelled and gives the stock
    back; no caller reads another's order; a signed callback settles once and a forged one does
    nothing; a waybill is bought at most once.
  \<^item> Cart: it is a bag of stock rows, adding adds and the merge at login is the sum of two bags.
  \<^item> Accounts: a used refresh token is dead; identifiers stay unique and one address is the default;
    what was registered opens; what was erased does not; address books are private; a window admits
    no more than its budget.
  \<^item> Catalogue: the cards are the projection of the tables, after every call of the back office,
    successful or not; lists and counts agree; pages are complete; the category tree stays a tree; the
    generated variants are exactly the missing combinations; an upload can be served.
  \<^item> Feedback: one subscription and one review per customer and product, notifications go out once,
    every approved review is on exactly one page of the newest-first list.
  \<^item> Support: whatever is called, the inbox moves by the steps of a small relation and stays consistent;
    an update delivered twice is recorded once; an answer is kept whether or not it could be sent; an
    erased conversation leaves no row and no file.

  \<^bold>\<open>Bounds and fuel.\<close> Loops over rows are structural recursion over the table. Where the code
  follows parents (the path of a category, the tree) the recursion has as much fuel as there are
  categories, which is enough when there is no cycle, and there is none by the tree invariant. The
  client's retries run over the configured number of attempts. The concurrent withdrawal is a
  relation without fuel, proved terminating by a measure.

  \<^bold>\<open>What is assumed throughout.\<close> A row is in its table as soon as it is flushed; queries without an
  \<open>order_by\<close> return rows in the order of insertion; texts are compared by code points, not by the
  collation of the database. Redis uses the clock of the request and evicts nothing before it expires.
  Calls of different requests do not interleave (stock aside), so the database's constraints are
  represented where the code relies on them to fail. The numbers of a price cursor are finite. A
  variant is not bound to a picture of another product, and the kind of a picture is not kept.

  \<^bold>\<open>Not modelled.\<close> The calls of the search engine (\<open>services/search_service.py\<close>,
  \<open>repositories/search_repo.py\<close>: the ranking is a parameter of the product lists, the indexing a
  message in the queue); the reports (\<open>services/admin_dashboard_service.py\<close>,
  \<open>services/admin_customer_service.py\<close>, \<open>repositories/analytics_repo.py\<close>), which are aggregate SQL over
  the modelled tables; banners, content pages and site settings, which are rows edited as they are;
  the stream of inbox events to the browser; the connection pools, mail transport, logging,
  application start and migrations, which are calls of libraries.
\<close>

end
